(* ===== verification/Disk.thy ===== *)
theory Disk
  imports Prelude
begin

text \<open>
  The part of \<^verbatim>\<open>std::fs\<close> that the stores use, as functions on a disk.  A disk is a finite map from
  paths to nodes together with a schedule of faults: every system call takes the next entry of
  the schedule, and an entry other than \<open>NoFault\<close> makes the call fail (a write may first have
  stored a prefix of its bytes).  An empty schedule means that no further call fails.  Any
  statement for all schedules is therefore a statement about I/O errors at any place, and about
  a crash at any place: after a crash nothing changes any more, which is a schedule whose
  remaining entries all fail.

  A path is the list of its components.  There are no symbolic links and no hard links, and a
  rename stays inside one directory.
\<close>

section \<open>State\<close>

type_synonym path = "string list"

datatype node = File string | Dir | Special

datatype io_kind = NotFound | AlreadyExists | OtherKind

datatype io_error = IoError (io_kind: io_kind) (io_text: string)

datatype fault = NoFault | Fails string | Partial nat string

record disk =
  files :: "(path \<times> node) list"
  faults :: "fault list"

definition lookup :: "disk \<Rightarrow> path \<Rightarrow> node option" where
  "lookup d p = map_of (files d) p"

definition put :: "path \<Rightarrow> node \<Rightarrow> disk \<Rightarrow> disk" where
  "put p n d = d\<lparr>files := AList.update p n (files d)\<rparr>"

definition del :: "path \<Rightarrow> disk \<Rightarrow> disk" where
  "del p d = d\<lparr>files := AList.delete p (files d)\<rparr>"

definition tick :: "disk \<Rightarrow> disk" where
  "tick d = d\<lparr>faults := tl (faults d)\<rparr>"

definition next_fault :: "disk \<Rightarrow> fault" where
  "next_fault d = (case faults d of [] \<Rightarrow> NoFault | f # _ \<Rightarrow> f)"

lemma lookup_put [simp]: "lookup (put p n d) q = (if q = p then Some n else lookup d q)"
  by (simp add: lookup_def put_def update_conv')

lemma lookup_del [simp]: "lookup (del p d) q = (if q = p then None else lookup d q)"
  by (simp add: lookup_def del_def delete_conv')

lemma lookup_tick [simp]: "lookup (tick d) p = lookup d p"
  by (simp add: lookup_def tick_def)

lemma lookup_faults [simp]: "lookup (d\<lparr>faults := fs\<rparr>) p = lookup d p"
  by (simp add: lookup_def)

text \<open>A system call: it fails when the schedule says so.\<close>

definition syscall ::
  "disk \<Rightarrow> (disk \<Rightarrow> ('a, io_error) result \<times> disk) \<Rightarrow> ('a, io_error) result \<times> disk" where
  "syscall d act =
     (case next_fault d of
        NoFault \<Rightarrow> act (tick d)
      | Fails m \<Rightarrow> (Err (IoError OtherKind m), tick d)
      | Partial n m \<Rightarrow> (Err (IoError OtherKind m), tick d))"

text \<open>Sequencing of fallible steps that thread a state (the source's \<^verbatim>\<open>?\<close>).\<close>

fun io_bind ::
  "('a, 'e) result \<times> 's \<Rightarrow> ('a \<Rightarrow> 's \<Rightarrow> ('b, 'e) result \<times> 's) \<Rightarrow> ('b, 'e) result \<times> 's" where
  "io_bind (Ok x, s) f = f x s"
| "io_bind (Err e, s) f = (Err e, s)"
| "io_bind (Panic, s) f = (Panic, s)"

definition io_map_err :: "('e \<Rightarrow> 'f) \<Rightarrow> ('a, 'e) result \<times> 's \<Rightarrow> ('a, 'f) result \<times> 's" where
  "io_map_err f r = (map_err f (fst r), snd r)"

lemma io_map_err_simps [simp]:
  "io_map_err f (Ok x, s) = (Ok x, s)"
  "io_map_err f (Err e, s) = (Err (f e), s)"
  "io_map_err f (Panic, s) = (Panic, s)"
  by (simp_all add: io_map_err_def)

lemma snd_io_map_err [simp]: "snd (io_map_err f r) = snd r"
  by (simp add: io_map_err_def)

lemma fst_io_map_err [simp]: "fst (io_map_err f r) = map_err f (fst r)"
  by (simp add: io_map_err_def)

lemma io_bind_Ok_iff:
  "io_bind r f = (Ok y, s') \<longleftrightarrow> (\<exists>x s. r = (Ok x, s) \<and> f x s = (Ok y, s'))"
  by (cases "(r, f)" rule: io_bind.cases) auto

section \<open>System calls\<close>

definition os_not_found :: io_error where
  "os_not_found = IoError NotFound ''No such file or directory (os error 2)''"

definition os_exists :: io_error where
  "os_exists = IoError AlreadyExists ''File exists (os error 17)''"

definition os_is_dir :: io_error where
  "os_is_dir = IoError OtherKind ''Is a directory (os error 21)''"

definition os_not_dir :: io_error where
  "os_not_dir = IoError OtherKind ''Not a directory (os error 20)''"

definition os_invalid :: io_error where
  "os_invalid = IoError OtherKind ''Invalid argument (os error 22)''"

text \<open>\<^verbatim>\<open>fs::symlink_metadata\<close> and \<^verbatim>\<open>fs::metadata\<close>, which agree without symbolic links.\<close>

definition fs_metadata :: "path \<Rightarrow> disk \<Rightarrow> (node, io_error) result \<times> disk" where
  "fs_metadata p d = syscall d (\<lambda>d. (ok_or (lookup d p) os_not_found, d))"

text \<open>\<^verbatim>\<open>Path::exists\<close>: an error of the metadata call counts as absence.\<close>

definition path_exists :: "path \<Rightarrow> disk \<Rightarrow> bool \<times> disk" where
  "path_exists p d = (let (r, d') = fs_metadata p d in (is_ok r, d'))"

definition fs_read :: "path \<Rightarrow> disk \<Rightarrow> (string, io_error) result \<times> disk" where
  "fs_read p d = syscall d (\<lambda>d. (case lookup d p of
       None \<Rightarrow> Err os_not_found
     | Some (File c) \<Rightarrow> Ok c
     | Some Dir \<Rightarrow> Err os_is_dir
     | Some Special \<Rightarrow> Err os_invalid, d))"

text \<open>\<^verbatim>\<open>OpenOptions\<close> with \<^verbatim>\<open>create\<close>, \<^verbatim>\<open>truncate\<close> and \<^verbatim>\<open>write\<close>.\<close>

definition open_truncate :: "path \<Rightarrow> disk \<Rightarrow> (unit, io_error) result \<times> disk" where
  "open_truncate p d = syscall d (\<lambda>d. (case lookup d p of
       None \<Rightarrow> if lookup d (butlast p) = Some Dir then (Ok (), put p (File []) d)
               else (Err os_not_found, d)
     | Some (File c) \<Rightarrow> (Ok (), put p (File []) d)
     | Some Dir \<Rightarrow> (Err os_is_dir, d)
     | Some Special \<Rightarrow> (Err os_invalid, d)))"

text \<open>\<^verbatim>\<open>OpenOptions\<close> with \<^verbatim>\<open>write\<close> and \<^verbatim>\<open>create_new\<close>.\<close>

definition open_create_new :: "path \<Rightarrow> disk \<Rightarrow> (unit, io_error) result \<times> disk" where
  "open_create_new p d = syscall d (\<lambda>d.
     if lookup d p \<noteq> None then (Err os_exists, d)
     else if lookup d (butlast p) = Some Dir then (Ok (), put p (File []) d)
     else (Err os_not_found, d))"

text \<open>\<^verbatim>\<open>write_all\<close> on a file that was just opened empty; a failing write may store a prefix.\<close>

definition write_all :: "path \<Rightarrow> string \<Rightarrow> disk \<Rightarrow> (unit, io_error) result \<times> disk" where
  "write_all p bs d =
     (case next_fault d of
        NoFault \<Rightarrow> (Ok (), put p (File bs) (tick d))
      | Fails m \<Rightarrow> (Err (IoError OtherKind m), tick d)
      | Partial n m \<Rightarrow> (Err (IoError OtherKind m), put p (File (take n bs)) (tick d)))"

definition sync_all :: "disk \<Rightarrow> (unit, io_error) result \<times> disk" where
  "sync_all d = syscall d (\<lambda>d. (Ok (), d))"

definition fs_rename :: "path \<Rightarrow> path \<Rightarrow> disk \<Rightarrow> (unit, io_error) result \<times> disk" where
  "fs_rename a b d = syscall d (\<lambda>d. (case lookup d a of
       None \<Rightarrow> (Err os_not_found, d)
     | Some n \<Rightarrow> if lookup d b = Some Dir then (Err os_is_dir, d)
                 else (Ok (), put b n (del a d))))"

definition fs_remove_file :: "path \<Rightarrow> disk \<Rightarrow> (unit, io_error) result \<times> disk" where
  "fs_remove_file p d = syscall d (\<lambda>d. (case lookup d p of
       None \<Rightarrow> (Err os_not_found, d)
     | Some Dir \<Rightarrow> (Err os_is_dir, d)
     | Some n \<Rightarrow> (Ok (), del p d)))"

definition dir_chain :: "path \<Rightarrow> path list" where
  "dir_chain p = map (\<lambda>i. take i p) [0..<Suc (length p)]"

definition make_dirs :: "path list \<Rightarrow> disk \<Rightarrow> disk" where
  "make_dirs ps d = fold (\<lambda>p d. if lookup d p = None then put p Dir d else d) ps d"

definition fs_create_dir_all :: "path \<Rightarrow> disk \<Rightarrow> (unit, io_error) result \<times> disk" where
  "fs_create_dir_all p d = syscall d (\<lambda>d.
     if list_all (\<lambda>q. lookup d q = None \<or> lookup d q = Some Dir) (dir_chain p)
     then (Ok (), make_dirs (dir_chain p) d) else (Err os_not_dir, d))"

text \<open>\<^verbatim>\<open>fs::read_dir\<close>: the names below a directory, in the order the disk keeps them.\<close>

definition entry_names :: "path \<Rightarrow> disk \<Rightarrow> string list" where
  "entry_names p d =
     map last (filter (\<lambda>q. q \<noteq> [] \<and> butlast q = p) (remdups (map fst (files d))))"

definition fs_read_dir :: "path \<Rightarrow> disk \<Rightarrow> (string list, io_error) result \<times> disk" where
  "fs_read_dir p d = syscall d (\<lambda>d. (case lookup d p of
       None \<Rightarrow> Err os_not_found
     | Some Dir \<Rightarrow> Ok (entry_names p d)
     | Some n \<Rightarrow> Err os_not_dir, d))"

lemmas syscall_unfold =
  fs_metadata_def path_exists_def fs_read_def open_truncate_def open_create_new_def
  write_all_def sync_all_def fs_rename_def fs_remove_file_def fs_create_dir_all_def
  fs_read_dir_def syscall_def

section \<open>What the calls change\<close>

text \<open>Directories created on the way never replace a node and never add a file.\<close>

lemma lookup_make_dirs:
  "lookup (make_dirs ps d) q =
     (if lookup d q = None \<and> q \<in> set ps then Some Dir else lookup d q)"
  by (induction ps arbitrary: d) (auto simp: make_dirs_def)

lemma dir_chain_length: "q \<in> set (dir_chain p) \<Longrightarrow> length q \<le> length p"
  by (auto simp: dir_chain_def)

lemma dir_chain_self [simp]: "p \<in> set (dir_chain p)"
  by (force simp: dir_chain_def)

lemma in_dir_chain_butlast: "p \<noteq> [] \<Longrightarrow> length q = length p \<Longrightarrow> q \<notin> set (dir_chain (butlast p))"
  using dir_chain_length [of q "butlast p"] by (cases p) auto

lemma create_dir_all_lookup:
  assumes "fs_create_dir_all p d = (r, d')"
  shows "lookup d' q = lookup d q \<or> (lookup d q = None \<and> lookup d' q = Some Dir \<and> q \<in> set (dir_chain p))"
  using assms
  by (auto simp: fs_create_dir_all_def syscall_def lookup_make_dirs split: fault.splits if_splits)

text \<open>The frame of the calls on one path: every other path keeps its node.\<close>

lemma io_frame [frame_rules]:
  "fs_metadata p d = (r1, d') \<Longrightarrow> lookup d' q = lookup d q"
  "path_exists p d = (b, d') \<Longrightarrow> lookup d' q = lookup d q"
  "fs_read p d = (r2, d') \<Longrightarrow> lookup d' q = lookup d q"
  "fs_read_dir p d = (r3, d') \<Longrightarrow> lookup d' q = lookup d q"
  "sync_all d = (r4, d') \<Longrightarrow> lookup d' q = lookup d q"
  by (auto simp: syscall_unfold Let_def split: fault.splits prod.splits)

lemma io_frame_at [frame_rules]:
  "open_truncate p d = (r1, d') \<Longrightarrow> q \<noteq> p \<Longrightarrow> lookup d' q = lookup d q"
  "open_create_new p d = (r1, d') \<Longrightarrow> q \<noteq> p \<Longrightarrow> lookup d' q = lookup d q"
  "write_all p bs d = (r1, d') \<Longrightarrow> q \<noteq> p \<Longrightarrow> lookup d' q = lookup d q"
  "fs_remove_file p d = (r1, d') \<Longrightarrow> q \<noteq> p \<Longrightarrow> lookup d' q = lookup d q"
  by (auto simp: syscall_unfold split: fault.splits option.splits node.splits if_splits)

lemma rename_frame [frame_rules]:
  "fs_rename a b d = (r, d') \<Longrightarrow> q \<noteq> a \<Longrightarrow> q \<noteq> b \<Longrightarrow> lookup d' q = lookup d q"
  by (auto simp: syscall_unfold split: fault.splits option.splits if_splits)

lemma fs_rename_Ok:
  assumes "fs_rename a b d = (Ok (), d')" and "a \<noteq> b"
  shows "lookup d a \<noteq> None" and "lookup d' b = lookup d a" and "lookup d' a = None"
  using assms by (auto simp: syscall_unfold split: fault.splits option.splits if_splits)

lemma fs_rename_not_Ok:
  assumes "fs_rename a b d = (r, d')" and "r \<noteq> Ok ()"
  shows "lookup d' q = lookup d q"
  using assms by (auto simp: syscall_unfold split: fault.splits option.splits if_splits)

lemma io_never_panics [simp]:
  "fst (fs_metadata p d) \<noteq> Panic" "fst (fs_read p d) \<noteq> Panic"
  "fst (open_truncate p d) \<noteq> Panic" "fst (open_create_new p d) \<noteq> Panic"
  "fst (write_all p bs d) \<noteq> Panic" "fst (sync_all d) \<noteq> Panic"
  "fst (fs_rename a b d) \<noteq> Panic" "fst (fs_remove_file p d) \<noteq> Panic"
  "fst (fs_create_dir_all p d) \<noteq> Panic" "fst (fs_read_dir p d) \<noteq> Panic"
  by (auto simp: syscall_unfold ok_or_def split: fault.splits option.splits node.splits)

section \<open>The three files of a replaceable document\<close>

definition sibling_path :: "path \<Rightarrow> string \<Rightarrow> path" where
  "sibling_path p s = butlast p @ [last p @ s]"

abbreviation temp_path :: "path \<Rightarrow> path" where
  "temp_path p \<equiv> sibling_path p ''.tmp''"

abbreviation backup_path :: "path \<Rightarrow> path" where
  "backup_path p \<equiv> sibling_path p ''.bak''"

lemma sibling_path_neq:
  "p \<noteq> [] \<Longrightarrow> s \<noteq> [] \<Longrightarrow> sibling_path p s \<noteq> p"
  "s \<noteq> t \<Longrightarrow> sibling_path p s \<noteq> sibling_path p t"
  by (auto simp: sibling_path_def append_eq_conv_conj dest: arg_cong [where f = last])

lemma length_sibling_path: "p \<noteq> [] \<Longrightarrow> length (sibling_path p s) = length p"
  by (simp add: sibling_path_def)

lemma slot_distinct:
  assumes "p \<noteq> []"
  shows "temp_path p \<noteq> p" "p \<noteq> temp_path p" "backup_path p \<noteq> p" "p \<noteq> backup_path p"
    "temp_path p \<noteq> backup_path p" "backup_path p \<noteq> temp_path p"
  using assms sibling_path_neq(1) [OF assms, of "''.tmp''"] sibling_path_neq(1) [OF assms, of "''.bak''"]
    sibling_path_neq(2) [of "''.tmp''" "''.bak''" p] by auto

lemma butlast_sibling_path: "butlast (sibling_path p s) = butlast p"
  by (simp add: sibling_path_def)

text \<open>
  The node a reader finds: the main file, else the temporary one, else the backup.
\<close>

definition slot_read :: "disk \<Rightarrow> path \<Rightarrow> node option" where
  "slot_read d p =
     (case lookup d p of
        Some n \<Rightarrow> Some n
      | None \<Rightarrow> (case lookup d (temp_path p) of
          Some n \<Rightarrow> Some n
        | None \<Rightarrow> lookup d (backup_path p)))"

definition slot_paths :: "path \<Rightarrow> path set" where
  "slot_paths p = {p, temp_path p, backup_path p}"

lemma slot_read_None_iff: "slot_read d p = None \<longleftrightarrow> (\<forall>q\<in>slot_paths p. lookup d q = None)"
  by (auto simp: slot_read_def slot_paths_def split: option.splits)

lemma slot_read_main: "lookup d p = Some n \<Longrightarrow> slot_read d p = Some n"
  by (simp add: slot_read_def)

lemma slot_read_cong:
  "(\<And>q. q \<in> slot_paths p \<Longrightarrow> lookup d' q = lookup d q) \<Longrightarrow> slot_read d' p = slot_read d p"
  by (simp add: slot_read_def slot_paths_def split: option.splits)

end
