(* ===== verification/Json.thy ===== *)
theory Json
  imports Disk
begin

text \<open>
  \<^verbatim>\<open>serde_json::Value\<close> and the accessors the program calls on it.  A number is an integer of
  the \<^verbatim>\<open>u64\<close>/\<^verbatim>\<open>i64\<close> representations or a float, of which only the printed text matters here.
  An object lists its entries in the order of its keys.
\<close>

datatype json =
    JNull
  | JBool bool
  | JInt int
  | JFloat string
  | JString string
  | JArray "json list"
  | JObject "(string \<times> json) list"

definition json_get :: "string \<Rightarrow> json \<Rightarrow> json option" where
  "json_get k j = (case j of JObject kvs \<Rightarrow> map_of kvs k | _ \<Rightarrow> None)"

definition json_as_str :: "json \<Rightarrow> string option" where
  "json_as_str j = (case j of JString s \<Rightarrow> Some s | _ \<Rightarrow> None)"

definition json_as_i64 :: "json \<Rightarrow> int option" where
  "json_as_i64 j = (case j of JInt n \<Rightarrow> if - (2 ^ 63) \<le> n \<and> n < 2 ^ 63 then Some n else None | _ \<Rightarrow> None)"

definition json_as_u64 :: "json \<Rightarrow> int option" where
  "json_as_u64 j = (case j of JInt n \<Rightarrow> if 0 \<le> n \<and> n < 2 ^ 64 then Some n else None | _ \<Rightarrow> None)"

definition json_as_array :: "json \<Rightarrow> json list option" where
  "json_as_array j = (case j of JArray xs \<Rightarrow> Some xs | _ \<Rightarrow> None)"

definition json_as_object :: "json \<Rightarrow> (string \<times> json) list option" where
  "json_as_object j = (case j of JObject kvs \<Rightarrow> Some kvs | _ \<Rightarrow> None)"

definition json_is_object :: "json \<Rightarrow> bool" where
  "json_is_object j = (case j of JObject kvs \<Rightarrow> True | _ \<Rightarrow> False)"

lemmas json_defs = json_get_def json_as_str_def json_as_i64_def json_as_u64_def
  json_as_array_def json_as_object_def json_is_object_def

lemma json_as_str_simps [simp]:
  "json_as_str (JString s) = Some s" "json_as_str (JInt n) = None" "json_as_str JNull = None"
  "json_as_str (JObject kvs) = None" "json_as_str (JArray xs) = None" "json_as_str (JBool b) = None"
  by (simp_all add: json_as_str_def)

lemma json_get_non_object [simp]:
  "json_get k (JString s) = None" "json_get k (JInt n) = None" "json_get k JNull = None"
  "json_get k (JArray xs) = None" "json_get k (JBool b) = None" "json_get k (JFloat t) = None"
  by (simp_all add: json_get_def)

lemma json_get_object [simp]: "json_get k (JObject kvs) = map_of kvs k"
  by (simp add: json_get_def)

end
