(* ===== verification/App_Error.thy ===== *)
theory App_Error
  imports Json
begin

text \<open>
  The application's error type (\<^verbatim>\<open>error.rs\<close>, with \<^verbatim>\<open>AuthFailureKind\<close> of
  \<^verbatim>\<open>api/response.rs\<close> and \<^verbatim>\<open>TradingFailure\<close> of \<^verbatim>\<open>models/trading.rs\<close>): its constructors, the
  text each error shows to the user, and the JSON value that crosses the IPC boundary.
\<close>

datatype auth_failure_kind =
    SessionExpired | MissingCredential | CredentialStorage | SigningConfiguration
  | Timestamp | Signature | AccessDenied | RateLimited | OtherAuthFailure

datatype trading_failure_kind = FailureRejected

record trading_failure =
  failure_kind :: trading_failure_kind

definition trading_failure_rejected :: trading_failure where
  "trading_failure_rejected = \<lparr>failure_kind = FailureRejected\<rparr>"

definition msg_rejected_by_venue :: string where
  "msg_rejected_by_venue = (utf8 [35746, 21333, 35831, 27714, 34987, 20132, 26131, 31471, 25298, 32477])"

definition trading_failure_message :: "trading_failure \<Rightarrow> string" where
  "trading_failure_message f = (case failure_kind f of FailureRejected \<Rightarrow> msg_rejected_by_venue)"

datatype notification_cause = CauseAuthFailure auth_failure_kind

datatype app_error =
    EAuth string
  | EAuthFailure auth_failure_kind
  | EConnection string
  | ETrading string
  | ETradingFailure trading_failure
  | ERisk string
  | EConfig string
  | EStorage string
  | ENotConnected
  | EInternal string
  | ENotified string string string "notification_cause option"
  | EObserved string
  | EOrderSubmissionUnknown string
  | EOrderSubmissionBlocked string
  | EOrderSubmissionRejected string
  | EPlugin string string "string option"

text \<open>\<^verbatim>\<open>Display\<close>, as the \<^verbatim>\<open>#[error(...)]\<close> attributes derive it, which \<^verbatim>\<open>user_message\<close> returns.\<close>

fun user_message :: "app_error \<Rightarrow> string" where
  "user_message (EAuth s) = (utf8 [35748, 35777, 22833, 36133, 58, 32]) @ s"
| "user_message (EAuthFailure k) = (utf8 [35748, 35777, 22833, 36133])"
| "user_message (EConnection s) = (utf8 [36830, 25509, 38169, 35823, 58, 32]) @ s"
| "user_message (ETrading s) = (utf8 [20132, 26131, 38169, 35823, 58, 32]) @ s"
| "user_message (ETradingFailure f) = (utf8 [20132, 26131, 38169, 35823, 58, 32]) @ trading_failure_message f"
| "user_message (ERisk s) = (utf8 [39118, 25511, 25298, 32477, 58, 32]) @ s"
| "user_message (EConfig s) = (utf8 [37197, 32622, 38169, 35823, 58, 32]) @ s"
| "user_message (EStorage s) = (utf8 [23384, 20648, 38169, 35823, 58, 32]) @ s"
| "user_message ENotConnected = (utf8 [26410, 36830, 25509])"
| "user_message (EInternal s) = (utf8 [20869, 37096, 38169, 35823, 58, 32]) @ s"
| "user_message (ENotified code m nid cause) = m"
| "user_message (EObserved s) = s"
| "user_message (EOrderSubmissionUnknown i) = (utf8 [35746, 21333, 25552, 20132, 32467, 26524, 24453, 30830, 35748, 65292, 35831, 26597, 35810, 21407,
      35746, 21333, 65292, 21247, 37325, 22797, 25552, 20132])"
| "user_message (EOrderSubmissionBlocked i) = (utf8 [23384, 22312, 24453, 30830, 35748, 35746, 21333, 65292, 35831, 20808, 26597, 35810, 21407, 35746,
      21333, 32467, 26524])"
| "user_message (EOrderSubmissionRejected s) = s"
| "user_message (EPlugin code m diag) = m"

text \<open>\<^verbatim>\<open>impl Serialize for AppError\<close>.\<close>

fun serialize_app_error :: "app_error \<Rightarrow> json" where
  "serialize_app_error (EOrderSubmissionUnknown i) =
     JObject [(''code'', JString ''ORDER_SUBMISSION_UNKNOWN''),
              (''message'', JString (user_message (EOrderSubmissionUnknown i))),
              (''orderLinkId'', JString i)]"
| "serialize_app_error (EOrderSubmissionBlocked i) =
     JObject [(''code'', JString ''ORDER_SUBMISSION_BLOCKED''),
              (''message'', JString (user_message (EOrderSubmissionBlocked i))),
              (''orderLinkId'', JString i)]"
| "serialize_app_error (EOrderSubmissionRejected m) =
     JObject [(''code'', JString ''ORDER_SUBMISSION_REJECTED''), (''message'', JString m)]"
| "serialize_app_error (EPlugin code m diag) =
     JObject [(''code'', JString code), (''message'', JString m)]"
| "serialize_app_error (ENotified code m nid cause) =
     JObject [(''code'', JString code), (''message'', JString m), (''notificationId'', JString nid)]"
| "serialize_app_error e = JString (user_message e)"

text \<open>\<^verbatim>\<open>impl From<std::io::Error> for AppError\<close>.\<close>

definition app_error_of_io :: "io_error \<Rightarrow> app_error" where
  "app_error_of_io e = EInternal (io_text e)"

text \<open>What a client of the IPC boundary can tell about a submission from the error alone.\<close>

definition submission_code :: "json \<Rightarrow> string option" where
  "submission_code j = Option.bind (json_get ''code'' j) json_as_str"

lemma serialize_submission_code:
  "submission_code (serialize_app_error (EOrderSubmissionUnknown i)) = Some ''ORDER_SUBMISSION_UNKNOWN''"
  "submission_code (serialize_app_error (EOrderSubmissionBlocked i)) = Some ''ORDER_SUBMISSION_BLOCKED''"
  "submission_code (serialize_app_error (EOrderSubmissionRejected m)) = Some ''ORDER_SUBMISSION_REJECTED''"
  by (simp_all add: submission_code_def json_get_def)

end
