(* ===== verification/Trading_Model.thy ===== *)
theory Trading_Model
  imports App_Error Complex_Main
begin

text \<open>
  \<^verbatim>\<open>models/trading.rs\<close>: orders, order requests and attached protection, with the two checks of a
  protection (its shape, and its side of the reference price, \<^verbatim>\<open>plugin/strategy/management.rs\<close>)
  and the decimal normalisation they use (\<^verbatim>\<open>plugin/workflow/contract.rs\<close>).

  \<^verbatim>\<open>rust_decimal\<close> is not part of the program.  A \<^verbatim>\<open>Decimal\<close> is represented by its value, a
  rational number; the parsing, printing and arithmetic the program calls are the fields of a
  record \<open>decimal_api\<close> that every definition takes.  Arithmetic returns \<^term>\<open>None\<close> where the
  library panics (overflow, division by zero).
\<close>

section \<open>Decimals and floats\<close>

text \<open>\<^verbatim>\<open>f64\<close>: the finite values (a superset of the representable ones) and the others.\<close>

datatype f64 = Finite rat | Infinite bool | NaN

definition f64_is_finite :: "f64 \<Rightarrow> bool" where
  "f64_is_finite x = (case x of Finite _ \<Rightarrow> True | _ \<Rightarrow> False)"

definition f64_ge_zero :: "f64 \<Rightarrow> bool" where
  "f64_ge_zero x = (case x of Finite q \<Rightarrow> 0 \<le> q | Infinite neg \<Rightarrow> \<not> neg | NaN \<Rightarrow> False)"

definition f64_from_u32 :: "u32 \<Rightarrow> f64" where
  "f64_from_u32 n = Finite (of_nat (unat n))"

lemma f64_simps [simp]:
  "f64_is_finite (Finite q)" "\<not> f64_is_finite (Infinite b)" "\<not> f64_is_finite NaN"
  "f64_ge_zero (Finite q) = (0 \<le> q)" "f64_ge_zero (Infinite b) = (\<not> b)" "\<not> f64_ge_zero NaN"
  by (simp_all add: f64_is_finite_def f64_ge_zero_def)

lemma f64_from_u32_ok [simp]: "f64_is_finite (f64_from_u32 n)" "f64_ge_zero (f64_from_u32 n)"
  using of_nat_0_le_iff [of "unat n", where ?'a = rat] by (simp_all add: f64_from_u32_def)

record decimal_api =
  dec_from_str :: "string \<Rightarrow> rat option"
  dec_from_str_exact :: "string \<Rightarrow> rat option"
  dec_sub :: "rat \<Rightarrow> rat \<Rightarrow> rat option"
  dec_div :: "rat \<Rightarrow> rat \<Rightarrow> rat option"
  dec_mul :: "rat \<Rightarrow> rat \<Rightarrow> rat option"
  dec_to_f64 :: "rat \<Rightarrow> f64 option"
  dec_normalized :: "rat \<Rightarrow> string"

text \<open>\<^verbatim>\<open>Decimal::from_str_exact\<close> reads back what \<^verbatim>\<open>normalize().to_string()\<close> prints.\<close>

definition decimal_prints_exactly :: "decimal_api \<Rightarrow> bool" where
  "decimal_prints_exactly D \<longleftrightarrow> (\<forall>q s. dec_from_str_exact D s = Some q \<longrightarrow>
     dec_from_str_exact D (dec_normalized D q) = Some q)"

section \<open>Orders\<close>

datatype order_status =
    OrderNew | OrderPartiallyFilled | OrderFilled | OrderCancelled | OrderRejected | OrderUnknown

text \<open>
  \<^verbatim>\<open>OrderStatus::from_raw\<close>.  \<^verbatim>\<open>to_lowercase\<close> is applied before a comparison with ASCII words
  that have no letter \<^verbatim>\<open>k\<close>; no scalar value outside ASCII maps to their letters, so lowering
  the ASCII letters decides the comparison.
\<close>

definition order_status_from_raw :: "string \<Rightarrow> order_status" where
  "order_status_from_raw value =
     (let v = to_ascii_lowercase value in
      if v \<in> {''new'', ''created'', ''active'', ''untriggered''} then OrderNew
      else if v \<in> {''partiallyfilled'', ''partially_filled''} then OrderPartiallyFilled
      else if v = ''filled'' then OrderFilled
      else if v \<in> {''cancelled'', ''canceled''} then OrderCancelled
      else if v = ''rejected'' then OrderRejected
      else OrderUnknown)"

record order =
  o_order_id :: string
  o_symbol :: string
  o_side :: string
  o_order_type :: string
  o_price :: string
  o_qty :: string
  o_status :: order_status
  o_order_link_id :: "string option"
  o_filled_qty :: string
  o_avg_price :: string

record order_protection =
  take_profit :: "string option"
  stop_loss :: "string option"
  trigger_by :: string

record place_order_request =
  r_symbol :: string
  r_side :: string
  r_order_type :: string
  r_qty :: string
  r_position_idx :: "32 word"
  r_price :: "string option"
  r_time_in_force :: "string option"
  r_order_link_id :: "string option"
  r_reduce_only :: "bool option"
  r_protection :: "order_protection option"

record submission_context =
  sc_submission_id :: string
  sc_account_id :: string
  sc_session_epoch :: u64

record session_context =
  ses_account_id :: string
  ses_session_epoch :: u64

definition session_of_submission :: "submission_context \<Rightarrow> session_context" where
  "session_of_submission c =
     \<lparr>ses_account_id = sc_account_id c, ses_session_epoch = sc_session_epoch c\<rparr>"

section \<open>Protection\<close>

definition protection_legs :: "order_protection \<Rightarrow> string list" where
  "protection_legs p =
     (case take_profit p of None \<Rightarrow> [] | Some v \<Rightarrow> [v]) @ (case stop_loss p of None \<Rightarrow> [] | Some v \<Rightarrow> [v])"

definition protection_price_ok :: "decimal_api \<Rightarrow> string \<Rightarrow> bool" where
  "protection_price_ok D v \<longleftrightarrow>
     v \<noteq> [] \<and> length v \<le> 64 \<and> list_all (\<lambda>b. is_ascii_digit b \<or> b = CHR ''.'') v
     \<and> \<not> starts_with ''.'' v \<and> \<not> ends_with ''.'' v
     \<and> (case dec_from_str_exact D v of None \<Rightarrow> False | Some n \<Rightarrow> 0 < n)"

text \<open>\<^verbatim>\<open>OrderProtection::validate_shape\<close>; its \<^verbatim>\<open>Deserialize\<close> accepts exactly such values.\<close>

definition validate_shape :: "decimal_api \<Rightarrow> order_protection \<Rightarrow> (unit, string) result" where
  "validate_shape D p =
     (if trigger_by p \<notin> {''LastPrice'', ''MarkPrice''} \<or> (take_profit p = None \<and> stop_loss p = None)
      then Err ''invalid protection selector or empty legs''
      else if list_all (protection_price_ok D) (protection_legs p) then Ok ()
      else Err ''invalid protection price'')"

definition workflow_error :: "string \<Rightarrow> app_error" where
  "workflow_error code = EPlugin code (utf8 [25554, 20214, 36134, 25143, 24037, 20316, 27969, 26410, 23436, 25104, 65292, 35831, 37325, 26032,
      26816, 26597, 25480, 26435, 21644, 36134, 25143, 29366, 24577]) None"

definition strategy_error :: "string \<Rightarrow> app_error" where
  "strategy_error code = EPlugin code (utf8 [33258, 21160, 31574, 30053, 26410, 23436, 25104, 65292, 35831, 26816, 26597, 25480, 26435, 12289,
      36134, 25143, 19982, 24674, 22797, 29366, 24577]) None"

text \<open>\<^verbatim>\<open>workflow::decimal\<close>: the normal form of a bounded plain decimal.\<close>

definition workflow_decimal :: "decimal_api \<Rightarrow> string \<Rightarrow> bool \<Rightarrow> (string, app_error) result" where
  "workflow_decimal D value positive =
     (if value = [] \<or> 64 < length value
         \<or> \<not> list_all (\<lambda>b. is_ascii_digit b \<or> b = CHR ''.'' \<or> (\<not> positive \<and> b = CHR ''-'')) value
      then Err (workflow_error ''plugin_workflow_invalid_output'')
      else case dec_from_str_exact D value of
        None \<Rightarrow> Err (workflow_error ''plugin_workflow_invalid_output'')
      | Some parsed \<Rightarrow>
          (let unsigned = (if starts_with ''-'' value then tl value else value) in
           if starts_with ''.'' unsigned \<or> ends_with ''.'' unsigned
           then Err (workflow_error ''plugin_workflow_invalid_output'')
           else if positive \<and> parsed \<le> 0
           then Err (workflow_error ''plugin_workflow_invalid_output'')
           else Ok (dec_normalized D parsed)))"

definition strategy_exact :: "decimal_api \<Rightarrow> string \<Rightarrow> (rat, app_error) result" where
  "strategy_exact D s = ok_or (dec_from_str_exact D s) (strategy_error ''plugin_strategy_invalid_output'')"

text \<open>
  One leg of \<^verbatim>\<open>OrderProtection::validate\<close>: normalised, and strictly on its side of the
  reference and of the entry price.
\<close>

definition validate_leg ::
  "decimal_api \<Rightarrow> string \<Rightarrow> rat option \<Rightarrow> rat \<Rightarrow> bool \<Rightarrow> string option
     \<Rightarrow> (string option, app_error) result" where
  "validate_leg D side entry reference take_leg leg =
     (case leg of
        None \<Rightarrow> Ok None
      | Some raw \<Rightarrow>
          bind_result (workflow_decimal D raw True) (\<lambda>raw'.
          bind_result (strategy_exact D raw') (\<lambda>n.
            let above = ((side = ''Buy'') = take_leg) in
            if (if above then reference < n \<and> (case entry of None \<Rightarrow> True | Some e \<Rightarrow> e < n)
                else n < reference \<and> (case entry of None \<Rightarrow> True | Some e \<Rightarrow> n < e))
            then Ok (Some raw')
            else Err (strategy_error ''plugin_strategy_invalid_output''))))"

definition protection_validate ::
  "decimal_api \<Rightarrow> order_protection \<Rightarrow> string \<Rightarrow> string option \<Rightarrow> string
     \<Rightarrow> (order_protection, app_error) result" where
  "protection_validate D p side entry reference =
     bind_result (map_err (\<lambda>_. strategy_error ''plugin_strategy_invalid_output'') (validate_shape D p)) (\<lambda>_.
     bind_result (workflow_decimal D reference True) (\<lambda>ref_s.
     bind_result (strategy_exact D ref_s) (\<lambda>ref_d.
     bind_result (case entry of
         None \<Rightarrow> Ok None
       | Some v \<Rightarrow> bind_result (workflow_decimal D v True) (\<lambda>s.
           bind_result (strategy_exact D s) (\<lambda>e. Ok (Some e)))) (\<lambda>entry_d.
     bind_result (validate_leg D side entry_d ref_d True (take_profit p)) (\<lambda>tp.
     bind_result (validate_leg D side entry_d ref_d False (stop_loss p)) (\<lambda>sl.
       Ok (p\<lparr>take_profit := tp, stop_loss := sl\<rparr>)))))))"

text \<open>\<^verbatim>\<open>validate_amend_entry\<close>: a new entry price stays inside the attached exits.\<close>

definition amend_leg_ok :: "decimal_api \<Rightarrow> string \<Rightarrow> rat \<Rightarrow> bool \<Rightarrow> string option \<Rightarrow> (unit, app_error) result" where
  "amend_leg_ok D side entry take_leg leg =
     (case leg of
        None \<Rightarrow> Ok ()
      | Some v \<Rightarrow> bind_result (strategy_exact D v) (\<lambda>bound.
          if (if (side = ''Buy'') = take_leg then entry < bound else bound < entry) then Ok ()
          else Err (strategy_error ''plugin_strategy_invalid_output'')))"

definition validate_amend_entry ::
  "decimal_api \<Rightarrow> place_order_request \<Rightarrow> string \<Rightarrow> (unit, app_error) result" where
  "validate_amend_entry D original price =
     (case r_protection original of
        None \<Rightarrow> Ok ()
      | Some p \<Rightarrow>
          bind_result (map_err (\<lambda>_. strategy_error ''plugin_strategy_invalid_output'') (validate_shape D p)) (\<lambda>_.
          bind_result (strategy_exact D price) (\<lambda>entry.
          bind_result (amend_leg_ok D (r_side original) entry True (take_profit p)) (\<lambda>_.
          amend_leg_ok D (r_side original) entry False (stop_loss p)))))"

section \<open>What an accepted protection guarantees\<close>

lemma workflow_decimal_Ok:
  assumes "workflow_decimal D v True = Ok s"
  obtains q where "dec_from_str_exact D v = Some q" "0 < q" "s = dec_normalized D q"
  using assms by (auto simp: workflow_decimal_def Let_def split: if_splits option.splits)

lemma strategy_exact_Ok: "strategy_exact D s = Ok q \<longleftrightarrow> dec_from_str_exact D s = Some q"
  by (simp add: strategy_exact_def)

text \<open>The numeric value of an optional leg, and the side of the market it has to be on.\<close>

definition leg_value :: "decimal_api \<Rightarrow> string option \<Rightarrow> rat option" where
  "leg_value D leg = Option.bind leg (dec_from_str_exact D)"

lemma validate_leg_sound:
  assumes "decimal_prints_exactly D" and "validate_leg D side entry ref t leg = Ok leg'"
  shows "leg_value D leg' = leg_value D leg"
    and "leg_value D leg = Some n \<Longrightarrow>
      (if (side = ''Buy'') = t then ref < n \<and> (\<forall>e. entry = Some e \<longrightarrow> e < n)
       else n < ref \<and> (\<forall>e. entry = Some e \<longrightarrow> n < e))"
  using assms
  by (auto simp: validate_leg_def leg_value_def strategy_exact_Ok decimal_prints_exactly_def Let_def
      elim!: workflow_decimal_Ok split: option.splits if_splits)

end
