(* ===== verification/Clock.thy ===== *)
theory Clock
  imports App_Error
begin

text \<open>
  \<^verbatim>\<open>services/time.rs\<close>, \<^verbatim>\<open>auth/time_sync.rs\<close> and \<^verbatim>\<open>models/time.rs\<close>: epoch normalisation, the
  trading day, the offset between the local and the server clock, and the service that keeps
  it.  \<^verbatim>\<open>chrono\<close> and \<^verbatim>\<open>chrono_tz\<close> are the record \<open>tz_api\<close>.  Integer arithmetic wraps, as in the
  release build.
\<close>

section \<open>Trading days\<close>

record tz_api =
  tz_valid :: "string \<Rightarrow> bool"
  \<comment> \<open>the calendar date of an instant (milliseconds) in a zone; \<^term>\<open>None\<close> out of range\<close>
  tz_date :: "string \<Rightarrow> int \<Rightarrow> string option"
  \<comment> \<open>the calendar date of the current instant in a zone\<close>
  tz_date_now :: "string \<Rightarrow> string"
  \<comment> \<open>the instant of local midnight of the day of an instant, if it is unique\<close>
  tz_midnight :: "string \<Rightarrow> int \<Rightarrow> int option"
  tz_midnight_now :: "string \<Rightarrow> int option"
  tz_in_range :: "int \<Rightarrow> bool"

definition default_trading_day_timezone :: string where
  "default_trading_day_timezone = ''Asia/Shanghai''"

definition resolve_trading_day_timezone :: "tz_api \<Rightarrow> string \<Rightarrow> string" where
  "resolve_trading_day_timezone Z tz = (if tz_valid Z tz then tz else default_trading_day_timezone)"

definition trading_day_key :: "tz_api \<Rightarrow> u64 \<Rightarrow> string \<Rightarrow> string" where
  "trading_day_key Z now_ms timezone =
     (let z = resolve_trading_day_timezone Z timezone;
          tz = (if tz_valid Z z then z else default_trading_day_timezone) in
      case tz_date Z tz (sint now_ms) of Some day \<Rightarrow> day | None \<Rightarrow> tz_date_now Z tz)"

definition trading_day_bounds :: "tz_api \<Rightarrow> u64 \<Rightarrow> string \<Rightarrow> int \<times> int" where
  "trading_day_bounds Z now_ms timezone =
     (let tz = (if tz_valid Z timezone then timezone else default_trading_day_timezone);
          midnight = (if tz_in_range Z (sint now_ms) then tz_midnight Z tz (sint now_ms)
                      else tz_midnight_now Z tz);
          start = (case midnight of Some m \<Rightarrow> m | None \<Rightarrow> 0)
      in (start, start + 86400000))"

lemma resolve_idem: 
  "tz_valid Z default_trading_day_timezone \<Longrightarrow>
   resolve_trading_day_timezone Z (resolve_trading_day_timezone Z tz) = resolve_trading_day_timezone Z tz"
  by (simp add: resolve_trading_day_timezone_def)

text \<open>The day only depends on the zone an order is counted under.\<close>

lemma trading_day_key_resolve:
  "trading_day_key Z now (resolve_trading_day_timezone Z tz) = trading_day_key Z now tz"
  by (simp add: trading_day_key_def resolve_trading_day_timezone_def)

section \<open>Epochs\<close>

definition normalize_epoch_ms :: "u64 \<Rightarrow> u64 option" where
  "normalize_epoch_ms v =
     (if 1000000000000 \<le> v then Some v
      else if 1000000000 \<le> v then Some (v * 1000)
      else None)"

definition normalize_epoch_ms_i64 :: "int \<Rightarrow> int option" where
  "normalize_epoch_ms_i64 v =
     (if v \<le> 0 then None else map_option sint (normalize_epoch_ms (word_of_int v)))"

lemma normalize_epoch_ms_seconds:
  fixes v :: u64
  assumes "1000000000 \<le> v" and "v < 1000000000000"
  shows "unat (v * 1000) = unat v * 1000"
proof -
  have "unat v < 1000000000000" using assms(2) by (simp add: word_less_nat_alt)
  then show ?thesis by (simp add: unat_word_ariths)
qed

lemma normalize_epoch_ms_range:
  assumes "normalize_epoch_ms v = Some w"
  shows "1000000000000 \<le> w"
  using assms normalize_epoch_ms_seconds [of v]
  by (auto simp: normalize_epoch_ms_def word_le_nat_alt word_less_nat_alt not_le split: if_splits)

text \<open>\<^verbatim>\<open>str::parse::<u64>\<close>.\<close>

fun digits_value :: "string \<Rightarrow> nat \<Rightarrow> nat option" where
  "digits_value [] acc = Some acc"
| "digits_value (c # cs) acc =
     (if is_ascii_digit c then digits_value cs (acc * 10 + (byte c - 48)) else None)"

definition parse_u64 :: "string \<Rightarrow> u64 option" where
  "parse_u64 s =
     (let ds = (if starts_with ''+'' s then tl s else s) in
      if ds = [] then None
      else case digits_value ds 0 of
        None \<Rightarrow> None
      | Some n \<Rightarrow> if n < 2 ^ 64 then Some (of_nat n) else None)"

definition parse_timestamp_value :: "json \<Rightarrow> u64 option" where
  "parse_timestamp_value value =
     Option.bind
       (case json_as_u64 value of
          Some ts \<Rightarrow> Some (word_of_int ts)
        | None \<Rightarrow> (case json_as_i64 value of
            Some ts \<Rightarrow> Some (word_of_int (max ts 0))
          | None \<Rightarrow> (case json_as_str value of
              Some s \<Rightarrow> parse_u64 s
            | None \<Rightarrow> None)))
       normalize_epoch_ms"

fun first_some :: "('a \<Rightarrow> 'b option) \<Rightarrow> 'a list \<Rightarrow> 'b option" where
  "first_some f [] = None"
| "first_some f (x # xs) = (case f x of Some y \<Rightarrow> Some y | None \<Rightarrow> first_some f xs)"

definition msg_server_time :: string where
  "msg_server_time = (utf8 [26080, 27861, 35299, 26512, 26381, 21153, 22120, 26102, 38388])"

definition parse_server_time :: "json \<Rightarrow> (u64, app_error) result" where
  "parse_server_time payload =
     ok_or (first_some (\<lambda>v. Option.bind v parse_timestamp_value)
       ([json_get ''time'' payload,
         Option.bind (json_get ''data'' payload) (json_get ''time''),
         Some payload] @
        (case json_as_object payload of
           None \<Rightarrow> []
         | Some obj \<Rightarrow> map (map_of obj) [''serverTime'', ''server_time'', ''time'', ''timestamp''])))
       (EConnection msg_server_time)"

lemma first_some_Some: "first_some f xs = Some y \<Longrightarrow> \<exists>x\<in>set xs. f x = Some y"
  by (induction xs) (auto split: option.splits)

lemma parse_timestamp_value_range:
  "parse_timestamp_value v = Some w \<Longrightarrow> 1000000000000 \<le> w"
  by (auto simp: parse_timestamp_value_def bind_eq_Some_conv dest: normalize_epoch_ms_range)

section \<open>The server clock\<close>

definition timestamp_ms :: "u64 \<Rightarrow> u64 \<Rightarrow> u64" where
  "timestamp_ms offset local = (let t = local + offset in if 0 \<le> sint t then t else 0)"

definition set_server_time :: "u64 \<Rightarrow> u64 \<Rightarrow> u64" where
  "set_server_time server_ms local = server_ms - local"

definition set_server_time_midpoint :: "u64 \<Rightarrow> u64 \<Rightarrow> u64 \<Rightarrow> u64" where
  "set_server_time_midpoint server_ms request_start request_end =
     server_ms - (request_start + request_end) div 2"

text \<open>On instants below \<open>2\<^sup>6\<^sup>2\<close> milliseconds nothing wraps.\<close>

definition plausible :: "u64 \<Rightarrow> bool" where
  "plausible t \<longleftrightarrow> unat t < 2 ^ 62"

lemma uint_plausible: "unat t < 2 ^ n \<Longrightarrow> uint t < 2 ^ n"
  by (metis of_nat_less_iff of_nat_numeral of_nat_power uint_nat)

lemma sint_plausible:
  fixes t :: u64
  assumes "uint t < 2 ^ 63"
  shows "sint t = uint t"
proof -
  have "signed_take_bit 63 (uint t) = uint t"
  proof (rule signed_take_bit_int_eq_self)
    show "- (2 ^ 63) \<le> uint t" by (rule order_trans [of _ 0]) simp_all
    show "uint t < 2 ^ 63" by (rule assms)
  qed
  then show ?thesis by (simp add: sint_uint)
qed

lemma sint_upper_half:
  fixes t :: u64
  assumes "2 ^ 63 \<le> uint t"
  shows "sint t < 0"
proof -
  have "uint t < 2 ^ 64" using unsigned_less [of t, where ?'a = int] by simp
  with assms have "uint t div 2 ^ 63 = 1"
    by (intro int_div_pos_eq [where r = "uint t - 2 ^ 63"]) auto
  then have "bit (uint t) 63" by (simp add: bit_iff_odd)
  then show ?thesis
    by (simp add: sint_uint signed_take_bit_negative_iff)
qed

lemma midpoint_unat:
  assumes "plausible a" and "plausible b"
  shows "unat ((a + b) div 2) = (unat a + unat b) div 2"
proof -
  have "unat (a + b) = unat a + unat b"
    using assms by (simp add: plausible_def unat_word_ariths)
  then show ?thesis by (simp add: unat_div)
qed

lemma timestamp_midpoint:
  assumes p: "plausible s" "plausible a" "plausible b" "plausible l"
  shows "uint (timestamp_ms (set_server_time_midpoint s a b) l) =
    max 0 (uint s + uint l - (uint a + uint b) div 2)"
proof -
  define m where "m = (a + b) div 2"
  have m: "uint m = (uint a + uint b) div 2"
    unfolding uint_nat m_def midpoint_unat [OF p(2,3)] by (simp only: zdiv_int of_nat_add of_nat_numeral)
  have small: "uint s < 2 ^ 62" "uint a < 2 ^ 62" "uint b < 2 ^ 62" "uint l < 2 ^ 62"
    using p uint_plausible [of _ 62] by (auto simp: plausible_def)
  define t where "t = l + (s - m)"
  have t_mod: "uint t = (uint s + uint l - uint m) mod 2 ^ 64"
    by (simp add: t_def uint_word_ariths mod_simps algebra_simps)
  have eq: "timestamp_ms (set_server_time_midpoint s a b) l = (if 0 \<le> sint t then t else 0)"
    by (simp add: timestamp_ms_def set_server_time_midpoint_def m_def t_def)
  show ?thesis
  proof (cases "uint m \<le> uint s + uint l")
    case True
    have below: "uint s + uint l - uint m \<le> uint s + uint l" by simp
    also have "\<dots> < 2 ^ 64" using small by simp
    finally have t: "uint t = uint s + uint l - uint m"
      unfolding t_mod using True by (intro mod_pos_pos_trivial) auto
    have "uint t < 2 ^ 63" unfolding t using below small by (intro le_less_trans [OF below]) simp
    then show ?thesis using True m t sint_plausible [of t] eq by simp
  next
    case False
    have "uint m < 4611686018427387904" using small m by simp
    moreover have "0 \<le> uint s + uint l" by simp
    ultimately have lo: "9223372036854775808 \<le> uint s + uint l - uint m + 18446744073709551616"
      by linarith
    have hi: "uint s + uint l - uint m + 18446744073709551616 < 18446744073709551616"
      using False by linarith
    have "uint t = (uint s + uint l - uint m + 18446744073709551616) mod 18446744073709551616"
      unfolding t_mod by simp
    also have "\<dots> = uint s + uint l - uint m + 18446744073709551616"
      using lo hi by (intro mod_pos_pos_trivial) linarith+
    finally have "sint t < 0" using lo by (intro sint_upper_half) simp
    then show ?thesis using False m eq by simp
  qed
qed

section \<open>The time service\<close>

datatype time_sync_status = Syncing | Synced | SyncFailed | LocalFallback

datatype time_source = SourceServer | SourceLocal

record time_service =
  ts_offset :: u64
  ts_status :: time_sync_status
  ts_source :: time_source
  ts_last_sync_at :: "u64 option"
  ts_last_attempt_at :: "u64 option"
  ts_last_error :: "string option"

definition time_service_new :: time_service where
  "time_service_new = \<lparr>ts_offset = 0, ts_status = LocalFallback, ts_source = SourceLocal,
     ts_last_sync_at = None, ts_last_attempt_at = None, ts_last_error = None\<rparr>"

record time_snapshot =
  snap_server_time_ms :: u64
  snap_local_time_ms :: u64
  snap_offset_ms :: u64
  snap_sync_status :: time_sync_status
  snap_source :: time_source
  snap_last_sync_at :: "u64 option"
  snap_last_attempt_at :: "u64 option"
  snap_last_error :: "string option"

text \<open>\<^verbatim>\<open>TimeService::snapshot\<close>, with the local instant at which it is taken.\<close>

definition time_snapshot_of :: "time_service \<Rightarrow> u64 \<Rightarrow> time_snapshot" where
  "time_snapshot_of t local =
     \<lparr>snap_server_time_ms = timestamp_ms (ts_offset t) local, snap_local_time_ms = local,
      snap_offset_ms = ts_offset t, snap_sync_status = ts_status t, snap_source = ts_source t,
      snap_last_sync_at = ts_last_sync_at t, snap_last_attempt_at = ts_last_attempt_at t,
      snap_last_error = ts_last_error t\<rparr>"

text \<open>
  \<^verbatim>\<open>TimeService::sync\<close>.  The local clock is read when the attempt is recorded, before and after
  the request, and for the two snapshots it emits, which are the second result.
\<close>

definition time_service_sync ::
  "time_service \<Rightarrow> u64 \<Rightarrow> u64 \<Rightarrow> u64 \<Rightarrow> u64 \<Rightarrow> u64 \<Rightarrow> (u64, app_error) result
     \<Rightarrow> time_snapshot list \<times> time_service" where
  "time_service_sync t attempt emit1 started finished emit2 response =
     (let t1 = t\<lparr>ts_status := Syncing, ts_last_attempt_at := Some attempt\<rparr>;
          t2 = t1\<lparr>ts_last_attempt_at := Some finished\<rparr>;
          t3 = (case response of
                  Ok server_ms \<Rightarrow>
                    t2\<lparr>ts_offset := set_server_time_midpoint server_ms started finished,
                       ts_status := Synced, ts_source := SourceServer,
                       ts_last_sync_at := Some finished, ts_last_error := None\<rparr>
                | Err e \<Rightarrow>
                    t2\<lparr>ts_status := SyncFailed, ts_source := SourceLocal,
                       ts_last_error := Some (user_message e)\<rparr>
                | Panic \<Rightarrow> t1)
      in (time_snapshot_of t1 emit1 # (if response = Panic then [] else [time_snapshot_of t3 emit2]), t3))"

definition time_service_apply ::
  "time_service \<Rightarrow> u64 \<Rightarrow> u64 \<Rightarrow> u64 \<Rightarrow> time_snapshot \<times> time_service" where
  "time_service_apply t server_ms local emit =
     (let t1 = t\<lparr>ts_offset := set_server_time_midpoint server_ms local local,
                  ts_status := Synced, ts_source := SourceServer, ts_last_sync_at := Some local,
                  ts_last_attempt_at := Some local, ts_last_error := None\<rparr>
      in (time_snapshot_of t1 emit, t1))"

text \<open>The offset changes exactly when the source becomes the server.\<close>

lemma time_service_sync_state:
  "snd (time_service_sync t a e1 s f e2 (Ok srv)) =
     t\<lparr>ts_offset := set_server_time_midpoint srv s f, ts_status := Synced, ts_source := SourceServer,
       ts_last_sync_at := Some f, ts_last_attempt_at := Some f, ts_last_error := None\<rparr>"
  "snd (time_service_sync t a e1 s f e2 (Err e)) =
     t\<lparr>ts_status := SyncFailed, ts_source := SourceLocal, ts_last_attempt_at := Some f,
       ts_last_error := Some (user_message e)\<rparr>"
  by (simp_all add: time_service_sync_def Let_def)

text \<open>A clock read between the request and its answer is off by at most half the round trip.\<close>

lemma midpoint_error:
  fixes a b l :: int
  assumes "a \<le> l" "l \<le> b" "0 \<le> s"
  shows "\<bar>max 0 (s + l - (a + b) div 2) - s\<bar> \<le> (b - a + 1) div 2"
  using assms by linarith

end
