(* ===== verification/Risk_Validation.thy ===== *)
theory Risk_Validation
  imports Trading_Model Clock
begin

text \<open>
  \<^verbatim>\<open>models/risk.rs\<close>, \<^verbatim>\<open>models/config.rs\<close> (the risk section) and \<^verbatim>\<open>services/risk/validation.rs\<close>:
  violations, the risk configuration and the checks an order has to pass.
\<close>

section \<open>Data\<close>

datatype risk_violation_code =
    InvalidQuantity | NonPositiveQuantity | MaxOrderQty | MissingLimitPrice | InvalidLimitPrice
  | NonPositiveLimitPrice | ReferencePriceUnavailable | MaxPriceDeviation | DailyOrderLimit
  | LedgerUnavailable

definition parse_violation_code :: "string \<Rightarrow> risk_violation_code option" where
  "parse_violation_code value = map_of
     [(''invalidQuantity'', InvalidQuantity), (''nonPositiveQuantity'', NonPositiveQuantity),
      (''maxOrderQty'', MaxOrderQty), (''missingLimitPrice'', MissingLimitPrice),
      (''invalidLimitPrice'', InvalidLimitPrice), (''nonPositiveLimitPrice'', NonPositiveLimitPrice),
      (''referencePriceUnavailable'', ReferencePriceUnavailable),
      (''maxPriceDeviation'', MaxPriceDeviation), (''dailyOrderLimit'', DailyOrderLimit),
      (''ledgerUnavailable'', LedgerUnavailable)] value"

record risk_violation =
  v_code :: risk_violation_code
  v_limit :: "f64 option"

definition violation_new :: "risk_violation_code \<Rightarrow> risk_violation" where
  "violation_new c = \<lparr>v_code = c, v_limit = None\<rparr>"

definition violation_with_limit :: "risk_violation_code \<Rightarrow> f64 \<Rightarrow> risk_violation" where
  "violation_with_limit c limit =
     \<lparr>v_code = c, v_limit = (if f64_is_finite limit \<and> f64_ge_zero limit then Some limit else None)\<rparr>"

text \<open>\<^verbatim>\<open>RiskViolation::user_message\<close>; \<open>show\<close> is the \<^verbatim>\<open>Display\<close> of \<^verbatim>\<open>f64\<close>.\<close>

definition violation_message :: "(f64 \<Rightarrow> string) \<Rightarrow> risk_violation \<Rightarrow> string" where
  "violation_message show v =
     (case v_code v of
        InvalidQuantity \<Rightarrow> (utf8 [35746, 21333, 25968, 37327, 26684, 24335, 26080, 25928])
      | NonPositiveQuantity \<Rightarrow> (utf8 [35746, 21333, 25968, 37327, 24517, 39035, 22823, 20110, 32, 48])
      | MaxOrderQty \<Rightarrow>
          (case v_limit v of
             Some l \<Rightarrow> (utf8 [35746, 21333, 25968, 37327, 36229, 36807, 26368, 22823, 38480, 21046, 32]) @ show l
           | None \<Rightarrow> (utf8 [35746, 21333, 25968, 37327, 36229, 36807, 26368, 22823, 38480, 21046]))
      | MissingLimitPrice \<Rightarrow> (utf8 [38480, 20215, 21333, 24517, 39035, 25552, 20379, 20215, 26684])
      | InvalidLimitPrice \<Rightarrow> (utf8 [38480, 20215, 26684, 24335, 26080, 25928])
      | NonPositiveLimitPrice \<Rightarrow> (utf8 [38480, 20215, 24517, 39035, 22823, 20110, 32, 48])
      | ReferencePriceUnavailable \<Rightarrow> (utf8 [26080, 27861, 33719, 21462, 26377, 25928, 30340, 26368, 26032, 24066, 20215, 65292, 35831, 21047,
      26032, 34892, 24773, 21518, 37325, 35797])
      | MaxPriceDeviation \<Rightarrow>
          (case v_limit v of
             Some l \<Rightarrow> (utf8 [38480, 20215, 20559, 31163, 24066, 20215, 36229, 36807, 38480, 21046, 32]) @ show l @ ''%''
           | None \<Rightarrow> (utf8 [38480, 20215, 20559, 31163, 24066, 20215, 36229, 36807, 38480, 21046]))
      | DailyOrderLimit \<Rightarrow>
          (case v_limit v of
             Some l \<Rightarrow> (utf8 [20170, 26085, 19979, 21333, 27425, 25968, 24050, 36798, 19978, 38480, 32]) @ show l
           | None \<Rightarrow> (utf8 [20170, 26085, 19979, 21333, 27425, 25968, 24050, 36798, 19978, 38480]))
      | LedgerUnavailable \<Rightarrow> (utf8 [39118, 25511, 29992, 37327, 36134, 26412, 19981, 21487, 29992, 65292, 35831, 26816, 26597, 26412,
      22320, 23384, 20648, 26435, 38480, 25110, 25991, 20214, 26684, 24335, 12290]))"

definition app_error_of_violation :: "(f64 \<Rightarrow> string) \<Rightarrow> risk_violation \<Rightarrow> app_error" where
  "app_error_of_violation show v = ERisk (violation_message show v)"

record risk_config =
  rc_max_order_qty :: string
  rc_max_price_deviation_pct :: string
  rc_max_daily_orders :: u32
  rc_trading_day_timezone :: string
  rc_enabled :: bool

section \<open>Checks\<close>

definition validate_risk_config ::
  "decimal_api \<Rightarrow> tz_api \<Rightarrow> risk_config \<Rightarrow> (unit, app_error) result" where
  "validate_risk_config D Z c =
     bind_result (ok_or (dec_from_str D (rc_max_order_qty c)) (EConfig (utf8 [26368, 22823, 21333, 31508, 19979, 21333, 25968, 37327, 26684, 24335, 26080, 25928]))) (\<lambda>max_qty.
     if max_qty \<le> 0 then Err (EConfig (utf8 [26368, 22823, 21333, 31508, 19979, 21333, 25968, 37327, 24517, 39035, 22823, 20110, 32, 48])) else
     bind_result (ok_or (dec_from_str D (rc_max_price_deviation_pct c)) (EConfig (utf8 [26368, 22823, 20215, 26684, 20559, 31163, 26684, 24335, 26080, 25928]))) (\<lambda>max_dev.
     if max_dev < 0 then Err (EConfig (utf8 [26368, 22823, 20215, 26684, 20559, 31163, 19981, 33021, 20026, 36127, 25968]))
     else if rc_max_daily_orders c = 0 then Err (EConfig (utf8 [27599, 26085, 26368, 22823, 19979, 21333, 27425, 25968, 24517, 39035, 22823, 20110, 32, 48]))
     else if \<not> tz_valid Z (rc_trading_day_timezone c) then Err (EConfig (utf8 [20132, 26131, 26085, 26102, 21306, 26080, 25928]))
     else Ok ()))"

definition violation_with_decimal_limit ::
  "decimal_api \<Rightarrow> risk_violation_code \<Rightarrow> rat \<Rightarrow> risk_violation" where
  "violation_with_decimal_limit D c limit =
     (case dec_to_f64 D limit of
        Some v \<Rightarrow> if f64_is_finite v \<and> f64_ge_zero v then violation_with_limit c v else violation_new c
      | None \<Rightarrow> violation_new c)"

text \<open>The reference price as \<^verbatim>\<open>validate_limit_price\<close> reads it: parsed and positive.\<close>

definition usable_reference :: "decimal_api \<Rightarrow> string option \<Rightarrow> rat option" where
  "usable_reference D reference =
     (case Option.bind reference (dec_from_str D) of
        None \<Rightarrow> None
      | Some v \<Rightarrow> if 0 < v then Some v else None)"

text \<open>\<^verbatim>\<open>((price - ref_price).abs() / ref_price) * Decimal::from(100)\<close>, each step of which may panic.\<close>

definition price_deviation :: "decimal_api \<Rightarrow> rat \<Rightarrow> rat \<Rightarrow> rat option" where
  "price_deviation D price ref_price =
     Option.bind (dec_sub D price ref_price) (\<lambda>diff.
     Option.bind (dec_div D \<bar>diff\<bar> ref_price) (\<lambda>ratio.
     dec_mul D ratio 100))"

definition validate_limit_price ::
  "decimal_api \<Rightarrow> risk_config \<Rightarrow> place_order_request \<Rightarrow> string option \<Rightarrow> (unit, risk_violation) result" where
  "validate_limit_price D c request reference =
     bind_result (ok_or (r_price request) (violation_new MissingLimitPrice)) (\<lambda>price_str.
     bind_result (ok_or (dec_from_str D price_str) (violation_new InvalidLimitPrice)) (\<lambda>price.
     if price \<le> 0 then Err (violation_new NonPositiveLimitPrice) else
     bind_result (ok_or (usable_reference D reference) (violation_new ReferencePriceUnavailable)) (\<lambda>ref_price.
     bind_result (or_panic (price_deviation D price ref_price)) (\<lambda>deviation.
     bind_result (ok_or (dec_from_str D (rc_max_price_deviation_pct c)) (violation_new LedgerUnavailable)) (\<lambda>max_dev.
     if max_dev < deviation then Err (violation_with_decimal_limit D MaxPriceDeviation max_dev)
     else Ok ())))))"

definition is_limit_order :: "place_order_request \<Rightarrow> bool" where
  "is_limit_order request \<longleftrightarrow> to_ascii_lowercase (r_order_type request) = ''limit''"

definition validate_order ::
  "decimal_api \<Rightarrow> risk_config \<Rightarrow> place_order_request \<Rightarrow> string option \<Rightarrow> (unit, risk_violation) result" where
  "validate_order D c request reference =
     bind_result (ok_or (dec_from_str D (r_qty request)) (violation_new InvalidQuantity)) (\<lambda>qty.
     if qty \<le> 0 then Err (violation_new NonPositiveQuantity) else
     bind_result
       (if r_reduce_only request \<noteq> Some True
        then bind_result (ok_or (dec_from_str D (rc_max_order_qty c)) (violation_new LedgerUnavailable)) (\<lambda>max_qty.
             if max_qty < qty then Err (violation_with_decimal_limit D MaxOrderQty max_qty) else Ok ())
        else Ok ()) (\<lambda>_.
     if is_limit_order request then validate_limit_price D c request reference else Ok ()))"

section \<open>What the checks establish\<close>

lemma validate_risk_config_Ok_iff:
  "validate_risk_config D Z c = Ok () \<longleftrightarrow>
     (\<exists>q m. dec_from_str D (rc_max_order_qty c) = Some q \<and> 0 < q
        \<and> dec_from_str D (rc_max_price_deviation_pct c) = Some m \<and> 0 \<le> m
        \<and> rc_max_daily_orders c \<noteq> 0 \<and> tz_valid Z (rc_trading_day_timezone c))"
  by (auto simp: validate_risk_config_def ok_or_def not_le not_less split: option.splits if_splits
      simp del: bind_result_Ok_iff)

lemma validate_limit_price_Ok_iff:
  "validate_limit_price D c request reference = Ok () \<longleftrightarrow>
     (\<exists>s p r dev m. r_price request = Some s \<and> dec_from_str D s = Some p \<and> 0 < p
        \<and> usable_reference D reference = Some r \<and> price_deviation D p r = Some dev
        \<and> dec_from_str D (rc_max_price_deviation_pct c) = Some m \<and> dev \<le> m)"
  by (auto simp: validate_limit_price_def ok_or_def or_panic_def not_le not_less
      split: option.splits if_splits simp del: bind_result_Ok_iff)

lemma validate_order_Ok_iff:
  "validate_order D c request reference = Ok () \<longleftrightarrow>
     (\<exists>q. dec_from_str D (r_qty request) = Some q \<and> 0 < q
        \<and> (r_reduce_only request \<noteq> Some True \<longrightarrow>
             (\<exists>m. dec_from_str D (rc_max_order_qty c) = Some m \<and> q \<le> m)))
     \<and> (is_limit_order request \<longrightarrow> validate_limit_price D c request reference = Ok ())"
  by (auto simp: validate_order_def ok_or_def not_le not_less split: option.splits if_splits
      simp del: bind_result_Ok_iff)

lemma usable_reference_pos: "usable_reference D ref = Some r \<Longrightarrow> 0 < r"
  by (auto simp: usable_reference_def split: option.splits if_splits)

text \<open>Decimal arithmetic is exact on the values of one check.\<close>

definition exact_on :: "decimal_api \<Rightarrow> rat \<Rightarrow> rat \<Rightarrow> bool" where
  "exact_on D p r \<longleftrightarrow> dec_sub D p r = Some (p - r) \<and> dec_div D \<bar>p - r\<bar> r = Some (\<bar>p - r\<bar> / r)
     \<and> dec_mul D (\<bar>p - r\<bar> / r) 100 = Some (\<bar>p - r\<bar> / r * 100)"

lemma price_deviation_exact:
  "exact_on D p r \<Longrightarrow> price_deviation D p r = Some (\<bar>p - r\<bar> / r * 100)"
  by (simp add: price_deviation_def exact_on_def)

text \<open>Under a validated configuration the only internal failure code cannot come from a check.\<close>

lemma validate_order_not_ledger:
  assumes "validate_risk_config D Z c = Ok ()" and "validate_order D c request ref = Err v"
  shows "v_code v \<noteq> LedgerUnavailable"
proof -
  obtain q m where qm: "dec_from_str D (rc_max_order_qty c) = Some q"
    "dec_from_str D (rc_max_price_deviation_pct c) = Some m"
    using assms(1) by (auto simp: validate_risk_config_Ok_iff)
  have codes: "v_code (violation_with_decimal_limit D k l) = k" for k l
    by (simp add: violation_with_decimal_limit_def violation_new_def violation_with_limit_def split: option.splits)
  show ?thesis
    using assms(2) qm codes
    by (auto simp: validate_order_def validate_limit_price_def ok_or_def or_panic_def violation_new_def
        split: option.splits if_splits)
qed

end
