(* ===== verification/Config_Persistence.thy ===== *)
theory Config_Persistence
  imports App_Error
begin

text \<open>
  \<^verbatim>\<open>storage/config_persistence.rs\<close>: a document kept in a main file with a temporary and a backup
  sibling.  \<open>config_save\<close> writes the temporary file, rotates the main file to the backup and
  promotes the temporary file; \<open>config_load\<close> reads the first candidate that parses.

  The contract other components rely on is the locale \<open>crash_safe_slot\<close>: whatever I/O calls
  fail, a reader finds the old or the new bytes, never none and never a mixture.
\<close>

section \<open>Operations\<close>

definition write_temp :: "path \<Rightarrow> string \<Rightarrow> disk \<Rightarrow> (unit, app_error) result \<times> disk" where
  "write_temp p contents d = io_map_err app_error_of_io
     (io_bind (open_truncate p d) (\<lambda>_ d.
      io_bind (write_all p contents d) (\<lambda>_ d.
      sync_all d)))"

definition remove_old_backup :: "path \<Rightarrow> disk \<Rightarrow> (unit, app_error) result \<times> disk" where
  "remove_old_backup p d =
     (case fs_remove_file p d of
        (Ok _, d') \<Rightarrow> (Ok (), d')
      | (Err e, d') \<Rightarrow>
          if io_kind e = NotFound then (Ok (), d') else (Err (app_error_of_io e), d')
      | (Panic, d') \<Rightarrow> (Panic, d'))"

definition replace_existing_main :: "path \<Rightarrow> disk \<Rightarrow> (unit, app_error) result \<times> disk" where
  "replace_existing_main p d =
     io_bind (remove_old_backup (backup_path p) d) (\<lambda>_ d.
     io_bind (io_map_err app_error_of_io (fs_rename p (backup_path p) d)) (\<lambda>_ d.
       case fs_rename (temp_path p) p d of
         (Ok _, d) \<Rightarrow> (Ok (), d)
       | (Err e, d) \<Rightarrow>
           \<comment> \<open>restore the previous main file; a failure of the restore is only logged\<close>
           (Err (app_error_of_io e), snd (fs_rename (backup_path p) p d))
       | (Panic, d) \<Rightarrow> (Panic, d)))"

definition msg_not_regular :: string where
  "msg_not_regular = (utf8 [37197, 32622, 20027, 36335, 24452, 19981, 26159, 26222, 36890, 25991, 20214])"

definition replace_main :: "path \<Rightarrow> disk \<Rightarrow> (unit, app_error) result \<times> disk" where
  "replace_main p d =
     (case fs_metadata p d of
        (Ok (File c), d) \<Rightarrow> replace_existing_main p d
      | (Ok n, d) \<Rightarrow> (Err (EStorage msg_not_regular), d)
      | (Err e, d) \<Rightarrow>
          if io_kind e = NotFound
          then io_map_err app_error_of_io (fs_rename (temp_path p) p d)
          else (Err (app_error_of_io e), d)
      | (Panic, d) \<Rightarrow> (Panic, d))"

definition config_save :: "path \<Rightarrow> string \<Rightarrow> disk \<Rightarrow> (unit, app_error) result \<times> disk" where
  "config_save p contents d =
     io_bind (if butlast p = [] then (Ok (), d)
              else io_map_err app_error_of_io (fs_create_dir_all (butlast p) d)) (\<lambda>_ d.
     io_bind (write_temp (temp_path p) contents d) (\<lambda>_ d.
     replace_main p d))"

text \<open>
  \<^verbatim>\<open>load\<close>: the candidates in order; one that cannot be examined, read or parsed is remembered
  by its label.  \<open>parse\<close> also stands for the UTF-8 check of \<^verbatim>\<open>read_to_string\<close>.
\<close>

fun load_candidates ::
  "(string \<Rightarrow> 'a option) \<Rightarrow> (string \<times> path) list \<Rightarrow> string list \<Rightarrow> disk
     \<Rightarrow> ('a + string list) \<times> disk" where
  "load_candidates parse [] invalid d = (Inr invalid, d)"
| "load_candidates parse ((label, p) # rest) invalid d =
     (case fs_metadata p d of
        (Ok _, d) \<Rightarrow>
          (case fs_read p d of
             (Ok text, d) \<Rightarrow>
               (case parse text of
                  Some v \<Rightarrow> (Inl v, d)
                | None \<Rightarrow> load_candidates parse rest (invalid @ [label]) d)
           | (_, d) \<Rightarrow> load_candidates parse rest (invalid @ [label]) d)
      | (Err e, d) \<Rightarrow>
          if io_kind e = NotFound then load_candidates parse rest invalid d
          else load_candidates parse rest (invalid @ [label]) d
      | (Panic, d) \<Rightarrow> load_candidates parse rest (invalid @ [label]) d)"

definition config_load ::
  "path \<Rightarrow> (string \<Rightarrow> 'a option) \<Rightarrow> disk \<Rightarrow> ('a option, app_error) result \<times> disk" where
  "config_load p parse d =
     (case load_candidates parse
        [((utf8 [20027, 37197, 32622]), p), ((utf8 [20020, 26102, 21103, 26412]), temp_path p), ((utf8 [22791, 20221]), backup_path p)] [] d of
        (Inl v, d') \<Rightarrow> (Ok (Some v), d')
      | (Inr [], d') \<Rightarrow> (Ok None, d')
      | (Inr labels, d') \<Rightarrow>
          (Err (EConfig ((utf8 [37197, 32622, 25991, 20214, 21450, 24674, 22797, 21103, 26412, 22343, 19981, 21487, 29992, 65306]) @ join (utf8 [12289]) labels)), d'))"

section \<open>The contract of a crash-safe replacement\<close>

text \<open>
  \<open>save p c\<close> replaces the document at \<open>p\<close>.  The laws hold for every schedule of faults, since
  the schedule is part of the disk.
\<close>

locale crash_safe_slot =
  fixes save :: "path \<Rightarrow> string \<Rightarrow> disk \<Rightarrow> (unit, 'e) result \<times> disk"
  assumes save_old_or_new:
      "p \<noteq> [] \<Longrightarrow> lookup d p = Some (File c) \<Longrightarrow> save p c' d = (r, d')
        \<Longrightarrow> lookup d' p = Some (File c) \<or> lookup d' p = Some (File c')
          \<or> (lookup d' p = None \<and> lookup d' (temp_path p) = Some (File c'))"
    and save_present:
      "p \<noteq> [] \<Longrightarrow> slot_read d p \<noteq> None \<Longrightarrow> save p c' d = (r, d') \<Longrightarrow> slot_read d' p \<noteq> None"
    and save_ok:
      "p \<noteq> [] \<Longrightarrow> save p c' d = (Ok (), d') \<Longrightarrow> lookup d' p = Some (File c')"
    and save_frame:
      "p \<noteq> [] \<Longrightarrow> save p c' d = (r, d') \<Longrightarrow> q \<notin> slot_paths p
        \<Longrightarrow> lookup d' q = lookup d q \<or> (lookup d q = None \<and> lookup d' q = Some Dir \<and> length q < length p)"
    and save_total: "p \<noteq> [] \<Longrightarrow> save p c' d = (r, d') \<Longrightarrow> r \<noteq> Panic"
begin

text \<open>A reader after a save finds the old or the new document.\<close>

lemma read_old_or_new:
  assumes "p \<noteq> []" and "lookup d p = Some (File c)" and "save p c' d = (r, d')"
  shows "slot_read d' p = Some (File c) \<or> slot_read d' p = Some (File c')"
  using save_old_or_new [OF assms] by (auto simp: slot_read_def)

lemma read_new:
  assumes "p \<noteq> []" and "save p c' d = (Ok (), d')"
  shows "slot_read d' p = Some (File c')"
  using save_ok [OF assms] by (rule slot_read_main)

text \<open>A save never disturbs a document of the same directory depth in another slot.\<close>

lemma read_other:
  assumes "p \<noteq> []" and "save p c' d = (r, d')" and "slot_paths q \<inter> slot_paths p = {}"
    and "q \<noteq> []" and "length p \<le> length q"
  shows "slot_read d' q = slot_read d q"
proof (rule slot_read_cong)
  fix x assume x: "x \<in> slot_paths q"
  then have "x \<notin> slot_paths p" using assms(3) by blast
  moreover have "length x = length q"
    using x assms(4) by (auto simp: slot_paths_def length_sibling_path)
  ultimately show "lookup d' x = lookup d x"
    using save_frame [OF assms(1,2), of x] assms(5) by auto
qed

end

section \<open>The program's replacement meets the contract\<close>

lemma write_temp_effect:
  assumes "write_temp t c d = (r, d')"
  shows "q \<noteq> t \<Longrightarrow> lookup d' q = lookup d q"
    and "r = Ok () \<Longrightarrow> lookup d' t = Some (File c)"
    and "lookup d t \<noteq> None \<Longrightarrow> lookup d' t \<noteq> None"
    and "r \<noteq> Panic"
  using assms
  by (auto simp: write_temp_def open_truncate_def write_all_def sync_all_def syscall_def
      split: fault.splits option.splits node.splits if_splits)

lemma remove_old_backup_effect:
  assumes "remove_old_backup b d = (r, d')"
  shows "q \<noteq> b \<Longrightarrow> lookup d' q = lookup d q" and "r \<noteq> Panic"
  using assms
  by (auto simp: remove_old_backup_def fs_remove_file_def syscall_def
      split: fault.splits option.splits node.splits if_splits)

text \<open>
  Promotion: the temporary file holds the new bytes.  Afterwards the main file holds the old or
  the new bytes, or it is missing and the temporary file still holds the new ones.
\<close>

lemma replace_existing_main_effect:
  assumes ne: "p \<noteq> []" and main: "lookup d p = Some n" and tmp: "lookup d (temp_path p) = Some m"
    and run: "replace_existing_main p d = (r, d')"
  shows "lookup d' p = Some n \<or> lookup d' p = Some m
           \<or> (lookup d' p = None \<and> lookup d' (temp_path p) = Some m)"
    and "r = Ok () \<Longrightarrow> lookup d' p = Some m"
    and "q \<notin> slot_paths p \<Longrightarrow> lookup d' q = lookup d q"
    and "r \<noteq> Panic"
proof -
  obtain r1 d1 where s1: "remove_old_backup (backup_path p) d = (r1, d1)"
    by (cases "remove_old_backup (backup_path p) d")
  note ds = slot_distinct [OF ne] remove_old_backup_effect [OF s1]
  have "(lookup d' p = Some n \<or> lookup d' p = Some m
           \<or> (lookup d' p = None \<and> lookup d' (temp_path p) = Some m))
        \<and> (r = Ok () \<longrightarrow> lookup d' p = Some m)
        \<and> (q \<notin> slot_paths p \<longrightarrow> lookup d' q = lookup d q) \<and> r \<noteq> Panic"
    using run ne main tmp s1 ds
    by (cases r1)
      (auto simp: replace_existing_main_def fs_rename_def syscall_def slot_paths_def
        split: fault.splits option.splits if_splits)
  then show "lookup d' p = Some n \<or> lookup d' p = Some m
           \<or> (lookup d' p = None \<and> lookup d' (temp_path p) = Some m)"
    and "r = Ok () \<Longrightarrow> lookup d' p = Some m"
    and "q \<notin> slot_paths p \<Longrightarrow> lookup d' q = lookup d q"
    and "r \<noteq> Panic"
    by blast+
qed

lemma replace_main_effect:
  assumes ne: "p \<noteq> []" and tmp: "lookup d (temp_path p) = Some m"
    and run: "replace_main p d = (r, d')"
  shows "lookup d' p = lookup d p \<or> lookup d' p = Some m
           \<or> (lookup d' p = None \<and> lookup d' (temp_path p) = Some m)"
    and "lookup d' p \<noteq> None \<or> lookup d' (temp_path p) \<noteq> None"
    and "r = Ok () \<Longrightarrow> lookup d' p = Some m"
    and "q \<notin> slot_paths p \<Longrightarrow> lookup d' q = lookup d q"
    and "r \<noteq> Panic"
proof -
  obtain r1 d1 where s1: "fs_metadata p d = (r1, d1)" by (cases "fs_metadata p d")
  have same: "lookup d1 x = lookup d x" for x using io_frame(1) [OF s1] .
  have tmp1: "lookup d1 (temp_path p) = Some m" using tmp same by simp
  have all: "(lookup d' p = lookup d p \<or> lookup d' p = Some m
           \<or> (lookup d' p = None \<and> lookup d' (temp_path p) = Some m))
        \<and> (lookup d' p \<noteq> None \<or> lookup d' (temp_path p) \<noteq> None)
        \<and> (r = Ok () \<longrightarrow> lookup d' p = Some m)
        \<and> (q \<notin> slot_paths p \<longrightarrow> lookup d' q = lookup d q) \<and> r \<noteq> Panic"
  proof (cases "\<exists>c. r1 = Ok (File c)")
    case True
    then obtain c where c: "r1 = Ok (File c)" ..
    then have main: "lookup d1 p = Some (File c)"
      using s1 by (auto simp: fs_metadata_def syscall_def split: fault.splits)
    have "replace_existing_main p d1 = (r, d')" using run s1 c by (simp add: replace_main_def)
    from replace_existing_main_effect [OF ne main tmp1 this] show ?thesis
      using main same by (metis option.distinct(1))
  next
    case False
    then show ?thesis
      using run s1 tmp1 tmp same slot_distinct [OF ne]
      by (auto simp: replace_main_def fs_rename_def syscall_def slot_paths_def
          fs_metadata_def ok_or_def split: fault.splits option.splits if_splits node.splits result.splits)
  qed
  then show "lookup d' p = lookup d p \<or> lookup d' p = Some m
           \<or> (lookup d' p = None \<and> lookup d' (temp_path p) = Some m)"
    and "lookup d' p \<noteq> None \<or> lookup d' (temp_path p) \<noteq> None"
    and "r = Ok () \<Longrightarrow> lookup d' p = Some m"
    and "q \<notin> slot_paths p \<Longrightarrow> lookup d' q = lookup d q"
    and "r \<noteq> Panic"
    by blast+
qed

text \<open>
  One whole replacement, described by what it leaves on the disk.  Both file protocols of the
  program (this one and the risk ledger's) are shown to end in such a state, and the contract
  follows from it once.
\<close>

definition replacement :: "path \<Rightarrow> string \<Rightarrow> disk \<Rightarrow> (unit, 'e) result \<Rightarrow> disk \<Rightarrow> bool" where
  "replacement p c' d r d' \<longleftrightarrow>
     (\<forall>n. lookup d p = Some n \<longrightarrow> lookup d' p = Some n \<or> lookup d' p = Some (File c')
        \<or> (lookup d' p = None \<and> lookup d' (temp_path p) = Some (File c')))
   \<and> (slot_read d p \<noteq> None \<longrightarrow> slot_read d' p \<noteq> None)
   \<and> (r = Ok () \<longrightarrow> lookup d' p = Some (File c'))
   \<and> (\<forall>q. q \<notin> slot_paths p \<longrightarrow> lookup d' q = lookup d q
        \<or> (lookup d q = None \<and> lookup d' q = Some Dir \<and> length q < length p))
   \<and> r \<noteq> Panic"

lemma crash_safe_slotI:
  assumes "\<And>p c' d r d'. p \<noteq> [] \<Longrightarrow> save p c' d = (r, d') \<Longrightarrow> replacement p c' d r d'"
  shows "crash_safe_slot save"
  using assms by unfold_locales (fastforce simp: replacement_def)+

text \<open>A preparation that at most creates parent directories keeps every document slot.\<close>

lemma prepared_slot:
  assumes ne: "p \<noteq> []"
    and dirs: "\<And>q. lookup d0 q = lookup d q
      \<or> (lookup d q = None \<and> lookup d0 q = Some Dir \<and> q \<in> set (dir_chain (butlast p)))"
  shows "q \<in> slot_paths p \<Longrightarrow> lookup d0 q = lookup d q"
    and "slot_read d0 p = slot_read d p"
    and "lookup d0 q = lookup d q \<or> (lookup d q = None \<and> lookup d0 q = Some Dir \<and> length q < length p)"
proof -
  have slot: "lookup d0 q = lookup d q" if "q \<in> slot_paths p" for q
    using that dirs [of q] in_dir_chain_butlast [OF ne, of q] ne
    by (auto simp: slot_paths_def length_sibling_path)
  show "q \<in> slot_paths p \<Longrightarrow> lookup d0 q = lookup d q" by (rule slot)
  show "slot_read d0 p = slot_read d p" by (rule slot_read_cong) (rule slot)
  show "lookup d0 q = lookup d q \<or> (lookup d q = None \<and> lookup d0 q = Some Dir \<and> length q < length p)"
    using dirs [of q] dir_chain_length [of q "butlast p"] ne
    by (auto simp del: butlast.simps simp: Suc_le_eq [symmetric] le_diff_conv
        length_greater_0_conv [symmetric] simp del: length_greater_0_conv)
qed

lemma replacement_unprepared:
  assumes "p \<noteq> []" "r \<noteq> Ok ()" "r \<noteq> Panic"
    and "\<And>q. lookup d' q = lookup d q
      \<or> (lookup d q = None \<and> lookup d' q = Some Dir \<and> q \<in> set (dir_chain (butlast p)))"
  shows "replacement p c' d r d'"
proof -
  note ps = prepared_slot [OF assms(1,4)]
  have "lookup d' p = lookup d p" by (rule ps(1)) (simp add: slot_paths_def)
  then show ?thesis using ps(2,3) assms(2,3) by (auto simp: replacement_def)
qed

lemma replacement_after_temp:
  assumes ne: "p \<noteq> []"
    and dirs: "\<And>q. lookup d0 q = lookup d q
      \<or> (lookup d q = None \<and> lookup d0 q = Some Dir \<and> q \<in> set (dir_chain (butlast p)))"
    and tmp_frame: "\<And>q. q \<noteq> temp_path p \<Longrightarrow> lookup d1 q = lookup d0 q"
    and tmp_kept: "lookup d0 (temp_path p) \<noteq> None \<Longrightarrow> lookup d1 (temp_path p) \<noteq> None"
    and rest: "(r \<noteq> Ok () \<and> d2 = d1)
      \<or> (lookup d1 (temp_path p) = Some (File c')
         \<and> (lookup d2 p = lookup d1 p \<or> lookup d2 p = Some (File c')
             \<or> (lookup d2 p = None \<and> lookup d2 (temp_path p) = Some (File c')))
         \<and> (lookup d2 p \<noteq> None \<or> lookup d2 (temp_path p) \<noteq> None)
         \<and> (r = Ok () \<longrightarrow> lookup d2 p = Some (File c'))
         \<and> (\<forall>q. q \<notin> slot_paths p \<longrightarrow> lookup d2 q = lookup d1 q))"
    and "r \<noteq> Panic"
  shows "replacement p c' d r d2"
proof -
  note ps = prepared_slot [OF ne dirs]
  note sd = slot_distinct [OF ne]
  have main: "lookup d1 p = lookup d p"
    using tmp_frame [of p] ps(1) [of p] sd by (simp add: slot_paths_def)
  have bak: "lookup d1 (backup_path p) = lookup d (backup_path p)"
    using tmp_frame [of "backup_path p"] ps(1) [of "backup_path p"] sd by (simp add: slot_paths_def)
  have tmp: "lookup d (temp_path p) \<noteq> None \<Longrightarrow> lookup d1 (temp_path p) \<noteq> None"
    using tmp_kept ps(1) [of "temp_path p"] by (simp add: slot_paths_def)
  have present1: "slot_read d p \<noteq> None \<Longrightarrow> slot_read d1 p \<noteq> None"
    using main bak tmp by (auto simp: slot_read_None_iff slot_paths_def)
  have frame: "q \<notin> slot_paths p \<Longrightarrow> lookup d2 q = lookup d q
      \<or> (lookup d q = None \<and> lookup d2 q = Some Dir \<and> length q < length p)" for q
    using ps(3) [of q] rest tmp_frame [of q] by (auto simp: slot_paths_def)
  show ?thesis
    using rest main present1 frame assms(6) by (auto simp: replacement_def slot_read_None_iff slot_paths_def)
qed

lemma config_save_replacement:
  assumes ne: "p \<noteq> []" and run: "config_save p c' d = (r, d')"
  shows "replacement p c' d r d'"
proof -
  let ?prep = "if butlast p = [] then (Ok (), d)
    else io_map_err app_error_of_io (fs_create_dir_all (butlast p) d)"
  obtain r0 d0 where s0: "?prep = (r0, d0)" by (cases ?prep)
  have dirs: "lookup d0 q = lookup d q
      \<or> (lookup d q = None \<and> lookup d0 q = Some Dir \<and> q \<in> set (dir_chain (butlast p)))" for q
    using s0 create_dir_all_lookup [of "butlast p" d _ _ q]
    by (cases "fs_create_dir_all (butlast p) d") (auto simp: io_map_err_def split: if_splits)
  have np: "r0 \<noteq> Panic"
    using s0 io_never_panics(9) [of "butlast p" d]
    by (cases "fs_create_dir_all (butlast p) d"; cases "fst (fs_create_dir_all (butlast p) d)")
      (auto split: if_splits)
  show ?thesis
  proof (cases "r0 = Ok ()")
    case False
    with run s0 np have "d' = d0" "r \<noteq> Ok ()" "r \<noteq> Panic"
      by (cases r0; auto simp: config_save_def)+
    then show ?thesis using dirs by (intro replacement_unprepared [OF ne]) auto
  next
    case True
    obtain r1 d1 where s1: "write_temp (temp_path p) c' d0 = (r1, d1)"
      by (cases "write_temp (temp_path p) c' d0")
    note w = write_temp_effect [OF s1]
    have "(r \<noteq> Ok () \<and> r \<noteq> Panic \<and> d' = d1) \<or> (r1 = Ok () \<and> replace_main p d1 = (r, d'))"
      using run s0 s1 True w(4) by (cases r1) (auto simp: config_save_def)
    then show ?thesis
    proof
      assume "r \<noteq> Ok () \<and> r \<noteq> Panic \<and> d' = d1"
      then show ?thesis by (intro replacement_after_temp [OF ne dirs w(1) w(3)]) auto
    next
      assume a: "r1 = Ok () \<and> replace_main p d1 = (r, d')"
      then have t: "lookup d1 (temp_path p) = Some (File c')" using w(2) by simp
      from a have run2: "replace_main p d1 = (r, d')" by simp
      note m = replace_main_effect [OF ne t run2]
      show ?thesis by (rule replacement_after_temp [OF ne dirs w(1) w(3)]) (use t m in auto)
    qed
  qed
qed

interpretation config_slot: crash_safe_slot config_save
  by (rule crash_safe_slotI) (rule config_save_replacement)

end
