(* ===== verification/Risk_Ledger.thy ===== *)
theory Risk_Ledger
  imports Config_Persistence
begin

text \<open>
  \<^verbatim>\<open>storage/risk_usage.rs\<close>: the daily usage ledger on disk.  The TOML library is the record
  \<open>codec\<close>; \<open>codec_roundtrip\<close> is what the program relies on.
\<close>

record 'a codec =
  encode :: "'a \<Rightarrow> string option"
  decode :: "string \<Rightarrow> 'a option"
  codec_error_text :: "string \<Rightarrow> string"

definition codec_roundtrip :: "'a codec \<Rightarrow> bool" where
  "codec_roundtrip C \<longleftrightarrow> (\<forall>v s. encode C v = Some s \<longrightarrow> decode C s = Some v)"

record risk_usage =
  ru_schema_version :: u32
  ru_trading_day :: string
  ru_timezone :: string
  ru_occupied_orders :: u32
  ru_updated_at_ms :: u64

section \<open>Operations\<close>

definition path_display :: "path \<Rightarrow> string" where
  "path_display p = join ''/'' p"

definition ledger_io_error :: "io_error \<Rightarrow> app_error" where
  "ledger_io_error e = EStorage (io_text e)"

definition read_usage ::
  "risk_usage codec \<Rightarrow> path \<Rightarrow> disk \<Rightarrow> (risk_usage, app_error) result \<times> disk" where
  "read_usage C p d =
     io_bind (io_map_err ledger_io_error (fs_read p d)) (\<lambda>text d.
       (ok_or (decode C text)
          (EStorage ((utf8 [26080, 27861, 35835, 21462, 39118, 25511, 29992, 37327, 36134, 26412, 32]) @ path_display p @ '': '' @ codec_error_text C text)), d))"

definition ledger_load ::
  "risk_usage codec \<Rightarrow> path \<Rightarrow> disk \<Rightarrow> (risk_usage option, app_error) result \<times> disk" where
  "ledger_load C p d =
     (case path_exists p d of
        (True, d) \<Rightarrow> io_bind (read_usage C p d) (\<lambda>u d. (Ok (Some u), d))
      | (False, d) \<Rightarrow>
        (case path_exists (temp_path p) d of
           (True, d) \<Rightarrow> io_bind (read_usage C (temp_path p) d) (\<lambda>u d. (Ok (Some u), d))
         | (False, d) \<Rightarrow>
           (case path_exists (backup_path p) d of
              (True, d) \<Rightarrow>
                (Err (EStorage ((utf8 [39118, 25511, 29992, 37327, 20027, 36134, 26412, 32570, 22833, 65292, 19988, 20165, 23384, 22312,
      26080, 27861, 30830, 35748, 26102, 25928, 30340, 22791, 20221, 58, 32])
                       @ path_display (backup_path p))), d)
            | (False, d) \<Rightarrow> (Ok None, d))))"

definition ledger_write_temp :: "path \<Rightarrow> string \<Rightarrow> disk \<Rightarrow> (unit, app_error) result \<times> disk" where
  "ledger_write_temp t text d = io_map_err ledger_io_error
     (io_bind (open_truncate t d) (\<lambda>_ d.
      io_bind (write_all t text d) (\<lambda>_ d.
      sync_all d)))"

definition ledger_promote :: "path \<Rightarrow> disk \<Rightarrow> (unit, app_error) result \<times> disk" where
  "ledger_promote p d =
     (let (backup_exists, d) = path_exists (backup_path p) d in
      io_bind (if backup_exists
               then io_map_err ledger_io_error (fs_remove_file (backup_path p) d)
               else (Ok (), d)) (\<lambda>_ d.
      let (had_main, d) = path_exists p d in
      io_bind (if had_main
               then io_map_err ledger_io_error (fs_rename p (backup_path p) d)
               else (Ok (), d)) (\<lambda>_ d.
        case fs_rename (temp_path p) p d of
          (Ok _, d) \<Rightarrow> (Ok (), d)
        | (Err e, d) \<Rightarrow>
            if had_main
            then (let (backup_there, d) = path_exists (backup_path p) d in
                  (Err (ledger_io_error e),
                   if backup_there then snd (fs_rename (backup_path p) p d) else d))
            else (Err (ledger_io_error e), d)
        | (Panic, d) \<Rightarrow> (Panic, d))))"

text \<open>\<^verbatim>\<open>RiskUsageStore::save\<close>; the parent directory is created before the text is produced.\<close>

definition ledger_save_text :: "path \<Rightarrow> string \<Rightarrow> disk \<Rightarrow> (unit, app_error) result \<times> disk" where
  "ledger_save_text p text d =
     io_bind (io_map_err ledger_io_error (fs_create_dir_all (butlast p) d)) (\<lambda>_ d.
     io_bind (ledger_write_temp (temp_path p) text d) (\<lambda>_ d.
     ledger_promote p d))"

definition ledger_save ::
  "risk_usage codec \<Rightarrow> path \<Rightarrow> risk_usage \<Rightarrow> disk \<Rightarrow> (unit, app_error) result \<times> disk" where
  "ledger_save C p usage d =
     io_bind (io_map_err ledger_io_error (fs_create_dir_all (butlast p) d)) (\<lambda>_ d.
     case encode C usage of
       None \<Rightarrow> (Err (EStorage (codec_error_text C [])), d)
     | Some text \<Rightarrow>
         io_bind (ledger_write_temp (temp_path p) text d) (\<lambda>_ d.
         ledger_promote p d))"

lemma ledger_save_text_eq:
  "encode C u = Some text \<Longrightarrow> ledger_save C p u d = ledger_save_text p text d"
  by (simp add: ledger_save_def ledger_save_text_def)

section \<open>The ledger file is replaced crash-safely\<close>

lemma ledger_write_temp_effect:
  assumes "ledger_write_temp t c d = (r, d')"
  shows "q \<noteq> t \<Longrightarrow> lookup d' q = lookup d q"
    and "r = Ok () \<Longrightarrow> lookup d' t = Some (File c)"
    and "lookup d t \<noteq> None \<Longrightarrow> lookup d' t \<noteq> None"
    and "r \<noteq> Panic"
  using assms
  by (auto simp: ledger_write_temp_def open_truncate_def write_all_def sync_all_def syscall_def
      split: fault.splits option.splits node.splits if_splits)

text \<open>The tail of the promotion: main and backup may have been rotated already.\<close>

definition promote_tail :: "path \<Rightarrow> bool \<Rightarrow> disk \<Rightarrow> (unit, app_error) result \<times> disk" where
  "promote_tail p had_main d =
     io_bind (if had_main
              then io_map_err ledger_io_error (fs_rename p (backup_path p) d)
              else (Ok (), d)) (\<lambda>_ d.
       case fs_rename (temp_path p) p d of
         (Ok _, d) \<Rightarrow> (Ok (), d)
       | (Err e, d) \<Rightarrow>
           if had_main
           then (let (backup_there, d) = path_exists (backup_path p) d in
                 (Err (ledger_io_error e),
                  if backup_there then snd (fs_rename (backup_path p) p d) else d))
           else (Err (ledger_io_error e), d)
       | (Panic, d) \<Rightarrow> (Panic, d))"

lemma promote_tail_effect:
  assumes ne: "p \<noteq> []" and tmp: "lookup d (temp_path p) = Some m"
    and run: "promote_tail p h d = (r, d')"
  shows "(lookup d' p = lookup d p \<or> lookup d' p = Some m
           \<or> (lookup d' p = None \<and> lookup d' (temp_path p) = Some m))
      \<and> (lookup d' p \<noteq> None \<or> lookup d' (temp_path p) \<noteq> None)
      \<and> (r = Ok () \<longrightarrow> lookup d' p = Some m)
      \<and> (q \<notin> slot_paths p \<longrightarrow> lookup d' q = lookup d q) \<and> r \<noteq> Panic"
  using run tmp slot_distinct [OF ne]
  by (cases h)
    (auto simp: promote_tail_def fs_rename_def path_exists_def fs_metadata_def syscall_def slot_paths_def Let_def
      split: fault.splits option.splits if_splits)

lemma ledger_promote_effect:
  assumes ne: "p \<noteq> []" and tmp: "lookup d (temp_path p) = Some m"
    and run: "ledger_promote p d = (r, d')"
  shows "(lookup d' p = lookup d p \<or> lookup d' p = Some m
           \<or> (lookup d' p = None \<and> lookup d' (temp_path p) = Some m))
      \<and> (lookup d' p \<noteq> None \<or> lookup d' (temp_path p) \<noteq> None)
      \<and> (r = Ok () \<longrightarrow> lookup d' p = Some m)
      \<and> (q \<notin> slot_paths p \<longrightarrow> lookup d' q = lookup d q) \<and> r \<noteq> Panic"
proof -
  obtain b d1 where s1: "path_exists (backup_path p) d = (b, d1)"
    by (cases "path_exists (backup_path p) d")
  let ?rm = "if b then io_map_err ledger_io_error (fs_remove_file (backup_path p) d1) else (Ok (), d1)"
  obtain r2 d2 where s2: "?rm = (r2, d2)" by (cases ?rm)
  obtain h d3 where s3: "path_exists p d2 = (h, d3)" by (cases "path_exists p d2")
  have f2: "lookup d2 x = lookup d x" if "x \<noteq> backup_path p" for x
    using s2 io_frame(2) [OF s1] io_frame_at(4) [of "backup_path p" d1 _ _ x] that
    by (cases "fs_remove_file (backup_path p) d1") (auto simp: io_map_err_def split: if_splits)
  have f3: "lookup d3 x = lookup d x" if "x \<noteq> backup_path p" for x
    using io_frame(2) [OF s3] f2 that by simp
  have np: "r2 \<noteq> Panic"
    using s2 io_never_panics(8) [of "backup_path p" d1]
    by (cases "fs_remove_file (backup_path p) d1"; cases "fst (fs_remove_file (backup_path p) d1)")
      (auto split: if_splits)
  have step: "ledger_promote p d = io_bind (r2, d2) (\<lambda>_ d. let (h, d) = path_exists p d in promote_tail p h d)"
    using s1 s2 by (simp add: ledger_promote_def promote_tail_def Let_def)
  have tmp2: "lookup d2 (temp_path p) = Some m" and tmp3: "lookup d3 (temp_path p) = Some m"
    using tmp f2 f3 slot_distinct [OF ne] by auto
  show ?thesis
  proof (cases "r2 = Ok ()")
    case True
    then have "promote_tail p h d3 = (r, d')" using run step s3 by simp
    from promote_tail_effect [OF ne tmp3 this] show ?thesis
      using f3 slot_distinct [OF ne] by (auto simp: slot_paths_def)
  next
    case False
    then have "d' = d2" "r \<noteq> Ok ()" "r \<noteq> Panic" using run step np by (cases r2; auto)+
    then show ?thesis using f2 tmp2 slot_distinct [OF ne] by (auto simp: slot_paths_def)
  qed
qed

lemma ledger_save_text_replacement:
  assumes ne: "p \<noteq> []" and run: "ledger_save_text p c' d = (r, d')"
  shows "replacement p c' d r d'"
proof -
  obtain r0 d0 where s0: "fs_create_dir_all (butlast p) d = (r0, d0)"
    by (cases "fs_create_dir_all (butlast p) d")
  note dirs = create_dir_all_lookup [OF s0]
  have np: "r0 \<noteq> Panic" using io_never_panics(9) [of "butlast p" d] s0 by auto
  show ?thesis
  proof (cases "r0 = Ok ()")
    case False
    with run s0 np have "d' = d0" "r \<noteq> Ok ()" "r \<noteq> Panic"
      by (cases r0; auto simp: ledger_save_text_def)+
    then show ?thesis using dirs by (intro replacement_unprepared [OF ne]) auto
  next
    case True
    obtain r1 d1 where s1: "ledger_write_temp (temp_path p) c' d0 = (r1, d1)"
      by (cases "ledger_write_temp (temp_path p) c' d0")
    note w = ledger_write_temp_effect [OF s1]
    have "(r \<noteq> Ok () \<and> r \<noteq> Panic \<and> d' = d1) \<or> (r1 = Ok () \<and> ledger_promote p d1 = (r, d'))"
      using run s0 s1 True w(4) by (cases r1) (auto simp: ledger_save_text_def)
    then show ?thesis
    proof
      assume "r \<noteq> Ok () \<and> r \<noteq> Panic \<and> d' = d1"
      then show ?thesis by (intro replacement_after_temp [OF ne dirs w(1) w(3)]) auto
    next
      assume a: "r1 = Ok () \<and> ledger_promote p d1 = (r, d')"
      then have t: "lookup d1 (temp_path p) = Some (File c')" using w(2) by simp
      from a have run2: "ledger_promote p d1 = (r, d')" by simp
      note m = ledger_promote_effect [OF ne t run2]
      show ?thesis by (rule replacement_after_temp [OF ne dirs w(1) w(3)]) (use t m in auto)
    qed
  qed
qed

interpretation ledger_slot: crash_safe_slot ledger_save_text
  by (rule crash_safe_slotI) (rule ledger_save_text_replacement)

section \<open>What a restart reads\<close>

text \<open>Reading back on a disk whose calls do not fail.\<close>

definition settled :: "disk \<Rightarrow> disk" where
  "settled d = d\<lparr>faults := []\<rparr>"

definition ledger_reload :: "risk_usage codec \<Rightarrow> path \<Rightarrow> disk \<Rightarrow> (risk_usage option, app_error) result" where
  "ledger_reload C p d = fst (ledger_load C p (settled d))"

lemma settled_simps [simp]:
  "lookup (settled d) p = lookup d p" "next_fault (settled d) = NoFault"
  "tick (settled d) = settled d" "settled (settled d) = settled d"
  by (simp_all add: settled_def next_fault_def tick_def)

lemma ledger_reload_main:
  assumes "lookup d p = Some (File c)" and "decode C c = Some u"
  shows "ledger_reload C p d = Ok (Some u)"
  using assms
  by (simp add: ledger_reload_def ledger_load_def path_exists_def fs_metadata_def fs_read_def
      read_usage_def syscall_def Let_def)

lemma ledger_reload_temp:
  assumes "p \<noteq> []" "lookup d p = None" "lookup d (temp_path p) = Some (File c)" "decode C c = Some u"
  shows "ledger_reload C p d = Ok (Some u)"
  using assms
  by (simp add: ledger_reload_def ledger_load_def path_exists_def fs_metadata_def fs_read_def
      read_usage_def syscall_def Let_def)

lemma ledger_save_reload:
  assumes ne: "p \<noteq> []" and rt: "codec_roundtrip C"
    and main: "lookup d p = Some (File c)" "decode C c = Some old"
    and run: "ledger_save C p new d = (r, d')"
  shows "ledger_reload C p d' = Ok (Some old) \<or> ledger_reload C p d' = Ok (Some new)"
proof (cases "encode C new")
  case None
  obtain r0 d0 where s0: "fs_create_dir_all (butlast p) d = (r0, d0)"
    by (cases "fs_create_dir_all (butlast p) d")
  have "d' = d0" using run s0 None by (cases r0) (auto simp: ledger_save_def)
  moreover have "lookup d0 p = lookup d p"
    using prepared_slot(1) [OF ne create_dir_all_lookup [OF s0]] by (simp add: slot_paths_def)
  ultimately show ?thesis using main ledger_reload_main [of d' p c] by simp
next
  case (Some bs)
  then have dec: "decode C bs = Some new" using rt by (simp add: codec_roundtrip_def)
  have "ledger_save_text p bs d = (r, d')" using run Some by (simp add: ledger_save_text_eq)
  from ledger_slot.save_old_or_new [OF ne main(1) this] show ?thesis
    using ledger_reload_main ledger_reload_temp [OF ne] main(2) dec by metis
qed

lemma ledger_save_Ok_reload:
  assumes "p \<noteq> []" "codec_roundtrip C" "ledger_save C p new d = (Ok (), d')"
  shows "ledger_reload C p d' = Ok (Some new)"
proof -
  obtain bs where enc: "encode C new = Some bs"
    using assms(3) by (cases "encode C new") (auto simp: ledger_save_def io_bind_Ok_iff)
  then have "lookup d' p = Some (File bs)"
    using ledger_slot.save_ok assms(1,3) by (simp add: ledger_save_text_eq)
  then show ?thesis using enc assms(2) ledger_reload_main by (simp add: codec_roundtrip_def)
qed

lemma ledger_save_total:
  assumes "p \<noteq> []" "ledger_save C p u d = (r, d')"
  shows "r \<noteq> Panic"
proof (cases "encode C u")
  case None
  then show ?thesis
    using assms io_never_panics(9) [of "butlast p" d]
    by (cases "fs_create_dir_all (butlast p) d"; cases "fst (fs_create_dir_all (butlast p) d)")
      (auto simp: ledger_save_def)
next
  case (Some bs)
  then show ?thesis using assms ledger_slot.save_total by (simp add: ledger_save_text_eq)
qed

end
