(* ===== verification/Risk_Service.thy ===== *)
theory Risk_Service
  imports Risk_Validation Risk_Ledger
begin

text \<open>
  \<^verbatim>\<open>services/risk.rs\<close>, \<^verbatim>\<open>services/risk/status.rs\<close> and \<^verbatim>\<open>commands/risk.rs\<close>: reservation of the daily
  quota, its release, the status shown to the user and the update of the configuration.

  The service's mutex is held for a whole reservation or release, so these are atomic steps on
  \<open>risk_service\<close>; the field \<open>rs_poisoned\<close> is the mutex's poison flag.  The ledger's directory is
  the disk \<open>rs_disk\<close>.
\<close>

section \<open>State\<close>

record risk_env =
  re_dec :: decimal_api
  re_tz :: tz_api
  re_codec :: "risk_usage codec"
  re_show :: "f64 \<Rightarrow> string"

record risk_reservation =
  res_trading_day :: string
  res_timezone :: string
  res_counted :: bool

definition reservation_not_counted :: risk_reservation where
  "reservation_not_counted = \<lparr>res_trading_day = [], res_timezone = [], res_counted = False\<rparr>"

definition reservation_counted :: "string \<Rightarrow> string \<Rightarrow> risk_reservation" where
  "reservation_counted day tz = \<lparr>res_trading_day = day, res_timezone = tz, res_counted = True\<rparr>"

record risk_service =
  rs_config :: risk_config
  rs_path :: path
  rs_disk :: disk
  rs_poisoned :: bool
  rs_usage :: "risk_usage option"
  rs_load_error :: "string option"

section \<open>Operations\<close>

definition load_usage ::
  "risk_env \<Rightarrow> path \<Rightarrow> disk \<Rightarrow> (risk_usage option \<times> string option) \<times> disk" where
  "load_usage E p d =
     (case ledger_load (re_codec E) p d of
        (Ok usage, d') \<Rightarrow> ((usage, None), d')
      | (Err e, d') \<Rightarrow> ((None, Some (user_message e)), d')
      | (Panic, d') \<Rightarrow> ((None, None), d'))"

definition risk_with_store :: "risk_env \<Rightarrow> risk_config \<Rightarrow> path \<Rightarrow> disk \<Rightarrow> risk_service" where
  "risk_with_store E c p d =
     (let ((usage, load_error), d') =
            (if rc_enabled c then load_usage E p d else ((None, None), d))
      in \<lparr>rs_config = c, rs_path = p, rs_disk = d', rs_poisoned = False,
          rs_usage = usage, rs_load_error = load_error\<rparr>)"

definition risk_update_config :: "risk_env \<Rightarrow> risk_config \<Rightarrow> risk_service \<Rightarrow> risk_service" where
  "risk_update_config E c s =
     (let was_enabled = rc_enabled (rs_config s); s = s\<lparr>rs_config := c\<rparr> in
      if \<not> rc_enabled c then
        (if rs_poisoned s then s else s\<lparr>rs_usage := None, rs_load_error := None\<rparr>)
      else if \<not> was_enabled then
        (let ((usage, load_error), d') = load_usage E (rs_path s) (rs_disk s);
             s = s\<lparr>rs_disk := d'\<rparr> in
         if rs_poisoned s then s else s\<lparr>rs_usage := usage, rs_load_error := load_error\<rparr>)
      else s)"

definition requires_reference_price :: "risk_service \<Rightarrow> place_order_request \<Rightarrow> bool" where
  "requires_reference_price s request \<longleftrightarrow>
     rc_enabled (rs_config s) \<and> eq_ignore_ascii_case (r_order_type request) ''limit''"

text \<open>The ledger entry a reservation starts from: today's, or a fresh one.\<close>

definition current_usage :: "risk_usage option \<Rightarrow> string \<Rightarrow> string \<Rightarrow> u64 \<Rightarrow> risk_usage" where
  "current_usage usage day tz now =
     (case usage of
        Some u \<Rightarrow> if ru_trading_day u = day \<and> ru_timezone u = tz then u
          else \<lparr>ru_schema_version = 1, ru_trading_day = day, ru_timezone = tz,
                ru_occupied_orders = 0, ru_updated_at_ms = now\<rparr>
      | None \<Rightarrow> \<lparr>ru_schema_version = 1, ru_trading_day = day, ru_timezone = tz,
                ru_occupied_orders = 0, ru_updated_at_ms = now\<rparr>)"

definition reserve_order ::
  "risk_env \<Rightarrow> place_order_request \<Rightarrow> string option \<Rightarrow> u64 \<Rightarrow> risk_service
     \<Rightarrow> (risk_reservation, risk_violation) result \<times> risk_service" where
  "reserve_order E request reference now s =
     (if \<not> rc_enabled (rs_config s) then (Ok reservation_not_counted, s) else
      case validate_order (re_dec E) (rs_config s) request reference of
        Err v \<Rightarrow> (Err v, s)
      | Panic \<Rightarrow> (Panic, s)
      | Ok _ \<Rightarrow>
        if r_reduce_only request = Some True then (Ok reservation_not_counted, s) else
        let tz = resolve_trading_day_timezone (re_tz E) (rc_trading_day_timezone (rs_config s));
            day = trading_day_key (re_tz E) now tz in
        if rs_poisoned s then (Err (violation_new LedgerUnavailable), s)
        else if rs_load_error s \<noteq> None then (Err (violation_new LedgerUnavailable), s)
        else
          let cur = current_usage (rs_usage s) day tz now in
          if rc_max_daily_orders (rs_config s) \<le> ru_occupied_orders cur
          then (Err (violation_with_limit DailyOrderLimit
                       (f64_from_u32 (rc_max_daily_orders (rs_config s)))), s)
          else
            let nxt = cur\<lparr>ru_occupied_orders := ru_occupied_orders cur + 1, ru_updated_at_ms := now\<rparr> in
            (case ledger_save (re_codec E) (rs_path s) nxt (rs_disk s) of
               (Ok _, d') \<Rightarrow> (Ok (reservation_counted day tz), s\<lparr>rs_disk := d', rs_usage := Some nxt\<rparr>)
             | (Err e, d') \<Rightarrow> (Err (violation_new LedgerUnavailable), s\<lparr>rs_disk := d'\<rparr>)
             | (Panic, d') \<Rightarrow> (Panic, s\<lparr>rs_disk := d', rs_poisoned := True\<rparr>)))"

definition msg_lock_poisoned :: string where
  "msg_lock_poisoned = (utf8 [39118, 25511, 29992, 37327, 38145, 24050, 25439, 22351])"

definition release_reservation ::
  "risk_env \<Rightarrow> risk_reservation \<Rightarrow> u64 \<Rightarrow> risk_service \<Rightarrow> (unit, app_error) result \<times> risk_service" where
  "release_reservation E res now s =
     (if \<not> res_counted res then (Ok (), s)
      else if rs_poisoned s then (Err (EStorage msg_lock_poisoned), s)
      else case rs_usage s of
        None \<Rightarrow> (Ok (), s)
      | Some cur \<Rightarrow>
          if ru_trading_day cur \<noteq> res_trading_day res \<or> ru_timezone cur \<noteq> res_timezone res then (Ok (), s)
          else
            let nxt = cur\<lparr>ru_occupied_orders := saturating_sub (ru_occupied_orders cur) 1,
                          ru_updated_at_ms := now\<rparr> in
            (case ledger_save (re_codec E) (rs_path s) nxt (rs_disk s) of
               (Ok _, d') \<Rightarrow> (Ok (), s\<lparr>rs_disk := d', rs_usage := Some nxt\<rparr>)
             | (Err e, d') \<Rightarrow> (Err e, s\<lparr>rs_disk := d'\<rparr>)
             | (Panic, d') \<Rightarrow> (Panic, s\<lparr>rs_disk := d', rs_poisoned := True\<rparr>)))"

section \<open>Status\<close>

datatype risk_ledger_state = LedgerDisabled | LedgerReady | LedgerStateUnavailable

record risk_status =
  st_enabled :: bool
  st_max_order_qty :: string
  st_max_price_deviation_pct :: string
  st_max_daily_orders :: u32
  st_trading_day_timezone :: string
  st_ledger_state :: risk_ledger_state
  st_trading_day :: string
  st_occupied_orders :: "u32 option"
  st_remaining_orders :: "u32 option"
  st_updated_at_ms :: "u64 option"
  st_error :: "string option"

definition msg_ledger_unavailable :: string where
  "msg_ledger_unavailable = (utf8 [39118, 25511, 29992, 37327, 36134, 26412, 19981, 21487, 29992, 65292, 35831, 26816, 26597, 26412,
      22320, 23384, 20648, 26435, 38480, 25110, 25991, 20214, 26684, 24335, 12290])"

definition risk_status_of :: "risk_env \<Rightarrow> u64 \<Rightarrow> risk_service \<Rightarrow> risk_status" where
  "risk_status_of E now s =
     (let c = rs_config s; tz = rc_trading_day_timezone c; day = trading_day_key (re_tz E) now tz;
          base = (\<lambda>ledger occupied remaining updated err.
            \<lparr>st_enabled = rc_enabled c, st_max_order_qty = rc_max_order_qty c,
             st_max_price_deviation_pct = rc_max_price_deviation_pct c,
             st_max_daily_orders = rc_max_daily_orders c, st_trading_day_timezone = tz,
             st_ledger_state = ledger, st_trading_day = day, st_occupied_orders = occupied,
             st_remaining_orders = remaining, st_updated_at_ms = updated, st_error = err\<rparr>);
          unavailable = base LedgerStateUnavailable None None None (Some msg_ledger_unavailable)
      in
      if \<not> rc_enabled c then base LedgerDisabled None None None None
      else if rs_poisoned s then unavailable
      else if rs_load_error s \<noteq> None then unavailable
      else case rs_usage s of
        Some u \<Rightarrow>
          if ru_trading_day u = day \<and> ru_timezone u = tz
          then base LedgerReady (Some (ru_occupied_orders u))
                 (Some (saturating_sub (rc_max_daily_orders c) (ru_occupied_orders u)))
                 (Some (ru_updated_at_ms u)) None
          else base LedgerReady (Some 0) (Some (rc_max_daily_orders c)) None None
      | None \<Rightarrow> base LedgerReady (Some 0) (Some (rc_max_daily_orders c)) None None)"

section \<open>Configuration update\<close>

record update_risk_config_request =
  uq_enabled :: bool
  uq_max_order_qty :: string
  uq_max_price_deviation_pct :: string
  uq_max_daily_orders :: u32
  uq_trading_day_timezone :: string

definition normalize_request :: "update_risk_config_request \<Rightarrow> risk_config" where
  "normalize_request q =
     \<lparr>rc_max_order_qty = trim (uq_max_order_qty q),
      rc_max_price_deviation_pct = trim (uq_max_price_deviation_pct q),
      rc_max_daily_orders = uq_max_daily_orders q,
      rc_trading_day_timezone = trim (uq_trading_day_timezone q),
      rc_enabled = uq_enabled q\<rparr>"

text \<open>The application configuration: its risk section, and the rest as an opaque value.\<close>

record 'r app_config =
  ac_risk_enabled :: bool
  ac_risk_max_order_qty :: string
  ac_risk_max_price_deviation_pct :: string
  ac_risk_max_daily_orders :: u32
  ac_trading_day_timezone :: string
  ac_rest :: 'r

definition risk_config_of_app :: "'r app_config \<Rightarrow> risk_config" where
  "risk_config_of_app c =
     \<lparr>rc_max_order_qty = ac_risk_max_order_qty c,
      rc_max_price_deviation_pct = ac_risk_max_price_deviation_pct c,
      rc_max_daily_orders = ac_risk_max_daily_orders c,
      rc_trading_day_timezone = ac_trading_day_timezone c,
      rc_enabled = ac_risk_enabled c\<rparr>"

definition apply_to_app_config :: "risk_config \<Rightarrow> 'r app_config \<Rightarrow> 'r app_config" where
  "apply_to_app_config c a = a\<lparr>ac_risk_enabled := rc_enabled c,
     ac_risk_max_order_qty := rc_max_order_qty c,
     ac_risk_max_price_deviation_pct := rc_max_price_deviation_pct c,
     ac_risk_max_daily_orders := rc_max_daily_orders c,
     ac_trading_day_timezone := rc_trading_day_timezone c\<rparr>"

text \<open>
  \<^verbatim>\<open>apply_risk_config_update\<close>.  \<open>store_save\<close> is \<^verbatim>\<open>ConfigStore::save\<close> on the configuration file's
  state \<open>'f\<close>; the runtime configuration and the service are written only after it succeeded.
\<close>

definition apply_risk_config_update ::
  "risk_env \<Rightarrow> ('r app_config \<Rightarrow> 'f \<Rightarrow> (unit, app_error) result \<times> 'f) \<Rightarrow> update_risk_config_request \<Rightarrow> u64
     \<Rightarrow> 'r app_config \<Rightarrow> risk_service \<Rightarrow> 'f
     \<Rightarrow> (risk_status \<times> bool, app_error) result \<times> 'r app_config \<times> risk_service \<times> 'f" where
  "apply_risk_config_update E store_save request now runtime svc f =
     (let c = normalize_request request in
      case validate_risk_config (re_dec E) (re_tz E) c of
        Err e \<Rightarrow> (Err e, runtime, svc, f)
      | Panic \<Rightarrow> (Panic, runtime, svc, f)
      | Ok _ \<Rightarrow>
        let timezone_changed = (ac_trading_day_timezone runtime \<noteq> rc_trading_day_timezone c);
            nxt = apply_to_app_config c runtime in
        (case store_save nxt f of
           (Err e, f') \<Rightarrow> (Err e, runtime, svc, f')
         | (Panic, f') \<Rightarrow> (Panic, runtime, svc, f')
         | (Ok _, f') \<Rightarrow>
             let svc' = risk_update_config E c svc in
             (Ok (risk_status_of E now svc', timezone_changed), nxt, svc', f')))"

end
