(* ===== verification/Risk_Quota.thy ===== *)
theory Risk_Quota
  imports Risk_Service
begin

text \<open>
  The daily quota as its clients see it: the locale \<open>quota_ledger\<close> is the contract between the
  risk service and the order path, and the interpretation \<open>risk_quota\<close> discharges it for
  \<^verbatim>\<open>RiskService\<close>.
\<close>

section \<open>The contract\<close>

text \<open>Runs of one operation over a list of inputs, collecting the results.\<close>

fun run_all :: "('r \<Rightarrow> 's \<Rightarrow> 'a \<times> 's) \<Rightarrow> 'r list \<Rightarrow> 's \<Rightarrow> 'a list \<times> 's" where
  "run_all f [] s = ([], s)"
| "run_all f (x # xs) s =
     (let (y, s1) = f x s; (ys, s2) = run_all f xs s1 in (y # ys, s2))"

locale quota_ledger =
  fixes reserve :: "'r \<Rightarrow> 's \<Rightarrow> ('k, 'v) result \<times> 's"
    and release :: "'k \<Rightarrow> 's \<Rightarrow> (unit, 'e) result \<times> 's"
    and counted :: "'k \<Rightarrow> bool"
    and used :: "'s \<Rightarrow> nat"
    and limit :: "'s \<Rightarrow> nat"
    and today :: "'r \<Rightarrow> 's \<Rightarrow> bool"
    and invar :: "'s \<Rightarrow> bool"
  assumes reserve_counted:
      "invar s \<Longrightarrow> today x s \<Longrightarrow> reserve x s = (Ok k, s') \<Longrightarrow> counted k
        \<Longrightarrow> used s' = used s + 1 \<and> used s' \<le> limit s"
    and reserve_uncounted:
      "invar s \<Longrightarrow> reserve x s = (r, s') \<Longrightarrow> (\<forall>k. r = Ok k \<longrightarrow> \<not> counted k) \<Longrightarrow> used s' = used s"
    and release_undoes:
      "invar s \<Longrightarrow> today x s \<Longrightarrow> reserve x s = (Ok k, s1) \<Longrightarrow> release k s1 = (Ok (), s2) \<Longrightarrow> used s2 = used s"
    and release_failed:
      "invar s \<Longrightarrow> release k s = (Err e, s') \<Longrightarrow> used s' = used s"
    and reserve_invar: "invar s \<Longrightarrow> reserve x s = (r, s') \<Longrightarrow> invar s' \<and> limit s' = limit s"
    and reserve_today: "invar s \<Longrightarrow> reserve x s = (r, s') \<Longrightarrow> today y s' = today y s"
    and release_invar: "invar s \<Longrightarrow> release k s = (q, s') \<Longrightarrow> invar s' \<and> limit s' = limit s"
begin

definition grants :: "('k, 'v) result list \<Rightarrow> nat" where
  "grants rs = length (filter (\<lambda>r. case r of Ok k \<Rightarrow> counted k | _ \<Rightarrow> False) rs)"

text \<open>Every grant of a day is in the ledger, and the ledger never passes the limit.\<close>

lemma run_accounts:
  assumes "invar s" and "\<forall>x\<in>set xs. today x s" and "run_all reserve xs s = (rs, s')"
  shows "used s' = used s + grants rs" and "used s \<le> limit s \<Longrightarrow> used s' \<le> limit s"
proof -
  have "used s' = used s + grants rs \<and> (used s \<le> limit s \<longrightarrow> used s' \<le> limit s)"
    using assms
  proof (induction xs arbitrary: s rs s')
    case Nil
    then show ?case by (simp add: grants_def)
  next
    case (Cons x xs)
    obtain y s1 where y: "reserve x s = (y, s1)" by (cases "reserve x s")
    obtain ys s2 where ys: "run_all reserve xs s1 = (ys, s2)" by (cases "run_all reserve xs s1")
    have eqs: "rs = y # ys" "s' = s2" using Cons.prems(3) y ys by auto
    have inv1: "invar s1" "limit s1 = limit s" using reserve_invar [OF Cons.prems(1) y] by auto
    have today1: "\<forall>z\<in>set xs. today z s1"
      using Cons.prems(2) reserve_today [OF Cons.prems(1) y] by simp
    note IH = Cons.IH [OF inv1(1) today1 ys]
    show ?case
    proof (cases "\<exists>k. y = Ok k \<and> counted k")
      case True
      then obtain k where k: "y = Ok k" "counted k" by blast
      have "used s1 = used s + 1 \<and> used s1 \<le> limit s"
        by (rule reserve_counted [OF Cons.prems(1) _ _ k(2)]) (use Cons.prems(2) y k(1) in auto)
      then show ?thesis using IH eqs inv1 k by (simp add: grants_def)
    next
      case False
      then have "used s1 = used s" using reserve_uncounted [OF Cons.prems(1) y] by blast
      moreover have "grants (y # ys) = grants ys" using False by (cases y) (simp_all add: grants_def)
      ultimately show ?thesis using IH eqs inv1 by auto
    qed
  qed
  then show "used s' = used s + grants rs" and "used s \<le> limit s \<Longrightarrow> used s' \<le> limit s" by auto
qed

text \<open>A reservation kept or given back: the two ways a client ends an attempt.\<close>

lemma attempt_effect:
  assumes "invar s" "today x s" "reserve x s = (Ok k, s1)" "release k s1 = (q, s2)" "q \<noteq> Panic"
  shows "used s2 = used s \<or> (counted k \<and> used s2 = used s + 1 \<and> is_err q)"
proof (cases q)
  case (Ok u)
  then show ?thesis using release_undoes assms by simp
next
  case (Err e)
  have inv1: "invar s1" using reserve_invar assms(1,3) by blast
  have "used s2 = used s1" using release_failed [OF inv1] assms(4) Err by simp
  moreover have "used s1 = used s \<or> (counted k \<and> used s1 = used s + 1)"
    using reserve_counted [OF assms(1-3)] reserve_uncounted [OF assms(1,3)] by auto
  ultimately show ?thesis using Err by auto
qed (use assms in simp)

end

section \<open>The risk service meets the contract\<close>

definition service_zone :: "risk_env \<Rightarrow> risk_service \<Rightarrow> string" where
  "service_zone E s = resolve_trading_day_timezone (re_tz E) (rc_trading_day_timezone (rs_config s))"

text \<open>The orders of a day that the in-memory ledger has on record.\<close>

definition occupied_on :: "risk_env \<Rightarrow> string \<Rightarrow> risk_service \<Rightarrow> nat" where
  "occupied_on E day s =
     (case rs_usage s of
        Some u \<Rightarrow> if ru_trading_day u = day \<and> ru_timezone u = service_zone E s
                  then unat (ru_occupied_orders u) else 0
      | None \<Rightarrow> 0)"

definition service_ok :: "risk_service \<Rightarrow> bool" where
  "service_ok s \<longleftrightarrow> rs_path s \<noteq> []"

lemma occupied_on_disk [simp]: "occupied_on E day (s\<lparr>rs_disk := d\<rparr>) = occupied_on E day s"
  by (simp add: occupied_on_def service_zone_def split: option.split)

lemma current_usage_simps:
  "ru_trading_day (current_usage u day tz now) = day"
  "ru_timezone (current_usage u day tz now) = tz"
  by (auto simp: current_usage_def split: option.splits)

lemma occupied_current_usage:
  "unat (ru_occupied_orders (current_usage (rs_usage s) day (service_zone E s) now)) = occupied_on E day s"
  by (simp add: current_usage_def occupied_on_def split: option.splits)

text \<open>Every way a reservation can end.\<close>

lemma reserve_order_cases:
  assumes run: "reserve_order E rq ref now s = (r, s')" and ok: "service_ok s"
  obtains (unchanged) "s' = s" "\<forall>k. r = Ok k \<longrightarrow> \<not> res_counted k"
  | (refused) e d' day cur nxt where "r = Err (violation_new LedgerUnavailable)" "s' = s\<lparr>rs_disk := d'\<rparr>"
      "ledger_save (re_codec E) (rs_path s) nxt (rs_disk s) = (Err e, d')"
      "day = trading_day_key (re_tz E) now (service_zone E s)"
      "cur = current_usage (rs_usage s) day (service_zone E s) now"
      "nxt = cur\<lparr>ru_occupied_orders := ru_occupied_orders cur + 1, ru_updated_at_ms := now\<rparr>"
  | (granted) day cur nxt d' where
      "day = trading_day_key (re_tz E) now (service_zone E s)"
      "cur = current_usage (rs_usage s) day (service_zone E s) now"
      "ru_occupied_orders cur < rc_max_daily_orders (rs_config s)"
      "nxt = cur\<lparr>ru_occupied_orders := ru_occupied_orders cur + 1, ru_updated_at_ms := now\<rparr>"
      "ledger_save (re_codec E) (rs_path s) nxt (rs_disk s) = (Ok (), d')"
      "s' = s\<lparr>rs_disk := d', rs_usage := Some nxt\<rparr>" "r = Ok (reservation_counted day (service_zone E s))"
      "rc_enabled (rs_config s)" "validate_order (re_dec E) (rs_config s) rq ref = Ok ()"
      "r_reduce_only rq \<noteq> Some True" "rs_load_error s = None" "\<not> rs_poisoned s"
proof -
  let ?day = "trading_day_key (re_tz E) now (service_zone E s)"
  let ?cur = "current_usage (rs_usage s) ?day (service_zone E s) now"
  let ?nxt = "?cur\<lparr>ru_occupied_orders := ru_occupied_orders ?cur + 1, ru_updated_at_ms := now\<rparr>"
  obtain q d' where save: "ledger_save (re_codec E) (rs_path s) ?nxt (rs_disk s) = (q, d')"
    by (cases "ledger_save (re_codec E) (rs_path s) ?nxt (rs_disk s)")
  have np: "q \<noteq> Panic" using ledger_save_total [OF _ save] ok by (simp add: service_ok_def)
  show thesis
  proof (cases "rc_enabled (rs_config s) \<and> validate_order (re_dec E) (rs_config s) rq ref = Ok ()
      \<and> r_reduce_only rq \<noteq> Some True \<and> \<not> rs_poisoned s \<and> rs_load_error s = None
      \<and> ru_occupied_orders ?cur < rc_max_daily_orders (rs_config s)")
    case True
    then have "reserve_order E rq ref now s =
      (case (q, d') of
         (Ok _, d') \<Rightarrow> (Ok (reservation_counted ?day (service_zone E s)), s\<lparr>rs_disk := d', rs_usage := Some ?nxt\<rparr>)
       | (Err e, d') \<Rightarrow> (Err (violation_new LedgerUnavailable), s\<lparr>rs_disk := d'\<rparr>)
       | (Panic, d') \<Rightarrow> (Panic, s\<lparr>rs_disk := d', rs_poisoned := True\<rparr>))"
      using save by (simp add: reserve_order_def Let_def service_zone_def [symmetric] flip: not_le)
    then have step: "(r, s') = (case (q, d') of
         (Ok _, d') \<Rightarrow> (Ok (reservation_counted ?day (service_zone E s)), s\<lparr>rs_disk := d', rs_usage := Some ?nxt\<rparr>)
       | (Err e, d') \<Rightarrow> (Err (violation_new LedgerUnavailable), s\<lparr>rs_disk := d'\<rparr>)
       | (Panic, d') \<Rightarrow> (Panic, s\<lparr>rs_disk := d', rs_poisoned := True\<rparr>))"
      using run by simp
    show thesis
    proof (cases q)
      case (Ok u)
      then show thesis using True save step by (intro granted [OF refl refl _ refl]) simp_all
    next
      case (Err e)
      then show thesis using save step by (intro refused [OF _ _ _ refl refl refl]) simp_all
    qed (use np in simp)
  next
    case False
    then have "s' = s \<and> (\<forall>k. r = Ok k \<longrightarrow> \<not> res_counted k)"
      using run
      by (auto simp: reserve_order_def Let_def not_le service_zone_def [symmetric] reservation_not_counted_def
          split: if_splits result.splits)
    then show thesis by (auto intro: unchanged)
  qed
qed

lemma release_reservation_cases:
  assumes run: "release_reservation E k now s = (q, s')" and ok: "service_ok s"
  obtains (unchanged) "s' = s"
      "q = Ok () \<Longrightarrow> res_counted k \<Longrightarrow> \<forall>u. rs_usage s = Some u \<longrightarrow>
         ru_trading_day u \<noteq> res_trading_day k \<or> ru_timezone u \<noteq> res_timezone k" "q \<noteq> Panic"
  | (failed) e d' where "q = Err e" "s' = s\<lparr>rs_disk := d'\<rparr>"
  | (released) u nxt d' where "q = Ok ()" "rs_usage s = Some u" "res_counted k"
      "ru_trading_day u = res_trading_day k" "ru_timezone u = res_timezone k"
      "nxt = u\<lparr>ru_occupied_orders := saturating_sub (ru_occupied_orders u) 1, ru_updated_at_ms := now\<rparr>"
      "ledger_save (re_codec E) (rs_path s) nxt (rs_disk s) = (Ok (), d')"
      "s' = s\<lparr>rs_disk := d', rs_usage := Some nxt\<rparr>"
proof (cases "\<exists>u. rs_usage s = Some u \<and> res_counted k \<and> \<not> rs_poisoned s
    \<and> ru_trading_day u = res_trading_day k \<and> ru_timezone u = res_timezone k")
  case True
  then obtain u where u: "rs_usage s = Some u" "res_counted k" "\<not> rs_poisoned s"
    "ru_trading_day u = res_trading_day k" "ru_timezone u = res_timezone k" by blast
  let ?nxt = "u\<lparr>ru_occupied_orders := saturating_sub (ru_occupied_orders u) 1, ru_updated_at_ms := now\<rparr>"
  obtain x d' where save: "ledger_save (re_codec E) (rs_path s) ?nxt (rs_disk s) = (x, d')"
    by (cases "ledger_save (re_codec E) (rs_path s) ?nxt (rs_disk s)")
  have "x \<noteq> Panic" using ledger_save_total [OF _ save] ok by (simp add: service_ok_def)
  then show thesis
    using run u save released failed by (cases x) (auto simp: release_reservation_def Let_def)
next
  case False
  then have "s' = s \<and> q \<noteq> Panic \<and> (q = Ok () \<longrightarrow> res_counted k \<longrightarrow> (\<forall>u. rs_usage s = Some u \<longrightarrow>
         ru_trading_day u \<noteq> res_trading_day k \<or> ru_timezone u \<noteq> res_timezone k))"
    using run by (auto simp: release_reservation_def split: if_splits option.splits)
  then show thesis using unchanged by blast
qed

text \<open>Operations never touch the configuration or the place of the ledger.\<close>

lemma reserve_order_frame:
  assumes "reserve_order E rq ref now s = (r, s')" "service_ok s"
  shows "rs_config s' = rs_config s" "rs_path s' = rs_path s" "rs_poisoned s' = rs_poisoned s"
    "rs_load_error s' = rs_load_error s" "service_ok s'"
  using assms(2) by (cases rule: reserve_order_cases [OF assms]; simp add: service_ok_def)+

lemma release_reservation_frame:
  assumes "release_reservation E k now s = (q, s')" "service_ok s"
  shows "rs_config s' = rs_config s" "rs_path s' = rs_path s" "rs_poisoned s' = rs_poisoned s"
    "rs_load_error s' = rs_load_error s" "service_ok s'"
  using assms(2) by (cases rule: release_reservation_cases [OF assms]; simp add: service_ok_def)+

lemma service_zone_frame:
  "reserve_order E rq ref now s = (r, s') \<Longrightarrow> service_ok s \<Longrightarrow> service_zone E s' = service_zone E s"
  "release_reservation E k now s = (q, s') \<Longrightarrow> service_ok s \<Longrightarrow> service_zone E s' = service_zone E s"
  by (simp_all add: service_zone_def reserve_order_frame release_reservation_frame)

type_synonym reserve_call = "place_order_request \<times> string option \<times> u64"

definition reserve_call :: "risk_env \<Rightarrow> reserve_call \<Rightarrow> risk_service
    \<Rightarrow> (risk_reservation, risk_violation) result \<times> risk_service" where
  "reserve_call E = (\<lambda>(rq, ref, now). reserve_order E rq ref now)"

definition on_day :: "risk_env \<Rightarrow> string \<Rightarrow> reserve_call \<Rightarrow> risk_service \<Rightarrow> bool" where
  "on_day E day = (\<lambda>(rq, ref, now) s. trading_day_key (re_tz E) now (service_zone E s) = day)"

lemma reserve_granted_occupied:
  assumes "service_ok s" "on_day E day (rq, ref, now) s"
    "reserve_order E rq ref now s = (Ok k, s')" "res_counted k"
  shows "occupied_on E day s' = occupied_on E day s + 1 \<and> occupied_on E day s' \<le> unat (rc_max_daily_orders (rs_config s))
    \<and> k = reservation_counted day (service_zone E s)"
using assms(3,1)
proof (cases rule: reserve_order_cases)
  case unchanged
  then show ?thesis using assms(4) by simp
next
  case (refused e d' day cur nxt)
  then show ?thesis by simp
next
  case (granted day' cur nxt d')
  have day: "day' = day" using granted(1) assms(2) by (simp add: on_day_def)
  have cur: "unat (ru_occupied_orders cur) = occupied_on E day s"
    using granted(2) day occupied_current_usage by simp
  have inc: "unat (ru_occupied_orders cur + 1) = unat (ru_occupied_orders cur) + 1"
    by (rule unat_increment_below [OF granted(3)])
  have "occupied_on E day s' = unat (ru_occupied_orders cur + 1)"
    using granted(2,4,6) day current_usage_simps by (simp add: occupied_on_def service_zone_def)
  moreover have "unat (ru_occupied_orders cur) < unat (rc_max_daily_orders (rs_config s))"
    using granted(3) by (simp add: word_less_nat_alt)
  ultimately show ?thesis using cur inc granted(7) day by simp
qed

lemma release_after_reserve:
  assumes ok: "service_ok s" and day: "on_day E day (rq, ref, now) s"
    and res: "reserve_order E rq ref now s = (Ok k, s1)"
    and rel: "release_reservation E k now' s1 = (Ok (), s2)"
  shows "occupied_on E day s2 = occupied_on E day s"
proof (cases "res_counted k")
  case False
  then have "s1 = s" using res ok by (cases rule: reserve_order_cases [OF res ok]) (auto simp: reservation_counted_def)
  then show ?thesis using rel False by (simp add: release_reservation_def)
next
  case True
  note ok1 = reserve_order_frame(5) [OF res ok]
  note g = reserve_granted_occupied [OF ok day res True]
  note zones = service_zone_frame(1) [OF res ok] service_zone_frame(2) [OF rel ok1]
  have pos: "occupied_on E day s1 = Suc (occupied_on E day s)" using g by simp
  show ?thesis
    using rel ok1
  proof (cases rule: release_reservation_cases)
    case unchanged
    then show ?thesis using pos g True zones
      by (auto simp: occupied_on_def reservation_counted_def split: option.splits if_splits)
  next
    case (failed e d')
    then show ?thesis by simp
  next
    case (released u nxt d')
    then show ?thesis using pos g zones
      by (simp add: occupied_on_def reservation_counted_def unat_saturating_sub)
  qed
qed

interpretation risk_quota: quota_ledger "reserve_call E" "\<lambda>k. release_reservation E k now"
    res_counted "occupied_on E day" "\<lambda>s. unat (rc_max_daily_orders (rs_config s))" "on_day E day" service_ok
  for E now day
proof
  fix s x k s'
  assume a: "service_ok s" "on_day E day x s" "reserve_call E x s = (Ok k, s')" "res_counted k"
  obtain rq ref t where x: "x = (rq, ref, t)" by (cases x)
  show "occupied_on E day s' = occupied_on E day s + 1
      \<and> occupied_on E day s' \<le> unat (rc_max_daily_orders (rs_config s))"
    using reserve_granted_occupied [OF a(1), of E day rq ref t k s'] a(2-4) x
    by (simp add: reserve_call_def)
next
  fix s x r s'
  assume a: "service_ok s" "reserve_call E x s = (r, s')" "\<forall>k. r = Ok k \<longrightarrow> \<not> res_counted k"
  obtain rq ref t where x: "x = (rq, ref, t)" by (cases x)
  have run: "reserve_order E rq ref t s = (r, s')" using a(2) x by (simp add: reserve_call_def)
  show "occupied_on E day s' = occupied_on E day s"
    using a(3) by (cases rule: reserve_order_cases [OF run a(1)]) (auto simp: reservation_counted_def)
next
  fix s x k s1 s2
  assume a: "service_ok s" "on_day E day x s" "reserve_call E x s = (Ok k, s1)"
    "release_reservation E k now s1 = (Ok (), s2)"
  then show "occupied_on E day s2 = occupied_on E day s"
    using release_after_reserve by (cases x) (auto simp: reserve_call_def)
next
  fix s k e s'
  assume a: "service_ok s" "release_reservation E k now s = (Err e, s')"
  show "occupied_on E day s' = occupied_on E day s"
    by (cases rule: release_reservation_cases [OF a(2,1)]) auto
next
  fix s x r s'
  assume a: "service_ok s" "reserve_call E x s = (r, s')"
  then show "service_ok s' \<and> unat (rc_max_daily_orders (rs_config s')) = unat (rc_max_daily_orders (rs_config s))"
    using reserve_order_frame by (cases x) (auto simp: reserve_call_def)
next
  fix s x r s' y
  assume a: "service_ok s" "reserve_call E x s = (r, s')"
  then show "on_day E day y s' = on_day E day y s"
    using service_zone_frame(1) by (cases x; cases y) (auto simp: reserve_call_def on_day_def)
next
  fix s k q s'
  assume a: "service_ok s" "release_reservation E k now s = (q, s')"
  then show "service_ok s' \<and> unat (rc_max_daily_orders (rs_config s')) = unat (rc_max_daily_orders (rs_config s))"
    using release_reservation_frame by simp
qed

end
