(* ===== verification/Samples.thy ===== *)
theory Samples
  imports Risk_Quota
begin

text \<open>
  Concrete values of the model's parameters, for the witnesses: a self-delimiting text format in
  place of the TOML and JSON libraries, exact decimals with whole values in place of
  \<^verbatim>\<open>rust_decimal\<close>, a single time zone, and a directory to keep the ledger in.
\<close>

section \<open>A text format\<close>

definition enc_nat :: "nat \<Rightarrow> string" where
  "enc_nat n = replicate n CHR ''1'' @ ''.''"

definition dec_nat :: "string \<Rightarrow> nat \<times> string" where
  "dec_nat s = (length (takeWhile (\<lambda>c. c = CHR ''1'') s), tl (dropWhile (\<lambda>c. c = CHR ''1'') s))"

definition enc_str :: "string \<Rightarrow> string" where
  "enc_str s = enc_nat (length s) @ s"

definition dec_str :: "string \<Rightarrow> string \<times> string" where
  "dec_str s = (let (n, r) = dec_nat s in (take n r, drop n r))"

lemma dec_enc_nat [simp]: "dec_nat (enc_nat n @ r) = (n, r)"
proof -
  have "takeWhile (\<lambda>c. c = CHR ''1'') (replicate n CHR ''1'' @ ''.'' @ r) = replicate n CHR ''1''"
    by (induction n) auto
  moreover have "dropWhile (\<lambda>c. c = CHR ''1'') (replicate n CHR ''1'' @ ''.'' @ r) = ''.'' @ r"
    by (induction n) auto
  ultimately show ?thesis by (simp add: dec_nat_def enc_nat_def)
qed

lemma dec_enc_str [simp]: "dec_str (enc_str s @ r) = (s, r)"
  by (simp add: dec_str_def enc_str_def)

definition sample_usage_codec :: "risk_usage codec" where
  "sample_usage_codec =
     \<lparr>encode = (\<lambda>u. Some (enc_nat (unat (ru_schema_version u)) @ enc_str (ru_trading_day u)
         @ enc_str (ru_timezone u) @ enc_nat (unat (ru_occupied_orders u))
         @ enc_nat (unat (ru_updated_at_ms u)) @ [])),
      decode = (\<lambda>s. let (a, s) = dec_nat s; (b, s) = dec_str s; (c, s) = dec_str s; (d, s) = dec_nat s;
                        (e, s) = dec_nat s in
         Some \<lparr>ru_schema_version = of_nat a, ru_trading_day = b, ru_timezone = c,
               ru_occupied_orders = of_nat d, ru_updated_at_ms = of_nat e\<rparr>),
      codec_error_text = (\<lambda>_. ''malformed'')\<rparr>"

lemma sample_usage_roundtrip [simp]: "codec_roundtrip sample_usage_codec"
  by (auto simp: codec_roundtrip_def sample_usage_codec_def simp del: append_Nil2)

section \<open>Decimals and time zones\<close>

definition sample_parse :: "string \<Rightarrow> rat option" where
  "sample_parse s = (if s = [] then None else map_option of_nat (digits_value s 0))"

function sample_print_nat :: "nat \<Rightarrow> string" where
  "sample_print_nat n =
     (if n < 10 then [char_of (48 + n)] else sample_print_nat (n div 10) @ [char_of (48 + n mod 10)])"
  by pat_completeness auto
termination by (relation "measure id") auto

declare sample_print_nat.simps [simp del]

lemma digits_value_snoc:
  "digits_value s a = Some b \<Longrightarrow> n < 10 \<Longrightarrow> digits_value (s @ [char_of (48 + n)]) a = Some (b * 10 + n)"
  by (induction s arbitrary: a) (auto simp: is_ascii_digit_def split: if_splits)

lemma digits_value_print: "digits_value (sample_print_nat n) 0 = Some n \<and> sample_print_nat n \<noteq> []"
proof (induction n rule: sample_print_nat.induct)
  case (1 n)
  show ?case
  proof (cases "n < 10")
    case True
    then show ?thesis by (simp add: sample_print_nat.simps [of n] is_ascii_digit_def)
  next
    case False
    then show ?thesis
      using 1 digits_value_snoc [of "sample_print_nat (n div 10)" 0 "n div 10" "n mod 10"]
      by (simp add: sample_print_nat.simps [of n])
  qed
qed

definition sample_decimal :: decimal_api where
  "sample_decimal =
     \<lparr>dec_from_str = sample_parse, dec_from_str_exact = sample_parse,
      dec_sub = (\<lambda>a b. Some (a - b)), dec_div = (\<lambda>a b. if b = 0 then None else Some (a / b)),
      dec_mul = (\<lambda>a b. Some (a * b)), dec_to_f64 = (\<lambda>q. Some (Finite q)),
      dec_normalized = (\<lambda>q. sample_print_nat (nat \<lfloor>q\<rfloor>))\<rparr>"

lemma sample_decimal_prints_exactly [simp]: "decimal_prints_exactly sample_decimal"
  using digits_value_print
  by (auto simp: decimal_prints_exactly_def sample_decimal_def sample_parse_def split: if_splits)

definition sample_tz :: tz_api where
  "sample_tz =
     \<lparr>tz_valid = (\<lambda>z. z = ''Asia/Shanghai''), tz_date = (\<lambda>z t. Some ''2026-01-02''),
      tz_date_now = (\<lambda>z. ''2026-01-02''), tz_midnight = (\<lambda>z t. Some 0), tz_midnight_now = (\<lambda>z. Some 0),
      tz_in_range = (\<lambda>t. True)\<rparr>"

section \<open>A risk service\<close>

definition sample_env :: risk_env where
  "sample_env = \<lparr>re_dec = sample_decimal, re_tz = sample_tz, re_codec = sample_usage_codec,
     re_show = (\<lambda>x. ''1'')\<rparr>"

definition sample_risk_config :: risk_config where
  "sample_risk_config =
     \<lparr>rc_max_order_qty = ''10'', rc_max_price_deviation_pct = ''5'', rc_max_daily_orders = 2,
      rc_trading_day_timezone = ''Asia/Shanghai'', rc_enabled = True\<rparr>"

definition sample_ledger_path :: path where
  "sample_ledger_path = [''data'', ''risk_usage.toml'']"

definition empty_disk :: disk where
  "empty_disk = \<lparr>files = [([], Dir), ([''data''], Dir)], faults = []\<rparr>"

definition sample_risk :: risk_service where
  "sample_risk =
     \<lparr>rs_config = sample_risk_config, rs_path = sample_ledger_path, rs_disk = empty_disk,
      rs_poisoned = False, rs_usage = None, rs_load_error = None\<rparr>"

definition sample_order :: place_order_request where
  "sample_order =
     \<lparr>r_symbol = ''BTCUSDT'', r_side = ''Buy'', r_order_type = ''Limit'', r_qty = ''3'',
      r_position_idx = 0, r_price = Some ''104'', r_time_in_force = None, r_order_link_id = Some ''a1'',
      r_reduce_only = None, r_protection = None\<rparr>"

lemmas sample_defs = sample_env_def sample_decimal_def sample_tz_def sample_risk_config_def
  sample_ledger_path_def empty_disk_def sample_risk_def sample_order_def

lemma sample_order_valid:
  "validate_order sample_decimal sample_risk_config sample_order (Some ''100'') = Ok ()"
  by code_simp

lemma sample_service_ok [simp]: "service_ok sample_risk"
  by (simp add: service_ok_def sample_defs)

lemma sample_day [simp]:
  "on_day sample_env ''2026-01-02'' (rq, ref, t) s"
  by (simp add: on_day_def trading_day_key_def sample_env_def sample_tz_def Let_def)

text \<open>The reservation on an empty ledger, computed.\<close>

definition sample_reserve :: "(risk_reservation, risk_violation) result \<times> risk_service" where
  "sample_reserve = reserve_order sample_env sample_order (Some ''100'') 5 sample_risk"

lemma sample_reserve_granted:
  "fst sample_reserve = Ok (reservation_counted ''2026-01-02'' ''Asia/Shanghai'')"
  by code_simp

lemma sample_reserve_run:
  "reserve_order sample_env sample_order (Some ''100'') 5 sample_risk =
     (Ok (reservation_counted ''2026-01-02'' ''Asia/Shanghai''), snd sample_reserve)"
  using sample_reserve_granted by (simp add: sample_reserve_def prod_eq_iff)

lemma sample_env_simps [simp]:
  "re_dec sample_env = sample_decimal" "re_tz sample_env = sample_tz" "re_codec sample_env = sample_usage_codec"
  by (simp_all add: sample_env_def)

text \<open>The same service on a disk that already holds a ledger and whose next rename fails.\<close>

definition sample_usage :: risk_usage where
  "sample_usage = \<lparr>ru_schema_version = 1, ru_trading_day = ''2026-01-02'', ru_timezone = ''Asia/Shanghai'',
     ru_occupied_orders = 1, ru_updated_at_ms = 4\<rparr>"

definition sample_faulty_risk :: risk_service where
  "sample_faulty_risk = sample_risk\<lparr>rs_usage := Some sample_usage,
     rs_disk := \<lparr>files = [([], Dir), ([''data''], Dir),
       (sample_ledger_path, File (the (encode sample_usage_codec sample_usage)))],
       faults = replicate 6 NoFault @ [Fails ''EIO'']\<rparr>\<rparr>"

lemma sample_faulty_refused:
  "fst (reserve_order sample_env sample_order (Some ''100'') 5 sample_faulty_risk) =
     Err (violation_new LedgerUnavailable)"
  by code_simp

end
