(* ===== verification/Risk_Properties.thy ===== *)
theory Risk_Properties
  imports Samples
begin

text \<open>
  What the risk service guarantees to the order path, stated on \<open>reserve_order\<close>,
  \<open>release_reservation\<close>, \<open>risk_status_of\<close> and \<open>apply_risk_config_update\<close>, for every schedule of
  I/O faults on the ledger's disk.
\<close>

section \<open>Shared facts\<close>

abbreviation granted :: "(risk_reservation, 'v) result list \<Rightarrow> nat" where
  "granted rs \<equiv> length (filter (\<lambda>r. case r of Ok k \<Rightarrow> res_counted k | _ \<Rightarrow> False) rs)"

lemma service_zone_valid:
  "tz_valid (re_tz E) (rc_trading_day_timezone (rs_config s))
    \<Longrightarrow> service_zone E s = rc_trading_day_timezone (rs_config s)"
  by (simp add: service_zone_def resolve_trading_day_timezone_def)

lemma restart_reads_ledger:
  assumes "ledger_reload (re_codec E) p d = Ok u" "rc_enabled c"
  shows "rs_usage (risk_with_store E c p (settled d)) = u"
    and "rs_load_error (risk_with_store E c p (settled d)) = None"
  using assms
  by (cases "ledger_load (re_codec E) p (settled d)";
      simp add: risk_with_store_def load_usage_def ledger_reload_def Let_def)+

lemma occupied_on_cong:
  "rs_usage s' = rs_usage s \<Longrightarrow> rs_config s' = rs_config s \<Longrightarrow> occupied_on E day s' = occupied_on E day s"
  by (simp add: occupied_on_def service_zone_def split: option.split)

lemma risk_with_store_config [simp]:
  "rs_config (risk_with_store E c p d) = c" "rs_path (risk_with_store E c p d) = p"
  by (simp_all add: risk_with_store_def Let_def split: prod.splits)

lemma reserve_order_enabled_Ok:
  assumes "reserve_order E rq ref now s = (Ok k, s')" "rc_enabled (rs_config s)"
  shows "validate_order (re_dec E) (rs_config s) rq ref = Ok ()"
  using assms by (auto simp: reserve_order_def split: result.splits)

section \<open>The daily limit\<close>

text \<open>
  C11: Over any sequence of order attempts on one trading day, with I/O errors at any place, the
  ledger grows by exactly the number of reservations that were granted and counted, and it never
  exceeds the configured daily maximum.
\<close>

theorem daily_limit_over_runs:
  assumes "service_ok s" and "\<forall>x\<in>set xs. on_day E day x s"
    and "run_all (reserve_call E) xs s = (rs, s')"
    and "occupied_on E day s \<le> unat (rc_max_daily_orders (rs_config s))"
  shows "occupied_on E day s' = occupied_on E day s + granted rs
    \<and> occupied_on E day s' \<le> unat (rc_max_daily_orders (rs_config s))"
  using risk_quota.run_accounts [OF assms(1-3)] assms(4) by (auto simp: risk_quota.grants_def)

definition sample_attempts :: "reserve_call list" where
  "sample_attempts = replicate 3 (sample_order, Some ''100'', 5)"

theorem daily_limit_over_runs_witness:
  "occupied_on sample_env ''2026-01-02'' (snd (run_all (reserve_call sample_env) sample_attempts sample_risk)) \<le> 2"
proof -
  obtain rs s' where r: "run_all (reserve_call sample_env) sample_attempts sample_risk = (rs, s')"
    by (cases "run_all (reserve_call sample_env) sample_attempts sample_risk")
  have "occupied_on sample_env ''2026-01-02'' s' \<le> unat (rc_max_daily_orders (rs_config sample_risk))"
    by (rule conjunct2 [OF daily_limit_over_runs [OF sample_service_ok _ r]])
      (auto simp: sample_attempts_def occupied_on_def sample_risk_def)
  then show ?thesis using r by (simp add: sample_defs)
qed

section \<open>Durability\<close>

text \<open>
  C12: A counted reservation is on disk before it is granted: a service started afterwards on the
  same ledger file finds it readable and counts the same orders for that day.
\<close>

theorem grant_survives_restart:
  assumes "service_ok s" "codec_roundtrip (re_codec E)"
    and "reserve_order E rq ref now s = (Ok k, s')" "res_counted k"
  shows "rs_load_error (risk_with_store E (rs_config s') (rs_path s') (settled (rs_disk s'))) = None
    \<and> occupied_on E (res_trading_day k) (risk_with_store E (rs_config s') (rs_path s') (settled (rs_disk s')))
        = occupied_on E (res_trading_day k) s + 1"
  using assms(3,1)
proof (cases rule: reserve_order_cases)
  case (granted day cur nxt d')
  have en: "rc_enabled (rs_config s')" using granted by simp
  have reload: "ledger_reload (re_codec E) (rs_path s') (rs_disk s') = Ok (rs_usage s')"
    using ledger_save_Ok_reload [OF _ assms(2) granted(5)] granted assms(1)
    by (simp add: service_ok_def)
  note restart = restart_reads_ledger [OF reload en]
  have day: "day = res_trading_day k" using granted(7) by (simp add: reservation_counted_def)
  have "on_day E (res_trading_day k) (rq, ref, now) s" using granted(1) day by (simp add: on_day_def)
  then have "occupied_on E (res_trading_day k) s' = occupied_on E (res_trading_day k) s + 1"
    using reserve_granted_occupied assms by blast
  moreover have "occupied_on E (res_trading_day k)
      (risk_with_store E (rs_config s') (rs_path s') (settled (rs_disk s'))) = occupied_on E (res_trading_day k) s'"
    by (rule occupied_on_cong) (simp_all add: restart)
  ultimately show ?thesis using restart by simp
qed (use assms(4) in \<open>auto simp: reservation_counted_def\<close>)

theorem grant_survives_restart_witness:
  "rs_load_error (risk_with_store sample_env (rs_config (snd sample_reserve)) (rs_path (snd sample_reserve))
     (settled (rs_disk (snd sample_reserve)))) = None"
  using grant_survives_restart [OF sample_service_ok _ sample_reserve_run]
  by (simp add: reservation_counted_def)

text \<open>
  A refused reservation leaves the in-memory ledger as it was, and the ledger file, whatever
  I/O calls failed, still decodes to the old usage or to the one with the refused order added: it
  is never lost, so the next start cannot find an empty quota.
\<close>

theorem refused_reserve_keeps_ledger:
  assumes "service_ok s" "codec_roundtrip (re_codec E)"
    and "lookup (rs_disk s) (rs_path s) = Some (File c)" "decode (re_codec E) c = Some u"
    and "reserve_order E rq ref now s = (Err v, s')"
  shows "rs_usage s' = rs_usage s
    \<and> (let cur = current_usage (rs_usage s) (trading_day_key (re_tz E) now (service_zone E s)) (service_zone E s) now in
       ledger_reload (re_codec E) (rs_path s) (rs_disk s') = Ok (Some u)
       \<or> ledger_reload (re_codec E) (rs_path s) (rs_disk s')
           = Ok (Some (cur\<lparr>ru_occupied_orders := ru_occupied_orders cur + 1, ru_updated_at_ms := now\<rparr>)))"
  using assms(5,1)
proof (cases rule: reserve_order_cases)
  case unchanged
  then show ?thesis using ledger_reload_main [OF assms(3,4)] by (simp add: Let_def)
next
  case (refused e d' day cur nxt)
  have "rs_path s \<noteq> []" using assms(1) by (simp add: service_ok_def)
  from ledger_save_reload [OF this assms(2-4) refused(3)] show ?thesis
    using refused by (simp add: Let_def)
next
  case (granted day cur nxt d')
  then show ?thesis by simp
qed

section \<open>What an accepted order satisfies\<close>

text \<open>
  With risk control enabled, an order that obtains a reservation has a positive quantity, at
  most the configured maximum unless it is reduce-only, and if it is a limit order a positive
  price whose deviation from the positive reference price, in percent, is at most the configured
  maximum (decimal arithmetic being exact on the two prices).
\<close>

theorem reserved_order_within_limits:
  assumes "reserve_order E rq ref now s = (Ok k, s')" "rc_enabled (rs_config s)"
    and "\<forall>p r. 0 < r \<longrightarrow> exact_on (re_dec E) p r"
  shows "(\<exists>q. dec_from_str (re_dec E) (r_qty rq) = Some q \<and> 0 < q
      \<and> (r_reduce_only rq \<noteq> Some True \<longrightarrow>
           (\<exists>m. dec_from_str (re_dec E) (rc_max_order_qty (rs_config s)) = Some m \<and> q \<le> m)))
    \<and> (is_limit_order rq \<longrightarrow>
        (\<exists>p r m. Option.bind (r_price rq) (dec_from_str (re_dec E)) = Some p \<and> 0 < p
          \<and> Option.bind ref (dec_from_str (re_dec E)) = Some r \<and> 0 < r
          \<and> dec_from_str (re_dec E) (rc_max_price_deviation_pct (rs_config s)) = Some m
          \<and> \<bar>p - r\<bar> / r * 100 \<le> m))"
proof -
  have v: "validate_order (re_dec E) (rs_config s) rq ref = Ok ()"
    by (rule reserve_order_enabled_Ok [OF assms(1,2)])
  have "\<exists>p r m. Option.bind (r_price rq) (dec_from_str (re_dec E)) = Some p \<and> 0 < p
          \<and> Option.bind ref (dec_from_str (re_dec E)) = Some r \<and> 0 < r
          \<and> dec_from_str (re_dec E) (rc_max_price_deviation_pct (rs_config s)) = Some m
          \<and> \<bar>p - r\<bar> / r * 100 \<le> m" if "is_limit_order rq"
  proof -
    have "validate_limit_price (re_dec E) (rs_config s) rq ref = Ok ()"
      using v that by (simp add: validate_order_Ok_iff)
    then obtain p r dev m where x: "r_price rq \<noteq> None" "Option.bind (r_price rq) (dec_from_str (re_dec E)) = Some p"
      "0 < p" "usable_reference (re_dec E) ref = Some r" "price_deviation (re_dec E) p r = Some dev"
      "dec_from_str (re_dec E) (rc_max_price_deviation_pct (rs_config s)) = Some m" "dev \<le> m"
      by (auto simp: validate_limit_price_Ok_iff)
    have r: "0 < r" "Option.bind ref (dec_from_str (re_dec E)) = Some r"
      using x(4) by (auto simp: usable_reference_def split: option.splits if_splits)
    have "dev = \<bar>p - r\<bar> / r * 100" using price_deviation_exact assms(3) r(1) x(5) by simp
    then show ?thesis using x r by blast
  qed
  then show ?thesis using v by (auto simp: validate_order_Ok_iff)
qed

text \<open>
  A reduce-only order that passes the checks is never refused for quota reasons and never
  consumes quota: with a full, unreadable or poisoned ledger it still gets an uncounted
  reservation and the service and its disk are untouched.
\<close>

theorem reduce_only_bypasses_quota:
  assumes "r_reduce_only rq = Some True" "validate_order (re_dec E) (rs_config s) rq ref = Ok ()"
  shows "reserve_order E rq ref now s = (Ok reservation_not_counted, s)"
  using assms by (simp add: reserve_order_def)

section \<open>Release\<close>

text \<open>
  C21: Giving a reservation back restores the day's count: after a successful release the ledger
  holds what it held before the reservation, and after a failed one the order stays counted, so
  an error can only make the quota stricter.
\<close>

theorem release_restores_quota:
  assumes "service_ok s" "reserve_order E rq ref now s = (Ok k, s1)" "res_counted k"
    and "release_reservation E k later s1 = (q, s2)"
  shows "occupied_on E (res_trading_day k) s2 =
    (if q = Ok () then occupied_on E (res_trading_day k) s else occupied_on E (res_trading_day k) s + 1)"
proof -
  have day: "on_day E (res_trading_day k) (rq, ref, now) s"
    using assms(2,1)
  proof (cases rule: reserve_order_cases)
    case (granted day cur nxt d')
    then show ?thesis by (simp add: on_day_def reservation_counted_def)
  qed (use assms(3) in auto)
  have ok1: "service_ok s1" by (rule reserve_order_frame(5) [OF assms(2,1)])
  have g: "occupied_on E (res_trading_day k) s1 = occupied_on E (res_trading_day k) s + 1"
    using reserve_granted_occupied [OF assms(1) day assms(2,3)] by simp
  show ?thesis
    using assms(4) ok1
  proof (cases rule: release_reservation_cases)
    case unchanged
    then show ?thesis using g release_after_reserve [OF assms(1) day assms(2)] assms(4) by (cases q) auto
  next
    case (failed e d')
    then show ?thesis using g by simp
  next
    case (released u nxt d')
    then show ?thesis using release_after_reserve [OF assms(1) day assms(2)] assms(4) by simp
  qed
qed

theorem release_restores_quota_witness:
  "occupied_on sample_env ''2026-01-02'' (snd (release_reservation sample_env
     (reservation_counted ''2026-01-02'' ''Asia/Shanghai'') 6 (snd sample_reserve))) = 0"
proof -
  let ?rel = "release_reservation sample_env (reservation_counted ''2026-01-02'' ''Asia/Shanghai'') 6 (snd sample_reserve)"
  have "fst ?rel = Ok ()" by code_simp
  then have "?rel = (Ok (), snd ?rel)" by (simp add: prod_eq_iff)
  from release_restores_quota [OF sample_service_ok sample_reserve_run _ this] show ?thesis
    by (simp add: reservation_counted_def occupied_on_def sample_risk_def)
qed

section \<open>Status\<close>

text \<open>
  C22: The status shown to the user tells the truth about the quota: with a readable ledger and a
  valid configured time zone, the remaining count is zero exactly when the service refuses the
  next order that passes the checks with \<^verbatim>\<open>DailyOrderLimit\<close>.
\<close>

theorem status_predicts_refusal:
  assumes "service_ok s" "rc_enabled (rs_config s)" "\<not> rs_poisoned s" "rs_load_error s = None"
    and "tz_valid (re_tz E) (rc_trading_day_timezone (rs_config s))"
    and "validate_order (re_dec E) (rs_config s) rq ref = Ok ()" "r_reduce_only rq \<noteq> Some True"
  shows "st_remaining_orders (risk_status_of E now s) = Some 0
    \<longleftrightarrow> (\<exists>l. fst (reserve_order E rq ref now s) = Err (violation_with_limit DailyOrderLimit l))"
proof -
  let ?tz = "rc_trading_day_timezone (rs_config s)"
  let ?cur = "current_usage (rs_usage s) (trading_day_key (re_tz E) now ?tz) ?tz now"
  have zone: "resolve_trading_day_timezone (re_tz E) ?tz = ?tz"
    using assms(5) by (simp add: resolve_trading_day_timezone_def)
  have rem: "st_remaining_orders (risk_status_of E now s) =
      Some (saturating_sub (rc_max_daily_orders (rs_config s)) (ru_occupied_orders ?cur))"
    using assms(2-4) by (simp add: risk_status_of_def current_usage_def Let_def saturating_sub_def split: option.splits)
  have zero: "saturating_sub a b = 0 \<longleftrightarrow> a \<le> b" for a b :: u32
    by (auto simp: saturating_sub_def)
  have distinct: "violation_new LedgerUnavailable \<noteq> violation_with_limit DailyOrderLimit l" for l
    by (simp add: violation_new_def violation_with_limit_def)
  show ?thesis
    unfolding rem zero option.inject
    using assms(2-4,6,7) zone distinct
    by (auto simp: reserve_order_def Let_def split: prod.splits result.splits)
qed

theorem status_predicts_refusal_witness:
  "st_remaining_orders (risk_status_of sample_env 5 sample_risk) = Some 0
    \<longleftrightarrow> (\<exists>l. fst (reserve_order sample_env sample_order (Some ''100'') 5 sample_risk)
          = Err (violation_with_limit DailyOrderLimit l))"
  by (rule status_predicts_refusal)
    (use sample_order_valid in \<open>simp_all add: sample_risk_def sample_risk_config_def sample_tz_def
      sample_order_def service_ok_def sample_ledger_path_def sample_env_def\<close>)

text \<open>
  The hypothesis on the time zone is needed.  A zone that does not parse (the configuration file
  is not validated when it is loaded) is replaced by the default one when an order is counted,
  but not when the status is computed, which then reports a free quota for a full ledger.
\<close>

definition misconfigured_risk :: risk_service where
  "misconfigured_risk = sample_risk\<lparr>rs_config := sample_risk_config\<lparr>rc_trading_day_timezone := ''Mars/Base''\<rparr>,
     rs_usage := Some (sample_usage\<lparr>ru_occupied_orders := 2\<rparr>)\<rparr>"

lemma status_ignores_fallback_zone:
  "st_remaining_orders (risk_status_of sample_env 5 misconfigured_risk) = Some 2
   \<and> fst (reserve_order sample_env sample_order (Some ''100'') 5 misconfigured_risk)
       = Err (violation_with_limit DailyOrderLimit (Finite 2))"
proof
  show "st_remaining_orders (risk_status_of sample_env 5 misconfigured_risk) = Some 2"
    by (simp add: risk_status_of_def misconfigured_risk_def sample_usage_def sample_defs Let_def)
  show "fst (reserve_order sample_env sample_order (Some ''100'') 5 misconfigured_risk)
      = Err (violation_with_limit DailyOrderLimit (Finite 2))"
    by code_simp
qed

section \<open>Updating the configuration\<close>

text \<open>
  C23: An update of the risk configuration is all-or-nothing.  If it fails, the running
  configuration and the risk service are unchanged.  If it succeeds, the new values passed
  validation and were saved first, the running configuration carries exactly them with every
  other setting kept, and the risk service enforces them.
\<close>

theorem config_update_atomic:
  assumes "apply_risk_config_update E store_save req now runtime svc f = (r, runtime', svc', f')"
  shows "case r of
      Ok (status, tz_changed) \<Rightarrow>
        (let c = normalize_request req in
         validate_risk_config (re_dec E) (re_tz E) c = Ok ()
         \<and> store_save runtime' f = (Ok (), f')
         \<and> risk_config_of_app runtime' = c \<and> ac_rest runtime' = ac_rest runtime
         \<and> rs_config svc' = c \<and> status = risk_status_of E now svc')
    | _ \<Rightarrow> runtime' = runtime \<and> svc' = svc"
proof -
  have cfg: "rs_config (risk_update_config E c s) = c" for c s
    by (auto simp: risk_update_config_def Let_def split: prod.splits)
  have app: "risk_config_of_app (apply_to_app_config c a) = c" for c and a :: "'a app_config"
    by (simp add: risk_config_of_app_def apply_to_app_config_def)
  show ?thesis
    using assms cfg app
    by (auto simp: apply_risk_config_update_def Let_def apply_to_app_config_def
        split: result.splits prod.splits)
qed

definition sample_update :: update_risk_config_request where
  "sample_update = \<lparr>uq_enabled = True, uq_max_order_qty = '' 20 '', uq_max_price_deviation_pct = ''5'',
     uq_max_daily_orders = 3, uq_trading_day_timezone = ''Asia/Shanghai''\<rparr>"

definition sample_app_config :: "unit app_config" where
  "sample_app_config = \<lparr>ac_risk_enabled = True, ac_risk_max_order_qty = ''10'',
     ac_risk_max_price_deviation_pct = ''5'', ac_risk_max_daily_orders = 2,
     ac_trading_day_timezone = ''Asia/Shanghai'', ac_rest = ()\<rparr>"

theorem config_update_atomic_witness:
  "\<exists>r runtime' svc' f'. apply_risk_config_update sample_env (\<lambda>c f. (Err ENotConnected, f)) sample_update 5
     sample_app_config sample_risk () = (r, runtime', svc', f') \<and> runtime' = sample_app_config"
proof -
  let ?u = "apply_risk_config_update sample_env (\<lambda>c f. (Err ENotConnected, f)) sample_update 5
     sample_app_config sample_risk ()"
  have norm: "normalize_request sample_update =
      \<lparr>rc_max_order_qty = ''20'', rc_max_price_deviation_pct = ''5'', rc_max_daily_orders = 3,
       rc_trading_day_timezone = ''Asia/Shanghai'', rc_enabled = True\<rparr>" by code_simp
  have "dec_from_str sample_decimal ''20'' = Some 20" "dec_from_str sample_decimal ''5'' = Some 5" by code_simp+
  then have "validate_risk_config sample_decimal sample_tz (normalize_request sample_update) = Ok ()"
    unfolding norm by (simp add: validate_risk_config_Ok_iff sample_tz_def)
  then have "fst ?u = Err ENotConnected" by (simp add: apply_risk_config_update_def Let_def)
  then obtain a b c where u: "?u = (Err ENotConnected, a, b, c)" by (cases ?u) auto
  from config_update_atomic [OF this] show ?thesis unfolding u by auto
qed

end
