(* ===== verification/Submission_Journal.thy ===== *)
theory Submission_Journal
  imports Risk_Ledger Trading_Model
begin

text \<open>
  \<^verbatim>\<open>models/order_submission.rs\<close> and \<^verbatim>\<open>storage/order_submissions.rs\<close>: the durable journal of order
  submissions.  An intent is written to its own file before an order is sent; its outcome is
  written over it later.  SHA-256 (in hexadecimal) and \<^verbatim>\<open>serde_json\<close> are the fields \<open>je_hash\<close> and
  \<open>je_codec\<close> of the environment; the check that \<^verbatim>\<open>Deserialize\<close> of \<^verbatim>\<open>OrderProtection\<close> adds is written
  out in \<open>decode_submission\<close>.
\<close>

section \<open>Data\<close>

datatype submission_outcome = OutcomePending | OutcomeAccepted order | OutcomeRejected

record stored_submission =
  ss_schema_version :: u32
  ss_scope :: string
  ss_order_link_id :: string
  ss_request :: place_order_request
  ss_created_at_ms :: u64
  ss_outcome :: submission_outcome
  ss_acknowledged :: bool

record pending_order_submission =
  po_order_link_id :: string
  po_symbol :: string
  po_side :: string
  po_order_type :: string
  po_qty :: string
  po_price :: "string option"
  po_reduce_only :: "bool option"
  po_created_at_ms :: u64

definition pending_of_stored :: "stored_submission \<Rightarrow> pending_order_submission" where
  "pending_of_stored r =
     \<lparr>po_order_link_id = ss_order_link_id r, po_symbol = r_symbol (ss_request r),
      po_side = r_side (ss_request r), po_order_type = r_order_type (ss_request r),
      po_qty = r_qty (ss_request r), po_price = r_price (ss_request r),
      po_reduce_only = r_reduce_only (ss_request r), po_created_at_ms = ss_created_at_ms r\<rparr>"

record journal_env =
  je_hash :: "string \<Rightarrow> string"
  je_codec :: "stored_submission codec"
  je_dec :: decimal_api
  je_dir :: path

section \<open>Files\<close>

definition journal_error :: "string \<Rightarrow> app_error" where
  "journal_error m = EStorage m"

definition journal_io_error :: "io_error \<Rightarrow> app_error" where
  "journal_io_error e = EStorage (utf8 [35746, 21333, 25552, 20132, 35760, 24405, 23384, 20648, 19981, 21487, 29992, 65292, 35831, 26816,
      26597, 23384, 20648, 21518, 20877, 26597, 35810, 21407, 35746, 21333])"

definition msg_scope_missing :: string where "msg_scope_missing = (utf8 [35746, 21333, 25552, 20132, 35760, 24405, 32570, 23569, 36134, 25143, 33539, 22260])"
definition msg_identity_length :: string where "msg_identity_length = (utf8 [35746, 21333, 25552, 20132, 26631, 35782, 38271, 24230, 24517, 39035, 20026, 32, 49, 32,
      33267, 32, 51, 54, 32, 23383, 33410])"
definition msg_not_regular_record :: string where "msg_not_regular_record = (utf8 [35746, 21333, 25552, 20132, 35760, 24405, 19981, 26159, 26222, 36890, 25991, 20214])"
definition msg_record_damaged :: string where "msg_record_damaged = (utf8 [35746, 21333, 25552, 20132, 35760, 24405, 24050, 25439, 22351, 65292, 35831, 20808, 24674, 22797,
      21407, 35760, 24405])"
definition msg_record_version :: string where "msg_record_version = (utf8 [19981, 25903, 25345, 30340, 35746, 21333, 25552, 20132, 35760, 24405, 29256, 26412])"
definition msg_record_mismatch :: string where "msg_record_mismatch = (utf8 [35746, 21333, 25552, 20132, 35760, 24405, 19982, 21407, 35831, 27714, 26631, 35782, 19981, 19968,
      33268])"
definition msg_record_encode :: string where "msg_record_encode = (utf8 [26080, 27861, 32534, 30721, 35746, 21333, 25552, 20132, 35760, 24405])"
definition msg_request_without_id :: string where "msg_request_without_id = (utf8 [35746, 21333, 35831, 27714, 32570, 23569, 25552, 20132, 26631, 35782])"
definition msg_record_changed :: string where "msg_record_changed = (utf8 [35746, 21333, 25552, 20132, 35760, 24405, 22312, 35835, 21462, 26399, 38388, 21457, 29983, 21464,
      21270])"
definition msg_record_name :: string where "msg_record_name = (utf8 [35746, 21333, 25552, 20132, 35760, 24405, 25991, 20214, 21517, 26080, 25928])"
definition msg_record_missing :: string where "msg_record_missing = (utf8 [25214, 19981, 21040, 21407, 35746, 21333, 25552, 20132, 35760, 24405])"
definition msg_finish_failed :: string where "msg_finish_failed = (utf8 [26080, 27861, 20445, 23384, 35746, 21333, 25552, 20132, 32467, 26524, 65292, 35831, 26597, 35810,
      21407, 35746, 21333])"
definition msg_ack_failed :: string where "msg_ack_failed = (utf8 [26080, 27861, 20445, 23384, 35746, 21333, 25910, 25454, 30830, 35748, 65292, 35831, 37325, 26032,
      26597, 35810, 21407, 35746, 21333])"
definition msg_ack_accepted_only :: string where "msg_ack_accepted_only = (utf8 [20165, 24050, 30830, 35748, 25104, 21151, 30340, 35746, 21333, 21487, 30830, 35748, 25910, 25454])"

definition scope_dir :: "journal_env \<Rightarrow> string \<Rightarrow> (path, app_error) result" where
  "scope_dir J scope =
     (if scope = [] then Err (journal_error msg_scope_missing) else Ok (je_dir J @ [je_hash J scope]))"

definition validate_identity :: "string \<Rightarrow> (unit, app_error) result" where
  "validate_identity i =
     (if i = [] \<or> 36 < length i then Err (journal_error msg_identity_length) else Ok ())"

text \<open>\<^verbatim>\<open>Path::file_stem\<close> of a file name.\<close>

definition file_stem :: "string \<Rightarrow> string option" where
  "file_stem name =
     (if name = ''..'' then None
      else case dropWhile (\<lambda>c. c \<noteq> CHR ''.'') (rev name) of
        [] \<Rightarrow> Some name
      | _ # before \<Rightarrow> Some (if before = [] then name else rev before))"

text \<open>\<^verbatim>\<open>serde_json::from_slice::<StoredSubmission>\<close>: the derived reader, then the shape of a protection.\<close>

definition decode_submission :: "journal_env \<Rightarrow> string \<Rightarrow> stored_submission option" where
  "decode_submission J bs =
     (case decode (je_codec J) bs of
        None \<Rightarrow> None
      | Some r \<Rightarrow>
          (case r_protection (ss_request r) of
             None \<Rightarrow> Some r
           | Some p \<Rightarrow> if validate_shape (je_dec J) p = Ok () then Some r else None))"

definition serialize_record :: "journal_env \<Rightarrow> stored_submission \<Rightarrow> (string, app_error) result" where
  "serialize_record J r = ok_or (encode (je_codec J) r) (journal_error msg_record_encode)"

text \<open>What \<^verbatim>\<open>read_record\<close> does with the bytes of the first candidate it finds.\<close>

definition check_record ::
  "journal_env \<Rightarrow> path \<Rightarrow> string \<Rightarrow> string option \<Rightarrow> string \<Rightarrow> (stored_submission, app_error) result" where
  "check_record J p scope i contents =
     bind_result (ok_or (decode_submission J contents) (journal_error msg_record_damaged)) (\<lambda>r.
     if ss_schema_version r \<noteq> 1 then Err (journal_error msg_record_version) else
     bind_result (validate_identity (ss_order_link_id r)) (\<lambda>_.
     if ss_scope r \<noteq> scope
        \<or> (case i of None \<Rightarrow> False | Some i \<Rightarrow> i \<noteq> ss_order_link_id r)
        \<or> r_order_link_id (ss_request r) \<noteq> Some (ss_order_link_id r)
        \<or> file_stem (last p) \<noteq> Some (je_hash J (ss_order_link_id r))
     then Err (journal_error msg_record_mismatch)
     else Ok r))"

fun read_candidates ::
  "journal_env \<Rightarrow> path \<Rightarrow> string \<Rightarrow> string option \<Rightarrow> path list \<Rightarrow> disk
     \<Rightarrow> (stored_submission option, app_error) result \<times> disk" where
  "read_candidates J p scope i [] d = (Ok None, d)"
| "read_candidates J p scope i (q # qs) d =
     (case fs_metadata q d of
        (Ok (File _), d) \<Rightarrow>
          io_bind (io_map_err journal_io_error (fs_read q d)) (\<lambda>contents d.
            (bind_result (check_record J p scope i contents) (\<lambda>r. Ok (Some r)), d))
      | (Ok _, d) \<Rightarrow> (Err (journal_error msg_not_regular_record), d)
      | (Err e, d) \<Rightarrow>
          if io_kind e = NotFound then read_candidates J p scope i qs d
          else (Err (journal_io_error e), d)
      | (Panic, d) \<Rightarrow> (Panic, d))"

definition read_record ::
  "journal_env \<Rightarrow> path \<Rightarrow> string \<Rightarrow> string option \<Rightarrow> disk
     \<Rightarrow> (stored_submission option, app_error) result \<times> disk" where
  "read_record J p scope i d = read_candidates J p scope i [p, temp_path p, backup_path p] d"

definition record_path :: "journal_env \<Rightarrow> path \<Rightarrow> string \<Rightarrow> path" where
  "record_path J dir i = dir @ [je_hash J i @ ''.json'']"

section \<open>Operations\<close>

definition journal_get ::
  "journal_env \<Rightarrow> string \<Rightarrow> string \<Rightarrow> disk \<Rightarrow> (stored_submission option, app_error) result \<times> disk" where
  "journal_get J scope i d =
     io_bind (validate_identity i, d) (\<lambda>_ d.
     io_bind (scope_dir J scope, d) (\<lambda>dir d.
     read_record J (record_path J dir i) scope (Some i) d))"

definition new_record :: "string \<Rightarrow> string \<Rightarrow> place_order_request \<Rightarrow> u64 \<Rightarrow> stored_submission" where
  "new_record scope i request now =
     \<lparr>ss_schema_version = 1, ss_scope = scope, ss_order_link_id = i, ss_request = request,
      ss_created_at_ms = now, ss_outcome = OutcomePending, ss_acknowledged = False\<rparr>"

definition journal_begin ::
  "journal_env \<Rightarrow> string \<Rightarrow> place_order_request \<Rightarrow> u64 \<Rightarrow> disk \<Rightarrow> (stored_submission, app_error) result \<times> disk" where
  "journal_begin J scope request now d =
     io_bind (ok_or (r_order_link_id request) (journal_error msg_request_without_id), d) (\<lambda>i d.
     io_bind (journal_get J scope i d) (\<lambda>existing d.
     case existing of
       Some r \<Rightarrow> (Ok r, d)
     | None \<Rightarrow>
       let r = new_record scope i request now in
       io_bind (serialize_record J r, d) (\<lambda>contents d.
       io_bind (scope_dir J scope, d) (\<lambda>dir d.
       io_bind (io_map_err journal_io_error (fs_create_dir_all dir d)) (\<lambda>_ d.
       let p = record_path J dir i in
       case open_create_new p d of
         (Ok _, d) \<Rightarrow>
           io_bind (io_map_err journal_io_error (write_all p contents d)) (\<lambda>_ d.
           io_bind (io_map_err journal_io_error (sync_all d)) (\<lambda>_ d.
           (Ok r, d)))
       | (Err e, d) \<Rightarrow>
           if io_kind e = AlreadyExists
           then io_bind (journal_get J scope i d) (\<lambda>again d.
                  (ok_or again (journal_error msg_record_changed), d))
           else (Err (journal_io_error e), d)
       | (Panic, d) \<Rightarrow> (Panic, d))))))"

text \<open>The main name of a journal file, or \<^term>\<open>None\<close> for a name that is not one.\<close>

definition main_name :: "string \<Rightarrow> string option" where
  "main_name name =
     (let base = (case strip_suffix ''.tmp'' name of
                    Some b \<Rightarrow> b
                  | None \<Rightarrow> (case strip_suffix ''.bak'' name of Some b \<Rightarrow> b | None \<Rightarrow> name)) in
      case strip_suffix ''.json'' base of
        None \<Rightarrow> None
      | Some h \<Rightarrow> if length h = 64 \<and> list_all is_ascii_hexdigit h then Some (h @ ''.json'') else None)"

fun main_names :: "string list \<Rightarrow> (string list, app_error) result" where
  "main_names [] = Ok []"
| "main_names (n # ns) =
     (case main_name n of
        None \<Rightarrow> Err (journal_error msg_record_name)
      | Some m \<Rightarrow> bind_result (main_names ns) (\<lambda>ms. Ok (m # ms)))"

definition counts_as_pending :: "stored_submission \<Rightarrow> bool" where
  "counts_as_pending r \<longleftrightarrow>
     (case ss_outcome r of
        OutcomePending \<Rightarrow> True
      | OutcomeAccepted _ \<Rightarrow> \<not> ss_acknowledged r
      | OutcomeRejected \<Rightarrow> False)"

fun read_pending ::
  "journal_env \<Rightarrow> path \<Rightarrow> string \<Rightarrow> string list \<Rightarrow> disk
     \<Rightarrow> (pending_order_submission list, app_error) result \<times> disk" where
  "read_pending J dir scope [] d = (Ok [], d)"
| "read_pending J dir scope (n # ns) d =
     io_bind (read_record J (dir @ [n]) scope None d) (\<lambda>found d.
     io_bind (ok_or found (journal_error msg_record_changed), d) (\<lambda>r d.
     io_bind (read_pending J dir scope ns d) (\<lambda>rest d.
       (Ok (if counts_as_pending r then pending_of_stored r # rest else rest), d))))"

definition pending_less :: "pending_order_submission \<Rightarrow> pending_order_submission \<Rightarrow> bool" where
  "pending_less a b \<longleftrightarrow> po_created_at_ms a < po_created_at_ms b
     \<or> po_created_at_ms a = po_created_at_ms b \<and> str_less (po_order_link_id a) (po_order_link_id b)"

definition journal_list_pending ::
  "journal_env \<Rightarrow> string \<Rightarrow> disk \<Rightarrow> (pending_order_submission list, app_error) result \<times> disk" where
  "journal_list_pending J scope d =
     io_bind (scope_dir J scope, d) (\<lambda>dir d.
     case fs_read_dir dir d of
       (Ok entries, d) \<Rightarrow>
         io_bind (main_names entries, d) (\<lambda>names d.
         io_bind (read_pending J dir scope (sort_by str_less (remdups names)) d) (\<lambda>pending d.
         (Ok (sort_by pending_less pending), d)))
     | (Err e, d) \<Rightarrow> if io_kind e = NotFound then (Ok [], d) else (Err (journal_io_error e), d)
     | (Panic, d) \<Rightarrow> (Panic, d))"

text \<open>The rewriting of a record, shared by \<^verbatim>\<open>finish\<close> and \<^verbatim>\<open>acknowledge\<close>.\<close>

definition journal_rewrite ::
  "journal_env \<Rightarrow> string \<Rightarrow> string \<Rightarrow> stored_submission \<Rightarrow> string \<Rightarrow> disk \<Rightarrow> (unit, app_error) result \<times> disk" where
  "journal_rewrite J scope i r failure d =
     io_bind (scope_dir J scope, d) (\<lambda>dir d.
     io_bind (serialize_record J r, d) (\<lambda>contents d.
     io_map_err (\<lambda>_. journal_error failure) (config_save (record_path J dir i) contents d)))"

definition journal_finish ::
  "journal_env \<Rightarrow> string \<Rightarrow> string \<Rightarrow> submission_outcome \<Rightarrow> disk \<Rightarrow> (unit, app_error) result \<times> disk" where
  "journal_finish J scope i outcome d =
     io_bind (journal_get J scope i d) (\<lambda>found d.
     io_bind (ok_or found (journal_error msg_record_missing), d) (\<lambda>r d.
     journal_rewrite J scope i (r\<lparr>ss_outcome := outcome\<rparr>) msg_finish_failed d))"

definition journal_acknowledge ::
  "journal_env \<Rightarrow> string \<Rightarrow> string \<Rightarrow> disk \<Rightarrow> (unit, app_error) result \<times> disk" where
  "journal_acknowledge J scope i d =
     io_bind (journal_get J scope i d) (\<lambda>found d.
     io_bind (ok_or found (journal_error msg_record_missing), d) (\<lambda>r d.
     case ss_outcome r of
       OutcomeAccepted _ \<Rightarrow>
         if ss_acknowledged r then (Ok (), d)
         else journal_rewrite J scope i (r\<lparr>ss_acknowledged := True\<rparr>) msg_ack_failed d
     | _ \<Rightarrow> (Err (journal_error msg_ack_accepted_only), d)))"

end
