(* ===== verification/Journal_Laws.thy ===== *)
theory Journal_Laws
  imports Submission_Journal
begin

text \<open>
  The laws of the submission journal.  A submission is \<open>known\<close> as soon as one of the three files
  of its record exists, whatever they contain.  The locale \<open>intent_journal\<close> states what the
  submission protocol needs of a journal; the interpretation \<open>journal\<close> shows it for the store, for
  every schedule of I/O faults.
\<close>

section \<open>The contract\<close>

locale intent_journal =
  fixes get :: "'k \<Rightarrow> 's \<Rightarrow> ('r option, 'e) result \<times> 's"
    and start :: "'k \<Rightarrow> 'q \<Rightarrow> 's \<Rightarrow> ('r, 'e) result \<times> 's"
    and update :: "'k \<Rightarrow> 'o \<Rightarrow> 's \<Rightarrow> (unit, 'e) result \<times> 's"
    and known :: "'s \<Rightarrow> 'k \<Rightarrow> bool"
    and fits :: "'k \<Rightarrow> 'q \<Rightarrow> bool"
    and fresh :: "'k \<Rightarrow> 'q \<Rightarrow> 'r"
  assumes get_pure: "get k s = (g, s') \<Longrightarrow> known s' k' = known s k'"
    and get_absent: "get k s = (Ok None, s') \<Longrightarrow> \<not> known s k"
    and get_present: "get k s = (Ok (Some r), s') \<Longrightarrow> known s k"
    and start_known: "fits k q \<Longrightarrow> start k q s = (Ok r, s') \<Longrightarrow> known s' k"
    and start_fresh: "fits k q \<Longrightarrow> \<not> known s k \<Longrightarrow> start k q s = (Ok r, s') \<Longrightarrow> r = fresh k q"
    and start_stable: "start k q s = (x, s') \<Longrightarrow> known s k' \<Longrightarrow> known s' k'"
    and update_stable: "update k v s = (y, s') \<Longrightarrow> known s k' \<Longrightarrow> known s' k'"
begin

text \<open>Looking before starting: the intent that is returned is the caller's own, and it is new.\<close>

lemma lookup_then_start:
  assumes "fits k q" "get k s = (Ok None, s1)" "\<And>k'. known s2 k' = known s1 k'"
    and "start k q s2 = (Ok r, s3)"
  shows "\<not> known s k" "r = fresh k q" "known s3 k"
proof -
  show absent: "\<not> known s k" by (rule get_absent [OF assms(2)])
  then have "\<not> known s2 k" using get_pure [OF assms(2)] assms(3) by simp
  then show "r = fresh k q" by (rule start_fresh [OF assms(1) _ assms(4)])
  show "known s3 k" by (rule start_known [OF assms(1,4)])
qed

text \<open>Once an intent is on record no later operation makes the journal forget it.\<close>

lemma never_forgotten:
  assumes "known s k" "start k1 q s = (x, s1)" "update k2 v s1 = (y, s2)" "get k3 s2 = (z, s3)"
  shows "known s3 k"
  using assms start_stable update_stable get_pure by metis

end

section \<open>Where records live\<close>

type_synonym submission_key = "string \<times> string"

definition slot :: "journal_env \<Rightarrow> submission_key \<Rightarrow> path" where
  "slot J k = record_path J (je_dir J @ [je_hash J (fst k)]) (snd k)"

definition known :: "journal_env \<Rightarrow> disk \<Rightarrow> submission_key \<Rightarrow> bool" where
  "known J d k \<longleftrightarrow> slot_read d (slot J k) \<noteq> None"

lemma slot_nonempty [simp]: "slot J k \<noteq> []"
  by (simp add: slot_def record_path_def)

lemma length_slot: "length (slot J k) = length (je_dir J) + 2"
  by (simp add: slot_def record_path_def)

lemma known_iff: "known J d k \<longleftrightarrow> (\<exists>q\<in>slot_paths (slot J k). lookup d q \<noteq> None)"
  by (auto simp: known_def slot_read_None_iff)

lemma json_suffix_neq: "a @ ''.json'' \<noteq> b @ ''.json.tmp''" "a @ ''.json'' \<noteq> b @ ''.json.bak''"
  "a @ ''.json.tmp'' \<noteq> b @ ''.json.bak''" "b @ ''.json.tmp'' \<noteq> a @ ''.json''"
  "b @ ''.json.bak'' \<noteq> a @ ''.json''" "b @ ''.json.bak'' \<noteq> a @ ''.json.tmp''"
  by (auto dest: arg_cong [where f = last])

text \<open>Two records share a file only if they share all of them.\<close>

lemma slot_paths_disjoint:
  assumes "slot J k \<noteq> slot J k'"
  shows "slot_paths (slot J k) \<inter> slot_paths (slot J k') = {}"
  using assms json_suffix_neq
  by (auto simp: slot_paths_def slot_def record_path_def sibling_path_def butlast_append)

lemma scope_dir_Ok: "scope_dir J scope = Ok dir \<longleftrightarrow> scope \<noteq> [] \<and> dir = je_dir J @ [je_hash J scope]"
  by (auto simp: scope_dir_def)

section \<open>Reading changes nothing\<close>

lemma io_bind_eq:
  "io_bind r f = (y, s') \<longleftrightarrow>
     (\<exists>x s. r = (Ok x, s) \<and> f x s = (y, s')) \<or> (\<exists>e. r = (Err e, s') \<and> y = Err e) \<or> (r = (Panic, s') \<and> y = Panic)"
  by (cases "(r, f)" rule: io_bind.cases) auto

lemma read_candidates_frame:
  "read_candidates J p scope i qs d = (r, d') \<Longrightarrow> lookup d' x = lookup d x"
proof (induction J p scope i qs d arbitrary: r d' rule: read_candidates.induct)
  case (2 J p scope i q qs d)
  obtain m d1 where m: "fs_metadata q d = (m, d1)" by (cases "fs_metadata q d")
  obtain c d2 where c: "fs_read q d1 = (c, d2)" by (cases "fs_read q d1")
  note same = io_frame(1) [OF m, of x] io_frame(3) [OF c, of x]
  show ?case
    using "2.prems" "2.IH" [OF m [symmetric]] m c same
    by (cases c) (auto simp: io_bind_eq split: result.splits node.splits if_splits)
qed simp

lemmas [simp del] = read_candidates.simps(2)

lemma read_record_frame: "read_record J p scope i d = (r, d') \<Longrightarrow> lookup d' x = lookup d x"
  by (simp add: read_record_def read_candidates_frame)

lemma journal_get_frame: "journal_get J scope i d = (r, d') \<Longrightarrow> lookup d' x = lookup d x"
  by (auto simp: journal_get_def io_bind_eq dest: read_record_frame)

lemma read_pending_frame: "read_pending J dir scope ns d = (r, d') \<Longrightarrow> lookup d' x = lookup d x"
proof (induction ns arbitrary: d r d')
  case (Cons n ns)
  show ?case
    using Cons.prems by (auto simp: io_bind_eq dest!: Cons.IH read_record_frame [where x = x])
qed simp

lemma journal_list_pending_frame:
  assumes "journal_list_pending J scope d = (r, d')"
  shows "lookup d' x = lookup d x"
proof (cases "scope_dir J scope")
  case (Ok dir)
  obtain m d1 where m: "fs_read_dir dir d = (m, d1)" by (cases "fs_read_dir dir d")
  show ?thesis
    using assms Ok m io_frame(4) [OF m, of x]
    by (cases m) (auto simp: journal_list_pending_def io_bind_eq split: if_splits
        dest!: read_pending_frame [where x = x])
qed (use assms in \<open>simp_all add: journal_list_pending_def\<close>)

lemma known_cong: "(\<And>x. lookup d' x = lookup d x) \<Longrightarrow> known J d' k = known J d k"
  by (simp add: known_iff)

section \<open>What a lookup tells\<close>

lemma metadata_not_found:
  "fs_metadata q d = (Err e, d') \<Longrightarrow> io_kind e = NotFound \<Longrightarrow> lookup d q = None"
  by (auto simp: fs_metadata_def syscall_def ok_or_def split: fault.splits option.splits)

lemma metadata_found: "fs_metadata q d = (Ok n, d') \<Longrightarrow> lookup d q = Some n"
  by (auto simp: fs_metadata_def syscall_def split: fault.splits)

lemma read_candidates_None:
  "read_candidates J p scope i qs d = (Ok None, d') \<Longrightarrow> q \<in> set qs \<Longrightarrow> lookup d q = None"
proof (induction J p scope i qs d arbitrary: d' rule: read_candidates.induct)
  case (2 J p scope i a qs d)
  obtain m d1 where m: "fs_metadata a d = (m, d1)" by (cases "fs_metadata a d")
  have same: "lookup d1 x = lookup d x" for x by (rule io_frame(1) [OF m])
  obtain e where e: "m = Err e" "io_kind e = NotFound" "read_candidates J p scope i qs d1 = (Ok None, d')"
    using "2.prems"(1) m
    by (auto simp: read_candidates.simps(2) io_bind_eq split: result.splits node.splits if_splits)
  have "lookup d a = None" using metadata_not_found m e by blast
  moreover have "q \<in> set qs \<Longrightarrow> lookup d1 q = None" using "2.IH" [OF m [symmetric]] e by auto
  ultimately show ?case using "2.prems"(2) same by auto
qed simp

lemma check_record_Ok:
  assumes "check_record J p scope i bs = Ok r"
  shows "decode_submission J bs = Some r" "ss_schema_version r = 1" "ss_scope r = scope"
    "ss_order_link_id r \<noteq> []" "length (ss_order_link_id r) \<le> 36"
    "r_order_link_id (ss_request r) = Some (ss_order_link_id r)"
    "file_stem (last p) = Some (je_hash J (ss_order_link_id r))"
    "\<And>j. i = Some j \<Longrightarrow> ss_order_link_id r = j"
  using assms by (auto simp: check_record_def validate_identity_def split: if_splits option.splits)

lemma read_candidates_Some:
  "read_candidates J p scope i qs d = (Ok (Some r), d') \<Longrightarrow>
     \<exists>q\<in>set qs. \<exists>bs. lookup d q = Some (File bs) \<and> check_record J p scope i bs = Ok r"
proof (induction J p scope i qs d arbitrary: d' rule: read_candidates.induct)
  case (2 J p scope i a qs d)
  obtain m d1 where m: "fs_metadata a d = (m, d1)" by (cases "fs_metadata a d")
  have same: "lookup d1 x = lookup d x" for x by (rule io_frame(1) [OF m])
  consider
      (regular) c where "m = Ok (File c)" "io_bind (io_map_err journal_io_error (fs_read a d1)) (\<lambda>contents d.
            (bind_result (check_record J p scope i contents) (\<lambda>r. Ok (Some r)), d)) = (Ok (Some r), d')"
    | (next_one) e where "m = Err e" "io_kind e = NotFound" "read_candidates J p scope i qs d1 = (Ok (Some r), d')"
    using "2.prems" m
    by (auto simp: read_candidates.simps(2) split: result.splits node.splits if_splits)
  then show ?case
  proof cases
    case regular
    then obtain bs d2 where bs: "fs_read a d1 = (Ok bs, d2)" "check_record J p scope i bs = Ok r"
      by (cases "fs_read a d1"; cases "fst (fs_read a d1)") auto
    then have "lookup d a = Some (File bs)"
      using same by (auto simp: fs_read_def syscall_def split: fault.splits option.splits node.splits)
    then show ?thesis using bs by auto
  next
    case next_one
    then show ?thesis using "2.IH" [OF m [symmetric]] same by auto
  qed
qed simp

lemma journal_get_unfold:
  "journal_get J scope i d = (Ok x, d') \<longleftrightarrow>
     validate_identity i = Ok () \<and> scope \<noteq> []
     \<and> read_record J (slot J (scope, i)) scope (Some i) d = (Ok x, d')"
  by (auto simp: journal_get_def io_bind_eq scope_dir_Ok slot_def)

lemma journal_get_None:
  assumes "journal_get J scope i d = (Ok None, d')"
  shows "\<not> known J d (scope, i)"
proof -
  let ?p = "slot J (scope, i)"
  have "read_candidates J ?p scope (Some i) [?p, temp_path ?p, backup_path ?p] d = (Ok None, d')"
    using assms by (simp add: journal_get_unfold read_record_def)
  from read_candidates_None [OF this] show ?thesis by (auto simp: known_iff slot_paths_def)
qed

lemma journal_get_Some:
  assumes "journal_get J scope i d = (Ok (Some r), d')"
  obtains q bs where "q \<in> slot_paths (slot J (scope, i))" "lookup d q = Some (File bs)"
    "check_record J (slot J (scope, i)) scope (Some i) bs = Ok r"
proof -
  let ?p = "slot J (scope, i)"
  have "read_candidates J ?p scope (Some i) [?p, temp_path ?p, backup_path ?p] d = (Ok (Some r), d')"
    using assms by (simp add: journal_get_unfold read_record_def)
  from read_candidates_Some [OF this] show ?thesis using that by (auto simp: slot_paths_def)
qed

lemma journal_get_known:
  "journal_get J scope i d = (Ok (Some r), d') \<Longrightarrow> known J d (scope, i)"
  by (erule journal_get_Some) (auto simp: known_iff)

lemma journal_get_identity:
  assumes "journal_get J scope i d = (Ok (Some r), d')"
  shows "ss_scope r = scope" "ss_order_link_id r = i" "r_order_link_id (ss_request r) = Some i"
  using assms by (auto elim!: journal_get_Some dest: check_record_Ok)

section \<open>Operations keep what is known\<close>

lemma known_mono:
  "(\<And>x. lookup d x \<noteq> None \<Longrightarrow> lookup d' x \<noteq> None) \<Longrightarrow> known J d k \<Longrightarrow> known J d' k"
  by (meson known_iff)

lemma config_save_known:
  assumes "config_save (slot J k) c d = (r, d')" "known J d k'"
  shows "known J d' k'"
proof (cases "slot J k' = slot J k")
  case True
  then show ?thesis
    using config_slot.save_present [OF _ _ assms(1)] assms(2) by (simp add: known_def)
next
  case False
  obtain q where q: "q \<in> slot_paths (slot J k')" "lookup d q \<noteq> None" using assms(2) by (auto simp: known_iff)
  have "q \<notin> slot_paths (slot J k)" using slot_paths_disjoint [OF False] q(1) by blast
  then have "lookup d' q = lookup d q" using config_slot.save_frame [OF _ assms(1), of q] q(2) by simp
  then show ?thesis using q by (auto simp: known_iff intro: bexI [of _ q])
qed

lemma journal_rewrite_known:
  assumes "journal_rewrite J scope i rec m d = (r, d')" "known J d k"
  shows "known J d' k"
proof (cases "config_save (slot J (scope, i)) (the (encode (je_codec J) rec)) d")
  case (Pair x d1)
  then show ?thesis
    using assms config_save_known [OF Pair assms(2)]
    by (auto simp: journal_rewrite_def io_bind_eq scope_dir_Ok slot_def serialize_record_def io_map_err_def)
qed

lemma journal_finish_known:
  assumes "journal_finish J scope i v d = (r, d')" "known J d k"
  shows "known J d' k"
proof -
  obtain g d1 where g: "journal_get J scope i d = (g, d1)" by (cases "journal_get J scope i d")
  have "known J d1 k" using known_cong [OF journal_get_frame [OF g]] assms(2) by simp
  then show ?thesis
    using assms(1) g journal_rewrite_known [of J scope i _ msg_finish_failed d1 _ _ k]
    by (auto simp: journal_finish_def io_bind_eq)
qed

lemma journal_acknowledge_known:
  assumes "journal_acknowledge J scope i d = (r, d')" "known J d k"
  shows "known J d' k"
proof -
  obtain g d1 where g: "journal_get J scope i d = (g, d1)" by (cases "journal_get J scope i d")
  have "known J d1 k" using known_cong [OF journal_get_frame [OF g]] assms(2) by simp
  then show ?thesis
    using assms(1) g journal_rewrite_known [of J scope i _ msg_ack_failed d1 _ _ k]
    by (auto simp: journal_acknowledge_def io_bind_eq split: submission_outcome.splits if_splits)
      (metis submission_outcome.exhaust)+
qed

section \<open>Starting an intent\<close>

text \<open>The part of \<open>journal_begin\<close> after the lookup found nothing.\<close>

definition create_record ::
  "journal_env \<Rightarrow> string \<Rightarrow> string \<Rightarrow> stored_submission \<Rightarrow> disk \<Rightarrow> (stored_submission, app_error) result \<times> disk" where
  "create_record J scope i r d =
     io_bind (serialize_record J r, d) (\<lambda>contents d.
     io_bind (scope_dir J scope, d) (\<lambda>dir d.
     io_bind (io_map_err journal_io_error (fs_create_dir_all dir d)) (\<lambda>_ d.
     let p = record_path J dir i in
     case open_create_new p d of
       (Ok _, d) \<Rightarrow>
         io_bind (io_map_err journal_io_error (write_all p contents d)) (\<lambda>_ d.
         io_bind (io_map_err journal_io_error (sync_all d)) (\<lambda>_ d.
         (Ok r, d)))
     | (Err e, d) \<Rightarrow>
         if io_kind e = AlreadyExists
         then io_bind (journal_get J scope i d) (\<lambda>again d.
                (ok_or again (journal_error msg_record_changed), d))
         else (Err (journal_io_error e), d)
     | (Panic, d) \<Rightarrow> (Panic, d))))"

lemma journal_begin_create:
  "journal_begin J scope rq now d =
     io_bind (ok_or (r_order_link_id rq) (journal_error msg_request_without_id), d) (\<lambda>i d.
     io_bind (journal_get J scope i d) (\<lambda>existing d.
     case existing of Some r \<Rightarrow> (Ok r, d) | None \<Rightarrow> create_record J scope i (new_record scope i rq now) d))"
  unfolding journal_begin_def create_record_def Let_def by (rule refl)

text \<open>The files are extended by the new one and the directories above it.\<close>

lemma open_create_new_effect:
  assumes "open_create_new p d = (r, d')"
  shows "lookup d x \<noteq> None \<Longrightarrow> lookup d' x = lookup d x"
    and "r = Ok () \<Longrightarrow> lookup d p = None \<and> lookup d' p = Some (File [])"
    and "r = Err e \<Longrightarrow> io_kind e = AlreadyExists \<Longrightarrow> lookup d p \<noteq> None"
    and "r \<noteq> Ok () \<Longrightarrow> lookup d' x = lookup d x"
  using assms by (auto simp: open_create_new_def syscall_def os_not_found_def split: fault.splits if_splits)

lemma write_all_effect:
  assumes "write_all p bs d = (r, d')"
  shows "lookup d p \<noteq> None \<Longrightarrow> lookup d x \<noteq> None \<Longrightarrow> lookup d' x \<noteq> None"
    and "r = Ok () \<Longrightarrow> lookup d' p = Some (File bs)"
  using assms by (auto simp: write_all_def split: fault.splits if_splits)

lemma create_dir_all_slot:
  assumes "fs_create_dir_all (je_dir J @ [h]) d = (r, d')" "x \<in> slot_paths (slot J k)"
  shows "lookup d' x = lookup d x"
proof -
  have "length x = length (je_dir J) + 2"
    using assms(2) by (auto simp: slot_paths_def length_sibling_path length_slot)
  then have "x \<notin> set (dir_chain (je_dir J @ [h]))" using dir_chain_length [of x "je_dir J @ [h]"] by auto
  then show ?thesis using create_dir_all_lookup [OF assms(1), of x] by auto
qed

lemma create_record_early:
  assumes "create_record J scope i r d = (y, d')"
    and "fs_create_dir_all (je_dir J @ [je_hash J scope]) d = (c, d1)"
    and "encode (je_codec J) r = None \<or> scope = [] \<or> c \<noteq> Ok ()"
  shows "\<not> is_ok y \<and> (d' = d \<or> d' = d1)"
  using assms
  by (cases "encode (je_codec J) r"; cases "scope = []"; cases c)
    (auto simp: create_record_def serialize_record_def scope_dir_def)

lemma create_record_late:
  assumes "encode (je_codec J) r = Some bs" "scope \<noteq> []"
    and "fs_create_dir_all (je_dir J @ [je_hash J scope]) d = (Ok (), d1)"
  shows "create_record J scope i r d =
     (case open_create_new (slot J (scope, i)) d1 of
       (Ok _, d) \<Rightarrow>
         io_bind (io_map_err journal_io_error (write_all (slot J (scope, i)) bs d)) (\<lambda>_ d.
         io_bind (io_map_err journal_io_error (sync_all d)) (\<lambda>_ d.
         (Ok r, d)))
     | (Err e, d) \<Rightarrow>
         if io_kind e = AlreadyExists
         then io_bind (journal_get J scope i d) (\<lambda>again d.
                (ok_or again (journal_error msg_record_changed), d))
         else (Err (journal_io_error e), d)
     | (Panic, d) \<Rightarrow> (Panic, d))"
proof -
  have "slot J (scope, i) = record_path J (je_dir J @ [je_hash J scope]) i" by (simp add: slot_def)
  then show ?thesis
    unfolding \<open>slot J (scope, i) = _\<close>
    using assms by (simp add: create_record_def serialize_record_def scope_dir_def Let_def)
qed

lemma write_record_effect:
  assumes "lookup d p \<noteq> None"
    and "io_bind (io_map_err journal_io_error (write_all p bs d)) (\<lambda>_ d.
         io_bind (io_map_err journal_io_error (sync_all d)) (\<lambda>_ d. (Ok r, d))) = (y, d')"
  shows "lookup d x \<noteq> None \<Longrightarrow> lookup d' x \<noteq> None"
    and "is_ok y \<Longrightarrow> y = Ok r \<and> lookup d' p = Some (File bs)"
proof -
  obtain w d1 where w: "write_all p bs d = (w, d1)" by (cases "write_all p bs d")
  obtain f d2 where f: "sync_all d1 = (f, d2)" by (cases "sync_all d1")
  note same = io_frame(5) [OF f]
  have "(is_ok y \<longrightarrow> y = Ok r \<and> w = Ok ()) \<and> (d' = d1 \<or> d' = d2)"
    using assms(2) w f by (cases w; cases f) auto
  then show "lookup d x \<noteq> None \<Longrightarrow> lookup d' x \<noteq> None"
    and "is_ok y \<Longrightarrow> y = Ok r \<and> lookup d' p = Some (File bs)"
    using write_all_effect [OF w] assms(1) same by auto
qed

lemma create_record_effect:
  assumes run: "create_record J scope i r d = (y, d')"
  shows "known J d k \<Longrightarrow> known J d' k"
    and "\<not> known J d (scope, i) \<Longrightarrow> is_ok y \<Longrightarrow>
      y = Ok r \<and> (\<exists>bs. encode (je_codec J) r = Some bs \<and> lookup d' (slot J (scope, i)) = Some (File bs))"
    and "is_ok y \<Longrightarrow> known J d' (scope, i)"
proof -
  let ?p = "slot J (scope, i)"
  let ?P = "(known J d k \<longrightarrow> known J d' k) \<and> (\<not> known J d (scope, i) \<longrightarrow> is_ok y \<longrightarrow>
      y = Ok r \<and> (\<exists>bs. encode (je_codec J) r = Some bs \<and> lookup d' ?p = Some (File bs)))
    \<and> (is_ok y \<longrightarrow> known J d' (scope, i))"
  obtain c d1 where c: "fs_create_dir_all (je_dir J @ [je_hash J scope]) d = (c, d1)"
    by (cases "fs_create_dir_all (je_dir J @ [je_hash J scope]) d")
  have k1: "known J d1 k = known J d k" for k using create_dir_all_slot [OF c] by (auto simp: known_iff)
  have at: "lookup x ?p \<noteq> None \<Longrightarrow> known J x (scope, i)" for x by (auto simp: known_iff slot_paths_def)
  have ?P
  proof (cases "encode (je_codec J) r = None \<or> scope = [] \<or> c \<noteq> Ok ()")
    case True
    then show ?thesis using create_record_early [OF run c True] k1 by blast
  next
    case False
    then obtain bs where bs: "encode (je_codec J) r = Some bs" "scope \<noteq> []" "c = Ok ()" by auto
    obtain n d2 where n: "open_create_new ?p d1 = (n, d2)" by (cases "open_create_new ?p d1")
    have k2: "known J d k \<longrightarrow> known J d2 k"
      using known_mono [of d1 d2] open_create_new_effect(1) [OF n] k1 by auto
    note late = create_record_late [OF bs(1,2), of d d1 i] c bs(3) n
    show ?thesis
    proof (cases n)
      case (Ok u)
      then have "lookup d2 ?p \<noteq> None" using open_create_new_effect(2) [OF n] by simp
      note w = write_record_effect [OF this, of bs r y d']
      show ?thesis using w run late Ok bs(1) k2 known_mono [of d2 d'] at [of d'] by auto
    next
      case (Err e)
      obtain g d3 where g: "journal_get J scope i d2 = (g, d3)" by (cases "journal_get J scope i d2")
      have k3: "known J d3 k = known J d2 k" for k by (rule known_cong [OF journal_get_frame [OF g]])
      show ?thesis
      proof (cases "io_kind e = AlreadyExists")
        case True
        then have "known J d (scope, i)"
          using open_create_new_effect(3) [OF n Err] at [of d1] k1 by blast
        moreover have "d' = d3 \<and> (is_ok y \<longrightarrow> (\<exists>v. g = Ok (Some v)))"
          using run late Err True g by (cases g) (auto simp: ok_or_def split: option.splits)
        ultimately show ?thesis using k2 k3 journal_get_known [of J scope i d2 _ d3] g by auto
      next
        case False
        then show ?thesis using run late Err k2 by auto
      qed
    next
      case Panic
      then show ?thesis using run late k2 by auto
    qed
  qed
  then show "known J d k \<Longrightarrow> known J d' k"
    and "\<not> known J d (scope, i) \<Longrightarrow> is_ok y \<Longrightarrow>
      y = Ok r \<and> (\<exists>bs. encode (je_codec J) r = Some bs \<and> lookup d' ?p = Some (File bs))"
    and "is_ok y \<Longrightarrow> known J d' (scope, i)"
    by blast+
qed

text \<open>The whole of \<^verbatim>\<open>begin\<close>.\<close>

lemma journal_begin_effect:
  assumes run: "journal_begin J scope rq now d = (y, d')"
  shows "known J d k \<Longrightarrow> known J d' k"
    and "r_order_link_id rq = Some i \<Longrightarrow> \<not> known J d (scope, i) \<Longrightarrow> is_ok y \<Longrightarrow>
      y = Ok (new_record scope i rq now)
      \<and> (\<exists>bs. encode (je_codec J) (new_record scope i rq now) = Some bs
           \<and> lookup d' (slot J (scope, i)) = Some (File bs))"
    and "r_order_link_id rq = Some i \<Longrightarrow> is_ok y \<Longrightarrow> known J d' (scope, i)"
proof -
  let ?P = "\<lambda>i. (known J d k \<longrightarrow> known J d' k) \<and> (\<not> known J d (scope, i) \<longrightarrow> is_ok y \<longrightarrow>
      y = Ok (new_record scope i rq now)
      \<and> (\<exists>bs. encode (je_codec J) (new_record scope i rq now) = Some bs
           \<and> lookup d' (slot J (scope, i)) = Some (File bs)))
    \<and> (is_ok y \<longrightarrow> known J d' (scope, i))"
  have P: "?P i" if i: "r_order_link_id rq = Some i" for i
  proof -
    obtain g d1 where g: "journal_get J scope i d = (g, d1)" by (cases "journal_get J scope i d")
    have k1: "known J d1 k = known J d k" for k by (rule known_cong [OF journal_get_frame [OF g]])
    show ?thesis
    proof (cases "g = Ok None")
      case True
      then have "create_record J scope i (new_record scope i rq now) d1 = (y, d')"
        using run i g by (simp add: journal_begin_create)
      from create_record_effect [OF this] show ?thesis using k1 by simp
    next
      case False
      then have "d' = d1 \<and> (is_ok y \<longrightarrow> (\<exists>v. g = Ok (Some v)))"
        using run i g by (cases g) (auto simp: journal_begin_create split: option.splits)
      then show ?thesis using k1 journal_get_known [of J scope i d _ d1] g by auto
    qed
  qed
  show "known J d k \<Longrightarrow> known J d' k"
    using P run by (cases "r_order_link_id rq") (auto simp: journal_begin_create)
  show "y = Ok (new_record scope i rq now)
      \<and> (\<exists>bs. encode (je_codec J) (new_record scope i rq now) = Some bs
           \<and> lookup d' (slot J (scope, i)) = Some (File bs))"
    if "r_order_link_id rq = Some i" "\<not> known J d (scope, i)" "is_ok y"
    using P that by blast
  show "known J d' (scope, i)" if "r_order_link_id rq = Some i" "is_ok y"
    using P that by blast
qed

section \<open>The store meets the contract\<close>

interpretation journal: intent_journal "\<lambda>k. journal_get J (fst k) (snd k)"
    "\<lambda>k (rq, now). journal_begin J (fst k) rq now" "\<lambda>k. journal_finish J (fst k) (snd k)"
    "known J" "\<lambda>k (rq, now). r_order_link_id rq = Some (snd k)"
    "\<lambda>k (rq, now). new_record (fst k) (snd k) rq now"
  for J
proof unfold_locales
  fix k s g s' k'
  assume "journal_get J (fst k) (snd k) s = (g, s')"
  then show "known J s' k' = known J s k'" using known_cong journal_get_frame by blast
next
  fix k s s'
  assume "journal_get J (fst k) (snd k) s = (Ok None, s')"
  then show "\<not> known J s k" using journal_get_None by fastforce
next
  fix k s r s'
  assume "journal_get J (fst k) (snd k) s = (Ok (Some r), s')"
  then show "known J s k" using journal_get_known by fastforce
next
  fix k :: submission_key and q :: "place_order_request \<times> u64" and s r s'
  assume "case q of (rq, now) \<Rightarrow> r_order_link_id rq = Some (snd k)"
    "(case q of (rq, now) \<Rightarrow> journal_begin J (fst k) rq now) s = (Ok r, s')"
  then show "known J s' k"
    using journal_begin_effect(3) [of J "fst k" "fst q" "snd q" s "Ok r" s' "snd k"]
    by (cases q) simp
next
  fix k :: submission_key and q :: "place_order_request \<times> u64" and s r s'
  assume "case q of (rq, now) \<Rightarrow> r_order_link_id rq = Some (snd k)" "\<not> known J s k"
    "(case q of (rq, now) \<Rightarrow> journal_begin J (fst k) rq now) s = (Ok r, s')"
  then show "r = (case q of (rq, now) \<Rightarrow> new_record (fst k) (snd k) rq now)"
    using journal_begin_effect(2) [of J "fst k" "fst q" "snd q" s "Ok r" s' "snd k"]
    by (cases q) simp
next
  fix k :: submission_key and q :: "place_order_request \<times> u64" and s x s' k'
  assume "(case q of (rq, now) \<Rightarrow> journal_begin J (fst k) rq now) s = (x, s')" "known J s k'"
  then show "known J s' k'"
    using journal_begin_effect(1) [of J "fst k" "fst q" "snd q" s x s' k'] by (cases q) simp
next
  fix k v s y s' k'
  assume "journal_finish J (fst k) (snd k) v s = (y, s')" "known J s k'"
  then show "known J s' k'" by (rule journal_finish_known)
qed

end
