(* ===== verification/Submit_Once.thy ===== *)
theory Submit_Once
  imports Journal_Laws
begin

text \<open>
  \<^verbatim>\<open>services/order_submission.rs\<close>, with the classification of submission errors it takes from
  \<^verbatim>\<open>services/trading.rs\<close>, and the account scope of \<^verbatim>\<open>api/client.rs\<close>: an order is sent at most
  once, and a submission whose answer was lost is queried, never sent again.

  The exchange and everything else outside the journal is a world \<open>'w\<close>; the future that
  \<^verbatim>\<open>submit\<close> returns is a function on it.  The caller holds the account's mutation guard for the
  whole call, so one call is one step of the journal's disk.  A process that dies during the call
  is covered too: dying during file operations is a schedule in which the remaining ones fail,
  and dying while the exchange is called is the result \<^term>\<open>Panic\<close> of \<open>submit\<close>.
\<close>

section \<open>Which failures are certain\<close>

definition is_confirmed_submission_rejection :: "app_error \<Rightarrow> bool" where
  "is_confirmed_submission_rejection e =
     (case e of ETradingFailure f \<Rightarrow> failure_kind f = FailureRejected | _ \<Rightarrow> False)"

definition is_certain_submission_failure :: "app_error \<Rightarrow> bool" where
  "is_certain_submission_failure e \<longleftrightarrow>
     is_confirmed_submission_rejection e
   \<or> (case e of
        EAuthFailure k \<Rightarrow> k \<in> {SessionExpired, Timestamp, Signature, AccessDenied, RateLimited}
      | _ \<Rightarrow> False)
   \<or> (case e of
        ENotified code m nid cause \<Rightarrow> cause = Some (CauseAuthFailure SessionExpired)
      | _ \<Rightarrow> False)"

definition definitely_not_accepted :: "app_error \<Rightarrow> bool" where
  "definitely_not_accepted e \<longleftrightarrow>
     is_certain_submission_failure e
   \<or> (case e of
        ERisk _ \<Rightarrow> True | EAuth _ \<Rightarrow> True | ENotConnected \<Rightarrow> True | EConfig _ \<Rightarrow> True
      | EOrderSubmissionRejected _ \<Rightarrow> True
      | ENotified code m nid cause \<Rightarrow> code \<in> {''RISK_ORDER_BLOCKED'', ''ORDER_REJECTED''}
      | _ \<Rightarrow> False)"

section \<open>Submitting\<close>

definition msg_bad_identity :: string where "msg_bad_identity = (utf8 [35746, 21333, 25552, 20132, 26631, 35782, 26080, 25928])"
definition msg_identity_reused :: string where "msg_identity_reused = (utf8 [21516, 19968, 25552, 20132, 26631, 35782, 19981, 33021, 29992, 20110, 19981, 21516, 35746, 21333])"
definition msg_already_rejected :: string where "msg_already_rejected = (utf8 [21407, 35746, 21333, 24050, 30830, 35748, 26410, 21463, 29702, 65292, 35831, 37325, 26032, 22635,
      20889, 21518, 25552, 20132])"
definition msg_can_resubmit :: string where "msg_can_resubmit = (utf8 [21407, 35746, 21333, 24050, 30830, 35748, 26410, 21463, 29702, 65292, 21487, 37325, 26032, 25552,
      20132])"

definition submission_identity :: "place_order_request \<Rightarrow> string option" where
  "submission_identity request =
     (case r_order_link_id request of
        None \<Rightarrow> None
      | Some i \<Rightarrow> if i \<noteq> [] \<and> length i \<le> 36 then Some i else None)"

definition before_submission :: "app_error \<Rightarrow> app_error" where
  "before_submission e = EOrderSubmissionRejected (user_message e)"

text \<open>What a record that is already there answers.  Requests are equal when their JSON values are.\<close>

definition replay_record ::
  "string \<Rightarrow> place_order_request \<Rightarrow> stored_submission \<Rightarrow> (order, app_error) result" where
  "replay_record i request r =
     (if ss_request r \<noteq> request then Err (EOrderSubmissionRejected msg_identity_reused)
      else case ss_outcome r of
        OutcomeAccepted o' \<Rightarrow> Ok o'
      | OutcomeRejected \<Rightarrow> Err (EOrderSubmissionRejected msg_already_rejected)
      | OutcomePending \<Rightarrow> Err (EOrderSubmissionUnknown i))"

definition blocks :: "place_order_request \<Rightarrow> pending_order_submission \<Rightarrow> bool" where
  "blocks request p \<longleftrightarrow> r_reduce_only request \<noteq> Some True \<or> po_reduce_only p = Some True"

text \<open>
  \<^verbatim>\<open>submit_once\<close> up to the call of \<^verbatim>\<open>submit\<close>: either the final answer or the identity and the intent
  under which the order may be sent.
\<close>

definition prepare_submission ::
  "journal_env \<Rightarrow> string \<Rightarrow> place_order_request \<Rightarrow> u64 \<Rightarrow> disk
     \<Rightarrow> ((order, app_error) result + string \<times> stored_submission) \<times> disk" where
  "prepare_submission J scope request now d =
     (case submission_identity request of
        None \<Rightarrow> (Inl (Err (EOrderSubmissionRejected msg_bad_identity)), d)
      | Some i \<Rightarrow>
        (case journal_get J scope i d of
           (Err e, d) \<Rightarrow> (Inl (Err (before_submission e)), d)
         | (Panic, d) \<Rightarrow> (Inl Panic, d)
         | (Ok (Some r), d) \<Rightarrow> (Inl (replay_record i request r), d)
         | (Ok None, d) \<Rightarrow>
           (case journal_list_pending J scope d of
              (Err e, d) \<Rightarrow> (Inl (Err (before_submission e)), d)
            | (Panic, d) \<Rightarrow> (Inl Panic, d)
            | (Ok pending, d) \<Rightarrow>
              (case List.find (blocks request) pending of
                 Some p \<Rightarrow> (Inl (Err (EOrderSubmissionBlocked (po_order_link_id p))), d)
               | None \<Rightarrow>
                 (case journal_begin J scope request now d of
                    (Err e, d) \<Rightarrow> (Inl (Err (before_submission e)), d)
                  | (Panic, d) \<Rightarrow> (Inl Panic, d)
                  | (Ok original, d) \<Rightarrow> (Inr (i, original), d))))))"

definition parses_to_zero :: "decimal_api \<Rightarrow> string \<Rightarrow> bool" where
  "parses_to_zero D s \<longleftrightarrow> dec_from_str D s = Some 0"

text \<open>The order as it is returned and stored, with missing details taken from the intent.\<close>

definition complete_order ::
  "decimal_api \<Rightarrow> string \<Rightarrow> place_order_request \<Rightarrow> order \<Rightarrow> order" where
  "complete_order D i rq o' =
     o'\<lparr>o_order_link_id := Some i,
        o_symbol := (if o_symbol o' = [] then r_symbol rq else o_symbol o'),
        o_side := (if o_side o' = [] then r_side rq else o_side o'),
        o_order_type := (if o_order_type o' = [] then r_order_type rq else o_order_type o'),
        o_qty := (if o_qty o' = [] \<or> parses_to_zero D (o_qty o') then r_qty rq else o_qty o'),
        o_price := (if eq_ignore_ascii_case (r_order_type rq) ''limit''
                       \<and> (o_price o' = [] \<or> parses_to_zero D (o_price o'))
                    then (case r_price rq of Some p \<Rightarrow> p | None \<Rightarrow> o_price o')
                    else o_price o')\<rparr>"

text \<open>\<^verbatim>\<open>submit_once\<close> after the call.\<close>

definition settle_submission ::
  "journal_env \<Rightarrow> string \<Rightarrow> string \<Rightarrow> stored_submission \<Rightarrow> (order, app_error) result \<Rightarrow> disk
     \<Rightarrow> (order, app_error) result \<times> disk" where
  "settle_submission J scope i original answer d =
     (case answer of
        Panic \<Rightarrow> (Panic, d)
      | Ok o' \<Rightarrow>
          if trim (o_order_id o') = [] \<or> (case o_order_link_id o' of None \<Rightarrow> False | Some l \<Rightarrow> l \<noteq> i)
          then (Err (EOrderSubmissionUnknown i), d)
          else
            let completed = complete_order (je_dec J) i (ss_request original) o' in
            (case journal_finish J scope i (OutcomeAccepted completed) d of
               (Panic, d) \<Rightarrow> (Panic, d)
             | (_, d) \<Rightarrow> (Ok completed, d))
      | Err e \<Rightarrow>
          if definitely_not_accepted e
          then (case journal_finish J scope i OutcomeRejected d of
                  (Panic, d) \<Rightarrow> (Panic, d)
                | (Err _, d) \<Rightarrow> (Err (EOrderSubmissionUnknown i), d)
                | (Ok _, d) \<Rightarrow>
                    (case e of
                       ENotified code m nid cause \<Rightarrow> (Err e, d)
                     | _ \<Rightarrow> (Err (EOrderSubmissionRejected (user_message e)), d)))
          else (Err (EOrderSubmissionUnknown i), d))"

definition submit_once ::
  "journal_env \<Rightarrow> string \<Rightarrow> place_order_request \<Rightarrow> u64
     \<Rightarrow> (place_order_request \<Rightarrow> 'w \<Rightarrow> (order, app_error) result \<times> 'w) \<Rightarrow> disk \<times> 'w
     \<Rightarrow> (order, app_error) result \<times> disk \<times> 'w" where
  "submit_once J scope request now submit s =
     (case prepare_submission J scope request now (fst s) of
        (Inl answer, d) \<Rightarrow> (answer, d, snd s)
      | (Inr (i, original), d) \<Rightarrow>
          (case submit request (snd s) of
             (answer, w) \<Rightarrow>
               (case settle_submission J scope i original answer d of
                  (r, d') \<Rightarrow> (r, d', w))))"

section \<open>Reconciling\<close>

definition matches_submission :: "string \<Rightarrow> string \<Rightarrow> order \<Rightarrow> bool" where
  "matches_submission i symbol o' \<longleftrightarrow>
     o_order_link_id o' = Some i \<and> o_symbol o' = symbol \<and> trim (o_order_id o') \<noteq> []"

definition reconcile ::
  "journal_env \<Rightarrow> string \<Rightarrow> string
     \<Rightarrow> (place_order_request \<Rightarrow> 'w \<Rightarrow> (order list, app_error) result \<times> 'w) \<Rightarrow> disk \<times> 'w
     \<Rightarrow> (order option, app_error) result \<times> disk \<times> 'w" where
  "reconcile J scope i query s =
     (case journal_get J scope i (fst s) of
        (Err e, d) \<Rightarrow> (Err e, d, snd s)
      | (Panic, d) \<Rightarrow> (Panic, d, snd s)
      | (Ok None, d) \<Rightarrow> (Ok None, d, snd s)
      | (Ok (Some r), d) \<Rightarrow>
        (case ss_outcome r of
           OutcomeAccepted o' \<Rightarrow> (Ok (Some o'), d, snd s)
         | OutcomeRejected \<Rightarrow> (Err (EOrderSubmissionRejected msg_can_resubmit), d, snd s)
         | OutcomePending \<Rightarrow>
             (case query (ss_request r) (snd s) of
                (Err e, w) \<Rightarrow> (Err e, d, w)
              | (Panic, w) \<Rightarrow> (Panic, d, w)
              | (Ok orders, w) \<Rightarrow>
                  (case List.find (matches_submission i (r_symbol (ss_request r))) orders of
                     None \<Rightarrow> (Ok None, d, w)
                   | Some o' \<Rightarrow>
                       (case journal_finish J scope i (OutcomeAccepted o') d of
                          (Err e, d) \<Rightarrow> (Err e, d, w)
                        | (Panic, d) \<Rightarrow> (Panic, d, w)
                        | (Ok _, d) \<Rightarrow> (Ok (Some o'), d, w))))))"

section \<open>The account scope\<close>

fun be_bytes :: "nat \<Rightarrow> nat \<Rightarrow> string" where
  "be_bytes 0 v = []"
| "be_bytes (Suc n) v = be_bytes n (v div 256) @ [char_of v]"

text \<open>
  The bytes \<^verbatim>\<open>order_submission_scope\<close> feeds to SHA-256: a domain tag, then each field after its
  length in eight bytes.
\<close>

definition scope_field :: "string \<Rightarrow> string" where
  "scope_field f = be_bytes 8 (length f mod 2 ^ 64) @ f"

definition scope_preimage :: "string \<Rightarrow> string \<Rightarrow> string \<Rightarrow> string" where
  "scope_preimage account base_url api_key =
     ''easiflux.order-submissions.v1'' @ [char_of (0::nat)]
       @ scope_field account @ scope_field base_url @ scope_field api_key"

definition order_submission_scope ::
  "(string \<Rightarrow> string) \<Rightarrow> string \<Rightarrow> (string \<times> string) option \<Rightarrow> (string, app_error) result" where
  "order_submission_scope hash account credential =
     (case credential of
        None \<Rightarrow> Err ENotConnected
      | Some (base_url, api_key) \<Rightarrow> Ok (hash (scope_preimage account base_url api_key)))"

section \<open>Commands on one journal\<close>

datatype journal_command =
    CmdSubmit string place_order_request u64
  | CmdReconcile string string
  | CmdAcknowledge string string

record 'w exchange =
  x_submit :: "place_order_request \<Rightarrow> 'w \<Rightarrow> (order, app_error) result \<times> 'w"
  x_query :: "place_order_request \<Rightarrow> 'w \<Rightarrow> (order list, app_error) result \<times> 'w"

text \<open>The world with a log of the submissions the exchange was handed, under their scope.\<close>

type_synonym 'w logged = "'w \<times> (string \<times> place_order_request) list"

definition logged_submit ::
  "string \<Rightarrow> 'w exchange \<Rightarrow> place_order_request \<Rightarrow> 'w logged \<Rightarrow> (order, app_error) result \<times> 'w logged" where
  "logged_submit scope X rq w =
     (case x_submit X rq (fst w) of (r, w') \<Rightarrow> (r, w', snd w @ [(scope, rq)]))"

definition logged_query ::
  "'w exchange \<Rightarrow> place_order_request \<Rightarrow> 'w logged \<Rightarrow> (order list, app_error) result \<times> 'w logged" where
  "logged_query X rq w = (case x_query X rq (fst w) of (r, w') \<Rightarrow> (r, w', snd w))"

definition journal_step ::
  "journal_env \<Rightarrow> 'w exchange \<Rightarrow> journal_command \<Rightarrow> disk \<times> 'w logged \<Rightarrow> disk \<times> 'w logged" where
  "journal_step J X c s =
     (case c of
        CmdSubmit scope rq now \<Rightarrow> snd (submit_once J scope rq now (logged_submit scope X) s)
      | CmdReconcile scope i \<Rightarrow> snd (reconcile J scope i (logged_query X) s)
      | CmdAcknowledge scope i \<Rightarrow> (snd (journal_acknowledge J scope i (fst s)), snd s))"

definition journal_run ::
  "journal_env \<Rightarrow> 'w exchange \<Rightarrow> journal_command list \<Rightarrow> disk \<times> 'w logged \<Rightarrow> disk \<times> 'w logged" where
  "journal_run J X cs s = fold (journal_step J X) cs s"

definition sent_keys :: "disk \<times> 'w logged \<Rightarrow> submission_key list" where
  "sent_keys s = map (\<lambda>(scope, rq). (scope, the (r_order_link_id rq))) (snd (snd s))"

end
