(* ===== verification/Submit_Laws.thy ===== *)
theory Submit_Laws
  imports Submit_Once
begin

text \<open>
  Lemmas on the submission protocol: when it hands an order to the exchange, what the journal then
  holds, and what a later call reads.  The locale \<open>once_only\<close> is the argument for sending at most
  once; the interpretation \<open>submissions\<close> is its instance for the program.
\<close>

section \<open>At most once, abstractly\<close>

locale once_only =
  fixes step :: "'c \<Rightarrow> 's \<Rightarrow> 's"
    and sent :: "'s \<Rightarrow> 'k list"
    and recorded :: "'s \<Rightarrow> 'k \<Rightarrow> bool"
  assumes step_sent:
      "sent (step c s) = sent s
        \<or> (\<exists>k. sent (step c s) = sent s @ [k] \<and> \<not> recorded s k \<and> recorded (step c s) k)"
    and step_recorded: "recorded s k \<Longrightarrow> recorded (step c s) k"
begin

lemma run_recorded: "recorded s k \<Longrightarrow> recorded (fold step cs s) k"
  by (induction cs arbitrary: s) (auto intro: step_recorded)

lemma run_sent_prefix:
  assumes "\<forall>k\<in>set (sent s). recorded s k" "distinct (sent s)"
  shows "(\<forall>k\<in>set (sent (fold step cs s)). recorded (fold step cs s) k) \<and> distinct (sent (fold step cs s))"
  using assms
proof (induction cs arbitrary: s)
  case (Cons c cs)
  have "(\<forall>k\<in>set (sent (step c s)). recorded (step c s) k) \<and> distinct (sent (step c s))"
    using step_sent [of c s] Cons.prems step_recorded [of s _ c] by auto
  then show ?case using Cons.IH by simp
qed simp

text \<open>What was recorded before a run is not sent in it.\<close>

lemma recorded_not_sent:
  assumes "recorded s k" "\<forall>k\<in>set (sent s). recorded s k" "distinct (sent s)"
  shows "count_list (sent (fold step cs s)) k = count_list (sent s) k"
  using assms
proof (induction cs arbitrary: s)
  case (Cons c cs)
  have inv: "(\<forall>k\<in>set (sent (step c s)). recorded (step c s) k) \<and> distinct (sent (step c s))"
    using step_sent [of c s] Cons.prems step_recorded [of s _ c] by auto
  have "count_list (sent (step c s)) k = count_list (sent s) k"
    using step_sent [of c s] Cons.prems(1) by auto
  then show ?case using Cons.IH [OF step_recorded [OF Cons.prems(1)]] inv by simp
qed simp

end

section \<open>Reading a record back\<close>

definition journal_sound :: "journal_env \<Rightarrow> bool" where
  "journal_sound J \<longleftrightarrow> codec_roundtrip (je_codec J)
     \<and> (\<forall>s. length (je_hash J s) = 64 \<and> list_all is_ascii_hexdigit (je_hash J s))"

definition shaped :: "journal_env \<Rightarrow> place_order_request \<Rightarrow> bool" where
  "shaped J rq \<longleftrightarrow>
     (case r_protection rq of None \<Rightarrow> True | Some p \<Rightarrow> validate_shape (je_dec J) p = Ok ())"

text \<open>A record that belongs under a key.\<close>

definition proper_record :: "journal_env \<Rightarrow> submission_key \<Rightarrow> stored_submission \<Rightarrow> bool" where
  "proper_record J k r \<longleftrightarrow> fst k \<noteq> [] \<and> validate_identity (snd k) = Ok () \<and> ss_schema_version r = 1
     \<and> ss_scope r = fst k \<and> ss_order_link_id r = snd k \<and> r_order_link_id (ss_request r) = Some (snd k)
     \<and> shaped J (ss_request r)"

text \<open>The main file of a key holds the encoding of a record.\<close>

definition stores :: "journal_env \<Rightarrow> disk \<Rightarrow> submission_key \<Rightarrow> stored_submission \<Rightarrow> bool" where
  "stores J d k r \<longleftrightarrow> (\<exists>bs. encode (je_codec J) r = Some bs \<and> lookup d (slot J k) = Some (File bs))"

lemma file_stem_json: "h \<noteq> [] \<Longrightarrow> file_stem (h @ ''.json'') = Some h"
  by (auto simp: file_stem_def dest: arg_cong [where f = length])

lemma check_proper_record:
  assumes "journal_sound J" "proper_record J k r" "encode (je_codec J) r = Some bs"
  shows "check_record J (slot J k) (fst k) (Some (snd k)) bs = Ok r"
proof -
  have "je_hash J (snd k) \<noteq> []" using assms(1) unfolding journal_sound_def by (metis list.size(3) zero_neq_numeral)
  then have stem: "file_stem (last (slot J k)) = Some (je_hash J (snd k))"
    by (simp add: slot_def record_path_def file_stem_json)
  have "decode_submission J bs = Some r"
    using assms by (auto simp: decode_submission_def journal_sound_def codec_roundtrip_def proper_record_def
        shaped_def split: option.splits)
  then show ?thesis using assms(2) stem by (simp add: check_record_def proper_record_def)
qed

lemma read_candidates_main:
  assumes "lookup d q = Some (File bs)" "check_record J p scope i bs = Ok r"
    and "read_candidates J p scope i (q # qs) d = (Ok x, d')"
  shows "x = Some r"
proof -
  obtain m d1 where m: "fs_metadata q d = (m, d1)" by (cases "fs_metadata q d")
  have same: "lookup d1 q = Some (File bs)" using io_frame(1) [OF m] assms(1) by simp
  have found: "m = Ok (File bs) \<or> (\<exists>e. m = Err e \<and> io_kind e \<noteq> NotFound)"
    using m assms(1) by (auto simp: fs_metadata_def syscall_def split: fault.splits)
  obtain c d2 where c: "fs_read q d1 = (c, d2)" by (cases "fs_read q d1")
  have "c = Ok bs \<or> is_err c"
    using c same by (auto simp: fs_read_def syscall_def split: fault.splits)
  then show ?thesis
    using assms(2,3) m found c by (cases c) (auto simp: read_candidates.simps(2))
qed

lemma journal_get_stored:
  assumes "journal_sound J" "proper_record J (scope, i) r" "stores J d (scope, i) r"
    and "journal_get J scope i d = (Ok x, d')"
  shows "x = Some r"
proof -
  obtain bs where bs: "encode (je_codec J) r = Some bs" "lookup d (slot J (scope, i)) = Some (File bs)"
    using assms(3) by (auto simp: stores_def)
  have "check_record J (slot J (scope, i)) scope (Some i) bs = Ok r"
    using check_proper_record [OF assms(1,2) bs(1)] by simp
  from read_candidates_main [OF bs(2) this] show ?thesis
    using assms(4) unfolding journal_get_unfold read_record_def by blast
qed

lemma settled_reads [simp]:
  "fs_metadata q (settled d) = (ok_or (lookup d q) os_not_found, settled d)"
  "lookup d q = Some (File bs) \<Longrightarrow> fs_read q (settled d) = (Ok bs, settled d)"
  by (simp_all add: fs_metadata_def fs_read_def syscall_def)

lemma journal_get_settled:
  assumes "journal_sound J" "proper_record J (scope, i) r" "stores J d (scope, i) r"
  shows "journal_get J scope i (settled d) = (Ok (Some r), settled d)"
proof -
  obtain bs where bs: "encode (je_codec J) r = Some bs" "lookup d (slot J (scope, i)) = Some (File bs)"
    using assms(3) by (auto simp: stores_def)
  have "check_record J (slot J (scope, i)) scope (Some i) bs = Ok r"
    using check_proper_record [OF assms(1,2) bs(1)] by simp
  then show ?thesis
    using bs(2) assms(2) unfolding journal_get_unfold
    by (simp add: proper_record_def read_record_def read_candidates.simps(2))
qed

text \<open>After an interrupted replacement the record is read from the temporary file.\<close>

lemma journal_get_settled_temp:
  assumes "journal_sound J" "proper_record J (scope, i) r" "encode (je_codec J) r = Some bs"
    and "lookup d (slot J (scope, i)) = None" "lookup d (temp_path (slot J (scope, i))) = Some (File bs)"
  shows "journal_get J scope i (settled d) = (Ok (Some r), settled d)"
proof -
  have "check_record J (slot J (scope, i)) scope (Some i) bs = Ok r"
    using check_proper_record [OF assms(1-3)] by simp
  then show ?thesis
    using assms(2,4,5) unfolding journal_get_unfold
    by (simp add: proper_record_def read_record_def read_candidates.simps(2) os_not_found_def)
qed

lemma proper_record_outcome [simp]:
  "proper_record J k (r\<lparr>ss_outcome := v\<rparr>) = proper_record J k r"
  "proper_record J k (r\<lparr>ss_acknowledged := b\<rparr>) = proper_record J k r"
  by (simp_all add: proper_record_def)

lemma stores_cong: "(\<And>x. lookup d' x = lookup d x) \<Longrightarrow> stores J d' k r = stores J d k r"
  by (simp add: stores_def)

section \<open>Writing an outcome\<close>

lemma journal_rewrite_Ok:
  assumes "journal_rewrite J scope i r m d = (Ok (), d')"
  shows "stores J d' (scope, i) r"
proof -
  obtain bs where bs: "encode (je_codec J) r = Some bs" "config_save (slot J (scope, i)) bs d = (Ok (), d')"
    using assms
    by (cases "config_save (slot J (scope, i)) (the (encode (je_codec J) r)) d")
      (auto simp: journal_rewrite_def io_bind_Ok_iff scope_dir_Ok slot_def serialize_record_def io_map_err_def)
  then show ?thesis using config_slot.save_ok [OF _ bs(2)] by (simp add: stores_def)
qed

lemma journal_finish_Ok:
  assumes "journal_sound J" "proper_record J (scope, i) r" "stores J d (scope, i) r"
    and "journal_finish J scope i v d = (Ok (), d')"
  shows "stores J d' (scope, i) (r\<lparr>ss_outcome := v\<rparr>)"
proof -
  obtain g d1 where g: "journal_get J scope i d = (g, d1)" by (cases "journal_get J scope i d")
  obtain x where x: "g = Ok x" using assms(4) g by (cases g) (auto simp: journal_finish_def)
  have "x = Some r" using journal_get_stored [OF assms(1-3)] g x by simp
  then have "journal_rewrite J scope i (r\<lparr>ss_outcome := v\<rparr>) msg_finish_failed d1 = (Ok (), d')"
    using assms(4) g x by (simp add: journal_finish_def)
  from journal_rewrite_Ok [OF this] show ?thesis .
qed

text \<open>A failed write of an outcome leaves the old record or the new one to be read.\<close>

lemma journal_finish_old_or_new:
  assumes "journal_sound J" "proper_record J (scope, i) r" "stores J d (scope, i) r"
    and "journal_finish J scope i v d = (y, d')"
  shows "\<exists>r'. journal_get J scope i (settled d') = (Ok (Some r'), settled d')
    \<and> (r' = r \<or> r' = r\<lparr>ss_outcome := v\<rparr>)"
proof -
  let ?new = "r\<lparr>ss_outcome := v\<rparr>"
  obtain g d1 where g: "journal_get J scope i d = (g, d1)" by (cases "journal_get J scope i d")
  have st1: "stores J d1 (scope, i) r" using stores_cong [OF journal_get_frame [OF g]] assms(3) by blast
  have same: "journal_get J scope i (settled x) = (Ok (Some r), settled x)" if "stores J x (scope, i) r" for x
    by (rule journal_get_settled [OF assms(1,2) that])
  have new: "journal_get J scope i (settled x) = (Ok (Some ?new), settled x)"
    if "stores J x (scope, i) ?new" for x
    by (rule journal_get_settled [OF assms(1) _ that]) (simp add: assms(2))
  show ?thesis
  proof (cases "g = Ok (Some r) \<and> encode (je_codec J) ?new \<noteq> None")
    case False
    have "\<And>x. g = Ok x \<Longrightarrow> x = Some r" using journal_get_stored [OF assms(1-3)] g by blast
    then have "d' = d1"
      using False assms(2,4) g
      by (cases g) (auto simp: journal_finish_def journal_rewrite_def serialize_record_def scope_dir_def proper_record_def)
    then show ?thesis using same [OF st1] by blast
  next
    case True
    then obtain bs' where bs': "encode (je_codec J) ?new = Some bs'" by auto
    obtain bs where bs: "encode (je_codec J) r = Some bs" "lookup d1 (slot J (scope, i)) = Some (File bs)"
      using st1 by (auto simp: stores_def)
    obtain z where save: "config_save (slot J (scope, i)) bs' d1 = (z, d')"
      using assms(2,4) g True bs'
      by (cases "config_save (slot J (scope, i)) bs' d1")
        (auto simp: journal_finish_def journal_rewrite_def serialize_record_def scope_dir_def
          proper_record_def slot_def io_map_err_def)
    from config_slot.save_old_or_new [OF _ bs(2) save]
    consider "stores J d' (scope, i) r" | "stores J d' (scope, i) ?new"
      | "lookup d' (slot J (scope, i)) = None" "lookup d' (temp_path (slot J (scope, i))) = Some (File bs')"
      using bs(1) bs' by (auto simp: stores_def)
    then show ?thesis
    proof cases
      case 3
      have "proper_record J (scope, i) ?new" using assms(2) by simp
      from journal_get_settled_temp [OF assms(1) this bs' 3] show ?thesis by blast
    qed (use same new in blast)+
  qed
qed

section \<open>Before and after the exchange is called\<close>

text \<open>Everything that holds when an order is handed over.\<close>

lemma prepare_submission_Inr:
  assumes "prepare_submission J scope rq now d = (Inr (i, original), d')"
  shows "submission_identity rq = Some i" "\<not> known J d (scope, i)" "scope \<noteq> []"
    "original = new_record scope i rq now" "stores J d' (scope, i) original" "known J d' (scope, i)"
proof -
  from assms obtain d1 pending d2 where
    i: "submission_identity rq = Some i" and g: "journal_get J scope i d = (Ok None, d1)"
    and l: "journal_list_pending J scope d1 = (Ok pending, d2)"
    and b: "journal_begin J scope rq now d2 = (Ok original, d')"
    by (auto simp: prepare_submission_def split: option.splits prod.splits result.splits)
  have link: "r_order_link_id rq = Some i"
    using i by (auto simp: submission_identity_def split: option.splits if_splits)
  have pure: "known J d2 k = known J d1 k" for k by (rule known_cong [OF journal_list_pending_frame [OF l]])
  note lts = journal.lookup_then_start [where J = J and k = "(scope, i)" and q = "(rq, now)"]
  show "submission_identity rq = Some i" by (rule i)
  show absent: "\<not> known J d (scope, i)" using lts(1) [of d d1 d2 original d'] g b link pure by simp
  have absent2: "\<not> known J d2 (scope, i)"
    using absent pure known_cong [OF journal_get_frame [OF g]] by simp
  note eff = journal_begin_effect [OF b]
  show new: "original = new_record scope i rq now" using eff(2) [OF link absent2] by simp
  show "stores J d' (scope, i) original" using eff(2) [OF link absent2] new by (simp add: stores_def)
  show "known J d' (scope, i)" using eff(3) [OF link] by simp
  show "scope \<noteq> []" using g by (simp add: journal_get_unfold)
qed

lemma prepare_submission_known:
  assumes "prepare_submission J scope rq now d = (x, d')" "known J d k"
  shows "known J d' k"
proof (cases "submission_identity rq")
  case (Some i)
  obtain g d1 where g: "journal_get J scope i d = (g, d1)" by (cases "journal_get J scope i d")
  obtain l d2 where l: "journal_list_pending J scope d1 = (l, d2)" by (cases "journal_list_pending J scope d1")
  obtain b d3 where b: "journal_begin J scope rq now d2 = (b, d3)" by (cases "journal_begin J scope rq now d2")
  have k: "known J d1 k" "known J d2 k"
    using assms(2) known_cong [OF journal_get_frame [OF g]] known_cong [OF journal_list_pending_frame [OF l]]
    by auto
  have "d' = d1 \<or> d' = d2 \<or> d' = d3"
    using assms(1) Some g l b
    by (auto simp: prepare_submission_def split: option.splits result.splits)
  then show ?thesis using k journal_begin_effect(1) [OF b] by blast
qed (use assms in \<open>simp add: prepare_submission_def\<close>)

lemma settle_submission_known:
  assumes "settle_submission J scope i original answer d = (r, d')" "known J d k"
  shows "known J d' k"
proof -
  have "\<And>v y d''. journal_finish J scope i v d = (y, d'') \<Longrightarrow> known J d'' k"
    using journal_finish_known assms(2) by blast
  then show ?thesis
    using assms
    by (auto simp: settle_submission_def Let_def split: result.splits if_splits prod.splits app_error.splits)
qed

text \<open>What an answer of the protocol tells about the answer of the exchange.\<close>

lemma settle_accepted:
  assumes "settle_submission J scope i original answer d = (Ok acc, d')"
  obtains raw y where "answer = Ok raw" "acc = complete_order (je_dec J) i (ss_request original) raw"
    "trim (o_order_id raw) \<noteq> []" "journal_finish J scope i (OutcomeAccepted acc) d = (y, d')"
proof (cases answer)
  case (Ok raw)
  let ?c = "complete_order (je_dec J) i (ss_request original) raw"
  obtain y d2 where y: "journal_finish J scope i (OutcomeAccepted ?c) d = (y, d2)"
    by (cases "journal_finish J scope i (OutcomeAccepted ?c) d")
  have "trim (o_order_id raw) \<noteq> [] \<and> acc = ?c \<and> d' = d2"
    using assms Ok y by (cases y) (auto simp: settle_submission_def Let_def split: if_splits option.splits)
  then show ?thesis using that Ok y by blast
next
  case (Err e)
  then show ?thesis
    using assms by (auto simp: settle_submission_def split: if_splits prod.splits result.splits app_error.splits)
qed (use assms in \<open>simp add: settle_submission_def\<close>)

lemma settle_failed:
  assumes "settle_submission J scope i original answer d = (Err e, d')" "\<forall>j. e \<noteq> EOrderSubmissionUnknown j"
  shows "\<exists>e0. answer = Err e0 \<and> definitely_not_accepted e0"
proof (cases answer)
  case (Ok raw)
  let ?c = "complete_order (je_dec J) i (ss_request original) raw"
  obtain y d2 where y: "journal_finish J scope i (OutcomeAccepted ?c) d = (y, d2)"
    by (cases "journal_finish J scope i (OutcomeAccepted ?c) d")
  then show ?thesis
    using assms Ok y by (cases y) (auto simp: settle_submission_def Let_def split: if_splits option.splits)
next
  case (Err e0)
  then show ?thesis using assms by (auto simp: settle_submission_def split: if_splits)
qed (use assms in \<open>simp add: settle_submission_def\<close>)

text \<open>The two ways a call of \<open>submit_once\<close> goes.\<close>

lemma submit_once_cases:
  assumes "submit_once J scope rq now submit (d, w) = (r, d', w')"
  obtains (answered) "prepare_submission J scope rq now d = (Inl r, d')" "w' = w"
  | (sent) i original d1 answer where
      "prepare_submission J scope rq now d = (Inr (i, original), d1)"
      "submit rq w = (answer, w')" "settle_submission J scope i original answer d1 = (r, d')"
  using assms by (auto simp: submit_once_def split: prod.splits sum.splits)

lemma reconcile_known:
  assumes "reconcile J scope i query (d, w) = (r, d', w')" "known J d k"
  shows "known J d' k"
proof -
  obtain g d1 where g: "journal_get J scope i d = (g, d1)" by (cases "journal_get J scope i d")
  have "known J d1 k" using assms(2) known_cong [OF journal_get_frame [OF g]] by simp
  moreover have "d' = d1 \<or> (\<exists>v y. journal_finish J scope i v d1 = (y, d'))"
  proof (cases "\<exists>rec. g = Ok (Some rec) \<and> ss_outcome rec = OutcomePending")
    case False
    then show ?thesis
      using assms(1) g by (cases g) (auto simp: reconcile_def split: option.splits submission_outcome.splits)
  next
    case True
    then obtain rec where rec: "g = Ok (Some rec)" "ss_outcome rec = OutcomePending" by blast
    obtain q w1 where q: "query (ss_request rec) w = (q, w1)" by (cases "query (ss_request rec) w")
    show ?thesis
    proof (cases q)
      case (Ok orders)
      show ?thesis
      proof (cases "List.find (matches_submission i (r_symbol (ss_request rec))) orders")
        case (Some o')
        obtain y d2 where y: "journal_finish J scope i (OutcomeAccepted o') d1 = (y, d2)"
          by (cases "journal_finish J scope i (OutcomeAccepted o') d1")
        have "d' = d2" using assms(1) g rec q Ok Some y by (cases y) (simp_all add: reconcile_def)
        then show ?thesis using y by blast
      qed (use assms(1) g rec q Ok in \<open>simp add: reconcile_def\<close>)
    qed (use assms(1) g rec q in \<open>simp_all add: reconcile_def\<close>)
  qed
  ultimately show ?thesis using journal_finish_known by blast
qed

section \<open>Commands send at most once\<close>

lemma journal_step_known:
  assumes "known J (fst s) k"
  shows "known J (fst (journal_step J X c s)) k"
proof (cases c)
  case (CmdSubmit scope rq now)
  obtain d w where s: "s = (d, w)" by (cases s)
  obtain r d' w' where run: "submit_once J scope rq now (logged_submit scope X) (d, w) = (r, d', w')"
    by (cases "submit_once J scope rq now (logged_submit scope X) (d, w)") auto
  have "known J d' k"
    using run
  proof (cases rule: submit_once_cases)
    case answered
    then show ?thesis using prepare_submission_known assms s by auto
  next
    case (sent i original d1 answer)
    have "known J d1 k" using prepare_submission_known [OF sent(1)] assms s by simp
    then show ?thesis by (rule settle_submission_known [OF sent(3)])
  qed
  then show ?thesis using run s CmdSubmit by (simp add: journal_step_def)
next
  case (CmdReconcile scope i)
  then show ?thesis
    using reconcile_known [of J scope i "logged_query X" "fst s" "snd s"] assms
    by (cases "reconcile J scope i (logged_query X) s") (auto simp: journal_step_def)
next
  case (CmdAcknowledge scope i)
  then show ?thesis
    using journal_acknowledge_known [of J scope i "fst s"] assms
    by (cases "journal_acknowledge J scope i (fst s)") (auto simp: journal_step_def)
qed

lemma journal_step_sent:
  "sent_keys (journal_step J X c s) = sent_keys s
   \<or> (\<exists>k. sent_keys (journal_step J X c s) = sent_keys s @ [k] \<and> \<not> known J (fst s) k
        \<and> known J (fst (journal_step J X c s)) k)"
proof (cases c)
  case (CmdSubmit scope rq now)
  obtain d w log where s: "s = (d, w, log)" by (cases s)
  obtain r d' w' log' where
    run: "submit_once J scope rq now (logged_submit scope X) (d, w, log) = (r, d', w', log')"
    by (cases "submit_once J scope rq now (logged_submit scope X) (d, w, log)") auto
  have step: "journal_step J X c s = (d', w', log')" using run s CmdSubmit by (simp add: journal_step_def)
  show ?thesis
    using run
  proof (cases rule: submit_once_cases)
    case answered
    then show ?thesis using step s by (simp add: sent_keys_def)
  next
    case (sent i original d1 answer)
    note prep = prepare_submission_Inr [OF sent(1)]
    have "log' = log @ [(scope, rq)]" using sent(2) by (auto simp: logged_submit_def split: prod.splits)
    moreover have "r_order_link_id rq = Some i"
      using prep(1) by (auto simp: submission_identity_def split: option.splits if_splits)
    ultimately have "sent_keys (journal_step J X c s) = sent_keys s @ [(scope, i)]"
      using step s by (simp add: sent_keys_def)
    moreover have "known J d' (scope, i)" using settle_submission_known [OF sent(3) prep(6)] .
    ultimately show ?thesis using prep(2) step s by auto
  qed
next
  case (CmdReconcile scope i)
  then show ?thesis
    by (auto simp: journal_step_def sent_keys_def reconcile_def logged_query_def
        split: result.splits option.splits prod.splits submission_outcome.splits)
next
  case (CmdAcknowledge scope i)
  then show ?thesis by (simp add: journal_step_def sent_keys_def)
qed

interpretation submissions: once_only "journal_step J X" sent_keys "\<lambda>s. known J (fst s)"
  for J X
  by unfold_locales (rule journal_step_sent, rule journal_step_known)

end
