(* ===== verification/Submission_Samples.thy ===== *)
theory Submission_Samples
  imports Samples Submit_Laws
begin

text \<open>
  A concrete journal for the witnesses: the text format extended to whole records, and a padded
  hexadecimal rendering in place of SHA-256.
\<close>

section \<open>A record format\<close>

definition enc_bool :: "bool \<Rightarrow> string" where
  "enc_bool b = enc_nat (if b then 1 else 0)"

definition dec_bool :: "string \<Rightarrow> bool \<times> string" where
  "dec_bool s = (let (n, r) = dec_nat s in (n = 1, r))"

definition enc_opt :: "('a \<Rightarrow> string) \<Rightarrow> 'a option \<Rightarrow> string" where
  "enc_opt e x = (case x of None \<Rightarrow> enc_nat 0 | Some v \<Rightarrow> enc_nat 1 @ e v)"

definition dec_opt :: "(string \<Rightarrow> 'a \<times> string) \<Rightarrow> string \<Rightarrow> 'a option \<times> string" where
  "dec_opt f s = (let (n, r) = dec_nat s in if n = 0 then (None, r) else (let (v, r) = f r in (Some v, r)))"

lemma dec_enc_bool [simp]: "dec_bool (enc_bool b @ r) = (b, r)"
  by (simp add: dec_bool_def enc_bool_def)

lemma dec_enc_opt: "(\<And>v r. f (e v @ r) = (v, r)) \<Longrightarrow> dec_opt f (enc_opt e x @ r) = (x, r)"
  by (cases x) (simp_all add: dec_opt_def enc_opt_def)

lemma dec_enc_opts [simp]:
  "dec_opt dec_str (enc_opt enc_str x @ r) = (x, r)" "dec_opt dec_bool (enc_opt enc_bool y @ r) = (y, r)"
  by (simp_all add: dec_enc_opt)

definition status_code :: "order_status \<Rightarrow> nat" where
  "status_code s = (case s of OrderNew \<Rightarrow> 0 | OrderPartiallyFilled \<Rightarrow> 1 | OrderFilled \<Rightarrow> 2
     | OrderCancelled \<Rightarrow> 3 | OrderRejected \<Rightarrow> 4 | OrderUnknown \<Rightarrow> 5)"

definition code_status :: "nat \<Rightarrow> order_status" where
  "code_status n = [OrderNew, OrderPartiallyFilled, OrderFilled, OrderCancelled, OrderRejected, OrderUnknown] ! n"

lemma code_status_code [simp]: "code_status (status_code s) = s"
  by (cases s) (simp_all add: code_status_def status_code_def)

definition enc_order :: "order \<Rightarrow> string" where
  "enc_order x = enc_str (o_order_id x) @ enc_str (o_symbol x) @ enc_str (o_side x) @ enc_str (o_order_type x)
     @ enc_str (o_price x) @ enc_str (o_qty x) @ enc_nat (status_code (o_status x))
     @ enc_opt enc_str (o_order_link_id x) @ enc_str (o_filled_qty x) @ enc_str (o_avg_price x)"

definition dec_order :: "string \<Rightarrow> order \<times> string" where
  "dec_order s =
     (let (a, s) = dec_str s; (b, s) = dec_str s; (c, s) = dec_str s; (d, s) = dec_str s; (e, s) = dec_str s;
          (f, s) = dec_str s; (g, s) = dec_nat s; (h, s) = dec_opt dec_str s; (i, s) = dec_str s;
          (j, s) = dec_str s in
      (\<lparr>o_order_id = a, o_symbol = b, o_side = c, o_order_type = d, o_price = e, o_qty = f,
        o_status = code_status g, o_order_link_id = h, o_filled_qty = i, o_avg_price = j\<rparr>, s))"

lemma dec_enc_order [simp]: "dec_order (enc_order x @ r) = (x, r)"
  by (simp add: dec_order_def enc_order_def)

definition enc_protection :: "order_protection \<Rightarrow> string" where
  "enc_protection p = enc_opt enc_str (take_profit p) @ enc_opt enc_str (stop_loss p) @ enc_str (trigger_by p)"

definition dec_protection :: "string \<Rightarrow> order_protection \<times> string" where
  "dec_protection s =
     (let (a, s) = dec_opt dec_str s; (b, s) = dec_opt dec_str s; (c, s) = dec_str s in
      (\<lparr>take_profit = a, stop_loss = b, trigger_by = c\<rparr>, s))"

lemma dec_enc_protection [simp]: "dec_protection (enc_protection p @ r) = (p, r)"
  by (simp add: dec_protection_def enc_protection_def)

lemma dec_enc_opt_protection [simp]:
  "dec_opt dec_protection (enc_opt enc_protection x @ r) = (x, r)"
  by (simp add: dec_enc_opt)

definition enc_request :: "place_order_request \<Rightarrow> string" where
  "enc_request x = enc_str (r_symbol x) @ enc_str (r_side x) @ enc_str (r_order_type x) @ enc_str (r_qty x)
     @ enc_nat (unat (r_position_idx x)) @ enc_opt enc_str (r_price x) @ enc_opt enc_str (r_time_in_force x)
     @ enc_opt enc_str (r_order_link_id x) @ enc_opt enc_bool (r_reduce_only x)
     @ enc_opt enc_protection (r_protection x)"

definition dec_request :: "string \<Rightarrow> place_order_request \<times> string" where
  "dec_request s =
     (let (a, s) = dec_str s; (b, s) = dec_str s; (c, s) = dec_str s; (d, s) = dec_str s; (e, s) = dec_nat s;
          (f, s) = dec_opt dec_str s; (g, s) = dec_opt dec_str s; (h, s) = dec_opt dec_str s;
          (i, s) = dec_opt dec_bool s; (j, s) = dec_opt dec_protection s in
      (\<lparr>r_symbol = a, r_side = b, r_order_type = c, r_qty = d, r_position_idx = of_nat e, r_price = f,
        r_time_in_force = g, r_order_link_id = h, r_reduce_only = i, r_protection = j\<rparr>, s))"

lemma dec_enc_request [simp]: "dec_request (enc_request x @ r) = (x, r)"
  by (simp add: dec_request_def enc_request_def)

definition enc_outcome :: "submission_outcome \<Rightarrow> string" where
  "enc_outcome x = (case x of OutcomePending \<Rightarrow> enc_nat 0 | OutcomeAccepted v \<Rightarrow> enc_nat 1 @ enc_order v
     | OutcomeRejected \<Rightarrow> enc_nat 2)"

definition dec_outcome :: "string \<Rightarrow> submission_outcome \<times> string" where
  "dec_outcome s = (let (n, s) = dec_nat s in
     if n = 0 then (OutcomePending, s)
     else if n = 1 then (let (v, s) = dec_order s in (OutcomeAccepted v, s)) else (OutcomeRejected, s))"

lemma dec_enc_outcome [simp]: "dec_outcome (enc_outcome x @ r) = (x, r)"
  by (cases x) (simp_all add: dec_outcome_def enc_outcome_def)

definition sample_record_codec :: "stored_submission codec" where
  "sample_record_codec =
     \<lparr>encode = (\<lambda>x. Some (enc_nat (unat (ss_schema_version x)) @ enc_str (ss_scope x)
         @ enc_str (ss_order_link_id x) @ enc_request (ss_request x) @ enc_nat (unat (ss_created_at_ms x))
         @ enc_outcome (ss_outcome x) @ enc_bool (ss_acknowledged x) @ [])),
      decode = (\<lambda>s. if s = [] then None else
         let (a, s) = dec_nat s; (b, s) = dec_str s; (c, s) = dec_str s; (d, s) = dec_request s;
             (e, s) = dec_nat s; (f, s) = dec_outcome s; (g, s) = dec_bool s in
         Some \<lparr>ss_schema_version = of_nat a, ss_scope = b, ss_order_link_id = c, ss_request = d,
               ss_created_at_ms = of_nat e, ss_outcome = f, ss_acknowledged = g\<rparr>),
      codec_error_text = (\<lambda>_. ''malformed'')\<rparr>"

lemma enc_nat_nonempty [simp]: "enc_nat n \<noteq> []"
  by (simp add: enc_nat_def)

lemma sample_record_roundtrip [simp]: "codec_roundtrip sample_record_codec"
  by (auto simp: codec_roundtrip_def sample_record_codec_def simp del: append_Nil2)

section \<open>A hash\<close>

definition hex_digits :: string where
  "hex_digits = ''0123456789abcdef''"

definition sample_hash :: "string \<Rightarrow> string" where
  "sample_hash s =
     take 64 (concat (map (\<lambda>c. [hex_digits ! (byte c div 16 mod 16), hex_digits ! (byte c mod 16)]) s)
       @ replicate 64 CHR ''0'')"

lemma hex_digit_ok: "n < 16 \<Longrightarrow> is_ascii_hexdigit (hex_digits ! n)"
proof -
  have "\<forall>c\<in>set hex_digits. is_ascii_hexdigit c" by code_simp
  moreover assume "n < 16"
  then have "hex_digits ! n \<in> set hex_digits" by (intro nth_mem) (simp add: hex_digits_def)
  ultimately show ?thesis by blast
qed

lemma sample_hash_hex: "length (sample_hash s) = 64 \<and> list_all is_ascii_hexdigit (sample_hash s)"
proof
  show "length (sample_hash s) = 64" by (simp add: sample_hash_def)
  have "is_ascii_hexdigit CHR ''0''" by code_simp
  then show "list_all is_ascii_hexdigit (sample_hash s)"
    using hex_digit_ok by (auto simp: sample_hash_def list_all_iff dest!: in_set_takeD)
qed

section \<open>A journal and an exchange\<close>

definition sample_journal :: journal_env where
  "sample_journal = \<lparr>je_hash = sample_hash, je_codec = sample_record_codec, je_dec = sample_decimal,
     je_dir = [''data'', ''order_submissions'']\<rparr>"

lemma sample_journal_sound [simp]: "journal_sound sample_journal"
  using sample_hash_hex by (simp add: journal_sound_def sample_journal_def)

definition sample_accepted :: order where
  "sample_accepted = \<lparr>o_order_id = ''9001'', o_symbol = ''BTCUSDT'', o_side = ''Buy'', o_order_type = ''Limit'',
     o_price = ''104'', o_qty = ''3'', o_status = OrderNew, o_order_link_id = Some ''a1'',
     o_filled_qty = ''0'', o_avg_price = ''0''\<rparr>"

text \<open>An exchange that loses its first answer and then accepts; its world counts the calls.\<close>

definition sample_exchange :: "nat exchange" where
  "sample_exchange =
     \<lparr>x_submit = (\<lambda>rq n. (if n = 0 then Err (EConnection ''timeout'') else Ok sample_accepted, n + 1)),
      x_query = (\<lambda>rq n. (Ok [sample_accepted], n))\<rparr>"

lemma sample_shaped [simp]: "shaped sample_journal sample_order"
  by (simp add: shaped_def sample_order_def)

text \<open>The first submission on an empty journal, up to the call of the exchange.\<close>

definition sample_prepared :: "((order, app_error) result + string \<times> stored_submission) \<times> disk" where
  "sample_prepared = prepare_submission sample_journal ''acc'' sample_order 7 empty_disk"

lemma sample_prepared_Inr:
  "fst sample_prepared = Inr (''a1'', new_record ''acc'' ''a1'' sample_order 7)"
  by code_simp

lemma sample_prepared_run:
  "prepare_submission sample_journal ''acc'' sample_order 7 empty_disk =
     (Inr (''a1'', new_record ''acc'' ''a1'' sample_order 7), snd sample_prepared)"
  using sample_prepared_Inr by (simp add: sample_prepared_def prod_eq_iff)

end
