(* ===== verification/Submission_Properties.thy ===== *)
theory Submission_Properties
  imports Submission_Samples
begin

text \<open>
  What a trader can rely on when an order is submitted: it reaches the exchange at most once, an
  intent is on disk before that, and every answer is consistent with the journal.
\<close>

section \<open>Shared facts\<close>

lemma submission_identity_Some:
  "submission_identity rq = Some i \<longleftrightarrow> r_order_link_id rq = Some i \<and> i \<noteq> [] \<and> length i \<le> 36"
  by (auto simp: submission_identity_def split: option.splits if_splits)

lemma new_record_proper:
  assumes "submission_identity rq = Some i" "scope \<noteq> []" "shaped J rq"
  shows "proper_record J (scope, i) (new_record scope i rq now)"
  using assms by (simp add: proper_record_def new_record_def submission_identity_Some validate_identity_def)

lemma prepared_record:
  assumes "shaped J rq" "prepare_submission J scope rq now d = (Inr (i, original), d1)"
  shows "proper_record J (scope, i) original" "stores J d1 (scope, i) original"
    "ss_request original = rq" "ss_outcome original = OutcomePending"
  using prepare_submission_Inr [OF assms(2)] new_record_proper assms(1) by (simp_all add: new_record_def)

text \<open>A call under an identity whose record can be read answers from the record.\<close>

lemma submit_once_replays:
  assumes "submission_identity rq = Some i"
    and "journal_get J scope i (settled d) = (Ok (Some r), settled d)"
  shows "submit_once J scope rq now submit (settled d, w) = (replay_record i rq r, settled d, w)"
  using assms by (simp add: submit_once_def prepare_submission_def)

section \<open>At most once\<close>

text \<open>
  C1: Over any sequence of submissions, queries and acknowledgements on one journal, with any
  scopes and identities, any answers of the exchange and I/O errors or crashes at any place, no
  order (a pair of account scope and submission identity) is handed to the exchange twice, and
  one that had a record file at the beginning, even a damaged one, is not handed over at all.
\<close>

theorem at_most_once_submission:
  shows "distinct (sent_keys (journal_run J X cs (d, w, [])))
    \<and> (\<forall>k. known J d k \<longrightarrow> k \<notin> set (sent_keys (journal_run J X cs (d, w, []))))"
proof -
  let ?s = "(d, w, [])"
  have start: "\<forall>k\<in>set (sent_keys ?s). known J (fst ?s) k" "distinct (sent_keys ?s)"
    by (simp_all add: sent_keys_def)
  have "count_list (sent_keys (fold (journal_step J X) cs ?s)) k = 0" if "known J d k" for k
    using submissions.recorded_not_sent [of J ?s k X cs] start that by (simp add: sent_keys_def)
  then show ?thesis
    using submissions.run_sent_prefix [OF start, of X cs]
    by (auto simp: journal_run_def count_list_0_iff)
qed

theorem at_most_once_submission_witness:
  "distinct (sent_keys (journal_run sample_journal sample_exchange
      [CmdSubmit ''acc'' sample_order 7, CmdSubmit ''acc'' sample_order 8] (empty_disk, 0, [])))"
  using at_most_once_submission [of sample_journal sample_exchange
      "[CmdSubmit ''acc'' sample_order 7, CmdSubmit ''acc'' sample_order 8]" empty_disk 0] by simp

text \<open>
  C9: Write-ahead: whenever an order is about to be handed to the exchange, no file of its record
  existed before the call, and its own pending intent, carrying exactly this request, is now on
  disk under its identity and is what a restarted process reads.
\<close>

theorem intent_before_submission:
  assumes "journal_sound J" "shaped J rq"
    and "prepare_submission J scope rq now d = (Inr (i, original), d1)"
  shows "r_order_link_id rq = Some i \<and> \<not> known J d (scope, i)
    \<and> original = new_record scope i rq now
    \<and> journal_get J scope i (settled d1) = (Ok (Some original), settled d1)"
  using prepare_submission_Inr [OF assms(3)] prepared_record [OF assms(2,3)]
    journal_get_settled [OF assms(1)] by (simp add: submission_identity_Some)

theorem intent_before_submission_witness:
  "\<not> known sample_journal empty_disk (''acc'', ''a1'')
   \<and> journal_get sample_journal ''acc'' ''a1'' (settled (snd sample_prepared)) =
       (Ok (Some (new_record ''acc'' ''a1'' sample_order 7)), settled (snd sample_prepared))"
  using intent_before_submission [OF sample_journal_sound sample_shaped sample_prepared_run] by blast

section \<open>Lost answers\<close>

text \<open>
  C10: If the exchange was called but it is not certain that it refused (a timeout, an unreadable
  answer, a crash), the caller is told that the outcome is unknown, the pending intent stays as it
  was written, and every later submission of the same order is answered with the unknown outcome
  again, without calling the exchange.
\<close>

theorem lost_answer_stays_unknown:
  assumes "journal_sound J" "shaped J rq"
    and "prepare_submission J scope rq now d = (Inr (i, original), d1)"
    and "submit rq w = (answer, w1)"
    and "answer = Panic \<or> (\<exists>e. answer = Err e \<and> \<not> definitely_not_accepted e)"
  shows "submit_once J scope rq now submit (d, w) =
      (if answer = Panic then Panic else Err (EOrderSubmissionUnknown i), d1, w1)
    \<and> submit_once J scope rq later submit' (settled d1, w') = (Err (EOrderSubmissionUnknown i), settled d1, w')"
proof
  show "submit_once J scope rq now submit (d, w) =
      (if answer = Panic then Panic else Err (EOrderSubmissionUnknown i), d1, w1)"
    using assms(3-5) by (auto simp: submit_once_def settle_submission_def)
  note prep = prepare_submission_Inr [OF assms(3)] prepared_record [OF assms(2,3)]
  have "journal_get J scope i (settled d1) = (Ok (Some original), settled d1)"
    by (rule journal_get_settled [OF assms(1) prep(7,8)])
  from submit_once_replays [OF prep(1) this]
  show "submit_once J scope rq later submit' (settled d1, w') = (Err (EOrderSubmissionUnknown i), settled d1, w')"
    using prep(9,10) by (simp add: replay_record_def)
qed

theorem lost_answer_stays_unknown_witness:
  "submit_once sample_journal ''acc'' sample_order 8 (x_submit sample_exchange) (settled (snd sample_prepared), 1)
     = (Err (EOrderSubmissionUnknown ''a1''), settled (snd sample_prepared), 1)"
  by (rule conjunct2 [OF lost_answer_stays_unknown [OF sample_journal_sound sample_shaped sample_prepared_run,
        of "x_submit sample_exchange" 0 "Err (EConnection ''timeout'')" 1]])
    (simp_all add: sample_exchange_def definitely_not_accepted_def is_certain_submission_failure_def
      is_confirmed_submission_rejection_def)

section \<open>Accepted orders\<close>




section \<open>Rejected orders\<close>




end
