(* ===== verification/Pending_Properties.thy ===== *)
theory Pending_Properties
  imports Submission_Samples
begin

text \<open>
  Unresolved submissions: the list of pending records is complete, it blocks further orders, a
  query resolves it only with the exact order, and an acknowledgement takes it off the list.  Also
  here: the account scope separates accounts.
\<close>

section \<open>The list of pending records is complete\<close>

lemma entry_names_complete:
  assumes "lookup d q \<noteq> None" "q \<noteq> []"
  shows "last q \<in> set (entry_names (butlast q) d)"
proof -
  obtain n where "map_of (files d) q = Some n" using assms(1) by (auto simp: lookup_def)
  then have "q \<in> fst ` set (files d)" by (force dest: map_of_SomeD)
  then show ?thesis using assms(2) by (auto simp: entry_names_def)
qed

lemma read_dir_names:
  "fs_read_dir p d = (Ok names, d') \<Longrightarrow> names = entry_names p d"
  by (auto simp: fs_read_dir_def syscall_def tick_def entry_names_def
      split: fault.splits option.splits node.splits)

lemma main_names_mem:
  "main_names ns = Ok ms \<Longrightarrow> n \<in> set ns \<Longrightarrow> \<exists>m. main_name n = Some m \<and> m \<in> set ms"
  by (induction ns arbitrary: ms) (auto split: option.splits)

lemma main_name_json:
  assumes "length h = 64" "list_all is_ascii_hexdigit h"
  shows "main_name (h @ ''.json'') = Some (h @ ''.json'')"
proof -
  have drop1: "drop (length (h @ ''.json'') - 4) (h @ ''.json'') = ''json''" by simp
  have "strip_suffix ''.tmp'' (h @ ''.json'') = None" "strip_suffix ''.bak'' (h @ ''.json'') = None"
    using drop1 by (simp_all add: strip_suffix_def ends_with_def)
  then show ?thesis using assms by (simp add: main_name_def)
qed

lemma check_record_any:
  "check_record J p scope (Some i) bs = Ok r \<Longrightarrow> check_record J p scope None bs = Ok r"
  by (auto simp: check_record_def split: if_splits)

lemma read_pending_complete:
  assumes "n \<in> set ns" "lookup d (dir @ [n]) = Some (File bs)"
    and "check_record J (dir @ [n]) scope None bs = Ok r" "counts_as_pending r"
    and "read_pending J dir scope ns d = (Ok ps, d')"
  shows "pending_of_stored r \<in> set ps"
  using assms
proof (induction ns arbitrary: d ps d')
  case (Cons m ns)
  from Cons.prems(5) obtain x d1 r1 rest where
    x: "read_record J (dir @ [m]) scope None d = (Ok x, d1)" "x = Some r1"
    and rest: "read_pending J dir scope ns d1 = (Ok rest, d')"
    and ps: "ps = (if counts_as_pending r1 then pending_of_stored r1 # rest else rest)"
    by (auto simp: io_bind_Ok_iff)
  have look: "lookup d1 (dir @ [n]) = Some (File bs)"
    using read_record_frame [OF x(1)] Cons.prems(2) by simp
  show ?case
  proof (cases "n = m")
    case True
    then have "x = Some r"
      using read_candidates_main [OF Cons.prems(2,3)] x(1) unfolding read_record_def by blast
    then show ?thesis using ps x(2) Cons.prems(4) by simp
  next
    case False
    then have "pending_of_stored r \<in> set rest"
      using Cons.IH [OF _ look Cons.prems(3,4) rest] Cons.prems(1) by simp
    then show ?thesis using ps by simp
  qed
qed simp

lemma list_pending_complete:
  assumes "journal_sound J" "proper_record J (scope, i) r" "stores J d (scope, i) r" "counts_as_pending r"
    and dir: "lookup d (je_dir J @ [je_hash J scope]) = Some Dir"
    and run: "journal_list_pending J scope d = (Ok ps, d')"
  shows "pending_of_stored r \<in> set ps"
proof -
  let ?dir = "je_dir J @ [je_hash J scope]" and ?n = "je_hash J i @ ''.json''"
  have slot: "slot J (scope, i) = ?dir @ [?n]" by (simp add: slot_def record_path_def)
  obtain bs where bs: "encode (je_codec J) r = Some bs" "lookup d (?dir @ [?n]) = Some (File bs)"
    using assms(3) slot by (auto simp: stores_def)
  obtain e d1 where e: "fs_read_dir ?dir d = (e, d1)" by (cases "fs_read_dir ?dir d")
  have sd: "scope_dir J scope = Ok ?dir" using assms(2) by (simp add: scope_dir_def proper_record_def)
  have nf: "e \<noteq> Err err" if "io_kind err = NotFound" for err
    using e dir that by (auto simp: fs_read_dir_def syscall_def split: fault.splits)
  obtain names ms ps' where names: "e = Ok names" "main_names names = Ok ms"
    and rp: "read_pending J ?dir scope (sort_by str_less (remdups ms)) d1 = (Ok ps', d')"
    and ps: "ps = sort_by pending_less ps'"
    using run sd e nf
    by (cases e) (auto simp: journal_list_pending_def io_bind_Ok_iff split: if_splits)
  have "?n \<in> set names"
    using entry_names_complete [of d "?dir @ [?n]"] bs(2) read_dir_names e names(1)
    by (auto simp: butlast_append)
  then have n: "?n \<in> set ms"
    using main_names_mem [OF names(2)] main_name_json assms(1) by (fastforce simp: journal_sound_def)
  have look: "lookup d1 (?dir @ [?n]) = Some (File bs)" using io_frame(4) [OF e] bs(2) by simp
  have "check_record J (?dir @ [?n]) scope None bs = Ok r"
    using check_record_any check_proper_record [OF assms(1,2) bs(1)] slot by simp
  from read_pending_complete [OF _ look this assms(4) rp] show ?thesis using n ps by simp
qed

text \<open>
  C18: An unresolved order blocks new ones: while the journal of an account holds a record that is
  pending, or accepted but not acknowledged, no other order of that account is handed to the
  exchange, except a reduce-only order while the unresolved one is not reduce-only.
\<close>

theorem unresolved_order_blocks:
  assumes "journal_sound J" "proper_record J (scope, i) r" "stores J d (scope, i) r" "counts_as_pending r"
    and "lookup d (je_dir J @ [je_hash J scope]) = Some Dir"
    and "r_reduce_only rq \<noteq> Some True \<or> r_reduce_only (ss_request r) = Some True"
  shows "\<exists>answer d'. prepare_submission J scope rq now d = (Inl answer, d')
    \<and> submit_once J scope rq now submit (d, w) = (answer, d', w)"
proof -
  obtain x d' where x: "prepare_submission J scope rq now d = (x, d')"
    by (cases "prepare_submission J scope rq now d")
  have "\<exists>answer. x = Inl answer"
  proof (cases x)
    case (Inr y)
    then obtain j d1 pending d2 where g: "journal_get J scope j d = (Ok None, d1)"
      and l: "journal_list_pending J scope d1 = (Ok pending, d2)" and none: "List.find (blocks rq) pending = None"
      using x by (auto simp: prepare_submission_def split: option.splits prod.splits result.splits)
    have same: "lookup d1 q = lookup d q" for q by (rule journal_get_frame [OF g])
    have "stores J d1 (scope, i) r" using stores_cong [of d1 d, OF same] assms(3) by simp
    from list_pending_complete [OF assms(1,2) this assms(4) _ l]
    have "pending_of_stored r \<in> set pending" using assms(5) same by simp
    moreover have "blocks rq (pending_of_stored r)"
      using assms(6) by (simp add: blocks_def pending_of_stored_def)
    ultimately show ?thesis using none by (auto simp: find_None_iff)
  qed simp
  then show ?thesis using x by (auto simp: submit_once_def)
qed

lemma sample_stored:
  "stores sample_journal (snd sample_prepared) (''acc'', ''a1'') (new_record ''acc'' ''a1'' sample_order 7)"
  using prepare_submission_Inr(5) [OF sample_prepared_run] .

lemma sample_proper:
  "proper_record sample_journal (''acc'', ''a1'') (new_record ''acc'' ''a1'' sample_order 7)"
  by (simp add: proper_record_def new_record_def validate_identity_def) (simp add: sample_order_def)

lemma sample_dir:
  "lookup (snd sample_prepared) (je_dir sample_journal @ [je_hash sample_journal ''acc'']) = Some Dir"
  by code_simp

theorem unresolved_order_blocks_witness:
  "\<exists>answer d'. submit_once sample_journal ''acc'' (sample_order\<lparr>r_order_link_id := Some ''a2''\<rparr>) 8
     (x_submit sample_exchange) (snd sample_prepared, 1) = (answer, d', 1)"
proof -
  have "counts_as_pending (new_record ''acc'' ''a1'' sample_order 7)"
    by (simp add: counts_as_pending_def new_record_def)
  from unresolved_order_blocks [OF sample_journal_sound sample_proper sample_stored this sample_dir,
      of "sample_order\<lparr>r_order_link_id := Some ''a2''\<rparr>" 8 "x_submit sample_exchange" 1]
  show ?thesis by (auto simp: sample_order_def)
qed

section \<open>One identity, one order\<close>

lemma read_candidates_total: "read_candidates J p scope i qs d = (r, d') \<Longrightarrow> r \<noteq> Panic"
proof (induction J p scope i qs d arbitrary: r d' rule: read_candidates.induct)
  case (2 J p scope i q qs d)
  obtain m d1 where m: "fs_metadata q d = (m, d1)" by (cases "fs_metadata q d")
  obtain c d2 where c: "fs_read q d1 = (c, d2)" by (cases "fs_read q d1")
  have np: "m \<noteq> Panic" "c \<noteq> Panic" using io_never_panics(1) [of q d] io_never_panics(2) [of q d1] m c by auto
  have check: "bind_result (check_record J p scope i bs) f = Panic \<Longrightarrow> \<exists>x. f x = Panic" for bs and f :: "_ \<Rightarrow> (_, app_error) result"
    by (cases "check_record J p scope i bs")
      (auto simp: check_record_def validate_identity_def ok_or_def split: option.splits if_splits)
  show ?case
    using "2.prems" "2.IH" [OF m [symmetric]] m c np check
    by (cases m; cases c) (auto simp: read_candidates.simps(2) split: node.splits if_splits)
qed simp

lemma journal_get_total: "journal_get J scope i d = (r, d') \<Longrightarrow> r \<noteq> Panic"
  using read_candidates_total
  by (auto simp: journal_get_def io_bind_eq read_record_def validate_identity_def scope_dir_def split: if_splits)

text \<open>
  A submission identity is bound to the request it was first used with: a different order
  under the same identity is refused, whatever became of the first one, and nothing is sent.
\<close>

theorem identity_bound_to_request:
  assumes "journal_sound J" "proper_record J (scope, i) r" "stores J d (scope, i) r"
    and "r_order_link_id rq = Some i" "rq \<noteq> ss_request r"
  shows "\<exists>m d'. submit_once J scope rq now submit (d, w) = (Err (EOrderSubmissionRejected m), d', w)"
proof -
  have i: "submission_identity rq = Some i"
    using assms(2,4) by (auto simp: submission_identity_def proper_record_def validate_identity_def split: if_splits)
  obtain g d1 where g: "journal_get J scope i d = (g, d1)" by (cases "journal_get J scope i d")
  have np: "g \<noteq> Panic" by (rule journal_get_total [OF g])
  show ?thesis
  proof (cases g)
    case (Ok x)
    then have "x = Some r" using journal_get_stored [OF assms(1-3)] g by simp
    then show ?thesis using i g Ok assms(5)
      by (simp add: submit_once_def prepare_submission_def replay_record_def)
  next
    case (Err e)
    then show ?thesis using i g by (simp add: submit_once_def prepare_submission_def before_submission_def)
  qed (use np in simp)
qed

definition other_order :: place_order_request where
  "other_order = sample_order\<lparr>r_qty := ''9''\<rparr>"

section \<open>Queries\<close>

text \<open>
  C19: A query resolves a pending submission only with the exact order: when it reports an order, the
  order carries the queried identity, the symbol of the stored request and a non-blank exchange
  identifier, it is one of those the exchange returned, and it is what the journal holds from then
  on, so that a resubmission is answered with it.
\<close>

theorem reconcile_exact_order:
  assumes "journal_sound J" "proper_record J (scope, i) r" "stores J d (scope, i) r"
    and "ss_outcome r = OutcomePending"
    and "reconcile J scope i query (d, w) = (Ok (Some found), d', w')"
  shows "o_order_link_id found = Some i \<and> o_symbol found = r_symbol (ss_request r) \<and> trim (o_order_id found) \<noteq> []
    \<and> (\<exists>orders. query (ss_request r) w = (Ok orders, w') \<and> found \<in> set orders)
    \<and> submit_once J scope (ss_request r) now submit (settled d', v) = (Ok found, settled d', v)"
proof -
  obtain g d1 where g: "journal_get J scope i d = (g, d1)" by (cases "journal_get J scope i d")
  obtain q w1 where q: "query (ss_request r) w = (q, w1)" by (cases "query (ss_request r) w")
  obtain x where x: "g = Ok x" using assms(5) g by (cases g) (auto simp: reconcile_def)
  have xr: "x = Some r" using journal_get_stored [OF assms(1-3)] g x by simp
  obtain orders where orders: "q = Ok orders" using assms(4,5) g q x xr by (cases q) (auto simp: reconcile_def)
  let ?find = "List.find (matches_submission i (r_symbol (ss_request r))) orders"
  obtain cand where cand: "?find = Some cand"
    using assms(4,5) g q x xr orders by (cases ?find) (auto simp: reconcile_def)
  obtain y d2 where y: "journal_finish J scope i (OutcomeAccepted cand) d1 = (y, d2)"
    by (cases "journal_finish J scope i (OutcomeAccepted cand) d1")
  have eqs: "y = Ok ()" "found = cand" "d' = d2" "w' = w1"
    using assms(4,5) g q x xr orders cand y by (cases y; simp add: reconcile_def)+
  have hit: "matches_submission i (r_symbol (ss_request r)) cand" "cand \<in> set orders"
    using cand by (auto simp: find_Some_iff)
  have st1: "stores J d1 (scope, i) r" using stores_cong [OF journal_get_frame [OF g]] assms(3) by blast
  let ?new = "r\<lparr>ss_outcome := OutcomeAccepted cand\<rparr>"
  have "stores J d' (scope, i) ?new" using journal_finish_Ok [OF assms(1,2) st1] y eqs by simp
  then have "journal_get J scope i (settled d') = (Ok (Some ?new), settled d')"
    by (rule journal_get_settled [OF assms(1), rotated]) (simp add: assms(2))
  moreover have "submission_identity (ss_request r) = Some i"
    using assms(2) by (auto simp: submission_identity_def proper_record_def validate_identity_def split: if_splits)
  ultimately have "submit_once J scope (ss_request r) now submit (settled d', v) = (Ok cand, settled d', v)"
    by (simp add: submit_once_def prepare_submission_def replay_record_def)
  then show ?thesis using hit eqs q orders by (auto simp: matches_submission_def)
qed

theorem reconcile_exact_order_witness:
  "\<exists>found d'. reconcile sample_journal ''acc'' ''a1'' (x_query sample_exchange) (snd sample_prepared, 1)
     = (Ok (Some found), d', 1) \<and> o_order_link_id found = Some ''a1''"
proof -
  let ?run = "reconcile sample_journal ''acc'' ''a1'' (x_query sample_exchange) (snd sample_prepared, 1)"
  have "case ?run of (Ok (Some found), d', w') \<Rightarrow> w' = 1 | _ \<Rightarrow> False" by code_simp
  then obtain found d' w' where run: "?run = (Ok (Some found), d', w')" and "w' = 1"
    by (cases ?run) (auto split: result.splits option.splits)
  have pend: "ss_outcome (new_record ''acc'' ''a1'' sample_order 7) = OutcomePending" by (simp add: new_record_def)
  from reconcile_exact_order [OF sample_journal_sound sample_proper sample_stored pend run,
      of 8 "x_submit sample_exchange" 1]
  show ?thesis using run \<open>w' = 1\<close> by blast
qed

section \<open>Acknowledgement\<close>

text \<open>
  Only a submission known to be accepted can be acknowledged, and a successful acknowledgement
  takes it off the list of unresolved records while its outcome is kept.
\<close>

theorem acknowledge_resolves:
  assumes "journal_sound J" "proper_record J (scope, i) r" "stores J d (scope, i) r"
    and "journal_acknowledge J scope i d = (Ok (), d')"
  shows "(\<exists>acc. ss_outcome r = OutcomeAccepted acc)
    \<and> (\<exists>r'. journal_get J scope i (settled d') = (Ok (Some r'), settled d')
         \<and> ss_outcome r' = ss_outcome r \<and> \<not> counts_as_pending r')"
proof -
  obtain g d1 where g: "journal_get J scope i d = (g, d1)" by (cases "journal_get J scope i d")
  obtain x where x: "g = Ok x" using assms(4) g by (cases g) (auto simp: journal_acknowledge_def)
  have xr: "x = Some r" using journal_get_stored [OF assms(1-3)] g x by simp
  obtain acc where acc: "ss_outcome r = OutcomeAccepted acc"
    using assms(4) g x xr by (cases "ss_outcome r") (auto simp: journal_acknowledge_def)
  have st1: "stores J d1 (scope, i) r" using stores_cong [OF journal_get_frame [OF g]] assms(3) by blast
  show ?thesis
  proof (cases "ss_acknowledged r")
    case True
    then have "d' = d1" using assms(4) g x xr acc by (simp add: journal_acknowledge_def)
    then show ?thesis
      using journal_get_settled [OF assms(1,2) st1] acc True by (simp add: counts_as_pending_def)
  next
    case False
    let ?new = "r\<lparr>ss_acknowledged := True\<rparr>"
    have "journal_rewrite J scope i ?new msg_ack_failed d1 = (Ok (), d')"
      using assms(4) g x xr acc False by (simp add: journal_acknowledge_def)
    from journal_rewrite_Ok [OF this] have "stores J d' (scope, i) ?new" .
    then have "journal_get J scope i (settled d') = (Ok (Some ?new), settled d')"
      by (rule journal_get_settled [OF assms(1), rotated]) (simp add: assms(2))
    then show ?thesis using acc by (simp add: counts_as_pending_def)
  qed
qed

definition sample_accepted_record :: stored_submission where
  "sample_accepted_record = (new_record ''acc'' ''a1'' sample_order 7)\<lparr>ss_outcome := OutcomeAccepted sample_accepted\<rparr>"

definition sample_accepted_disk :: disk where
  "sample_accepted_disk = put (slot sample_journal (''acc'', ''a1''))
     (File (the (encode sample_record_codec sample_accepted_record))) (snd sample_prepared)"

section \<open>Scopes\<close>

lemma length_be_bytes [simp]: "length (be_bytes n v) = n"
  by (induction n arbitrary: v) auto

lemma be_bytes_inj: "be_bytes n v = be_bytes n u \<Longrightarrow> v < 256 ^ n \<Longrightarrow> u < 256 ^ n \<Longrightarrow> v = u"
proof (induction n arbitrary: v u)
  case (Suc n)
  have "char_of v = (char_of u :: char)" and hi: "be_bytes n (v div 256) = be_bytes n (u div 256)"
    using Suc.prems(1) by auto
  then have "v mod 256 = u mod 256" by (metis of_char_of)
  moreover have "v div 256 = u div 256"
    using Suc.IH [OF hi] Suc.prems(2,3) by (simp add: less_mult_imp_div_less mult.commute)
  ultimately show ?case by (metis div_mult_mod_eq)
qed simp

lemma scope_field_inj:
  assumes "scope_field a @ x = scope_field b @ y" "length a < 2 ^ 64" "length b < 2 ^ 64"
  shows "a = b \<and> x = y"
proof -
  have "be_bytes 8 (length a) = be_bytes 8 (length b)" and rest: "a @ x = b @ y"
    using assms by (simp_all add: scope_field_def append_eq_append_conv)
  then have "length a = length b" using be_bytes_inj [of 8] assms(2,3) by simp
  then show ?thesis using rest by simp
qed

text \<open>
  C20: Journals of different accounts never mix: two scopes are equal only if the account, the
  endpoint and the API key are all equal, as far as the hash has no collision on the two inputs.
\<close>

theorem scope_separates_accounts:
  assumes "order_submission_scope hash account (Some (url, key)) = Ok s"
    and "order_submission_scope hash account' (Some (url', key')) = Ok s"
    and "hash (scope_preimage account url key) = hash (scope_preimage account' url' key')
      \<longrightarrow> scope_preimage account url key = scope_preimage account' url' key'"
    and "length account < 2 ^ 64" "length account' < 2 ^ 64" "length url < 2 ^ 64" "length url' < 2 ^ 64"
    and "length key < 2 ^ 64" "length key' < 2 ^ 64"
  shows "account = account' \<and> url = url' \<and> key = key'"
proof -
  have "scope_field account @ scope_field url @ scope_field key
      = scope_field account' @ scope_field url' @ scope_field key'"
    using assms(1-3) by (simp add: order_submission_scope_def scope_preimage_def)
  from scope_field_inj [OF this assms(4,5)] show ?thesis
    using scope_field_inj [OF _ assms(6,7)] scope_field_inj [OF _ assms(8,9), of "[]" "[]"] by auto
qed

theorem scope_separates_accounts_witness:
  "order_submission_scope id ''main'' (Some (''u'', ''k'')) \<noteq> order_submission_scope id ''main'' (Some (''uk'', ''''))"
proof
  assume "order_submission_scope id ''main'' (Some (''u'', ''k'')) = order_submission_scope id ''main'' (Some (''uk'', ''''))"
  then have "''main'' = ''main'' \<and> ''u'' = ''uk'' \<and> ''k'' = ''''"
    by (intro scope_separates_accounts [of id _ _ _ "scope_preimage ''main'' ''u'' ''k''"])
      (simp_all add: order_submission_scope_def)
  then show False by simp
qed

end
