(* ===== verification/Notification_Model.thy ===== *)
theory Notification_Model
  imports Risk_Validation
begin

text \<open>
  \<^verbatim>\<open>models/notification.rs\<close>: the notification data and every check on it.  Content is not free
  text: a message key selects a controlled template, which fixes the fallback texts and the
  parameters, and identifiers that look like credentials are refused.

  The \<^verbatim>\<open>uuid\<close> crate is the predicate \<open>generated\<close> that the definitions take (\<^verbatim>\<open>is_generated_uuid\<close>: a
  version 4 identifier in canonical form).  A \<^verbatim>\<open>BTreeMap\<close> is the list of its entries in key order.
\<close>

section \<open>Splitting strings\<close>

definition strip_prefix :: "string \<Rightarrow> string \<Rightarrow> string option" where
  "strip_prefix p s = (if starts_with p s then Some (drop (length p) s) else None)"

definition split_once :: "char \<Rightarrow> string \<Rightarrow> (string \<times> string) option" where
  "split_once c s =
     (if c \<in> set s then Some (takeWhile (\<lambda>x. x \<noteq> c) s, tl (dropWhile (\<lambda>x. x \<noteq> c) s)) else None)"

section \<open>Errors\<close>

datatype nv_error = NvError (nv_code: string) (nv_message: string)

definition invalid_record :: nv_error where
  "invalid_record = NvError ''INVALID_NOTIFICATION_RECORD'' (utf8 [36890, 30693, 35760, 24405, 26080, 25928])"

definition invalid_content :: nv_error where
  "invalid_content = NvError ''INVALID_NOTIFICATION_CONTENT'' (utf8 [36890, 30693, 20869, 23481, 26080, 25928])"

definition invalid_event :: nv_error where
  "invalid_event = NvError ''INVALID_NOTIFICATION_EVENT'' (utf8 [36890, 30693, 21464, 26356, 20107, 20214, 26080, 25928])"

section \<open>Enumerations\<close>

datatype notification_category = CatTrading | CatRiskAccount | CatConnectionSystem

datatype notification_kind =
    OrderFilledKind | OrderCanceledKind | OrderRejectedKind | RiskOrderBlockedKind
  | AccountSessionExpiredKind | AccountRecoveryFailedKind | AccountReconciliationFailedKind
  | ConnectionUnavailableKind | ConnectionRecoveredKind
  | EnvironmentUnavailableKind | EnvironmentRecoveredKind

datatype notification_severity = SevSuccess | SevInfo | SevWarning | SevError | SevCritical

datatype notification_scalar = ScalarString string | ScalarBool bool | ScalarNumber f64

datatype notification_channel = ChannelApi | ChannelWebsocket

datatype notification_environment = EnvProduction | EnvDevelopment | EnvUnknown

datatype message_template =
    TOrderFilled | TOrderCanceled | TOrderRejected | TRiskOrderBlocked
  | TAccountSessionExpired | TAccountRecoveryFailed | TAccountReconciliationFailed
  | TConnectionUnavailable | TConnectionRecovered | TEnvironmentUnavailable | TEnvironmentRecovered

datatype parameter_key =
    KAccountId | KAttemptId | KChannel | KEnvironment | KFailedSteps | KLimit | KOrderId
  | KSubmissionId | KViolationCode

definition channel_parse :: "string \<Rightarrow> notification_channel option" where
  "channel_parse v = map_of [(''api'', ChannelApi), (''websocket'', ChannelWebsocket)] v"

definition environment_parse :: "string \<Rightarrow> notification_environment option" where
  "environment_parse v = map_of
     [(''production'', EnvProduction), (''development'', EnvDevelopment), (''unknown'', EnvUnknown)] v"

definition template_of_key :: "string \<Rightarrow> message_template option" where
  "template_of_key v = map_of
     [(''order.filled'', TOrderFilled), (''order.canceled'', TOrderCanceled),
      (''order.rejected'', TOrderRejected), (''risk.orderBlocked'', TRiskOrderBlocked),
      (''account.sessionExpired'', TAccountSessionExpired),
      (''account.recoveryFailed'', TAccountRecoveryFailed),
      (''account.reconciliationFailed'', TAccountReconciliationFailed),
      (''connection.unavailable'', TConnectionUnavailable),
      (''connection.recovered'', TConnectionRecovered),
      (''environment.unavailable'', TEnvironmentUnavailable),
      (''environment.recovered'', TEnvironmentRecovered)] v"

fun template_fallback :: "message_template \<Rightarrow> string \<times> string" where
  "template_fallback TOrderFilled = ((utf8 [35746, 21333, 24050, 25104, 20132]), (utf8 [35746, 21333, 24050, 23436, 20840, 25104, 20132, 65292, 35831, 21069, 24448, 20132, 26131, 39029,
      26597, 30475, 12290]))"
| "template_fallback TOrderCanceled = ((utf8 [35746, 21333, 24050, 21462, 28040]), (utf8 [35746, 21333, 24050, 21462, 28040, 65292, 35831, 21069, 24448, 20132, 26131, 39029, 26597, 30475,
      12290]))"
| "template_fallback TOrderRejected = ((utf8 [35746, 21333, 34987, 25298, 32477]), (utf8 [35746, 21333, 35831, 27714, 34987, 20132, 26131, 31471, 25298, 32477, 65292, 35831, 26816, 26597,
      35746, 21333, 21442, 25968, 12290]))"
| "template_fallback TRiskOrderBlocked = ((utf8 [35746, 21333, 34987, 39118, 25511, 25318, 25130]), (utf8 [35831, 26816, 26597, 39118, 25511, 35774, 32622]))"
| "template_fallback TAccountSessionExpired = ((utf8 [36134, 25143, 20250, 35805, 24050, 22833, 25928]), (utf8 [35831, 26816, 26597, 36134, 25143, 32, 65, 80, 73, 32, 35774, 32622, 12290]))"
| "template_fallback TAccountRecoveryFailed = ((utf8 [36134, 25143, 24674, 22797, 22833, 36133]), (utf8 [35831, 26816, 26597, 36134, 25143, 35774, 32622, 21518, 37325, 35797, 12290]))"
| "template_fallback TAccountReconciliationFailed = ((utf8 [36134, 25143, 23545, 36134, 22833, 36133]), (utf8 [35831, 26816, 26597, 36134, 25143, 25968, 25454, 21518, 37325, 35797, 12290]))"
| "template_fallback TConnectionUnavailable = ((utf8 [36830, 25509, 19981, 21487, 29992]), (utf8 [20132, 26131, 36830, 25509, 26242, 26102, 19981, 21487, 29992, 65292, 35831, 26816, 26597, 32593,
      32476, 25110, 31245, 21518, 37325, 35797, 12290]))"
| "template_fallback TConnectionRecovered = ((utf8 [36830, 25509, 24050, 24674, 22797]), (utf8 [20132, 26131, 36830, 25509, 24050, 24674, 22797, 12290]))"
| "template_fallback TEnvironmentUnavailable = ((utf8 [29615, 22659, 19981, 21487, 36798]), (utf8 [24403, 21069, 20132, 26131, 29615, 22659, 26242, 26102, 19981, 21487, 36798, 65292, 35831, 31245,
      21518, 37325, 35797, 12290]))"
| "template_fallback TEnvironmentRecovered = ((utf8 [29615, 22659, 24050, 24674, 22797]), (utf8 [24403, 21069, 20132, 26131, 29615, 22659, 24050, 24674, 22797, 12290]))"

fun template_accepts :: "message_template \<Rightarrow> parameter_key \<Rightarrow> bool" where
  "template_accepts TOrderFilled k = (k = KOrderId)"
| "template_accepts TOrderCanceled k = (k = KOrderId)"
| "template_accepts TOrderRejected k = (k = KOrderId \<or> k = KSubmissionId)"
| "template_accepts TRiskOrderBlocked k = (k = KLimit \<or> k = KViolationCode)"
| "template_accepts TAccountSessionExpired k = (k = KAccountId)"
| "template_accepts TAccountRecoveryFailed k = (k = KAttemptId \<or> k = KFailedSteps)"
| "template_accepts TAccountReconciliationFailed k = (k = KAttemptId \<or> k = KFailedSteps)"
| "template_accepts TConnectionUnavailable k = (k = KChannel)"
| "template_accepts TConnectionRecovered k = (k = KChannel)"
| "template_accepts TEnvironmentUnavailable k = (k = KEnvironment)"
| "template_accepts TEnvironmentRecovered k = (k = KEnvironment)"

definition parameter_key_parse :: "string \<Rightarrow> parameter_key option" where
  "parameter_key_parse v = map_of
     [(''accountId'', KAccountId), (''attemptId'', KAttemptId), (''channel'', KChannel),
      (''environment'', KEnvironment), (''failedSteps'', KFailedSteps), (''limit'', KLimit),
      (''orderId'', KOrderId), (''submissionId'', KSubmissionId), (''violationCode'', KViolationCode)] v"

section \<open>Identifiers\<close>

definition looks_like_secret :: "string \<Rightarrow> bool" where
  "looks_like_secret v \<longleftrightarrow>
     list_ex (\<lambda>p. starts_with p (to_ascii_lowercase v))
       [''sk_'', ''sk-'', ''api_key'', ''api-key'', ''secret'', ''token'', ''bearer'', ''akia'', ''ghp_'',
        ''gho_'', ''ghu_'', ''ghs_'', ''github_pat_'', ''xoxb-'', ''xoxp-'']
     \<or> starts_with ''eyJ'' v"

definition is_safe_notification_identifier :: "string \<Rightarrow> nat \<Rightarrow> bool" where
  "is_safe_notification_identifier v max_bytes \<longleftrightarrow>
     \<not> (v = [] \<or> max_bytes < length v
        \<or> \<not> list_all (\<lambda>b. is_ascii_alphanumeric b \<or> b \<in> {CHR ''-'', CHR ''_'', CHR '':''}) v
        \<or> list_ex looks_like_secret (split_on (\<lambda>c. c = CHR '':'') v))
     \<and> \<not> list_ex (\<lambda>seg. to_ascii_lowercase seg \<in> {''sk'', ''secret'', ''token'', ''bearer'', ''apikey''})
          (split_on (\<lambda>c. c \<in> {CHR '':'', CHR ''-'', CHR ''_''}) v)"

definition is_safe_notification_source_event_id :: "string \<Rightarrow> bool" where
  "is_safe_notification_source_event_id v = is_safe_notification_identifier v 256"

definition is_safe_notification_dedupe_key :: "string \<Rightarrow> bool" where
  "is_safe_notification_dedupe_key v = is_safe_notification_identifier v 512"

definition account_id_parses :: "string \<Rightarrow> bool" where
  "account_id_parses v \<longleftrightarrow> v \<noteq> [] \<and> trim v = v"

definition order_id_parses :: "string \<Rightarrow> bool" where
  "order_id_parses v \<longleftrightarrow>
     v \<noteq> [] \<and> length v \<le> 64 \<and> list_ex is_ascii_digit v
     \<and> list_all (\<lambda>b. is_ascii_alphanumeric b \<or> b \<in> {CHR ''-'', CHR ''_''}) v
     \<and> \<not> looks_like_secret v"

definition max_javascript_safe_integer :: u64 where
  "max_javascript_safe_integer = 9007199254740991"

definition is_safe_timestamp :: "u64 \<Rightarrow> bool" where
  "is_safe_timestamp v \<longleftrightarrow> v \<le> max_javascript_safe_integer"

definition step_rank :: "string \<Rightarrow> nat option" where
  "step_rank v = map_of [(''config'', 0), (''profiles'', 1), (''connection'', 2), (''bootstrap'', 3)] v"

fun ranks_increase :: "nat option \<Rightarrow> string list \<Rightarrow> bool" where
  "ranks_increase previous [] = (previous \<noteq> None)"
| "ranks_increase previous (x # xs) =
     (case step_rank x of
        None \<Rightarrow> False
      | Some r \<Rightarrow>
          (case previous of None \<Rightarrow> True | Some p \<Rightarrow> \<not> r \<le> p) \<and> ranks_increase (Some r) xs)"

definition is_normalized_list :: "string \<Rightarrow> bool" where
  "is_normalized_list v = ranks_increase None (split_on (\<lambda>c. c = CHR '','') v)"

section \<open>Content\<close>

fun parameter_accepts :: "(string \<Rightarrow> bool) \<Rightarrow> parameter_key \<Rightarrow> notification_scalar \<Rightarrow> bool" where
  "parameter_accepts generated KAccountId (ScalarString v) = account_id_parses v"
| "parameter_accepts generated KAttemptId (ScalarString v) = generated v"
| "parameter_accepts generated KChannel (ScalarString v) = (channel_parse v \<noteq> None)"
| "parameter_accepts generated KEnvironment (ScalarString v) = (environment_parse v \<noteq> None)"
| "parameter_accepts generated KFailedSteps (ScalarString v) = is_normalized_list v"
| "parameter_accepts generated KLimit (ScalarNumber v) = f64_ge_zero v"
| "parameter_accepts generated KOrderId (ScalarString v) = order_id_parses v"
| "parameter_accepts generated KSubmissionId (ScalarString v) = generated v"
| "parameter_accepts generated KViolationCode (ScalarString v) = (parse_violation_code v \<noteq> None)"
| "parameter_accepts generated _ _ = False"

definition scalar_validate :: "notification_scalar \<Rightarrow> (unit, nv_error) result" where
  "scalar_validate v =
     (case v of
        ScalarNumber n \<Rightarrow>
          if f64_is_finite n then Ok ()
          else Err (NvError ''INVALID_NOTIFICATION_CONTENT'' (utf8 [36890, 30693, 20869, 23481, 21253, 21547, 38750, 26377, 38480, 25968, 20540]))
      | _ \<Rightarrow> Ok ())"

type_synonym params = "(string \<times> notification_scalar) list"

record notification_content =
  nc_message_key :: string
  nc_params :: params
  nc_fallback_title :: string
  nc_fallback_body :: string

text \<open>Insertion in key order; an equal key is overwritten.\<close>

fun param_insert :: "string \<Rightarrow> notification_scalar \<Rightarrow> params \<Rightarrow> params" where
  "param_insert k v [] = [(k, v)]"
| "param_insert k v ((k', v') # ps) =
     (if k = k' then (k, v) # ps
      else if str_less k k' then (k, v) # (k', v') # ps
      else (k', v') # param_insert k v ps)"

definition collect_params :: "params \<Rightarrow> params" where
  "collect_params ps = fold (\<lambda>(k, v) m. param_insert k v m) ps []"

fun validate_params :: "(string \<Rightarrow> bool) \<Rightarrow> message_template \<Rightarrow> params \<Rightarrow> (unit, nv_error) result" where
  "validate_params generated t [] = Ok ()"
| "validate_params generated t ((k, v) # ps) =
     (case parameter_key_parse k of
        None \<Rightarrow> Err (NvError ''INVALID_NOTIFICATION_CONTENT'' (utf8 [36890, 30693, 21442, 25968, 21517, 19981, 21463, 25903, 25345]))
      | Some key \<Rightarrow>
          bind_result (scalar_validate v) (\<lambda>_.
          if \<not> template_accepts t key \<or> \<not> parameter_accepts generated key v
          then Err (NvError ''INVALID_NOTIFICATION_CONTENT'' (utf8 [36890, 30693, 21442, 25968, 20540, 19981, 21463, 25903, 25345]))
          else validate_params generated t ps))"

definition requires_limit :: "string \<Rightarrow> bool" where
  "requires_limit code \<longleftrightarrow>
     (case parse_violation_code code of
        Some c \<Rightarrow> c \<in> {MaxOrderQty, MaxPriceDeviation, DailyOrderLimit}
      | None \<Rightarrow> False)"

definition has_param :: "string \<Rightarrow> params \<Rightarrow> bool" where
  "has_param k ps \<longleftrightarrow> map_of ps k \<noteq> None"

definition validate_exact_params :: "message_template \<Rightarrow> params \<Rightarrow> (unit, nv_error) result" where
  "validate_exact_params t ps =
     (let check = (\<lambda>b. if b then Ok () else Err invalid_content) in
      case t of
        TOrderFilled \<Rightarrow> check (length ps = 1 \<and> has_param ''orderId'' ps)
      | TOrderCanceled \<Rightarrow> check (length ps = 1 \<and> has_param ''orderId'' ps)
      | TOrderRejected \<Rightarrow>
          check (length ps = 1 \<and> (has_param ''orderId'' ps \<noteq> has_param ''submissionId'' ps))
      | TRiskOrderBlocked \<Rightarrow>
          (case map_of ps ''violationCode'' of
             Some (ScalarString code) \<Rightarrow>
               check (length ps = (if requires_limit code then 1 else 0) + 1
                 \<and> has_param ''violationCode'' ps \<and> has_param ''limit'' ps = requires_limit code)
           | _ \<Rightarrow> Err invalid_content)
      | _ \<Rightarrow> Ok ())"

definition content_validate ::
  "(string \<Rightarrow> bool) \<Rightarrow> notification_content \<Rightarrow> (unit, nv_error) result" where
  "content_validate generated c =
     (case template_of_key (nc_message_key c) of
        None \<Rightarrow> Err (NvError ''INVALID_NOTIFICATION_CONTENT'' (utf8 [36890, 30693, 28040, 24687, 27169, 26495, 19981, 21463, 25903, 25345]))
      | Some t \<Rightarrow>
          if nc_fallback_title c \<noteq> fst (template_fallback t) \<or> nc_fallback_body c \<noteq> snd (template_fallback t)
          then Err (NvError ''INVALID_NOTIFICATION_CONTENT'' (utf8 [36890, 30693, 20828, 24213, 25991, 26412, 19981, 21305, 37197, 21463, 25511, 27169, 26495]))
          else bind_result (validate_params generated t (nc_params c)) (\<lambda>_.
               validate_exact_params t (nc_params c)))"

definition content_new ::
  "(string \<Rightarrow> bool) \<Rightarrow> string \<Rightarrow> params \<Rightarrow> string \<Rightarrow> string \<Rightarrow> (notification_content, nv_error) result" where
  "content_new generated key ps title body =
     (let c = \<lparr>nc_message_key = key, nc_params = collect_params ps, nc_fallback_title = title,
               nc_fallback_body = body\<rparr> in
      bind_result (content_validate generated c) (\<lambda>_. Ok c))"

section \<open>Scope, entity, action\<close>

datatype notification_scope = ScopeGlobal | ScopeAccount string

definition scope_validate :: "notification_scope \<Rightarrow> (unit, nv_error) result" where
  "scope_validate s =
     (case s of
        ScopeGlobal \<Rightarrow> Ok ()
      | ScopeAccount a \<Rightarrow>
          if account_id_parses a then Ok ()
          else Err (NvError ''INVALID_NOTIFICATION_SCOPE'' (utf8 [36890, 30693, 36134, 25143, 33539, 22260, 26080, 25928])))"

datatype entity_type = EntityOrder | EntityAccount | EntityConnection | EntityEnvironment

record notification_entity =
  ne_type :: entity_type
  ne_id :: string

definition entity_validate :: "notification_entity \<Rightarrow> (unit, nv_error) result" where
  "entity_validate e =
     (if (if ne_type e = EntityAccount then account_id_parses (ne_id e) else trim (ne_id e) \<noteq> [])
      then Ok ()
      else Err (NvError ''INVALID_NOTIFICATION_RECORD'' (utf8 [36890, 30693, 23454, 20307, 26631, 35782, 19981, 33021, 20026, 31354])))"

datatype account_section = SectionApi | SectionRisk

datatype notification_action =
    OpenTrading "string option" | OpenAccountSettings account_section | OpenGeneralSettings

definition action_validate :: "notification_action \<Rightarrow> (unit, nv_error) result" where
  "action_validate a =
     (case a of
        OpenTrading (Some i) \<Rightarrow>
          if order_id_parses i then Ok ()
          else Err (NvError ''INVALID_NOTIFICATION_ACTION'' (utf8 [36890, 30693, 21160, 20316, 35746, 21333, 26631, 35782, 26080, 25928]))
      | _ \<Rightarrow> Ok ())"

section \<open>Inputs\<close>

record notification_input =
  ni_scope :: notification_scope
  ni_category :: notification_category
  ni_kind :: notification_kind
  ni_severity :: notification_severity
  ni_content :: notification_content
  ni_entity :: "notification_entity option"
  ni_action :: "notification_action option"
  ni_source_event_id :: "string option"
  ni_dedupe_key :: string
  ni_session_epoch :: "u64 option"

definition client_notification_source_parts ::
  "(string \<Rightarrow> bool) \<Rightarrow> string \<Rightarrow> (string \<times> notification_kind \<times> string) option" where
  "client_notification_source_parts generated source =
     Option.bind (strip_prefix ''client:'' source) (\<lambda>rest.
     Option.bind (split_once CHR '':'' rest) (\<lambda>(attempt, suffix).
       if CHR '':'' \<in> set suffix \<or> \<not> generated attempt then None
       else if suffix = ''recovery'' then Some (attempt, AccountRecoveryFailedKind, ''recovery'')
       else if suffix = ''reconciliation'' then Some (attempt, AccountReconciliationFailedKind, ''reconciliation'')
       else None))"

definition client_failure_identity_matches ::
  "(string \<Rightarrow> bool) \<Rightarrow> notification_input \<Rightarrow> string \<Rightarrow> bool" where
  "client_failure_identity_matches generated n expected_suffix =
     (case ni_source_event_id n of
        None \<Rightarrow> False
      | Some source \<Rightarrow>
          (case client_notification_source_parts generated source of
             None \<Rightarrow> False
           | Some (attempt, kind, suffix) \<Rightarrow>
               kind = ni_kind n \<and> suffix = expected_suffix
               \<and> ni_dedupe_key n = ''client:'' @ attempt @ '':'' @ expected_suffix))"

definition order_identity :: "notification_input \<Rightarrow> string option" where
  "order_identity n =
     (case map_of (nc_params (ni_content n)) ''orderId'' of Some (ScalarString v) \<Rightarrow> Some v | _ \<Rightarrow> None)"

definition order_shape ::
  "notification_input \<Rightarrow> notification_kind \<Rightarrow> notification_severity \<Rightarrow> string \<Rightarrow> bool" where
  "order_shape n kind severity key =
     (case order_identity n of
        None \<Rightarrow> False
      | Some i \<Rightarrow>
          ni_category n = CatTrading \<and> ni_kind n = kind \<and> ni_severity n = severity
          \<and> nc_message_key (ni_content n) = key
          \<and> ni_entity n = Some \<lparr>ne_type = EntityOrder, ne_id = i\<rparr>
          \<and> ni_action n = Some (OpenTrading (Some i))
          \<and> ni_session_epoch n \<noteq> None)"

definition client_shape ::
  "(string \<Rightarrow> bool) \<Rightarrow> notification_input \<Rightarrow> notification_kind \<Rightarrow> notification_severity \<Rightarrow> string \<Rightarrow> string
     \<Rightarrow> bool" where
  "client_shape generated n kind severity key suffix =
     (case ni_scope n of
        ScopeGlobal \<Rightarrow> False
      | ScopeAccount a \<Rightarrow>
          ni_kind n = kind \<and> ni_category n = CatRiskAccount \<and> ni_severity n = severity
          \<and> nc_message_key (ni_content n) = key
          \<and> length (nc_params (ni_content n)) = 1 \<and> has_param ''failedSteps'' (nc_params (ni_content n))
          \<and> ni_entity n = Some \<lparr>ne_type = EntityAccount, ne_id = a\<rparr>
          \<and> ni_action n = Some (OpenAccountSettings SectionApi)
          \<and> ni_session_epoch n \<noteq> None
          \<and> client_failure_identity_matches generated n suffix)"

definition rejected_shape :: "notification_input \<Rightarrow> bool" where
  "rejected_shape n \<longleftrightarrow>
     ni_category n = CatTrading \<and> ni_severity n = SevError
     \<and> nc_message_key (ni_content n) = ''order.rejected'' \<and> ni_session_epoch n \<noteq> None
     \<and> (case order_identity n of
          Some i \<Rightarrow> ni_entity n = Some \<lparr>ne_type = EntityOrder, ne_id = i\<rparr>
                    \<and> ni_action n = Some (OpenTrading (Some i))
        | None \<Rightarrow> ni_entity n = None \<and> ni_action n = Some (OpenTrading None))"

definition blocked_shape :: "notification_input \<Rightarrow> bool" where
  "blocked_shape n \<longleftrightarrow>
     ni_category n = CatRiskAccount \<and> ni_severity n = SevWarning
     \<and> nc_message_key (ni_content n) = ''risk.orderBlocked'' \<and> ni_entity n = None
     \<and> ni_action n = Some (OpenAccountSettings SectionRisk) \<and> ni_session_epoch n \<noteq> None"

definition validate_exact_shape ::
  "(string \<Rightarrow> bool) \<Rightarrow> notification_input \<Rightarrow> (unit, nv_error) result" where
  "validate_exact_shape generated n =
     (let task_kind = (ni_kind n \<in> {OrderFilledKind, OrderCanceledKind, OrderRejectedKind, RiskOrderBlockedKind});
          task_message = (nc_message_key (ni_content n) \<in>
            {''order.filled'', ''order.canceled'', ''order.rejected'', ''risk.orderBlocked''});
          client_kind = (ni_kind n \<in> {AccountRecoveryFailedKind, AccountReconciliationFailedKind});
          client_message = (nc_message_key (ni_content n) \<in>
            {''account.recoveryFailed'', ''account.reconciliationFailed''});
          valid = (task_kind = task_message \<and> client_kind = client_message
            \<and> (\<not> task_kind \<or> ni_scope n \<noteq> ScopeGlobal)
            \<and> (case ni_kind n of
                 OrderFilledKind \<Rightarrow> order_shape n OrderFilledKind SevSuccess ''order.filled''
               | OrderCanceledKind \<Rightarrow> order_shape n OrderCanceledKind SevInfo ''order.canceled''
               | OrderRejectedKind \<Rightarrow> rejected_shape n
               | RiskOrderBlockedKind \<Rightarrow> blocked_shape n
               | AccountRecoveryFailedKind \<Rightarrow>
                   client_shape generated n AccountRecoveryFailedKind SevError ''account.recoveryFailed'' ''recovery''
               | AccountReconciliationFailedKind \<Rightarrow>
                   client_shape generated n AccountReconciliationFailedKind SevCritical
                     ''account.reconciliationFailed'' ''reconciliation''
               | _ \<Rightarrow> True))
      in if valid then Ok () else Err invalid_content)"

definition parts_invalid ::
  "notification_entity option \<Rightarrow> notification_action option \<Rightarrow> string option \<Rightarrow> string \<Rightarrow> bool" where
  "parts_invalid entity action source dedupe \<longleftrightarrow>
     (case entity of None \<Rightarrow> False | Some e \<Rightarrow> is_err (entity_validate e))
   \<or> (case action of None \<Rightarrow> False | Some a \<Rightarrow> is_err (action_validate a))
   \<or> (case source of None \<Rightarrow> False | Some i \<Rightarrow> \<not> is_safe_notification_source_event_id i)
   \<or> \<not> is_safe_notification_dedupe_key dedupe"

definition input_validate ::
  "(string \<Rightarrow> bool) \<Rightarrow> notification_input \<Rightarrow> (unit, nv_error) result" where
  "input_validate generated n =
     bind_result (map_err (\<lambda>_. invalid_content) (scope_validate (ni_scope n))) (\<lambda>_.
     bind_result (content_validate generated (ni_content n)) (\<lambda>_.
     if parts_invalid (ni_entity n) (ni_action n) (ni_source_event_id n) (ni_dedupe_key n)
     then Err invalid_content
     else validate_exact_shape generated n))"

section \<open>Records\<close>

record notification_record =
  nr_id :: string
  nr_scope :: notification_scope
  nr_category :: notification_category
  nr_kind :: notification_kind
  nr_severity :: notification_severity
  nr_content :: notification_content
  nr_entity :: "notification_entity option"
  nr_action :: "notification_action option"
  nr_source_event_id :: "string option"
  nr_dedupe_key :: string
  nr_occurrence_count :: u32
  nr_created_at_ms :: u64
  nr_updated_at_ms :: u64
  nr_read_at_ms :: "u64 option"

definition record_shape :: "notification_record \<Rightarrow> notification_input" where
  "record_shape r =
     \<lparr>ni_scope = nr_scope r, ni_category = nr_category r, ni_kind = nr_kind r, ni_severity = nr_severity r,
      ni_content = nr_content r, ni_entity = nr_entity r, ni_action = nr_action r,
      ni_source_event_id = nr_source_event_id r, ni_dedupe_key = nr_dedupe_key r, ni_session_epoch = Some 0\<rparr>"

definition record_validate ::
  "(string \<Rightarrow> bool) \<Rightarrow> notification_record \<Rightarrow> (unit, nv_error) result" where
  "record_validate generated r =
     (if \<not> generated (nr_id r) then Err invalid_record else
      bind_result (map_err (\<lambda>_. invalid_record) (scope_validate (nr_scope r))) (\<lambda>_.
      bind_result (map_err (\<lambda>_. invalid_record) (content_validate generated (nr_content r))) (\<lambda>_.
      if parts_invalid (nr_entity r) (nr_action r) (nr_source_event_id r) (nr_dedupe_key r)
         \<or> nr_occurrence_count r = 0
         \<or> \<not> is_safe_timestamp (nr_created_at_ms r) \<or> \<not> is_safe_timestamp (nr_updated_at_ms r)
         \<or> (case nr_read_at_ms r of None \<Rightarrow> False | Some t \<Rightarrow> \<not> is_safe_timestamp t)
         \<or> nr_updated_at_ms r < nr_created_at_ms r
         \<or> (case nr_read_at_ms r of None \<Rightarrow> False
             | Some t \<Rightarrow> t < nr_created_at_ms r \<or> nr_updated_at_ms r < t)
      then Err invalid_record
      else map_err (\<lambda>_. invalid_record) (validate_exact_shape generated (record_shape r)))))"

definition client_notification_record_matches_input ::
  "(string \<Rightarrow> bool) \<Rightarrow> notification_record \<Rightarrow> notification_input \<Rightarrow> bool" where
  "client_notification_record_matches_input generated r n \<longleftrightarrow>
     ni_kind n \<in> {AccountRecoveryFailedKind, AccountReconciliationFailedKind}
     \<and> is_ok (record_validate generated r) \<and> is_ok (input_validate generated n)
     \<and> nr_scope r = ni_scope n \<and> nr_category r = ni_category n \<and> nr_kind r = ni_kind n
     \<and> nr_severity r = ni_severity n \<and> nr_content r = ni_content n \<and> nr_entity r = ni_entity n
     \<and> nr_action r = ni_action n \<and> nr_source_event_id r = ni_source_event_id n
     \<and> nr_dedupe_key r = ni_dedupe_key n"

section \<open>Requests and events\<close>

datatype notification_filter = FilterAll | FilterUnread

record list_notifications_request =
  lq_account_id :: "string option"
  lq_filter :: notification_filter
  lq_cursor :: "string option"
  lq_limit :: u32

definition list_request_validate :: "list_notifications_request \<Rightarrow> (unit, nv_error) result" where
  "list_request_validate q =
     (if (case lq_account_id q of None \<Rightarrow> False | Some i \<Rightarrow> trim i = [])
         \<or> (case lq_cursor q of None \<Rightarrow> False | Some c \<Rightarrow> trim c = [])
         \<or> \<not> (1 \<le> lq_limit q \<and> lq_limit q \<le> 100)
      then Err (NvError ''INVALID_NOTIFICATION_REQUEST'' (utf8 [36890, 30693, 26597, 35810, 35831, 27714, 26080, 25928]))
      else Ok ())"

datatype notification_change = ChangeCreated | ChangeUpdated | ChangeRemoved | ChangeReset

record toast_candidate =
  tc_id :: string
  tc_scope :: notification_scope
  tc_session_epoch :: "u64 option"
  tc_category :: notification_category
  tc_severity :: notification_severity
  tc_content :: notification_content
  tc_action :: "notification_action option"

definition toast_validate :: "(string \<Rightarrow> bool) \<Rightarrow> toast_candidate \<Rightarrow> (unit, nv_error) result" where
  "toast_validate generated t =
     (if \<not> generated (tc_id t) then Err invalid_event else
      bind_result (map_err (\<lambda>_. invalid_event) (scope_validate (tc_scope t))) (\<lambda>_.
      bind_result (map_err (\<lambda>_. invalid_event) (content_validate generated (tc_content t))) (\<lambda>_.
      if (case tc_session_epoch t of None \<Rightarrow> False | Some e \<Rightarrow> \<not> is_safe_timestamp e)
         \<or> (case tc_action t of None \<Rightarrow> False | Some a \<Rightarrow> is_err (action_validate a))
      then Err invalid_event else Ok ())))"

record notification_changed_event =
  ev_previous_revision :: string
  ev_revision :: string
  ev_change :: notification_change
  ev_affected_scopes :: "notification_scope list"
  ev_notification_id :: "string option"
  ev_toast_candidate :: "toast_candidate option"

definition event_validate ::
  "(string \<Rightarrow> bool) \<Rightarrow> notification_changed_event \<Rightarrow> (unit, nv_error) result" where
  "event_validate generated e =
     (if ev_change e \<noteq> ChangeCreated \<and> ev_toast_candidate e \<noteq> None then Err invalid_event
      else case ev_toast_candidate e of None \<Rightarrow> Ok () | Some t \<Rightarrow> toast_validate generated t)"

datatype client_notification_kind = ClientRecoveryFailed | ClientReconciliationFailed

datatype failed_step = StepConfig | StepProfiles | StepConnection | StepBootstrap

record create_client_notification_request =
  cn_account_id :: string
  cn_session_epoch :: u64
  cn_attempt_id :: string
  cn_kind :: client_notification_kind
  cn_failed_steps :: "failed_step list"

definition client_request_validate ::
  "(string \<Rightarrow> bool) \<Rightarrow> create_client_notification_request \<Rightarrow> (unit, nv_error) result" where
  "client_request_validate generated q =
     (if \<not> account_id_parses (cn_account_id q) \<or> \<not> generated (cn_attempt_id q)
         \<or> \<not> is_safe_timestamp (cn_session_epoch q) \<or> cn_failed_steps q = [] \<or> \<not> distinct (cn_failed_steps q)
      then Err (NvError ''INVALID_NOTIFICATION_REQUEST'' (utf8 [23458, 25143, 31471, 36890, 30693, 35831, 27714, 26080, 25928]))
      else Ok ())"

end
