(* ===== verification/Notification_Policy.thy ===== *)
theory Notification_Policy
  imports Notification_Model
begin

text \<open>
  \<^verbatim>\<open>services/notification/policy.rs\<close>: the only producers of notifications.  Each takes a checked
  context and builds an input whose content comes from a controlled template.
\<close>

section \<open>Context\<close>

datatype notification_error = NotificationError (nt_code: string) (nt_message: string)

record policy_context =
  pc_account_id :: string
  pc_session_epoch :: u64
  pc_source_event_id :: string

definition policy_context_new ::
  "string \<Rightarrow> u64 \<Rightarrow> string \<Rightarrow> (policy_context, notification_error) result" where
  "policy_context_new account epoch source =
     bind_result (map_err (\<lambda>e. NotificationError (nv_code e) (utf8 [36890, 30693, 36134, 25143, 33539, 22260, 26080, 25928]))
       (scope_validate (ScopeAccount account))) (\<lambda>_.
     if max_javascript_safe_integer < epoch \<or> \<not> is_safe_notification_source_event_id source
     then Err (NotificationError ''INVALID_NOTIFICATION_CONTENT'' (utf8 [36890, 30693, 26469, 28304, 26631, 35782, 26080, 25928]))
     else Ok \<lparr>pc_account_id = account, pc_session_epoch = epoch, pc_source_event_id = source\<rparr>)"

definition policy_scope :: "policy_context \<Rightarrow> notification_scope" where
  "policy_scope c = ScopeAccount (pc_account_id c)"

record risk_violation_input =
  rv_code :: risk_violation_code
  rv_limit :: "f64 option"

section \<open>Names\<close>

definition channel_name :: "notification_channel \<Rightarrow> string" where
  "channel_name c = (case c of ChannelApi \<Rightarrow> ''api'' | ChannelWebsocket \<Rightarrow> ''websocket'')"

definition environment_name :: "notification_environment \<Rightarrow> string" where
  "environment_name e =
     (case e of EnvProduction \<Rightarrow> ''production'' | EnvDevelopment \<Rightarrow> ''development'' | EnvUnknown \<Rightarrow> ''unknown'')"

fun risk_code :: "risk_violation_code \<Rightarrow> string" where
  "risk_code InvalidQuantity = ''invalidQuantity''"
| "risk_code NonPositiveQuantity = ''nonPositiveQuantity''"
| "risk_code MaxOrderQty = ''maxOrderQty''"
| "risk_code MissingLimitPrice = ''missingLimitPrice''"
| "risk_code InvalidLimitPrice = ''invalidLimitPrice''"
| "risk_code NonPositiveLimitPrice = ''nonPositiveLimitPrice''"
| "risk_code ReferencePriceUnavailable = ''referencePriceUnavailable''"
| "risk_code MaxPriceDeviation = ''maxPriceDeviation''"
| "risk_code DailyOrderLimit = ''dailyOrderLimit''"
| "risk_code LedgerUnavailable = ''ledgerUnavailable''"

definition step_index :: "failed_step \<Rightarrow> nat" where
  "step_index s = (case s of StepConfig \<Rightarrow> 0 | StepProfiles \<Rightarrow> 1 | StepConnection \<Rightarrow> 2 | StepBootstrap \<Rightarrow> 3)"

definition step_name :: "failed_step \<Rightarrow> string" where
  "step_name s =
     (case s of StepConfig \<Rightarrow> ''config'' | StepProfiles \<Rightarrow> ''profiles''
      | StepConnection \<Rightarrow> ''connection'' | StepBootstrap \<Rightarrow> ''bootstrap'')"

definition normalize_steps :: "failed_step list \<Rightarrow> string" where
  "normalize_steps steps =
     join '','' (map step_name (sort_by (\<lambda>a b. step_index a < step_index b) steps))"

definition validate_policy_identifier :: "string \<Rightarrow> string \<Rightarrow> (unit, notification_error) result" where
  "validate_policy_identifier v message =
     (if CHR '':'' \<in> set v \<or> \<not> is_safe_notification_source_event_id v
      then Err (NotificationError ''INVALID_NOTIFICATION_CONTENT'' message) else Ok ())"

section \<open>Producers\<close>

definition controlled_input ::
  "(string \<Rightarrow> bool) \<Rightarrow> policy_context \<Rightarrow> notification_category \<Rightarrow> notification_kind \<Rightarrow> notification_severity
     \<Rightarrow> (notification_content, nv_error) result \<Rightarrow> notification_entity option \<Rightarrow> notification_action option
     \<Rightarrow> string \<Rightarrow> (notification_input, notification_error) result" where
  "controlled_input generated c category kind severity content entity action dedupe =
     bind_result (map_err (\<lambda>e. NotificationError (nv_code e) (utf8 [36890, 30693, 20869, 23481, 26080, 25928])) content) (\<lambda>content.
     let n = \<lparr>ni_scope = policy_scope c, ni_category = category, ni_kind = kind, ni_severity = severity,
              ni_content = content, ni_entity = entity, ni_action = action,
              ni_source_event_id = Some (pc_source_event_id c), ni_dedupe_key = dedupe,
              ni_session_epoch = Some (pc_session_epoch c)\<rparr> in
     bind_result (map_err (\<lambda>e. NotificationError (nv_code e) (utf8 [36890, 30693, 36755, 20837, 26080, 25928])) (input_validate generated n))
       (\<lambda>_. Ok n))"

definition order_terminal ::
  "(string \<Rightarrow> bool) \<Rightarrow> policy_context \<Rightarrow> string \<Rightarrow> notification_kind \<Rightarrow> notification_severity \<Rightarrow> string \<Rightarrow> string
     \<Rightarrow> string \<Rightarrow> string \<Rightarrow> (notification_input, notification_error) result" where
  "order_terminal generated c order_id kind severity key title body suffix =
     controlled_input generated c CatTrading kind severity
       (content_new generated key [(''orderId'', ScalarString order_id)] title body)
       (Some \<lparr>ne_type = EntityOrder, ne_id = order_id\<rparr>)
       (Some (OpenTrading (Some order_id)))
       (''order:'' @ order_id @ '':'' @ suffix)"

definition order_filled ::
  "(string \<Rightarrow> bool) \<Rightarrow> policy_context \<Rightarrow> string \<Rightarrow> (notification_input, notification_error) result" where
  "order_filled generated c order_id =
     order_terminal generated c order_id OrderFilledKind SevSuccess ''order.filled''
       (utf8 [35746, 21333, 24050, 25104, 20132]) (utf8 [35746, 21333, 24050, 23436, 20840, 25104, 20132, 65292, 35831, 21069, 24448, 20132, 26131, 39029,
      26597, 30475, 12290]) ''filled''"

definition order_canceled ::
  "(string \<Rightarrow> bool) \<Rightarrow> policy_context \<Rightarrow> string \<Rightarrow> (notification_input, notification_error) result" where
  "order_canceled generated c order_id =
     order_terminal generated c order_id OrderCanceledKind SevInfo ''order.canceled''
       (utf8 [35746, 21333, 24050, 21462, 28040]) (utf8 [35746, 21333, 24050, 21462, 28040, 65292, 35831, 21069, 24448, 20132, 26131, 39029, 26597, 30475,
      12290]) ''canceled''"

definition order_rejected ::
  "(string \<Rightarrow> bool) \<Rightarrow> policy_context \<Rightarrow> string option \<Rightarrow> string option
     \<Rightarrow> (notification_input, notification_error) result" where
  "order_rejected generated c order_id submission_id =
     bind_result
       (case order_id of
          Some i \<Rightarrow> Ok ([(''orderId'', ScalarString i)], i)
        | None \<Rightarrow>
            bind_result (ok_or submission_id
              (NotificationError ''INVALID_NOTIFICATION_CONTENT'' (utf8 [35746, 21333, 25552, 20132, 26631, 35782, 26080, 25928]))) (\<lambda>s.
            bind_result (validate_policy_identifier s (utf8 [35746, 21333, 25552, 20132, 26631, 35782, 26080, 25928])) (\<lambda>_.
            Ok ([(''submissionId'', ScalarString s)], s))))
       (\<lambda>(ps, identity).
         controlled_input generated c CatTrading OrderRejectedKind SevError
           (content_new generated ''order.rejected'' ps (utf8 [35746, 21333, 34987, 25298, 32477]) (utf8 [35746, 21333, 35831, 27714, 34987, 20132, 26131, 31471, 25298, 32477, 65292, 35831, 26816, 26597,
      35746, 21333, 21442, 25968, 12290]))
           (map_option (\<lambda>i. \<lparr>ne_type = EntityOrder, ne_id = i\<rparr>) order_id)
           (Some (OpenTrading order_id))
           (''order:'' @ identity @ '':rejected''))"

definition risk_order_blocked ::
  "(string \<Rightarrow> bool) \<Rightarrow> policy_context \<Rightarrow> risk_violation_input \<Rightarrow> (notification_input, notification_error) result" where
  "risk_order_blocked generated c v =
     (let ps = (''violationCode'', ScalarString (risk_code (rv_code v)))
          # (case rv_limit v of None \<Rightarrow> [] | Some l \<Rightarrow> [(''limit'', ScalarNumber l)]) in
      controlled_input generated c CatRiskAccount RiskOrderBlockedKind SevWarning
        (content_new generated ''risk.orderBlocked'' ps (utf8 [35746, 21333, 34987, 39118, 25511, 25318, 25130]) (utf8 [35831, 26816, 26597, 39118, 25511, 35774, 32622]))
        None (Some (OpenAccountSettings SectionRisk))
        (''risk:'' @ pc_source_event_id c @ '':'' @ risk_code (rv_code v)))"

definition session_expired ::
  "(string \<Rightarrow> bool) \<Rightarrow> policy_context \<Rightarrow> (notification_input, notification_error) result" where
  "session_expired generated c =
     controlled_input generated c CatRiskAccount AccountSessionExpiredKind SevWarning
       (content_new generated ''account.sessionExpired'' [(''accountId'', ScalarString (pc_account_id c))]
          (utf8 [36134, 25143, 20250, 35805, 24050, 22833, 25928]) (utf8 [35831, 26816, 26597, 36134, 25143, 32, 65, 80, 73, 32, 35774, 32622, 12290]))
       (Some \<lparr>ne_type = EntityAccount, ne_id = pc_account_id c\<rparr>)
       (Some (OpenAccountSettings SectionApi)) (pc_source_event_id c)"

definition client_suffix :: "client_notification_kind \<Rightarrow> string" where
  "client_suffix k =
     (case k of ClientRecoveryFailed \<Rightarrow> ''recovery'' | ClientReconciliationFailed \<Rightarrow> ''reconciliation'')"

definition client_account_failure ::
  "(string \<Rightarrow> bool) \<Rightarrow> create_client_notification_request \<Rightarrow> (notification_input, notification_error) result" where
  "client_account_failure generated q =
     bind_result (map_err (\<lambda>e. NotificationError (nv_code e) (utf8 [23458, 25143, 31471, 36890, 30693, 35831, 27714, 26080, 25928]))
       (client_request_validate generated q)) (\<lambda>_.
     bind_result (policy_context_new (cn_account_id q) (cn_session_epoch q)
       (''client:'' @ cn_attempt_id q @ '':'' @ client_suffix (cn_kind q))) (\<lambda>c.
     let failed = normalize_steps (cn_failed_steps q);
         (kind, severity, key, title, body) =
           (case cn_kind q of
              ClientRecoveryFailed \<Rightarrow>
                (AccountRecoveryFailedKind, SevError, ''account.recoveryFailed'',
                 (utf8 [36134, 25143, 24674, 22797, 22833, 36133]), (utf8 [35831, 26816, 26597, 36134, 25143, 35774, 32622, 21518, 37325, 35797, 12290]))
            | ClientReconciliationFailed \<Rightarrow>
                (AccountReconciliationFailedKind, SevCritical, ''account.reconciliationFailed'',
                 (utf8 [36134, 25143, 23545, 36134, 22833, 36133]), (utf8 [35831, 26816, 26597, 36134, 25143, 25968, 25454, 21518, 37325, 35797, 12290]))) in
     controlled_input generated c CatRiskAccount kind severity
       (content_new generated key [(''failedSteps'', ScalarString failed)] title body)
       (Some \<lparr>ne_type = EntityAccount, ne_id = pc_account_id c\<rparr>)
       (Some (OpenAccountSettings SectionApi)) (pc_source_event_id c)))"

definition connection_edge ::
  "(string \<Rightarrow> bool) \<Rightarrow> policy_context \<Rightarrow> notification_channel \<Rightarrow> string \<Rightarrow> bool
     \<Rightarrow> (notification_input, notification_error) result" where
  "connection_edge generated c channel incident recovered =
     bind_result (validate_policy_identifier incident (utf8 [36830, 25509, 25925, 38556, 26631, 35782, 26080, 25928])) (\<lambda>_.
     let (kind, severity, key, title, body, suffix) =
       (if recovered
        then (ConnectionRecoveredKind, SevSuccess, ''connection.recovered'', (utf8 [36830, 25509, 24050, 24674, 22797]), (utf8 [20132, 26131, 36830, 25509, 24050, 24674, 22797, 12290]), ''recovered'')
        else (ConnectionUnavailableKind, SevError, ''connection.unavailable'', (utf8 [36830, 25509, 19981, 21487, 29992]),
              (utf8 [20132, 26131, 36830, 25509, 26242, 26102, 19981, 21487, 29992, 65292, 35831, 26816, 26597, 32593,
      32476, 25110, 31245, 21518, 37325, 35797, 12290]), ''unavailable'')) in
     controlled_input generated c CatConnectionSystem kind severity
       (content_new generated key [(''channel'', ScalarString (channel_name channel))] title body)
       (Some \<lparr>ne_type = EntityConnection, ne_id = channel_name channel\<rparr>) None
       (''connection:'' @ channel_name channel @ '':'' @ incident @ '':'' @ suffix))"

definition environment_edge ::
  "(string \<Rightarrow> bool) \<Rightarrow> policy_context \<Rightarrow> notification_environment \<Rightarrow> string \<Rightarrow> string \<Rightarrow> bool
     \<Rightarrow> (notification_input, notification_error) result" where
  "environment_edge generated c env env_key incident recovered =
     bind_result (validate_policy_identifier incident (utf8 [29615, 22659, 25925, 38556, 26631, 35782, 26080, 25928])) (\<lambda>_.
     bind_result (validate_policy_identifier env_key (utf8 [29615, 22659, 26631, 35782, 26080, 25928])) (\<lambda>_.
     let (kind, severity, key, title, body, suffix) =
       (if recovered
        then (EnvironmentRecoveredKind, SevSuccess, ''environment.recovered'', (utf8 [29615, 22659, 24050, 24674, 22797]), (utf8 [24403, 21069, 20132, 26131, 29615, 22659, 24050, 24674, 22797, 12290]),
              ''recovered'')
        else (EnvironmentUnavailableKind, SevError, ''environment.unavailable'', (utf8 [29615, 22659, 19981, 21487, 36798]),
              (utf8 [24403, 21069, 20132, 26131, 29615, 22659, 26242, 26102, 19981, 21487, 36798, 65292, 35831, 31245,
      21518, 37325, 35797, 12290]), ''unavailable'')) in
     controlled_input generated c CatConnectionSystem kind severity
       (content_new generated key [(''environment'', ScalarString (environment_name env))] title body)
       (Some \<lparr>ne_type = EntityEnvironment, ne_id = env_key\<rparr>) None
       (''environment:'' @ env_key @ '':'' @ incident @ '':'' @ suffix)))"

text \<open>The public faces of the two edges.\<close>

definition connection_unavailable ::
  "(string \<Rightarrow> bool) \<Rightarrow> policy_context \<Rightarrow> notification_channel \<Rightarrow> string
     \<Rightarrow> (notification_input, notification_error) result" where
  "connection_unavailable generated c channel incident = connection_edge generated c channel incident False"

definition connection_recovered ::
  "(string \<Rightarrow> bool) \<Rightarrow> policy_context \<Rightarrow> notification_channel \<Rightarrow> string
     \<Rightarrow> (notification_input, notification_error) result" where
  "connection_recovered generated c channel incident = connection_edge generated c channel incident True"

definition environment_unavailable ::
  "(string \<Rightarrow> bool) \<Rightarrow> policy_context \<Rightarrow> notification_environment \<Rightarrow> string \<Rightarrow> string
     \<Rightarrow> (notification_input, notification_error) result" where
  "environment_unavailable generated c env env_key incident = environment_edge generated c env env_key incident False"

definition environment_recovered ::
  "(string \<Rightarrow> bool) \<Rightarrow> policy_context \<Rightarrow> notification_environment \<Rightarrow> string \<Rightarrow> string
     \<Rightarrow> (notification_input, notification_error) result" where
  "environment_recovered generated c env env_key incident = environment_edge generated c env env_key incident True"

end
