(* ===== verification/Order_Execution.thy ===== *)
theory Order_Execution
  imports Risk_Quota Notification_Policy Submit_Once
begin

text \<open>
  \<^verbatim>\<open>services/trading.rs\<close> (the observer and the execution of an order), \<^verbatim>\<open>services/trading/strategy.rs\<close>
  and \<^verbatim>\<open>services/trading/quote.rs\<close>.

  The state is the risk service and a world \<open>'w\<close> for the exchange, the notification service and
  the user interface.  The functions the source takes as arguments (\<^verbatim>\<open>prepare\<close>, \<^verbatim>\<open>submit\<close>, the
  success effects, the admission check) are functions on the world here too, and so are the calls
  of the notification service.  An order is executed under the account's mutation guard, so no
  other order changes the risk service between its steps.
\<close>

section \<open>Identity of orders\<close>

definition is_correlatable_order_link :: "string \<Rightarrow> bool" where
  "is_correlatable_order_link v \<longleftrightarrow> v \<noteq> [] \<and> chars_count v \<le> 36"

definition orders_share_identity :: "order \<Rightarrow> order \<Rightarrow> bool" where
  "orders_share_identity a b \<longleftrightarrow>
     (trim (o_order_id a) \<noteq> [] \<and> trim (o_order_id b) \<noteq> [] \<and> o_order_id a = o_order_id b)
   \<or> (case (o_order_link_id a, o_order_link_id b) of
        (Some x, Some y) \<Rightarrow> is_correlatable_order_link x \<and> is_correlatable_order_link y \<and> x = y
      | _ \<Rightarrow> False)"

section \<open>The notification observer\<close>

datatype observed_order_status = ObsNew | ObsPartiallyFilled | ObsFilled | ObsCanceled | ObsRejected

datatype order_observation_origin = OriginCommand | OriginRealtime | OriginSnapshot

record order_observation =
  oo_account_id :: string
  oo_session_epoch :: u64
  oo_order_id :: "string option"
  oo_submission_id :: "string option"
  oo_order_link_id :: "string option"
  oo_status :: observed_order_status
  oo_origin :: order_observation_origin

text \<open>
  The notification service as the observer calls it.  An observation yields the identifier of a
  notification (\<^term>\<open>Inr\<close>), or an error that is retryable or not (\<^term>\<open>Inl\<close>); publishing yields an
  identifier or nothing.
\<close>

record 'w notifier =
  nf_available :: "'w \<Rightarrow> bool"
  nf_observe :: "order_observation \<Rightarrow> u64 \<Rightarrow> 'w \<Rightarrow> (bool + string option) \<times> 'w"
  nf_publish :: "notification_input \<Rightarrow> u64 \<Rightarrow> 'w \<Rightarrow> string option \<times> 'w"
  nf_generated :: "string \<Rightarrow> bool"

definition observed_status :: "order_status \<Rightarrow> observed_order_status option" where
  "observed_status s =
     (case s of
        OrderNew \<Rightarrow> Some ObsNew | OrderPartiallyFilled \<Rightarrow> Some ObsPartiallyFilled
      | OrderFilled \<Rightarrow> Some ObsFilled | OrderCancelled \<Rightarrow> Some ObsCanceled
      | OrderRejected \<Rightarrow> Some ObsRejected | OrderUnknown \<Rightarrow> None)"

definition correlatable :: "string option \<Rightarrow> string option" where
  "correlatable v =
     (case v of Some l \<Rightarrow> if is_correlatable_order_link l then Some l else None | None \<Rightarrow> None)"

text \<open>The observation \<^verbatim>\<open>observe_checked\<close> forwards, if it forwards one.\<close>

definition observation_of ::
  "string \<Rightarrow> u64 \<Rightarrow> order \<Rightarrow> order_observation_origin \<Rightarrow> string option \<Rightarrow> order_observation option" where
  "observation_of account epoch o' origin submission =
     (case observed_status (o_status o') of
        None \<Rightarrow> None
      | Some status \<Rightarrow>
          let order_id = (if trim (o_order_id o') \<noteq> [] then Some (o_order_id o') else None);
              link = correlatable (o_order_link_id o') in
          if order_id = None \<and> submission = None \<and> link = None then None
          else Some \<lparr>oo_account_id = account, oo_session_epoch = epoch, oo_order_id = order_id,
                     oo_submission_id = submission, oo_order_link_id = link, oo_status = status,
                     oo_origin = origin\<rparr>)"

definition msg_observer_retry :: string where
  "msg_observer_retry = (utf8 [35746, 21333, 36890, 30693, 21516, 27493, 26242, 26102, 19981, 21487, 29992, 65292, 35831, 31245,
      21518, 37325, 35797])"

definition observe_checked ::
  "'w notifier \<Rightarrow> string \<Rightarrow> u64 \<Rightarrow> order \<Rightarrow> order_observation_origin \<Rightarrow> string option \<Rightarrow> u64 \<Rightarrow> 'w
     \<Rightarrow> (string option, app_error) result \<times> 'w" where
  "observe_checked N account epoch o' origin submission now w =
     (case observation_of account epoch o' origin submission of
        None \<Rightarrow> (Ok None, w)
      | Some ob \<Rightarrow>
          if \<not> nf_available N w then (Ok None, w)
          else case nf_observe N ob now w of
            (Inr nid, w) \<Rightarrow> (Ok nid, w)
          | (Inl retryable, w) \<Rightarrow>
              (if retryable then Err (EInternal msg_observer_retry) else Ok None, w))"

definition observe ::
  "'w notifier \<Rightarrow> string \<Rightarrow> u64 \<Rightarrow> order \<Rightarrow> order_observation_origin \<Rightarrow> string option \<Rightarrow> u64 \<Rightarrow> 'w
     \<Rightarrow> string option \<times> 'w" where
  "observe N account epoch o' origin submission now w =
     (case observe_checked N account epoch o' origin submission now w of
        (Ok nid, w) \<Rightarrow> (nid, w)
      | (_, w) \<Rightarrow> (None, w))"

definition observe_rejection ::
  "'w notifier \<Rightarrow> submission_context \<Rightarrow> string option \<Rightarrow> u64 \<Rightarrow> 'w \<Rightarrow> string option \<times> 'w" where
  "observe_rejection N c link now w =
     (if \<not> nf_available N w then (None, w)
      else case nf_observe N
          \<lparr>oo_account_id = sc_account_id c, oo_session_epoch = sc_session_epoch c, oo_order_id = None,
           oo_submission_id = Some (sc_submission_id c), oo_order_link_id = correlatable link,
           oo_status = ObsRejected, oo_origin = OriginCommand\<rparr> now w of
        (Inr nid, w) \<Rightarrow> (nid, w)
      | (Inl _, w) \<Rightarrow> (None, w))"

definition observe_risk_block ::
  "'w notifier \<Rightarrow> submission_context \<Rightarrow> risk_violation \<Rightarrow> u64 \<Rightarrow> 'w \<Rightarrow> string option \<times> 'w" where
  "observe_risk_block N c v now w =
     (if \<not> nf_available N w then (None, w)
      else case bind_result (policy_context_new (sc_account_id c) (sc_session_epoch c) (sc_submission_id c))
          (\<lambda>pc. risk_order_blocked (nf_generated N) pc \<lparr>rv_code = v_code v, rv_limit = v_limit v\<rparr>) of
        Ok n \<Rightarrow> nf_publish N n now w
      | _ \<Rightarrow> (None, w))"

text \<open>
  \<^verbatim>\<open>seed_snapshot_then_replay\<close>.  A snapshot whose order was seen open and then terminal among the
  buffered events is observed after them; every other snapshot before them.
\<close>

fun opened_then_closed :: "bool \<Rightarrow> order \<Rightarrow> order list \<Rightarrow> bool" where
  "opened_then_closed seen s [] = False"
| "opened_then_closed seen s (l # ls) =
     (if \<not> orders_share_identity s l then opened_then_closed seen s ls
      else if o_status l \<in> {OrderNew, OrderPartiallyFilled} then opened_then_closed True s ls
      else if seen \<and> o_status l \<in> {OrderFilled, OrderCancelled, OrderRejected} then True
      else opened_then_closed seen s ls)"

definition replay_order :: "order list \<Rightarrow> order list \<Rightarrow> (order \<times> order_observation_origin) list" where
  "replay_order snapshots buffered =
     map (\<lambda>s. (s, OriginSnapshot)) (filter (\<lambda>s. \<not> opened_then_closed False s buffered) snapshots)
   @ map (\<lambda>l. (l, OriginRealtime)) buffered
   @ map (\<lambda>s. (s, OriginSnapshot)) (filter (\<lambda>s. opened_then_closed False s buffered) snapshots)"

fun replay ::
  "'w notifier \<Rightarrow> session_context \<Rightarrow> u64 \<Rightarrow> u64 \<Rightarrow> (order \<times> order_observation_origin) list \<Rightarrow> 'w
     \<Rightarrow> (unit, app_error) result \<times> 'w" where
  "replay N c now offset [] w = (Ok (), w)"
| "replay N c now offset ((x, origin) # rest) w =
     (case observe_checked N (ses_account_id c) (ses_session_epoch c) x origin None
        (saturating_add now offset) w of
        (Ok _, w) \<Rightarrow> replay N c now (saturating_add offset 1) rest w
      | (Err e, w) \<Rightarrow> (Err e, w)
      | (Panic, w) \<Rightarrow> (Panic, w))"

definition seed_snapshot_then_replay ::
  "'w notifier \<Rightarrow> session_context \<Rightarrow> order list \<Rightarrow> order list \<Rightarrow> u64 \<Rightarrow> 'w \<Rightarrow> (unit, app_error) result \<times> 'w" where
  "seed_snapshot_then_replay N c snapshots buffered now w =
     replay N c now 0 (replay_order snapshots buffered) w"

section \<open>Reference prices\<close>

record ticker =
  tk_symbol :: string
  tk_last_price :: string
  tk_mark_price :: string

definition positive_price :: "decimal_api \<Rightarrow> string \<Rightarrow> string option" where
  "positive_price D p = (case dec_from_str D p of Some v \<Rightarrow> if v \<le> 0 then None else Some p | None \<Rightarrow> None)"

definition fresh_reference_price ::
  "decimal_api \<Rightarrow> (ticker, app_error) result \<Rightarrow> string \<Rightarrow> string option" where
  "fresh_reference_price D answer symbol =
     (case answer of
        Ok t \<Rightarrow> if \<not> eq_ignore_ascii_case (tk_symbol t) symbol then None else positive_price D (tk_last_price t)
      | _ \<Rightarrow> None)"

definition fresh_protection_reference ::
  "decimal_api \<Rightarrow> (ticker, app_error) result \<Rightarrow> string \<Rightarrow> string \<Rightarrow> string option" where
  "fresh_protection_reference D answer symbol trigger =
     (case answer of
        Ok t \<Rightarrow>
          if \<not> eq_ignore_ascii_case (tk_symbol t) symbol then None
          else if trigger = ''LastPrice'' then positive_price D (tk_last_price t)
          else if trigger = ''MarkPrice'' then positive_price D (tk_mark_price t)
          else None
      | _ \<Rightarrow> None)"

definition msg_quote_crossed :: string where
  "msg_quote_crossed = ''protected order fresh quote crossed''"

definition validate_protected_reference ::
  "decimal_api \<Rightarrow> place_order_request \<Rightarrow> string \<Rightarrow> (unit, app_error) result" where
  "validate_protected_reference D request reference =
     (case r_protection request of
        None \<Rightarrow> Ok ()
      | Some p \<Rightarrow>
          bind_result (map_err (\<lambda>_. EOrderSubmissionRejected msg_quote_crossed)
            (protection_validate D p (r_side request) (r_price request) reference)) (\<lambda>_. Ok ()))"

section \<open>Failures\<close>

text \<open>
  A release can fail but does not panic (lemma \<open>ledger_save_total\<close>), so only its success matters
  below.
\<close>

definition msg_rollback_failed :: string where
  "msg_rollback_failed = (utf8 [35746, 21333, 25552, 20132, 22833, 36133, 19988, 39118, 25511, 39044, 21344, 22238, 28378, 22833,
      36133])"

definition finalize_submission_failure :: "app_error \<Rightarrow> bool \<Rightarrow> string option \<Rightarrow> app_error" where
  "finalize_submission_failure e rollback_failed nid =
     (if (case e of ENotified _ _ _ (Some _) \<Rightarrow> True | _ \<Rightarrow> False) then e
      else case nid of
        Some n \<Rightarrow> ENotified ''ORDER_REJECTED'' msg_rejected_by_venue n None
      | None \<Rightarrow>
          if rollback_failed \<and> \<not> is_certain_submission_failure e then EInternal msg_rollback_failed else e)"

definition handle_failed_submission ::
  "risk_env \<Rightarrow> 'w notifier \<Rightarrow> risk_reservation \<Rightarrow> submission_context \<Rightarrow> string \<Rightarrow> app_error \<Rightarrow> u64
     \<Rightarrow> risk_service \<times> 'w \<Rightarrow> app_error \<times> risk_service \<times> 'w" where
  "handle_failed_submission E N res c link e now sw =
     (let (rollback_failed, s) =
            (if is_certain_submission_failure e
             then (let (q, s) = release_reservation E res now (fst sw) in (is_err q, s))
             else (False, fst sw));
          (nid, w) =
            (if is_confirmed_submission_rejection e
             then observe_rejection N c (Some link) now (snd sw) else (None, snd sw))
      in (finalize_submission_failure e rollback_failed nid, s, w))"

section \<open>Execution\<close>

text \<open>\<^verbatim>\<open>dispatch_reserved\<close>: the admission check, then the call of the exchange.\<close>

definition dispatch_reserved ::
  "risk_env \<Rightarrow> risk_reservation \<Rightarrow> u64 \<Rightarrow> ('w \<Rightarrow> (unit, app_error) result) option
     \<Rightarrow> ('w \<Rightarrow> (order, app_error) result \<times> 'w) \<Rightarrow> risk_service \<times> 'w
     \<Rightarrow> (order, app_error) result \<times> risk_service \<times> 'w" where
  "dispatch_reserved E res now admission submit sw =
     (case (case admission of None \<Rightarrow> Ok () | Some check \<Rightarrow> check (snd sw)) of
        Err e \<Rightarrow> (let (q, s) = release_reservation E res now (fst sw) in (Err e, s, snd sw))
      | Panic \<Rightarrow> (Panic, sw)
      | Ok _ \<Rightarrow> (let (r, w) = submit (snd sw) in (r, fst sw, w)))"

text \<open>The functions a caller of the execution supplies.\<close>

record 'w order_hooks =
  hk_admission :: "('w \<Rightarrow> (unit, app_error) result) option"
  hk_prepare :: "'w \<Rightarrow> (unit, app_error) result \<times> 'w"
  hk_submit :: "place_order_request \<Rightarrow> 'w \<Rightarrow> (order, app_error) result \<times> 'w"
  hk_success :: "order \<Rightarrow> 'w \<Rightarrow> 'w"

definition msg_link_length :: string where
  "msg_link_length = (utf8 [35746, 21333, 20851, 32852, 26631, 35782, 24517, 39035, 20026, 32, 49, 32, 21040, 32,
      51, 54, 32, 20010, 23383, 31526])"

definition msg_no_market_price :: string where
  "msg_no_market_price = (utf8 [26080, 27861, 33719, 21462, 26377, 25928, 30340, 26368, 26032, 24066, 20215, 65292, 35831, 31245,
      21518, 37325, 35797])"

definition msg_risk_blocked :: string where
  "msg_risk_blocked = (utf8 [35746, 21333, 34987, 39118, 25511, 25318, 25130])"

definition transmitted_link :: "submission_context \<Rightarrow> place_order_request \<Rightarrow> (string, app_error) result" where
  "transmitted_link c request =
     (case r_order_link_id request of
        Some v \<Rightarrow> if is_correlatable_order_link v then Ok v else Err (ETrading msg_link_length)
      | None \<Rightarrow> Ok (sc_submission_id c))"

definition risk_refusal :: "risk_env \<Rightarrow> risk_violation \<Rightarrow> string option \<Rightarrow> app_error" where
  "risk_refusal E v nid =
     (case nid of
        Some n \<Rightarrow> ENotified ''RISK_ORDER_BLOCKED''
          (if v_code v = ReferencePriceUnavailable then msg_no_market_price else msg_risk_blocked) n None
      | None \<Rightarrow> app_error_of_violation (re_show E) v)"

definition execute_place_order_with_submit ::
  "risk_env \<Rightarrow> 'w notifier \<Rightarrow> 'w order_hooks \<Rightarrow> submission_context \<Rightarrow> place_order_request \<Rightarrow> string option \<Rightarrow> u64
     \<Rightarrow> risk_service \<times> 'w \<Rightarrow> (order, app_error) result \<times> risk_service \<times> 'w" where
  "execute_place_order_with_submit E N H c request reference now sw =
     (case transmitted_link c request of
        Err e \<Rightarrow> (Err e, sw)
      | Panic \<Rightarrow> (Panic, sw)
      | Ok link \<Rightarrow>
        let request = request\<lparr>r_order_link_id := Some link\<rparr> in
        case reserve_order E request reference now (fst sw) of
          (Panic, s) \<Rightarrow> (Panic, s, snd sw)
        | (Err v, s) \<Rightarrow>
            (let (nid, w) = observe_risk_block N c v now (snd sw) in (Err (risk_refusal E v nid), s, w))
        | (Ok res, s) \<Rightarrow>
            (case hk_prepare H (snd sw) of
               (Panic, w) \<Rightarrow> (Panic, s, w)
             | (Err e, w) \<Rightarrow>
                 (let (q, s) = release_reservation E res now s in
                  (Err (EOrderSubmissionRejected (user_message e)), s, w))
             | (Ok _, w) \<Rightarrow>
                 (case dispatch_reserved E res now (hk_admission H) (hk_submit H request) (s, w) of
                    (Panic, sw) \<Rightarrow> (Panic, sw)
                  | (Err e, sw) \<Rightarrow>
                      (let (e', sw) = handle_failed_submission E N res c link e now sw in (Err e', sw))
                  | (Ok o', s, w) \<Rightarrow>
                      let w = (if r_protection request = None
                               then snd (observe N (sc_account_id c) (sc_session_epoch c)
                                 (if o_order_link_id o' = None then o'\<lparr>o_order_link_id := Some link\<rparr> else o')
                                 OriginCommand (Some (sc_submission_id c)) now w)
                               else w) in
                      (Ok o', s, hk_success H o' w))))"

definition execute_place_order ::
  "risk_env \<Rightarrow> 'w notifier \<Rightarrow> (place_order_request \<Rightarrow> 'w \<Rightarrow> (order, app_error) result \<times> 'w) \<Rightarrow> (order \<Rightarrow> 'w \<Rightarrow> 'w)
     \<Rightarrow> submission_context \<Rightarrow> place_order_request \<Rightarrow> string option \<Rightarrow> u64 \<Rightarrow> risk_service \<times> 'w
     \<Rightarrow> (order, app_error) result \<times> risk_service \<times> 'w" where
  "execute_place_order E N create success c request reference now sw =
     execute_place_order_with_submit E N
       \<lparr>hk_admission = None, hk_prepare = (\<lambda>w. (Ok (), w)), hk_submit = create, hk_success = success\<rparr>
       c request reference now sw"

definition execute_reserved_order ::
  "risk_env \<Rightarrow> ('w \<Rightarrow> (order, app_error) result \<times> 'w) \<Rightarrow> place_order_request \<Rightarrow> string option \<Rightarrow> u64
     \<Rightarrow> risk_service \<times> 'w \<Rightarrow> (order, app_error) result \<times> risk_service \<times> 'w" where
  "execute_reserved_order E submit request reference now sw =
     (case reserve_order E request reference now (fst sw) of
        (Panic, s) \<Rightarrow> (Panic, s, snd sw)
      | (Err v, s) \<Rightarrow> (Err (app_error_of_violation (re_show E) v), s, snd sw)
      | (Ok res, s) \<Rightarrow>
          (case submit (snd sw) of
             (Ok o', w) \<Rightarrow> (Ok o', s, w)
           | (Panic, w) \<Rightarrow> (Panic, s, w)
           | (Err e, w) \<Rightarrow>
               if \<not> is_certain_submission_failure e then (Err e, s, w)
               else (case release_reservation E res now s of
                       (Err _, s) \<Rightarrow> (Err (finalize_submission_failure e True None), s, w)
                     | (Panic, s) \<Rightarrow> (Panic, s, w)
                     | (Ok _, s) \<Rightarrow> (Err e, s, w))))"

end
