(* ===== verification/Placement.thy ===== *)
theory Placement
  imports Order_Execution
begin

text \<open>
  The order commands from end to end: \<^verbatim>\<open>TradingService::place_order\<close> and \<^verbatim>\<open>place_strategy_order\<close>
  (\<^verbatim>\<open>services/trading.rs\<close>), and the Tauri command \<^verbatim>\<open>place_order\<close> that runs the former under the
  journal (\<^verbatim>\<open>commands/trading/mutations.rs\<close>).  The calls of the exchange's client and the effects of
  a placed order are the fields of \<open>trading_api\<close>.
\<close>

section \<open>Services\<close>

record 'w trading_api =
  ta_ticker :: "string \<Rightarrow> 'w \<Rightarrow> (ticker, app_error) result \<times> 'w"
  ta_create_order :: "place_order_request \<Rightarrow> 'w \<Rightarrow> (order, app_error) result \<times> 'w"
  ta_create_protected_order :: "place_order_request \<Rightarrow> 'w \<Rightarrow> (order, app_error) result \<times> 'w"
  ta_placed :: "order \<Rightarrow> 'w \<Rightarrow> 'w"
  ta_protected_placed :: "order \<Rightarrow> 'w \<Rightarrow> 'w"
  ta_diagnostic :: "string \<Rightarrow> 'w \<Rightarrow> 'w"
  ta_now :: "'w \<Rightarrow> u64"

definition deliver_notified_placement ::
  "'w trading_api \<Rightarrow> (order, app_error) result \<Rightarrow> 'w \<Rightarrow> (order, app_error) result \<times> 'w" where
  "deliver_notified_placement A r w =
     (r, case r of
           Err (ENotified code m nid cause) \<Rightarrow>
             if code \<noteq> ''AUTH_SESSION_EXPIRED'' \<or> trim nid = []
             then ta_diagnostic A (''NOTIFIED_PLACEMENT_FAILURE:'' @ code) w else w
         | _ \<Rightarrow> w)"

text \<open>The reference price of a placement: fetched for a limit order under risk control.\<close>

definition placement_reference ::
  "risk_env \<Rightarrow> 'w trading_api \<Rightarrow> place_order_request \<Rightarrow> risk_service \<Rightarrow> 'w \<Rightarrow> string option \<times> 'w" where
  "placement_reference E A request s w =
     (if requires_reference_price s request
      then (case ta_ticker A (r_symbol request) w of
              (t, w) \<Rightarrow> (fresh_reference_price (re_dec E) t (r_symbol request), w))
      else (None, w))"

definition deliver ::
  "'w trading_api \<Rightarrow> (order, app_error) result \<times> risk_service \<times> 'w
     \<Rightarrow> (order, app_error) result \<times> risk_service \<times> 'w" where
  "deliver A x = (case x of (r, s, w) \<Rightarrow> (case deliver_notified_placement A r w of (r, w) \<Rightarrow> (r, s, w)))"

definition place_order ::
  "risk_env \<Rightarrow> 'w notifier \<Rightarrow> 'w trading_api \<Rightarrow> submission_context \<Rightarrow> place_order_request \<Rightarrow> risk_service \<times> 'w
     \<Rightarrow> (order, app_error) result \<times> risk_service \<times> 'w" where
  "place_order E N A c request sw =
     (case placement_reference E A request (fst sw) (snd sw) of
        (reference, w) \<Rightarrow>
          deliver A (execute_place_order E N (ta_create_order A) (ta_placed A) c request reference
            (ta_now A w) (fst sw, w)))"

definition msg_quote_unavailable :: string where
  "msg_quote_unavailable = ''protected order fresh quote unavailable''"

definition prepare_protected ::
  "risk_env \<Rightarrow> 'w trading_api \<Rightarrow> place_order_request \<Rightarrow> 'w \<Rightarrow> (unit, app_error) result \<times> 'w" where
  "prepare_protected E A request w =
     (case r_protection request of
        None \<Rightarrow> (Ok (), w)
      | Some p \<Rightarrow>
          (case ta_ticker A (r_symbol request) w of
             (t, w) \<Rightarrow>
               (bind_result
                  (ok_or (fresh_protection_reference (re_dec E) t (r_symbol request) (trigger_by p))
                     (EOrderSubmissionRejected msg_quote_unavailable))
                  (validate_protected_reference (re_dec E) request), w)))"

definition strategy_hooks ::
  "risk_env \<Rightarrow> 'w trading_api \<Rightarrow> ('w \<Rightarrow> (unit, app_error) result) \<Rightarrow> place_order_request \<Rightarrow> 'w order_hooks" where
  "strategy_hooks E A admission request =
     \<lparr>hk_admission = Some admission, hk_prepare = prepare_protected E A request,
      hk_submit = (if r_protection request \<noteq> None then ta_create_protected_order A else ta_create_order A),
      hk_success = (if r_protection request \<noteq> None then ta_protected_placed A else ta_placed A)\<rparr>"

definition place_strategy_order ::
  "risk_env \<Rightarrow> 'w notifier \<Rightarrow> 'w trading_api \<Rightarrow> ('w \<Rightarrow> (unit, app_error) result) \<Rightarrow> submission_context
     \<Rightarrow> place_order_request \<Rightarrow> risk_service \<times> 'w \<Rightarrow> (order, app_error) result \<times> risk_service \<times> 'w" where
  "place_strategy_order E N A admission c request sw =
     (case placement_reference E A request (fst sw) (snd sw) of
        (reference, w) \<Rightarrow>
          deliver A (execute_place_order_with_submit E N (strategy_hooks E A admission request) c request
            reference (ta_now A w) (fst sw, w)))"

section \<open>Commands\<close>

definition normalize_account_id :: "string \<Rightarrow> string" where
  "normalize_account_id a = (if trim a = [] then ''default'' else trim a)"

text \<open>
  The body of the command \<^verbatim>\<open>place_order\<close> under the account guard.  \<open>submission_id\<close> is the fresh UUID,
  \<open>credential\<close> the installed endpoint and key, \<open>epoch\<close> the session and \<open>now\<close> the local clock.
\<close>

definition place_order_command ::
  "journal_env \<Rightarrow> risk_env \<Rightarrow> 'w notifier \<Rightarrow> 'w trading_api \<Rightarrow> string \<Rightarrow> string \<Rightarrow> (string \<times> string) option
     \<Rightarrow> u64 \<Rightarrow> u64 \<Rightarrow> place_order_request \<Rightarrow> disk \<times> risk_service \<times> 'w
     \<Rightarrow> (order, app_error) result \<times> disk \<times> risk_service \<times> 'w" where
  "place_order_command J E N A submission_id active_account credential epoch now request s =
     (let request = request\<lparr>r_order_link_id :=
            (case r_order_link_id request of None \<Rightarrow> Some submission_id | Some l \<Rightarrow> Some l)\<rparr>;
          account = normalize_account_id active_account in
      case order_submission_scope (je_hash J) account credential of
        Err e \<Rightarrow> (Err (EOrderSubmissionRejected (user_message e)), s)
      | Panic \<Rightarrow> (Panic, s)
      | Ok scope \<Rightarrow>
          submit_once J scope request now
            (place_order E N A \<lparr>sc_submission_id = submission_id, sc_account_id = account, sc_session_epoch = epoch\<rparr>)
            s)"

end
