(* ===== verification/Placement_Laws.thy ===== *)
theory Placement_Laws
  imports Placement Submit_Laws
begin

text \<open>
  Lemmas on the execution of an order: when the exchange is called, what its answer becomes, and
  what happens to the daily quota.
\<close>

section \<open>Classification of failures survives\<close>

lemma confirmed_is_certain: "is_confirmed_submission_rejection e \<Longrightarrow> is_certain_submission_failure e"
  by (simp add: is_certain_submission_failure_def)

lemma certain_is_definite: "is_certain_submission_failure e \<Longrightarrow> definitely_not_accepted e"
  by (simp add: definitely_not_accepted_def)

lemma finalize_preserves:
  assumes "nid \<noteq> None \<Longrightarrow> is_certain_submission_failure e" "rollback \<Longrightarrow> is_certain_submission_failure e"
  shows "definitely_not_accepted (finalize_submission_failure e rollback nid) = definitely_not_accepted e"
proof (cases "\<exists>n. nid = Some n \<and> \<not> (case e of ENotified _ _ _ (Some _) \<Rightarrow> True | _ \<Rightarrow> False)")
  case True
  then have "definitely_not_accepted e" using assms(1) certain_is_definite by auto
  moreover have "definitely_not_accepted (ENotified ''ORDER_REJECTED'' m n None)" for m n
    by (simp add: definitely_not_accepted_def)
  ultimately show ?thesis using True by (auto simp: finalize_submission_failure_def)
next
  case False
  then have "finalize_submission_failure e rollback nid = e"
    using assms(2) by (cases nid) (auto simp: finalize_submission_failure_def)
  then show ?thesis by simp
qed

lemma handle_failed_classifies:
  assumes "handle_failed_submission E N res c link e now (s, w) = (e', s', w')"
  shows "definitely_not_accepted e' = definitely_not_accepted e"
proof -
  obtain q s1 where q: "release_reservation E res now s = (q, s1)" by (cases "release_reservation E res now s")
  obtain nid w1 where o1: "observe_rejection N c (Some link) now w = (nid, w1)"
    by (cases "observe_rejection N c (Some link) now w")
  have "e' = finalize_submission_failure e (is_certain_submission_failure e \<and> is_err q)
      (if is_confirmed_submission_rejection e then nid else None)"
    using assms q o1 by (auto simp: handle_failed_submission_def Let_def split: if_splits)
  moreover have "definitely_not_accepted (finalize_submission_failure e (is_certain_submission_failure e \<and> is_err q)
      (if is_confirmed_submission_rejection e then nid else None)) = definitely_not_accepted e"
    by (rule finalize_preserves) (auto dest: confirmed_is_certain split: if_splits)
  ultimately show ?thesis by simp
qed

section \<open>Calls of the exchange\<close>

text \<open>
  \<open>calls w\<close> are the answers of the exchange to order creations so far, as an observation of the
  world: creating an order appends its answer and nothing else touches it.
\<close>

definition notifier_silent :: "('w \<Rightarrow> 'c) \<Rightarrow> 'w notifier \<Rightarrow> bool" where
  "notifier_silent calls N \<longleftrightarrow>
     (\<forall>ob t w. calls (snd (nf_observe N ob t w)) = calls w) \<and> (\<forall>n t w. calls (snd (nf_publish N n t w)) = calls w)"

definition hooks_log :: "('w \<Rightarrow> (order, app_error) result list) \<Rightarrow> 'w order_hooks \<Rightarrow> bool" where
  "hooks_log calls H \<longleftrightarrow>
     (\<forall>w. calls (snd (hk_prepare H w)) = calls w)
   \<and> (\<forall>rq w. calls (snd (hk_submit H rq w)) = calls w @ [fst (hk_submit H rq w)])
   \<and> (\<forall>x w. calls (hk_success H x w) = calls w)"

definition logs_calls :: "('w \<Rightarrow> (order, app_error) result list) \<Rightarrow> 'w notifier \<Rightarrow> 'w trading_api \<Rightarrow> bool" where
  "logs_calls calls N A \<longleftrightarrow> notifier_silent calls N
   \<and> (\<forall>y w. calls (snd (ta_ticker A y w)) = calls w)
   \<and> (\<forall>rq w. calls (snd (ta_create_order A rq w)) = calls w @ [fst (ta_create_order A rq w)])
   \<and> (\<forall>rq w. calls (snd (ta_create_protected_order A rq w)) = calls w @ [fst (ta_create_protected_order A rq w)])
   \<and> (\<forall>x w. calls (ta_placed A x w) = calls w) \<and> (\<forall>x w. calls (ta_protected_placed A x w) = calls w)
   \<and> (\<forall>m w. calls (ta_diagnostic A m w) = calls w)"

lemma observers_silent:
  assumes "notifier_silent calls N"
  shows "calls (snd (observe N a e x origin sub t w)) = calls w"
    and "calls (snd (observe_rejection N c l t w)) = calls w"
    and "calls (snd (observe_risk_block N c v t w)) = calls w"
proof -
  have o1: "calls w' = calls w" if "nf_observe N ob t w = (y, w')" for ob t w y w'
    using assms that unfolding notifier_silent_def by (metis snd_conv)
  have o2: "calls w' = calls w" if "nf_publish N n t w = (y, w')" for n t w y w'
    using assms that unfolding notifier_silent_def by (metis snd_conv)
  show "calls (snd (observe N a e x origin sub t w)) = calls w"
    by (auto simp: observe_def observe_checked_def split: option.splits prod.splits sum.splits dest: o1)
  show "calls (snd (observe_rejection N c l t w)) = calls w"
    by (auto simp: observe_rejection_def split: prod.splits sum.splits dest: o1)
  show "calls (snd (observe_risk_block N c v t w)) = calls w"
    using assms by (auto simp: observe_risk_block_def notifier_silent_def split: result.splits)
qed

text \<open>The result of an execution against the exchange's answer.\<close>

fun answer_becomes :: "(order, app_error) result \<Rightarrow> (order, app_error) result \<Rightarrow> bool" where
  "answer_becomes (Ok x) r = (r = Ok x)"
| "answer_becomes Panic r = (r = Panic)"
| "answer_becomes (Err e) (Err e') = (definitely_not_accepted e' = definitely_not_accepted e)"
| "answer_becomes (Err e) r = False"

lemma dispatch_calls:
  assumes "hooks_log calls H"
    and "dispatch_reserved E res now adm (hk_submit H rq) (s, w) = (r, s', w')"
  shows "(calls w' = calls w \<and> \<not> is_ok r) \<or> calls w' = calls w @ [r]"
proof -
  have "calls (snd (hk_submit H rq w)) = calls w @ [fst (hk_submit H rq w)]"
    using assms(1) by (simp add: hooks_log_def)
  then show ?thesis
    using assms(2)
    by (cases adm; cases "(the adm) w")
      (auto simp: dispatch_reserved_def Let_def split: prod.splits)
qed

lemma handle_failed_calls:
  assumes "notifier_silent calls N" "handle_failed_submission E N res c link e now (s, w) = (e', s', w')"
  shows "calls w' = calls w"
  using assms observers_silent(2) [OF assms(1), of c "Some link" now w]
  by (auto simp: handle_failed_submission_def Let_def split: prod.splits if_splits)

lemma execute_calls:
  assumes N: "notifier_silent calls N" and H: "hooks_log calls H"
    and run: "execute_place_order_with_submit E N H c rq ref now (s, w) = (r, s', w')"
  shows "(calls w' = calls w \<and> \<not> is_ok r) \<or> (\<exists>a. calls w' = calls w @ [a] \<and> answer_becomes a r)"
proof (cases "transmitted_link c rq")
  case (Ok link)
  let ?rq = "rq\<lparr>r_order_link_id := Some link\<rparr>"
  obtain v s1 where v: "reserve_order E ?rq ref now s = (v, s1)" by (cases "reserve_order E ?rq ref now s")
  obtain p w1 where p: "hk_prepare H w = (p, w1)" by (cases "hk_prepare H w")
  have cp: "calls w1 = calls w" using H p unfolding hooks_log_def by (metis snd_conv)
  show ?thesis
  proof (cases "\<exists>res. v = Ok res \<and> p = Ok ()")
    case False
    have block: "calls w2 = calls w" if "observe_risk_block N c y now w = (nid, w2)" for y nid w2
      using observers_silent(3) [OF N, of c y now w] that by simp
    show ?thesis
      using False run Ok v p cp
      by (cases v; cases p)
        (auto simp: execute_place_order_with_submit_def Let_def dest: block split: prod.splits)
  next
    case True
    then obtain res where res: "v = Ok res" "p = Ok ()" by blast
    obtain x s2 w2 where x: "dispatch_reserved E res now (hk_admission H) (hk_submit H ?rq) (s1, w1) = (x, s2, w2)"
      by (cases "dispatch_reserved E res now (hk_admission H) (hk_submit H ?rq) (s1, w1)") auto
    note cx = dispatch_calls [OF H x]
    show ?thesis
    proof (cases x)
      case (Ok y)
      have cs: "calls (hk_success H z u) = calls u" for z u using H by (simp add: hooks_log_def)
      have "r = Ok y \<and> calls w' = calls w2"
        using run \<open>transmitted_link c rq = Ok link\<close> v p res x Ok cs observers_silent(1) [OF N]
        by (auto simp: execute_place_order_with_submit_def Let_def)
      then show ?thesis using cx Ok cp by auto
    next
      case (Err e)
      obtain e' s3 w3 where h: "handle_failed_submission E N res c link e now (s2, w2) = (e', s3, w3)"
        by (cases "handle_failed_submission E N res c link e now (s2, w2)") auto
      have "r = Err e' \<and> w' = w3"
        using run Ok v p res x Err h by (auto simp: execute_place_order_with_submit_def Let_def)
      then show ?thesis
        using cx Err cp handle_failed_calls [OF N h] handle_failed_classifies [OF h] by auto
    next
      case Panic
      then have "r = Panic \<and> w' = w2"
        using run Ok v p res x by (auto simp: execute_place_order_with_submit_def Let_def)
      then show ?thesis using cx Panic cp by auto
    qed
  qed
qed (use run in \<open>auto simp: execute_place_order_with_submit_def\<close>)

lemma deliver_calls:
  assumes "logs_calls calls N A" "deliver A (r, s, w) = (r', s', w')"
  shows "r' = r \<and> s' = s \<and> calls w' = calls w"
  using assms
  by (auto simp: deliver_def deliver_notified_placement_def logs_calls_def split: result.splits app_error.splits if_splits)

lemma place_order_calls:
  assumes "logs_calls calls N A" "place_order E N A c rq (s, w) = (r, s', w')"
  shows "(calls w' = calls w \<and> \<not> is_ok r) \<or> (\<exists>a. calls w' = calls w @ [a] \<and> answer_becomes a r)"
proof -
  let ?H = "\<lparr>hk_admission = None, hk_prepare = (\<lambda>w. (Ok (), w)), hk_submit = ta_create_order A, hk_success = ta_placed A\<rparr>"
  obtain ref w1 where ref: "placement_reference E A rq s w = (ref, w1)" by (cases "placement_reference E A rq s w")
  have cr: "calls w1 = calls w"
  proof -
    have "calls (snd (placement_reference E A rq s w)) = calls w"
      using assms(1) by (auto simp: placement_reference_def logs_calls_def split: prod.splits) (metis snd_conv)
    then show ?thesis using ref by simp
  qed
  obtain r1 s1 w2 where x: "execute_place_order_with_submit E N ?H c rq ref (ta_now A w1) (s, w1) = (r1, s1, w2)"
    by (cases "execute_place_order_with_submit E N ?H c rq ref (ta_now A w1) (s, w1)") auto
  have N: "notifier_silent calls N" and H: "hooks_log calls ?H"
    using assms(1) by (simp_all add: logs_calls_def hooks_log_def)
  have "deliver A (r1, s1, w2) = (r, s', w')"
    using assms(2) ref x by (simp add: place_order_def execute_place_order_def)
  from deliver_calls [OF assms(1) this] execute_calls [OF N H x] show ?thesis using cr by auto
qed

end
