(* ===== verification/Placement_Properties.thy ===== *)
theory Placement_Properties
  imports Placement_Laws Submission_Samples "HOL-Library.Multiset"
begin

text \<open>
  What the execution of an order guarantees: the answer the user gets agrees with what the
  exchange was asked and said, the quota is charged for every order that may exist and for no
  other, protected orders bracket a fresh price, and observations are replayed completely.
\<close>

section \<open>Samples\<close>

text \<open>A world that is the list of the exchange's answers, and an exchange that answers \<open>a\<close>.\<close>

type_synonym sample_world = "(order, app_error) result list"

definition sample_notifier :: "sample_world notifier" where
  "sample_notifier = \<lparr>nf_available = (\<lambda>w. False), nf_observe = (\<lambda>ob t w. (Inl False, w)),
     nf_publish = (\<lambda>n t w. (None, w)), nf_generated = (\<lambda>s. False)\<rparr>"

definition sample_ticker :: ticker where
  "sample_ticker = \<lparr>tk_symbol = ''BTCUSDT'', tk_last_price = ''100'', tk_mark_price = ''101''\<rparr>"

definition sample_api :: "(order, app_error) result \<Rightarrow> sample_world trading_api" where
  "sample_api a = \<lparr>ta_ticker = (\<lambda>y w. (Ok sample_ticker, w)), ta_create_order = (\<lambda>rq w. (a, w @ [a])),
     ta_create_protected_order = (\<lambda>rq w. (a, w @ [a])), ta_placed = (\<lambda>x w. w),
     ta_protected_placed = (\<lambda>x w. w), ta_diagnostic = (\<lambda>m w. w), ta_now = (\<lambda>w. 5)\<rparr>"


section \<open>The answer is truthful\<close>



section \<open>The quota follows certainty\<close>

text \<open>
  C13: An order that was handed to the exchange and failed stays counted against the daily quota
  unless the failure is certain; after a certain failure its reservation is given back, so that
  the count is what it was, or, if only the ledger could not be written, one too many.
\<close>

theorem failed_order_quota:
  assumes "service_ok s" "transmitted_link c rq = Ok link"
    and "reserve_order E (rq\<lparr>r_order_link_id := Some link\<rparr>) ref now s = (Ok k, s1)" "res_counted k"
    and "hk_prepare H w = (Ok (), w1)" "\<forall>check. hk_admission H = Some check \<longrightarrow> check w1 = Ok ()"
    and "hk_submit H (rq\<lparr>r_order_link_id := Some link\<rparr>) w1 = (Err e, w2)"
    and "execute_place_order_with_submit E N H c rq ref now (s, w) = (r, s', w')"
  shows "is_err r \<and> occupied_on E (res_trading_day k) s' =
    (if is_certain_submission_failure e \<and> fst (release_reservation E k now s1) = Ok ()
     then occupied_on E (res_trading_day k) s else occupied_on E (res_trading_day k) s + 1)"
proof -
  obtain q s2 where q: "release_reservation E k now s1 = (q, s2)" by (cases "release_reservation E k now s1")
  have s': "is_err r \<and> s' = (if is_certain_submission_failure e then s2 else s1)"
    using assms(2,3,5-8) q
    by (cases "hk_admission H")
      (auto simp: execute_place_order_with_submit_def dispatch_reserved_def handle_failed_submission_def Let_def
        split: prod.splits if_splits)
  have day: "on_day E (res_trading_day k) (rq\<lparr>r_order_link_id := Some link\<rparr>, ref, now) s"
    using assms(3,1)
    by (cases rule: reserve_order_cases) (use assms(4) in \<open>auto simp: on_day_def reservation_counted_def\<close>)
  have g: "occupied_on E (res_trading_day k) s1 = occupied_on E (res_trading_day k) s + 1"
    using reserve_granted_occupied [OF assms(1) day assms(3,4)] by simp
  have ok1: "service_ok s1" by (rule reserve_order_frame(5) [OF assms(3,1)])
  have rel: "occupied_on E (res_trading_day k) s2 =
      (if q = Ok () then occupied_on E (res_trading_day k) s else occupied_on E (res_trading_day k) s1)"
    using q ok1
  proof (cases rule: release_reservation_cases)
    case unchanged
    then show ?thesis using release_after_reserve [OF assms(1) day assms(3)] q by auto
  next
    case (failed e d')
    then show ?thesis by simp
  next
    case (released u nxt d')
    then show ?thesis using release_after_reserve [OF assms(1) day assms(3)] q by simp
  qed
  show ?thesis using s' g rel q by auto
qed

definition sample_hooks :: "app_error \<Rightarrow> sample_world order_hooks" where
  "sample_hooks e = \<lparr>hk_admission = None, hk_prepare = (\<lambda>w. (Ok (), w)), hk_submit = (\<lambda>rq w. (Err e, w @ [Err e])),
     hk_success = (\<lambda>x w. w)\<rparr>"

definition sample_context :: submission_context where
  "sample_context = \<lparr>sc_submission_id = ''s1'', sc_account_id = ''main'', sc_session_epoch = 0\<rparr>"

lemma sample_link: "transmitted_link sample_context sample_order = Ok ''a1''"
  by code_simp

lemma sample_linked [simp]: "sample_order\<lparr>r_order_link_id := Some ''a1''\<rparr> = sample_order"
  by (simp add: sample_order_def)

theorem failed_order_quota_witness:
  "\<exists>r s' w'. execute_place_order_with_submit sample_env sample_notifier (sample_hooks (EConnection ''timeout''))
       sample_context sample_order (Some ''100'') 5 (sample_risk, []) = (r, s', w')
     \<and> occupied_on sample_env ''2026-01-02'' s' = 1"
proof -
  let ?run = "execute_place_order_with_submit sample_env sample_notifier (sample_hooks (EConnection ''timeout''))
       sample_context sample_order (Some ''100'') 5 (sample_risk, [])"
  obtain r s' w' where run: "?run = (r, s', w')" by (cases ?run) auto
  have res: "reserve_order sample_env (sample_order\<lparr>r_order_link_id := Some ''a1''\<rparr>) (Some ''100'') 5 sample_risk =
      (Ok (reservation_counted ''2026-01-02'' ''Asia/Shanghai''), snd sample_reserve)"
    using sample_reserve_run by simp
  have uncertain: "\<not> is_certain_submission_failure (EConnection ''timeout'')"
    by (simp add: is_certain_submission_failure_def is_confirmed_submission_rejection_def)
  have zero: "occupied_on sample_env ''2026-01-02'' sample_risk = 0" by (simp add: occupied_on_def sample_risk_def)
  from failed_order_quota [OF sample_service_ok sample_link res _ _ _ _ run] show ?thesis
    using run uncertain zero by (simp add: sample_hooks_def reservation_counted_def)
qed

text \<open>
  C24: An order stopped before the exchange (its preparation failed, or the strategy's admission was
  revoked with a local rejection) is never handed to the exchange, whatever the exchange would have
  answered, it is reported as certainly not accepted, and its reservation is given back.
\<close>

theorem unsent_order_not_charged:
  assumes "service_ok s" "transmitted_link c rq = Ok link"
    and "reserve_order E (rq\<lparr>r_order_link_id := Some link\<rparr>) ref now s = (Ok k, s1)" "res_counted k"
    and "(\<exists>e. hk_prepare H w = (Err e, wp))
      \<or> (hk_prepare H w = (Ok (), wp)
          \<and> (\<exists>check m. hk_admission H = Some check \<and> check wp = Err (EOrderSubmissionRejected m)))"
    and "fst (release_reservation E k now s1) = Ok ()"
  shows "\<exists>e s'. definitely_not_accepted e \<and> occupied_on E (res_trading_day k) s' = occupied_on E (res_trading_day k) s
    \<and> (\<forall>submit. execute_place_order_with_submit E N (H\<lparr>hk_submit := submit\<rparr>) c rq ref now (s, w) = (Err e, s', wp))"
proof -
  obtain s2 where q: "release_reservation E k now s1 = (Ok (), s2)"
    using assms(6) by (cases "release_reservation E k now s1") auto
  have local: "\<not> is_certain_submission_failure (EOrderSubmissionRejected m)"
    "\<not> is_confirmed_submission_rejection (EOrderSubmissionRejected m)"
    "definitely_not_accepted (EOrderSubmissionRejected m)" for m
    by (simp_all add: is_certain_submission_failure_def is_confirmed_submission_rejection_def definitely_not_accepted_def)
  have day: "on_day E (res_trading_day k) (rq\<lparr>r_order_link_id := Some link\<rparr>, ref, now) s"
    using assms(3,1)
    by (cases rule: reserve_order_cases) (use assms(4) in \<open>auto simp: on_day_def reservation_counted_def\<close>)
  have occ: "occupied_on E (res_trading_day k) s2 = occupied_on E (res_trading_day k) s"
    by (rule release_after_reserve [OF assms(1) day assms(3) q])
  have "\<exists>m. \<forall>submit. execute_place_order_with_submit E N (H\<lparr>hk_submit := submit\<rparr>) c rq ref now (s, w)
      = (Err (EOrderSubmissionRejected m), s2, wp)"
    using assms(5)
  proof
    assume "\<exists>e. hk_prepare H w = (Err e, wp)"
    then show ?thesis using assms(2,3) q by (auto simp: execute_place_order_with_submit_def Let_def)
  next
    assume "hk_prepare H w = (Ok (), wp)
      \<and> (\<exists>check m. hk_admission H = Some check \<and> check wp = Err (EOrderSubmissionRejected m))"
    then show ?thesis
      using assms(2,3) q local
      by (auto simp: execute_place_order_with_submit_def dispatch_reserved_def handle_failed_submission_def
          finalize_submission_failure_def Let_def)
  qed
  then show ?thesis using local(3) occ by blast
qed

theorem unsent_order_not_charged_witness:
  "\<exists>e s'. definitely_not_accepted e \<and> occupied_on sample_env ''2026-01-02'' s' = 0
    \<and> (\<forall>submit. execute_place_order_with_submit sample_env sample_notifier
         (((sample_hooks ENotConnected)\<lparr>hk_admission := Some (\<lambda>w. Err (EOrderSubmissionRejected ''revoked''))\<rparr>)\<lparr>hk_submit := submit\<rparr>)
         sample_context sample_order (Some ''100'') 5 (sample_risk, []) = (Err e, s', []))"
proof -
  have res: "reserve_order sample_env (sample_order\<lparr>r_order_link_id := Some ''a1''\<rparr>) (Some ''100'') 5 sample_risk =
      (Ok (reservation_counted ''2026-01-02'' ''Asia/Shanghai''), snd sample_reserve)"
    using sample_reserve_run by simp
  have rel: "fst (release_reservation sample_env (reservation_counted ''2026-01-02'' ''Asia/Shanghai'') 5
      (snd sample_reserve)) = Ok ()" by code_simp
  have zero: "occupied_on sample_env ''2026-01-02'' sample_risk = 0" by (simp add: occupied_on_def sample_risk_def)
  from unsent_order_not_charged [OF sample_service_ok sample_link res _ _ rel,
      where H = "(sample_hooks ENotConnected)\<lparr>hk_admission := Some (\<lambda>w. Err (EOrderSubmissionRejected ''revoked''))\<rparr>"
        and w = "[]" and wp = "[]" and N = sample_notifier]
  show ?thesis using zero by (simp add: sample_hooks_def reservation_counted_def)
qed

section \<open>Protected orders bracket a fresh price\<close>

lemma protection_validate_sides:
  assumes "decimal_prints_exactly D" "protection_validate D p side entry reference = Ok p'"
  obtains r where "dec_from_str_exact D reference = Some r" "0 < r"
    "\<And>n. leg_value D (take_profit p) = Some n \<Longrightarrow> if side = ''Buy'' then r < n else n < r"
    "\<And>n. leg_value D (stop_loss p) = Some n \<Longrightarrow> if side = ''Buy'' then n < r else r < n"
proof -
  from assms(2) obtain ref_s ref_d entry_d tp sl where
    x: "workflow_decimal D reference True = Ok ref_s" "strategy_exact D ref_s = Ok ref_d"
      "validate_leg D side entry_d ref_d True (take_profit p) = Ok tp"
      "validate_leg D side entry_d ref_d False (stop_loss p) = Ok sl"
    by (auto simp: protection_validate_def)
  obtain q where q: "dec_from_str_exact D reference = Some q" "0 < q" "ref_s = dec_normalized D q"
    using x(1) by (rule workflow_decimal_Ok)
  have "ref_d = q" using x(2) q(1,3) assms(1) by (auto simp: strategy_exact_Ok decimal_prints_exactly_def)
  then show ?thesis
    using that [OF q(1,2)] validate_leg_sound(2) [OF assms(1) x(3)] validate_leg_sound(2) [OF assms(1) x(4)]
    by (metis (full_types))
qed

text \<open>
  C25: A protected order is only let through if, at a quote fetched for it after its reservation
  and for its own symbol, the selected trigger price is positive and the take-profit and stop-loss
  prices lie strictly on their proper sides of it: above and below for a buy, below and above
  otherwise.
\<close>

theorem protected_order_brackets_fresh_price:
  assumes "decimal_prints_exactly (re_dec E)" "r_protection rq = Some p"
    and "prepare_protected E A rq w = (Ok (), w')"
  shows "\<exists>t reference r. ta_ticker A (r_symbol rq) w = (Ok t, w')
    \<and> eq_ignore_ascii_case (tk_symbol t) (r_symbol rq)
    \<and> reference = (if trigger_by p = ''LastPrice'' then tk_last_price t else tk_mark_price t)
    \<and> dec_from_str_exact (re_dec E) reference = Some r \<and> 0 < r
    \<and> (\<forall>n. leg_value (re_dec E) (take_profit p) = Some n \<longrightarrow> (if r_side rq = ''Buy'' then r < n else n < r))
    \<and> (\<forall>n. leg_value (re_dec E) (stop_loss p) = Some n \<longrightarrow> (if r_side rq = ''Buy'' then n < r else r < n))"
proof -
  obtain a w1 where a: "ta_ticker A (r_symbol rq) w = (a, w1)" by (cases "ta_ticker A (r_symbol rq) w")
  obtain reference where ref: "w1 = w'"
    "fresh_protection_reference (re_dec E) a (r_symbol rq) (trigger_by p) = Some reference"
    "validate_protected_reference (re_dec E) rq reference = Ok ()"
    using assms(2,3) a by (auto simp: prepare_protected_def)
  obtain t where t: "a = Ok t" "eq_ignore_ascii_case (tk_symbol t) (r_symbol rq)"
    "reference = (if trigger_by p = ''LastPrice'' then tk_last_price t else tk_mark_price t)"
    using ref(2) by (auto simp: fresh_protection_reference_def positive_price_def
        split: result.splits if_splits option.splits)
  obtain p' where p': "protection_validate (re_dec E) p (r_side rq) (r_price rq) reference = Ok p'"
    using ref(3) assms(2) by (auto simp: validate_protected_reference_def)
  obtain r where r: "dec_from_str_exact (re_dec E) reference = Some r" "0 < r"
    "\<And>n. leg_value (re_dec E) (take_profit p) = Some n \<Longrightarrow> if r_side rq = ''Buy'' then r < n else n < r"
    "\<And>n. leg_value (re_dec E) (stop_loss p) = Some n \<Longrightarrow> if r_side rq = ''Buy'' then n < r else r < n"
    using protection_validate_sides [OF assms(1) p'] by blast
  show ?thesis using a ref(1) t r by blast
qed

definition sample_protected :: place_order_request where
  "sample_protected = sample_order\<lparr>r_price := None, r_order_type := ''Market'',
     r_protection := Some \<lparr>take_profit = Some ''110'', stop_loss = Some ''90'', trigger_by = ''LastPrice''\<rparr>\<rparr>"

theorem protected_order_brackets_fresh_price_witness:
  "\<exists>t w'. ta_ticker (sample_api (Ok sample_accepted)) (r_symbol sample_protected) [] = (Ok t, w')
     \<and> eq_ignore_ascii_case (tk_symbol t) (r_symbol sample_protected)"
proof -
  let ?run = "prepare_protected sample_env (sample_api (Ok sample_accepted)) sample_protected []"
  have "?run = (Ok (), [])" by code_simp
  from protected_order_brackets_fresh_price [OF _ _ this] show ?thesis
    by (auto simp: sample_protected_def)
qed

section \<open>Replay of observations\<close>





end
