(* ===== verification/Notification_Laws.thy ===== *)
theory Notification_Laws
  imports Notification_Policy
begin

text \<open>
  Lemmas on notification identifiers and on the producers: which inputs they accept, and that
  what they produce passes every check of the model.
\<close>

section \<open>Identifiers\<close>

lemma split_on_nonempty [simp]: "split_on P s \<noteq> []"
  by (induction s) (auto split: list.splits)

lemma split_on_append: "P c \<Longrightarrow> split_on P (a @ c # b) = split_on P a @ split_on P b"
proof (induction a)
  case (Cons x a)
  then show ?case by (cases "split_on P a") auto
qed simp

lemma split_on_none: "\<forall>c\<in>set s. \<not> P c \<Longrightarrow> split_on P s = [s]"
  by (induction s) auto

lemma split_on_subset: "seg \<in> set (split_on P s) \<Longrightarrow> set seg \<subseteq> set s"
proof (induction s arbitrary: seg)
  case (Cons c s)
  then show ?case by (cases "split_on P s") (auto split: if_splits, blast+)
qed simp

text \<open>Identifiers are built from safe parts joined by colons.\<close>

lemma safe_identifier_join:
  assumes "is_safe_notification_identifier a m" "is_safe_notification_identifier b n"
    and "length a + 1 + length b \<le> k"
  shows "is_safe_notification_identifier (a @ CHR '':'' # b) k"
proof -
  let ?P = "\<lambda>c. c = CHR '':''" and ?Q = "\<lambda>c. c \<in> {CHR '':'', CHR ''-'', CHR ''_''}"
  have "split_on ?P (a @ CHR '':'' # b) = split_on ?P a @ split_on ?P b"
    "split_on ?Q (a @ CHR '':'' # b) = split_on ?Q a @ split_on ?Q b"
    by (rule split_on_append, simp)+
  then show ?thesis using assms by (auto simp: is_safe_notification_identifier_def)
qed

lemma safe_identifier_weaken:
  "is_safe_notification_identifier a m \<Longrightarrow> length a \<le> n \<Longrightarrow> is_safe_notification_identifier a n"
  by (simp add: is_safe_notification_identifier_def)

lemma safe_identifier_length: "is_safe_notification_identifier a m \<Longrightarrow> length a \<le> m"
  by (simp add: is_safe_notification_identifier_def)

lemma safe_words:
  "is_safe_notification_identifier ''client'' 256" "is_safe_notification_identifier ''risk'' 256"
  "is_safe_notification_identifier ''recovery'' 256" "is_safe_notification_identifier ''reconciliation'' 256"
  by code_simp+

lemma safe_risk_code: "is_safe_notification_identifier (risk_code c) 32"
proof -
  have "list_all (\<lambda>c. is_safe_notification_identifier (risk_code c) 32)
      [InvalidQuantity, NonPositiveQuantity, MaxOrderQty, MissingLimitPrice, InvalidLimitPrice,
       NonPositiveLimitPrice, ReferencePriceUnavailable, MaxPriceDeviation, DailyOrderLimit, LedgerUnavailable]"
    by code_simp
  then show ?thesis by (cases c) (simp_all del: risk_code.simps)
qed

lemma parse_risk_code [simp]: "parse_violation_code (risk_code c) = Some c"
  by (cases c) (simp_all add: parse_violation_code_def)

text \<open>The canonical form of a UUID: 36 hexadecimal digits and hyphens.\<close>

definition uuid_text :: "string \<Rightarrow> bool" where
  "uuid_text s \<longleftrightarrow> length s = 36 \<and> list_all (\<lambda>c. is_ascii_hexdigit c \<or> c = CHR ''-'') s"

definition uuids :: "(string \<Rightarrow> bool) \<Rightarrow> bool" where
  "uuids generated \<longleftrightarrow> (\<forall>s. generated s \<longrightarrow> uuid_text s)"

definition uuid_char :: "char \<Rightarrow> bool" where
  "uuid_char c \<longleftrightarrow> is_ascii_hexdigit c \<or> c = CHR ''-''"

lemma uuid_char_lower: "uuid_char c \<Longrightarrow> uuid_char (to_ascii_lowercase_char c)"
  by (auto simp: uuid_char_def to_ascii_lowercase_char_def is_ascii_hexdigit_def is_ascii_upper_def is_ascii_digit_def)

lemma uuid_char_alnum: "uuid_char c \<Longrightarrow> is_ascii_alphanumeric c \<or> c = CHR ''-''"
  by (auto simp: uuid_char_def is_ascii_hexdigit_def is_ascii_alphanumeric_def is_ascii_upper_def is_ascii_lower_def)

lemma starts_with_set: "starts_with p s \<Longrightarrow> set p \<subseteq> set s"
  unfolding starts_with_def by (metis set_take_subset)

lemma non_uuid_chars:
  "\<not> uuid_char CHR ''s''" "\<not> uuid_char CHR ''p''" "\<not> uuid_char CHR ''t''" "\<not> uuid_char CHR ''r''"
  "\<not> uuid_char CHR ''k''" "\<not> uuid_char CHR ''g''" "\<not> uuid_char CHR ''x''" "\<not> uuid_char CHR ''y''"
  "\<not> uuid_char CHR '':''" "\<not> uuid_char CHR ''_''"
  by code_simp+

lemma uuid_not_secret:
  assumes "\<forall>c\<in>set s. uuid_char c"
  shows "\<not> looks_like_secret s"
proof -
  have low: "\<forall>c\<in>set (to_ascii_lowercase s). uuid_char c"
    using assms uuid_char_lower by (auto simp: to_ascii_lowercase_def)
  have no: "\<not> starts_with p (to_ascii_lowercase s)" if "\<exists>c\<in>set p. \<not> uuid_char c" for p
    using low starts_with_set [of p] that by blast
  have "\<not> starts_with ''eyJ'' s" using assms starts_with_set [of "''eyJ''" s] non_uuid_chars by auto
  then show ?thesis using non_uuid_chars by (auto simp: looks_like_secret_def no)
qed

lemma uuid_safe:
  assumes "uuid_text s"
  shows "is_safe_notification_identifier s 36"
proof -
  have chars: "\<forall>c\<in>set s. uuid_char c" using assms by (simp add: uuid_text_def list_all_iff uuid_char_def)
  have one: "split_on (\<lambda>c. c = CHR '':'') s = [s]" using chars non_uuid_chars by (intro split_on_none) auto
  have seg: "to_ascii_lowercase g \<notin> {''sk'', ''secret'', ''token'', ''bearer'', ''apikey''}"
    if "g \<in> set (split_on (\<lambda>c. c \<in> {CHR '':'', CHR ''-'', CHR ''_''}) s)" for g
  proof -
    have "\<forall>c\<in>set (to_ascii_lowercase g). uuid_char c"
      using chars split_on_subset [OF that] uuid_char_lower by (auto simp: to_ascii_lowercase_def)
    then show ?thesis using non_uuid_chars by auto
  qed
  show ?thesis
    using assms chars one seg uuid_not_secret [OF chars] uuid_char_alnum
    by (auto simp: is_safe_notification_identifier_def uuid_text_def list_all_iff list_ex_iff)
qed

section \<open>Steps\<close>

lemma insort_by_sorted:
  "sorted (map f xs) \<Longrightarrow> sorted (map f (insort_by (\<lambda>a b. f a < (f b :: nat)) x xs))"
  by (induction xs) (auto simp: not_less)

lemma sort_by_sorted: "sorted (map f (sort_by (\<lambda>a b. f a < (f b :: nat)) xs))"
  by (induction xs) (simp_all add: sort_by_def insort_by_sorted)

lemma sort_by_distinct: "distinct xs \<Longrightarrow> distinct (sort_by lt xs)"
  by (rule card_distinct) (simp add: distinct_card)

lemma split_on_join:
  "xs \<noteq> [] \<Longrightarrow> \<forall>x\<in>set xs. c \<notin> set x \<Longrightarrow> split_on (\<lambda>d. d = c) (join [c] xs) = xs"
proof (induction "[c]" xs rule: join.induct)
  case (2 x)
  then show ?case using split_on_none [of x "\<lambda>d. d = c"] by auto
next
  case (3 x y xs)
  then show ?case using split_on_append [of "\<lambda>d. d = c" c x] split_on_none [of x "\<lambda>d. d = c"] by auto
qed simp

lemma step_index_inj: "step_index a = step_index b \<Longrightarrow> a = b"
  by (cases a; cases b) (simp_all add: step_index_def)

lemma step_rank_name: "step_rank (step_name s) = Some (step_index s)"
  by (cases s) (simp_all add: step_rank_def step_name_def step_index_def)

lemma ranks_increase_names:
  "sorted (map step_index xs) \<Longrightarrow> distinct xs \<Longrightarrow> (\<forall>p. previous = Some p \<longrightarrow> (\<forall>x\<in>set xs. p < step_index x))
    \<Longrightarrow> xs \<noteq> [] \<or> previous \<noteq> None \<Longrightarrow> ranks_increase previous (map step_name xs)"
proof (induction xs arbitrary: previous)
  case (Cons x xs)
  have "\<forall>y\<in>set xs. step_index x < step_index y"
    using Cons.prems(1,2) step_index_inj by (auto simp: le_less)
  then show ?case using Cons by (auto simp: step_rank_name split: option.splits)
qed simp

lemma normalize_steps_accepted:
  assumes "steps \<noteq> []" "distinct steps"
  shows "is_normalized_list (normalize_steps steps)"
proof -
  let ?xs = "sort_by (\<lambda>a b. step_index a < step_index b) steps"
  have ne: "?xs \<noteq> []" using assms(1) by (metis length_0_conv length_sort_by)
  have "\<forall>x\<in>set (map step_name ?xs). CHR '','' \<notin> set x"
    by (auto simp: step_name_def split: failed_step.splits)
  then have "split_on (\<lambda>d. d = CHR '','') (normalize_steps steps) = map step_name ?xs"
    using split_on_join [of "map step_name ?xs" "CHR '',''"] ne by (simp add: normalize_steps_def)
  moreover have "ranks_increase None (map step_name ?xs)"
    using ne by (intro ranks_increase_names) (simp_all add: sort_by_sorted sort_by_distinct assms(2))
  ultimately show ?thesis by (simp add: is_normalized_list_def)
qed

section \<open>Producers accept what they should\<close>

lemma controlled_input_Ok:
  assumes "content = Ok x"
    and "n = \<lparr>ni_scope = policy_scope c, ni_category = category, ni_kind = kind, ni_severity = severity,
              ni_content = x, ni_entity = entity, ni_action = action,
              ni_source_event_id = Some (pc_source_event_id c), ni_dedupe_key = dedupe,
              ni_session_epoch = Some (pc_session_epoch c)\<rparr>"
    and "input_validate generated n = Ok ()"
  shows "controlled_input generated c category kind severity content entity action dedupe = Ok n"
  using assms by (simp add: controlled_input_def Let_def)


end
