(* ===== verification/Notification_Properties.thy ===== *)
theory Notification_Properties
  imports Notification_Laws Samples
begin

text \<open>
  Notifications of refused orders and of failed account recoveries are never lost to the model's
  own checks.
\<close>

section \<open>Refused orders\<close>

definition limit_fits :: "risk_violation \<Rightarrow> bool" where
  "limit_fits v \<longleftrightarrow>
     (case v_limit v of
        None \<Rightarrow> v_code v \<notin> {MaxOrderQty, MaxPriceDeviation, DailyOrderLimit}
      | Some l \<Rightarrow> v_code v \<in> {MaxOrderQty, MaxPriceDeviation, DailyOrderLimit} \<and> f64_is_finite l \<and> f64_ge_zero l)"

definition floats_limits :: "decimal_api \<Rightarrow> bool" where
  "floats_limits D \<longleftrightarrow> (\<forall>q. 0 \<le> q \<longrightarrow> (\<exists>x. dec_to_f64 D q = Some (Finite x) \<and> 0 \<le> x))"

lemma limit_fits_new: "c \<notin> {MaxOrderQty, MaxPriceDeviation, DailyOrderLimit} \<Longrightarrow> limit_fits (violation_new c)"
  by (simp add: limit_fits_def violation_new_def)

lemma limit_fits_decimal:
  assumes "floats_limits D" "0 \<le> q" "c \<in> {MaxOrderQty, MaxPriceDeviation, DailyOrderLimit}"
  shows "limit_fits (violation_with_decimal_limit D c q)"
proof -
  obtain x where "dec_to_f64 D q = Some (Finite x)" "0 \<le> x" using assms(1,2) by (auto simp: floats_limits_def)
  then show ?thesis
    using assms(3) by (auto simp: limit_fits_def violation_with_decimal_limit_def violation_with_limit_def)
qed

lemma validate_order_limit_fits:
  assumes "validate_risk_config D Z c = Ok ()" "floats_limits D" "validate_order D c rq ref = Err v"
  shows "limit_fits v"
proof -
  obtain q m where qm: "dec_from_str D (rc_max_order_qty c) = Some q" "0 < q"
    "dec_from_str D (rc_max_price_deviation_pct c) = Some m" "0 \<le> m"
    using assms(1) by (auto simp: validate_risk_config_Ok_iff)
  have fits: "limit_fits (violation_with_decimal_limit D MaxOrderQty q)"
    "limit_fits (violation_with_decimal_limit D MaxPriceDeviation m)"
    using qm by (auto intro!: limit_fits_decimal [OF assms(2)])
  show ?thesis
    using assms(3) qm fits
    by (auto simp: validate_order_def validate_limit_price_def ok_or_def or_panic_def
        intro!: limit_fits_new split: option.splits if_splits)
qed

lemma reserve_order_limit_fits:
  assumes "validate_risk_config (re_dec E) Z (rs_config s) = Ok ()" "floats_limits (re_dec E)"
    and "reserve_order E rq ref now s = (Err v, s')"
  shows "limit_fits v"
proof (cases "validate_order (re_dec E) (rs_config s) rq ref")
  case (Err e)
  then show ?thesis
    using assms validate_order_limit_fits by (auto simp: reserve_order_def split: if_splits)
next
  case (Ok u)
  have "limit_fits (violation_new LedgerUnavailable)" by (rule limit_fits_new) simp
  moreover have "limit_fits (violation_with_limit DailyOrderLimit (f64_from_u32 n))" for n
    by (simp add: limit_fits_def violation_with_limit_def)
  ultimately show ?thesis
    using assms(3) Ok by (auto simp: reserve_order_def Let_def split: if_splits prod.splits result.splits)
qed (use assms(3) in \<open>auto simp: reserve_order_def split: if_splits\<close>)

lemma policy_context_new_Ok:
  assumes "policy_context_new account epoch source = Ok pc"
  shows "pc = \<lparr>pc_account_id = account, pc_session_epoch = epoch, pc_source_event_id = source\<rparr>"
    and "account_id_parses account" "is_safe_notification_source_event_id source"
  using assms by (auto simp: policy_context_new_def scope_validate_def split: if_splits)

lemma risk_content_valid:
  assumes "limit_fits v"
  shows "content_new generated ''risk.orderBlocked''
     ((''violationCode'', ScalarString (risk_code (v_code v)))
        # (case v_limit v of None \<Rightarrow> [] | Some l \<Rightarrow> [(''limit'', ScalarNumber l)]))
     (fst (template_fallback TRiskOrderBlocked)) (snd (template_fallback TRiskOrderBlocked)) = Ok
     \<lparr>nc_message_key = ''risk.orderBlocked'',
      nc_params = (case v_limit v of None \<Rightarrow> [] | Some l \<Rightarrow> [(''limit'', ScalarNumber l)])
        @ [(''violationCode'', ScalarString (risk_code (v_code v)))],
      nc_fallback_title = fst (template_fallback TRiskOrderBlocked),
      nc_fallback_body = snd (template_fallback TRiskOrderBlocked)\<rparr>"
proof -
  have t: "template_of_key ''risk.orderBlocked'' = Some TRiskOrderBlocked" by (simp add: template_of_key_def)
  have k: "parameter_key_parse ''limit'' = Some KLimit" "parameter_key_parse ''violationCode'' = Some KViolationCode"
    by (simp_all add: parameter_key_parse_def)
  have req: "requires_limit (risk_code c) = (c \<in> {MaxOrderQty, MaxPriceDeviation, DailyOrderLimit})" for c
    by (simp add: requires_limit_def)
  have less: "str_less ''limit'' ''violationCode''" "\<not> str_less ''violationCode'' ''limit''" by code_simp+
  show ?thesis
  proof (cases "v_limit v")
    case None
    then have "v_code v \<notin> {MaxOrderQty, MaxPriceDeviation, DailyOrderLimit}" using assms by (simp add: limit_fits_def)
    then show ?thesis
      using None req [of "v_code v"]
      by (simp add: content_new_def content_validate_def collect_params_def t k scalar_validate_def
          validate_exact_params_def has_param_def Let_def del: template_fallback.simps)
  next
    case (Some l)
    then have "v_code v \<in> {MaxOrderQty, MaxPriceDeviation, DailyOrderLimit}" "f64_is_finite l" "f64_ge_zero l"
      using assms by (simp_all add: limit_fits_def)
    then show ?thesis
      using Some req [of "v_code v"]
      by (simp add: content_new_def content_validate_def collect_params_def t k less scalar_validate_def
          validate_exact_params_def has_param_def Let_def del: template_fallback.simps)
  qed
qed

text \<open>
  Every refusal of the risk service under a validated configuration can be shown to the user:
  with a usable account and submission identity the policy turns it into a notification that
  passes all checks, scoped to the account, whatever the reason of the refusal.
\<close>

theorem risk_refusal_notifiable:
  assumes "validate_risk_config (re_dec E) (re_tz E) (rs_config s) = Ok ()" "floats_limits (re_dec E)"
    and "reserve_order E rq ref now s = (Err v, s')"
    and "policy_context_new account epoch source = Ok pc"
  shows "\<exists>n. risk_order_blocked generated pc \<lparr>rv_code = v_code v, rv_limit = v_limit v\<rparr> = Ok n
    \<and> input_validate generated n = Ok () \<and> ni_scope n = ScopeAccount account"
proof -
  note pc = policy_context_new_Ok [OF assms(4)]
  let ?content = "\<lparr>nc_message_key = ''risk.orderBlocked'',
      nc_params = (case v_limit v of None \<Rightarrow> [] | Some l \<Rightarrow> [(''limit'', ScalarNumber l)])
        @ [(''violationCode'', ScalarString (risk_code (v_code v)))],
      nc_fallback_title = fst (template_fallback TRiskOrderBlocked),
      nc_fallback_body = snd (template_fallback TRiskOrderBlocked)\<rparr>"
  let ?dedupe = "''risk:'' @ source @ '':'' @ risk_code (v_code v)"
  let ?n = "\<lparr>ni_scope = policy_scope pc, ni_category = CatRiskAccount, ni_kind = RiskOrderBlockedKind,
     ni_severity = SevWarning, ni_content = ?content, ni_entity = None,
     ni_action = Some (OpenAccountSettings SectionRisk), ni_source_event_id = Some (pc_source_event_id pc),
     ni_dedupe_key = ?dedupe, ni_session_epoch = Some (pc_session_epoch pc)\<rparr>"
  have new: "content_new generated ''risk.orderBlocked''
     ((''violationCode'', ScalarString (risk_code (v_code v)))
        # (case v_limit v of None \<Rightarrow> [] | Some l \<Rightarrow> [(''limit'', ScalarNumber l)]))
     (fst (template_fallback TRiskOrderBlocked)) (snd (template_fallback TRiskOrderBlocked)) = Ok ?content"
    by (rule risk_content_valid [OF reserve_order_limit_fits [OF assms(1-3)]])
  then have cv: "content_validate generated ?content = Ok ()" by (auto simp: content_new_def Let_def)
  have src: "is_safe_notification_identifier source 256"
    using pc(3) by (simp add: is_safe_notification_source_event_id_def)
  have "is_safe_notification_identifier (source @ CHR '':'' # risk_code (v_code v)) 289"
    by (rule safe_identifier_join [OF src safe_risk_code])
      (use safe_identifier_length [OF src] safe_identifier_length [OF safe_risk_code, of "v_code v"] in simp)
  from safe_identifier_join [OF safe_words(2) this, of 512]
  have dedupe: "is_safe_notification_dedupe_key ?dedupe"
    using safe_identifier_length [OF src] safe_identifier_length [OF safe_risk_code, of "v_code v"]
    by (simp add: is_safe_notification_dedupe_key_def)
  have valid: "input_validate generated ?n = Ok ()"
    using cv dedupe pc
    by (simp add: input_validate_def policy_scope_def scope_validate_def parts_invalid_def action_validate_def
        validate_exact_shape_def blocked_shape_def Let_def)
  have "risk_order_blocked generated pc \<lparr>rv_code = v_code v, rv_limit = v_limit v\<rparr> = Ok ?n"
    unfolding risk_order_blocked_def Let_def
    by (rule controlled_input_Ok [OF _ _ valid]) (use new pc(1) in simp_all)
  then show ?thesis using valid pc(1) by (auto simp: policy_scope_def)
qed

lemma sample_floats [simp]: "floats_limits sample_decimal"
  by (simp add: floats_limits_def sample_decimal_def)

section \<open>Failed account recoveries\<close>

lemma client_content_valid:
  assumes "is_normalized_list steps" "t \<in> {TAccountRecoveryFailed, TAccountReconciliationFailed}"
    and "template_of_key key = Some t"
  shows "content_new generated key [(''failedSteps'', ScalarString steps)] (fst (template_fallback t))
     (snd (template_fallback t)) = Ok \<lparr>nc_message_key = key, nc_params = [(''failedSteps'', ScalarString steps)],
     nc_fallback_title = fst (template_fallback t), nc_fallback_body = snd (template_fallback t)\<rparr>"
proof -
  have k: "parameter_key_parse ''failedSteps'' = Some KFailedSteps" by (simp add: parameter_key_parse_def)
  have "template_accepts t KFailedSteps" "validate_exact_params t ps = Ok ()" for ps
    using assms(2) by (auto simp: validate_exact_params_def)
  then show ?thesis
    using assms(1,3)
    by (simp add: content_new_def content_validate_def collect_params_def k scalar_validate_def Let_def
        del: template_fallback.simps)
qed

text \<open>The kind, severity, template and suffix of a client's failure report.\<close>

fun client_template :: "client_notification_kind \<Rightarrow> notification_kind \<times> notification_severity \<times> string \<times> message_template" where
  "client_template ClientRecoveryFailed =
     (AccountRecoveryFailedKind, SevError, ''account.recoveryFailed'', TAccountRecoveryFailed)"
| "client_template ClientReconciliationFailed =
     (AccountReconciliationFailedKind, SevCritical, ''account.reconciliationFailed'', TAccountReconciliationFailed)"

lemma client_source_safe:
  assumes "uuid_text i"
  shows "is_safe_notification_identifier (''client:'' @ i @ '':'' @ client_suffix k) 256"
proof -
  have "is_safe_notification_identifier (client_suffix k) 256"
    using safe_words(3,4) by (cases k) (simp_all add: client_suffix_def)
  moreover have len: "length i = 36" "length (client_suffix k) \<le> 14"
    using assms by (auto simp: uuid_text_def client_suffix_def split: client_notification_kind.splits)
  ultimately have "is_safe_notification_identifier (i @ CHR '':'' # client_suffix k) 51"
    by (intro safe_identifier_join [OF uuid_safe [OF assms]]) simp_all
  from safe_identifier_join [OF safe_words(1) this, of 256] show ?thesis using len by simp
qed

lemma client_source_parts:
  assumes "generated i" "uuid_text i"
  shows "client_notification_source_parts generated (''client:'' @ i @ '':'' @ client_suffix k) =
    Some (i, fst (client_template k), client_suffix k)"
proof -
  have no: "CHR '':'' \<notin> set i"
    using assms(2) non_uuid_chars(9) by (auto simp: uuid_text_def list_all_iff uuid_char_def)
  have tw: "takeWhile (\<lambda>x. x \<noteq> CHR '':'') (i @ CHR '':'' # r) = i"
    "dropWhile (\<lambda>x. x \<noteq> CHR '':'') (i @ CHR '':'' # r) = CHR '':'' # r" for r
    using no by (induction i) auto
  have pre: "strip_prefix ''client:'' (''client:'' @ x) = Some x" for x
    by (simp add: strip_prefix_def starts_with_def)
  show ?thesis
    using assms(1) tw pre
    by (cases k) (simp_all add: client_notification_source_parts_def split_once_def client_suffix_def)
qed

text \<open>
  A well-formed report of a failed account recovery or reconciliation always becomes a
  notification: whatever steps it lists and in whatever order, the normalised list and the
  identifiers built from the attempt pass every check, and the notification belongs to the
  reported account and session.
\<close>

theorem client_failure_notifiable:
  assumes "uuids generated" "client_request_validate generated q = Ok ()"
  shows "\<exists>n. client_account_failure generated q = Ok n \<and> input_validate generated n = Ok ()
    \<and> ni_scope n = ScopeAccount (cn_account_id q) \<and> ni_session_epoch n = Some (cn_session_epoch q)"
proof -
  have q: "account_id_parses (cn_account_id q)" "generated (cn_attempt_id q)" "is_safe_timestamp (cn_session_epoch q)"
    "cn_failed_steps q \<noteq> []" "distinct (cn_failed_steps q)"
    using assms(2) by (auto simp: client_request_validate_def split: if_splits)
  have uuid: "uuid_text (cn_attempt_id q)" using assms(1) q(2) by (simp add: uuids_def)
  define source where "source = ''client:'' @ cn_attempt_id q @ '':'' @ client_suffix (cn_kind q)"
  obtain kind sev key t where kt: "client_template (cn_kind q) = (kind, sev, key, t)"
    by (cases "client_template (cn_kind q)")
  let ?pc = "\<lparr>pc_account_id = cn_account_id q, pc_session_epoch = cn_session_epoch q, pc_source_event_id = source\<rparr>"
  let ?content = "\<lparr>nc_message_key = key, nc_params = [(''failedSteps'', ScalarString (normalize_steps (cn_failed_steps q)))],
     nc_fallback_title = fst (template_fallback t), nc_fallback_body = snd (template_fallback t)\<rparr>"
  let ?n = "\<lparr>ni_scope = policy_scope ?pc, ni_category = CatRiskAccount, ni_kind = kind, ni_severity = sev,
     ni_content = ?content, ni_entity = Some \<lparr>ne_type = EntityAccount, ne_id = cn_account_id q\<rparr>,
     ni_action = Some (OpenAccountSettings SectionApi), ni_source_event_id = Some source,
     ni_dedupe_key = source, ni_session_epoch = Some (cn_session_epoch q)\<rparr>"
  have safe: "is_safe_notification_identifier source 256" unfolding source_def by (rule client_source_safe [OF uuid])
  then have safe': "is_safe_notification_source_event_id source" "is_safe_notification_dedupe_key source"
    using safe_identifier_weaken [OF safe, of 512] safe_identifier_length [OF safe]
    by (simp_all add: is_safe_notification_source_event_id_def is_safe_notification_dedupe_key_def)
  have pc: "policy_context_new (cn_account_id q) (cn_session_epoch q) source = Ok ?pc"
    using q(1,3) safe'(1) by (simp add: policy_context_new_def scope_validate_def is_safe_timestamp_def not_less)
  have key: "template_of_key key = Some t" "t \<in> {TAccountRecoveryFailed, TAccountReconciliationFailed}"
    using kt by (cases "cn_kind q"; auto simp: template_of_key_def)+
  have content: "content_new generated key [(''failedSteps'', ScalarString (normalize_steps (cn_failed_steps q)))]
      (fst (template_fallback t)) (snd (template_fallback t)) = Ok ?content"
    by (rule client_content_valid [OF normalize_steps_accepted [OF q(4,5)] key(2,1)])
  then have cv: "content_validate generated ?content = Ok ()" by (auto simp: content_new_def Let_def)
  have parts: "client_notification_source_parts generated source = Some (cn_attempt_id q, kind, client_suffix (cn_kind q))"
    unfolding source_def using client_source_parts [of generated "cn_attempt_id q", OF q(2) uuid] kt by simp
  have valid: "input_validate generated ?n = Ok ()"
    using cv safe' q(1) parts kt
    by (cases "cn_kind q")
      (auto simp: input_validate_def policy_scope_def scope_validate_def parts_invalid_def action_validate_def
        entity_validate_def validate_exact_shape_def client_shape_def has_param_def client_failure_identity_matches_def
        client_suffix_def source_def Let_def)
  have "client_account_failure generated q = controlled_input generated ?pc CatRiskAccount kind sev
      (content_new generated key [(''failedSteps'', ScalarString (normalize_steps (cn_failed_steps q)))]
        (fst (template_fallback t)) (snd (template_fallback t)))
      (Some \<lparr>ne_type = EntityAccount, ne_id = cn_account_id q\<rparr>) (Some (OpenAccountSettings SectionApi)) source"
    using assms(2) pc kt by (cases "cn_kind q") (auto simp: client_account_failure_def source_def)
  also have "\<dots> = Ok ?n" by (rule controlled_input_Ok [OF content _ valid]) simp
  finally show ?thesis using valid by (auto simp: policy_scope_def)
qed

definition sample_uuid :: string where
  "sample_uuid = ''0b54f7a2-6c1e-4d7a-9f3b-2a1c4d5e6f70''"

definition sample_report :: create_client_notification_request where
  "sample_report = \<lparr>cn_account_id = ''main'', cn_session_epoch = 4, cn_attempt_id = sample_uuid,
     cn_kind = ClientRecoveryFailed, cn_failed_steps = [StepBootstrap, StepConfig]\<rparr>"

end
