(* ===== verification/Storage_Properties.thy ===== *)
theory Storage_Properties
  imports Config_Persistence Clock
begin

text \<open>
  What the storage layer and the server clock promise to the rest of the program: a saved
  configuration is found again whatever I/O call failed, and the clock used to stamp requests
  stays within half a round trip of the server's.
\<close>

section \<open>Configuration\<close>

text \<open>The disk after the process was stopped and started again: no call is failing any more.\<close>

abbreviation restarted :: "disk \<Rightarrow> disk" where
  "restarted d \<equiv> d\<lparr>faults := []\<rparr>"

lemma restarted_syscall [simp]: "syscall (restarted d) act = act (restarted d)"
  by (simp add: syscall_def next_fault_def tick_def)

lemma load_candidate_readable:
  assumes "lookup d p = Some (File c)" "parse c = Some v"
  shows "load_candidates parse ((label, p) # rest) invalid (restarted d) = (Inl v, restarted d)"
  using assms by (simp add: fs_metadata_def fs_read_def)

lemma load_candidate_missing:
  assumes "lookup d p = None"
  shows "load_candidates parse ((label, p) # rest) invalid (restarted d) =
    load_candidates parse rest invalid (restarted d)"
  using assms by (simp add: fs_metadata_def os_not_found_def)

lemma config_load_main:
  assumes "lookup d p = Some (File c)" "parse c = Some v"
  shows "config_load p parse (restarted d) = (Ok (Some v), restarted d)"
  using load_candidate_readable [of d p c parse v, OF assms] by (simp add: config_load_def del: load_candidates.simps)

lemma config_load_temp:
  assumes "lookup d p = None" "lookup d (temp_path p) = Some (File c)" "parse c = Some v"
  shows "config_load p parse (restarted d) = (Ok (Some v), restarted d)"
  using load_candidate_missing [of d p parse, OF assms(1)] load_candidate_readable [of d "temp_path p" c parse v, OF assms(2,3)]
  by (simp add: config_load_def del: load_candidates.simps)

text \<open>
  C30: Saving the configuration is atomic for the reader that comes after a failure or a crash at
  any system call: it loads the previous or the new configuration, never an error, nothing or a
  mixture, and it loads the new one when the save reported success.
\<close>

theorem config_save_atomic:
  assumes "p \<noteq> []" and old: "lookup d p = Some (File c)" "parse c = Some v" and new: "parse c' = Some v'"
    and run: "config_save p c' d = (r, d')"
  shows "fst (config_load p parse (restarted d')) \<in> {Ok (Some v), Ok (Some v')}
    \<and> (r = Ok () \<longrightarrow> fst (config_load p parse (restarted d')) = Ok (Some v'))"
proof -
  have "r = Ok () \<Longrightarrow> lookup d' p = Some (File c')" using config_slot.save_ok assms(1) run by blast
  moreover from config_slot.save_old_or_new [OF assms(1) old(1) run]
  have "fst (config_load p parse (restarted d')) \<in> {Ok (Some v), Ok (Some v')}"
    using config_load_main [of d' p _ parse] config_load_temp [of d' p _ parse] old(2) new by auto
  ultimately show ?thesis using config_load_main [of d' p c' parse, OF _ new] by auto
qed

text \<open>A disk whose rename of the old configuration succeeds and whose next two renames fail.\<close>

definition sample_config_disk :: disk where
  "sample_config_disk =
     \<lparr>files = [([], Dir), ([''cfg''], Dir), ([''cfg'', ''app.toml''], File ''old'')],
      faults = replicate 7 NoFault @ [Fails ''EIO'', Fails ''EIO'']\<rparr>"

theorem config_save_atomic_witness:
  "fst (config_save [''cfg'', ''app.toml''] ''new'' sample_config_disk) \<noteq> Ok ()
   \<and> fst (config_load [''cfg'', ''app.toml''] Some
       (restarted (snd (config_save [''cfg'', ''app.toml''] ''new'' sample_config_disk))))
     \<in> {Ok (Some ''old''), Ok (Some ''new'')}"
proof -
  have "lookup sample_config_disk [''cfg'', ''app.toml''] = Some (File ''old'')" by code_simp
  from config_save_atomic [of "[''cfg'', ''app.toml'']", OF _ this, of Some "''old''" "''new''" "''new''"]
  have "fst (config_load [''cfg'', ''app.toml''] Some
       (restarted (snd (config_save [''cfg'', ''app.toml''] ''new'' sample_config_disk))))
     \<in> {Ok (Some ''old''), Ok (Some ''new'')}"
    by (cases "config_save [''cfg'', ''app.toml''] ''new'' sample_config_disk") simp
  moreover have "is_err (fst (config_save [''cfg'', ''app.toml''] ''new'' sample_config_disk))" by code_simp
  ultimately show ?thesis by (auto simp: is_err_iff)
qed

section \<open>The server clock\<close>

text \<open>
  C31: After a successful time synchronisation the server time the program computes is off by at
  most half the round trip, rounded up, from then on: if the server read its clock while the
  local clock stood at \<open>l\<close>, between the start and the end of the request, then at every later
  local instant the computed time differs from the server's by no more than that.  A failed
  synchronisation leaves the clock as it was.
\<close>

theorem server_clock_accuracy:
  assumes p: "plausible srv" "plausible started" "plausible finished" "plausible now"
    and l: "started \<le> l" "l \<le> finished" "l \<le> now"
  shows "\<bar>uint (timestamp_ms (ts_offset (snd (time_service_sync t a e1 started finished e2 (Ok srv)))) now)
      - (uint srv + (uint now - uint l))\<bar> \<le> (uint finished - uint started + 1) div 2
    \<and> timestamp_ms (ts_offset (snd (time_service_sync t a e1 started finished e2 (Err err)))) now =
      timestamp_ms (ts_offset t) now"
proof -
  have "uint started \<le> uint l" "uint l \<le> uint finished" "uint l \<le> uint now"
    using l by (simp_all add: word_le_def)
  moreover have "0 \<le> uint srv" by simp
  ultimately have "\<bar>max 0 (uint srv + uint now - (uint started + uint finished) div 2)
      - (uint srv + (uint now - uint l))\<bar> \<le> (uint finished - uint started + 1) div 2"
    by linarith
  then show ?thesis by (simp add: time_service_sync_state timestamp_midpoint [OF p])
qed

theorem server_clock_accuracy_witness:
  "\<bar>uint (timestamp_ms (ts_offset (snd (time_service_sync time_service_new 1 2 4000 6001 7000 (Ok 10000)))) 9000)
      - (10000 + (9000 - 5500))\<bar> \<le> 1001"
proof -
  have "plausible 10000" "plausible 4000" "plausible 6001" "plausible 9000" by (simp_all add: plausible_def)
  from server_clock_accuracy [OF this, of 5500 time_service_new 1 2 7000] show ?thesis by simp
qed

text \<open>
  Whatever the server answers to a time request, the program only accepts an instant in
  milliseconds (no earlier than September 2001), so a count of seconds is never taken for
  milliseconds; every whole number of seconds from that date on up to the year 33658 is
  accepted, in the \<^verbatim>\<open>time\<close> member or inside \<^verbatim>\<open>data\<close>, and scaled without overflow.
\<close>

lemma server_time_in_milliseconds:
  "(parse_server_time payload = Ok w \<longrightarrow> 10 ^ 12 \<le> uint w)
   \<and> (10 ^ 9 \<le> n \<and> n < 10 ^ 12 \<longrightarrow>
       (\<forall>j \<in> {JObject [(''time'', JInt n)], JObject [(''code'', JInt 0), (''data'', JObject [(''time'', JInt n)])]}.
          \<exists>w. parse_server_time j = Ok w \<and> uint w = 1000 * n))"
proof (intro conjI impI)
  assume "parse_server_time payload = Ok w"
  then obtain v where "parse_timestamp_value v = Some w"
    by (auto simp: parse_server_time_def ok_or_def bind_eq_Some_conv split: option.splits dest!: first_some_Some)
  from parse_timestamp_value_range [OF this] show "10 ^ 12 \<le> uint w" by (simp add: word_le_def)
next
  assume n: "10 ^ 9 \<le> n \<and> n < 10 ^ 12"
  then have u: "uint (word_of_int n :: u64) = n" by (simp add: uint_word_of_int)
  then have "parse_timestamp_value (JInt n) = Some (word_of_int n * 1000)"
    using n by (simp add: parse_timestamp_value_def json_as_u64_def normalize_epoch_ms_def word_le_def)
  moreover have "uint (word_of_int n * 1000 :: u64) = 1000 * n" using n u by (simp add: uint_word_ariths)
  ultimately show "\<forall>j \<in> {JObject [(''time'', JInt n)], JObject [(''code'', JInt 0), (''data'', JObject [(''time'', JInt n)])]}.
      \<exists>w. parse_server_time j = Ok w \<and> uint w = 1000 * n"
    by (simp add: parse_server_time_def ok_or_def)
qed

end
