(* ===== verification/Api_Response.thy ===== *)
theory Api_Response
  imports Trading_Model
begin

text \<open>
  \<^verbatim>\<open>api/response.rs\<close>: how an answer of the exchange is read.  The envelope of a list, the
  success and error codes, and the classification of an answer to a create-order request.
\<close>

section \<open>Authentication failures\<close>

definition json_code :: "json \<Rightarrow> int option" where
  "json_code payload = Option.bind (json_get ''code'' payload) json_as_i64"

definition classify_auth_failure :: "nat option \<Rightarrow> json \<Rightarrow> auth_failure_kind" where
  "classify_auth_failure http_status payload =
     (if http_status = Some 403 then RateLimited
      else case json_code payload of
        None \<Rightarrow> OtherAuthFailure
      | Some n \<Rightarrow>
          if n \<in> {26200003, 20011005} then SessionExpired
          else if n = 26200002 then Timestamp
          else if n = 26200004 then Signature
          else if n \<in> {26200005, 26200008, 26200010} then AccessDenied
          else if n \<in> {26200006, 26200018} then RateLimited
          else OtherAuthFailure)"

definition is_auth_error :: "json \<Rightarrow> bool" where
  "is_auth_error payload \<longleftrightarrow>
     (case json_code payload of
        None \<Rightarrow> False
      | Some n \<Rightarrow> n \<in> {26200002, 26200003, 26200004, 26200005, 26200008, 26200010, 20011005})"

definition is_rate_limit_error :: "json \<Rightarrow> bool" where
  "is_rate_limit_error payload \<longleftrightarrow>
     (case json_code payload of None \<Rightarrow> False | Some n \<Rightarrow> n \<in> {26200006, 26200018})"

definition is_timestamp_error :: "json \<Rightarrow> bool" where
  "is_timestamp_error payload \<longleftrightarrow> json_code payload = Some 26200002"

definition is_sign_error :: "json \<Rightarrow> bool" where
  "is_sign_error payload \<longleftrightarrow> json_code payload = Some 26200004"

section \<open>Envelopes\<close>

definition extract_data :: "json \<Rightarrow> json" where
  "extract_data payload = (case json_get ''data'' payload of Some d \<Rightarrow> d | None \<Rightarrow> payload)"

definition list_keys :: "string list" where
  "list_keys = [''list'', ''items'', ''records'', ''orders'', ''positions'', ''balances'', ''tickers'',
     ''kline'', ''klines'', ''fills'', ''rows'', ''result'', ''dataList'', ''orderList'',
     ''positionList'', ''order_list'', ''position_list'']"

record list_envelope_meta =
  lm_hint :: string
  lm_raw_count :: nat

definition contains_key :: "(string \<times> json) list \<Rightarrow> string \<Rightarrow> bool" where
  "contains_key obj k \<longleftrightarrow> map_of obj k \<noteq> None"

definition is_entity_object :: "(string \<times> json) list \<Rightarrow> bool" where
  "is_entity_object obj \<longleftrightarrow>
     contains_key obj ''orderId'' \<or> contains_key obj ''order_id''
     \<or> contains_key obj ''orderLinkId'' \<or> contains_key obj ''order_link_id''
     \<or> (contains_key obj ''symbol'' \<and> (contains_key obj ''side'' \<or> contains_key obj ''size''))
     \<or> (contains_key obj ''symbol'' \<and> (contains_key obj ''position_idx'' \<or> contains_key obj ''positionIdx''))"

text \<open>The best array so far: its items, where it was found, and how many of them are objects.\<close>

type_synonym best_array = "(json list \<times> string \<times> nat) option"

definition consider_array :: "json list \<Rightarrow> string \<Rightarrow> best_array \<Rightarrow> best_array" where
  "consider_array arr path best =
     (let object_count = length (filter json_is_object arr) in
      if object_count = 0 then best
      else if (case best of Some (_, _, count) \<Rightarrow> count < object_count | None \<Rightarrow> True)
      then Some (arr, path, object_count)
      else best)"

definition skipped_keys :: "string list" where
  "skipped_keys = [''symbol'', ''interval'', ''coin'', ''cursor'', ''total'']"

fun collect_object_arrays :: "json \<Rightarrow> string \<Rightarrow> best_array \<Rightarrow> best_array"
  and collect_members :: "(string \<times> json) list \<Rightarrow> string \<Rightarrow> best_array \<Rightarrow> best_array" where
  "collect_object_arrays (JArray arr) path best = consider_array arr path best"
| "collect_object_arrays (JObject kvs) path best = collect_members kvs path best"
| "collect_object_arrays _ path best = best"
| "collect_members [] path best = best"
| "collect_members ((key, child) # rest) path best =
     collect_members rest path
       (if key \<in> set skipped_keys then best
        else collect_object_arrays child (path @ ''.'' @ key) best)"

definition find_best_object_array :: "json \<Rightarrow> (json list \<times> string) option" where
  "find_best_object_array value =
     map_option (\<lambda>(arr, hint, _). (arr, hint)) (collect_object_arrays value ''data'' None)"

fun first_list :: "(string \<times> json) list \<Rightarrow> string list \<Rightarrow> (json list \<times> string) option" where
  "first_list obj [] = None"
| "first_list obj (key # keys) =
     (case Option.bind (map_of obj key) json_as_array of
        Some arr \<Rightarrow> Some (arr, ''data.'' @ key)
      | None \<Rightarrow> first_list obj keys)"

definition extract_list_with_meta :: "json \<Rightarrow> json list \<times> list_envelope_meta" where
  "extract_list_with_meta payload =
     (let data = extract_data payload;
          found = (\<lambda>arr hint. (arr, \<lparr>lm_hint = hint, lm_raw_count = length arr\<rparr>));
          none = found [] ''empty'' in
      case json_as_array data of
        Some arr \<Rightarrow> found arr ''data[]''
      | None \<Rightarrow> (case json_as_object data of
          None \<Rightarrow> none
        | Some obj \<Rightarrow> (case first_list obj list_keys of
            Some (arr, hint) \<Rightarrow> found arr hint
          | None \<Rightarrow> (case find_best_object_array data of
              Some (items, hint) \<Rightarrow> found items hint
            | None \<Rightarrow> if is_entity_object obj then found [data] ''data(entity)'' else none))))"

definition extract_list :: "json \<Rightarrow> json list" where
  "extract_list payload = fst (extract_list_with_meta payload)"

definition payload_has_content :: "json \<Rightarrow> bool" where
  "payload_has_content payload \<longleftrightarrow>
     (case payload of JNull \<Rightarrow> False | JObject kvs \<Rightarrow> kvs \<noteq> [] | JArray xs \<Rightarrow> xs \<noteq> [] | _ \<Rightarrow> True)"

definition first_object_keys :: "json \<Rightarrow> string list" where
  "first_object_keys payload =
     (case extract_list payload of
        JObject kvs # _ \<Rightarrow> map fst kvs
      | _ \<Rightarrow> [])"

section \<open>Scalars and codes\<close>

definition int_to_string :: "int \<Rightarrow> string" where
  "int_to_string i = (if i < 0 then ''-'' @ nat_to_string (nat (- i)) else nat_to_string (nat i))"

definition scalar_text :: "json \<Rightarrow> string option" where
  "scalar_text v =
     (case v of JString s \<Rightarrow> Some s | JInt n \<Rightarrow> Some (int_to_string n) | JFloat t \<Rightarrow> Some t | _ \<Rightarrow> None)"

fun get_str :: "json \<Rightarrow> string list \<Rightarrow> string option" where
  "get_str value [] = None"
| "get_str value (key # keys) =
     (case Option.bind (json_get key value) scalar_text of
        Some s \<Rightarrow> Some s
      | None \<Rightarrow> get_str value keys)"

definition code_matches_success :: "json \<Rightarrow> bool" where
  "code_matches_success code \<longleftrightarrow>
     (case json_as_i64 code of
        Some n \<Rightarrow> n = 0 \<or> n = 200
      | None \<Rightarrow> (case json_as_str code of
          Some s \<Rightarrow> s \<in> {''0'', ''200'', ''SUCCESS'', ''success''}
        | None \<Rightarrow> False))"

definition code_fields :: "string list" where
  "code_fields = [''code'', ''errorCode'', ''status'']"

fun first_field :: "json \<Rightarrow> string list \<Rightarrow> json option" where
  "first_field value [] = None"
| "first_field value (key # keys) =
     (case json_get key value of Some v \<Rightarrow> Some v | None \<Rightarrow> first_field value keys)"

definition is_success_response :: "json \<Rightarrow> bool" where
  "is_success_response payload \<longleftrightarrow>
     (case first_field payload code_fields of Some code \<Rightarrow> code_matches_success code | None \<Rightarrow> True)"

fun response_code_in :: "json \<Rightarrow> string list \<Rightarrow> string option" where
  "response_code_in payload [] = None"
| "response_code_in payload (field # rest) =
     (case json_get field payload of
        None \<Rightarrow> response_code_in payload rest
      | Some code \<Rightarrow> (case json_as_i64 code of
          Some n \<Rightarrow> Some (int_to_string n)
        | None \<Rightarrow> (case json_as_str code of
            Some s \<Rightarrow> Some s
          | None \<Rightarrow> response_code_in payload rest)))"

definition response_code :: "json \<Rightarrow> string option" where
  "response_code payload = response_code_in payload code_fields"

fun first_message :: "json \<Rightarrow> string list \<Rightarrow> string option" where
  "first_message payload [] = None"
| "first_message payload (key # keys) =
     (case Option.bind (json_get key payload) json_as_str of
        Some msg \<Rightarrow> if msg \<noteq> [] then Some msg else first_message payload keys
      | None \<Rightarrow> first_message payload keys)"

definition error_message :: "json \<Rightarrow> string option" where
  "error_message payload = first_message payload [''msg'', ''message'', ''error'', ''detail'', ''errorMessage'']"

section \<open>The answer to a create-order request\<close>

datatype create_order_outcome = Accepted json | Rejected | Ambiguous

fun first_str :: "json \<Rightarrow> string list \<Rightarrow> string option" where
  "first_str value [] = None"
| "first_str value (key # keys) =
     (case Option.bind (json_get key value) json_as_str of
        Some s \<Rightarrow> Some s
      | None \<Rightarrow> first_str value keys)"

definition status_fields :: "string list" where
  "status_fields = [''status'', ''orderStatus'', ''order_status'']"

definition says_rejected :: "json \<Rightarrow> bool" where
  "says_rejected candidate \<longleftrightarrow>
     (case first_str candidate status_fields of
        Some s \<Rightarrow> order_status_from_raw s = OrderRejected
      | None \<Rightarrow> False)"

definition names_order :: "json \<Rightarrow> bool" where
  "names_order candidate \<longleftrightarrow>
     (case Option.bind (json_get ''order_id'' candidate) json_as_str of
        Some i \<Rightarrow> trim i \<noteq> []
      | None \<Rightarrow> False)"

definition classify_create_order_outcome :: "json \<Rightarrow> create_order_outcome" where
  "classify_create_order_outcome payload =
     (case json_get ''code'' payload of
        None \<Rightarrow> Ambiguous
      | Some code \<Rightarrow>
          if json_as_i64 code \<noteq> Some 0 then Ambiguous
          else (case json_get ''data'' payload of
            None \<Rightarrow> Ambiguous
          | Some candidate \<Rightarrow>
              if \<not> json_is_object candidate then Ambiguous
              else if says_rejected candidate then Rejected
              else if names_order candidate then Accepted candidate
              else Ambiguous))"

definition classify_create_order_failure :: "json \<Rightarrow> trading_failure_kind option" where
  "classify_create_order_failure payload =
     (if classify_create_order_outcome payload = Rejected then Some FailureRejected else None)"

section \<open>Facts\<close>

text \<open>The classification decides the predicates on codes; only the HTTP status adds to it.\<close>

lemma classify_auth_failure_codes:
  assumes "s \<noteq> Some 403"
  shows "is_timestamp_error j \<longleftrightarrow> classify_auth_failure s j = Timestamp"
    and "is_sign_error j \<longleftrightarrow> classify_auth_failure s j = Signature"
    and "is_rate_limit_error j \<longleftrightarrow> classify_auth_failure s j = RateLimited"
    and "is_auth_error j \<longleftrightarrow> classify_auth_failure s j \<in> {SessionExpired, Timestamp, Signature, AccessDenied}"
  using assms
  by (auto simp: classify_auth_failure_def is_timestamp_error_def is_sign_error_def is_rate_limit_error_def
      is_auth_error_def split: option.splits)

lemma classify_kinds:
  "classify_auth_failure s j \<notin> {MissingCredential, CredentialStorage, SigningConfiguration}"
  by (auto simp: classify_auth_failure_def split: option.splits)

lemma json_code_zero_not_auth:
  "json_code j = Some 0 \<Longrightarrow> s \<noteq> Some 403 \<Longrightarrow> classify_auth_failure s j = OtherAuthFailure"
  by (simp add: classify_auth_failure_def)

text \<open>What each verdict on a create-order answer rests on.\<close>

lemma outcome_Accepted_iff:
  "classify_create_order_outcome j = Accepted c \<longleftrightarrow>
     json_code j = Some 0 \<and> json_get ''data'' j = Some c \<and> json_is_object c \<and> \<not> says_rejected c \<and> names_order c"
  by (auto simp: classify_create_order_outcome_def json_code_def split: option.splits if_splits)

lemma outcome_Rejected_iff:
  "classify_create_order_outcome j = Rejected \<longleftrightarrow>
     (\<exists>c. json_code j = Some 0 \<and> json_get ''data'' j = Some c \<and> json_is_object c \<and> says_rejected c)"
  by (auto simp: classify_create_order_outcome_def json_code_def split: option.splits if_splits)

lemma accepted_is_success: "json_code j = Some 0 \<Longrightarrow> is_success_response j"
  by (auto simp: is_success_response_def json_code_def code_fields_def code_matches_success_def
      bind_eq_Some_conv)

text \<open>The number of items reported is the number of items returned.\<close>

lemma extract_list_count:
  "lm_raw_count (snd (extract_list_with_meta j)) = length (fst (extract_list_with_meta j))"
  by (simp add: extract_list_with_meta_def Let_def split: option.splits prod.splits)

section \<open>The search for a list\<close>

text \<open>
  The arrays the search visits, in order, with their paths: those reached through objects
  without passing a member that names a scalar.
\<close>

fun visited_arrays :: "json \<Rightarrow> string \<Rightarrow> (json list \<times> string) list"
  and visited_members :: "(string \<times> json) list \<Rightarrow> string \<Rightarrow> (json list \<times> string) list" where
  "visited_arrays (JArray arr) path = [(arr, path)]"
| "visited_arrays (JObject kvs) path = visited_members kvs path"
| "visited_arrays _ path = []"
| "visited_members [] path = []"
| "visited_members ((key, child) # rest) path =
     (if key \<in> set skipped_keys then [] else visited_arrays child (path @ ''.'' @ key))
     @ visited_members rest path"

definition consider_all :: "(json list \<times> string) list \<Rightarrow> best_array \<Rightarrow> best_array" where
  "consider_all = fold (\<lambda>(arr, path). consider_array arr path)"

lemma collect_visits:
  "collect_object_arrays j path best = consider_all (visited_arrays j path) best"
  "collect_members kvs path best = consider_all (visited_members kvs path) best"
  by (induction j path best and kvs path best rule: collect_object_arrays_collect_members.induct)
    (auto simp: consider_all_def)

definition objects_in :: "json list \<Rightarrow> nat" where
  "objects_in arr = length (filter json_is_object arr)"

text \<open>A best array is a visited one with the most objects, and the search only misses empty ones.\<close>

definition best_of :: "(json list \<times> string) list \<Rightarrow> best_array \<Rightarrow> bool" where
  "best_of visited best \<longleftrightarrow>
     (case best of
        None \<Rightarrow> \<forall>(a, _) \<in> set visited. objects_in a = 0
      | Some (arr, path, n) \<Rightarrow> (arr, path) \<in> set visited \<and> n = objects_in arr \<and> 0 < n
          \<and> (\<forall>(a, _) \<in> set visited. objects_in a \<le> n))"

lemma best_of_step:
  "best_of visited best \<Longrightarrow> best_of (visited @ [(arr, path)]) (consider_array arr path best)"
  by (auto simp: best_of_def consider_array_def objects_in_def [symmetric] Let_def split: option.splits)

lemma consider_all_best:
  "best_of visited best \<Longrightarrow> best_of (visited @ xs) (consider_all xs best)"
proof (induction xs arbitrary: visited best)
  case (Cons x xs)
  obtain a p where x: "x = (a, p)" by (cases x)
  from Cons.IH [OF best_of_step [OF Cons.prems, of a p]] show ?case by (simp add: x consider_all_def)
qed (simp add: consider_all_def)

lemma search_best: "best_of (visited_arrays j path) (collect_object_arrays j path None)"
  using consider_all_best [of "[]" None "visited_arrays j path"]
  by (simp add: collect_visits best_of_def)

end
