(* ===== verification/Api_Client.thy ===== *)
theory Api_Client
  imports Api_Response Clock Submit_Once
begin

text \<open>
  \<^verbatim>\<open>api/client.rs\<close>, with \<^verbatim>\<open>ApiCredential\<close> of \<^verbatim>\<open>models/config.rs\<close> and \<^verbatim>\<open>auth/signer.rs\<close>: the installed
  credential and session, the reading of an answer, and signed requests with their single
  retry.  The libraries for URLs, hashing, JSON text and HTTP are the record \<open>api_env\<close>; the
  network is a function on the state, so that other tasks may change the client while a
  request is under way.
\<close>

section \<open>Credentials\<close>

record api_credential =
  cr_api_key :: string
  cr_api_secret :: string
  cr_base_url :: string
  cr_label :: string

record url =
  u_scheme :: string
  u_username :: string
  u_password :: "string option"
  u_query :: "string option"
  u_fragment :: "string option"
  u_host :: "string option"
  u_port :: "nat option"
  u_path :: string

record api_env =
  ae_url_parse :: "string \<Rightarrow> url option"
  ae_url_set_path :: "string \<Rightarrow> url \<Rightarrow> url"
  ae_url_print :: "url \<Rightarrow> string"
  ae_url_origin :: "url \<Rightarrow> string"
  ae_hash :: "string \<Rightarrow> string"
  ae_hmac :: "string \<Rightarrow> string \<Rightarrow> string"
  ae_from_str :: "string \<Rightarrow> json option"
  ae_to_string :: "json \<Rightarrow> string"
  ae_form_urlencoded :: "(string \<times> string) list \<Rightarrow> string"
  ae_status_text :: "nat \<Rightarrow> string"
  \<comment> \<open>the UUIDs the generator draws, in order\<close>
  ae_uuid :: "nat \<Rightarrow> string"

definition default_base_url :: string where
  "default_base_url = ''https://api.easicoin.io''"

definition trim_end_slashes :: "string \<Rightarrow> string" where
  "trim_end_slashes s = rev (dropWhile (\<lambda>c. c = CHR ''/'') (rev s))"

definition base_url_refused :: "url \<Rightarrow> bool" where
  "base_url_refused u \<longleftrightarrow>
     u_scheme u \<notin> {''http'', ''https''} \<or> u_username u \<noteq> [] \<or> u_password u \<noteq> None
     \<or> u_query u \<noteq> None \<or> u_fragment u \<noteq> None \<or> u_host u = None"

definition canonical_api_base_url :: "api_env \<Rightarrow> string \<Rightarrow> string option" where
  "canonical_api_base_url E value =
     Option.bind (ae_url_parse E (if trim value = [] then default_base_url else trim value)) (\<lambda>u.
       if base_url_refused u then None
       else
         let u = (if (u_scheme u, u_port u) \<in> {(''https'', Some 443), (''http'', Some 80)}
                  then u\<lparr>u_port := None\<rparr> else u)
         in Some (trim_end_slashes (ae_url_print E (ae_url_set_path E (trim_end_slashes (u_path u)) u))))"

definition credential_normalize :: "api_env \<Rightarrow> api_credential \<Rightarrow> api_credential" where
  "credential_normalize E c =
     \<lparr>cr_api_key = trim (cr_api_key c), cr_api_secret = trim (cr_api_secret c),
      cr_base_url = (let b = trim (cr_base_url c) in
        if b = [] then default_base_url
        else case canonical_api_base_url E b of Some u \<Rightarrow> u | None \<Rightarrow> b),
      cr_label = trim (cr_label c)\<rparr>"

definition credential_is_valid :: "api_env \<Rightarrow> api_credential \<Rightarrow> bool" where
  "credential_is_valid E c \<longleftrightarrow>
     cr_api_key c \<noteq> [] \<and> cr_api_secret c \<noteq> [] \<and> trim (cr_base_url c) \<noteq> []
     \<and> canonical_api_base_url E (cr_base_url c) \<noteq> None"

definition normalize_base_url :: "api_env \<Rightarrow> string \<Rightarrow> string" where
  "normalize_base_url E u = (case canonical_api_base_url E u of Some b \<Rightarrow> b | None \<Rightarrow> [])"

section \<open>Client state\<close>

record api_session_context =
  as_session :: session_context
  as_token :: string

record installed_api_session =
  is_context :: api_session_context
  is_fingerprint :: string
  is_request_owner :: string
  is_rearm_pending :: bool

record remembered_api_session =
  rm_fingerprint :: string
  rm_token :: string
  rm_rearm_pending :: bool

record api_client =
  ac_base_url :: string
  ac_credential :: "api_credential option"
  \<comment> \<open>the key and the secret of the signer\<close>
  ac_signer :: "(string \<times> string) option"
  ac_offset :: u64
  ac_session :: "installed_api_session option"
  ac_remembered :: "remembered_api_session option"
  ac_drawn :: nat

definition api_client_new :: api_client where
  "api_client_new = \<lparr>ac_base_url = default_base_url, ac_credential = None, ac_signer = None, ac_offset = 0,
     ac_session = None, ac_remembered = None, ac_drawn = 0\<rparr>"

definition api_session_fingerprint :: "api_env \<Rightarrow> string \<Rightarrow> api_credential \<Rightarrow> string" where
  "api_session_fingerprint E account_id c =
     ae_hash E (''easiflux.api-notification-session.v1'' @ [char_of (0 :: nat)]
       @ concat (map scope_field [account_id, cr_api_key c, cr_api_secret c, cr_base_url c]))"

definition set_credential_material :: "api_env \<Rightarrow> api_credential \<Rightarrow> api_client \<Rightarrow> api_client" where
  "set_credential_material E c a =
     a\<lparr>ac_base_url := normalize_base_url E (cr_base_url c),
       ac_signer := Some (cr_api_key c, cr_api_secret c), ac_credential := Some c\<rparr>"

definition reject_credential :: "api_client \<Rightarrow> api_client" where
  "reject_credential a = a\<lparr>ac_base_url := [], ac_credential := None, ac_signer := None, ac_session := None\<rparr>"

definition set_credential :: "api_env \<Rightarrow> api_credential \<Rightarrow> api_client \<Rightarrow> api_client" where
  "set_credential E credential a =
     (let c = credential_normalize E credential in
      if \<not> credential_is_valid E c then reject_credential a
      else (set_credential_material E c a)\<lparr>ac_session := None\<rparr>)"

definition set_credential_for_session ::
  "api_env \<Rightarrow> api_credential \<Rightarrow> session_context \<Rightarrow> api_client \<Rightarrow> api_client" where
  "set_credential_for_session E credential context a =
     (let c = credential_normalize E credential in
      if \<not> credential_is_valid E c then reject_credential a
      else
        let fingerprint = api_session_fingerprint E (ses_account_id context) c;
            remembered = (case ac_remembered a of
                Some r \<Rightarrow> if rm_fingerprint r = fingerprint then Some r else None
              | None \<Rightarrow> None);
            token = (case remembered of Some r \<Rightarrow> rm_token r | None \<Rightarrow> ae_uuid E (ac_drawn a));
            drawn = (case remembered of Some r \<Rightarrow> ac_drawn a | None \<Rightarrow> Suc (ac_drawn a));
            rearm = (case remembered of Some r \<Rightarrow> rm_rearm_pending r | None \<Rightarrow> False)
        in (set_credential_material E c a)\<lparr>
             ac_session := Some \<lparr>is_context = \<lparr>as_session = context, as_token = token\<rparr>,
               is_fingerprint = fingerprint, is_request_owner = ae_uuid E drawn, is_rearm_pending = rearm\<rparr>,
             ac_remembered := Some \<lparr>rm_fingerprint = fingerprint, rm_token = token, rm_rearm_pending = rearm\<rparr>,
             ac_drawn := Suc drawn\<rparr>)"

definition clear_credential :: "api_client \<Rightarrow> api_client" where
  "clear_credential a = a\<lparr>ac_credential := None, ac_signer := None, ac_session := None\<rparr>"

definition set_base_url :: "api_env \<Rightarrow> string \<Rightarrow> api_client \<Rightarrow> api_client" where
  "set_base_url E base_url a = a\<lparr>ac_base_url := normalize_base_url E base_url\<rparr>"

definition workflow_session_identity ::
  "api_env \<Rightarrow> api_client \<Rightarrow> (session_context \<times> string \<times> string, app_error) result" where
  "workflow_session_identity E a =
     (case (ac_session a, ac_credential a) of
        (Some installed, Some c) \<Rightarrow>
          if ac_base_url a \<noteq> normalize_base_url E (cr_base_url c) then Err ENotConnected
          else (case ae_url_parse E (ac_base_url a) of
            None \<Rightarrow> Err ENotConnected
          | Some u \<Rightarrow>
              if ae_url_origin E u = ''null'' then Err ENotConnected
              else Ok (as_session (is_context installed), is_request_owner installed, ae_url_origin E u))
      | _ \<Rightarrow> Err ENotConnected)"

section \<open>Sessions of requests\<close>

definition owns_response :: "installed_api_session \<Rightarrow> installed_api_session \<Rightarrow> bool" where
  "owns_response current request \<longleftrightarrow>
     is_request_owner current = is_request_owner request
     \<and> is_fingerprint current = is_fingerprint request \<and> is_context current = is_context request"

definition mark_current_session_expired ::
  "installed_api_session \<Rightarrow> api_client \<Rightarrow> api_session_context option \<times> api_client" where
  "mark_current_session_expired request a =
     (case ac_session a of
        Some current \<Rightarrow>
          if owns_response current request
          then (Some (is_context current),
                a\<lparr>ac_session := Some (current\<lparr>is_rearm_pending := True\<rparr>),
                  ac_remembered := Some \<lparr>rm_fingerprint = is_fingerprint request,
                    rm_token = as_token (is_context current), rm_rearm_pending = True\<rparr>\<rparr>)
          else (None, a)
      | None \<Rightarrow> (None, a))"

definition confirm_authenticated_private_response ::
  "api_env \<Rightarrow> installed_api_session \<Rightarrow> api_client \<Rightarrow> api_client" where
  "confirm_authenticated_private_response E request a =
     (case ac_session a of
        Some current \<Rightarrow>
          if owns_response current request \<and> is_rearm_pending current
          then
            let token = ae_uuid E (ac_drawn a) in
            a\<lparr>ac_session := Some (current\<lparr>is_context := (is_context current)\<lparr>as_token := token\<rparr>,
                is_rearm_pending := False\<rparr>),
              ac_remembered := Some \<lparr>rm_fingerprint = is_fingerprint current, rm_token = token,
                rm_rearm_pending = False\<rparr>,
              ac_drawn := Suc (ac_drawn a)\<rparr>
          else a
      | None \<Rightarrow> a)"

section \<open>Reading an answer\<close>

text \<open>
  What \<^verbatim>\<open>send().await\<close> and \<^verbatim>\<open>text().await\<close> give: no answer, an answer whose body could not be read,
  or the status and the body.
\<close>

datatype wire_reply = NoAnswer | Unreadable nat | Answer nat string

definition network_error :: app_error where
  "network_error = EConnection (utf8 [32593, 32476, 35831, 27714, 22833, 36133])"

definition msg_bad_format :: string where "msg_bad_format = (utf8 [65, 80, 73, 32, 21709, 24212, 26684, 24335, 26080, 25928])"
definition msg_session_expired :: string where "msg_session_expired = (utf8 [36134, 25143, 20250, 35805, 24050, 22833, 25928])"
definition msg_ambiguous :: string where "msg_ambiguous = (utf8 [35746, 21333, 25552, 20132, 32467, 26524, 19981, 26126, 30830])"
definition msg_api_error :: string where "msg_api_error = (utf8 [65, 80, 73, 32, 36820, 22238, 38169, 35823])"
definition msg_no_credential :: string where "msg_no_credential = (utf8 [26410, 37197, 32622, 32, 65, 80, 73, 32, 20973, 25454])"

definition create_order_path :: string where
  "create_order_path = ''/futures/private/v1/create-order''"

definition server_time_path :: string where
  "server_time_path = ''/futures/public/v1/market/time''"

definition is_success_status :: "nat \<Rightarrow> bool" where
  "is_success_status status \<longleftrightarrow> 200 \<le> status \<and> status < 300"

definition http_status_error :: "api_env \<Rightarrow> nat \<Rightarrow> app_error" where
  "http_status_error E status = EConnection (''HTTP '' @ ae_status_text E status)"

text \<open>The payload of an answer, or the error its body alone decides.\<close>

definition read_payload :: "api_env \<Rightarrow> nat \<Rightarrow> string \<Rightarrow> (json, app_error) result" where
  "read_payload E status body =
     (let status_auth_failure = classify_auth_failure (Some status) (JObject []) in
      if body = [] \<and> \<not> is_success_status status then
        (if status_auth_failure \<noteq> OtherAuthFailure then Err (EAuthFailure status_auth_failure)
         else Err (http_status_error E status))
      else if body = [] then Ok (JObject [])
      else case ae_from_str E body of
        Some payload \<Rightarrow> Ok payload
      | None \<Rightarrow>
          if status_auth_failure \<noteq> OtherAuthFailure then Err (EAuthFailure status_auth_failure)
          else Err (EConnection msg_bad_format))"

type_synonym 'w auth_observer =
  "(api_session_context \<Rightarrow> auth_failure_kind \<Rightarrow> 'w \<Rightarrow> string option \<times> 'w) option"

text \<open>The branch of an expired session: mark it and, when it was current, let the observer notify.\<close>

definition session_expired_branch ::
  "'w auth_observer \<Rightarrow> installed_api_session option \<Rightarrow> api_client \<times> 'w
     \<Rightarrow> app_error \<times> api_client \<times> 'w" where
  "session_expired_branch observer context s =
     (case (case context of Some c \<Rightarrow> mark_current_session_expired c (fst s) | None \<Rightarrow> (None, fst s)) of
        (current, a) \<Rightarrow>
          (case (current, observer) of
             (Some c, Some notify) \<Rightarrow>
               (case notify c SessionExpired (snd s) of
                  (Some nid, w) \<Rightarrow>
                    (ENotified ''AUTH_SESSION_EXPIRED'' msg_session_expired nid
                       (Some (CauseAuthFailure SessionExpired)), a, w)
                | (None, w) \<Rightarrow> (EAuthFailure SessionExpired, a, w))
           | _ \<Rightarrow> (EAuthFailure SessionExpired, a, snd s)))"

definition confirm :: "api_env \<Rightarrow> installed_api_session option \<Rightarrow> api_client \<Rightarrow> api_client" where
  "confirm E context a =
     (case context of Some c \<Rightarrow> confirm_authenticated_private_response E c a | None \<Rightarrow> a)"

text \<open>\<^verbatim>\<open>parse_response\<close> once the payload is there.\<close>

definition judge_payload ::
  "api_env \<Rightarrow> 'w auth_observer \<Rightarrow> nat \<Rightarrow> json \<Rightarrow> string option \<Rightarrow> installed_api_session option
     \<Rightarrow> api_client \<times> 'w \<Rightarrow> (json, app_error) result \<times> api_client \<times> 'w" where
  "judge_payload E observer status payload path context s =
     (let auth_failure = classify_auth_failure (Some status) payload in
      if auth_failure = SessionExpired then
        (case session_expired_branch observer context s of (e, s) \<Rightarrow> (Err e, s))
      else if auth_failure \<noteq> OtherAuthFailure then (Err (EAuthFailure auth_failure), s)
      else if \<not> is_success_status status then (Err (http_status_error E status), s)
      else if path = Some create_order_path \<and> classify_create_order_outcome payload = Rejected then
        (Err (ETradingFailure trading_failure_rejected), confirm E context (fst s), snd s)
      else if path = Some create_order_path \<and> classify_create_order_outcome payload = Ambiguous then
        (Err (EInternal msg_ambiguous), s)
      else if \<not> is_success_response payload then (Err (ETrading msg_api_error), s)
      else (Ok payload, confirm E context (fst s), snd s))"

definition parse_response ::
  "api_env \<Rightarrow> 'w auth_observer \<Rightarrow> wire_reply \<Rightarrow> string option \<Rightarrow> installed_api_session option
     \<Rightarrow> api_client \<times> 'w \<Rightarrow> (json, app_error) result \<times> api_client \<times> 'w" where
  "parse_response E observer reply path context s =
     (case reply of
        NoAnswer \<Rightarrow> (Err network_error, s)
      | Unreadable status \<Rightarrow> (Err network_error, s)
      | Answer status body \<Rightarrow>
          (case read_payload E status body of
             Err e \<Rightarrow> (Err e, s)
           | Panic \<Rightarrow> (Panic, s)
           | Ok payload \<Rightarrow> judge_payload E observer status payload path context s))"

section \<open>Requests\<close>

datatype wire_request =
    HttpGet string "(string \<times> string) list" "(string \<times> string) list"
  | HttpPost string "(string \<times> string) list" string

record 'w network =
  nw_send :: "wire_request \<Rightarrow> api_client \<times> 'w \<Rightarrow> wire_reply \<times> api_client \<times> 'w"
  nw_clock :: "'w \<Rightarrow> u64"
  nw_observer :: "'w auth_observer"

definition recv_window_ms :: nat where "recv_window_ms = 5000"

text \<open>\<^verbatim>\<open>Signer::prepare_headers\<close>.\<close>

definition prepare_headers ::
  "api_env \<Rightarrow> string \<times> string \<Rightarrow> u64 \<Rightarrow> nat \<Rightarrow> string \<Rightarrow> (string \<times> string) list" where
  "prepare_headers E signer timestamp recv_window payload =
     (let ts = nat_to_string (unat timestamp); rw = nat_to_string recv_window in
      [(''Access-Key'', fst signer),
       (''Access-Sign'', ae_hmac E (snd signer) (ts @ fst signer @ rw @ payload)),
       (''Access-Timestamp'', ts), (''Recv-Window'', rw)])"

definition sign_headers ::
  "api_env \<Rightarrow> 'w network \<Rightarrow> string \<Rightarrow> string \<Rightarrow> api_client \<times> 'w \<Rightarrow> ((string \<times> string) list, app_error) result" where
  "sign_headers E n query body s =
     (case ac_signer (fst s) of
        None \<Rightarrow> Err (EAuth msg_no_credential)
      | Some signer \<Rightarrow>
          Ok (prepare_headers E signer (timestamp_ms (ac_offset (fst s)) (nw_clock n (snd s))) recv_window_ms
            (if body = [] then query else body)))"

definition public_get ::
  "api_env \<Rightarrow> 'w network \<Rightarrow> string \<Rightarrow> (string \<times> string) list \<Rightarrow> api_client \<times> 'w
     \<Rightarrow> (json, app_error) result \<times> api_client \<times> 'w" where
  "public_get E n path params s =
     (case nw_send n (HttpGet (ac_base_url (fst s) @ path) [] params) s of
        (reply, s) \<Rightarrow> parse_response E (nw_observer n) reply None None s)"

definition server_time ::
  "api_env \<Rightarrow> 'w network \<Rightarrow> api_client \<times> 'w \<Rightarrow> (u64, app_error) result \<times> api_client \<times> 'w" where
  "server_time E n s =
     io_bind (public_get E n server_time_path [] s) (\<lambda>payload s. (parse_server_time payload, s))"

definition force_time_sync ::
  "api_env \<Rightarrow> 'w network \<Rightarrow> api_client \<times> 'w \<Rightarrow> (unit, app_error) result \<times> api_client \<times> 'w" where
  "force_time_sync E n s =
     io_bind (server_time E n s) (\<lambda>server_ms (a, w).
       (Ok (), a\<lparr>ac_offset := set_server_time server_ms (nw_clock n w)\<rparr>, w))"

definition ensure_time_sync ::
  "api_env \<Rightarrow> 'w network \<Rightarrow> api_client \<times> 'w \<Rightarrow> (unit, app_error) result \<times> api_client \<times> 'w" where
  "ensure_time_sync E n s = (if ac_offset (fst s) = 0 then force_time_sync E n s else (Ok (), s))"

definition encode_query :: "api_env \<Rightarrow> (string \<times> string) list \<Rightarrow> string" where
  "encode_query E params = (if params = [] then [] else ae_form_urlencoded E params)"

definition private_get_once ::
  "api_env \<Rightarrow> 'w network \<Rightarrow> string \<Rightarrow> (string \<times> string) list \<Rightarrow> api_client \<times> 'w
     \<Rightarrow> (json, app_error) result \<times> api_client \<times> 'w" where
  "private_get_once E n path params s =
     (let context = ac_session (fst s); query = encode_query E params in
      case sign_headers E n query [] s of
        Err e \<Rightarrow> (Err e, s)
      | Panic \<Rightarrow> (Panic, s)
      | Ok headers \<Rightarrow>
          (case nw_send n (HttpGet (ac_base_url (fst s) @ path @ (if query = [] then [] else ''?'' @ query)) headers []) s of
             (reply, s) \<Rightarrow> parse_response E (nw_observer n) reply None context s))"

definition private_post_once ::
  "api_env \<Rightarrow> 'w network \<Rightarrow> string \<Rightarrow> json \<Rightarrow> api_client \<times> 'w
     \<Rightarrow> (json, app_error) result \<times> api_client \<times> 'w" where
  "private_post_once E n path body s =
     (let context = ac_session (fst s); body_text = ae_to_string E body in
      case sign_headers E n [] body_text s of
        Err e \<Rightarrow> (Err e, s)
      | Panic \<Rightarrow> (Panic, s)
      | Ok headers \<Rightarrow>
          (case nw_send n (HttpPost (ac_base_url (fst s) @ path)
                  ((''Content-Type'', ''application/json'') # headers) body_text) s of
             (reply, s) \<Rightarrow> parse_response E (nw_observer n) reply (Some path) context s))"

definition should_retry_private_request :: "app_error \<Rightarrow> bool" where
  "should_retry_private_request e \<longleftrightarrow> e \<in> {EAuthFailure Timestamp, EAuthFailure Signature}"

text \<open>The retry that \<^verbatim>\<open>private_get\<close> and \<^verbatim>\<open>private_post\<close> share.\<close>

definition with_retry ::
  "api_env \<Rightarrow> 'w network \<Rightarrow> (api_client \<times> 'w \<Rightarrow> (json, app_error) result \<times> api_client \<times> 'w)
     \<Rightarrow> api_client \<times> 'w \<Rightarrow> (json, app_error) result \<times> api_client \<times> 'w" where
  "with_retry E n once s =
     io_bind (ensure_time_sync E n s) (\<lambda>_ s.
       case once s of
         (Err e, s) \<Rightarrow>
           if should_retry_private_request e
           then io_bind (force_time_sync E n s) (\<lambda>_ s. once s)
           else (Err e, s)
       | (r, s) \<Rightarrow> (r, s))"

definition private_get ::
  "api_env \<Rightarrow> 'w network \<Rightarrow> string \<Rightarrow> (string \<times> string) list \<Rightarrow> api_client \<times> 'w
     \<Rightarrow> (json, app_error) result \<times> api_client \<times> 'w" where
  "private_get E n path params = with_retry E n (private_get_once E n path params)"

definition private_post ::
  "api_env \<Rightarrow> 'w network \<Rightarrow> string \<Rightarrow> json \<Rightarrow> api_client \<times> 'w
     \<Rightarrow> (json, app_error) result \<times> api_client \<times> 'w" where
  "private_post E n path body = with_retry E n (private_post_once E n path body)"

end
