(* ===== verification/Api_Laws.thy ===== *)
theory Api_Laws
  imports Api_Client
begin

text \<open>
  What an answer of the exchange can turn into, and the contract of a retried request: the
  locale \<open>retried_post\<close> is what the retry needs from a single attempt, and \<open>order_posts\<close> is its
  instance for \<^verbatim>\<open>private_post_once\<close> on a network that keeps a log.
\<close>

section \<open>The meaning of an answer\<close>

text \<open>
  The results a reply may be turned into.  It is not a function of the reply only because an
  expired session may be reported with a notification.
\<close>

definition expiry_error :: "app_error \<Rightarrow> bool" where
  "expiry_error e \<longleftrightarrow>
     e = EAuthFailure SessionExpired
     \<or> (\<exists>nid. e = ENotified ''AUTH_SESSION_EXPIRED'' msg_session_expired nid (Some (CauseAuthFailure SessionExpired)))"

definition payload_means :: "api_env \<Rightarrow> string option \<Rightarrow> nat \<Rightarrow> json \<Rightarrow> (json, app_error) result \<Rightarrow> bool" where
  "payload_means E path status payload r \<longleftrightarrow>
     (let k = classify_auth_failure (Some status) payload in
      if k = SessionExpired then (\<exists>e. r = Err e \<and> expiry_error e)
      else if k \<noteq> OtherAuthFailure then r = Err (EAuthFailure k)
      else if \<not> is_success_status status then r = Err (http_status_error E status)
      else if path = Some create_order_path \<and> classify_create_order_outcome payload = Rejected
      then r = Err (ETradingFailure trading_failure_rejected)
      else if path = Some create_order_path \<and> classify_create_order_outcome payload = Ambiguous
      then r = Err (EInternal msg_ambiguous)
      else if \<not> is_success_response payload then r = Err (ETrading msg_api_error)
      else r = Ok payload)"

definition answer_means :: "api_env \<Rightarrow> string option \<Rightarrow> wire_reply \<Rightarrow> (json, app_error) result \<Rightarrow> bool" where
  "answer_means E path reply r \<longleftrightarrow>
     (case reply of
        Answer status body \<Rightarrow>
          (case read_payload E status body of
             Ok payload \<Rightarrow> payload_means E path status payload r
           | Err e \<Rightarrow> r = Err e
           | Panic \<Rightarrow> False)
      | _ \<Rightarrow> r = Err network_error)"

lemma read_payload_no_panic [simp]: "read_payload E status body \<noteq> Panic"
  by (auto simp: read_payload_def Let_def split: option.splits)

lemma session_expired_branch_error: "session_expired_branch observer context s = (e, s') \<Longrightarrow> expiry_error e"
  by (auto simp: session_expired_branch_def expiry_error_def split: prod.splits option.splits)

lemma parse_response_means:
  "parse_response E observer reply path context s = (r, s') \<Longrightarrow> answer_means E path reply r"
  by (auto simp: parse_response_def answer_means_def judge_payload_def payload_means_def Let_def
      split: wire_reply.splits result.splits if_splits prod.splits dest: session_expired_branch_error)

text \<open>The exchange answered that it did not take the request.\<close>

definition refused_by :: "api_env \<Rightarrow> wire_reply \<Rightarrow> bool" where
  "refused_by E reply \<longleftrightarrow>
     (case reply of
        Answer status body \<Rightarrow>
          status = 403
          \<or> (case ae_from_str E body of
               Some p \<Rightarrow> is_auth_error p \<or> is_rate_limit_error p
                 \<or> (is_success_status status \<and> classify_create_order_outcome p = Rejected)
             | None \<Rightarrow> False)
      | _ \<Rightarrow> False)"

text \<open>The exchange answered that it took the order, and named it.\<close>

definition taken_as :: "api_env \<Rightarrow> json \<Rightarrow> wire_reply \<Rightarrow> bool" where
  "taken_as E payload reply \<longleftrightarrow>
     (case reply of
        Answer status body \<Rightarrow> is_success_status status \<and> ae_from_str E body = Some payload
          \<and> (\<exists>candidate. classify_create_order_outcome payload = Accepted candidate)
      | _ \<Rightarrow> False)"

lemma classify_other_kind:
  "status \<noteq> 403 \<Longrightarrow> classify_auth_failure (Some status) p \<noteq> OtherAuthFailure \<Longrightarrow>
    is_auth_error p \<or> is_rate_limit_error p"
  using classify_auth_failure_codes [of "Some status" p] classify_kinds [of "Some status" p]
  by (cases "classify_auth_failure (Some status) p") auto

lemma empty_body_is_no_code [simp]:
  "classify_auth_failure (Some status) (JObject []) = (if status = 403 then RateLimited else OtherAuthFailure)"
  "classify_create_order_outcome (JObject []) = Ambiguous"
  by (simp_all add: classify_auth_failure_def json_code_def classify_create_order_outcome_def)

lemma read_payload_cases:
  assumes "read_payload E status body = r" "status \<noteq> 403"
  obtains (Parsed) p where "r = Ok p" "ae_from_str E body = Some p"
  | (Empty) "r = Ok (JObject [])"
  | (Failed) e where "r = Err (EConnection e)"
  using assms by (auto simp: read_payload_def http_status_error_def Let_def split: if_splits option.splits)

lemma uncertain_errors [simp]:
  "\<not> definitely_not_accepted network_error" "\<not> definitely_not_accepted (EConnection m)"
  "\<not> definitely_not_accepted (http_status_error E status)"
  "\<not> definitely_not_accepted (EInternal m)" "\<not> definitely_not_accepted (ETrading m)"
  by (simp_all add: definitely_not_accepted_def is_certain_submission_failure_def
      is_confirmed_submission_rejection_def network_error_def http_status_error_def)

lemma payload_refused:
  assumes "payload_means E (Some create_order_path) status p (Err e)" "definitely_not_accepted e" "status \<noteq> 403"
  shows "is_auth_error p \<or> is_rate_limit_error p
    \<or> (is_success_status status \<and> classify_create_order_outcome p = Rejected)"
  using assms classify_other_kind [of status p]
  by (auto simp: payload_means_def Let_def split: if_splits)

lemma empty_payload_uncertain:
  assumes "payload_means E (Some create_order_path) status (JObject []) (Err e)" "status \<noteq> 403"
  shows "\<not> definitely_not_accepted e"
  using assms by (auto simp: payload_means_def Let_def split: if_splits)

lemma certain_error_refused:
  assumes "answer_means E (Some create_order_path) reply (Err e)" "definitely_not_accepted e"
  shows "refused_by E reply"
proof (cases reply)
  case (Answer status body)
  show ?thesis
  proof (cases "status = 403")
    case False
    show ?thesis
      by (rule read_payload_cases [OF refl False, of E body])
        (use assms Answer False payload_refused [of E status _ e] empty_payload_uncertain [of E status e] in
          \<open>auto simp: answer_means_def refused_by_def\<close>)
  qed (simp add: refused_by_def Answer)
qed (use assms in \<open>auto simp: answer_means_def\<close>)

lemma retry_error_refused:
  assumes "answer_means E (Some create_order_path) reply (Err e)" "should_retry_private_request e"
  shows "refused_by E reply"
proof (rule certain_error_refused [OF assms(1)])
  show "definitely_not_accepted e"
    using assms(2) by (auto simp: should_retry_private_request_def definitely_not_accepted_def
        is_certain_submission_failure_def)
qed

lemma payload_taken:
  assumes "payload_means E (Some create_order_path) status p (Ok payload)"
  shows "is_success_status status \<and> payload = p \<and> (\<exists>c. classify_create_order_outcome p = Accepted c)"
  using assms by (cases "classify_create_order_outcome p") (auto simp: payload_means_def Let_def split: if_splits)

lemma ok_answer_taken:
  assumes "answer_means E (Some create_order_path) reply (Ok payload)"
  shows "taken_as E payload reply"
proof (cases reply)
  case (Answer status body)
  with assms obtain p where p: "read_payload E status body = Ok p"
    "payload_means E (Some create_order_path) status p (Ok payload)"
    by (auto simp: answer_means_def split: result.splits)
  from payload_taken [OF p(2)] have "ae_from_str E body = Some p"
    using p(1) by (auto simp: read_payload_def Let_def split: if_splits option.splits)
  then show ?thesis using payload_taken [OF p(2)] by (auto simp: taken_as_def Answer)
qed (use assms in \<open>auto simp: answer_means_def\<close>)

section \<open>The contract of a retried request\<close>

locale retried_post =
  fixes E :: api_env and n :: "'w network"
    and once :: "api_client \<times> 'w \<Rightarrow> (json, app_error) result \<times> api_client \<times> 'w"
    and posts :: "'w \<Rightarrow> (wire_request \<times> wire_reply) list"
    and means :: "wire_reply \<Rightarrow> (json, app_error) result \<Rightarrow> bool"
  assumes once_posts:
      "once s = (r, s') \<Longrightarrow>
        (\<exists>x. posts (snd s') = posts (snd s) @ [x] \<and> means (snd x) r)
        \<or> (\<exists>m. posts (snd s') = posts (snd s) \<and> r = Err (EAuth m))"
    and sync_posts: "force_time_sync E n s = (u, s') \<Longrightarrow> posts (snd s') = posts (snd s) \<and> u \<noteq> Panic"
begin

definition attempts :: "(wire_request \<times> wire_reply) list \<Rightarrow> (json, app_error) result \<Rightarrow> bool" where
  "attempts new r \<longleftrightarrow>
     length new \<le> 2
     \<and> (\<forall>x\<in>set (butlast new). \<exists>e. should_retry_private_request e \<and> means (snd x) (Err e))
     \<and> (\<forall>p. r = Ok p \<longrightarrow> new \<noteq> [] \<and> means (snd (last new)) (Ok p))
     \<and> (\<forall>e. r = Err e \<longrightarrow> (\<forall>x\<in>set new. \<exists>e'. (e' = e \<or> should_retry_private_request e') \<and> means (snd x) (Err e')))"

lemma ensure_posts:
  "ensure_time_sync E n s = (u, s') \<Longrightarrow> posts (snd s') = posts (snd s) \<and> u \<noteq> Panic"
  using sync_posts by (auto simp: ensure_time_sync_def split: if_splits)

lemma first_attempt:
  assumes "once s = (r, s')"
  shows "\<exists>new. posts (snd s') = posts (snd s) @ new \<and> attempts new r
    \<and> (\<forall>e. r = Err e \<and> should_retry_private_request e \<longrightarrow> (\<exists>x. new = [x] \<and> means (snd x) (Err e)))"
  using once_posts [OF assms] by (auto simp: attempts_def should_retry_private_request_def)

lemma retry_attempts:
  assumes "with_retry E n once s = (r, s')"
  shows "\<exists>new. posts (snd s') = posts (snd s) @ new \<and> attempts new r"
proof -
  obtain u s0 where s0: "ensure_time_sync E n s = (u, s0)" by (cases "ensure_time_sync E n s")
  have p0: "posts (snd s0) = posts (snd s)" "u \<noteq> Panic" using ensure_posts [OF s0] by simp_all
  obtain r1 s1 where s1: "once s0 = (r1, s1)" by (cases "once s0")
  from first_attempt [OF s1] obtain new where new: "posts (snd s1) = posts (snd s) @ new" "attempts new r1"
    "\<And>e. r1 = Err e \<Longrightarrow> should_retry_private_request e \<Longrightarrow> \<exists>x. new = [x] \<and> means (snd x) (Err e)"
    using p0 by auto
  show ?thesis
  proof (cases "\<exists>e. u = Ok () \<and> r1 = Err e \<and> should_retry_private_request e")
    case False
    then have "(u = Ok () \<and> r = r1 \<and> s' = s1) \<or> (\<exists>e. u = Err e \<and> r = Err e \<and> s' = s0)"
      using assms s0 s1 p0(2) by (cases u; cases r1) (auto simp: with_retry_def)
    then show ?thesis
    proof (elim disjE exE conjE)
      fix e assume "r = Err e" "s' = s0"
      then show ?thesis using p0 by (intro exI [of _ "[]"]) (simp add: attempts_def)
    qed (use new in auto)
  next
    case True
    then obtain e x where e: "u = Ok ()" "r1 = Err e" "should_retry_private_request e" "new = [x]"
      "means (snd x) (Err e)"
      using new(3) by blast
    obtain u2 s2 where s2: "force_time_sync E n s1 = (u2, s2)" by (cases "force_time_sync E n s1")
    note p2 = sync_posts [OF s2]
    have run: "io_bind (u2, s2) (\<lambda>_ s. once s) = (r, s')"
      using assms s0 s1 s2 e by (simp add: with_retry_def)
    show ?thesis
    proof (cases u2)
      case (Ok y)
      with run have "once s2 = (r, s')" by simp
      from first_attempt [OF this] obtain more where more: "posts (snd s') = posts (snd s2) @ more" "attempts more r"
        by (elim exE conjE)
      from once_posts [OF \<open>once s2 = (r, s')\<close>] more(1) have "length more \<le> 1" by auto
      then have "attempts ([x] @ more) r" using more(2) e by (cases more) (auto simp: attempts_def)
      then show ?thesis using more(1) p2 new(1) e(4) by (intro exI [of _ "[x] @ more"]) simp
    next
      case (Err e2)
      then show ?thesis using run p2 new(1) e by (intro exI [of _ "[x]"]) (auto simp: attempts_def)
    qed (use p2 in simp)
  qed
qed

end

section \<open>A network with a log\<close>

type_synonym 'w logged_world = "'w \<times> (wire_request \<times> wire_reply) list"

definition logged_send ::
  "'w network \<Rightarrow> wire_request \<Rightarrow> api_client \<times> 'w logged_world \<Rightarrow> wire_reply \<times> api_client \<times> 'w logged_world" where
  "logged_send n rq s =
     (case nw_send n rq (fst s, fst (snd s)) of
        (reply, a, w) \<Rightarrow> (reply, a, w, snd (snd s) @ [(rq, reply)]))"

definition logged_network :: "'w network \<Rightarrow> 'w logged_world network" where
  "logged_network n =
     \<lparr>nw_send = logged_send n, nw_clock = (\<lambda>w. nw_clock n (fst w)),
      nw_observer = map_option (\<lambda>notify c k w. (fst (notify c k (fst w)), snd (notify c k (fst w)), snd w)) (nw_observer n)\<rparr>"

fun is_post :: "wire_request \<Rightarrow> bool" where
  "is_post (HttpPost u h b) = True"
| "is_post (HttpGet u h p) = False"

definition posts_of :: "'w logged_world \<Rightarrow> (wire_request \<times> wire_reply) list" where
  "posts_of w = filter (\<lambda>x. is_post (fst x)) (snd w)"

text \<open>Reading an answer sends nothing.\<close>

lemma parse_response_log:
  "parse_response E (nw_observer (logged_network n)) reply path context s = (r, s') \<Longrightarrow> snd (snd s') = snd (snd s)"
  by (auto simp: parse_response_def judge_payload_def session_expired_branch_def logged_network_def Let_def
      split: wire_reply.splits result.splits if_splits prod.splits option.splits)

lemma parse_response_not_Panic: "parse_response E observer reply path context s = (r, s') \<Longrightarrow> r \<noteq> Panic"
  using parse_response_means
  by (fastforce simp: answer_means_def payload_means_def Let_def split: wire_reply.splits result.splits if_splits)

lemma public_get_posts:
  assumes "public_get E (logged_network n) path params s = (r, s')"
  shows "posts_of (snd s') = posts_of (snd s) \<and> r \<noteq> Panic"
proof -
  obtain url reply s1 where send: "logged_send n (HttpGet url [] params) s = (reply, s1)"
    and parse: "parse_response E (nw_observer (logged_network n)) reply None None s1 = (r, s')"
    using assms by (auto simp: public_get_def logged_network_def split: prod.splits)
  show ?thesis
    using send parse_response_log [OF parse] parse_response_not_Panic [OF parse]
    by (auto simp: posts_of_def logged_send_def split: prod.splits)
qed

lemma parse_server_time_not_Panic [simp]: "parse_server_time p \<noteq> Panic"
  by (simp add: parse_server_time_def ok_or_def split: option.splits)

lemma force_time_sync_posts:
  assumes "force_time_sync E (logged_network n) s = (u, s')"
  shows "posts_of (snd s') = posts_of (snd s) \<and> u \<noteq> Panic"
proof -
  obtain r s1 where g: "public_get E (logged_network n) server_time_path [] s = (r, s1)"
    by (cases "public_get E (logged_network n) server_time_path [] s")
  note p = public_get_posts [OF g]
  show ?thesis
  proof (cases r)
    case (Ok payload)
    then show ?thesis
      using assms g p
      by (cases s1; cases "parse_server_time payload") (auto simp: force_time_sync_def server_time_def)
  qed (use assms g p in \<open>auto simp: force_time_sync_def server_time_def\<close>)
qed

lemma private_post_once_posts:
  assumes "private_post_once E (logged_network n) path body s = (r, s')"
  shows "(\<exists>x. posts_of (snd s') = posts_of (snd s) @ [x] \<and> answer_means E (Some path) (snd x) r)
    \<or> (\<exists>m. posts_of (snd s') = posts_of (snd s) \<and> r = Err (EAuth m))"
proof (cases "ac_signer (fst s)")
  case None
  then show ?thesis using assms by (auto simp: private_post_once_def sign_headers_def Let_def)
next
  case (Some signer)
  then obtain url headers reply s1 where send: "logged_send n (HttpPost url headers (ae_to_string E body)) s = (reply, s1)"
    and parse: "parse_response E (nw_observer (logged_network n)) reply (Some path) (ac_session (fst s)) s1 = (r, s')"
    using assms
    by (auto simp: private_post_once_def sign_headers_def Let_def logged_network_def split: prod.splits)
  have "posts_of (snd s') = posts_of (snd s) @ [(HttpPost url headers (ae_to_string E body), reply)]"
    using send parse_response_log [OF parse] by (auto simp: posts_of_def logged_send_def split: prod.splits)
  then show ?thesis using parse_response_means [OF parse] by auto
qed

interpretation order_posts: retried_post E "logged_network n" "private_post_once E (logged_network n) path body"
  posts_of "answer_means E (Some path)" for E n path body
  by unfold_locales (use private_post_once_posts force_time_sync_posts in blast)+

end
