(* ===== verification/Api_Properties.thy ===== *)
theory Api_Properties
  imports Api_Laws
begin

text \<open>
  The client of the exchange: what its verdict on an order says about the requests that were
  sent, how lists are found in answers, and the sessions to which answers are attributed.
\<close>

section \<open>Orders on the wire\<close>

lemma attempts_certain:
  assumes "order_posts.attempts E create_order_path new r"
  shows "length new \<le> 2" "\<forall>x\<in>set (butlast new). refused_by E (snd x)"
    "r = Ok payload \<Longrightarrow> new \<noteq> [] \<and> taken_as E payload (snd (last new))"
    "r = Err e \<Longrightarrow> definitely_not_accepted e \<Longrightarrow> \<forall>x\<in>set new. refused_by E (snd x)"
  using assms retry_error_refused certain_error_refused ok_answer_taken
  unfolding order_posts.attempts_def by blast+

text \<open>
  C3: The verdict of the client on an order is grounded in what the exchange answered.  A
  create-order request is posted at most twice, and a second time only after the exchange
  refused the first.  If the client reports success, the last answer was a success that names
  the order; if it reports an error that the journal treats as \<open>definitely not accepted\<close>, then
  every request that was sent was refused by the exchange.  This holds for any network and
  whatever other tasks do to the client while a request is under way.
\<close>

theorem order_verdict_grounded:
  assumes "private_post E (logged_network net) create_order_path body s = (r, s')"
  shows "\<exists>new. posts_of (snd s') = posts_of (snd s) @ new \<and> length new \<le> 2
    \<and> (\<forall>x\<in>set (butlast new). refused_by E (snd x))
    \<and> (\<forall>payload. r = Ok payload \<longrightarrow> new \<noteq> [] \<and> taken_as E payload (snd (last new)))
    \<and> (\<forall>e. r = Err e \<and> definitely_not_accepted e \<longrightarrow> (\<forall>x\<in>set new. refused_by E (snd x)))"
proof -
  obtain new where new: "posts_of (snd s') = posts_of (snd s) @ new" "order_posts.attempts E create_order_path new r"
    using order_posts.retry_attempts assms unfolding private_post_def by blast
  then show ?thesis using attempts_certain [OF new(2)] by blast
qed

text \<open>An exchange that refuses the first post as stale and accepts the second.\<close>

definition sample_api_env :: api_env where
  "sample_api_env =
     \<lparr>ae_url_parse = (\<lambda>u. None), ae_url_set_path = (\<lambda>p u. u), ae_url_print = u_path, ae_url_origin = u_path,
      ae_hash = id, ae_hmac = (\<lambda>k m. m),
      ae_from_str = (\<lambda>t. if t = ''stale'' then Some (JObject [(''code'', JInt 26200002)])
        else if t = ''time'' then Some (JObject [(''time'', JInt 1782850580)])
        else if t = ''taken'' then Some (JObject [(''code'', JInt 0), (''data'', JObject [(''order_id'', JString ''7'')])])
        else None),
      ae_to_string = (\<lambda>j. ''{}''), ae_form_urlencoded = (\<lambda>ps. []), ae_status_text = nat_to_string,
      ae_uuid = (\<lambda>i. replicate (Suc i) CHR ''u'')\<rparr>"

definition sample_network :: "nat network" where
  "sample_network =
     \<lparr>nw_send = (\<lambda>rq (a, posts). if is_post rq
          then (Answer 200 (if posts = 0 then ''stale'' else ''taken''), a, Suc posts)
          else (Answer 200 ''time'', a, posts)),
      nw_clock = (\<lambda>_. 1782850580000), nw_observer = None\<rparr>"

definition sample_client :: api_client where
  "sample_client = api_client_new\<lparr>ac_signer := Some (''key'', ''secret''), ac_offset := 5\<rparr>"

definition sample_post :: "(json, app_error) result \<times> api_client \<times> nat logged_world" where
  "sample_post = private_post sample_api_env (logged_network sample_network) create_order_path JNull (sample_client, 0, [])"

lemma post_cases:
  "(case x of (Ok _, _, w) \<Rightarrow> P w | _ \<Rightarrow> False) \<Longrightarrow> \<exists>payload. fst x = Ok payload \<and> P (snd (snd x))"
  by (auto split: prod.splits result.splits)

theorem order_verdict_grounded_witness:
  "\<exists>payload new. fst sample_post = Ok payload \<and> posts_of (snd (snd sample_post)) = new \<and> length new = 2
     \<and> refused_by sample_api_env (snd (hd new)) \<and> taken_as sample_api_env payload (snd (last new))"
proof -
  have "\<exists>payload. fst sample_post = Ok payload \<and> length (posts_of (snd (snd sample_post))) = 2"
    by (rule post_cases [where x = sample_post and P = "\<lambda>w. length (posts_of w) = 2"]) code_simp
  then obtain payload where ok: "fst sample_post = Ok payload" and two: "length (posts_of (snd (snd sample_post))) = 2"
    by blast
  have "private_post sample_api_env (logged_network sample_network) create_order_path JNull (sample_client, 0, []) =
      (fst sample_post, snd sample_post)"
    by (simp add: sample_post_def)
  from order_verdict_grounded [OF this] ok obtain new where new: "posts_of (snd (snd sample_post)) = new"
    "\<forall>x\<in>set (butlast new). refused_by sample_api_env (snd x)" "taken_as sample_api_env payload (snd (last new))"
    by (auto simp: posts_of_def)
  moreover have "hd new \<in> set (butlast new)" using two new(1) by (cases new) auto
  ultimately show ?thesis using ok two by auto
qed

section \<open>Lists in answers\<close>

text \<open>
  When an answer carries its items under none of the known names, the client still returns
  one of the arrays it holds, one with the most objects in it, and it comes back with nothing
  only when no array reached through the answer's members holds any object.
\<close>

lemma extract_list_finds_best:
  assumes "json_get ''data'' payload = Some (JObject kvs)" "first_list kvs list_keys = None"
  shows "(\<exists>path. (extract_list payload, path) \<in> set (visited_arrays (JObject kvs) ''data'')
        \<and> (\<forall>(arr, _) \<in> set (visited_arrays (JObject kvs) ''data''). objects_in arr \<le> objects_in (extract_list payload)))
    \<or> ((\<forall>(arr, _) \<in> set (visited_arrays (JObject kvs) ''data''). objects_in arr = 0)
        \<and> extract_list payload = (if is_entity_object kvs then [JObject kvs] else []))"
proof -
  have d: "extract_data payload = JObject kvs" using assms(1) by (simp add: extract_data_def)
  note best = search_best [of "JObject kvs" "''data''"]
  show ?thesis
  proof (cases "collect_object_arrays (JObject kvs) ''data'' None")
    case None
    then show ?thesis
      using best d assms(2)
      by (simp add: extract_list_def extract_list_with_meta_def json_defs find_best_object_array_def Let_def best_of_def)
  next
    case (Some b)
    obtain arr path n where b: "b = (arr, path, n)" by (cases b) auto
    then have "extract_list payload = arr"
      using Some d assms(2)
      by (simp add: extract_list_def extract_list_with_meta_def json_defs find_best_object_array_def Let_def)
    then show ?thesis using best Some b by (auto simp: best_of_def)
  qed
qed

definition sample_listing :: json where
  "sample_listing = JObject [(''code'', JInt 0), (''data'', JObject
     [(''page'', JObject [(''hits'', JArray [JObject [], JObject []])]), (''tags'', JArray [JObject []])])]"

end
