(* ===== verification/Api_Sessions.thy ===== *)
theory Api_Sessions
  imports Api_Laws
begin

text \<open>
  The sessions of the client as a state machine: credentials are installed and removed and
  answers arrive in any order, each attributed to the session under which its request was sent
  (\<^verbatim>\<open>session_for_request\<close>, \<^verbatim>\<open>mark_current_session_expired\<close>, \<^verbatim>\<open>confirm_authenticated_private_response\<close>).
\<close>

section \<open>Runs\<close>

datatype client_event =
    InstallSession api_credential session_context
  | InstallCredential api_credential
  | ClearCredential
  | SetBaseUrl string
  | SendRequest
  | ReceiveAnswer nat "string option" wire_reply

record client_run =
  cl_client :: api_client
  cl_inflight :: "installed_api_session list"
  \<comment> \<open>the expiries reported to the observer, oldest first\<close>
  cl_notices :: "api_session_context list"

definition recording_observer :: "api_session_context list auth_observer" where
  "recording_observer = Some (\<lambda>c k seen. (Some ''notified'', seen @ [c]))"

inductive session_step :: "api_env \<Rightarrow> client_event \<Rightarrow> client_run \<Rightarrow> client_run \<Rightarrow> bool" for E where
  install: "session_step E (InstallSession c ctx) x
    (x\<lparr>cl_client := set_credential_for_session E c ctx (cl_client x)\<rparr>)"
| credential: "session_step E (InstallCredential c) x (x\<lparr>cl_client := set_credential E c (cl_client x)\<rparr>)"
| clear: "session_step E ClearCredential x (x\<lparr>cl_client := clear_credential (cl_client x)\<rparr>)"
| base_url: "session_step E (SetBaseUrl u) x (x\<lparr>cl_client := set_base_url E u (cl_client x)\<rparr>)"
| send: "ac_session (cl_client x) = Some i \<Longrightarrow> session_step E SendRequest x (x\<lparr>cl_inflight := cl_inflight x @ [i]\<rparr>)"
| answer: "k < length (cl_inflight x) \<Longrightarrow>
    parse_response E recording_observer reply path (Some (cl_inflight x ! k)) (cl_client x, cl_notices x) = (r, a, seen) \<Longrightarrow>
    session_step E (ReceiveAnswer k path reply) x (x\<lparr>cl_client := a, cl_notices := seen\<rparr>)"

inductive_cases session_stepE: "session_step E ev x y"

inductive session_run :: "api_env \<Rightarrow> client_event list \<Rightarrow> client_run \<Rightarrow> client_run \<Rightarrow> bool" for E where
  stop: "session_run E [] x x"
| step: "session_run E evs x y \<Longrightarrow> session_step E ev y z \<Longrightarrow> session_run E (evs @ [ev]) x z"

definition client_start :: client_run where
  "client_start = \<lparr>cl_client = api_client_new, cl_inflight = [], cl_notices = []\<rparr>"

section \<open>What an answer does to the session\<close>

text \<open>The three possible effects of an answer.\<close>

definition confirms :: "api_env \<Rightarrow> string option \<Rightarrow> wire_reply \<Rightarrow> bool" where
  "confirms E path reply \<longleftrightarrow>
     (case reply of
        Answer status body \<Rightarrow>
          (case read_payload E status body of
             Ok p \<Rightarrow> classify_auth_failure (Some status) p = OtherAuthFailure \<and> is_success_status status
               \<and> (path = Some create_order_path \<longrightarrow> classify_create_order_outcome p \<noteq> Ambiguous)
               \<and> is_success_response p
           | _ \<Rightarrow> False)
      | _ \<Rightarrow> False)"

definition expires :: "api_env \<Rightarrow> wire_reply \<Rightarrow> bool" where
  "expires E reply \<longleftrightarrow>
     (case reply of
        Answer status body \<Rightarrow>
          (case read_payload E status body of
             Ok p \<Rightarrow> classify_auth_failure (Some status) p = SessionExpired
           | _ \<Rightarrow> False)
      | _ \<Rightarrow> False)"

lemma rejected_is_success:
  "classify_create_order_outcome p = Rejected \<Longrightarrow> is_success_response p"
  using outcome_Rejected_iff accepted_is_success by blast

lemma answer_effect:
  assumes "parse_response E recording_observer reply path (Some i) (a, seen) = (r, a', seen')"
  shows "a' = (if expires E reply then snd (mark_current_session_expired i a)
      else if confirms E path reply then confirm_authenticated_private_response E i a else a)
    \<and> seen' = (if expires E reply
        then (case fst (mark_current_session_expired i a) of Some c \<Rightarrow> seen @ [c] | None \<Rightarrow> seen) else seen)"
  using assms rejected_is_success
  by (auto simp: parse_response_def judge_payload_def session_expired_branch_def recording_observer_def confirm_def
      expires_def confirms_def Let_def
      split: wire_reply.splits result.splits if_splits prod.splits option.splits)

lemmas session_effect_defs = mark_current_session_expired_def confirm_authenticated_private_response_def

lemma foreign_answer:
  assumes "\<And>current. ac_session a = Some current \<Longrightarrow> \<not> owns_response current i"
    and "parse_response E recording_observer reply path (Some i) (a, seen) = (r, a', seen')"
  shows "a' = a \<and> seen' = seen"
  using answer_effect [OF assms(2)] assms(1)
  by (auto simp: session_effect_defs split: option.splits if_splits)

section \<open>Invariants\<close>

definition drawn_uuids :: "api_env \<Rightarrow> api_client \<Rightarrow> string set" where
  "drawn_uuids E a = ae_uuid E ` {..<ac_drawn a}"

lemma drawn_mono: "ac_drawn a \<le> ac_drawn b \<Longrightarrow> drawn_uuids E a \<subseteq> drawn_uuids E b"
  by (auto simp: drawn_uuids_def)

text \<open>The installed session and the remembered one agree.\<close>

definition memory_agrees :: "api_client \<Rightarrow> bool" where
  "memory_agrees a \<longleftrightarrow>
     (\<forall>i. ac_session a = Some i \<longrightarrow>
        ac_remembered a = Some \<lparr>rm_fingerprint = is_fingerprint i, rm_token = as_token (is_context i),
          rm_rearm_pending = is_rearm_pending i\<rparr>)"

definition identifiers_drawn :: "api_env \<Rightarrow> client_run \<Rightarrow> bool" where
  "identifiers_drawn E x \<longleftrightarrow>
     (\<forall>i. ac_session (cl_client x) = Some i \<longrightarrow> is_request_owner i \<in> drawn_uuids E (cl_client x))
     \<and> (\<forall>r. ac_remembered (cl_client x) = Some r \<longrightarrow> rm_token r \<in> drawn_uuids E (cl_client x))
     \<and> (\<forall>i\<in>set (cl_inflight x). is_request_owner i \<in> drawn_uuids E (cl_client x)
          \<and> as_token (is_context i) \<in> drawn_uuids E (cl_client x))
     \<and> (\<forall>c\<in>set (cl_notices x). as_token c \<in> drawn_uuids E (cl_client x))"

lemma install_agrees: "memory_agrees a \<Longrightarrow> memory_agrees (set_credential_for_session E c ctx a)"
  by (simp add: memory_agrees_def set_credential_for_session_def reject_credential_def Let_def)

lemma answer_agrees:
  assumes "memory_agrees a" "parse_response E recording_observer reply path (Some i) (a, seen) = (r, a', seen')"
  shows "memory_agrees a'"
  using answer_effect [OF assms(2)] assms(1)
  by (auto simp: memory_agrees_def session_effect_defs owns_response_def Let_def split: option.splits if_splits)

lemma step_agrees: "session_step E ev x y \<Longrightarrow> memory_agrees (cl_client x) \<Longrightarrow> memory_agrees (cl_client y)"
proof (induction rule: session_step.induct)
  case (answer k x reply path r a seen)
  then show ?case using answer_agrees by fastforce
qed (auto simp: install_agrees, auto simp: memory_agrees_def set_credential_def reject_credential_def
    set_credential_material_def clear_credential_def set_base_url_def Let_def)

lemma run_agrees: "session_run E evs x y \<Longrightarrow> memory_agrees (cl_client x) \<Longrightarrow> memory_agrees (cl_client y)"
  by (induction rule: session_run.induct) (auto intro: step_agrees)

lemma start_agrees [simp]: "memory_agrees (cl_client client_start)"
  by (simp add: memory_agrees_def client_start_def api_client_new_def)

lemma drawn_Suc: "drawn_uuids E (a\<lparr>ac_drawn := Suc n\<rparr>) = insert (ae_uuid E n) (ae_uuid E ` {..<n})"
  by (auto simp: drawn_uuids_def lessThan_Suc)

lemma install_drawn:
  "ac_drawn a \<le> ac_drawn (set_credential_for_session E c ctx a)"
  "ac_session (set_credential_for_session E c ctx a) = Some i \<Longrightarrow>
     is_request_owner i \<in> ae_uuid E ` {ac_drawn a..<ac_drawn (set_credential_for_session E c ctx a)}"
  by (auto simp: set_credential_for_session_def reject_credential_def set_credential_material_def Let_def
      split: option.splits if_splits)

lemma install_token_drawn:
  assumes "\<forall>r. ac_remembered a = Some r \<longrightarrow> rm_token r \<in> drawn_uuids E a"
    and "ac_remembered (set_credential_for_session E c ctx a) = Some r"
  shows "rm_token r \<in> drawn_uuids E (set_credential_for_session E c ctx a)"
  using assms
  by (auto simp: set_credential_for_session_def reject_credential_def set_credential_material_def drawn_uuids_def Let_def
      lessThan_Suc split: option.splits if_splits)

lemma answer_drawn:
  assumes "memory_agrees a" "parse_response E recording_observer reply path (Some i) (a, seen) = (r, a', seen')"
    and "\<forall>i. ac_session a = Some i \<longrightarrow> is_request_owner i \<in> drawn_uuids E a"
    and "\<forall>r. ac_remembered a = Some r \<longrightarrow> rm_token r \<in> drawn_uuids E a"
    and "\<forall>c\<in>set seen. as_token c \<in> drawn_uuids E a"
  shows "ac_drawn a \<le> ac_drawn a'" "\<forall>i. ac_session a' = Some i \<longrightarrow> is_request_owner i \<in> drawn_uuids E a'"
    "\<forall>r. ac_remembered a' = Some r \<longrightarrow> rm_token r \<in> drawn_uuids E a'" "\<forall>c\<in>set seen'. as_token c \<in> drawn_uuids E a'"
  using answer_effect [OF assms(2)] assms(1,3-)
  by (auto simp: memory_agrees_def session_effect_defs drawn_uuids_def lessThan_Suc Let_def
      split: option.splits if_splits)

lemma step_drawn:
  assumes "session_step E ev x y" "memory_agrees (cl_client x)" "identifiers_drawn E x"
  shows "identifiers_drawn E y"
  using assms
proof (induction rule: session_step.induct)
  case (install c ctx x)
  let ?a = "cl_client x" and ?b = "set_credential_for_session E c ctx (cl_client x)"
  have sub: "drawn_uuids E ?a \<subseteq> drawn_uuids E ?b" by (rule drawn_mono [OF install_drawn(1)])
  have "ae_uuid E ` {ac_drawn ?a..<ac_drawn ?b} \<subseteq> drawn_uuids E ?b" by (auto simp: drawn_uuids_def)
  then show ?case
    using install(2) sub install_drawn(2) [of E c ctx ?a] install_token_drawn [of ?a E c ctx]
    by (auto simp: identifiers_drawn_def)
next
  case (answer k x reply path r a seen)
  have x: "\<forall>i. ac_session (cl_client x) = Some i \<longrightarrow> is_request_owner i \<in> drawn_uuids E (cl_client x)"
    "\<forall>r. ac_remembered (cl_client x) = Some r \<longrightarrow> rm_token r \<in> drawn_uuids E (cl_client x)"
    "\<forall>c\<in>set (cl_notices x). as_token c \<in> drawn_uuids E (cl_client x)"
    using answer(4) by (auto simp: identifiers_drawn_def)
  note d = answer_drawn [OF answer(3,2) x]
  show ?case using d drawn_mono [OF d(1), of E] answer(4) by (auto simp: identifiers_drawn_def)
next
  case (send x i)
  then show ?case by (auto simp: identifiers_drawn_def memory_agrees_def)
qed (auto simp: identifiers_drawn_def drawn_uuids_def set_credential_def reject_credential_def
    set_credential_material_def clear_credential_def set_base_url_def Let_def)

lemma run_drawn:
  "session_run E evs x y \<Longrightarrow> memory_agrees (cl_client x) \<Longrightarrow> identifiers_drawn E x \<Longrightarrow> identifiers_drawn E y"
  by (induction rule: session_run.induct) (auto intro: step_drawn run_agrees)

lemma start_drawn [simp]: "identifiers_drawn E client_start"
  by (simp add: identifiers_drawn_def client_start_def api_client_new_def)

lemmas started_run = run_agrees [OF _ start_agrees] run_drawn [OF _ start_agrees start_drawn]

end
