(* ===== verification/Session_Properties.thy ===== *)
theory Session_Properties
  imports Api_Sessions
begin

text \<open>
  The properties of the client's sessions: answers to requests of a replaced session have no
  effect, and an expired session is announced under one token until it has recovered.
\<close>

section \<open>Replaced sessions\<close>

text \<open>The installed session was installed after the first \<open>n\<close> identifiers were drawn.\<close>

definition installed_since :: "api_env \<Rightarrow> nat \<Rightarrow> api_client \<Rightarrow> bool" where
  "installed_since E n a \<longleftrightarrow>
     n \<le> ac_drawn a \<and> (\<forall>i. ac_session a = Some i \<longrightarrow> is_request_owner i \<in> ae_uuid E ` {n..})"

lemma install_since:
  assumes "n \<le> ac_drawn a"
  shows "installed_since E n (set_credential_for_session E c ctx a)"
  using assms install_drawn(1) [of a E c ctx] install_drawn(2) [of E c ctx a] by (fastforce simp: installed_since_def)

lemma answer_since:
  assumes "installed_since E n a" "parse_response E recording_observer reply path (Some i) (a, seen) = (r, a', seen')"
  shows "installed_since E n a'"
  using answer_effect [OF assms(2)] assms(1)
  by (auto simp: installed_since_def session_effect_defs Let_def split: option.splits if_splits)

lemma step_since: "session_step E ev x y \<Longrightarrow> installed_since E n (cl_client x) \<Longrightarrow> installed_since E n (cl_client y)"
proof (induction rule: session_step.induct)
  case (answer k x reply path r a seen)
  then show ?case using answer_since by fastforce
next
  case (install c ctx x)
  then have "n \<le> ac_drawn (cl_client x)" by (simp add: installed_since_def)
  then show ?case by (simp add: install_since)
qed (auto simp: installed_since_def set_credential_def reject_credential_def set_credential_material_def
    clear_credential_def set_base_url_def Let_def)

lemma run_since: "session_run E evs x y \<Longrightarrow> installed_since E n (cl_client x) \<Longrightarrow> installed_since E n (cl_client y)"
  by (induction rule: session_run.induct) (auto intro: step_since)

lemma step_inflight: "session_step E ev x y \<Longrightarrow> \<exists>more. cl_inflight y = cl_inflight x @ more"
  by (induction rule: session_step.induct) auto

lemma run_inflight: "session_run E evs x y \<Longrightarrow> \<exists>more. cl_inflight y = cl_inflight x @ more"
  by (induction rule: session_run.induct) (auto dest: step_inflight)

lemma older_not_owner:
  assumes "inj (ae_uuid E)" "installed_since E n a" "ac_session a = Some current"
    and "is_request_owner i \<in> ae_uuid E ` {..<n}"
  shows "\<not> owns_response current i"
  using assms by (force simp: installed_since_def owns_response_def inj_def)

text \<open>
  C27: Installing a session cuts off the answers to all requests sent before it, for good: when
  such an answer arrives at any later time, it neither changes the client nor announces an
  expired session, even when the same account with the same credential was installed again.
\<close>

theorem replaced_session_answers_ignored:
  assumes "inj (ae_uuid E)" and run: "session_run E evs client_start x" and k: "k < length (cl_inflight x)"
    and install: "session_step E (InstallSession c ctx) x y"
    and later: "session_run E evs' y z" and answer: "session_step E (ReceiveAnswer k path reply) z z'"
  shows "z' = z"
proof -
  have y: "y = x\<lparr>cl_client := set_credential_for_session E c ctx (cl_client x)\<rparr>"
    using install by (auto elim: session_stepE)
  have "installed_since E (ac_drawn (cl_client x)) (cl_client y)" unfolding y by (simp add: install_since)
  then have since: "installed_since E (ac_drawn (cl_client x)) (cl_client z)" by (rule run_since [OF later])
  have same: "cl_inflight z ! k = cl_inflight x ! k"
    using run_inflight [OF later] k y by (auto simp: nth_append)
  have "is_request_owner (cl_inflight x ! k) \<in> ae_uuid E ` {..<ac_drawn (cl_client x)}"
    using started_run(2) [OF run] k by (simp add: identifiers_drawn_def drawn_uuids_def)
  then have foreign: "\<And>current. ac_session (cl_client z) = Some current \<Longrightarrow> \<not> owns_response current (cl_inflight z ! k)"
    using older_not_owner [OF assms(1) since] same by simp
  from answer obtain r a seen where
    parse: "parse_response E recording_observer reply path (Some (cl_inflight z ! k)) (cl_client z, cl_notices z) = (r, a, seen)"
    and z': "z' = z\<lparr>cl_client := a, cl_notices := seen\<rparr>"
    by (auto elim: session_stepE)
  show ?thesis using foreign_answer [OF foreign parse] z' by simp
qed

section \<open>Announcing an expired session\<close>

text \<open>The events that neither recover the session nor install another account or credential.\<close>

definition same_episode :: "api_env \<Rightarrow> string \<Rightarrow> client_event \<Rightarrow> bool" where
  "same_episode E fingerprint ev \<longleftrightarrow>
     (case ev of
        ReceiveAnswer k path reply \<Rightarrow> \<not> confirms E path reply
      | InstallSession c ctx \<Rightarrow>
          api_session_fingerprint E (ses_account_id ctx) (credential_normalize E c) = fingerprint
      | _ \<Rightarrow> True)"

definition remembers :: "string \<Rightarrow> string \<Rightarrow> api_client \<Rightarrow> bool" where
  "remembers fingerprint token a \<longleftrightarrow>
     (\<exists>r. ac_remembered a = Some r \<and> rm_fingerprint r = fingerprint \<and> rm_token r = token)"

lemma answer_same_episode:
  assumes "memory_agrees a" "remembers fp t a" "\<not> confirms E path reply"
    and "parse_response E recording_observer reply path (Some i) (a, seen) = (r, a', seen')"
  shows "remembers fp t a' \<and> (\<exists>new. seen' = seen @ new \<and> (\<forall>c\<in>set new. as_token c = t))"
  using answer_effect [OF assms(4)] assms(1-3)
  by (auto simp: memory_agrees_def remembers_def session_effect_defs owns_response_def split: option.splits if_splits)

lemma step_same_episode:
  assumes "session_step E ev x y" "memory_agrees (cl_client x)" "remembers fp t (cl_client x)" "same_episode E fp ev"
  shows "remembers fp t (cl_client y) \<and> (\<exists>new. cl_notices y = cl_notices x @ new \<and> (\<forall>c\<in>set new. as_token c = t))"
  using assms
proof (induction rule: session_step.induct)
  case (answer k x reply path r a seen)
  then show ?case using answer_same_episode by (simp add: same_episode_def)
qed (auto simp: same_episode_def remembers_def set_credential_for_session_def set_credential_def reject_credential_def
    set_credential_material_def clear_credential_def set_base_url_def Let_def)

lemma run_same_episode:
  assumes "session_run E evs x y" "memory_agrees (cl_client x)" "remembers fp t (cl_client x)"
    "\<forall>ev\<in>set evs. same_episode E fp ev"
  shows "remembers fp t (cl_client y) \<and> (\<exists>new. cl_notices y = cl_notices x @ new \<and> (\<forall>c\<in>set new. as_token c = t))"
  using assms
proof (induction rule: session_run.induct)
  case (step evs x y ev z)
  from step.IH step.prems have y: "remembers fp t (cl_client y)"
    "\<exists>new. cl_notices y = cl_notices x @ new \<and> (\<forall>c\<in>set new. as_token c = t)" by auto
  have "remembers fp t (cl_client z) \<and> (\<exists>new. cl_notices z = cl_notices y @ new \<and> (\<forall>c\<in>set new. as_token c = t))"
    using step_same_episode [OF step.hyps(2) run_agrees [OF step.hyps(1)] y(1)] step.prems by auto
  then show ?case using y(2) by force
qed auto

text \<open>
  C28: While a session has not recovered, all its expiries are announced under one and the same
  token, so they collapse into one notification: through any sequence of answers, disconnections
  and reinstallations of the same account and credential, as long as no answer succeeds, every
  announcement carries the token the client remembers.
\<close>

theorem expiry_announced_under_one_token:
  assumes "session_run E evs client_start x" "ac_remembered (cl_client x) = Some r"
    and "session_run E evs' x y" "\<forall>ev\<in>set evs'. same_episode E (rm_fingerprint r) ev"
  shows "\<exists>new. cl_notices y = cl_notices x @ new \<and> (\<forall>c\<in>set new. as_token c = rm_token r)"
  using run_same_episode [OF assms(3) started_run(1) [OF assms(1)] _ assms(4)] assms(2)
  by (auto simp: remembers_def)

text \<open>
  C29: A session that recovers can be announced again: the first successful answer after an expiry
  gives the session a token that no announcement has carried so far, and no request sent before
  the recovery can expire the session under the new token.
\<close>

theorem recovered_session_gets_fresh_token:
  assumes "inj (ae_uuid E)" and run: "session_run E evs client_start x"
    and current: "ac_session (cl_client x) = Some i" "is_rearm_pending i"
    and request: "k < length (cl_inflight x)" "owns_response i (cl_inflight x ! k)"
    and answer: "session_step E (ReceiveAnswer k path reply) x y" "confirms E path reply"
  shows "\<exists>i'. ac_session (cl_client y) = Some i' \<and> \<not> is_rearm_pending i'
    \<and> as_session (is_context i') = as_session (is_context i)
    \<and> as_token (is_context i') \<notin> as_token ` set (cl_notices y)
    \<and> (\<forall>j\<in>set (cl_inflight y). \<not> owns_response i' j)"
proof -
  have not_expired: "\<not> expires E reply"
    using answer(2) by (auto simp: confirms_def expires_def split: wire_reply.splits result.splits)
  from answer(1) obtain r a seen where
    parse: "parse_response E recording_observer reply path (Some (cl_inflight x ! k)) (cl_client x, cl_notices x) = (r, a, seen)"
    and y: "y = x\<lparr>cl_client := a, cl_notices := seen\<rparr>"
    by (auto elim: session_stepE)
  have a: "a = confirm_authenticated_private_response E (cl_inflight x ! k) (cl_client x)" "seen = cl_notices x"
    using answer_effect [OF parse] not_expired answer(2) by simp_all
  let ?t = "ae_uuid E (ac_drawn (cl_client x))"
  have fresh: "?t \<notin> drawn_uuids E (cl_client x)" using assms(1) by (auto simp: drawn_uuids_def inj_def)
  have seen: "\<forall>c\<in>set (cl_notices x). as_token c \<noteq> ?t"
    using started_run(2) [OF run] fresh by (auto simp: identifiers_drawn_def)
  have sent: "as_token (is_context j) \<noteq> ?t" if "j \<in> set (cl_inflight x)" for j
    using started_run(2) [OF run] fresh that by (auto simp: identifiers_drawn_def)
  let ?i = "i\<lparr>is_context := (is_context i)\<lparr>as_token := ?t\<rparr>, is_rearm_pending := False\<rparr>"
  have "\<not> owns_response ?i j" if "j \<in> set (cl_inflight x)" for j
    using sent [OF that] by (cases "is_context j"; cases "is_context i") (auto simp: owns_response_def)
  moreover have "ac_session (cl_client y) = Some ?i"
    using current request(2) a y by (simp add: confirm_authenticated_private_response_def Let_def)
  ultimately show ?thesis using seen a(2) y by auto
qed

section \<open>A client on a small exchange\<close>

text \<open>
  The endpoint is any nonempty text, the exchange answers \<^verbatim>\<open>expired\<close> or \<^verbatim>\<open>fine\<close>, and identifiers are
  numbered.
\<close>

definition small_env :: api_env where
  "small_env =
     \<lparr>ae_url_parse = (\<lambda>u. Some \<lparr>u_scheme = ''https'', u_username = [], u_password = None, u_query = None,
         u_fragment = None, u_host = Some u, u_port = None, u_path = []\<rparr>),
      ae_url_set_path = (\<lambda>p u. u\<lparr>u_path := p\<rparr>), ae_url_print = (\<lambda>u. the (u_host u)), ae_url_origin = (\<lambda>u. the (u_host u)),
      ae_hash = id, ae_hmac = (\<lambda>k m. m),
      ae_from_str = (\<lambda>t. if t = ''expired'' then Some (JObject [(''code'', JInt 26200003)])
        else if t = ''fine'' then Some (JObject [(''code'', JInt 0)]) else None),
      ae_to_string = (\<lambda>j. ''{}''), ae_form_urlencoded = (\<lambda>ps. []), ae_status_text = nat_to_string,
      ae_uuid = (\<lambda>i. replicate (Suc i) CHR ''u'')\<rparr>"

lemma small_env_uuids: "inj (ae_uuid small_env)"
  by (auto simp: inj_def small_env_def dest: arg_cong [where f = length])

definition small_credential :: api_credential where
  "small_credential = \<lparr>cr_api_key = ''key'', cr_api_secret = ''secret'', cr_base_url = ''x.io'', cr_label = ''l''\<rparr>"

definition small_session :: session_context where
  "small_session = \<lparr>ses_account_id = ''main'', ses_session_epoch = 1\<rparr>"

definition small_install :: client_event where "small_install = InstallSession small_credential small_session"
definition small_expiry :: client_event where "small_expiry = ReceiveAnswer 0 None (Answer 200 ''expired'')"
definition small_success :: client_event where "small_success = ReceiveAnswer 0 None (Answer 200 ''fine'')"

text \<open>The step as a function, to compute the states of a run.\<close>

fun small_next :: "client_event \<Rightarrow> client_run \<Rightarrow> client_run" where
  "small_next (InstallSession c ctx) x = x\<lparr>cl_client := set_credential_for_session small_env c ctx (cl_client x)\<rparr>"
| "small_next (ReceiveAnswer k path reply) x =
     (case parse_response small_env recording_observer reply path (Some (cl_inflight x ! k)) (cl_client x, cl_notices x) of
        (r, a, seen) \<Rightarrow> x\<lparr>cl_client := a, cl_notices := seen\<rparr>)"
| "small_next SendRequest x = (case ac_session (cl_client x) of Some i \<Rightarrow> x\<lparr>cl_inflight := cl_inflight x @ [i]\<rparr> | None \<Rightarrow> x)"
| "small_next _ x = x"

lemma small_next_step:
  assumes "case ev of InstallSession c ctx \<Rightarrow> True | SendRequest \<Rightarrow> ac_session (cl_client x) \<noteq> None
    | ReceiveAnswer k path reply \<Rightarrow> k < length (cl_inflight x) | _ \<Rightarrow> False"
  shows "session_step small_env ev x (small_next ev x)"
  using assms by (cases ev) (auto split: prod.splits intro: session_step.intros)

definition small_sent :: client_run where
  "small_sent = small_next SendRequest (small_next small_install client_start)"

definition small_expired :: client_run where
  "small_expired = small_next small_expiry small_sent"

lemma small_sent_run: "session_run small_env [small_install, SendRequest] client_start small_sent"
proof -
  have "ac_session (cl_client (small_next small_install client_start)) \<noteq> None" by code_simp
  then have "session_step small_env SendRequest (small_next small_install client_start) small_sent"
    unfolding small_sent_def by (intro small_next_step) simp
  moreover have "session_step small_env small_install client_start (small_next small_install client_start)"
    by (rule small_next_step) (simp add: small_install_def)
  ultimately show ?thesis using session_run.intros [of small_env] by (metis append_Cons append_Nil)
qed

lemma small_sent_one: "length (cl_inflight small_sent) = 1" by code_simp

lemma small_expired_run: "session_run small_env [small_install, SendRequest, small_expiry] client_start small_expired"
proof -
  have "session_step small_env small_expiry small_sent small_expired"
    unfolding small_expired_def by (rule small_next_step) (simp add: small_expiry_def small_sent_one)
  from session_run.step [OF small_sent_run this] show ?thesis by simp
qed

lemma one_step: "session_step E ev x y \<Longrightarrow> session_run E [ev] x y"
  using session_run.step [OF session_run.stop] by force

theorem replaced_session_answers_ignored_witness:
  "\<exists>y. session_step small_env small_install small_sent y \<and> session_step small_env small_expiry y y"
proof (intro exI conjI)
  let ?y = "small_next small_install small_sent"
  show install: "session_step small_env small_install small_sent ?y"
    by (rule small_next_step) (simp add: small_install_def)
  have "length (cl_inflight ?y) = 1" by code_simp
  then have step: "session_step small_env small_expiry ?y (small_next small_expiry ?y)"
    by (intro small_next_step) (simp add: small_expiry_def)
  moreover from step have "small_next small_expiry ?y = ?y"
    using replaced_session_answers_ignored [OF small_env_uuids small_sent_run _ install [unfolded small_install_def]
        session_run.stop] small_sent_one
    by (simp add: small_expiry_def small_install_def)
  ultimately show "session_step small_env small_expiry ?y ?y" by simp
qed

theorem expiry_announced_under_one_token_witness:
  "\<exists>r y new. ac_remembered (cl_client small_expired) = Some r \<and> session_run small_env [small_expiry] small_expired y
     \<and> cl_notices y = cl_notices small_expired @ new \<and> list_all (\<lambda>c. as_token c = rm_token r) new
     \<and> length (cl_notices y) = 2"
proof -
  have "ac_remembered (cl_client small_expired) \<noteq> None" by code_simp
  then obtain r where r: "ac_remembered (cl_client small_expired) = Some r" by blast
  let ?y = "small_next small_expiry small_expired"
  have two: "length (cl_notices ?y) = 2" "length (cl_inflight small_expired) = 1" "\<not> confirms small_env None (Answer 200 ''expired'')"
    by code_simp+
  have "session_step small_env small_expiry small_expired ?y"
    by (rule small_next_step) (simp add: small_expiry_def two)
  then have run: "session_run small_env [small_expiry] small_expired ?y" by (rule one_step)
  have "\<forall>ev\<in>set [small_expiry]. same_episode small_env (rm_fingerprint r) ev"
    using two by (simp add: small_expiry_def same_episode_def)
  from expiry_announced_under_one_token [OF small_expired_run r run this] show ?thesis
    using r run two by (auto simp: list_all_iff)
qed

theorem recovered_session_gets_fresh_token_witness:
  "\<exists>y i'. session_step small_env small_success small_expired y \<and> ac_session (cl_client y) = Some i'
     \<and> cl_notices y \<noteq> [] \<and> as_token (is_context i') \<notin> as_token ` set (cl_notices y)"
proof -
  let ?y = "small_next small_success small_expired"
  have facts: "length (cl_inflight small_expired) = 1" "confirms small_env None (Answer 200 ''fine'')"
    "cl_notices ?y \<noteq> []" "ac_session (cl_client small_expired) \<noteq> None"
    "is_rearm_pending (the (ac_session (cl_client small_expired)))"
    "owns_response (the (ac_session (cl_client small_expired))) (cl_inflight small_expired ! 0)"
    by code_simp+
  have step: "session_step small_env small_success small_expired ?y"
    by (rule small_next_step) (simp add: small_success_def facts)
  from recovered_session_gets_fresh_token [OF small_env_uuids small_expired_run, of
      "the (ac_session (cl_client small_expired))" 0 None "Answer 200 ''fine''" ?y]
  show ?thesis using facts step by (auto simp: small_success_def)
qed

end
