(* ===== verification/Notification_File.thy ===== *)
theory Notification_File
  imports Notification_Policy
begin

text \<open>
  The file of notifications (\<^verbatim>\<open>NotificationFileV1\<close> of \<^verbatim>\<open>storage/notification_store.rs\<close>) and the
  functions of \<^verbatim>\<open>services/notification.rs\<close> that keep it within its limits: pruning, the source-event
  index, eviction, and the record a publication adds.  Hash maps and sets are lists or functions;
  where the source iterates over one, the result does not depend on the order or is sorted.  The
  text of \<^verbatim>\<open>serde_json\<close> is the field \<open>en_file_text\<close> of the environment.
\<close>

section \<open>Data\<close>

record source_index_entry =
  si_scope :: notification_scope
  si_source_event_id :: string
  si_notification_id :: string

record notification_partition =
  np_scope :: notification_scope
  np_items :: "notification_record list"

record notification_file =
  fl_schema_version :: u32
  fl_revision :: u64
  fl_source_event_index :: "source_index_entry list"
  fl_partitions :: "notification_partition list"

definition empty_file :: notification_file where
  "empty_file = \<lparr>fl_schema_version = 1, fl_revision = 0, fl_source_event_index = [], fl_partitions = []\<rparr>"

record cursor =
  cu_version :: nat
  cu_fingerprint :: string
  cu_filter :: notification_filter
  cu_created_at_ms :: u64
  cu_id :: string

record notification_env =
  \<comment> \<open>\<^verbatim>\<open>is_generated_uuid\<close> and \<^verbatim>\<open>is_uuid_v4\<close>\<close>
  en_generated :: "string \<Rightarrow> bool"
  en_uuid_v4 :: "string \<Rightarrow> bool"
  \<comment> \<open>the identifiers drawn, in order, and SHA-256 in hexadecimal\<close>
  en_uuid :: "nat \<Rightarrow> string"
  en_hash :: "string \<Rightarrow> string"
  en_file_text :: "notification_file \<Rightarrow> string"
  en_json_parse :: "string \<Rightarrow> json option"
  en_file_of_json :: "json \<Rightarrow> notification_file option"
  en_cursor_text :: "cursor \<Rightarrow> string"
  en_cursor_parse :: "string \<Rightarrow> cursor option"

definition max_partition_items :: nat where "max_partition_items = 1000"
definition max_source_index_per_scope :: nat where "max_source_index_per_scope = 10000"
definition max_source_index_total :: nat where "max_source_index_total = 50000"
definition max_file_bytes :: nat where "max_file_bytes = 16777216"
definition retention_ms :: u64 where "retention_ms = 7776000000"

definition serialize_file :: "notification_env \<Rightarrow> notification_file \<Rightarrow> string option" where
  "serialize_file V f = (let t = en_file_text V f in if length t \<le> max_file_bytes then Some t else None)"

definition file_fits :: "notification_env \<Rightarrow> notification_file \<Rightarrow> bool" where
  "file_fits V f \<longleftrightarrow> serialize_file V f \<noteq> None"

section \<open>Errors\<close>

definition capacity_error :: notification_error where
  "capacity_error = NotificationError ''NOTIFICATION_FILE_CAPACITY_EXCEEDED'' (utf8 [36890, 30693, 23384, 20648, 23481, 37327, 24050, 28385])"

definition index_capacity_error :: notification_error where
  "index_capacity_error = NotificationError ''NOTIFICATION_SOURCE_INDEX_CAPACITY_EXCEEDED'' (utf8 [36890, 30693, 26469, 28304, 32034, 24341, 23481, 37327, 24050, 28385])"

definition revision_exhausted :: notification_error where
  "revision_exhausted = NotificationError ''NOTIFICATION_REVISION_EXHAUSTED'' (utf8 [36890, 30693, 20462, 35746, 21495, 24050, 36798, 19978, 38480])"

definition occurrence_overflow :: notification_error where
  "occurrence_overflow = NotificationError ''NOTIFICATION_OCCURRENCE_OVERFLOW'' (utf8 [36890, 30693, 20986, 29616, 27425, 25968, 24050, 36798, 19978, 38480])"

definition state_conflict :: notification_error where
  "state_conflict = NotificationError ''NOTIFICATION_STATE_CONFLICT'' (utf8 [36890, 30693, 29366, 24577, 24050, 21457, 29983, 20914, 31361])"

definition msg_record_invalid :: string where "msg_record_invalid = (utf8 [36890, 30693, 35760, 24405, 26080, 25928])"

definition checked_add :: "'a::len word \<Rightarrow> 'a word \<Rightarrow> 'a word option" where
  "checked_add a b = (if unat a + unat b < 2 ^ LENGTH('a) then Some (a + b) else None)"

definition next_revision :: "notification_file \<Rightarrow> u64 \<Rightarrow> (notification_file, notification_error) result" where
  "next_revision f increment =
     (case checked_add (fl_revision f) increment of
        Some r \<Rightarrow> Ok (f\<lparr>fl_revision := r\<rparr>)
      | None \<Rightarrow> Err revision_exhausted)"

section \<open>Mutations\<close>

record housekeeping_mutation =
  mu_affected_count :: nat
  mu_affected_scopes :: "notification_scope list"
  mu_changed :: bool

definition no_mutation :: housekeeping_mutation where
  "no_mutation = \<lparr>mu_affected_count = 0, mu_affected_scopes = [], mu_changed = False\<rparr>"

definition add_scope :: "notification_scope \<Rightarrow> notification_scope list \<Rightarrow> notification_scope list" where
  "add_scope s xs = (if s \<in> set xs then xs else xs @ [s])"

definition note_scope :: "notification_scope \<Rightarrow> housekeeping_mutation \<Rightarrow> housekeeping_mutation" where
  "note_scope s m = m\<lparr>mu_changed := True, mu_affected_scopes := add_scope s (mu_affected_scopes m)\<rparr>"

definition note_removed_record :: "notification_scope \<Rightarrow> housekeeping_mutation \<Rightarrow> housekeeping_mutation" where
  "note_removed_record s m = note_scope s (m\<lparr>mu_affected_count := mu_affected_count m + 1\<rparr>)"

definition note_removed :: "notification_scope list \<Rightarrow> housekeeping_mutation \<Rightarrow> housekeeping_mutation" where
  "note_removed scopes m = fold note_removed_record scopes m"

definition merge_mutation :: "housekeeping_mutation \<Rightarrow> housekeeping_mutation \<Rightarrow> housekeeping_mutation" where
  "merge_mutation m other =
     \<lparr>mu_affected_count = mu_affected_count m + mu_affected_count other,
      mu_affected_scopes = fold add_scope (mu_affected_scopes other) (mu_affected_scopes m),
      mu_changed = (mu_changed m \<or> mu_changed other)\<rparr>"

section \<open>Orders\<close>

definition is_expired :: "notification_record \<Rightarrow> u64 \<Rightarrow> bool" where
  "is_expired r now \<longleftrightarrow> nr_created_at_ms r < saturating_sub now retention_ms"

definition older :: "u64 \<times> string \<Rightarrow> u64 \<times> string \<Rightarrow> bool" where
  "older a b \<longleftrightarrow> fst a < fst b \<or> fst a = fst b \<and> str_less (snd a) (snd b)"

definition age :: "notification_record \<Rightarrow> u64 \<times> string" where
  "age r = (nr_created_at_ms r, nr_id r)"

definition newest_first :: "notification_record list \<Rightarrow> notification_record list" where
  "newest_first xs = sort_by (\<lambda>a b. older (age b) (age a)) xs"

definition scope_less :: "notification_scope \<Rightarrow> notification_scope \<Rightarrow> bool" where
  "scope_less a b =
     (case (a, b) of
        (ScopeGlobal, ScopeGlobal) \<Rightarrow> False
      | (ScopeGlobal, ScopeAccount _) \<Rightarrow> True
      | (ScopeAccount _, ScopeGlobal) \<Rightarrow> False
      | (ScopeAccount x, ScopeAccount y) \<Rightarrow> str_less x y)"

section \<open>The source-event index\<close>

definition record_keys :: "notification_file \<Rightarrow> (notification_scope \<times> string) list" where
  "record_keys f = concat (map (\<lambda>p. map (\<lambda>r. (np_scope p, nr_id r)) (np_items p)) (fl_partitions f))"

definition entry_key :: "source_index_entry \<Rightarrow> notification_scope \<times> string" where
  "entry_key e = (si_scope e, si_notification_id e)"

definition cleanup_source_event_index :: "notification_file \<Rightarrow> notification_scope list \<times> notification_file" where
  "cleanup_source_event_index f =
     (let keep = (\<lambda>e. entry_key e \<in> set (record_keys f)) in
      (fold add_scope (map si_scope (filter (\<lambda>e. \<not> keep e) (fl_source_event_index f))) [],
       f\<lparr>fl_source_event_index := filter keep (fl_source_event_index f)\<rparr>))"

definition rebuild_seen_source_events :: "notification_file \<Rightarrow> (notification_scope \<times> string) set" where
  "rebuild_seen_source_events f = set (map (\<lambda>e. (si_scope e, si_source_event_id e)) (fl_source_event_index f))"

definition in_scope :: "notification_scope option \<Rightarrow> notification_scope \<Rightarrow> bool" where
  "in_scope required s \<longleftrightarrow> (case required of None \<Rightarrow> True | Some x \<Rightarrow> x = s)"

definition find_partition :: "notification_file \<Rightarrow> notification_scope \<Rightarrow> notification_partition option" where
  "find_partition f s = List.find (\<lambda>p. np_scope p = s) (fl_partitions f)"

definition partition_record_count :: "notification_file \<Rightarrow> notification_scope \<Rightarrow> nat" where
  "partition_record_count f s = (case find_partition f s of Some p \<Rightarrow> length (np_items p) | None \<Rightarrow> 0)"

definition remove_empty_partitions :: "notification_file \<Rightarrow> notification_file" where
  "remove_empty_partitions f = f\<lparr>fl_partitions := filter (\<lambda>p. np_items p \<noteq> []) (fl_partitions f)\<rparr>"

section \<open>Eviction\<close>

type_synonym candidate = "u64 \<times> string \<times> notification_scope"

text \<open>The records whose scope and identifier are among the targets leave the file.\<close>

definition drop_targets :: "(notification_scope \<times> string) list \<Rightarrow> notification_file \<Rightarrow> notification_file" where
  "drop_targets targets f =
     f\<lparr>fl_partitions := map (\<lambda>p. p\<lparr>np_items := filter (\<lambda>r. (np_scope p, nr_id r) \<notin> set targets) (np_items p)\<rparr>)
         (fl_partitions f)\<rparr>"

definition drop_entries :: "(notification_scope \<times> string) list \<Rightarrow> notification_file \<Rightarrow> notification_file" where
  "drop_entries targets f =
     f\<lparr>fl_source_event_index := filter (\<lambda>e. entry_key e \<notin> set targets) (fl_source_event_index f)\<rparr>"

definition remove_record_candidates :: "candidate list \<Rightarrow> notification_file \<Rightarrow> notification_file" where
  "remove_record_candidates candidates f =
     (let targets = map (\<lambda>(_, i, s). (s, i)) candidates in
      drop_entries targets (remove_empty_partitions (drop_targets targets f)))"

definition indexed_entries :: "notification_scope option \<Rightarrow> notification_file \<Rightarrow> source_index_entry list" where
  "indexed_entries required f = filter (\<lambda>e. in_scope required (si_scope e)) (fl_source_event_index f)"

definition index_count :: "notification_scope option \<Rightarrow> notification_file \<Rightarrow> notification_scope \<times> string \<Rightarrow> nat" where
  "index_count required f key = length (filter (\<lambda>e. entry_key e = key) (indexed_entries required f))"

definition indexed_candidates ::
  "notification_scope option \<Rightarrow> notification_file \<Rightarrow> (notification_record \<times> nat) list" where
  "indexed_candidates required f =
     concat (map (\<lambda>p. map (\<lambda>r. (r, index_count required f (np_scope p, nr_id r)))
         (filter (\<lambda>r. 0 < index_count required f (np_scope p, nr_id r)) (np_items p)))
       (filter (\<lambda>p. in_scope required (np_scope p)) (fl_partitions f)))"

definition evict_before :: "string option \<Rightarrow> notification_record \<times> nat \<Rightarrow> notification_record \<times> nat \<Rightarrow> bool" where
  "evict_before protected a b =
     (let pa = (protected = Some (nr_id (fst a))); pb = (protected = Some (nr_id (fst b))) in
      if pa \<noteq> pb then pb else older (age (fst a)) (age (fst b)))"

fun select_until :: "nat \<Rightarrow> nat \<Rightarrow> (notification_record \<times> nat) list \<Rightarrow> notification_record list" where
  "select_until limit current [] = []"
| "select_until limit current ((r, n) # rest) =
     r # (if current - n \<le> limit then [] else select_until limit (current - n) rest)"

definition evict_indexed_records_to_limit ::
  "notification_scope option \<Rightarrow> nat \<Rightarrow> string option \<Rightarrow> notification_file
     \<Rightarrow> notification_record list \<times> notification_file" where
  "evict_indexed_records_to_limit required limit protected f =
     (let current = length (indexed_entries required f) in
      if current \<le> limit then ([], f)
      else
        let selected = select_until limit current (sort_by (evict_before protected) (indexed_candidates required f));
            targets = map (\<lambda>r. (nr_scope r, nr_id r)) selected;
            g = drop_targets targets f
        in (selected, drop_entries targets
              (g\<lparr>fl_partitions := filter (\<lambda>p. np_items p \<noteq> [] \<or> np_scope p \<notin> nr_scope ` set selected)
                   (fl_partitions g)\<rparr>)))"

definition evict_noting ::
  "notification_scope option \<Rightarrow> nat \<Rightarrow> string option \<Rightarrow> notification_file \<times> housekeeping_mutation
     \<Rightarrow> notification_file \<times> housekeeping_mutation" where
  "evict_noting required limit protected fm =
     (case evict_indexed_records_to_limit required limit protected (fst fm) of
        (selected, f) \<Rightarrow> (f, note_removed (map nr_scope selected) (snd fm)))"

definition over_limit_scopes :: "notification_file \<Rightarrow> notification_scope list" where
  "over_limit_scopes f =
     sort_by scope_less (filter (\<lambda>s. max_source_index_per_scope < length (indexed_entries (Some s) f))
       (remdups (map si_scope (fl_source_event_index f))))"

definition enforce_source_index_caps ::
  "notification_file \<times> housekeeping_mutation \<Rightarrow> notification_file \<times> housekeeping_mutation" where
  "enforce_source_index_caps fm =
     (let fm = fold (\<lambda>s. evict_noting (Some s) max_source_index_per_scope None) (over_limit_scopes (fst fm)) fm in
      if max_source_index_total < length (fl_source_event_index (fst fm))
      then evict_noting None max_source_index_total None fm else fm)"

text \<open>The oldest record of the file, or of one scope, with its place.\<close>

definition record_places ::
  "notification_scope option \<Rightarrow> notification_file \<Rightarrow> (nat \<times> nat \<times> notification_record) list" where
  "record_places required f =
     concat (map (\<lambda>(i, p). if in_scope required (np_scope p) then map (\<lambda>(j, r). (i, j, r)) (enumerate 0 (np_items p)) else [])
       (enumerate 0 (fl_partitions f)))"

fun oldest_place ::
  "(nat \<times> nat \<times> notification_record) option \<Rightarrow> (nat \<times> nat \<times> notification_record) list
     \<Rightarrow> (nat \<times> nat \<times> notification_record) option" where
  "oldest_place best [] = best"
| "oldest_place best (c # cs) =
     oldest_place (case best of
         None \<Rightarrow> Some c
       | Some b \<Rightarrow> if older (age (snd (snd c))) (age (snd (snd b))) then Some c else Some b) cs"

definition remove_at :: "nat \<Rightarrow> 'a list \<Rightarrow> 'a list" where
  "remove_at i xs = take i xs @ drop (Suc i) xs"

definition evict_oldest_record ::
  "notification_scope option \<Rightarrow> notification_file \<Rightarrow> (notification_scope \<times> notification_file) option" where
  "evict_oldest_record required f =
     (case oldest_place None (record_places required f) of
        None \<Rightarrow> None
      | Some (i, j, _) \<Rightarrow>
          let p = fl_partitions f ! i; q = p\<lparr>np_items := remove_at j (np_items p)\<rparr> in
          Some (np_scope p,
            snd (cleanup_source_event_index
              (f\<lparr>fl_partitions := (if np_items q = [] then remove_at i (fl_partitions f)
                  else (fl_partitions f)[i := q])\<rparr>))))"

section \<open>Pruning\<close>

definition prune_items :: "u64 \<Rightarrow> notification_record list \<Rightarrow> notification_record list" where
  "prune_items now items =
     (let kept = filter (\<lambda>r. \<not> is_expired r now) items in
      if max_partition_items < length kept then take max_partition_items (newest_first kept) else kept)"

definition is_orphan :: "string list \<Rightarrow> notification_scope \<Rightarrow> bool" where
  "is_orphan configured s = (case s of ScopeGlobal \<Rightarrow> False | ScopeAccount a \<Rightarrow> a \<notin> set configured)"

definition note_orphan :: "notification_partition \<Rightarrow> housekeeping_mutation \<Rightarrow> housekeeping_mutation" where
  "note_orphan p m =
     (if np_items p = [] then note_scope (np_scope p) m
      else note_removed (map (\<lambda>_. np_scope p) (np_items p)) m)"

definition prune_file ::
  "string list option \<Rightarrow> u64 \<Rightarrow> notification_file \<Rightarrow> notification_file \<times> housekeeping_mutation" where
  "prune_file configured now f =
     (let pruned = map (\<lambda>p. p\<lparr>np_items := prune_items now (np_items p)\<rparr>) (fl_partitions f);
          m = fold (\<lambda>p. note_removed (replicate (length (np_items p) - length (prune_items now (np_items p))) (np_scope p)))
                (fl_partitions f) no_mutation;
          orphan = (\<lambda>p. case configured of None \<Rightarrow> False | Some accounts \<Rightarrow> is_orphan accounts (np_scope p));
          m = fold note_orphan (filter orphan pruned) m;
          kept = filter (\<lambda>p. \<not> orphan p) pruned;
          f = f\<lparr>fl_partitions := filter (\<lambda>p. np_items p \<noteq> [] \<or> np_scope p \<notin> set (mu_affected_scopes m)) kept\<rparr>
      in case cleanup_source_event_index f of
           (scopes, f) \<Rightarrow> enforce_source_index_caps (f, fold note_scope scopes m))"

section \<open>Fitting the file\<close>

definition oldest_candidates :: "(string \<Rightarrow> bool) \<Rightarrow> notification_file \<Rightarrow> candidate list" where
  "oldest_candidates eligible f =
     sort_by (\<lambda>a b. older (fst a, fst (snd a)) (fst b, fst (snd b)))
       (concat (map (\<lambda>p. map (\<lambda>r. (nr_created_at_ms r, nr_id r, np_scope p))
           (filter (\<lambda>r. eligible (nr_id r)) (np_items p))) (fl_partitions f)))"

text \<open>The least number of candidates between two bounds, by halving, and an upper bound by doubling.\<close>

function bisect :: "(nat \<Rightarrow> (bool, 'e) result) \<Rightarrow> nat \<Rightarrow> nat \<Rightarrow> (nat, 'e) result" where
  "bisect fits lower upper =
     (if lower + 1 < upper
      then let middle = lower + (upper - lower) div 2 in
           bind_result (fits middle) (\<lambda>b. if b then bisect fits lower middle else bisect fits middle upper)
      else Ok upper)"
  by pat_completeness auto
termination by (relation "measure (\<lambda>(_, lower, upper). upper - lower)") auto

declare bisect.simps [simp del]

function gallop :: "(nat \<Rightarrow> (bool, 'e) result) \<Rightarrow> 'e \<Rightarrow> nat \<Rightarrow> nat \<Rightarrow> nat \<Rightarrow> (nat \<times> nat, 'e) result" where
  "gallop fits full n lower upper =
     bind_result (fits upper) (\<lambda>b.
       if b then Ok (lower, upper)
       else if n \<le> upper \<or> upper = 0 then Err full
       else gallop fits full n upper (min (upper * 2) n))"
  by pat_completeness auto
termination by (relation "measure (\<lambda>(_, _, n, _, upper). n - upper)") auto

declare gallop.simps [simp del]

definition serialized_file_fits_after_eviction ::
  "notification_env \<Rightarrow> notification_file \<Rightarrow> candidate list \<Rightarrow> u64 \<Rightarrow> (bool, notification_error) result" where
  "serialized_file_fits_after_eviction V original candidates increment =
     bind_result (next_revision (remove_record_candidates candidates original) increment)
       (\<lambda>trial. Ok (file_fits V trial))"

definition enforce_serialized_file_cap ::
  "notification_env \<Rightarrow> bool \<Rightarrow> notification_file \<times> housekeeping_mutation
     \<Rightarrow> (notification_file \<times> housekeeping_mutation, notification_error) result" where
  "enforce_serialized_file_cap V persists fm =
     (let (f, m) = fm in
      bind_result (serialized_file_fits_after_eviction V f [] (if persists \<and> mu_changed m then 1 else 0)) (\<lambda>fits.
      if fits then Ok (f, m)
      else
        let candidates = oldest_candidates (\<lambda>_. True) f;
            probe = (\<lambda>k. serialized_file_fits_after_eviction V f (take k candidates) (if persists then 1 else 0)) in
        if candidates = [] then Err capacity_error
        else
          bind_result (gallop probe capacity_error (length candidates) 0 1) (\<lambda>(lower, upper).
          bind_result (bisect probe lower upper) (\<lambda>k.
          let selected = take k candidates in
          Ok (remove_record_candidates selected f, note_removed (map (snd \<circ> snd) selected) m)))))"

section \<open>Publishing\<close>

record prepared_publish =
  pp_record :: notification_record
  pp_change :: notification_change
  pp_toast :: "toast_candidate option"
  pp_source_entry :: "source_index_entry option"

definition source_key :: "notification_input \<Rightarrow> (notification_scope \<times> string) option" where
  "source_key n = map_option (\<lambda>s. (ni_scope n, s)) (ni_source_event_id n)"

definition find_duplicate :: "notification_file \<Rightarrow> notification_input \<Rightarrow> notification_record option" where
  "find_duplicate f n =
     Option.bind (find_partition f (ni_scope n)) (\<lambda>p. List.find (\<lambda>r. nr_dedupe_key r = ni_dedupe_key n) (np_items p))"

definition can_reduce_source_index_without_record ::
  "notification_file \<Rightarrow> notification_scope option \<Rightarrow> nat \<Rightarrow> string \<Rightarrow> bool" where
  "can_reduce_source_index_without_record f required limit protected \<longleftrightarrow>
     length (indexed_entries required f) \<le> limit
     \<or> length (filter (\<lambda>e. si_notification_id e = protected) (indexed_entries required f)) \<le> limit"

definition place_count :: "notification_file \<Rightarrow> nat" where
  "place_count f = length (record_keys f)"

text \<open>The loop that makes room for a new record in its scope.\<close>

fun make_room ::
  "nat \<Rightarrow> notification_scope \<Rightarrow> notification_file \<times> housekeeping_mutation
     \<Rightarrow> notification_file \<times> housekeeping_mutation" where
  "make_room 0 s fm = fm"
| "make_room (Suc k) s fm =
     (if partition_record_count (fst fm) s < max_partition_items then fm
      else case evict_oldest_record (Some s) (fst fm) of
        None \<Rightarrow> fm
      | Some (scope, f) \<Rightarrow> make_room k s (f, note_removed_record scope (snd fm)))"

definition prepare_file_for_publish ::
  "notification_input \<Rightarrow> u64 \<Rightarrow> notification_file
     \<Rightarrow> (notification_file \<times> housekeeping_mutation, notification_error) result" where
  "prepare_file_for_publish n now f =
     (let (f, m) = prune_file None now f;
          protected = map_option nr_id (find_duplicate f n);
          scope_limit = max_source_index_per_scope - 1;
          total_limit = max_source_index_total - 1 in
      bind_result
        (if ni_source_event_id n = None then Ok (f, m)
         else if (case protected of
                    None \<Rightarrow> False
                  | Some i \<Rightarrow> \<not> can_reduce_source_index_without_record f (Some (ni_scope n)) scope_limit i
                      \<or> \<not> can_reduce_source_index_without_record f None total_limit i)
         then Err index_capacity_error
         else Ok (evict_noting None total_limit protected
                   (evict_noting (Some (ni_scope n)) scope_limit protected (f, m))))
        (\<lambda>(f, m).
          if find_duplicate f n = None then Ok (make_room (Suc (place_count f)) (ni_scope n) (f, m))
          else Ok (f, m)))"

definition prepare_publish_record ::
  "notification_env \<Rightarrow> string \<Rightarrow> notification_file \<Rightarrow> notification_input \<Rightarrow> u64
     \<Rightarrow> (prepared_publish, notification_error) result" where
  "prepare_publish_record V fresh_id f n now =
     (let check = (\<lambda>r. map_err (\<lambda>e. NotificationError (nv_code e) msg_record_invalid) (record_validate (en_generated V) r));
          entry = (\<lambda>r. map_option (\<lambda>(s, source). \<lparr>si_scope = s, si_source_event_id = source, si_notification_id = nr_id r\<rparr>)
             (source_key n)) in
      case find_duplicate f n of
        Some existing \<Rightarrow>
          (case checked_add (nr_occurrence_count existing) 1 of
             None \<Rightarrow> Err occurrence_overflow
           | Some occurrences \<Rightarrow>
               let r = existing\<lparr>nr_category := ni_category n, nr_kind := ni_kind n, nr_severity := ni_severity n,
                     nr_content := ni_content n, nr_entity := ni_entity n, nr_action := ni_action n,
                     nr_occurrence_count := occurrences, nr_updated_at_ms := max now (nr_updated_at_ms existing)\<rparr> in
               bind_result (check r) (\<lambda>_.
               Ok \<lparr>pp_record = r, pp_change = ChangeUpdated, pp_toast = None, pp_source_entry = entry r\<rparr>))
      | None \<Rightarrow>
          let r = \<lparr>nr_id = fresh_id, nr_scope = ni_scope n, nr_category = ni_category n, nr_kind = ni_kind n,
                nr_severity = ni_severity n, nr_content = ni_content n, nr_entity = ni_entity n,
                nr_action = ni_action n, nr_source_event_id = ni_source_event_id n,
                nr_dedupe_key = ni_dedupe_key n, nr_occurrence_count = 1, nr_created_at_ms = now,
                nr_updated_at_ms = now, nr_read_at_ms = None\<rparr>;
              toast = \<lparr>tc_id = nr_id r, tc_scope = nr_scope r, tc_session_epoch = ni_session_epoch n,
                tc_category = nr_category r, tc_severity = nr_severity r, tc_content = nr_content r,
                tc_action = nr_action r\<rparr> in
          bind_result (check r) (\<lambda>_.
          Ok \<lparr>pp_record = r, pp_change = ChangeCreated, pp_toast = Some toast, pp_source_entry = entry r\<rparr>))"

definition push_record :: "notification_record \<Rightarrow> notification_file \<Rightarrow> notification_file" where
  "push_record r f =
     (if find_partition f (nr_scope r) = None
      then f\<lparr>fl_partitions := fl_partitions f @ [\<lparr>np_scope = nr_scope r, np_items = [r]\<rparr>]\<rparr>
      else f\<lparr>fl_partitions := map_first (\<lambda>p. np_scope p = nr_scope r) (\<lambda>p. p\<lparr>np_items := np_items p @ [r]\<rparr>)
               (fl_partitions f)\<rparr>)"

definition apply_prepared_to_file ::
  "prepared_publish \<Rightarrow> notification_file \<Rightarrow> (notification_file, notification_error) result" where
  "apply_prepared_to_file p f =
     bind_result
       (case pp_change p of
          ChangeCreated \<Rightarrow> Ok (push_record (pp_record p) f)
        | ChangeUpdated \<Rightarrow>
            (case Option.bind (find_partition f (nr_scope (pp_record p)))
                (\<lambda>q. List.find (\<lambda>r. nr_id r = nr_id (pp_record p)) (np_items q)) of
               None \<Rightarrow> Err state_conflict
             | Some _ \<Rightarrow>
                 Ok (f\<lparr>fl_partitions := map_first (\<lambda>q. np_scope q = nr_scope (pp_record p))
                   (\<lambda>q. q\<lparr>np_items := map_first (\<lambda>r. nr_id r = nr_id (pp_record p)) (\<lambda>_. pp_record p) (np_items q)\<rparr>)
                   (fl_partitions f)\<rparr>))
        | _ \<Rightarrow> Err state_conflict)
       (\<lambda>f. Ok (case pp_source_entry p of
                  None \<Rightarrow> f
                | Some e \<Rightarrow> f\<lparr>fl_source_event_index := fl_source_event_index f @ [e]\<rparr>))"

definition prepared_file_fits_after_eviction ::
  "notification_env \<Rightarrow> notification_file \<Rightarrow> prepared_publish \<Rightarrow> candidate list \<Rightarrow> u64 \<Rightarrow> (bool, notification_error) result" where
  "prepared_file_fits_after_eviction V original p candidates increment =
     bind_result (apply_prepared_to_file p (remove_record_candidates candidates original)) (\<lambda>trial.
     bind_result (next_revision trial increment) (\<lambda>trial. Ok (file_fits V trial)))"

definition reserve_serialized_capacity_for_publish ::
  "notification_env \<Rightarrow> prepared_publish \<Rightarrow> notification_file \<times> housekeeping_mutation
     \<Rightarrow> (notification_file \<times> housekeeping_mutation, notification_error) result" where
  "reserve_serialized_capacity_for_publish V p fm =
     (let (f, m) = fm in
      bind_result (prepared_file_fits_after_eviction V f p [] (if mu_changed m then 2 else 1)) (\<lambda>fits.
      if fits then Ok (f, m)
      else
        let eligible = (\<lambda>i. \<not> (pp_change p = ChangeUpdated \<and> i = nr_id (pp_record p)));
            candidates = oldest_candidates eligible f;
            probe = (\<lambda>k. prepared_file_fits_after_eviction V f p (take k candidates) 2) in
        if candidates = [] then Err capacity_error
        else
          bind_result (probe (length candidates)) (\<lambda>all.
          if \<not> all then Err capacity_error
          else
            bind_result (bisect probe 0 (length candidates)) (\<lambda>k.
            let selected = take k candidates in
            Ok (remove_record_candidates selected f, note_removed (map (snd \<circ> snd) selected) m)))))"

end
