(* ===== verification/Notification_Store.thy ===== *)
theory Notification_Store
  imports Notification_File
begin

text \<open>
  \<^verbatim>\<open>storage/notification_store.rs\<close>: the notification file on disk, in a main file with a temporary and
  a backup sibling.  A candidate that a newer version of the program wrote is recognised, even from
  the first bytes of a file that is too large to read, and is never overwritten; candidates that
  cannot be decoded are moved aside before the store starts again with an empty file.

  Opening, measuring and reading a file is one system call of the model, and the synchronisation of a
  directory another (the variant for Unix).  The mutex of the store and the log lines have no counterpart.
\<close>

section \<open>Errors\<close>

definition notification_invalid_file :: app_error where
  "notification_invalid_file = EStorage ''INVALID_NOTIFICATION_FILE''"

definition storage_unavailable :: app_error where
  "storage_unavailable = EStorage ''NOTIFICATION_STORAGE_UNAVAILABLE''"

section \<open>Candidates\<close>

datatype file_candidate = CandidateValid notification_file | CandidateFuture u32 | CandidateCorrupt | CandidateOversizedUnknown

definition is_ascii_whitespace :: "char \<Rightarrow> bool" where
  "is_ascii_whitespace c \<longleftrightarrow> byte c \<in> {9, 10, 12, 13, 32}"

definition skip_ascii_whitespace :: "string \<Rightarrow> string" where
  "skip_ascii_whitespace s = dropWhile is_ascii_whitespace s"

text \<open>The digits of a \<^verbatim>\<open>u32\<close>, with the overflow checks of \<^verbatim>\<open>checked_mul\<close> and \<^verbatim>\<open>checked_add\<close>.\<close>

fun sniff_digits :: "nat \<Rightarrow> string \<Rightarrow> (nat \<times> string) option" where
  "sniff_digits value [] = Some (value, [])"
| "sniff_digits value (c # s) =
     (if \<not> is_ascii_digit c then Some (value, c # s)
      else if 2 ^ 32 \<le> value * 10 then None
      else if 2 ^ 32 \<le> value * 10 + (byte c - 48) then None
      else sniff_digits (value * 10 + (byte c - 48)) s)"

definition sniff_leading_schema_version :: "string \<Rightarrow> u32 option" where
  "sniff_leading_schema_version bytes =
     (case skip_ascii_whitespace bytes of
        [] \<Rightarrow> None
      | c # rest \<Rightarrow>
          if c \<noteq> CHR ''{'' then None
          else Option.bind (strip_prefix ([CHR 0x22] @ ''schemaVersion'' @ [CHR 0x22]) (skip_ascii_whitespace rest)) (\<lambda>rest.
          case skip_ascii_whitespace rest of
            [] \<Rightarrow> None
          | c # rest \<Rightarrow>
              if c \<noteq> CHR '':'' then None
              else
                let digits = skip_ascii_whitespace rest in
                Option.bind (sniff_digits 0 digits) (\<lambda>(value, after).
                if length after = length digits then None
                else case after of
                    [] \<Rightarrow> None
                  | c # _ \<Rightarrow> if is_ascii_whitespace c \<or> c = CHR '','' \<or> c = CHR ''}'' then Some (of_nat value) else None)))"

definition max_schema_sniff_bytes :: nat where "max_schema_sniff_bytes = 4096"

definition classify_oversized_prefix :: "string \<Rightarrow> file_candidate" where
  "classify_oversized_prefix bytes =
     (case sniff_leading_schema_version (take max_schema_sniff_bytes bytes) of
        Some v \<Rightarrow> if 1 < v then CandidateFuture v else CandidateCorrupt
      | None \<Rightarrow> CandidateOversizedUnknown)"

section \<open>Validation\<close>

text \<open>
  \<^verbatim>\<open>validate_file\<close>.  Every violation is the same error, so the order of the checks cannot be observed.
\<close>

definition creating_sources :: "notification_file \<Rightarrow> ((notification_scope \<times> string) \<times> string) list" where
  "creating_sources f =
     concat (map (\<lambda>p. List.map_filter (\<lambda>r. map_option (\<lambda>s. ((np_scope p, s), nr_id r)) (nr_source_event_id r)) (np_items p))
       (fl_partitions f))"

definition placed_records :: "notification_file \<Rightarrow> (string \<times> notification_scope \<times> notification_record) list" where
  "placed_records f = concat (map (\<lambda>p. map (\<lambda>r. (nr_id r, np_scope p, r)) (np_items p)) (fl_partitions f))"

definition partition_valid :: "notification_env \<Rightarrow> notification_partition \<Rightarrow> bool" where
  "partition_valid V p \<longleftrightarrow>
     length (np_items p) \<le> max_partition_items
     \<and> is_ok (scope_validate (np_scope p))
     \<and> list_all (\<lambda>r. is_ok (record_validate (en_generated V) r) \<and> nr_scope r = np_scope p) (np_items p)"

definition client_source_target_valid ::
  "notification_env \<Rightarrow> source_index_entry \<Rightarrow> (notification_scope \<times> notification_record) option \<Rightarrow> bool" where
  "client_source_target_valid V e target =
     (if starts_with ''client:'' (si_source_event_id e)
      then (case client_notification_source_parts (en_generated V) (si_source_event_id e) of
              None \<Rightarrow> False
            | Some (_, kind, _) \<Rightarrow>
                (case target of
                   None \<Rightarrow> False
                 | Some (_, r) \<Rightarrow> nr_kind r = kind \<and> nr_source_event_id r = Some (si_source_event_id e)))
      else True)"

definition entry_valid :: "notification_env \<Rightarrow> notification_file \<Rightarrow> source_index_entry \<Rightarrow> bool" where
  "entry_valid V f e =
     (let target = map_of (rev (placed_records f)) (si_notification_id e) in
      is_ok (scope_validate (si_scope e))
      \<and> is_safe_notification_source_event_id (si_source_event_id e)
      \<and> (case target of None \<Rightarrow> False | Some (s, _) \<Rightarrow> s = si_scope e)
      \<and> client_source_target_valid V e target
      \<and> (case map_of (rev (creating_sources f)) (si_scope e, si_source_event_id e) of
           None \<Rightarrow> True
         | Some i \<Rightarrow> i = si_notification_id e))"

definition index_keys :: "notification_file \<Rightarrow> (notification_scope \<times> string) list" where
  "index_keys f = map (\<lambda>e. (si_scope e, si_source_event_id e)) (fl_source_event_index f)"

definition file_valid :: "notification_env \<Rightarrow> notification_file \<Rightarrow> bool" where
  "file_valid V f \<longleftrightarrow>
     fl_schema_version f = 1
     \<and> length (fl_source_event_index f) \<le> max_source_index_total
     \<and> list_all (partition_valid V) (fl_partitions f)
     \<and> distinct (map np_scope (fl_partitions f))
     \<and> distinct (map fst (placed_records f))
     \<and> distinct (map fst (creating_sources f))
     \<and> list_all (entry_valid V f) (fl_source_event_index f)
     \<and> list_all (\<lambda>s. length (indexed_entries (Some s) f) \<le> max_source_index_per_scope) (map si_scope (fl_source_event_index f))
     \<and> distinct (index_keys f)"

definition validate_file :: "notification_env \<Rightarrow> notification_file \<Rightarrow> (unit, app_error) result" where
  "validate_file V f = (if file_valid V f then Ok () else Err notification_invalid_file)"

section \<open>Reading\<close>

definition classify_bytes :: "notification_env \<Rightarrow> string \<Rightarrow> file_candidate" where
  "classify_bytes V bytes =
     (if max_file_bytes < length bytes then classify_oversized_prefix bytes
      else case en_json_parse V bytes of
        None \<Rightarrow> CandidateCorrupt
      | Some value \<Rightarrow>
          (case Option.bind (json_get ''schemaVersion'' value) json_as_u64 of
             None \<Rightarrow> CandidateCorrupt
           | Some n \<Rightarrow>
               if 2 ^ 32 \<le> n then CandidateCorrupt
               else if 1 < n then CandidateFuture (word_of_int n)
               else if n \<noteq> 1 then CandidateCorrupt
               else case en_file_of_json V value of
                 None \<Rightarrow> CandidateCorrupt
               | Some f \<Rightarrow> if is_ok (validate_file V f) then CandidateValid f else CandidateCorrupt))"

definition read_candidate :: "notification_env \<Rightarrow> path \<Rightarrow> disk \<Rightarrow> (file_candidate, io_error) result \<times> disk" where
  "read_candidate V p d = io_bind (fs_read p d) (\<lambda>bytes d. (Ok (classify_bytes V bytes), d))"

definition existing_candidate ::
  "notification_env \<Rightarrow> path \<Rightarrow> disk \<Rightarrow> (file_candidate option, app_error) result \<times> disk" where
  "existing_candidate V p d =
     (case fs_metadata p d of
        (Ok _, d) \<Rightarrow>
          io_bind (io_map_err (\<lambda>_. storage_unavailable) (read_candidate V p d)) (\<lambda>c d. (Ok (Some c), d))
      | (Err e, d) \<Rightarrow> if io_kind e = NotFound then (Ok None, d) else (Err storage_unavailable, d)
      | (Panic, d) \<Rightarrow> (Panic, d))"

fun ensure_supported ::
  "notification_env \<Rightarrow> path list \<Rightarrow> disk \<Rightarrow> (unit, app_error) result \<times> disk" where
  "ensure_supported V [] d = (Ok (), d)"
| "ensure_supported V (p # ps) d =
     io_bind (existing_candidate V p d) (\<lambda>c d.
       case c of
         None \<Rightarrow> ensure_supported V ps d
       | Some CandidateCorrupt \<Rightarrow> ensure_supported V ps d
       | Some (CandidateValid _) \<Rightarrow> (Ok (), d)
       | Some (CandidateFuture _) \<Rightarrow> (Err storage_unavailable, d)
       | Some CandidateOversizedUnknown \<Rightarrow> (Err storage_unavailable, d))"

definition ensure_supported_save_target ::
  "notification_env \<Rightarrow> path \<Rightarrow> disk \<Rightarrow> (unit, app_error) result \<times> disk" where
  "ensure_supported_save_target V p d = ensure_supported V [p, temp_path p, backup_path p] d"

section \<open>Writing\<close>

definition sync_parent_directory :: "disk \<Rightarrow> (unit, app_error) result \<times> disk" where
  "sync_parent_directory d = io_map_err (\<lambda>_. storage_unavailable) (sync_all d)"

definition write_and_sync :: "path \<Rightarrow> string \<Rightarrow> disk \<Rightarrow> (unit, app_error) result \<times> disk" where
  "write_and_sync p bytes d = io_map_err (\<lambda>_. storage_unavailable)
     (io_bind (open_truncate p d) (\<lambda>_ d.
      io_bind (write_all p bytes d) (\<lambda>_ d.
      sync_all d)))"

definition remove_if_present :: "path \<Rightarrow> disk \<Rightarrow> (unit, app_error) result \<times> disk" where
  "remove_if_present p d =
     (case fs_remove_file p d of
        (Ok _, d) \<Rightarrow> sync_parent_directory d
      | (Err e, d) \<Rightarrow> if io_kind e = NotFound then (Ok (), d) else (Err storage_unavailable, d)
      | (Panic, d) \<Rightarrow> (Panic, d))"

definition rename_and_sync :: "path \<Rightarrow> path \<Rightarrow> disk \<Rightarrow> (unit, app_error) result \<times> disk" where
  "rename_and_sync a b d =
     io_bind (io_map_err (\<lambda>_. storage_unavailable) (fs_rename a b d)) (\<lambda>_ d. sync_parent_directory d)"

definition candidate_valid :: "file_candidate option \<Rightarrow> bool" where
  "candidate_valid c = (case c of Some (CandidateValid _) \<Rightarrow> True | _ \<Rightarrow> False)"

text \<open>The promotion of the temporary file; a failed one brings the backup back if there was a valid file.\<close>

definition promote_or_restore :: "path \<Rightarrow> bool \<Rightarrow> disk \<Rightarrow> (unit, app_error) result \<times> disk" where
  "promote_or_restore p restore d =
     (case rename_and_sync (temp_path p) p d of
        (Ok _, d) \<Rightarrow> (Ok (), d)
      | (Err e, d) \<Rightarrow> (Err e, if restore then snd (rename_and_sync (backup_path p) p d) else d)
      | (Panic, d) \<Rightarrow> (Panic, d))"

definition rotate_main :: "path \<Rightarrow> bool \<Rightarrow> disk \<Rightarrow> (unit, app_error) result \<times> disk" where
  "rotate_main p main_valid d =
     (if main_valid
      then io_bind (remove_if_present (backup_path p) d) (\<lambda>_ d. rename_and_sync p (backup_path p) d)
      else remove_if_present p d)"

text \<open>
  The replacement of the document by its new bytes, once it is known which copies are valid.
\<close>

definition replace_document :: "bool \<Rightarrow> bool \<Rightarrow> path \<Rightarrow> string \<Rightarrow> disk \<Rightarrow> (unit, app_error) result \<times> disk" where
  "replace_document main_valid backup_valid p bytes d =
     io_bind (if butlast p = [] then (Ok (), d)
              else io_map_err (\<lambda>_. storage_unavailable) (fs_create_dir_all (butlast p) d)) (\<lambda>_ d.
     io_bind (write_and_sync (temp_path p) bytes d) (\<lambda>_ d.
     io_bind (rotate_main p main_valid d) (\<lambda>_ d.
     promote_or_restore p (main_valid \<or> backup_valid) d)))"

definition save_validated ::
  "notification_env \<Rightarrow> path \<Rightarrow> notification_file \<Rightarrow> disk \<Rightarrow> (unit, app_error) result \<times> disk" where
  "save_validated V p f d =
     io_bind (validate_file V f, d) (\<lambda>_ d.
     io_bind (ensure_supported_save_target V p d) (\<lambda>_ d.
     io_bind (existing_candidate V p d) (\<lambda>main d.
     io_bind (existing_candidate V (backup_path p) d) (\<lambda>backup d.
     io_bind (ok_or (serialize_file V f) notification_invalid_file, d) (\<lambda>bytes d.
     replace_document (candidate_valid main) (candidate_valid backup) p bytes d)))))"

definition store_save ::
  "notification_env \<Rightarrow> path \<Rightarrow> notification_file \<Rightarrow> disk \<Rightarrow> (unit, app_error) result \<times> disk" where
  "store_save V p f d = io_bind (validate_file V f, d) (\<lambda>_ d. save_validated V p f d)"

section \<open>Loading\<close>

datatype recovery_source = RecoveryTemp | RecoveryBackup

datatype load_status = LoadClean | LoadRecovered recovery_source | LoadResetFromCorruption | LoadUnsupportedSchema u32

record write_failure =
  wf_operation :: string
  wf_path_kind :: string

record load_outcome =
  lo_file :: notification_file
  lo_status :: load_status
  lo_write_failures :: "write_failure list"

text \<open>\<^verbatim>\<open>fs::copy\<close>; a failing copy may leave a prefix.\<close>

definition fs_copy :: "path \<Rightarrow> path \<Rightarrow> disk \<Rightarrow> (unit, io_error) result \<times> disk" where
  "fs_copy a b d =
     (case lookup d a of
        Some (File c) \<Rightarrow>
          if lookup d (butlast b) \<noteq> Some Dir then (Err os_not_found, tick d)
          else if lookup d b = Some Dir then (Err os_is_dir, tick d)
          else (case next_fault d of
                  NoFault \<Rightarrow> (Ok (), put b (File c) (tick d))
                | Fails m \<Rightarrow> (Err (IoError OtherKind m), tick d)
                | Partial n m \<Rightarrow> (Err (IoError OtherKind m), put b (File (take n c)) (tick d)))
      | Some _ \<Rightarrow> (Err os_invalid, tick d)
      | None \<Rightarrow> (Err os_not_found, tick d))"

definition evidence_path :: "path \<Rightarrow> nat \<Rightarrow> nat \<Rightarrow> path" where
  "evidence_path p timestamp index =
     sibling_path p (''.corrupt-'' @ nat_to_string timestamp @ ''-'' @ nat_to_string index)"

fun preserve_corrupt_candidates ::
  "nat \<Rightarrow> nat \<Rightarrow> (path \<times> string) list \<Rightarrow> disk \<Rightarrow> (unit, app_error \<times> write_failure) result \<times> disk" where
  "preserve_corrupt_candidates timestamp index [] d = (Ok (), d)"
| "preserve_corrupt_candidates timestamp index ((p, kind) # rest) d =
     (let evidence = evidence_path p timestamp index in
      case fs_rename p evidence d of
        (Ok _, d) \<Rightarrow>
          \<comment> \<open>a failed synchronisation of the directory is only logged\<close>
          preserve_corrupt_candidates timestamp (Suc index) rest (snd (sync_parent_directory d))
      | (Err _, d) \<Rightarrow>
          (case fs_copy p evidence d of
             (Ok _, d) \<Rightarrow> preserve_corrupt_candidates timestamp (Suc index) rest d
           | (Err _, d) \<Rightarrow>
               (Err (storage_unavailable, \<lparr>wf_operation = ''preserve_corrupt'', wf_path_kind = kind\<rparr>), d)
           | (Panic, d) \<Rightarrow> (Panic, d))
      | (Panic, d) \<Rightarrow> (Panic, d))"

definition recovery_source_name :: "recovery_source \<Rightarrow> string" where
  "recovery_source_name s = (case s of RecoveryTemp \<Rightarrow> ''temp'' | RecoveryBackup \<Rightarrow> ''backup'')"

text \<open>Loading fails with an error and the write failures to report.\<close>

definition load_without_write :: "app_error \<Rightarrow> app_error \<times> write_failure list" where
  "load_without_write e = (e, [])"

definition normalize_recovery ::
  "notification_env \<Rightarrow> path \<Rightarrow> notification_file \<Rightarrow> recovery_source option \<Rightarrow> disk \<Rightarrow> load_outcome \<times> disk" where
  "normalize_recovery V p f source d =
     (case source of
        None \<Rightarrow> (\<lparr>lo_file = f, lo_status = LoadClean, lo_write_failures = []\<rparr>, d)
      | Some s \<Rightarrow>
          (case save_validated V p f d of
             (r, d) \<Rightarrow>
               (\<lparr>lo_file = f, lo_status = LoadRecovered s,
                 lo_write_failures = (if r = Err storage_unavailable
                   then [\<lparr>wf_operation = ''normalize_recovery'', wf_path_kind = recovery_source_name s\<rparr>] else [])\<rparr>, d)))"

fun load_notification_candidates ::
  "notification_env \<Rightarrow> path \<Rightarrow> (path \<times> recovery_source option \<times> string) list \<Rightarrow> (path \<times> string) list \<Rightarrow> disk
     \<Rightarrow> (load_outcome + (path \<times> string) list, app_error \<times> write_failure list) result \<times> disk" where
  "load_notification_candidates V main [] corrupt d = (Ok (Inr corrupt), d)"
| "load_notification_candidates V main ((p, source, kind) # rest) corrupt d =
     (case fs_metadata p d of
        (Err e, d) \<Rightarrow>
          if io_kind e = NotFound then load_notification_candidates V main rest corrupt d
          else (Err (load_without_write storage_unavailable), d)
      | (Panic, d) \<Rightarrow> (Panic, d)
      | (Ok _, d) \<Rightarrow>
          (case read_candidate V p d of
             (Ok (CandidateValid f), d) \<Rightarrow>
               (case normalize_recovery V main f source d of (out, d) \<Rightarrow> (Ok (Inl out), d))
           | (Ok (CandidateFuture found), d) \<Rightarrow>
               (Ok (Inl \<lparr>lo_file = empty_file, lo_status = LoadUnsupportedSchema found, lo_write_failures = []\<rparr>), d)
           | (Ok CandidateCorrupt, d) \<Rightarrow> load_notification_candidates V main rest (corrupt @ [(p, kind)]) d
           | (Ok CandidateOversizedUnknown, d) \<Rightarrow> (Err (load_without_write storage_unavailable), d)
           | (Err _, d) \<Rightarrow> (Err (load_without_write storage_unavailable), d)
           | (Panic, d) \<Rightarrow> (Panic, d)))"

definition load_report ::
  "notification_env \<Rightarrow> nat \<Rightarrow> path \<Rightarrow> disk \<Rightarrow> (load_outcome, app_error \<times> write_failure list) result \<times> disk" where
  "load_report V timestamp p d =
     io_bind (load_notification_candidates V p
       [(p, None, ''main''), (temp_path p, Some RecoveryTemp, ''temp''), (backup_path p, Some RecoveryBackup, ''backup'')]
       [] d) (\<lambda>found d.
       case found of
         Inl out \<Rightarrow> (Ok out, d)
       | Inr [] \<Rightarrow> (Ok \<lparr>lo_file = empty_file, lo_status = LoadClean, lo_write_failures = []\<rparr>, d)
       | Inr corrupt \<Rightarrow>
           io_bind (io_map_err (\<lambda>(e, w). (e, [w])) (preserve_corrupt_candidates timestamp 0 corrupt d)) (\<lambda>_ d.
           (Ok \<lparr>lo_file = empty_file, lo_status = LoadResetFromCorruption, lo_write_failures = []\<rparr>, d)))"

end
