(* ===== verification/Notification_History.thy ===== *)
theory Notification_History
  imports Notification_File Order_Execution
begin

text \<open>
  What \<^verbatim>\<open>services/notification.rs\<close> rebuilds from the file when it starts or prunes: the incidents that
  are open, the final states of orders, and a complete source-event index.
\<close>

section \<open>Incidents\<close>

datatype incident_key = IncidentConnection string notification_channel | IncidentEnvironment string string

fun incident_owner :: "incident_key \<Rightarrow> string" where
  "incident_owner (IncidentConnection a c) = a"
| "incident_owner (IncidentEnvironment a k) = a"

record history_edge =
  he_key :: incident_key
  he_incident_id :: string
  he_unavailable :: bool
  he_created_at_ms :: u64
  he_record_id :: string
  he_position :: "nat option"

definition all_records :: "notification_file \<Rightarrow> notification_record list" where
  "all_records f = concat (map np_items (fl_partitions f))"

definition record_by_id :: "notification_file \<Rightarrow> string \<Rightarrow> notification_record option" where
  "record_by_id f i = map_of (rev (map (\<lambda>r. (nr_id r, r)) (all_records f))) i"

text \<open>The place of a record's own source event in the index.\<close>

definition is_creation_entry :: "notification_file \<Rightarrow> string \<Rightarrow> source_index_entry \<Rightarrow> bool" where
  "is_creation_entry f i e \<longleftrightarrow>
     si_notification_id e = i
     \<and> (case record_by_id f i of
          None \<Rightarrow> False
        | Some r \<Rightarrow> nr_scope r = si_scope e \<and> nr_source_event_id r = Some (si_source_event_id e))"

definition incident_creation_position :: "notification_file \<Rightarrow> string \<Rightarrow> nat option" where
  "incident_creation_position f i =
     map_option fst (List.find (\<lambda>(_, e). is_creation_entry f i e) (enumerate 0 (fl_source_event_index f)))"

definition string_param :: "string \<Rightarrow> notification_record \<Rightarrow> string option" where
  "string_param name r =
     (case map_of (nc_params (nr_content r)) name of Some (ScalarString v) \<Rightarrow> Some v | _ \<Rightarrow> None)"

definition edge_key :: "string \<Rightarrow> notification_record \<Rightarrow> incident_key option" where
  "edge_key account r =
     (if nr_kind r \<in> {ConnectionUnavailableKind, ConnectionRecoveredKind} then
        Option.bind (string_param ''channel'' r) (\<lambda>c.
          map_option (IncidentConnection account) (channel_parse c))
      else if nr_kind r \<in> {EnvironmentUnavailableKind, EnvironmentRecoveredKind} then
        map_option (IncidentEnvironment account)
          (case nr_entity r of
             Some e \<Rightarrow> if ne_type e = EntityEnvironment then Some (ne_id e)
               else map_option (\<lambda>v. ''legacy-'' @ v) (string_param ''environment'' r)
           | None \<Rightarrow> map_option (\<lambda>v. ''legacy-'' @ v) (string_param ''environment'' r))
      else None)"

definition third_segment :: "string \<Rightarrow> string option" where
  "third_segment s =
     (let parts = split_on (\<lambda>c. c = CHR '':'') s in
      if 2 < length parts \<and> parts ! 2 \<noteq> [] then Some (parts ! 2) else None)"

definition incident_history_edge :: "notification_record \<Rightarrow> nat option \<Rightarrow> history_edge option" where
  "incident_history_edge r position =
     (case nr_scope r of
        ScopeGlobal \<Rightarrow> None
      | ScopeAccount account \<Rightarrow>
          Option.bind (third_segment (nr_dedupe_key r)) (\<lambda>incident.
          Option.bind (edge_key account r) (\<lambda>key.
          Some \<lparr>he_key = key, he_incident_id = incident,
                he_unavailable = (nr_kind r \<in> {ConnectionUnavailableKind, EnvironmentUnavailableKind}),
                he_created_at_ms = nr_created_at_ms r, he_record_id = nr_id r, he_position = position\<rparr>)))"

definition history_edges :: "notification_file \<Rightarrow> history_edge list" where
  "history_edges f =
     List.map_filter (\<lambda>r. incident_history_edge r (incident_creation_position f (nr_id r))) (all_records f)"

definition fallback_keys :: "history_edge list \<Rightarrow> incident_key list" where
  "fallback_keys edges = remdups (map he_key (filter (\<lambda>e. he_position e = None) edges))"

definition edge_before :: "history_edge \<Rightarrow> history_edge \<Rightarrow> bool" where
  "edge_before a b \<longleftrightarrow>
     he_created_at_ms a < he_created_at_ms b
     \<or> he_created_at_ms a = he_created_at_ms b \<and> str_less (he_record_id a) (he_record_id b)
     \<or> he_created_at_ms a = he_created_at_ms b \<and> he_record_id a = he_record_id b
        \<and> str_less (he_incident_id a) (he_incident_id b)"

definition position_before :: "history_edge \<Rightarrow> history_edge \<Rightarrow> bool" where
  "position_before a b =
     (case (he_position a, he_position b) of
        (Some x, Some y) \<Rightarrow> x < y | (Some x, None) \<Rightarrow> True | (None, _) \<Rightarrow> False)"

fun latest_edge :: "history_edge option \<Rightarrow> history_edge list \<Rightarrow> history_edge option" where
  "latest_edge best [] = best"
| "latest_edge best (e # es) =
     latest_edge (case best of None \<Rightarrow> Some e | Some b \<Rightarrow> if edge_before e b then Some b else Some e) es"

type_synonym incidents = "incident_key \<Rightarrow> string option"

definition apply_edge :: "history_edge \<Rightarrow> incidents \<Rightarrow> incidents" where
  "apply_edge e m =
     (if he_unavailable e then m(he_key e \<mapsto> he_incident_id e)
      else if m (he_key e) = Some (he_incident_id e) then m(he_key e := None) else m)"

definition unclosed_edges :: "incident_key \<Rightarrow> history_edge list \<Rightarrow> history_edge list" where
  "unclosed_edges key edges =
     filter (\<lambda>e. he_key e = key \<and> he_unavailable e
        \<and> \<not> list_ex (\<lambda>x. he_key x = key \<and> \<not> he_unavailable x \<and> he_incident_id x = he_incident_id e) edges) edges"

definition rebuild_active_incidents :: "notification_file \<Rightarrow> incidents" where
  "rebuild_active_incidents f =
     (let edges = sort_by position_before (history_edges f);
          fallback = fallback_keys edges;
          ordered = fold apply_edge (filter (\<lambda>e. he_key e \<notin> set fallback) edges) Map.empty in
      (\<lambda>key. if key \<in> set fallback
             then map_option he_incident_id (latest_edge None (unclosed_edges key edges))
             else ordered key))"

section \<open>The source-event index\<close>

definition channel_tag :: "notification_channel \<Rightarrow> string" where
  "channel_tag c = (case c of ChannelApi \<Rightarrow> ''api'' | ChannelWebsocket \<Rightarrow> ''websocket'')"

definition incident_key_sort_key :: "incident_key \<Rightarrow> string \<times> nat \<times> string" where
  "incident_key_sort_key k =
     (case k of
        IncidentConnection a c \<Rightarrow> (a, 0, channel_tag c)
      | IncidentEnvironment a e \<Rightarrow> (a, 1, e))"

definition incident_key_less :: "incident_key \<Rightarrow> incident_key \<Rightarrow> bool" where
  "incident_key_less x y =
     (let (a, i, s) = incident_key_sort_key x; (b, j, t) = incident_key_sort_key y in
      str_less a b \<or> a = b \<and> i < j \<or> a = b \<and> i = j \<and> str_less s t)"

definition creation_entry :: "notification_file \<Rightarrow> string \<Rightarrow> source_index_entry option" where
  "creation_entry f i =
     map_of (rev (concat (map (\<lambda>p. List.map_filter (\<lambda>r. map_option (\<lambda>source.
         (nr_id r, \<lparr>si_scope = np_scope p, si_source_event_id = source, si_notification_id = nr_id r\<rparr>))
         (nr_source_event_id r)) (np_items p)) (fl_partitions f)))) i"

fun append_creation_entries ::
  "(string \<Rightarrow> source_index_entry option) \<Rightarrow> history_edge list \<Rightarrow> string list \<times> source_index_entry list
     \<Rightarrow> string list \<times> source_index_entry list" where
  "append_creation_entries entries [] s = s"
| "append_creation_entries entries (e # es) (appended, index) =
     append_creation_entries entries es
       (if he_record_id e \<in> set appended then (appended, index)
        else (he_record_id e # appended,
              case entries (he_record_id e) of Some x \<Rightarrow> index @ [x] | None \<Rightarrow> index))"

text \<open>
  The edges of one key in the order their events must have had: recoveries of unknown incidents,
  the closed incidents, then the open ones.
\<close>

definition canonical_edges :: "history_edge list \<Rightarrow> incident_key \<Rightarrow> history_edge list" where
  "canonical_edges edges key =
     (let es = filter (\<lambda>e. he_key e = key) edges;
          down = map he_incident_id (filter he_unavailable es);
          up = map he_incident_id (filter (\<lambda>e. \<not> he_unavailable e) es);
          closed = sort_by str_less (remdups (filter (\<lambda>i. i \<in> set up) down)) in
      sort_by edge_before (filter (\<lambda>e. \<not> he_unavailable e \<and> he_incident_id e \<notin> set down) es)
      @ concat (map (\<lambda>i. sort_by edge_before (filter (\<lambda>e. he_unavailable e \<and> he_incident_id e = i) es)
                     @ sort_by edge_before (filter (\<lambda>e. \<not> he_unavailable e \<and> he_incident_id e = i) es)) closed)
      @ sort_by edge_before (filter (\<lambda>e. he_unavailable e \<and> he_incident_id e \<notin> set up) es))"

definition canonicalize_partial_incident_creation_order :: "notification_file \<Rightarrow> notification_file" where
  "canonicalize_partial_incident_creation_order f =
     (let edges = history_edges f; keys = fallback_keys edges in
      if keys = [] then f
      else
        let entries = creation_entry f;
            ids = map he_record_id (filter (\<lambda>e. he_key e \<in> set keys) edges);
            kept = filter (\<lambda>e. si_notification_id e \<notin> set ids
                \<or> (case entries (si_notification_id e) of
                     None \<Rightarrow> True
                   | Some c \<Rightarrow> si_scope e \<noteq> si_scope c \<or> si_source_event_id e \<noteq> si_source_event_id c))
              (fl_source_event_index f) in
        f\<lparr>fl_source_event_index := snd (append_creation_entries entries
            (concat (map (canonical_edges edges) (sort_by incident_key_less keys))) ([], kept))\<rparr>)"

definition incident_edge_priority :: "notification_kind \<Rightarrow> nat" where
  "incident_edge_priority k =
     (case k of
        ConnectionUnavailableKind \<Rightarrow> 0 | EnvironmentUnavailableKind \<Rightarrow> 0
      | ConnectionRecoveredKind \<Rightarrow> 1 | EnvironmentRecoveredKind \<Rightarrow> 1
      | _ \<Rightarrow> 2)"

definition index_before ::
  "notification_record \<times> notification_scope \<times> string \<Rightarrow> notification_record \<times> notification_scope \<times> string \<Rightarrow> bool" where
  "index_before x y =
     (let (a, s, _) = x; (b, t, _) = y;
          p = incident_edge_priority (nr_kind a); q = incident_edge_priority (nr_kind b) in
      nr_created_at_ms a < nr_created_at_ms b
      \<or> nr_created_at_ms a = nr_created_at_ms b \<and>
         (p < q \<or> p = q \<and> (str_less (nr_id a) (nr_id b) \<or> nr_id a = nr_id b \<and> scope_less s t)))"

definition source_candidates :: "notification_file \<Rightarrow> (notification_record \<times> notification_scope \<times> string) list" where
  "source_candidates f =
     sort_by index_before (concat (map (\<lambda>p. List.map_filter (\<lambda>r.
       map_option (\<lambda>source. (r, np_scope p, source)) (nr_source_event_id r)) (np_items p)) (fl_partitions f)))"

fun missing_entries ::
  "(notification_scope \<times> string) list \<Rightarrow> (notification_record \<times> notification_scope \<times> string) list
     \<Rightarrow> source_index_entry list" where
  "missing_entries indexed [] = []"
| "missing_entries indexed ((r, s, source) # rest) =
     (if (s, source) \<in> set indexed then missing_entries indexed rest
      else \<lparr>si_scope = s, si_source_event_id = source, si_notification_id = nr_id r\<rparr>
           # missing_entries ((s, source) # indexed) rest)"

definition source_index_mutation_since ::
  "source_index_entry list \<Rightarrow> source_index_entry list \<Rightarrow> housekeeping_mutation" where
  "source_index_mutation_since before after =
     (if before = after then no_mutation
      else
        let scopes = remdups_adj (sort_by scope_less (map si_scope (before @ after)));
            m = fold note_scope (filter (\<lambda>s. filter (\<lambda>e. si_scope e = s) before \<noteq> filter (\<lambda>e. si_scope e = s) after) scopes)
              no_mutation in
        if mu_changed m then m else fold note_scope (map si_scope (before @ after)) m)"

definition normalize_source_event_index :: "notification_file \<Rightarrow> notification_file \<times> housekeeping_mutation" where
  "normalize_source_event_index f =
     (let g = canonicalize_partial_incident_creation_order f;
          indexed = map (\<lambda>e. (si_scope e, si_source_event_id e)) (fl_source_event_index g);
          g = g\<lparr>fl_source_event_index := fl_source_event_index g @ missing_entries indexed (source_candidates g)\<rparr> in
      (g, source_index_mutation_since (fl_source_event_index f) (fl_source_event_index g)))"

section \<open>Orders\<close>

record observed_order_state =
  os_status :: observed_order_status
  os_terminal_notified :: bool

type_synonym order_states = "string \<times> string \<Rightarrow> observed_order_state option"

definition is_terminal :: "observed_order_status \<Rightarrow> bool" where
  "is_terminal s \<longleftrightarrow> s \<in> {ObsFilled, ObsCanceled, ObsRejected}"

definition order_alias_token :: "notification_env \<Rightarrow> string \<Rightarrow> char \<Rightarrow> string \<Rightarrow> string" where
  "order_alias_token V domain prefix value =
     prefix # en_hash V (''easiflux.notification.order-alias.v1'' @ [char_of (0 :: nat)] @ domain @ [char_of (0 :: nat)] @ value)"

definition msg_observation_identity :: string where "msg_observation_identity = (utf8 [35746, 21333, 35266, 23519, 26631, 35782, 26080, 25928])"

definition order_observation_entity_ids ::
  "notification_env \<Rightarrow> order_observation \<Rightarrow> (string list, notification_error) result" where
  "order_observation_entity_ids V ob =
     (let ids =
        (case oo_order_id ob of
           Some v \<Rightarrow> if trim v \<noteq> [] \<and> length v \<le> 128 \<and> \<not> has_control v
             then [order_alias_token V ''order-id'' CHR ''o'' v] else []
         | None \<Rightarrow> [])
        @ (case oo_submission_id ob of
             Some v \<Rightarrow> if en_uuid_v4 V v then [order_alias_token V ''submission-id'' CHR ''s'' v] else []
           | None \<Rightarrow> [])
        @ (case oo_order_link_id ob of
             Some v \<Rightarrow> if v \<noteq> [] \<and> chars_count v \<le> 36 then [order_alias_token V ''order-link-id'' CHR ''l'' v] else []
           | None \<Rightarrow> []) in
      if ids = [] then Err (NotificationError ''INVALID_NOTIFICATION_CONTENT'' msg_observation_identity)
      else Ok (remdups_adj (sort_by str_less ids)))"

definition persisted_order_aliases_from_source :: "string \<Rightarrow> string list" where
  "persisted_order_aliases_from_source source =
     (case strip_prefix ''order:terminal:'' source of
        None \<Rightarrow> []
      | Some aliases \<Rightarrow>
          filter (\<lambda>a. length a = 65 \<and> hd a \<in> {CHR ''o'', CHR ''s'', CHR ''l''} \<and> list_all is_ascii_hexdigit (tl a))
            (split_on (\<lambda>c. c = CHR '':'') aliases))"

definition persisted_order_aliases :: "notification_env \<Rightarrow> notification_record \<Rightarrow> string list" where
  "persisted_order_aliases V r =
     (let from_source = (case nr_source_event_id r of Some s \<Rightarrow> persisted_order_aliases_from_source s | None \<Rightarrow> []) in
      if from_source \<noteq> [] then from_source
      else List.map_filter (\<lambda>(name, domain, prefix).
        case string_param name r of
          Some v \<Rightarrow> if trim v \<noteq> [] then Some (order_alias_token V domain prefix v) else None
        | None \<Rightarrow> None)
        [(''orderId'', ''order-id'', CHR ''o''), (''submissionId'', ''submission-id'', CHR ''s'')])"

definition terminal_status_of_kind :: "notification_kind \<Rightarrow> observed_order_status option" where
  "terminal_status_of_kind k =
     (case k of
        OrderFilledKind \<Rightarrow> Some ObsFilled | OrderCanceledKind \<Rightarrow> Some ObsCanceled
      | OrderRejectedKind \<Rightarrow> Some ObsRejected | _ \<Rightarrow> None)"

definition record_order_states ::
  "notification_env \<Rightarrow> string \<Rightarrow> notification_record \<Rightarrow> ((string \<times> string) \<times> observed_order_state) list" where
  "record_order_states V account r =
     (case terminal_status_of_kind (nr_kind r) of
        None \<Rightarrow> []
      | Some s \<Rightarrow> map (\<lambda>a. ((account, a), \<lparr>os_status = s, os_terminal_notified = True\<rparr>)) (persisted_order_aliases V r))"

definition rebuild_order_states :: "notification_env \<Rightarrow> notification_file \<Rightarrow> order_states" where
  "rebuild_order_states V f =
     map_of (concat (map (\<lambda>p.
       case np_scope p of
         ScopeGlobal \<Rightarrow> []
       | ScopeAccount account \<Rightarrow> concat (map (record_order_states V account) (np_items p))) (fl_partitions f)))"

end
