(* ===== verification/Notification_Service.thy ===== *)
theory Notification_Service
  imports Notification_Store Notification_History
begin

text \<open>
  The notification service of \<^verbatim>\<open>services/notification.rs\<close>: every operation under its lock, with the disk
  it saves to, the events it emits and the diagnostics of its failure reporter.  An operation builds the
  next state, saves its file and only then replaces the state in memory.

  The world holds the state behind the mutex, the disk, the number of identifiers drawn, the events
  emitted and the reporter.  The emitter's own failure is only logged, so it has no counterpart.
\<close>

section \<open>State\<close>

record service_state =
  st_file :: notification_file
  st_seen_source_events :: "(notification_scope \<times> string) set"
  st_last_pruned_at_ms :: u64
  st_active_incidents :: incidents
  st_order_states :: order_states

record notification_world =
  nw_state :: service_state
  nw_disk :: disk
  nw_drawn :: nat
  nw_events :: "notification_changed_event list"
  \<comment> \<open>the reporter, if there is one, with the instant of its last toast; and what it emitted\<close>
  nw_reporter :: "u64 option option"
  nw_diagnostics :: "bool list"

record publish_outcome =
  po_notification :: "notification_record option"
  po_revision :: string
  po_committed :: bool

record client_publish_result =
  cr_notification :: notification_record
  cr_unread_count :: nat
  cr_revision :: string
  cr_committed :: bool

record prune_outcome =
  pu_affected_count :: nat
  pu_affected_scopes :: "notification_scope list"
  pu_revision :: string

record mutation_result =
  mr_notification :: "notification_record option"
  mr_affected_count :: nat
  mr_affected_scopes :: "notification_scope list"
  mr_unread_count :: nat
  mr_revision :: string

record notification_page =
  pg_items :: "notification_record list"
  pg_next_cursor :: "string option"
  pg_unread_count :: nat
  pg_revision :: string

record notification_summary =
  sm_unread_count :: nat
  sm_revision :: string

datatype availability_state = Available | Unavailable

record connection_observation =
  co_account_id :: string
  co_session_epoch :: u64
  co_channel :: notification_channel
  co_state :: availability_state

record environment_observation =
  eo_account_id :: string
  eo_session_epoch :: u64
  eo_environment_key :: string
  eo_environment :: notification_environment
  eo_state :: availability_state

type_synonym ('a) service_result = "('a, notification_error) result \<times> notification_world"

definition revision_text :: "notification_file \<Rightarrow> string" where
  "revision_text f = nat_to_string (unat (fl_revision f))"

section \<open>Errors\<close>

definition scope_mismatch :: notification_error where
  "scope_mismatch = NotificationError ''NOTIFICATION_SCOPE_MISMATCH'' (utf8 [36890, 30693, 36134, 25143, 33539, 22260, 19981, 21305, 37197])"

definition not_found :: notification_error where
  "not_found = NotificationError ''NOTIFICATION_NOT_FOUND'' (utf8 [36890, 30693, 19981, 23384, 22312])"

definition invalid_cursor :: notification_error where
  "invalid_cursor = NotificationError ''INVALID_NOTIFICATION_CURSOR'' (utf8 [36890, 30693, 28216, 26631, 26080, 25928])"

definition storage_error :: notification_error where
  "storage_error = NotificationError ''NOTIFICATION_STORAGE_UNAVAILABLE'' (utf8 [36890, 30693, 23384, 20648, 19981, 21487, 29992])"

definition unsupported_schema :: notification_error where
  "unsupported_schema = NotificationError ''UNSUPPORTED_NOTIFICATION_SCHEMA'' (utf8 [36890, 30693, 23384, 20648, 29256, 26412, 26242, 19981, 25903, 25345])"

definition content_error :: "string \<Rightarrow> notification_error" where
  "content_error msg = NotificationError ''INVALID_NOTIFICATION_CONTENT'' msg"

definition msg_input_invalid :: string where "msg_input_invalid = (utf8 [36890, 30693, 36755, 20837, 26080, 25928])"
definition msg_epoch_invalid :: string where "msg_epoch_invalid = (utf8 [36890, 30693, 20250, 35805, 20195, 27425, 26080, 25928])"
definition msg_client_input :: string where "msg_client_input = (utf8 [23458, 25143, 31471, 36890, 30693, 36755, 20837, 26080, 25928])"
definition msg_client_source :: string where "msg_client_source = (utf8 [23458, 25143, 31471, 36890, 30693, 26469, 28304, 26080, 25928])"
definition msg_query_invalid :: string where "msg_query_invalid = (utf8 [36890, 30693, 26597, 35810, 35831, 27714, 26080, 25928])"
definition msg_account_scope :: string where "msg_account_scope = (utf8 [36890, 30693, 36134, 25143, 33539, 22260, 26080, 25928])"
definition msg_environment_key :: string where "msg_environment_key = (utf8 [29615, 22659, 26631, 35782, 26080, 25928])"
definition msg_session_token :: string where "msg_session_token = (utf8 [36890, 30693, 20250, 35805, 26631, 35782, 26080, 25928])"
definition msg_filled_id :: string where "msg_filled_id = (utf8 [25104, 20132, 35746, 21333, 26631, 35782, 26080, 25928])"
definition msg_canceled_id :: string where "msg_canceled_id = (utf8 [21462, 28040, 35746, 21333, 26631, 35782, 26080, 25928])"

definition map_persistence_error :: "app_error \<Rightarrow> notification_error" where
  "map_persistence_error e = (if e = storage_unavailable then storage_error else storage_error)"

definition is_retryable_persistence_failure :: "notification_error \<Rightarrow> bool" where
  "is_retryable_persistence_failure e \<longleftrightarrow> nt_code e = ''NOTIFICATION_STORAGE_UNAVAILABLE''"

section \<open>The reporter of storage failures\<close>

definition report :: "u64 \<Rightarrow> notification_world \<Rightarrow> notification_world" where
  "report now w =
     (case nw_reporter w of
        None \<Rightarrow> w
      | Some shown \<Rightarrow>
          let allowed = (case shown of None \<Rightarrow> True | Some t \<Rightarrow> 60000 \<le> saturating_sub now t) in
          w\<lparr>nw_reporter := Some (if allowed then Some now else shown),
            nw_diagnostics := nw_diagnostics w @ [allowed]\<rparr>)"

definition reset_reporter :: "notification_world \<Rightarrow> notification_world" where
  "reset_reporter w = (if nw_reporter w = None then w else w\<lparr>nw_reporter := Some None\<rparr>)"

definition emit :: "notification_changed_event \<Rightarrow> notification_world \<Rightarrow> notification_world" where
  "emit e w = w\<lparr>nw_events := nw_events w @ [e]\<rparr>"

section \<open>Views\<close>

type_synonym view_context = "string option"

definition view_account :: "string \<Rightarrow> (view_context, notification_error) result" where
  "view_account account =
     bind_result (map_err (\<lambda>e. NotificationError (nv_code e) msg_account_scope) (scope_validate (ScopeAccount account)))
       (\<lambda>_. Ok (Some account))"

definition visible :: "view_context \<Rightarrow> notification_scope \<Rightarrow> bool" where
  "visible c s = (case s of ScopeGlobal \<Rightarrow> True | ScopeAccount a \<Rightarrow> c = Some a)"

definition visible_records :: "notification_file \<Rightarrow> view_context \<Rightarrow> notification_record list" where
  "visible_records f c = concat (map np_items (filter (\<lambda>p. visible c (np_scope p)) (fl_partitions f)))"

definition visible_unread_count :: "notification_file \<Rightarrow> view_context \<Rightarrow> u64 \<Rightarrow> nat" where
  "visible_unread_count f c now =
     length (filter (\<lambda>r. nr_read_at_ms r = None \<and> \<not> is_expired r now) (visible_records f c))"

section \<open>Cursors\<close>

definition query_fingerprint :: "view_context \<Rightarrow> string" where
  "query_fingerprint c = (case c of None \<Rightarrow> ''global'' | Some a \<Rightarrow> ''account:'' @ a @ ''|global'')"

definition hex_digit :: "nat \<Rightarrow> char" where
  "hex_digit n = (if n < 10 then char_of (48 + n) else char_of (87 + n))"

definition hex_byte :: "char \<Rightarrow> string" where
  "hex_byte c = [hex_digit (byte c div 16), hex_digit (byte c mod 16)]"

definition encode_cursor :: "notification_env \<Rightarrow> cursor \<Rightarrow> string" where
  "encode_cursor V c = ''n1.'' @ concat (map hex_byte (en_cursor_text V c))"

definition hex_value :: "char \<Rightarrow> nat option" where
  "hex_value c =
     (if is_ascii_digit c then Some (byte c - 48)
      else if 97 \<le> byte c \<and> byte c \<le> 102 then Some (byte c - 87)
      else if 65 \<le> byte c \<and> byte c \<le> 70 then Some (byte c - 55)
      else None)"

text \<open>\<^verbatim>\<open>u8::from_str_radix\<close> on two characters, which accepts a leading plus sign.\<close>

definition hex_pair :: "char \<Rightarrow> char \<Rightarrow> nat option" where
  "hex_pair a b =
     (if a = CHR ''+'' then hex_value b
      else Option.bind (hex_value a) (\<lambda>x. map_option (\<lambda>y. 16 * x + y) (hex_value b)))"

fun decode_hex :: "string \<Rightarrow> string option" where
  "decode_hex [] = Some []"
| "decode_hex [a] = None"
| "decode_hex (a # b # s) =
     Option.bind (hex_pair a b) (\<lambda>n. map_option (\<lambda>t. char_of n # t) (decode_hex s))"

definition decode_cursor ::
  "notification_env \<Rightarrow> string \<Rightarrow> string \<Rightarrow> notification_filter \<Rightarrow> (cursor, notification_error) result" where
  "decode_cursor V encoded fingerprint flt =
     (case strip_prefix ''n1.'' encoded of
        None \<Rightarrow> Err invalid_cursor
      | Some hex \<Rightarrow>
          if hex = [] \<or> \<not> list_all (\<lambda>c. byte c < 128) hex \<or> length hex mod 2 \<noteq> 0 then Err invalid_cursor
          else case decode_hex hex of
            None \<Rightarrow> Err invalid_cursor
          | Some bytes \<Rightarrow>
              (case en_cursor_parse V bytes of
                 None \<Rightarrow> Err invalid_cursor
               | Some c \<Rightarrow>
                   if cu_version c \<noteq> 1 \<or> cu_fingerprint c \<noteq> fingerprint \<or> cu_filter c \<noteq> flt \<or> cu_id c = []
                   then Err invalid_cursor else Ok c))"

section \<open>Queries\<close>

definition list_matching ::
  "notification_file \<Rightarrow> view_context \<Rightarrow> notification_filter \<Rightarrow> cursor option \<Rightarrow> u64 \<Rightarrow> notification_record list" where
  "list_matching f c flt cursor now =
     newest_first (filter (\<lambda>r. \<not> is_expired r now \<and> (flt = FilterAll \<or> nr_read_at_ms r = None)
         \<and> (case cursor of None \<Rightarrow> True | Some k \<Rightarrow> older (age r) (cu_created_at_ms k, cu_id k)))
       (visible_records f c))"

definition page_cursor :: "view_context \<Rightarrow> notification_filter \<Rightarrow> notification_record \<Rightarrow> cursor" where
  "page_cursor c flt r =
     \<lparr>cu_version = 1, cu_fingerprint = query_fingerprint c, cu_filter = flt,
      cu_created_at_ms = nr_created_at_ms r, cu_id = nr_id r\<rparr>"

definition list_notifications ::
  "notification_env \<Rightarrow> view_context \<Rightarrow> list_notifications_request \<Rightarrow> u64 \<Rightarrow> notification_world
     \<Rightarrow> (notification_page, notification_error) result" where
  "list_notifications V c q now w =
     bind_result (map_err (\<lambda>e. NotificationError (nv_code e) msg_query_invalid) (list_request_validate q)) (\<lambda>_.
     if lq_account_id q \<noteq> c then Err scope_mismatch
     else
       bind_result (case lq_cursor q of
           None \<Rightarrow> Ok None
         | Some t \<Rightarrow> bind_result (decode_cursor V t (query_fingerprint c) (lq_filter q)) (\<lambda>k. Ok (Some k))) (\<lambda>cursor.
       let f = st_file (nw_state w);
           matching = list_matching f c (lq_filter q) cursor now;
           limit = unat (lq_limit q);
           items = take limit matching in
       Ok \<lparr>pg_items = items,
           pg_next_cursor = (if limit < length matching \<and> items \<noteq> []
             then Some (encode_cursor V (page_cursor c (lq_filter q) (last items))) else None),
           pg_unread_count = visible_unread_count f c now,
           pg_revision = revision_text f\<rparr>))"

definition summary :: "view_context \<Rightarrow> u64 \<Rightarrow> notification_world \<Rightarrow> notification_summary" where
  "summary c now w =
     (let f = st_file (nw_state w) in
      \<lparr>sm_unread_count = visible_unread_count f c now, sm_revision = revision_text f\<rparr>)"

definition maintenance_due :: "u64 \<Rightarrow> notification_world \<Rightarrow> bool" where
  "maintenance_due now w \<longleftrightarrow> 86400000 \<le> saturating_sub now (st_last_pruned_at_ms (nw_state w))"

section \<open>Saving and committing\<close>

definition save_file ::
  "notification_env \<Rightarrow> path \<Rightarrow> u64 \<Rightarrow> notification_file \<Rightarrow> notification_world \<Rightarrow> unit service_result" where
  "save_file V p now f w =
     (case store_save V p f (nw_disk w) of
        (Ok _, d) \<Rightarrow> (Ok (), reset_reporter (w\<lparr>nw_disk := d\<rparr>))
      | (Err e, d) \<Rightarrow>
          let e = map_persistence_error e; w = w\<lparr>nw_disk := d\<rparr> in
          (Err e, if is_retryable_persistence_failure e then report now w else w)
      | (Panic, d) \<Rightarrow> (Panic, w\<lparr>nw_disk := d\<rparr>))"

text \<open>The common part of \<^verbatim>\<open>commit_file\<close> and \<^verbatim>\<open>commit_publish\<close>; the value is the previous revision.\<close>

definition commit_file ::
  "notification_env \<Rightarrow> path \<Rightarrow> u64 \<Rightarrow> service_state \<Rightarrow> notification_world \<Rightarrow> notification_file service_result" where
  "commit_file V p now next w =
     io_bind (next_revision (st_file next) 1, w) (\<lambda>f w.
     io_bind (save_file V p now f w) (\<lambda>_ w.
     (Ok (st_file next), w\<lparr>nw_state := next\<lparr>st_file := f\<rparr>\<rparr>)))"

definition changed_event ::
  "notification_file \<Rightarrow> notification_world \<Rightarrow> notification_change \<Rightarrow> notification_scope list \<Rightarrow> string option
     \<Rightarrow> toast_candidate option \<Rightarrow> notification_changed_event" where
  "changed_event previous w change scopes i toast =
     \<lparr>ev_previous_revision = revision_text previous, ev_revision = revision_text (st_file (nw_state w)),
      ev_change = change, ev_affected_scopes = scopes, ev_notification_id = i, ev_toast_candidate = toast\<rparr>"

definition no_publish_outcome :: "service_state \<Rightarrow> publish_outcome" where
  "no_publish_outcome s = \<lparr>po_notification = None, po_revision = revision_text (st_file s), po_committed = False\<rparr>"

record publish_mutation =
  pm_record :: "notification_record option"
  pm_change :: "notification_change option"
  pm_toast_candidate :: "toast_candidate option"
  pm_affected_scopes :: "notification_scope list"

definition commit_publish ::
  "notification_env \<Rightarrow> path \<Rightarrow> u64 \<Rightarrow> service_state \<Rightarrow> publish_mutation \<Rightarrow> notification_world \<Rightarrow> publish_outcome service_result" where
  "commit_publish V p now next m w =
     (case pm_record m of
        None \<Rightarrow> (Ok (no_publish_outcome next), w\<lparr>nw_state := next\<rparr>)
      | Some r \<Rightarrow>
          io_bind (commit_file V p now next w) (\<lambda>previous w.
          case pm_change m of
            None \<Rightarrow> (Panic, w)
          | Some change \<Rightarrow>
              (Ok \<lparr>po_notification = Some r, po_revision = revision_text (st_file (nw_state w)), po_committed = True\<rparr>,
               emit (changed_event previous w change (pm_affected_scopes m) (Some (nr_id r)) (pm_toast_candidate m)) w)))"

section \<open>Publishing\<close>

definition validate_publish_input :: "notification_env \<Rightarrow> notification_input \<Rightarrow> (unit, notification_error) result" where
  "validate_publish_input V n =
     bind_result (map_err (\<lambda>e. NotificationError (nv_code e) msg_input_invalid) (input_validate (en_generated V) n)) (\<lambda>_.
     if (case ni_session_epoch n of None \<Rightarrow> False | Some e \<Rightarrow> max_javascript_safe_integer < e)
     then Err (content_error msg_epoch_invalid) else Ok ())"

definition record_for_source :: "notification_file \<Rightarrow> notification_scope \<times> string \<Rightarrow> notification_record option" where
  "record_for_source f source =
     Option.bind (List.find (\<lambda>e. si_scope e = fst source \<and> si_source_event_id e = snd source) (fl_source_event_index f)) (\<lambda>e.
     Option.bind (find_partition f (fst source)) (\<lambda>q.
     List.find (\<lambda>r. nr_id r = si_notification_id e) (np_items q)))"

definition source_seen :: "service_state \<Rightarrow> notification_input \<Rightarrow> bool" where
  "source_seen s n = (case source_key n of None \<Rightarrow> False | Some k \<Rightarrow> k \<in> st_seen_source_events s)"

definition draw_id :: "notification_env \<Rightarrow> notification_world \<Rightarrow> string \<times> notification_world" where
  "draw_id V w = (en_uuid V (nw_drawn w), w\<lparr>nw_drawn := Suc (nw_drawn w)\<rparr>)"

text \<open>
  The parts of \<^verbatim>\<open>prepare_publish_locked\<close>: housekeeping that changed the file is committed and announced
  before the notification itself.
\<close>

definition commit_housekeeping ::
  "notification_env \<Rightarrow> path \<Rightarrow> u64 \<Rightarrow> prepared_publish \<Rightarrow> notification_file \<times> housekeeping_mutation \<Rightarrow> notification_world
     \<Rightarrow> prepared_publish option service_result" where
  "commit_housekeeping V p now prepared fm w =
     (let (f, m) = fm in
      if \<not> mu_changed m then (Ok (Some prepared), w)
      else
        let next = (nw_state w)\<lparr>st_file := f, st_seen_source_events := rebuild_seen_source_events f,
              st_active_incidents := rebuild_active_incidents f\<rparr> in
        io_bind (commit_file V p now next w) (\<lambda>previous w.
        (Ok (Some prepared),
         emit (changed_event previous w ChangeReset (mu_affected_scopes m) None None) w)))"

definition prepare_and_reserve ::
  "notification_env \<Rightarrow> path \<Rightarrow> notification_input \<Rightarrow> u64 \<Rightarrow> string \<Rightarrow> notification_file \<times> housekeeping_mutation
     \<Rightarrow> notification_world \<Rightarrow> prepared_publish option service_result" where
  "prepare_and_reserve V p n now fresh fm w =
     io_bind (prepare_publish_record V fresh (fst fm) n now, w) (\<lambda>prepared w.
     io_bind (reserve_serialized_capacity_for_publish V prepared fm, w) (\<lambda>fm w.
     commit_housekeeping V p now prepared fm w))"

definition prepare_publish_locked ::
  "notification_env \<Rightarrow> path \<Rightarrow> notification_input \<Rightarrow> u64 \<Rightarrow> notification_world \<Rightarrow> prepared_publish option service_result" where
  "prepare_publish_locked V p n now w =
     io_bind (validate_publish_input V n, w) (\<lambda>_ w.
     if source_seen (nw_state w) n then (Ok None, w)
     else
       io_bind (prepare_file_for_publish n now (st_file (nw_state w)), w) (\<lambda>fm w.
       if find_duplicate (fst fm) n = None
       then (let (fresh, w) = draw_id V w in prepare_and_reserve V p n now fresh fm w)
       else prepare_and_reserve V p n now [] fm w))"

definition apply_prepared_publish ::
  "prepared_publish \<Rightarrow> service_state \<Rightarrow> (service_state \<times> publish_mutation, notification_error) result" where
  "apply_prepared_publish prepared next =
     bind_result (apply_prepared_to_file prepared (st_file next)) (\<lambda>f.
     Ok (next\<lparr>st_file := f,
           st_seen_source_events := (case pp_source_entry prepared of
             None \<Rightarrow> st_seen_source_events next
           | Some e \<Rightarrow> insert (si_scope e, si_source_event_id e) (st_seen_source_events next))\<rparr>,
         \<lparr>pm_record = Some (pp_record prepared), pm_change = Some (pp_change prepared),
          pm_toast_candidate = pp_toast prepared, pm_affected_scopes = [nr_scope (pp_record prepared)]\<rparr>))"

text \<open>
  The tail of every publishing operation: prepare, let the operation adjust the next state, apply and
  commit.
\<close>

definition publish_unseen ::
  "notification_env \<Rightarrow> path \<Rightarrow> notification_input \<Rightarrow> u64 \<Rightarrow> (service_state \<Rightarrow> service_state) \<Rightarrow> notification_world
     \<Rightarrow> publish_outcome service_result" where
  "publish_unseen V p n now adjust w =
     io_bind (prepare_publish_locked V p n now w) (\<lambda>prepared w.
     case prepared of
       None \<Rightarrow> (Ok (no_publish_outcome (nw_state w)), w)
     | Some prepared \<Rightarrow>
         io_bind (apply_prepared_publish prepared (adjust (nw_state w)), w) (\<lambda>(next, m) w.
         commit_publish V p now next m w))"

definition publish ::
  "notification_env \<Rightarrow> path \<Rightarrow> notification_input \<Rightarrow> u64 \<Rightarrow> notification_world \<Rightarrow> publish_outcome service_result" where
  "publish V p n now w =
     io_bind (validate_publish_input V n, w) (\<lambda>_ w.
     case source_key n of
       None \<Rightarrow> publish_unseen V p n now (\<lambda>s. s) w
     | Some source \<Rightarrow>
         if source \<in> st_seen_source_events (nw_state w)
         then (bind_result (ok_or (record_for_source (st_file (nw_state w)) source) state_conflict) (\<lambda>r.
                 Ok \<lparr>po_notification = Some r, po_revision = revision_text (st_file (nw_state w)), po_committed = False\<rparr>), w)
         else publish_unseen V p n now (\<lambda>s. s) w)"

definition publish_client_account_failure ::
  "notification_env \<Rightarrow> path \<Rightarrow> notification_input \<Rightarrow> u64 \<Rightarrow> notification_world \<Rightarrow> client_publish_result service_result" where
  "publish_client_account_failure V p n now w =
     io_bind (validate_publish_input V n, w) (\<lambda>_ w.
     if ni_kind n \<notin> {AccountRecoveryFailedKind, AccountReconciliationFailedKind}
     then (Err (content_error msg_client_input), w)
     else case ni_scope n of
       ScopeGlobal \<Rightarrow> (Err (content_error msg_client_input), w)
     | ScopeAccount account \<Rightarrow>
         io_bind (view_account account, w) (\<lambda>context w.
         io_bind (ok_or (source_key n) (content_error msg_client_source), w) (\<lambda>source w.
         let f = st_file (nw_state w) in
         if source \<in> st_seen_source_events (nw_state w)
         then (bind_result (ok_or (record_for_source f source) state_conflict) (\<lambda>r.
                 if \<not> client_notification_record_matches_input (en_generated V) r n then Err state_conflict
                 else Ok \<lparr>cr_notification = r, cr_unread_count = visible_unread_count f context now,
                          cr_revision = revision_text f, cr_committed = False\<rparr>), w)
         else
           io_bind (prepare_publish_locked V p n now w) (\<lambda>prepared w.
           io_bind (ok_or prepared state_conflict, w) (\<lambda>prepared w.
           io_bind (apply_prepared_publish prepared (nw_state w), w) (\<lambda>(next, m) w.
           io_bind (commit_publish V p now next m w) (\<lambda>out w.
           (bind_result (ok_or (po_notification out) state_conflict) (\<lambda>r.
              Ok \<lparr>cr_notification = r, cr_unread_count = visible_unread_count (st_file (nw_state w)) context now,
                  cr_revision = po_revision out, cr_committed = True\<rparr>), w))))))))"

section \<open>Reading and deleting\<close>

definition find_record_index :: "notification_file \<Rightarrow> string \<Rightarrow> (nat \<times> nat \<times> notification_record) option" where
  "find_record_index f i = List.find (\<lambda>(_, _, r). nr_id r = i) (record_places None f)"

definition unchanged_result :: "service_state \<Rightarrow> view_context \<Rightarrow> u64 \<Rightarrow> notification_record option \<Rightarrow> mutation_result" where
  "unchanged_result s c now r =
     \<lparr>mr_notification = r, mr_affected_count = 0, mr_affected_scopes = [],
      mr_unread_count = visible_unread_count (st_file s) c now, mr_revision = revision_text (st_file s)\<rparr>"

text \<open>Committing a change of the file, with its event and the answer to the caller.\<close>

definition commit_mutation ::
  "notification_env \<Rightarrow> path \<Rightarrow> u64 \<Rightarrow> view_context \<Rightarrow> service_state \<Rightarrow> notification_change \<Rightarrow> string option
     \<Rightarrow> notification_record option \<Rightarrow> nat \<Rightarrow> notification_scope list \<Rightarrow> notification_world \<Rightarrow> mutation_result service_result" where
  "commit_mutation V p now c next change i r count scopes w =
     io_bind (commit_file V p now next w) (\<lambda>previous w.
     (Ok \<lparr>mr_notification = r, mr_affected_count = count, mr_affected_scopes = scopes,
          mr_unread_count = visible_unread_count (st_file (nw_state w)) c now,
          mr_revision = revision_text (st_file (nw_state w))\<rparr>,
      emit (changed_event previous w change scopes i None) w))"

definition set_read :: "u64 \<Rightarrow> notification_record \<Rightarrow> notification_record" where
  "set_read now r = r\<lparr>nr_read_at_ms := Some (max now (nr_created_at_ms r)), nr_updated_at_ms := max (nr_updated_at_ms r) now\<rparr>"

definition holds_record :: "string \<Rightarrow> notification_partition \<Rightarrow> bool" where
  "holds_record i q = list_ex (\<lambda>r. nr_id r = i) (np_items q)"

definition find_record_mut :: "notification_file \<Rightarrow> string \<Rightarrow> (notification_scope \<times> notification_record) option" where
  "find_record_mut f i =
     Option.bind (List.find (holds_record i) (fl_partitions f)) (\<lambda>q.
     map_option (\<lambda>r. (np_scope q, r)) (List.find (\<lambda>r. nr_id r = i) (np_items q)))"

definition update_record :: "string \<Rightarrow> (notification_record \<Rightarrow> notification_record) \<Rightarrow> notification_file \<Rightarrow> notification_file" where
  "update_record i h f =
     f\<lparr>fl_partitions := map_first (holds_record i) (\<lambda>q. q\<lparr>np_items := map_first (\<lambda>r. nr_id r = i) h (np_items q)\<rparr>)
         (fl_partitions f)\<rparr>"

definition mark_read ::
  "notification_env \<Rightarrow> path \<Rightarrow> view_context \<Rightarrow> string \<Rightarrow> u64 \<Rightarrow> notification_world \<Rightarrow> mutation_result service_result" where
  "mark_read V p c i now w =
     (let s = nw_state w in
      case find_record_mut (st_file s) i of
        None \<Rightarrow> (Err not_found, w)
      | Some (scope, r) \<Rightarrow>
          if \<not> visible c scope then (Err scope_mismatch, w)
          else if nr_read_at_ms r \<noteq> None then (Ok (unchanged_result s c now (Some r)), w)
          else commit_mutation V p now c (s\<lparr>st_file := update_record i (set_read now) (st_file s)\<rparr>)
                 ChangeUpdated (Some i) (Some (set_read now r)) 1 [scope] w)"

definition unread :: "u64 \<Rightarrow> notification_record \<Rightarrow> bool" where
  "unread now r \<longleftrightarrow> nr_read_at_ms r = None \<and> \<not> is_expired r now"

definition mark_partition :: "view_context \<Rightarrow> u64 \<Rightarrow> notification_partition \<Rightarrow> notification_partition" where
  "mark_partition c now q =
     (if visible c (np_scope q)
      then q\<lparr>np_items := map (\<lambda>r. if unread now r then set_read now r else r) (np_items q)\<rparr> else q)"

definition mark_visible_read ::
  "notification_env \<Rightarrow> path \<Rightarrow> view_context \<Rightarrow> u64 \<Rightarrow> notification_world \<Rightarrow> mutation_result service_result" where
  "mark_visible_read V p c now w =
     (let s = nw_state w; f = st_file s;
          shown = filter (\<lambda>q. visible c (np_scope q)) (fl_partitions f);
          count = length (filter (unread now) (concat (map np_items shown)));
          scopes = map np_scope (filter (\<lambda>q. list_ex (unread now) (np_items q)) shown) in
      if count = 0 then (Ok (unchanged_result s c now None), w)
      else commit_mutation V p now c (s\<lparr>st_file := f\<lparr>fl_partitions := map (mark_partition c now) (fl_partitions f)\<rparr>\<rparr>)
             ChangeUpdated None None count scopes w)"

text \<open>A file that lost records: the index is cleaned and the set of sources rebuilt.\<close>

definition with_cleaned_file :: "notification_file \<Rightarrow> service_state \<Rightarrow> service_state" where
  "with_cleaned_file f s =
     (let f = snd (cleanup_source_event_index f) in
      s\<lparr>st_file := f, st_seen_source_events := rebuild_seen_source_events f\<rparr>)"

definition remove_place :: "nat \<Rightarrow> nat \<Rightarrow> notification_file \<Rightarrow> notification_file" where
  "remove_place i j f =
     (let q = fl_partitions f ! i in
      f\<lparr>fl_partitions := (fl_partitions f)[i := q\<lparr>np_items := remove_at j (np_items q)\<rparr>]\<rparr>)"

definition delete_visible ::
  "notification_env \<Rightarrow> path \<Rightarrow> view_context \<Rightarrow> string \<Rightarrow> u64 \<Rightarrow> notification_world \<Rightarrow> mutation_result service_result" where
  "delete_visible V p c i now w =
     (let s = nw_state w in
      case find_record_index (st_file s) i of
        None \<Rightarrow> (Err not_found, w)
      | Some (a, b, _) \<Rightarrow>
          let scope = np_scope (fl_partitions (st_file s) ! a) in
          if \<not> visible c scope then (Err scope_mismatch, w)
          else commit_mutation V p now c (with_cleaned_file (remove_empty_partitions (remove_place a b (st_file s))) s)
                 ChangeRemoved (Some i) None 1 [scope] w)"

definition without_partition :: "notification_scope \<Rightarrow> notification_file \<Rightarrow> notification_file" where
  "without_partition scope f = f\<lparr>fl_partitions := filter (\<lambda>q. np_scope q \<noteq> scope) (fl_partitions f)\<rparr>"

definition clear_account ::
  "notification_env \<Rightarrow> path \<Rightarrow> string \<Rightarrow> string \<Rightarrow> u64 \<Rightarrow> notification_world \<Rightarrow> mutation_result service_result" where
  "clear_account V p active requested now w =
     io_bind (view_account active, w) (\<lambda>context w.
     if active \<noteq> requested then (Err scope_mismatch, w)
     else
       let scope = ScopeAccount requested; s = nw_state w; count = partition_record_count (st_file s) scope in
       if count = 0 then (Ok (unchanged_result s context now None), w)
       else commit_mutation V p now context (with_cleaned_file (without_partition scope (st_file s)) s)
              ChangeReset None None count [scope] w)"

section \<open>Maintenance\<close>

definition prune ::
  "notification_env \<Rightarrow> path \<Rightarrow> string list \<Rightarrow> u64 \<Rightarrow> notification_world \<Rightarrow> prune_outcome service_result" where
  "prune V p configured now w =
     io_bind (enforce_serialized_file_cap V True (prune_file (Some configured) now (st_file (nw_state w))), w) (\<lambda>(f, m) w.
     let s = nw_state w;
         next = s\<lparr>st_file := f, st_last_pruned_at_ms := now, st_seen_source_events := rebuild_seen_source_events f,
           st_active_incidents := rebuild_active_incidents f,
           st_order_states := (\<lambda>k. if fst k \<in> set configured then st_order_states s k else None)\<rparr> in
     if \<not> mu_changed m
     then (Ok \<lparr>pu_affected_count = 0, pu_affected_scopes = mu_affected_scopes m, pu_revision = revision_text f\<rparr>,
           w\<lparr>nw_state := next\<rparr>)
     else io_bind (commit_file V p now next w) (\<lambda>previous w.
       (Ok \<lparr>pu_affected_count = mu_affected_count m, pu_affected_scopes = mu_affected_scopes m,
            pu_revision = revision_text (st_file (nw_state w))\<rparr>,
        emit (changed_event previous w ChangeReset (mu_affected_scopes m) None None) w)))"

definition delete_account_partition ::
  "notification_env \<Rightarrow> path \<Rightarrow> string \<Rightarrow> u64 \<Rightarrow> notification_world \<Rightarrow> unit service_result" where
  "delete_account_partition V p account now w =
     io_bind (view_account account, w) (\<lambda>_ w.
     let scope = ScopeAccount account; s = nw_state w;
         existed = list_ex (\<lambda>q. np_scope q = scope) (fl_partitions (st_file s));
         next = (with_cleaned_file (without_partition scope (st_file s)) s)
           \<lparr>st_active_incidents := (\<lambda>k. if incident_owner k \<noteq> account then st_active_incidents s k else None),
            st_order_states := (\<lambda>k. if fst k \<noteq> account then st_order_states s k else None)\<rparr> in
     if \<not> existed then (Ok (), w\<lparr>nw_state := next\<rparr>)
     else io_bind (commit_file V p now next w) (\<lambda>previous w.
       (Ok (), emit (changed_event previous w ChangeReset [scope] None None) w)))"

section \<open>Incidents\<close>

text \<open>
  An unavailable observation opens an incident unless one is open; an available one closes the open
  incident.  The two kinds of observation differ in the text of their source and in the policy.
\<close>

definition observe_incident ::
  "notification_env \<Rightarrow> path \<Rightarrow> incident_key \<Rightarrow> string \<Rightarrow> u64 \<Rightarrow> string \<Rightarrow> availability_state
     \<Rightarrow> (policy_context \<Rightarrow> string \<Rightarrow> bool \<Rightarrow> (notification_input, notification_error) result)
     \<Rightarrow> u64 \<Rightarrow> notification_world \<Rightarrow> publish_outcome service_result" where
  "observe_incident V p key account epoch prefix state policy now w =
     (case (state, st_active_incidents (nw_state w) key) of
        (Unavailable, Some _) \<Rightarrow> (Ok (no_publish_outcome (nw_state w)), w)
      | (Available, None) \<Rightarrow> (Ok (no_publish_outcome (nw_state w)), w)
      | (Unavailable, None) \<Rightarrow>
          let (incident, w) = draw_id V w in
          io_bind (policy_context_new account epoch (prefix @ incident @ '':unavailable''), w) (\<lambda>pc w.
          io_bind (policy pc incident False, w) (\<lambda>n w.
          publish_unseen V p n now
            (\<lambda>s. s\<lparr>st_active_incidents := (st_active_incidents s)(key \<mapsto> incident)\<rparr>) w))
      | (Available, Some incident) \<Rightarrow>
          io_bind (policy_context_new account epoch (prefix @ incident @ '':recovered''), w) (\<lambda>pc w.
          io_bind (policy pc incident True, w) (\<lambda>n w.
          publish_unseen V p n now
            (\<lambda>s. s\<lparr>st_active_incidents := (st_active_incidents s)(key := None)\<rparr>) w)))"

definition observe_connection ::
  "notification_env \<Rightarrow> path \<Rightarrow> connection_observation \<Rightarrow> u64 \<Rightarrow> notification_world \<Rightarrow> publish_outcome service_result" where
  "observe_connection V p ob now w =
     io_bind (view_account (co_account_id ob), w) (\<lambda>_ w.
     observe_incident V p (IncidentConnection (co_account_id ob) (co_channel ob)) (co_account_id ob) (co_session_epoch ob)
       (''connection:'' @ channel_tag (co_channel ob) @ '':'') (co_state ob)
       (\<lambda>pc incident recovered.
          if recovered then connection_recovered (en_generated V) pc (co_channel ob) incident
          else connection_unavailable (en_generated V) pc (co_channel ob) incident) now w)"

definition validate_environment_key :: "string \<Rightarrow> (unit, notification_error) result" where
  "validate_environment_key key =
     bind_result (ok_or (strip_prefix ''env-v1-'' key) (content_error msg_environment_key)) (\<lambda>digest.
     if length digest = 64 \<and> list_all (\<lambda>c. is_ascii_digit c \<or> 97 \<le> byte c \<and> byte c \<le> 102) digest then Ok ()
     else Err (content_error msg_environment_key))"

definition observe_environment ::
  "notification_env \<Rightarrow> path \<Rightarrow> environment_observation \<Rightarrow> u64 \<Rightarrow> notification_world \<Rightarrow> publish_outcome service_result" where
  "observe_environment V p ob now w =
     io_bind (view_account (eo_account_id ob), w) (\<lambda>_ w.
     io_bind (validate_environment_key (eo_environment_key ob), w) (\<lambda>_ w.
     observe_incident V p (IncidentEnvironment (eo_account_id ob) (eo_environment_key ob)) (eo_account_id ob)
       (eo_session_epoch ob) (''environment:'' @ eo_environment_key ob @ '':'') (eo_state ob)
       (\<lambda>pc incident recovered.
          if recovered
          then environment_recovered (en_generated V) pc (eo_environment ob) (eo_environment_key ob) incident
          else environment_unavailable (en_generated V) pc (eo_environment ob) (eo_environment_key ob) incident) now w))"

definition observe_session_expired ::
  "notification_env \<Rightarrow> path \<Rightarrow> string \<Rightarrow> u64 \<Rightarrow> string \<Rightarrow> u64 \<Rightarrow> notification_world \<Rightarrow> publish_outcome service_result" where
  "observe_session_expired V p account epoch token now w =
     io_bind (view_account account, w) (\<lambda>_ w.
     if \<not> en_generated V token then (Err (content_error msg_session_token), w)
     else
       io_bind (policy_context_new account epoch (''session:'' @ token @ '':expired''), w) (\<lambda>pc w.
       io_bind (session_expired (en_generated V) pc, w) (\<lambda>n w. publish V p n now w)))"

section \<open>Orders\<close>

definition previous_order_state :: "order_states \<Rightarrow> (string \<times> string) list \<Rightarrow> observed_order_state option" where
  "previous_order_state states keys =
     (let known = List.map_filter states keys in
      case List.find (\<lambda>s. is_terminal (os_status s)) known of
        Some s \<Rightarrow> Some s
      | None \<Rightarrow> (case known of [] \<Rightarrow> None | s # _ \<Rightarrow> Some s))"

definition set_order_states ::
  "(string \<times> string) list \<Rightarrow> observed_order_state \<Rightarrow> service_state \<Rightarrow> service_state" where
  "set_order_states keys st s =
     s\<lparr>st_order_states := (\<lambda>k. if k \<in> set keys then Some st else st_order_states s k)\<rparr>"

definition order_input ::
  "notification_env \<Rightarrow> policy_context \<Rightarrow> order_observation \<Rightarrow> (notification_input, notification_error) result" where
  "order_input V pc ob =
     (case oo_status ob of
        ObsFilled \<Rightarrow>
          bind_result (ok_or (oo_order_id ob) (content_error msg_filled_id)) (order_filled (en_generated V) pc)
      | ObsCanceled \<Rightarrow>
          bind_result (ok_or (oo_order_id ob) (content_error msg_canceled_id)) (order_canceled (en_generated V) pc)
      | ObsRejected \<Rightarrow> order_rejected (en_generated V) pc (oo_order_id ob) (oo_submission_id ob)
      | _ \<Rightarrow> Panic)"

definition should_publish_order :: "observed_order_state option \<Rightarrow> order_observation \<Rightarrow> bool" where
  "should_publish_order previous ob \<longleftrightarrow>
     is_terminal (oo_status ob)
     \<and> \<not> (case previous of None \<Rightarrow> False | Some s \<Rightarrow> os_terminal_notified s)
     \<and> (case oo_origin ob of
          OriginSnapshot \<Rightarrow> False
        | OriginCommand \<Rightarrow> True
        | OriginRealtime \<Rightarrow> (case previous of None \<Rightarrow> False | Some s \<Rightarrow> \<not> is_terminal (os_status s)))"

definition observe_order ::
  "notification_env \<Rightarrow> path \<Rightarrow> order_observation \<Rightarrow> u64 \<Rightarrow> notification_world \<Rightarrow> publish_outcome service_result" where
  "observe_order V p ob now w =
     io_bind (view_account (oo_account_id ob), w) (\<lambda>_ w.
     io_bind (order_observation_entity_ids V ob, w) (\<lambda>ids w.
     let keys = map (\<lambda>i. (oo_account_id ob, i)) ids;
         s = nw_state w;
         previous = previous_order_state (st_order_states s) keys;
         notified = (case previous of None \<Rightarrow> False | Some x \<Rightarrow> os_terminal_notified x) in
     if (case previous of
           None \<Rightarrow> False
         | Some x \<Rightarrow> is_terminal (os_status x) \<and> (\<not> is_terminal (oo_status ob) \<or> os_status x \<noteq> oo_status ob))
     then (Ok (no_publish_outcome s), w)
     else if \<not> should_publish_order previous ob
     then (let next = set_order_states keys \<lparr>os_status = oo_status ob, os_terminal_notified = notified\<rparr> s in
           (Ok (no_publish_outcome next), w\<lparr>nw_state := next\<rparr>))
     else
       io_bind (policy_context_new (oo_account_id ob) (oo_session_epoch ob) (''order:terminal:'' @ join '':'' ids), w) (\<lambda>pc w.
       io_bind (order_input V pc ob, w) (\<lambda>n w.
       publish_unseen V p n now
         (set_order_states keys \<lparr>os_status = oo_status ob, os_terminal_notified = True\<rparr>) w))))"

section \<open>Starting\<close>

definition from_snapshot :: "notification_env \<Rightarrow> notification_file \<Rightarrow> u64 \<Rightarrow> service_state" where
  "from_snapshot V f now =
     (let (f, m) = enforce_source_index_caps (fst (normalize_source_event_index f), no_mutation);
          f = (case enforce_serialized_file_cap V False (f, m) of Ok (g, _) \<Rightarrow> g | _ \<Rightarrow> f) in
      \<lparr>st_file = f, st_seen_source_events = rebuild_seen_source_events f, st_last_pruned_at_ms = now,
       st_active_incidents = rebuild_active_incidents f, st_order_states = rebuild_order_states V f\<rparr>)"

definition housekeep_loaded ::
  "notification_env \<Rightarrow> string list \<Rightarrow> u64 \<Rightarrow> notification_file
     \<Rightarrow> (notification_file \<times> housekeeping_mutation, notification_error) result" where
  "housekeep_loaded V configured now f =
     (let (f, m) = prune_file (Some configured) now f;
          (f, normalized) = normalize_source_event_index f in
      enforce_serialized_file_cap V True (enforce_source_index_caps (f, merge_mutation m normalized)))"

definition load_service ::
  "notification_env \<Rightarrow> nat \<Rightarrow> path \<Rightarrow> string list \<Rightarrow> u64 \<Rightarrow> notification_world \<Rightarrow> unit service_result" where
  "load_service V timestamp p configured now w =
     (case load_report V timestamp p (nw_disk w) of
        (Panic, d) \<Rightarrow> (Panic, w\<lparr>nw_disk := d\<rparr>)
      | (Err (e, failures), d) \<Rightarrow>
          (Err (map_persistence_error e), fold (\<lambda>_. report now) failures (w\<lparr>nw_disk := d\<rparr>))
      | (Ok out, d) \<Rightarrow>
          let w = fold (\<lambda>_. report now) (lo_write_failures out) (w\<lparr>nw_disk := d\<rparr>) in
          (case lo_status out of
             LoadUnsupportedSchema _ \<Rightarrow> (Err unsupported_schema, w)
           | _ \<Rightarrow>
               io_bind (housekeep_loaded V configured now (lo_file out), w) (\<lambda>(f, m) w.
               if \<not> mu_changed m then (Ok (), w\<lparr>nw_state := from_snapshot V f now\<rparr>)
               else
                 io_bind (next_revision f 1, w) (\<lambda>g w.
                 io_bind (save_file V p now g w) (\<lambda>_ w.
                 let w = w\<lparr>nw_state := from_snapshot V g now\<rparr> in
                 (Ok (), emit \<lparr>ev_previous_revision = revision_text f, ev_revision = revision_text g,
                    ev_change = ChangeReset, ev_affected_scopes = mu_affected_scopes m,
                    ev_notification_id = None, ev_toast_candidate = None\<rparr> w))))))"

section \<open>The observer of the trading service\<close>

text \<open>
  The service as the order observer of \<^verbatim>\<open>services/trading.rs\<close> calls it, when it is available.  A panic, which
  would end the observing task, is an error that is not retried.
\<close>

definition service_notifier :: "notification_env \<Rightarrow> path \<Rightarrow> notification_world notifier" where
  "service_notifier V p =
     \<lparr>nf_available = (\<lambda>_. True),
      nf_observe = (\<lambda>ob now w.
        case observe_order V p ob now w of
          (Ok out, w) \<Rightarrow> (Inr (map_option nr_id (po_notification out)), w)
        | (Err e, w) \<Rightarrow> (Inl (is_retryable_persistence_failure e), w)
        | (Panic, w) \<Rightarrow> (Inl False, w)),
      nf_publish = (\<lambda>n now w.
        case publish V p n now w of
          (Ok out, w) \<Rightarrow> (map_option nr_id (po_notification out), w)
        | (_, w) \<Rightarrow> (None, w)),
      nf_generated = en_generated V\<rparr>"

end
