(* ===== verification/Ordering.thy ===== *)
theory Ordering
  imports Notification_Store "HOL-Library.Multiset"
begin

text \<open>
  The comparators that the notification service sorts with, as interpretations of one locale, and
  what a stable sort by such a comparator yields.
\<close>

section \<open>Comparators\<close>

lemma mset_insort_by [simp]: "mset (insort_by lt x xs) = add_mset x (mset xs)"
  by (induction xs) auto

lemma mset_sort_by [simp]: "mset (sort_by lt xs) = mset xs"
  by (induction xs) (simp_all add: sort_by_def)

locale comparator =
  fixes lt :: "'a \<Rightarrow> 'a \<Rightarrow> bool"
  assumes asym: "lt x y \<Longrightarrow> \<not> lt y x"
    and neg_trans: "\<not> lt x y \<Longrightarrow> \<not> lt y z \<Longrightarrow> \<not> lt x z"
begin

lemma sorted_insort: "sorted_wrt (\<lambda>a b. \<not> lt b a) xs \<Longrightarrow> sorted_wrt (\<lambda>a b. \<not> lt b a) (insort_by lt x xs)"
  by (induction xs) (auto dest: asym neg_trans)

lemma sorted_sort: "sorted_wrt (\<lambda>a b. \<not> lt b a) (sort_by lt xs)"
  by (induction xs) (simp_all add: sort_by_def sorted_insort)

lemma taken_before_dropped:
  assumes "x \<in> set (take k (sort_by lt xs))" and "y \<in> set (drop k (sort_by lt xs))"
  shows "\<not> lt y x"
  using sorted_sort [of xs] assms
  by (metis append_take_drop_id sorted_wrt_append)

end

section \<open>Byte strings and ages\<close>

lemma str_less_irrefl [simp]: "\<not> str_less s s"
  by (induction s) auto

lemma str_less_trans: "str_less a b \<Longrightarrow> str_less b c \<Longrightarrow> str_less a c"
proof (induction a b arbitrary: c rule: str_less.induct)
  case (2 b bs)
  then show ?case by (cases c) auto
next
  case (3 a as b bs)
  then show ?case by (cases c) auto
qed simp

lemma str_less_total: "a \<noteq> b \<Longrightarrow> str_less a b \<or> str_less b a"
proof (induction a b rule: str_less.induct)
  case (1 a)
  then show ?case by (cases a) auto
next
  case (3 a as b bs)
  then show ?case using less_linear [of "byte a" "byte b"] by auto
qed simp

lemma older_irrefl [simp]: "\<not> older a a"
  by (simp add: older_def)

lemma older_trans: "older a b \<Longrightarrow> older b c \<Longrightarrow> older a c"
  by (auto simp: older_def intro: str_less_trans)

lemma older_total: "a \<noteq> b \<Longrightarrow> older a b \<or> older b a"
  unfolding older_def using str_less_total by (metis linorder_neq_iff prod.expand)

lemma older_asym: "older a b \<Longrightarrow> \<not> older b a"
  using older_irrefl older_trans by blast

lemma older_neg_trans: "\<not> older a b \<Longrightarrow> \<not> older b c \<Longrightarrow> \<not> older a c"
  using older_total older_trans by metis

lemma comparator_older: "comparator (\<lambda>a b. older (f a) (f b))"
  by unfold_locales (blast dest: older_asym older_neg_trans)+

lemma comparator_newer: "comparator (\<lambda>a b. older (f b) (f a))"
  by unfold_locales (blast dest: older_asym older_neg_trans)+

interpretation by_age: comparator "\<lambda>a b. older (fst a, fst (snd a)) (fst b, fst (snd b))"
  by (rule comparator_older)

interpretation newest: comparator "\<lambda>a b. older (age b) (age a)"
  by (rule comparator_newer)

section \<open>Searching for the least number of evictions\<close>

text \<open>
  \<open>bisect\<close> keeps the invariant that its upper bound fits and that its lower bound does not or is the
  one it started from; \<open>gallop\<close> establishes it.
\<close>

lemma bisect_spec:
  assumes "bisect fits lower upper = Ok k" "lower < upper" "fits upper = Ok True"
  shows "fits k = Ok True \<and> lower < k \<and> k \<le> upper \<and> (k - 1 = lower \<or> fits (k - 1) = Ok False)"
  using assms
proof (induction fits lower upper rule: bisect.induct)
  case (1 fits lower upper)
  let ?m = "lower + (upper - lower) div 2"
  show ?case
  proof (cases "lower + 1 < upper")
    case True
    have m: "lower < ?m" "?m < upper" using True by auto
    obtain b where b: "fits ?m = Ok b" and k: "(if b then bisect fits lower ?m else bisect fits ?m upper) = Ok k"
      using 1(3) True by (auto simp: bisect.simps [of fits lower upper] Let_def)
    show ?thesis
    proof (cases b)
      case True
      then show ?thesis using 1(1) [OF \<open>lower + 1 < upper\<close> refl True] b k m by fastforce
    next
      case False
      then show ?thesis using 1(2) [OF \<open>lower + 1 < upper\<close> refl False] b k m 1(5) by fastforce
    qed
  next
    case False
    then show ?thesis using 1(3,4,5) by (auto simp: bisect.simps [of fits lower upper])
  qed
qed

lemma bisect_total:
  assumes "\<And>k. \<exists>b. fits k = Ok b"
  shows "\<exists>k. bisect fits lower upper = Ok k"
  using assms
proof (induction fits lower upper rule: bisect.induct)
  case (1 fits lower upper)
  obtain b where b: "fits (lower + (upper - lower) div 2) = Ok b" using 1(3) by blast
  show ?case
  proof (cases "lower + 1 < upper")
    case True
    with 1(1,2) [OF True refl, of b] 1(3) b show ?thesis
      by (cases b) (auto simp: bisect.simps [of fits lower upper] Let_def)
  qed (simp add: bisect.simps [of fits lower upper])
qed

lemma gallop_spec:
  assumes "gallop fits full n lower upper = Ok (l, u)" "lower < upper" "upper \<le> n"
  shows "fits u = Ok True \<and> l < u \<and> u \<le> n \<and> (l = lower \<or> fits l = Ok False)"
  using assms
proof (induction fits full n lower upper rule: gallop.induct)
  case (1 fits full n lower upper)
  then show ?case unfolding gallop.simps [of fits full n lower upper] by (fastforce split: if_splits)
qed

lemma gallop_total:
  assumes "\<And>k. \<exists>b. fits k = Ok b" "0 < upper" "upper \<le> n"
  shows "(\<exists>l u. gallop fits full n lower upper = Ok (l, u)) \<or> (gallop fits full n lower upper = Err full \<and> fits n = Ok False)"
  using assms
proof (induction fits full n lower upper rule: gallop.induct)
  case (1 fits full n lower upper)
  obtain b where b: "fits upper = Ok b" using 1(2) by blast
  then show ?case
    using 1(1) [of b] 1(2,3,4) unfolding gallop.simps [of fits full n lower upper] by (cases b) force+
qed

lemma bisect_Ok_pos: "bisect fits lower upper = Ok k \<Longrightarrow> lower < upper \<Longrightarrow> lower < k \<and> k \<le> upper"
proof (induction fits lower upper rule: bisect.induct)
  case (1 fits lower upper)
  show ?case
  proof (cases "lower + 1 < upper")
    case True
    then obtain b where b: "fits (lower + (upper - lower) div 2) = Ok b"
      and k: "(if b then bisect fits lower (lower + (upper - lower) div 2) else bisect fits (lower + (upper - lower) div 2) upper) = Ok k"
      using 1(3) by (auto simp: bisect.simps [of fits lower upper] Let_def)
    have "lower < lower + (upper - lower) div 2" "lower + (upper - lower) div 2 < upper" using True by auto
    then show ?thesis using 1(1,2) [OF True refl, of b] k by (cases b) fastforce+
  next
    case False
    then show ?thesis using 1(3,4) by (simp add: bisect.simps [of fits lower upper])
  qed
qed

lemma gallop_Ok: "gallop fits full n lower upper = Ok (l, u) \<Longrightarrow> lower < upper \<Longrightarrow> l < u"
proof (induction fits full n lower upper rule: gallop.induct)
  case (1 fits full n lower upper)
  then show ?case unfolding gallop.simps [of fits full n lower upper] by (auto split: if_splits)
qed

lemma gallop_bisect_pos:
  "gallop probe full n 0 (Suc 0) = Ok (l, u) \<Longrightarrow> bisect probe l u = Ok k \<Longrightarrow> 0 < k"
  using gallop_Ok [of probe full n 0 "Suc 0" l u] bisect_Ok_pos [of probe l u k] by simp

end
