(* ===== verification/Notification_Commit.thy ===== *)
theory Notification_Commit
  imports Notification_Service Ordering
begin

text \<open>
  What every operation of the notification service does to the world: a change of the file is saved,
  then visible in memory, then announced by one event that carries the revisions before and after.
  The locale \<open>service_relation\<close> derives, for any relation between worlds that is closed under the steps
  the operations are made of, that every operation stays in the relation.
\<close>

section \<open>Housekeeping keeps the revision\<close>

named_theorems revision_simps

lemma revision_cleanup [revision_simps]:
  "fl_revision (snd (cleanup_source_event_index f)) = fl_revision f"
  by (simp add: cleanup_source_event_index_def Let_def)

lemma revision_drops [revision_simps]:
  "fl_revision (drop_targets ts f) = fl_revision f"
  "fl_revision (drop_entries ts f) = fl_revision f"
  "fl_revision (remove_empty_partitions f) = fl_revision f"
  "fl_revision (without_partition s f) = fl_revision f"
  "fl_revision (update_record k h f) = fl_revision f"
  "fl_revision (remove_place i j f) = fl_revision f"
  "fl_revision (push_record r f) = fl_revision f"
  by (simp_all add: drop_targets_def drop_entries_def remove_empty_partitions_def without_partition_def
      update_record_def remove_place_def push_record_def Let_def)

lemma revision_candidates [revision_simps]:
  "fl_revision (remove_record_candidates cs f) = fl_revision f"
  by (simp add: remove_record_candidates_def Let_def revision_simps)

lemma revision_evict [revision_simps]:
  "fl_revision (snd (evict_indexed_records_to_limit q l pr f)) = fl_revision f"
  "fl_revision (fst (evict_noting q l pr (f, m))) = fl_revision f"
  by (simp_all add: evict_noting_def evict_indexed_records_to_limit_def Let_def revision_simps split: prod.splits)

lemma revision_evict_oldest:
  "evict_oldest_record q f = Some (s, g) \<Longrightarrow> fl_revision g = fl_revision f"
  by (auto simp: evict_oldest_record_def Let_def revision_simps split: option.splits prod.splits)

lemma revision_fold_evict [revision_simps]:
  "fl_revision (fst (fold (\<lambda>s. evict_noting (Some s) l pr) ss fm)) = fl_revision (fst fm)"
  by (induction ss arbitrary: fm) (simp_all add: revision_evict(2) [of _ _ _ "fst fm" "snd fm" for fm, simplified])

lemma revision_caps [revision_simps]:
  "fl_revision (fst (enforce_source_index_caps fm)) = fl_revision (fst fm)"
  by (simp add: enforce_source_index_caps_def Let_def revision_simps
      revision_evict(2) [of _ _ _ "fst fm" "snd fm" for fm, simplified])

lemma revision_prune [revision_simps]:
  "fl_revision (fst (prune_file configured now f)) = fl_revision f"
  by (simp add: prune_file_def Let_def revision_simps cleanup_source_event_index_def split: prod.splits)

lemma revision_make_room [revision_simps]:
  "fl_revision (fst (make_room k s fm)) = fl_revision (fst fm)"
  by (induction k s fm rule: make_room.induct) (auto split: option.splits dest: revision_evict_oldest)

lemma revision_prepare_file:
  "prepare_file_for_publish n now f = Ok (g, m) \<Longrightarrow> fl_revision g = fl_revision f"
proof (unfold prepare_file_for_publish_def Let_def, split prod.split_asm)
  fix h m0
  assume pf: "prune_file None now f = (h, m0)"
  have h: "fl_revision h = fl_revision f" using revision_prune [of None now f] pf by simp
  have e: "fl_revision (fst (evict_noting None b pr (evict_noting q a pr' (h, m0)))) = fl_revision f" for a b pr pr' q
    using h by (simp add: revision_evict(2) [of _ _ _ "fst fm" "snd fm" for fm, simplified])
  show "bind_result
     (if ni_source_event_id n = None then Ok (h, m0)
      else if case map_option nr_id (find_duplicate h n) of None \<Rightarrow> False
              | Some i \<Rightarrow>
                  \<not> can_reduce_source_index_without_record h (Some (ni_scope n)) (max_source_index_per_scope - 1) i
                  \<or> \<not> can_reduce_source_index_without_record h None (max_source_index_total - 1) i
           then Err index_capacity_error
           else Ok (evict_noting None (max_source_index_total - 1) (map_option nr_id (find_duplicate h n))
                     (evict_noting (Some (ni_scope n)) (max_source_index_per_scope - 1)
                       (map_option nr_id (find_duplicate h n)) (h, m0))))
     (\<lambda>(f, m). if find_duplicate f n = None then Ok (make_room (Suc (place_count f)) (ni_scope n) (f, m)) else Ok (f, m)) =
    Ok (g, m) \<Longrightarrow> fl_revision g = fl_revision f"
    using h e revision_make_room
    by (auto simp del: make_room.simps split: if_splits prod.splits option.splits) (metis fst_conv)+
qed

lemma revision_enforce_cap:
  "enforce_serialized_file_cap V b (f, m) = Ok (g, m') \<Longrightarrow> fl_revision g = fl_revision f"
  by (auto simp: enforce_serialized_file_cap_def Let_def revision_simps split: if_splits)

lemma revision_reserve:
  "reserve_serialized_capacity_for_publish V pr (f, m) = Ok (g, m') \<Longrightarrow> fl_revision g = fl_revision f"
  by (auto simp: reserve_serialized_capacity_for_publish_def Let_def revision_simps split: if_splits)

lemma revision_apply:
  "apply_prepared_to_file pr f = Ok g \<Longrightarrow> fl_revision g = fl_revision f"
  by (auto simp: apply_prepared_to_file_def revision_simps
      split: notification_change.splits option.splits)

section \<open>Housekeeping that notes no change makes none\<close>

lemma note_scope_changed [simp]: "mu_changed (note_scope s m)"
  by (simp add: note_scope_def)

lemma note_removed_record_changed [simp]: "mu_changed (note_removed_record s m)"
  by (simp add: note_removed_record_def)

lemma fold_note_scope_changed: "mu_changed (fold note_scope ss m) \<longleftrightarrow> ss \<noteq> [] \<or> mu_changed m"
  by (induction ss arbitrary: m) auto

lemma note_removed_changed: "mu_changed (note_removed ss m) \<longleftrightarrow> ss \<noteq> [] \<or> mu_changed m"
  by (induction ss arbitrary: m) (auto simp: note_removed_def)

lemma fold_note_removed_changed:
  "mu_changed (fold (\<lambda>p. note_removed (g p)) ps m) \<longleftrightarrow> (\<exists>p\<in>set ps. g p \<noteq> []) \<or> mu_changed m"
  by (induction ps arbitrary: m) (auto simp: note_removed_changed)

lemma note_orphan_changed [simp]: "mu_changed (note_orphan p m)"
  by (auto simp: note_orphan_def note_removed_changed)

lemma fold_note_orphan_changed: "mu_changed (fold note_orphan ps m) \<longleftrightarrow> ps \<noteq> [] \<or> mu_changed m"
  by (induction ps arbitrary: m) auto

lemma note_removed_scopes_Nil: "mu_affected_scopes (fold (\<lambda>p. note_removed []) ps m) = mu_affected_scopes m"
  by (induction ps arbitrary: m) (simp_all add: note_removed_def)

lemma drop_targets_Nil [simp]: "drop_targets [] f = f" "drop_entries [] f = f"
  by (simp_all add: drop_targets_def drop_entries_def)

lemma select_until_Nil: "select_until l k cs = [] \<longleftrightarrow> cs = []"
  by (cases "(l, k, cs)" rule: select_until.cases) auto

lemma evict_noting_unchanged:
  assumes "evict_noting q l pr (f, m) = (g, m')" and "\<not> mu_changed m'"
  shows "g = f \<and> \<not> mu_changed m"
proof -
  obtain sel h where e: "evict_indexed_records_to_limit q l pr f = (sel, h)" by fastforce
  then have "sel = []" "\<not> mu_changed m" "h = g"
    using assms by (auto simp: evict_noting_def note_removed_changed)
  moreover have "h = f"
    using e \<open>sel = []\<close> by (auto simp: evict_indexed_records_to_limit_def Let_def split: if_splits)
  ultimately show ?thesis by simp
qed

lemma fold_evict_unchanged:
  assumes "fold (\<lambda>s. evict_noting (Some s) l pr) ss (f, m) = (g, m')" and "\<not> mu_changed m'"
  shows "g = f \<and> \<not> mu_changed m"
  using assms
proof (induction ss arbitrary: f m)
  case (Cons s ss)
  obtain h m1 where "evict_noting (Some s) l pr (f, m) = (h, m1)" by fastforce
  then show ?case using Cons evict_noting_unchanged by fastforce
qed simp

lemma caps_unchanged:
  assumes "enforce_source_index_caps (f, m) = (g, m')" and "\<not> mu_changed m'"
  shows "g = f \<and> \<not> mu_changed m"
proof -
  obtain h m1 where h: "fold (\<lambda>s. evict_noting (Some s) max_source_index_per_scope None) (over_limit_scopes f) (f, m) = (h, m1)"
    by fastforce
  then have "g = h \<and> \<not> mu_changed m1"
    using assms evict_noting_unchanged [of None max_source_index_total None h m1 g m']
    by (auto simp: enforce_source_index_caps_def Let_def split: if_splits)
  then show ?thesis using fold_evict_unchanged [OF h] by simp
qed

lemma prune_items_same_length:
  assumes "length (prune_items now items) = length items"
  shows "prune_items now items = items"
proof -
  have len: "length (filter (\<lambda>r. \<not> is_expired r now) items) \<le> length items" by simp
  show ?thesis
  proof (cases "max_partition_items < length (filter (\<lambda>r. \<not> is_expired r now) items)")
    case True
    then show ?thesis using assms len by (simp add: prune_items_def newest_first_def)
  next
    case False
    then have "length (filter (\<lambda>r. \<not> is_expired r now) items) = length items" using assms by (simp add: prune_items_def)
    then have "\<forall>r\<in>set items. \<not> is_expired r now" by (metis length_filter_less linorder_neq_iff)
    then show ?thesis using False by (simp add: prune_items_def)
  qed
qed

lemma prune_items_length: "length (prune_items now items) \<le> length items"
  using length_filter_le [of "\<lambda>r. \<not> is_expired r now" items]
  by (simp add: prune_items_def newest_first_def Let_def min.coboundedI2 del: length_filter_le)

lemma add_scope_nonempty [simp]: "add_scope s xs \<noteq> []"
  by (cases xs) (simp_all add: add_scope_def)

lemma fold_add_scope_Nil: "fold add_scope ss acc = [] \<longleftrightarrow> ss = [] \<and> acc = []"
  by (induction ss arbitrary: acc) simp_all

lemma cleanup_quiet: "cleanup_source_event_index f = ([], g) \<Longrightarrow> g = f"
  by (auto simp: cleanup_source_event_index_def Let_def fold_add_scope_Nil filter_empty_conv filter_id_conv)

lemma prune_unchanged:
  assumes run: "prune_file configured now f = (g, m)" and quiet: "\<not> mu_changed m"
  shows "g = f"
proof -
  let ?pruned = "map (\<lambda>p. p\<lparr>np_items := prune_items now (np_items p)\<rparr>) (fl_partitions f)"
  let ?gone = "\<lambda>p. replicate (length (np_items p) - length (prune_items now (np_items p))) (np_scope p)"
  let ?m1 = "fold (\<lambda>p. note_removed (?gone p)) (fl_partitions f) no_mutation"
  let ?orphan = "\<lambda>p. case configured of None \<Rightarrow> False | Some accounts \<Rightarrow> is_orphan accounts (np_scope p)"
  let ?m2 = "fold note_orphan (filter ?orphan ?pruned) ?m1"
  let ?f1 = "f\<lparr>fl_partitions := filter (\<lambda>p. np_items p \<noteq> [] \<or> np_scope p \<notin> set (mu_affected_scopes ?m2))
      (filter (\<lambda>p. \<not> ?orphan p) ?pruned)\<rparr>"
  obtain ss f2 where c: "cleanup_source_event_index ?f1 = (ss, f2)" by fastforce
  have "enforce_source_index_caps (f2, fold note_scope ss ?m2) = (g, m)"
    using run c unfolding prune_file_def Let_def by simp
  from caps_unchanged [OF this quiet] have "g = f2" "\<not> mu_changed ?m2" "ss = []" by (simp_all add: fold_note_scope_changed)
  then have orphans: "filter ?orphan ?pruned = []" and m1: "\<not> mu_changed ?m1"
    by (simp_all add: fold_note_orphan_changed)
  have "?gone p = []" if "p \<in> set (fl_partitions f)" for p
    using m1 that fold_note_removed_changed [of ?gone "fl_partitions f" no_mutation] by blast
  then have same: "prune_items now (np_items p) = np_items p" if "p \<in> set (fl_partitions f)" for p
    using prune_items_same_length prune_items_length [of now "np_items p"] that by fastforce
  have pruned: "?pruned = fl_partitions f" by (rule map_idI) (simp add: same)
  have "?m1 = fold (\<lambda>p. note_removed []) (fl_partitions f) no_mutation"
    by (rule fold_cong) (simp_all add: same)
  then have "mu_affected_scopes ?m2 = []" using orphans by (simp add: note_removed_scopes_Nil no_mutation_def)
  moreover have "filter (\<lambda>p. \<not> ?orphan p) ?pruned = ?pruned"
    using orphans unfolding filter_empty_conv by (intro filter_True) blast
  ultimately have "?f1 = f" using pruned by simp
  then show ?thesis using \<open>g = f2\<close> cleanup_quiet [of f f2] c \<open>ss = []\<close> by simp
qed

lemma enforce_cap_unchanged:
  assumes "enforce_serialized_file_cap V b (f, m) = Ok (g, m')" and "\<not> mu_changed m'"
  shows "g = f \<and> \<not> mu_changed m"
  using assms
  by (auto simp: enforce_serialized_file_cap_def Let_def note_removed_changed split: if_splits
      dest: gallop_bisect_pos)

lemma make_room_unchanged:
  assumes "make_room k s (f, m) = (g, m')" and "\<not> mu_changed m'"
  shows "g = f \<and> \<not> mu_changed m"
proof -
  have grows: "mu_changed m \<Longrightarrow> mu_changed (snd (make_room k s (f, m)))" for k s f m
    by (induction k arbitrary: f m) (auto split: option.splits)
  show ?thesis
  proof (cases k)
    case (Suc k')
    show ?thesis using assms grows [of "note_removed_record t m" k' s h for t h] unfolding Suc
      by (auto split: if_splits option.splits) (metis note_removed_record_changed snd_conv)+
  qed (use assms in simp)
qed

lemma prepare_file_stages:
  assumes "prepare_file_for_publish n now f = Ok (g, m)" and "prune_file None now f = (h, m0)"
  defines "pr \<equiv> map_option nr_id (find_duplicate h n)"
  shows "\<exists>k m1. (k, m1) = (if ni_source_event_id n = None then (h, m0)
      else evict_noting None (max_source_index_total - 1) pr
        (evict_noting (Some (ni_scope n)) (max_source_index_per_scope - 1) pr (h, m0)))
    \<and> (if find_duplicate k n = None then make_room (Suc (place_count k)) (ni_scope n) (k, m1) else (k, m1)) = (g, m)"
proof -
  obtain km where km: "(if ni_source_event_id n = None then Ok (h, m0)
         else if (case pr of None \<Rightarrow> False
                  | Some i \<Rightarrow> \<not> can_reduce_source_index_without_record h (Some (ni_scope n)) (max_source_index_per_scope - 1) i
                      \<or> \<not> can_reduce_source_index_without_record h None (max_source_index_total - 1) i)
         then Err index_capacity_error
         else Ok (evict_noting None (max_source_index_total - 1) pr
                   (evict_noting (Some (ni_scope n)) (max_source_index_per_scope - 1) pr (h, m0)))) = Ok km"
    and fin: "(\<lambda>(f, m). if find_duplicate f n = None then Ok (make_room (Suc (place_count f)) (ni_scope n) (f, m))
          else Ok (f, m)) km = (Ok (g, m) :: (_, notification_error) result)"
    using assms(1) unfolding prepare_file_for_publish_def Let_def assms(2) prod.case pr_def bind_result_Ok_iff
    by blast
  have "km = (if ni_source_event_id n = None then (h, m0)
      else evict_noting None (max_source_index_total - 1) pr
        (evict_noting (Some (ni_scope n)) (max_source_index_per_scope - 1) pr (h, m0)))"
    using km by (simp split: if_splits)
  then show ?thesis using fin
    by (intro exI [of _ "fst km"] exI [of _ "snd km"]) (auto simp: case_prod_unfold simp del: make_room.simps split: if_splits)
qed

lemma prepare_file_unchanged:
  assumes run: "prepare_file_for_publish n now f = Ok (g, m)" and quiet: "\<not> mu_changed m"
  shows "g = f"
proof -
  obtain h m0 where h: "prune_file None now f = (h, m0)" by fastforce
  let ?pr = "map_option nr_id (find_duplicate h n)"
  obtain k m1 where k: "(k, m1) = (if ni_source_event_id n = None then (h, m0)
      else evict_noting None (max_source_index_total - 1) ?pr
        (evict_noting (Some (ni_scope n)) (max_source_index_per_scope - 1) ?pr (h, m0)))"
    and fin: "(if find_duplicate k n = None then make_room (Suc (place_count k)) (ni_scope n) (k, m1) else (k, m1)) = (g, m)"
    using prepare_file_stages [OF run h] by blast
  have g: "g = k \<and> \<not> mu_changed m1"
    using fin make_room_unchanged [of "Suc (place_count k)" "ni_scope n" k m1 g m] quiet
    by (simp del: make_room.simps split: if_splits)
  obtain k0 m2 where "evict_noting (Some (ni_scope n)) (max_source_index_per_scope - 1) ?pr (h, m0) = (k0, m2)" by fastforce
  then have "k = h \<and> \<not> mu_changed m0"
    using k g evict_noting_unchanged [of _ _ ?pr h m0 k0 m2] evict_noting_unchanged [of _ _ ?pr k0 m2 k m1]
    by (simp split: if_splits)
  then show ?thesis using prune_unchanged [OF h] g by blast
qed

lemma reserve_unchanged:
  assumes "reserve_serialized_capacity_for_publish V pr (f, m) = Ok (g, m')" and "\<not> mu_changed m'"
  shows "g = f \<and> \<not> mu_changed m"
  using assms
  by (auto simp: reserve_serialized_capacity_for_publish_def Let_def note_removed_changed split: if_splits
      dest: bisect_Ok_pos)

section \<open>Committing\<close>

abbreviation world_revision :: "notification_world \<Rightarrow> u64" where
  "world_revision w \<equiv> fl_revision (st_file (nw_state w))"

lemma save_file_frame:
  assumes "save_file V p now f w = (r, w')"
  shows "nw_state w' = nw_state w" "nw_events w' = nw_events w" "nw_drawn w' = nw_drawn w"
  using assms
  by (auto simp: save_file_def report_def reset_reporter_def Let_def
      split: prod.splits result.splits option.splits if_splits)

lemma commit_file_Ok:
  assumes "commit_file V p now next w = (Ok previous, w')"
  shows "previous = st_file next" "unat (fl_revision (st_file next)) + 1 < 2 ^ 64"
    "nw_state w' = next\<lparr>st_file := (st_file next)\<lparr>fl_revision := fl_revision (st_file next) + 1\<rparr>\<rparr>"
    "nw_events w' = nw_events w" "nw_drawn w' = nw_drawn w"
  using assms
  by (auto simp: commit_file_def next_revision_def checked_add_def io_bind_Ok_iff
      split: option.splits if_splits dest: save_file_frame)

lemma commit_file_not_Ok:
  assumes "commit_file V p now next w = (r, w')" and "\<not> is_ok r"
  shows "nw_state w' = nw_state w" "nw_events w' = nw_events w" "nw_drawn w' = nw_drawn w"
  using assms
  by (cases "save_file V p now ((st_file next)\<lparr>fl_revision := fl_revision (st_file next) + 1\<rparr>) w";
      cases "fst (save_file V p now ((st_file next)\<lparr>fl_revision := fl_revision (st_file next) + 1\<rparr>) w)";
      auto simp: commit_file_def next_revision_def checked_add_def split: if_splits dest: save_file_frame)+

section \<open>Relations that every operation respects\<close>

locale service_relation =
  fixes V :: notification_env and p :: path and R :: "notification_world \<Rightarrow> notification_world \<Rightarrow> bool"
  assumes refl: "R w w"
    and trans: "R w w1 \<Longrightarrow> R w1 w2 \<Longrightarrow> R w w2"
    and drawn: "R w (w\<lparr>nw_drawn := k\<rparr>)"
    and memory: "fl_revision (st_file s) = world_revision w \<Longrightarrow> fl_partitions (st_file s) = fl_partitions (st_file (nw_state w))
        \<Longrightarrow> R w (w\<lparr>nw_state := s\<rparr>)"
    and commit_failed: "commit_file V p now next w = (r, w') \<Longrightarrow> \<not> is_ok r \<Longrightarrow> R w w'"
    and commit_announced:
      "commit_file V p now next w = (Ok previous, w') \<Longrightarrow> fl_revision (st_file next) = world_revision w
        \<Longrightarrow> R w (emit (changed_event previous w' change scopes i toast) w')"
begin

lemma stays_bind:
  assumes "R w (snd r)" and "\<And>x w'. r = (Ok x, w') \<Longrightarrow> R w' (snd (f x w'))"
  shows "R w (snd (io_bind r f))"
  using assms by (cases "(r, f)" rule: io_bind.cases) (auto intro: trans)

lemma stays_pure:
  assumes "\<And>x. r = Ok x \<Longrightarrow> R w (snd (f x w))"
  shows "R w (snd (io_bind (r, w) f))"
  using assms refl by (cases r) auto

lemma stays_commit:
  assumes "fl_revision (st_file next) = world_revision w"
    and "\<And>previous w'. snd (f previous w') = emit (changed_event previous w' change scopes i toast) w'"
  shows "R w (snd (io_bind (commit_file V p now next w) f))"
proof (cases "commit_file V p now next w")
  case (Pair r w')
  show ?thesis
  proof (cases r)
    case (Ok previous)
    then show ?thesis using commit_announced [OF Pair [unfolded Ok] assms(1)] Pair assms(2) by simp
  qed (use Pair commit_failed [OF Pair] in auto)
qed

lemma stays_draw: "R w (snd (draw_id V w))"
  by (simp add: draw_id_def drawn)

lemma stays_commit_mutation:
  "fl_revision (st_file next) = world_revision w
    \<Longrightarrow> R w (snd (commit_mutation V p now c next change i r n scopes w))"
  unfolding commit_mutation_def by (rule stays_commit) auto

lemma stays_commit_publish:
  assumes "fl_revision (st_file next) = world_revision w" and "pm_record m \<noteq> None" and "pm_change m \<noteq> None"
  shows "R w (snd (commit_publish V p now next m w))"
  using assms unfolding commit_publish_def by (auto intro!: stays_commit split: option.splits)

lemma stays_housekeeping:
  "fl_revision (fst fm) = world_revision w \<Longrightarrow> R w (snd (commit_housekeeping V p now prepared fm w))"
  by (cases fm) (auto simp: commit_housekeeping_def Let_def refl intro!: stays_commit)

lemma stays_reserve:
  assumes "fl_revision (fst fm) = world_revision w"
  shows "R w (snd (prepare_and_reserve V p n now fresh fm w))"
  unfolding prepare_and_reserve_def
proof (intro stays_pure)
  fix prepared fm' assume "reserve_serialized_capacity_for_publish V prepared fm = Ok fm'"
  then have "fl_revision (fst fm') = fl_revision (fst fm)"
    using revision_reserve [of V prepared "fst fm" "snd fm" "fst fm'" "snd fm'"] by simp
  with assms show "R w (snd (commit_housekeeping V p now prepared fm' w))" by (simp add: stays_housekeeping)
qed

lemma stays_prepare: "R w (snd (prepare_publish_locked V p n now w))"
  unfolding prepare_publish_locked_def
proof (intro stays_pure)
  have "R w (snd (if find_duplicate (fst fm) n = None
       then (let (fresh, w) = draw_id V w in prepare_and_reserve V p n now fresh fm w)
       else prepare_and_reserve V p n now [] fm w))"
    if ok: "prepare_file_for_publish n now (st_file (nw_state w)) = Ok fm" for fm
  proof -
    have "fl_revision (fst fm) = world_revision w"
      using revision_prepare_file [of n now "st_file (nw_state w)" "fst fm" "snd fm"] ok by simp
    then have "R w (snd (prepare_and_reserve V p n now [] fm w))"
      "R (snd (draw_id V w)) (snd (prepare_and_reserve V p n now i fm (snd (draw_id V w))))" for i
      by (simp_all add: stays_reserve draw_id_def)
    then show ?thesis using trans [OF stays_draw] by (auto split: prod.splits)
  qed
  then show "R w (snd (if source_seen (nw_state w) n then (Ok None, w)
     else
       io_bind (prepare_file_for_publish n now (st_file (nw_state w)), w) (\<lambda>fm w.
       if find_duplicate (fst fm) n = None
       then (let (fresh, w) = draw_id V w in prepare_and_reserve V p n now fresh fm w)
       else prepare_and_reserve V p n now [] fm w)))"
    by (auto simp: refl intro!: stays_pure)
qed

lemma stays_apply:
  assumes "fl_revision (st_file s) = world_revision w"
  shows "R w (snd (io_bind (apply_prepared_publish prepared s, w) (\<lambda>(next, m) w. commit_publish V p now next m w)))"
proof (rule stays_pure, clarify)
  fix nx m assume "apply_prepared_publish prepared s = Ok (nx, m)"
  then have "fl_revision (st_file nx) = world_revision w" "pm_record m \<noteq> None" "pm_change m \<noteq> None"
    using assms by (auto simp: apply_prepared_publish_def dest: revision_apply)
  then show "R w (snd (commit_publish V p now nx m w))" by (rule stays_commit_publish)
qed

lemma stays_publish_unseen:
  assumes "\<And>s. st_file (adjust s) = st_file s"
  shows "R w (snd (publish_unseen V p n now adjust w))"
  unfolding publish_unseen_def
  by (rule stays_bind [OF stays_prepare]) (auto simp: refl assms intro!: stays_apply split: option.splits)

lemma stays_publish: "R w (snd (publish V p n now w))"
  unfolding publish_def
  by (intro stays_pure) (auto simp: refl intro!: stays_publish_unseen split: option.splits)

lemma stays_client: "R w (snd (publish_client_account_failure V p n now w))"
proof -
  have tail: "R w (snd (io_bind (prepare_publish_locked V p n now w) (\<lambda>prepared w.
           io_bind (ok_or prepared state_conflict, w) (\<lambda>prepared w.
           io_bind (apply_prepared_publish prepared (nw_state w), w) (\<lambda>(next, m) w.
           io_bind (commit_publish V p now next m w) (\<lambda>out w. (h out w, w)))))))" for w h
  proof (rule stays_bind [OF stays_prepare], rule stays_pure, rule stays_pure, clarify)
    fix w1 :: notification_world and prepared nx m
    assume "apply_prepared_publish prepared (nw_state w1) = Ok (nx, m)"
    then have "R w1 (snd (commit_publish V p now nx m w1))"
      using stays_apply [of "nw_state w1" w1 prepared now] by simp
    then show "R w1 (snd (io_bind (commit_publish V p now nx m w1) (\<lambda>out w. (h out w, w))))"
      by (rule stays_bind) (simp add: refl)
  qed
  show ?thesis unfolding publish_client_account_failure_def Let_def
    by (intro stays_pure) (auto simp: refl tail intro!: stays_pure split: notification_scope.splits)
qed

lemma stays_mark_read: "R w (snd (mark_read V p c i now w))"
  by (auto simp: mark_read_def Let_def refl revision_simps intro!: stays_commit_mutation split: option.splits prod.splits)

lemma stays_mark_visible_read: "R w (snd (mark_visible_read V p c now w))"
  by (auto simp: mark_visible_read_def Let_def refl intro!: stays_commit_mutation)

lemma stays_delete_visible: "R w (snd (delete_visible V p c i now w))"
  by (auto simp: delete_visible_def with_cleaned_file_def Let_def refl revision_simps
      intro!: stays_commit_mutation split: option.splits prod.splits)

lemma stays_clear_account: "R w (snd (clear_account V p active requested now w))"
  unfolding clear_account_def Let_def
  by (intro stays_pure) (auto simp: with_cleaned_file_def Let_def refl revision_simps intro!: stays_commit_mutation)

lemma stays_prune: "R w (snd (prune V p configured now w))"
  unfolding prune_def
proof (rule stays_pure, clarify)
  let ?f = "st_file (nw_state w)"
  fix f m assume ok: "enforce_serialized_file_cap V True (prune_file (Some configured) now ?f) = Ok (f, m)"
  obtain g m0 where g: "prune_file (Some configured) now ?f = (g, m0)" by fastforce
  have "fl_revision f = world_revision w"
    using revision_enforce_cap [of V True g m0 f m] ok g revision_prune [of "Some configured" now ?f] by simp
  moreover have "\<not> mu_changed m \<Longrightarrow> f = ?f"
    using enforce_cap_unchanged [of V True g m0 f m] prune_unchanged [OF g] ok g by auto
  ultimately show "R w (snd (let s = nw_state w;
         next = s\<lparr>st_file := f, st_last_pruned_at_ms := now, st_seen_source_events := rebuild_seen_source_events f,
           st_active_incidents := rebuild_active_incidents f,
           st_order_states := (\<lambda>k. if fst k \<in> set configured then st_order_states s k else None)\<rparr> in
     if \<not> mu_changed m
     then (Ok \<lparr>pu_affected_count = 0, pu_affected_scopes = mu_affected_scopes m, pu_revision = revision_text f\<rparr>,
           w\<lparr>nw_state := next\<rparr>)
     else io_bind (commit_file V p now next w) (\<lambda>previous w.
       (Ok \<lparr>pu_affected_count = mu_affected_count m, pu_affected_scopes = mu_affected_scopes m,
            pu_revision = revision_text (st_file (nw_state w))\<rparr>,
        emit (changed_event previous w ChangeReset (mu_affected_scopes m) None None) w))))"
    by (auto simp: Let_def intro!: memory stays_commit)
qed

lemma stays_delete_account: "R w (snd (delete_account_partition V p account now w))"
  unfolding delete_account_partition_def Let_def
  by (intro stays_pure)
    (auto simp: with_cleaned_file_def Let_def revision_simps without_partition_def cleanup_source_event_index_def
      list_ex_iff intro!: memory stays_commit filter_True)

lemma stays_incident: "R w (snd (observe_incident V p key account epoch prefix state policy now w))"
proof -
  have pub: "R w (snd (io_bind (policy_context_new account epoch source, w) (\<lambda>pc w.
          io_bind (pol pc, w) (\<lambda>n w. publish_unseen V p n now (\<lambda>s. s\<lparr>st_active_incidents := g s\<rparr>) w))))"
    for w source pol g
    by (intro stays_pure stays_publish_unseen) simp
  have pub_drawn: "R w (snd (io_bind (policy_context_new account epoch source, w') (\<lambda>pc w.
          io_bind (pol pc, w) (\<lambda>n w. publish_unseen V p n now (\<lambda>s. s\<lparr>st_active_incidents := g s\<rparr>) w))))"
    if "draw_id V w = (x, w')" for x w' source pol g
    using trans [OF stays_draw [of w]] pub [of w' source] that by simp
  show ?thesis
    by (auto simp: observe_incident_def refl pub pub_drawn split: availability_state.splits option.splits prod.splits)
qed

lemma stays_observe_connection: "R w (snd (observe_connection V p co now w))"
  unfolding observe_connection_def by (intro stays_pure stays_incident)

lemma stays_observe_environment: "R w (snd (observe_environment V p eo now w))"
  unfolding observe_environment_def by (intro stays_pure stays_incident)

lemma stays_session_expired: "R w (snd (observe_session_expired V p account epoch token now w))"
  unfolding observe_session_expired_def by (intro stays_pure) (auto simp: refl intro!: stays_pure stays_publish)

lemma stays_observe_order: "R w (snd (observe_order V p ob now w))"
  unfolding observe_order_def Let_def
  by (intro stays_pure)
    (auto simp: refl set_order_states_def intro!: memory stays_pure stays_publish_unseen)

end

section \<open>Announcements\<close>

text \<open>
  The events of a run: each one leads from the revision the previous one reached to its successor.
\<close>

fun event_chain :: "u64 \<Rightarrow> notification_changed_event list \<Rightarrow> u64 \<Rightarrow> bool" where
  "event_chain a [] b = (a = b)"
| "event_chain a (e # es) b =
     (unat a + 1 < 2 ^ 64 \<and> ev_previous_revision e = nat_to_string (unat a)
      \<and> ev_revision e = nat_to_string (unat a + 1) \<and> event_chain (a + 1) es b)"

lemma event_chain_append:
  "event_chain a es b \<Longrightarrow> event_chain b fs c \<Longrightarrow> event_chain a (es @ fs) c"
  by (induction es arbitrary: a) auto

lemma event_chain_length:
  "event_chain a es b \<Longrightarrow> unat b = unat a + length es"
proof (induction es arbitrary: a)
  case (Cons e es)
  then have "unat (a + 1) = unat a + 1" by (simp add: unat_word_ariths)
  with Cons.IH [of "a + 1"] Cons.prems show ?case by simp
qed simp

definition announced :: "notification_world \<Rightarrow> notification_world \<Rightarrow> bool" where
  "announced w w' \<longleftrightarrow>
     (\<exists>es. nw_events w' = nw_events w @ es \<and> event_chain (world_revision w) es (world_revision w')
       \<and> (es = [] \<longrightarrow> fl_partitions (st_file (nw_state w')) = fl_partitions (st_file (nw_state w))))"

lemma announced_quiet:
  "nw_events w' = nw_events w \<Longrightarrow> world_revision w' = world_revision w
    \<Longrightarrow> fl_partitions (st_file (nw_state w')) = fl_partitions (st_file (nw_state w)) \<Longrightarrow> announced w w'"
  by (simp add: announced_def)

interpretation announce: service_relation V p announced for V p
proof
  show "announced w w" for w by (simp add: announced_quiet)
  show "announced w w1 \<Longrightarrow> announced w1 w2 \<Longrightarrow> announced w w2" for w w1 w2
    unfolding announced_def using event_chain_append by fastforce
  show "announced w (w\<lparr>nw_drawn := k\<rparr>)" for w k by (simp add: announced_quiet)
  show "fl_revision (st_file s) = world_revision w \<Longrightarrow> fl_partitions (st_file s) = fl_partitions (st_file (nw_state w))
      \<Longrightarrow> announced w (w\<lparr>nw_state := s\<rparr>)" for s w
    by (simp add: announced_quiet)
  show "commit_file V p now nx w = (r, w') \<Longrightarrow> \<not> is_ok r \<Longrightarrow> announced w w'" for now nx w r w'
    using commit_file_not_Ok [of V p now nx w r w'] by (simp add: announced_quiet)
  show "announced w (emit (changed_event previous w' change scopes i toast) w')"
    if c: "commit_file V p now nx w = (Ok previous, w')" "fl_revision (st_file nx) = world_revision w"
    for now nx w previous w' change scopes i toast
  proof -
    note ok = commit_file_Ok [OF c(1)]
    then have "unat (world_revision w + 1) = unat (world_revision w) + 1" using c(2) by (simp add: unat_word_ariths)
    then show ?thesis
      using ok c(2) unfolding announced_def
      by (intro exI [of _ "[changed_event previous w' change scopes i toast]"])
        (simp add: emit_def changed_event_def revision_text_def)
  qed
qed

section \<open>Runs\<close>

text \<open>The calls the rest of the program makes on the service, and what each leaves of the world.\<close>

datatype service_call =
    CallPublish notification_input
  | CallClientFailure notification_input
  | CallMarkRead view_context string
  | CallMarkVisibleRead view_context
  | CallDeleteVisible view_context string
  | CallClearAccount string string
  | CallPrune "string list"
  | CallDeleteAccount string
  | CallObserveConnection connection_observation
  | CallObserveEnvironment environment_observation
  | CallSessionExpired string u64 string
  | CallObserveOrder order_observation

primrec service_step :: "notification_env \<Rightarrow> path \<Rightarrow> u64 \<Rightarrow> service_call \<Rightarrow> notification_world \<Rightarrow> notification_world" where
  "service_step V p now (CallPublish n) w = snd (publish V p n now w)"
| "service_step V p now (CallClientFailure n) w = snd (publish_client_account_failure V p n now w)"
| "service_step V p now (CallMarkRead c i) w = snd (mark_read V p c i now w)"
| "service_step V p now (CallMarkVisibleRead c) w = snd (mark_visible_read V p c now w)"
| "service_step V p now (CallDeleteVisible c i) w = snd (delete_visible V p c i now w)"
| "service_step V p now (CallClearAccount a b) w = snd (clear_account V p a b now w)"
| "service_step V p now (CallPrune accounts) w = snd (prune V p accounts now w)"
| "service_step V p now (CallDeleteAccount a) w = snd (delete_account_partition V p a now w)"
| "service_step V p now (CallObserveConnection ob) w = snd (observe_connection V p ob now w)"
| "service_step V p now (CallObserveEnvironment ob) w = snd (observe_environment V p ob now w)"
| "service_step V p now (CallSessionExpired a e t) w = snd (observe_session_expired V p a e t now w)"
| "service_step V p now (CallObserveOrder ob) w = snd (observe_order V p ob now w)"

definition service_run ::
  "notification_env \<Rightarrow> path \<Rightarrow> (u64 \<times> service_call) list \<Rightarrow> notification_world \<Rightarrow> notification_world" where
  "service_run V p calls w = fold (\<lambda>(now, call). service_step V p now call) calls w"

lemma service_run_simps [simp]:
  "service_run V p [] w = w"
  "service_run V p ((now, call) # calls) w = service_run V p calls (service_step V p now call w)"
  by (simp_all add: service_run_def)

context service_relation
begin

lemma stays_step: "R w (service_step V p now call w)"
  by (cases call)
    (simp_all add: stays_publish stays_client stays_mark_read stays_mark_visible_read stays_delete_visible
      stays_clear_account stays_prune stays_delete_account stays_observe_connection stays_observe_environment
      stays_session_expired stays_observe_order)

lemma stays_run: "R w (service_run V p calls w)"
proof (induction calls arbitrary: w)
  case Nil
  then show ?case by (simp add: refl)
next
  case (Cons c calls)
  then show ?case by (cases c) (simp add: trans [OF stays_step Cons.IH])
qed

end

end
