(* ===== verification/Notification_Shrink.thy ===== *)
theory Notification_Shrink
  imports Notification_Commit Subsequences
begin

text \<open>
  A file is well formed when the store accepts it and its source-event index knows the source of every
  record.  Everything the service removes (expired records, orphaned accounts, evictions, deletions)
  leaves a file that \<open>shrinks\<close> the old one, and a file that shrinks a well-formed one is well formed.
\<close>

section \<open>Multisets of records\<close>

lemma distinct_mset_mono:
  assumes "distinct xs" "mset ys \<subseteq># mset xs"
  shows "distinct ys"
proof -
  obtain zs where "mset xs = mset (ys @ zs)"
    using assms(2) by (metis ex_mset mset_append mset_subset_eq_exists_conv)
  then have "distinct (ys @ zs)" using assms(1) mset_eq_imp_distinct_iff by blast
  then show ?thesis by simp
qed

lemma mset_filter_le: "mset (filter P xs) \<subseteq># mset xs"
  by (simp add: mset_filter)

lemma mset_concat_map_le:
  "(\<And>x. x \<in> set xs \<Longrightarrow> mset (f x) \<subseteq># mset (g x)) \<Longrightarrow> mset (concat (map f xs)) \<subseteq># mset (concat (map g xs))"
  by (induction xs) (auto intro: subset_mset.add_mono)

lemma mset_concat_filter_le: "mset (concat (map f (filter P xs))) \<subseteq># mset (concat (map f xs))"
  by (induction xs) (auto simp: subset_mset.add_increasing intro: subset_mset.add_mono)

lemma length_filter_mset_mono: "mset xs \<subseteq># mset ys \<Longrightarrow> length (filter P xs) \<le> length (filter P ys)"
  by (metis mset_filter multiset_filter_mono size_mset size_mset_mono)

lemma map_filter_mset_mono:
  assumes "mset xs \<subseteq># mset ys"
  shows "mset (List.map_filter f xs) \<subseteq># mset (List.map_filter f ys)"
  using assms unfolding map_filter_def by (simp add: image_mset_subseteq_mono multiset_filter_mono mset_filter)

lemma map_of_rev_distinct: "distinct (map fst xs) \<Longrightarrow> map_of (rev xs) k = map_of xs k"
  by (metis distinct_rev map_of_inject_set rev_map set_rev)

section \<open>The records of a file\<close>

definition part_records :: "notification_partition \<Rightarrow> (string \<times> notification_scope \<times> notification_record) list" where
  "part_records p = map (\<lambda>r. (nr_id r, np_scope p, r)) (np_items p)"

lemma placed_records_parts: "placed_records f = concat (map part_records (fl_partitions f))"
  by (simp add: placed_records_def part_records_def [abs_def])

lemma record_keys_placed: "record_keys f = map (\<lambda>(i, s, r). (s, i)) (placed_records f)"
  by (simp add: record_keys_def placed_records_def map_concat comp_def)

lemma in_record_keys: "(s, i) \<in> set (record_keys f) \<longleftrightarrow> (\<exists>r. (i, s, r) \<in> set (placed_records f))"
  by (force simp: record_keys_placed)

lemma creating_sources_placed:
  "creating_sources f =
     List.map_filter (\<lambda>(i, s, r). map_option (\<lambda>x. ((s, x), i)) (nr_source_event_id r)) (placed_records f)"
proof -
  have "List.map_filter (\<lambda>(i, s, r). map_option (\<lambda>x. ((s, x), i)) (nr_source_event_id r)) (concat (map part_records ps)) =
    concat (map (\<lambda>p. List.map_filter (\<lambda>r. map_option (\<lambda>s. ((np_scope p, s), nr_id r)) (nr_source_event_id r)) (np_items p)) ps)" for ps
    by (induction ps) (simp_all add: map_filter_def part_records_def filter_map comp_def)
  then show ?thesis by (simp add: creating_sources_def placed_records_parts)
qed

lemma in_creating_sources:
  "((s, x), i) \<in> set (creating_sources f) \<longleftrightarrow> (\<exists>r. (i, s, r) \<in> set (placed_records f) \<and> nr_source_event_id r = Some x)"
  by (auto simp: creating_sources_placed set_map_filter) force

lemma in_placed_records:
  "(i, s, r) \<in> set (placed_records f) \<longleftrightarrow> (\<exists>p\<in>set (fl_partitions f). np_scope p = s \<and> r \<in> set (np_items p) \<and> nr_id r = i)"
  by (auto simp: placed_records_def)

lemma part_records_filter:
  assumes "distinct (map np_scope (fl_partitions f))" and "p \<in> set (fl_partitions f)"
  shows "part_records p = filter (\<lambda>(i, s, r). s = np_scope p) (placed_records f)"
proof -
  have "filter (\<lambda>(i, s, r). s = np_scope p) (concat (map part_records ps)) = part_records p"
    if "distinct (map np_scope ps)" "p \<in> set ps" for ps
    using that
  proof (induction ps)
    case (Cons q ps)
    have "filter (\<lambda>(i, s, r). s = np_scope p) (part_records q) = (if np_scope q = np_scope p then part_records q else [])"
      by (auto simp: part_records_def filter_map comp_def)
    moreover have "filter (\<lambda>(i, s, r). s = np_scope p) (concat (map part_records ps)) = []" if "np_scope p \<notin> np_scope ` set ps"
      using that by (auto simp: filter_empty_conv part_records_def image_iff)
    ultimately show ?case using Cons by auto
  qed simp
  then show ?thesis using assms by (simp add: placed_records_parts)
qed

definition indexed :: "notification_file \<Rightarrow> bool" where
  "indexed f \<longleftrightarrow> (\<forall>e\<in>set (fl_source_event_index f). entry_key e \<in> set (record_keys f))"

definition file_inv :: "notification_env \<Rightarrow> notification_file \<Rightarrow> bool" where
  "file_inv V f \<longleftrightarrow> file_valid V f \<and> set (map fst (creating_sources f)) \<subseteq> set (index_keys f)"

lemma entry_valid_key: "entry_valid V f e \<Longrightarrow> entry_key e \<in> set (record_keys f)"
  by (auto simp: entry_valid_def Let_def in_record_keys entry_key_def split: option.splits dest!: map_of_SomeD)

lemma file_valid_indexed: "file_valid V f \<Longrightarrow> indexed f"
  by (auto simp: file_valid_def indexed_def list_all_iff intro: entry_valid_key)

section \<open>Shrinking\<close>

definition shrinks :: "notification_file \<Rightarrow> notification_file \<Rightarrow> bool" where
  "shrinks g f \<longleftrightarrow>
     fl_schema_version g = fl_schema_version f
     \<and> subseq (map np_scope (fl_partitions g)) (map np_scope (fl_partitions f))
     \<and> mset (placed_records g) \<subseteq># mset (placed_records f)
     \<and> fl_source_event_index g = filter (\<lambda>e. entry_key e \<in> set (record_keys g)) (fl_source_event_index f)"

lemma shrinks_refl: "indexed f \<Longrightarrow> shrinks f f"
  by (simp add: shrinks_def indexed_def)

lemma shrinks_indexed: "shrinks g f \<Longrightarrow> indexed g"
  by (simp add: shrinks_def indexed_def)

lemma shrinks_placed: "shrinks g f \<Longrightarrow> set (placed_records g) \<subseteq> set (placed_records f)"
  unfolding shrinks_def using set_mset_mono by fastforce

lemma shrinks_keys: "shrinks g f \<Longrightarrow> set (record_keys g) \<subseteq> set (record_keys f)"
  using shrinks_placed [of g f] by (auto simp: in_record_keys) blast

lemma shrinks_trans:
  assumes "shrinks h g" "shrinks g f"
  shows "shrinks h f"
  using assms shrinks_keys [OF assms(1)]
  by (auto simp: shrinks_def intro: subseq_order.order_trans subset_mset.order_trans intro!: filter_cong)

lemma shrinks_entry_valid:
  assumes valid: "file_valid V f" and sh: "shrinks g f" and e: "e \<in> set (fl_source_event_index g)"
  shows "entry_valid V g e"
proof -
  have ve: "entry_valid V f e" using valid sh e by (auto simp: file_valid_def shrinks_def list_all_iff)
  have df: "distinct (map fst (placed_records f))" and dc: "distinct (map fst (creating_sources f))"
    using valid by (auto simp: file_valid_def)
  have dg: "distinct (map fst (placed_records g))" and dcg: "distinct (map fst (creating_sources g))"
    using df dc distinct_mset_mono [of "map fst (placed_records f)" "map fst (placed_records g)"]
      distinct_mset_mono [of "map fst (creating_sources f)" "map fst (creating_sources g)"] sh
    by (auto simp: shrinks_def creating_sources_placed image_mset_subseteq_mono map_filter_mset_mono)
  obtain r where r: "(si_notification_id e, si_scope e, r) \<in> set (placed_records g)"
    using e sh by (auto simp: shrinks_def entry_key_def in_record_keys)
  then have target: "map_of (rev (placed_records g)) (si_notification_id e) = map_of (rev (placed_records f)) (si_notification_id e)"
    using shrinks_placed [OF sh] df dg by (simp add: map_of_rev_distinct subset_iff)
  have sub: "set (creating_sources g) \<subseteq> set (creating_sources f)"
    using shrinks_placed [OF sh] by (auto simp: in_creating_sources) blast
  have "i = si_notification_id e" if "map_of (rev (creating_sources g)) (si_scope e, si_source_event_id e) = Some i" for i
  proof -
    have "((si_scope e, si_source_event_id e), i) \<in> set (creating_sources f)"
      using map_of_SomeD [OF that] sub by auto
    then have "map_of (rev (creating_sources f)) (si_scope e, si_source_event_id e) = Some i"
      using dc by (simp add: map_of_rev_distinct)
    then show ?thesis using ve by (simp add: entry_valid_def Let_def)
  qed
  then show ?thesis using ve target by (auto simp: entry_valid_def Let_def split: option.splits)
qed

lemma shrinks_partition_valid:
  assumes valid: "file_valid V f" and sh: "shrinks g f" and q: "q \<in> set (fl_partitions g)"
  shows "partition_valid V q"
proof -
  have df: "distinct (map np_scope (fl_partitions f))" using valid by (simp add: file_valid_def)
  then have dg: "distinct (map np_scope (fl_partitions g))" using sh subseq_distinct by (auto simp: shrinks_def)
  have "np_scope q \<in> np_scope ` set (fl_partitions f)"
    using q sh subseq_set [of "map np_scope (fl_partitions g)" "map np_scope (fl_partitions f)"]
    by (auto simp: shrinks_def)
  then obtain p where p: "p \<in> set (fl_partitions f)" "np_scope p = np_scope q" by auto
  have vp: "partition_valid V p" using valid p(1) by (simp add: file_valid_def list_all_iff)
  have "length (np_items q) = length (filter (\<lambda>(i, s, r). s = np_scope q) (placed_records g))"
    by (metis part_records_filter [OF dg q] part_records_def length_map)
  also have "\<dots> \<le> length (filter (\<lambda>(i, s, r). s = np_scope q) (placed_records f))"
    using sh by (intro length_filter_mset_mono) (simp add: shrinks_def)
  also have "\<dots> = length (np_items p)"
    by (metis part_records_filter [OF df p(1)] part_records_def length_map p(2))
  finally have "length (np_items q) \<le> max_partition_items" using vp by (simp add: partition_valid_def)
  moreover have "is_ok (record_validate (en_generated V) r) \<and> nr_scope r = np_scope q" if r: "r \<in> set (np_items q)" for r
  proof -
    have "(nr_id r, np_scope q, r) \<in> set (placed_records g)" using q r by (auto simp: in_placed_records)
    then have "(nr_id r, np_scope q, r) \<in> set (placed_records f)" using shrinks_placed [OF sh] by blast
    then obtain p' where "p' \<in> set (fl_partitions f)" "np_scope p' = np_scope q" "r \<in> set (np_items p')"
      by (auto simp: in_placed_records)
    then show ?thesis using valid by (fastforce simp: file_valid_def list_all_iff partition_valid_def)
  qed
  ultimately show ?thesis using vp p(2) by (simp add: partition_valid_def list_all_iff)
qed

lemma shrinks_file_inv:
  assumes inv: "file_inv V f" and sh: "shrinks g f"
  shows "file_inv V g"
proof -
  have valid: "file_valid V f" using inv by (simp add: file_inv_def)
  let ?ig = "fl_source_event_index g" and ?if = "fl_source_event_index f"
  have ig: "?ig = filter (\<lambda>e. entry_key e \<in> set (record_keys g)) ?if" using sh by (simp add: shrinks_def)
  have sub: "set ?ig \<subseteq> set ?if" unfolding ig by auto
  have "length ?ig \<le> length ?if" unfolding ig by (rule length_filter_le)
  then have "length ?ig \<le> max_source_index_total" using valid by (simp add: file_valid_def)
  moreover have count: "length (indexed_entries (Some s) g) \<le> length (indexed_entries (Some s) f)" for s
    unfolding indexed_entries_def ig by (rule length_filter_mset_mono) (simp add: mset_filter)
  moreover have "list_all (\<lambda>s. length (indexed_entries (Some s) g) \<le> max_source_index_per_scope) (map si_scope ?ig)"
    using valid sub order_trans [OF count] by (auto simp: file_valid_def list_all_iff)
  moreover have "distinct (map np_scope (fl_partitions g))"
    using valid sh subseq_distinct by (auto simp: file_valid_def shrinks_def)
  moreover have "distinct (map fst (placed_records g))" "distinct (map fst (creating_sources g))"
    using valid distinct_mset_mono [of "map fst (placed_records f)" "map fst (placed_records g)"]
      distinct_mset_mono [of "map fst (creating_sources f)" "map fst (creating_sources g)"] sh
    by (auto simp: file_valid_def shrinks_def creating_sources_placed image_mset_subseteq_mono map_filter_mset_mono)
  moreover have "distinct (index_keys g)" using valid unfolding index_keys_def ig by (simp add: file_valid_def index_keys_def distinct_map_filter)
  moreover have "set (map fst (creating_sources g)) \<subseteq> set (index_keys g)"
  proof
    fix k assume "k \<in> set (map fst (creating_sources g))"
    then obtain s x i where k: "k = (s, x)" and c: "((s, x), i) \<in> set (creating_sources g)" by auto
    then have cf: "((s, x), i) \<in> set (creating_sources f)" and key: "(s, i) \<in> set (record_keys g)"
      using shrinks_placed [OF sh] by (auto simp: in_creating_sources in_record_keys)
    then have "(s, x) \<in> set (index_keys f)" using inv by (force simp: file_inv_def)
    then obtain e where e: "e \<in> set ?if" "si_scope e = s" "si_source_event_id e = x" by (auto simp: index_keys_def)
    have "map_of (rev (creating_sources f)) (s, x) = Some i"
      using cf valid by (simp add: map_of_rev_distinct file_valid_def)
    then have "si_notification_id e = i"
      using e valid by (fastforce simp: file_valid_def list_all_iff entry_valid_def Let_def)
    then have "e \<in> set ?ig" using e key unfolding ig by (simp add: entry_key_def)
    then show "k \<in> set (index_keys g)" using e k by (force simp: index_keys_def)
  qed
  ultimately show ?thesis
    using valid sh shrinks_entry_valid [OF valid sh] shrinks_partition_valid [OF valid sh] ig
    unfolding file_inv_def file_valid_def by (auto simp: shrinks_def list_all_iff)
qed

section \<open>What the service removes\<close>

lemma record_keys_partitions [simp]:
  "record_keys (f\<lparr>fl_source_event_index := x\<rparr>) = record_keys f" "record_keys (f\<lparr>fl_revision := r\<rparr>) = record_keys f"
  "placed_records (f\<lparr>fl_source_event_index := x\<rparr>) = placed_records f" "placed_records (f\<lparr>fl_revision := r\<rparr>) = placed_records f"
  by (simp_all add: record_keys_def placed_records_def)

lemma shrinks_cleanup:
  assumes "subseq (map np_scope P) (map np_scope (fl_partitions f))"
    and "mset (concat (map part_records P)) \<subseteq># mset (placed_records f)"
  shows "shrinks (snd (cleanup_source_event_index (f\<lparr>fl_partitions := P\<rparr>))) f"
  using assms by (simp add: shrinks_def cleanup_source_event_index_def Let_def placed_records_parts)

lemma concat_part_records_nonempty:
  "(\<And>p. \<not> K p \<Longrightarrow> np_items p = []) \<Longrightarrow> concat (map part_records (filter K ps)) = concat (map part_records ps)"
  by (induction ps) (auto simp: part_records_def)

lemma placed_drop_targets:
  "placed_records (drop_targets ts f) = filter (\<lambda>(i, s, r). (s, i) \<notin> set ts) (placed_records f)"
proof -
  have "concat (map part_records (map (\<lambda>p. p\<lparr>np_items := filter (\<lambda>r. (np_scope p, nr_id r) \<notin> set ts) (np_items p)\<rparr>) ps)) =
    filter (\<lambda>(i, s, r). (s, i) \<notin> set ts) (concat (map part_records ps))" for ps
    by (induction ps) (simp_all add: part_records_def filter_map comp_def)
  then show ?thesis by (simp add: placed_records_parts drop_targets_def)
qed

lemma shrinks_drop:
  assumes "indexed f" and empty: "\<And>p. \<not> K p \<Longrightarrow> np_items p = []"
  shows "shrinks (drop_entries ts ((drop_targets ts f)\<lparr>fl_partitions := filter K (fl_partitions (drop_targets ts f))\<rparr>)) f"
proof -
  let ?g = "(drop_targets ts f)\<lparr>fl_partitions := filter K (fl_partitions (drop_targets ts f))\<rparr>"
  have placed: "placed_records ?g = filter (\<lambda>(i, s, r). (s, i) \<notin> set ts) (placed_records f)"
    by (simp add: placed_drop_targets [symmetric] placed_records_parts [of ?g] placed_records_parts [of "drop_targets ts f"]
        concat_part_records_nonempty [of K, OF empty])
  then have keys: "k \<in> set (record_keys ?g) \<longleftrightarrow> k \<in> set (record_keys f) \<and> k \<notin> set ts" for k
    by (cases k) (auto simp: in_record_keys)
  have "map np_scope (fl_partitions (drop_targets ts f)) = map np_scope (fl_partitions f)"
    by (simp add: drop_targets_def comp_def)
  then have "subseq (map np_scope (fl_partitions ?g)) (map np_scope (fl_partitions f))"
    using subseq_map [OF subseq_filter_left, of np_scope K "fl_partitions (drop_targets ts f)"] by simp
  then show ?thesis
    using assms(1) placed keys unfolding shrinks_def
    by (auto simp: drop_entries_def drop_targets_def mset_filter_le indexed_def intro!: filter_cong)
qed

lemma shrinks_candidates: "indexed f \<Longrightarrow> shrinks (remove_record_candidates cs f) f"
  using shrinks_drop [of f "\<lambda>p. np_items p \<noteq> []"] by (simp add: remove_record_candidates_def remove_empty_partitions_def Let_def)

lemma shrinks_evict: "indexed f \<Longrightarrow> shrinks (snd (evict_indexed_records_to_limit q l pr f)) f"
  using shrinks_drop [of f "\<lambda>p. np_items p \<noteq> [] \<or> np_scope p \<notin> S" for S]
  by (simp add: evict_indexed_records_to_limit_def Let_def shrinks_refl)

lemma fst_evict_noting: "fst (evict_noting q l pr fm) = snd (evict_indexed_records_to_limit q l pr (fst fm))"
  by (simp add: evict_noting_def split: prod.splits)

lemma shrinks_fold_evict:
  "indexed (fst fm) \<Longrightarrow> shrinks (fst (fold (\<lambda>s. evict_noting (Some s) l pr) ss fm)) (fst fm)"
proof (induction ss arbitrary: fm)
  case (Cons s ss)
  have "shrinks (fst (evict_noting (Some s) l pr fm)) (fst fm)"
    using Cons.prems by (simp add: fst_evict_noting shrinks_evict)
  then show ?case using Cons.IH [of "evict_noting (Some s) l pr fm"] shrinks_indexed shrinks_trans by fastforce
qed (simp add: shrinks_refl)

lemma shrinks_caps:
  assumes "indexed (fst fm)"
  shows "shrinks (fst (enforce_source_index_caps fm)) (fst fm)"
proof -
  let ?h = "fold (\<lambda>s. evict_noting (Some s) max_source_index_per_scope None) (over_limit_scopes (fst fm)) fm"
  have h: "shrinks (fst ?h) (fst fm)" by (rule shrinks_fold_evict [OF assms])
  note shrinks_trans [OF shrinks_evict [OF shrinks_indexed [OF h]] h]
  then show ?thesis using h by (simp add: enforce_source_index_caps_def Let_def fst_evict_noting)
qed

lemma mset_take_le: "mset (take k xs) \<subseteq># mset xs"
  by (metis append_take_drop_id mset_append mset_subset_eq_add_left)

lemma mset_prune_items: "mset (prune_items now items) \<subseteq># mset items"
proof -
  let ?kept = "filter (\<lambda>r. \<not> is_expired r now) items"
  have "mset (take k (newest_first ?kept)) \<subseteq># mset ?kept" for k
    using mset_take_le [of k "newest_first ?kept"] by (simp add: newest_first_def)
  then have "mset (take k (newest_first ?kept)) \<subseteq># mset items" for k
    using subset_mset.order_trans [OF _ mset_filter_le] by blast
  then show ?thesis by (simp add: prune_items_def Let_def mset_filter_le)
qed

lemma part_records_le:
  "mset items \<subseteq># mset (np_items p) \<Longrightarrow> mset (part_records (p\<lparr>np_items := items\<rparr>)) \<subseteq># mset (part_records p)"
  by (simp add: part_records_def image_mset_subseteq_mono)

lemma shrinks_prune:
  shows "shrinks (fst (prune_file configured now f)) f"
proof -
  let ?pruned = "map (\<lambda>p. p\<lparr>np_items := prune_items now (np_items p)\<rparr>) (fl_partitions f)"
  have le: "mset (concat (map part_records ?pruned)) \<subseteq># mset (placed_records f)"
    unfolding placed_records_parts map_map comp_def
    by (intro mset_concat_map_le part_records_le mset_prune_items)
  have scopes: "map np_scope ?pruned = map np_scope (fl_partitions f)" by simp
  have clean: "shrinks (snd (cleanup_source_event_index (f\<lparr>fl_partitions := filter K1 (filter K2 ?pruned)\<rparr>))) f" for K1 K2
  proof (rule shrinks_cleanup)
    show "subseq (map np_scope (filter K1 (filter K2 ?pruned))) (map np_scope (fl_partitions f))"
      using subseq_map [OF subseq_filter_left, of np_scope "\<lambda>x. K2 x \<and> K1 x" ?pruned] unfolding filter_filter scopes .
    show "mset (concat (map part_records (filter K1 (filter K2 ?pruned)))) \<subseteq># mset (placed_records f)"
      unfolding filter_filter by (rule subset_mset.order_trans [OF mset_concat_filter_le le])
  qed
  have "shrinks (fst (case cleanup_source_event_index (f\<lparr>fl_partitions := filter K1 (filter K2 ?pruned)\<rparr>) of
      (scopes, f) \<Rightarrow> enforce_source_index_caps (f, fold note_scope scopes m))) f" for K1 K2 m
  proof (cases "cleanup_source_event_index (f\<lparr>fl_partitions := filter K1 (filter K2 ?pruned)\<rparr>)")
    case (Pair ss g)
    then have "shrinks g f" using clean [of K1 K2] by simp
    then show ?thesis
      using shrinks_trans [OF shrinks_caps [of "(g, fold note_scope ss m)"]] shrinks_indexed Pair by simp
  qed
  then show ?thesis unfolding prune_file_def Let_def by blast
qed

section \<open>Evicting one record\<close>

lemma in_enumerate: "(i, x) \<in> set (enumerate 0 xs) \<longleftrightarrow> i < length xs \<and> x = xs ! i"
  by (auto simp: in_set_enumerate_eq)

lemma in_record_places:
  "(i, j, r) \<in> set (record_places q f) \<longleftrightarrow>
     i < length (fl_partitions f) \<and> in_scope q (np_scope (fl_partitions f ! i))
     \<and> j < length (np_items (fl_partitions f ! i)) \<and> r = np_items (fl_partitions f ! i) ! j"
proof -
  have "(i, j, r) \<in> set (record_places q f) \<longleftrightarrow>
    (\<exists>p. (i, p) \<in> set (enumerate 0 (fl_partitions f)) \<and> in_scope q (np_scope p) \<and> (j, r) \<in> set (enumerate 0 (np_items p)))"
    by (auto simp: record_places_def split: if_splits)
  then show ?thesis by (auto simp: in_enumerate)
qed

lemma oldest_place_in: "oldest_place best cs = Some c \<Longrightarrow> best = Some c \<or> c \<in> set cs"
  by (induction best cs rule: oldest_place.induct) (fastforce split: option.splits if_splits)+

lemma oldest_place_None: "oldest_place best cs = None \<longleftrightarrow> best = None \<and> cs = []"
  by (induction best cs rule: oldest_place.induct) (auto split: option.splits)

lemma mset_remove_at: "i < length xs \<Longrightarrow> mset xs = add_mset (xs ! i) (mset (remove_at i xs))"
  unfolding remove_at_def
  by (metis add_mset_add_single id_take_nth_drop mset.simps(2) mset_append union_mset_add_mset_right)

lemma subseq_remove_at: "subseq (remove_at i xs) xs"
  unfolding remove_at_def
  by (metis append_take_drop_id list_emb_append_mono subseq_drop_many subseq_order.order_refl drop_drop
      plus_1_eq_Suc append_Nil)

lemma concat_update_mset:
  "i < length ps \<Longrightarrow> mset (concat (map f (ps[i := q]))) + mset (f (ps ! i)) = mset (concat (map f ps)) + mset (f q)"
proof (induction ps arbitrary: i)
  case (Cons p ps)
  then show ?case by (cases i) (auto simp: add.assoc add.left_commute)
qed simp

lemma place_removed:
  assumes "i < length (fl_partitions f)" "j < length (np_items (fl_partitions f ! i))"
  defines "p \<equiv> fl_partitions f ! i" and "q \<equiv> (fl_partitions f ! i)\<lparr>np_items := remove_at j (np_items (fl_partitions f ! i))\<rparr>"
  shows "mset (concat (map part_records ((fl_partitions f)[i := q]))) \<subset># mset (placed_records f)"
    and "map np_scope ((fl_partitions f)[i := q]) = map np_scope (fl_partitions f)"
proof -
  have "mset (part_records p) = add_mset (nr_id (np_items p ! j), np_scope p, np_items p ! j) (mset (part_records q))"
    using mset_remove_at [OF assms(2)] by (simp add: part_records_def p_def q_def)
  then have "mset (part_records q) \<subset># mset (part_records p)" by simp
  then show "mset (concat (map part_records ((fl_partitions f)[i := q]))) \<subset># mset (placed_records f)"
    using concat_update_mset [OF assms(1), of part_records q] unfolding placed_records_parts p_def
    by (metis (no_types) add.commute add_less_cancel_left subset_mset.add_less_cancel_left)
  show "map np_scope ((fl_partitions f)[i := q]) = map np_scope (fl_partitions f)"
    using list_update_id [of "map np_scope (fl_partitions f)" i] assms(1) by (simp add: map_update q_def)
qed

lemma evict_oldest_shrinks:
  assumes "evict_oldest_record q f = Some (s, g)"
  shows "shrinks g f" and "place_count g < place_count f"
proof -
  obtain i j r where o: "oldest_place None (record_places q f) = Some (i, j, r)"
    using assms by (auto simp: evict_oldest_record_def split: option.splits)
  then have ij: "i < length (fl_partitions f)" "j < length (np_items (fl_partitions f ! i))"
    using oldest_place_in [OF o] by (auto simp: in_record_places)
  let ?q = "(fl_partitions f ! i)\<lparr>np_items := remove_at j (np_items (fl_partitions f ! i))\<rparr>"
  let ?P = "if np_items ?q = [] then remove_at i (fl_partitions f) else (fl_partitions f)[i := ?q]"
  have g: "g = snd (cleanup_source_event_index (f\<lparr>fl_partitions := ?P\<rparr>))"
    using assms o by (auto simp: evict_oldest_record_def Let_def)
  note pr = place_removed [OF ij]
  have eq: "mset (concat (map part_records ?P)) = mset (concat (map part_records ((fl_partitions f)[i := ?q])))"
  proof (cases "np_items ?q = []")
    case True
    then show ?thesis
      using ij(1) by (simp add: upd_conv_take_nth_drop remove_at_def part_records_def)
  qed simp
  have "subseq (map np_scope ?P) (map np_scope (fl_partitions f))"
    using pr(2) subseq_map [OF subseq_remove_at, of np_scope i "fl_partitions f"] by simp
  then show "shrinks g f" unfolding g using pr(1) eq by (intro shrinks_cleanup) (auto simp: subset_mset.less_imp_le)
  have "size (mset (placed_records g)) < size (mset (placed_records f))"
    using mset_subset_size [OF pr(1)] eq
    by (simp add: g cleanup_source_event_index_def Let_def placed_records_parts [of "fl_partitions_update _ _"] size_mset [symmetric]
        del: size_mset)
  then show "place_count g < place_count f" by (simp add: place_count_def record_keys_placed)
qed

lemma evict_oldest_None:
  assumes "evict_oldest_record (Some s) f = None"
  shows "partition_record_count f s = 0"
proof -
  have "record_places (Some s) f = []"
    using assms oldest_place_None [of None "record_places (Some s) f"]
    by (auto simp: evict_oldest_record_def Let_def split: option.splits)
  then have none: "(i, j, r) \<notin> set (record_places (Some s) f)" for i j r by simp
  show ?thesis
  proof (cases "find_partition f s")
    case (Some p)
    then obtain i where i: "i < length (fl_partitions f)" "fl_partitions f ! i = p" "np_scope p = s"
      by (auto simp: find_partition_def find_Some_iff)
    then have "\<not> 0 < length (np_items p)" using none [of i 0] by (auto simp: in_record_places in_scope_def)
    then show ?thesis using Some by (simp add: partition_record_count_def)
  qed (simp add: partition_record_count_def)
qed

text \<open>The fuel of \<open>make_room\<close> is enough: every round removes a record.\<close>

lemma make_room_spec:
  assumes "indexed (fst fm)" "place_count (fst fm) < k"
  shows "shrinks (fst (make_room k s fm)) (fst fm) \<and> partition_record_count (fst (make_room k s fm)) s < max_partition_items"
  using assms
proof (induction k s fm rule: make_room.induct)
  case (2 k s fm)
  show ?case
  proof (cases "partition_record_count (fst fm) s < max_partition_items")
    case False
    show ?thesis
    proof (cases "evict_oldest_record (Some s) (fst fm)")
      case None
      then have "partition_record_count (fst fm) s = 0" by (rule evict_oldest_None)
      then show ?thesis using False by (simp add: max_partition_items_def)
    next
      case (Some sg)
      obtain t g where sg: "sg = (t, g)" by (cases sg)
      note e = evict_oldest_shrinks [OF Some [unfolded sg]]
      have "place_count g < k" using e(2) 2(3) by simp
      with 2(1) [OF False Some sg [symmetric]] e(1) shrinks_indexed [OF e(1)]
      have "shrinks (fst (make_room k s (g, note_removed_record t (snd fm)))) g
        \<and> partition_record_count (fst (make_room k s (g, note_removed_record t (snd fm)))) s < max_partition_items" by simp
      then show ?thesis using False Some sg shrinks_trans [OF _ e(1)] by auto
    qed
  qed (use 2 in \<open>simp add: shrinks_refl\<close>)
qed simp

section \<open>Evicting down to a limit\<close>

lemma select_until_spec:
  fixes key :: "notification_record \<Rightarrow> notification_scope \<times> string"
  assumes "\<And>r n. (r, n) \<in> set cs \<Longrightarrow> n = length (filter (\<lambda>e. entry_key e = key r) E)"
    and "distinct (map (key \<circ> fst) cs)"
    and "\<And>e. e \<in> set E \<Longrightarrow> entry_key e \<in> (key \<circ> fst) ` set cs"
  shows "length (filter (\<lambda>e. entry_key e \<notin> key ` set (select_until limit (length E) cs)) E) \<le> limit"
  using assms
proof (induction cs arbitrary: E)
  case (Cons c cs)
  obtain r n where c: "c = (r, n)" by (cases c)
  let ?E = "filter (\<lambda>e. entry_key e \<noteq> key r) E"
  have n: "n = length (filter (\<lambda>e. entry_key e = key r) E)" using Cons.prems(1) c by simp
  then have len: "length E - n = length ?E" using sum_length_filter_compl [of "\<lambda>e. entry_key e = key r" E] by simp
  show ?case
  proof (cases "length E - n \<le> limit")
    case True
    then show ?thesis using len c by simp
  next
    case False
    have "m = length (filter (\<lambda>e. entry_key e = key s) ?E)" if "(s, m) \<in> set cs" for s m
    proof -
      have "key s \<noteq> key r" using Cons.prems(2) that c by (force simp: image_iff)
      then have "filter (\<lambda>e. entry_key e = key s) ?E = filter (\<lambda>e. entry_key e = key s) E"
        unfolding filter_filter by (intro filter_cong) auto
      then show ?thesis using Cons.prems(1) [of s m] that by simp
    qed
    then have "length (filter (\<lambda>e. entry_key e \<notin> key ` set (select_until limit (length ?E) cs)) ?E) \<le> limit"
      using Cons.prems(2,3) c by (intro Cons.IH) auto
    then show ?thesis using False len c by (simp add: filter_filter conj_commute)
  qed
next
  case (Nil E)
  then show ?case by (cases E) auto
qed


lemma evicted_to_limit:
  assumes valid: "file_valid V f"
  shows "length (indexed_entries q (snd (evict_indexed_records_to_limit q limit pr f))) \<le> limit"
proof (cases "length (indexed_entries q f) \<le> limit")
  case True
  then show ?thesis by (simp add: evict_indexed_records_to_limit_def)
next
  case False
  let ?E = "indexed_entries q f"
  let ?key = "\<lambda>r. (nr_scope r, nr_id r)"
  let ?cs = "sort_by (evict_before pr) (indexed_candidates q f)"
  have scope: "nr_scope r = np_scope p" if "p \<in> set (fl_partitions f)" "r \<in> set (np_items p)" for p r
    using valid that by (fastforce simp: file_valid_def list_all_iff partition_valid_def)
  have count: "n = length (filter (\<lambda>e. entry_key e = ?key r) ?E)" if "(r, n) \<in> set ?cs" for r n
    using that scope by (auto simp: indexed_candidates_def index_count_def)
  have "map (nr_id \<circ> fst) (indexed_candidates q f) =
      concat (map (\<lambda>p. map nr_id (filter (\<lambda>r. 0 < index_count q f (np_scope p, nr_id r)) (np_items p)))
        (filter (\<lambda>p. in_scope q (np_scope p)) (fl_partitions f)))"
    by (simp add: indexed_candidates_def map_concat comp_def)
  also have "mset \<dots> \<subseteq># mset (concat (map (\<lambda>p. map nr_id (np_items p)) (fl_partitions f)))"
    by (rule subset_mset.order_trans [OF mset_concat_map_le mset_concat_filter_le])
      (simp add: image_mset_subseteq_mono mset_filter_le)
  also have "concat (map (\<lambda>p. map nr_id (np_items p)) (fl_partitions f)) = map fst (placed_records f)"
    by (simp add: placed_records_def map_concat comp_def)
  finally have le: "mset (map (nr_id \<circ> fst) (indexed_candidates q f)) \<subseteq># mset (map fst (placed_records f))" .
  have "distinct (map (nr_id \<circ> fst) (indexed_candidates q f))"
    by (rule distinct_mset_mono [OF _ le]) (use valid in \<open>simp add: file_valid_def\<close>)
  then have "distinct (map (nr_id \<circ> fst) ?cs)"
    using distinct_mset_mono [of "map (nr_id \<circ> fst) (indexed_candidates q f)" "map (nr_id \<circ> fst) ?cs"] by simp
  then have "distinct (map snd (map (?key \<circ> fst) ?cs))" by (simp add: comp_def)
  then have dist: "distinct (map (?key \<circ> fst) ?cs)" by (rule distinct_map [THEN iffD1, THEN conjunct1])
  have cover: "entry_key e \<in> (?key \<circ> fst) ` set ?cs" if e: "e \<in> set ?E" for e
  proof -
    have "entry_key e \<in> set (record_keys f)" using e file_valid_indexed [OF valid] by (auto simp: indexed_entries_def indexed_def)
    then obtain p r where p: "p \<in> set (fl_partitions f)" "r \<in> set (np_items p)" "entry_key e = (np_scope p, nr_id r)"
      by (auto simp: record_keys_def)
    moreover have "in_scope q (np_scope p)" using e p(3) by (simp add: indexed_entries_def entry_key_def)
    moreover have "0 < index_count q f (np_scope p, nr_id r)"
      using e p(3) by (auto simp: index_count_def length_greater_0_conv filter_empty_conv simp del: length_greater_0_conv intro!: length_pos_if_in_set [of e])
    ultimately have "(r, index_count q f (np_scope p, nr_id r)) \<in> set ?cs" by (auto simp: indexed_candidates_def)
    then show ?thesis using p scope [OF p(1,2)] by force
  qed
  have "length (filter (\<lambda>e. entry_key e \<notin> ?key ` set (select_until limit (length ?E) ?cs)) ?E) \<le> limit"
    by (rule select_until_spec) (use count dist cover in blast)+
  moreover have "indexed_entries q (snd (evict_indexed_records_to_limit q limit pr f)) =
      filter (\<lambda>e. entry_key e \<notin> ?key ` set (select_until limit (length ?E) ?cs)) ?E"
    using False by (auto simp: evict_indexed_records_to_limit_def Let_def indexed_entries_def drop_entries_def drop_targets_def
        filter_filter conj_commute)
  ultimately show ?thesis by simp
qed

end
