(* ===== verification/Notification_Invariant.thy ===== *)
theory Notification_Invariant
  imports Notification_Shrink
begin

text \<open>
  The invariant of the notification service: the store accepts its file, the index knows the source of
  every record, the set of seen sources is the index, and the identifiers still to be drawn are new.
  Every operation keeps it, so that a save is never refused because of what the service built.
\<close>

lemma find_SomeD: "List.find P xs = Some x \<Longrightarrow> x \<in> set xs \<and> P x"
  by (induction xs) (auto split: if_splits)

section \<open>Preparing the file\<close>

lemma shrinks_count:
  "shrinks g f \<Longrightarrow> length (indexed_entries q g) \<le> length (indexed_entries q f)"
  unfolding indexed_entries_def by (rule length_filter_mset_mono) (simp add: shrinks_def mset_filter)

definition room_for :: "notification_input \<Rightarrow> notification_file \<Rightarrow> bool" where
  "room_for n f \<longleftrightarrow>
     (ni_source_event_id n \<noteq> None \<longrightarrow>
        length (indexed_entries (Some (ni_scope n)) f) < max_source_index_per_scope
        \<and> length (fl_source_event_index f) < max_source_index_total)"

lemma room_for_shrinks: "room_for n f \<Longrightarrow> shrinks g f \<Longrightarrow> room_for n g"
  using shrinks_count [of g f "Some (ni_scope n)"] shrinks_count [of g f None]
  by (auto simp: room_for_def indexed_entries_def [of None] in_scope_def)

lemma prepare_file_spec:
  assumes inv: "file_inv V f" and run: "prepare_file_for_publish n now f = Ok (g, m)"
  shows "shrinks g f" and "room_for n g"
    and "find_duplicate g n = None \<Longrightarrow> partition_record_count g (ni_scope n) < max_partition_items"
proof -
  obtain h m0 where h: "prune_file None now f = (h, m0)" by fastforce
  have hf: "shrinks h f" using shrinks_prune [of None now f] h by simp
  let ?pr = "map_option nr_id (find_duplicate h n)"
  let ?h1 = "snd (evict_indexed_records_to_limit (Some (ni_scope n)) (max_source_index_per_scope - 1) ?pr h)"
  let ?h2 = "snd (evict_indexed_records_to_limit None (max_source_index_total - 1) ?pr ?h1)"
  have h1: "shrinks ?h1 h" by (rule shrinks_evict) (rule shrinks_indexed [OF hf])
  have h2: "shrinks ?h2 ?h1" by (rule shrinks_evict) (rule shrinks_indexed [OF h1])
  have v: "file_inv V h" "file_inv V ?h1"
    using shrinks_file_inv [OF inv hf] shrinks_file_inv [OF _ h1] by blast+
  have "length (indexed_entries (Some (ni_scope n)) ?h1) \<le> max_source_index_per_scope - 1"
    using v(1) evicted_to_limit [of V h] by (simp add: file_inv_def)
  moreover have "length (indexed_entries None ?h2) \<le> max_source_index_total - 1"
    using v(2) evicted_to_limit [of V ?h1] by (simp add: file_inv_def)
  ultimately have room2: "room_for n ?h2"
    using shrinks_count [OF h2, of "Some (ni_scope n)"]
    by (auto simp: room_for_def indexed_entries_def [of None] in_scope_def max_source_index_per_scope_def max_source_index_total_def)
  obtain k m1 where st: "(k, m1) = (if ni_source_event_id n = None then (h, m0)
      else evict_noting None (max_source_index_total - 1) ?pr
        (evict_noting (Some (ni_scope n)) (max_source_index_per_scope - 1) ?pr (h, m0)))"
    and fin: "(if find_duplicate k n = None then make_room (Suc (place_count k)) (ni_scope n) (k, m1) else (k, m1)) = (g, m)"
    using prepare_file_stages [OF run h] by blast
  have "k = (if ni_source_event_id n = None then h else ?h2)"
    using arg_cong [OF st, of fst] by (simp add: fst_evict_noting)
  then have k: "shrinks k f" "room_for n k"
    using hf shrinks_trans [OF h2 shrinks_trans [OF h1 hf]] room2 by (auto simp: room_for_def)
  have mr: "shrinks (fst (make_room (Suc (place_count k)) (ni_scope n) (k, m1))) k
      \<and> partition_record_count (fst (make_room (Suc (place_count k)) (ni_scope n) (k, m1))) (ni_scope n) < max_partition_items"
    using make_room_spec [of "(k, m1)" "Suc (place_count k)" "ni_scope n"] shrinks_indexed [OF k(1)] by simp
  then have gk: "shrinks g k" using fin shrinks_refl [OF shrinks_indexed [OF k(1)]] by (auto split: if_splits)
  show "shrinks g f" by (rule shrinks_trans [OF gk k(1)])
  show "room_for n g" by (rule room_for_shrinks [OF k(2) gk])
  show "partition_record_count g (ni_scope n) < max_partition_items" if "find_duplicate g n = None"
    using fin mr that by (auto split: if_splits)
qed

lemma reserve_spec:
  assumes "reserve_serialized_capacity_for_publish V prepared (f, m) = Ok (g, m')"
  shows "g = f \<or> (\<exists>cs. g = remove_record_candidates cs f
    \<and> (pp_change prepared = ChangeUpdated \<longrightarrow> nr_id (pp_record prepared) \<notin> (fst \<circ> snd) ` set cs))"
proof -
  let ?cs = "oldest_candidates (\<lambda>i. \<not> (pp_change prepared = ChangeUpdated \<and> i = nr_id (pp_record prepared))) f"
  have none: "fst (snd c) \<noteq> nr_id (pp_record prepared)" if "c \<in> set ?cs" "pp_change prepared = ChangeUpdated" for c
    using that by (auto simp: oldest_candidates_def)
  have "nr_id (pp_record prepared) \<notin> (fst \<circ> snd) ` set (take k ?cs)" if u: "pp_change prepared = ChangeUpdated" for k
  proof
    assume "nr_id (pp_record prepared) \<in> (fst \<circ> snd) ` set (take k ?cs)"
    then obtain c where "c \<in> set (take k ?cs)" "fst (snd c) = nr_id (pp_record prepared)" by (auto simp only: image_iff comp_apply)
    then show False using none [OF in_set_takeD u] by blast
  qed
  moreover have "g = f \<or> (\<exists>k. g = remove_record_candidates (take k ?cs) f)"
    using assms by (auto simp: reserve_serialized_capacity_for_publish_def Let_def split: if_splits)
  ultimately show ?thesis by blast
qed

section \<open>Entries of the index\<close>

lemma entry_valid_iff:
  assumes "distinct (map fst (placed_records f))" "distinct (map fst (creating_sources f))"
  shows "entry_valid V f e \<longleftrightarrow>
     is_ok (scope_validate (si_scope e)) \<and> is_safe_notification_source_event_id (si_source_event_id e)
     \<and> (\<exists>r. (si_notification_id e, si_scope e, r) \<in> set (placed_records f)
          \<and> client_source_target_valid V e (Some (si_scope e, r)))
     \<and> (\<forall>i. ((si_scope e, si_source_event_id e), i) \<in> set (creating_sources f) \<longrightarrow> i = si_notification_id e)"
  unfolding entry_valid_def Let_def map_of_rev_distinct [OF assms(1)] map_of_rev_distinct [OF assms(2)]
    map_of_eq_Some_iff [OF assms(1), symmetric] map_of_eq_Some_iff [OF assms(2), symmetric]
  by (cases "map_of (placed_records f) (si_notification_id e)";
      cases "map_of (creating_sources f) (si_scope e, si_source_event_id e)") auto

definition add_entry :: "source_index_entry option \<Rightarrow> notification_file \<Rightarrow> notification_file" where
  "add_entry e f = (case e of None \<Rightarrow> f | Some e \<Rightarrow> f\<lparr>fl_source_event_index := fl_source_event_index f @ [e]\<rparr>)"

lemma placed_add_entry [simp]: "placed_records (add_entry e f) = placed_records f"
  by (simp add: add_entry_def split: option.splits)

lemma creating_add_entry [simp]: "creating_sources (add_entry e f) = creating_sources f"
  by (simp add: creating_sources_placed)

text \<open>An entry for a new source keeps a valid file valid if there is room for it.\<close>

lemma add_entry_valid:
  assumes valid: "file_valid V f" and e: "entry_valid V f e" "(si_scope e, si_source_event_id e) \<notin> set (index_keys f)"
    and room: "length (indexed_entries (Some (si_scope e)) f) < max_source_index_per_scope"
      "length (fl_source_event_index f) < max_source_index_total"
  shows "file_valid V (add_entry (Some e) f)"
proof -
  let ?g = "add_entry (Some e) f"
  have g: "fl_source_event_index ?g = fl_source_event_index f @ [e]" "fl_partitions ?g = fl_partitions f"
    "fl_schema_version ?g = fl_schema_version f" by (simp_all add: add_entry_def)
  have "entry_valid V ?g x = entry_valid V f x" for x by (simp add: entry_valid_def)
  moreover have "length (indexed_entries (Some s) ?g) \<le> max_source_index_per_scope"
    if "s \<in> set (map si_scope (fl_source_event_index ?g))" for s
  proof (cases "s = si_scope e")
    case True
    then show ?thesis using room(1) by (simp add: indexed_entries_def g in_scope_def)
  next
    case False
    then have "s \<in> set (map si_scope (fl_source_event_index f))" using that g by auto
    then show ?thesis using valid False by (auto simp: indexed_entries_def g in_scope_def file_valid_def list_all_iff)
  qed
  moreover have "distinct (index_keys ?g)" using valid e(2) by (simp add: index_keys_def g file_valid_def)
  ultimately show ?thesis
    using valid e(1) room g by (simp add: file_valid_def list_all_iff)
qed

lemma add_entry_inv:
  assumes "file_valid V f" and "set (map fst (creating_sources f)) \<subseteq> insert (si_scope e, si_source_event_id e) (set (index_keys f))"
    and "entry_valid V f e" "(si_scope e, si_source_event_id e) \<notin> set (index_keys f)"
    and "length (indexed_entries (Some (si_scope e)) f) < max_source_index_per_scope"
      "length (fl_source_event_index f) < max_source_index_total"
  shows "file_inv V (add_entry (Some e) f)"
  using add_entry_valid [OF assms(1,3,4,5,6)] assms(2)
  by (auto simp: file_inv_def) (auto simp: index_keys_def add_entry_def)

section \<open>A new record\<close>

lemma push_record_placed:
  "mset (placed_records (push_record r f)) = add_mset (nr_id r, nr_scope r, r) (mset (placed_records f))"
proof (cases "find_partition f (nr_scope r)")
  case None
  then show ?thesis by (simp add: push_record_def placed_records_def)
next
  case (Some p)
  have "mset (concat (map part_records (map_first (\<lambda>p. np_scope p = nr_scope r) (\<lambda>p. p\<lparr>np_items := np_items p @ [r]\<rparr>) ps))) =
    add_mset (nr_id r, nr_scope r, r) (mset (concat (map part_records ps)))" if "List.find (\<lambda>p. np_scope p = nr_scope r) ps \<noteq> None" for ps
    using that by (induction ps) (auto simp: part_records_def)
  then show ?thesis using Some by (simp add: push_record_def placed_records_parts find_partition_def)
qed

lemma push_record_scopes:
  "map np_scope (fl_partitions (push_record r f)) =
     map np_scope (fl_partitions f) @ (if find_partition f (nr_scope r) = None then [nr_scope r] else [])"
  by (simp add: push_record_def map_first_map)

lemma in_map_first: "y \<in> set (map_first P f xs) \<Longrightarrow> y \<in> set xs \<or> (\<exists>x. List.find P xs = Some x \<and> y = f x)"
  by (induction xs) auto

lemma push_record_partition_valid:
  assumes valid: "file_valid V f" and r: "is_ok (record_validate (en_generated V) r)" "is_ok (scope_validate (nr_scope r))"
    and room: "partition_record_count f (nr_scope r) < max_partition_items"
    and q: "q \<in> set (fl_partitions (push_record r f))"
  shows "partition_valid V q"
proof (cases "find_partition f (nr_scope r)")
  case None
  have "q \<in> set (fl_partitions f) \<or> q = \<lparr>np_scope = nr_scope r, np_items = [r]\<rparr>"
    using q None by (auto simp: push_record_def)
  then show ?thesis using valid r by (auto simp: file_valid_def partition_valid_def list_all_iff max_partition_items_def)
next
  case (Some p)
  then have p: "p \<in> set (fl_partitions f)" "np_scope p = nr_scope r"
    by (auto simp: find_partition_def find_Some_iff)
  have "q \<in> set (fl_partitions f) \<or> q = p\<lparr>np_items := np_items p @ [r]\<rparr>"
    using q Some by (auto simp: push_record_def find_partition_def dest!: in_map_first)
  moreover have "partition_valid V (p\<lparr>np_items := np_items p @ [r]\<rparr>)"
    using valid p r room Some by (auto simp: file_valid_def partition_valid_def list_all_iff partition_record_count_def)
  ultimately show ?thesis using valid by (auto simp: file_valid_def list_all_iff)
qed

lemma push_record_distinct:
  assumes valid: "file_valid V f" and fresh: "nr_id r \<notin> set (map fst (placed_records f))"
    and src: "\<And>x. nr_source_event_id r = Some x \<Longrightarrow> (nr_scope r, x) \<notin> set (map fst (creating_sources f))"
  shows "distinct (map fst (placed_records (push_record r f)))" "distinct (map fst (creating_sources (push_record r f)))"
    "set (creating_sources (push_record r f)) =
       (case nr_source_event_id r of None \<Rightarrow> {} | Some x \<Rightarrow> {((nr_scope r, x), nr_id r)}) \<union> set (creating_sources f)"
proof -
  let ?h = "\<lambda>(i, s, r). map_option (\<lambda>x. ((s, x), i)) (nr_source_event_id r)"
  have m: "mset (placed_records (push_record r f)) = mset ((nr_id r, nr_scope r, r) # placed_records f)"
    by (simp add: push_record_placed)
  then have "mset (map fst (placed_records (push_record r f))) = mset (map fst ((nr_id r, nr_scope r, r) # placed_records f))"
    by (simp only: mset_map)
  then show "distinct (map fst (placed_records (push_record r f)))"
    using valid fresh mset_eq_imp_distinct_iff by (fastforce simp: file_valid_def)
  have c: "mset (creating_sources (push_record r f)) = mset (List.map_filter ?h ((nr_id r, nr_scope r, r) # placed_records f))"
    using m unfolding creating_sources_placed map_filter_def mset_map mset_filter by simp
  then have "mset (map fst (creating_sources (push_record r f))) = mset (map fst (List.map_filter ?h ((nr_id r, nr_scope r, r) # placed_records f)))"
    by (simp only: mset_map)
  then show "distinct (map fst (creating_sources (push_record r f)))"
    using valid src mset_eq_imp_distinct_iff
    by (fastforce simp: file_valid_def creating_sources_placed [symmetric] List.map_filter_simps split: option.splits)
  show "set (creating_sources (push_record r f)) =
       (case nr_source_event_id r of None \<Rightarrow> {} | Some x \<Rightarrow> {((nr_scope r, x), nr_id r)}) \<union> set (creating_sources f)"
    unfolding mset_eq_setD [OF c] by (auto simp: List.map_filter_simps creating_sources_placed split: option.splits)
qed

lemma push_record_valid:
  assumes inv: "file_inv V f" and r: "is_ok (record_validate (en_generated V) r)" "is_ok (scope_validate (nr_scope r))"
    and fresh: "nr_id r \<notin> set (map fst (placed_records f))"
    and room: "partition_record_count f (nr_scope r) < max_partition_items"
    and src: "\<And>x. nr_source_event_id r = Some x \<Longrightarrow> (nr_scope r, x) \<notin> set (index_keys f)"
  shows "file_valid V (push_record r f)"
proof -
  have valid: "file_valid V f" using inv by (simp add: file_inv_def)
  have src': "(nr_scope r, x) \<notin> set (map fst (creating_sources f))" if "nr_source_event_id r = Some x" for x
    using src [OF that] inv by (auto simp: file_inv_def)
  have d: "distinct (map fst (placed_records (push_record r f)))" "distinct (map fst (creating_sources (push_record r f)))"
    "set (creating_sources (push_record r f)) =
       (case nr_source_event_id r of None \<Rightarrow> {} | Some x \<Rightarrow> {((nr_scope r, x), nr_id r)}) \<union> set (creating_sources f)"
    using push_record_distinct [OF valid fresh] src' by blast+
  have df: "distinct (map fst (placed_records f))" "distinct (map fst (creating_sources f))" using valid by (simp_all add: file_valid_def)
  have placed: "set (placed_records (push_record r f)) = insert (nr_id r, nr_scope r, r) (set (placed_records f))"
    using push_record_placed [of r f] by (metis set_mset_add_mset_insert set_mset_mset)
  have idx: "fl_source_event_index (push_record r f) = fl_source_event_index f" by (simp add: push_record_def)
  have "entry_valid V (push_record r f) e" if e: "e \<in> set (fl_source_event_index f)" for e
  proof -
    have "entry_valid V f e" using valid e by (simp add: file_valid_def list_all_iff)
    moreover have "(si_scope e, si_source_event_id e) \<in> set (index_keys f)" using e by (auto simp: index_keys_def)
    then have "nr_source_event_id r = Some (si_source_event_id e) \<Longrightarrow> si_scope e \<noteq> nr_scope r" using src by auto
    ultimately show ?thesis
      unfolding entry_valid_iff [OF df] entry_valid_iff [OF d(1,2)] d(3) placed by (auto split: option.splits)
  qed
  moreover have "distinct (map np_scope (fl_partitions (push_record r f)))"
    using valid unfolding push_record_scopes by (auto simp: file_valid_def find_partition_def find_None_iff)
  ultimately show ?thesis
    using valid d(1,2) push_record_partition_valid [OF valid r room] idx
    by (auto simp: file_valid_def list_all_iff index_keys_def indexed_entries_def push_record_def)
qed

section \<open>Changed records\<close>

definition revise :: "(notification_record \<Rightarrow> notification_record) \<Rightarrow> notification_file \<Rightarrow> notification_file" where
  "revise h f = f\<lparr>fl_partitions := map (\<lambda>p. p\<lparr>np_items := map h (np_items p)\<rparr>) (fl_partitions f)\<rparr>"

definition revises :: "notification_env \<Rightarrow> (notification_record \<Rightarrow> notification_record) \<Rightarrow> notification_record \<Rightarrow> bool" where
  "revises V h r \<longleftrightarrow>
     nr_id (h r) = nr_id r \<and> nr_scope (h r) = nr_scope r \<and> nr_source_event_id (h r) = nr_source_event_id r
     \<and> is_ok (record_validate (en_generated V) (h r))
     \<and> (\<forall>c. nr_source_event_id r = Some c \<and> starts_with ''client:'' c \<longrightarrow> nr_kind (h r) = nr_kind r)"

lemma revise_placed:
  assumes "\<And>i s r. (i, s, r) \<in> set (placed_records f) \<Longrightarrow> nr_id (h r) = nr_id r"
  shows "placed_records (revise h f) = map (\<lambda>(i, s, r). (i, s, h r)) (placed_records f)"
proof -
  have "concat (map part_records (map (\<lambda>p. p\<lparr>np_items := map h (np_items p)\<rparr>) ps)) =
    map (\<lambda>(i, s, r). (i, s, h r)) (concat (map part_records ps))"
    if "\<And>p r. p \<in> set ps \<Longrightarrow> r \<in> set (np_items p) \<Longrightarrow> nr_id (h r) = nr_id r" for ps
    using that by (induction ps) (auto simp: part_records_def)
  moreover have "nr_id (h r) = nr_id r" if "p \<in> set (fl_partitions f)" "r \<in> set (np_items p)" for p r
    using assms [of "nr_id r" "np_scope p" r] that by (auto simp: in_placed_records)
  ultimately show ?thesis unfolding placed_records_parts revise_def by simp
qed

lemma map_filter_map_same:
  "(\<And>x. x \<in> set xs \<Longrightarrow> k (g x) = k x) \<Longrightarrow> List.map_filter k (map g xs) = List.map_filter k xs"
  by (induction xs) (simp_all add: List.map_filter_simps split: option.splits)

lemma revise_inv:
  assumes inv: "file_inv V f" and h: "\<And>i s r. (i, s, r) \<in> set (placed_records f) \<Longrightarrow> revises V h r"
  shows "file_inv V (revise h f)"
proof -
  let ?g = "revise h f"
  have valid: "file_valid V f" using inv by (simp add: file_inv_def)
  have placed: "placed_records ?g = map (\<lambda>(i, s, r). (i, s, h r)) (placed_records f)"
    using h by (intro revise_placed) (auto simp: revises_def)
  have ids: "map fst (placed_records ?g) = map fst (placed_records f)" unfolding placed by (simp add: case_prod_unfold comp_def)
  have creating: "creating_sources ?g = creating_sources f"
    unfolding creating_sources_placed placed
    by (rule map_filter_map_same) (auto simp: revises_def dest: h)
  have df: "distinct (map fst (placed_records f))" "distinct (map fst (creating_sources f))" using valid by (simp_all add: file_valid_def)
  then have dg: "distinct (map fst (placed_records ?g))" "distinct (map fst (creating_sources ?g))" by (simp_all add: ids creating)
  have "entry_valid V ?g e" if e: "e \<in> set (fl_source_event_index f)" for e
  proof -
    have "entry_valid V f e" using valid e by (simp add: file_valid_def list_all_iff)
    then obtain r where r: "(si_notification_id e, si_scope e, r) \<in> set (placed_records f)"
      "client_source_target_valid V e (Some (si_scope e, r))" and rest: "entry_valid V f e"
      unfolding entry_valid_iff [OF df] by blast
    have "(si_notification_id e, si_scope e, h r) \<in> set (placed_records ?g)" using r(1) unfolding placed by force
    moreover have "client_source_target_valid V e (Some (si_scope e, h r))"
      using r(2) h [OF r(1)] by (auto simp: client_source_target_valid_def revises_def split: option.splits if_splits)
    ultimately show ?thesis using rest unfolding entry_valid_iff [OF df] entry_valid_iff [OF dg] creating by blast
  qed
  moreover have "partition_valid V q" if q: "q \<in> set (fl_partitions ?g)" for q
  proof -
    obtain p where p: "p \<in> set (fl_partitions f)" "q = p\<lparr>np_items := map h (np_items p)\<rparr>" using q by (auto simp: revise_def)
    have "revises V h r" if "r \<in> set (np_items p)" for r using h [of "nr_id r" "np_scope p" r] p(1) that by (auto simp: in_placed_records)
    then show ?thesis
      using valid p by (fastforce simp: file_valid_def list_all_iff partition_valid_def revises_def)
  qed
  moreover have "map np_scope (fl_partitions ?g) = map np_scope (fl_partitions f)" by (simp add: revise_def comp_def)
  moreover have "fl_source_event_index ?g = fl_source_event_index f" "fl_schema_version ?g = fl_schema_version f"
    by (simp_all add: revise_def)
  ultimately show ?thesis
    using inv dg creating ids by (auto simp: file_inv_def file_valid_def list_all_iff index_keys_def indexed_entries_def)
qed

lemma map_first_items:
  "distinct (map nr_id items) \<Longrightarrow> map_first (\<lambda>x. nr_id x = i) h items = map (\<lambda>x. if nr_id x = i then h x else x) items"
proof (induction items)
  case (Cons x xs)
  then show ?case by (auto intro!: map_idI [symmetric] simp: image_iff)
qed simp

lemma map_first_partitions:
  assumes "distinct (concat (map (\<lambda>p. map nr_id (np_items p)) ps))"
    and "List.find P ps = Some q" and "i \<in> nr_id ` set (np_items q)"
  shows "map_first P (\<lambda>q. q\<lparr>np_items := map_first (\<lambda>x. nr_id x = i) h (np_items q)\<rparr>) ps =
    map (\<lambda>q. q\<lparr>np_items := map (\<lambda>x. if nr_id x = i then h x else x) (np_items q)\<rparr>) ps"
proof -
  have none: "q\<lparr>np_items := map (\<lambda>x. if nr_id x = i then h x else x) (np_items q)\<rparr> = q" if "i \<notin> nr_id ` set (np_items q)" for q
  proof -
    have "map (\<lambda>x. if nr_id x = i then h x else x) (np_items q) = np_items q" using that by (intro map_idI) auto
    then show ?thesis by simp
  qed
  show ?thesis using assms
  proof (induction ps)
    case (Cons p ps)
    show ?case
    proof (cases "P p")
      case True
      then have "i \<in> nr_id ` set (np_items p)" using Cons.prems by simp
      then have "i \<notin> nr_id ` set (np_items x)" if "x \<in> set ps" for x using Cons.prems(1) that by auto
      then have "map (\<lambda>q. q\<lparr>np_items := map (\<lambda>x. if nr_id x = i then h x else x) (np_items q)\<rparr>) ps = ps"
        by (intro map_idI) (simp add: none)
      then show ?thesis using True Cons.prems(1) by (simp add: map_first_items)
    next
      case False
      then have "q \<in> set ps" using Cons.prems(2) by (auto simp: find_Some_iff)
      then have "i \<notin> nr_id ` set (np_items p)" using Cons.prems(1,3) by auto
      then show ?thesis using False Cons by (simp add: none)
    qed
  qed simp
qed

lemma distinct_ids: "distinct (map fst (placed_records f)) \<Longrightarrow> distinct (concat (map (\<lambda>p. map nr_id (np_items p)) (fl_partitions f)))"
  by (simp add: placed_records_def map_concat comp_def)

lemma update_record_revise:
  assumes "distinct (map fst (placed_records f))" "find_record_mut f i \<noteq> None"
  shows "update_record i h f = revise (\<lambda>x. if nr_id x = i then h x else x) f"
proof -
  obtain q where q: "List.find (holds_record i) (fl_partitions f) = Some q"
    using assms(2) by (auto simp: find_record_mut_def bind_eq_Some_conv)
  then have "i \<in> nr_id ` set (np_items q)" using find_SomeD [OF q] by (auto simp: holds_record_def list_ex_iff)
  from map_first_partitions [OF distinct_ids [OF assms(1)] q this] show ?thesis by (simp add: update_record_def revise_def)
qed

text \<open>What applying a prepared publication does to a valid file.\<close>

lemma apply_prepared_form:
  assumes "apply_prepared_to_file pr f = Ok g" and "file_valid V f"
  shows "g = add_entry (pp_source_entry pr)
      (if pp_change pr = ChangeCreated then push_record (pp_record pr) f
       else revise (\<lambda>x. if nr_id x = nr_id (pp_record pr) then pp_record pr else x) f)"
    and "pp_change pr \<in> {ChangeCreated, ChangeUpdated}"
proof -
  have d: "distinct (concat (map (\<lambda>p. map nr_id (np_items p)) (fl_partitions f)))"
    using assms(2) by (simp add: file_valid_def distinct_ids)
  show "g = add_entry (pp_source_entry pr)
      (if pp_change pr = ChangeCreated then push_record (pp_record pr) f
       else revise (\<lambda>x. if nr_id x = nr_id (pp_record pr) then pp_record pr else x) f)"
  proof (cases "pp_change pr = ChangeUpdated")
    case True
    then obtain q x where q: "find_partition f (nr_scope (pp_record pr)) = Some q"
      and x: "List.find (\<lambda>r. nr_id r = nr_id (pp_record pr)) (np_items q) = Some x"
      using assms(1) by (auto simp: apply_prepared_to_file_def bind_eq_Some_conv split: option.splits)
    have "nr_id (pp_record pr) \<in> nr_id ` set (np_items q)" using find_SomeD [OF x] by (metis imageI)
    from map_first_partitions [OF d q [unfolded find_partition_def] this, of "\<lambda>_. pp_record pr"] show ?thesis
      using assms(1) True q x by (auto simp: apply_prepared_to_file_def add_entry_def revise_def split: option.splits)
  qed (use assms(1) in \<open>auto simp: apply_prepared_to_file_def add_entry_def split: notification_change.splits option.splits\<close>)
  show "pp_change pr \<in> {ChangeCreated, ChangeUpdated}"
    using assms(1) by (auto simp: apply_prepared_to_file_def split: notification_change.splits)
qed

section \<open>Sources of the client\<close>

definition well_sourced :: "notification_input \<Rightarrow> bool" where
  "well_sourced n \<longleftrightarrow>
     (\<forall>s. (ni_source_event_id n = Some s \<or> ni_dedupe_key n = s) \<and> starts_with ''client:'' s
        \<longrightarrow> ni_kind n \<in> {AccountRecoveryFailedKind, AccountReconciliationFailedKind})"

lemma split_once_Some: "split_once c s = Some (a, b) \<Longrightarrow> s = a @ c # b"
proof -
  assume "split_once c s = Some (a, b)"
  then have c: "c \<in> set s" "a = takeWhile (\<lambda>x. x \<noteq> c) s" "b = tl (dropWhile (\<lambda>x. x \<noteq> c) s)"
    by (auto simp: split_once_def split: if_splits)
  then have "dropWhile (\<lambda>x. x \<noteq> c) s \<noteq> []" by (auto simp: dropWhile_eq_Nil_conv)
  then have "dropWhile (\<lambda>x. x \<noteq> c) s = c # b" using c(3) hd_dropWhile [of "\<lambda>x. x \<noteq> c" s] by (cases "dropWhile (\<lambda>x. x \<noteq> c) s") auto
  then show ?thesis using c(2) by (metis takeWhile_dropWhile_id)
qed

lemma strip_prefix_Some: "strip_prefix p x = Some t \<Longrightarrow> x = p @ t"
  unfolding strip_prefix_def starts_with_def by (metis append_take_drop_id option.distinct(1) option.inject)

lemma client_parts_text:
  assumes "client_notification_source_parts generated x = Some (a, k, sfx)"
  shows "x = ''client:'' @ a @ '':'' @ sfx" "k \<in> {AccountRecoveryFailedKind, AccountReconciliationFailedKind}"
proof -
  obtain rest where rest: "strip_prefix ''client:'' x = Some rest" "split_once CHR '':'' rest = Some (a, sfx)"
    using assms by (auto simp: client_notification_source_parts_def bind_eq_Some_conv split: if_splits)
  have "x = ''client:'' @ rest" using rest(1) by (rule strip_prefix_Some)
  then show "x = ''client:'' @ a @ '':'' @ sfx" using split_once_Some [OF rest(2)] by simp
  show "k \<in> {AccountRecoveryFailedKind, AccountReconciliationFailedKind}"
    using assms by (auto simp: client_notification_source_parts_def bind_eq_Some_conv split: if_splits)
qed

lemma client_shape_of:
  assumes "validate_exact_shape generated n = Ok u" and "ni_kind n \<in> {AccountRecoveryFailedKind, AccountReconciliationFailedKind}"
  shows "\<exists>kind severity key sfx. client_shape generated n kind severity key sfx"
proof (cases "ni_kind n = AccountRecoveryFailedKind")
  case True
  then have "client_shape generated n AccountRecoveryFailedKind SevError ''account.recoveryFailed'' ''recovery''"
    using assms(1) by (simp add: validate_exact_shape_def split: if_splits)
  then show ?thesis by blast
next
  case False
  then have "ni_kind n = AccountReconciliationFailedKind" using assms(2) by simp
  then have "client_shape generated n AccountReconciliationFailedKind SevCritical ''account.reconciliationFailed'' ''reconciliation''"
    using assms(1) by (simp add: validate_exact_shape_def split: if_splits)
  then show ?thesis by blast
qed

lemma client_shape_source:
  assumes "validate_exact_shape generated n = Ok u" and "ni_kind n \<in> {AccountRecoveryFailedKind, AccountReconciliationFailedKind}"
  shows "ni_source_event_id n = Some (ni_dedupe_key n)"
    and "\<exists>a s. client_notification_source_parts generated (ni_dedupe_key n) = Some (a, ni_kind n, s)"
    and "starts_with ''client:'' (ni_dedupe_key n)"
proof -
  obtain sfx where "client_failure_identity_matches generated n sfx"
    using client_shape_of [OF assms] by (cases "ni_scope n") (auto simp: client_shape_def)
  then obtain x a where x: "ni_source_event_id n = Some x" "client_notification_source_parts generated x = Some (a, ni_kind n, sfx)"
    "ni_dedupe_key n = ''client:'' @ a @ '':'' @ sfx"
    by (auto simp: client_failure_identity_matches_def split: option.splits)
  moreover have "x = ni_dedupe_key n" using client_parts_text(1) [OF x(2)] x(3) by simp
  ultimately show "ni_source_event_id n = Some (ni_dedupe_key n)"
    "\<exists>a s. client_notification_source_parts generated (ni_dedupe_key n) = Some (a, ni_kind n, s)"
    "starts_with ''client:'' (ni_dedupe_key n)" by (auto simp: starts_with_def)
qed

lemma record_validate_parts:
  assumes "is_ok (record_validate generated r)"
  shows "validate_exact_shape generated (record_shape r) = Ok ()" "is_ok (scope_validate (nr_scope r))"
  using assms by (auto simp: record_validate_def is_ok_iff split: if_splits)

lemma record_client_source:
  assumes "is_ok (record_validate generated r)" and "nr_kind r \<in> {AccountRecoveryFailedKind, AccountReconciliationFailedKind}"
  shows "nr_source_event_id r = Some (nr_dedupe_key r)"
    and "\<exists>a s. client_notification_source_parts generated (nr_dedupe_key r) = Some (a, nr_kind r, s)"
    and "starts_with ''client:'' (nr_dedupe_key r)"
  using client_shape_source [OF record_validate_parts(1) [OF assms(1)]] assms(2) by (simp_all add: record_shape_def)

lemma input_validate_parts:
  assumes "input_validate generated n = Ok u"
  shows "validate_exact_shape generated n = Ok ()" "is_ok (scope_validate (ni_scope n))"
    "\<And>x. ni_source_event_id n = Some x \<Longrightarrow> is_safe_notification_source_event_id x"
  using assms by (auto simp: input_validate_def parts_invalid_def is_ok_iff split: if_splits)

section \<open>A publication\<close>

lemma shrinks_record_count:
  assumes "file_valid V f" "shrinks g f"
  shows "partition_record_count g s \<le> partition_record_count f s"
proof -
  have count: "partition_record_count f s = length (filter (\<lambda>(i, t, r). t = s) (placed_records f))"
    if d: "distinct (map np_scope (fl_partitions f))" for f
  proof (cases "find_partition f s")
    case None
    then have "np_scope p \<noteq> s" if "p \<in> set (fl_partitions f)" for p using that by (auto simp: find_partition_def find_None_iff)
    then have "filter (\<lambda>(i, t, r). t = s) (placed_records f) = []" by (auto simp: placed_records_def filter_empty_conv)
    then show ?thesis using None by (simp add: partition_record_count_def)
  next
    case (Some p)
    then have p: "p \<in> set (fl_partitions f)" "np_scope p = s" using find_SomeD by (fastforce simp: find_partition_def)+
    have "length (np_items p) = length (part_records p)" by (simp add: part_records_def)
    also have "\<dots> = length (filter (\<lambda>(i, t, r). t = s) (placed_records f))"
      using part_records_filter [OF d p(1)] p(2) by simp
    finally show ?thesis using Some by (simp add: partition_record_count_def)
  qed
  have "distinct (map np_scope (fl_partitions f))" "distinct (map np_scope (fl_partitions g))"
    using assms subseq_distinct by (auto simp: file_valid_def shrinks_def)
  then show ?thesis using assms(2) by (simp add: count length_filter_mset_mono shrinks_def)
qed

lemma prepare_record_spec:
  assumes "prepare_publish_record V fresh f n now = Ok pr" and "file_valid V f"
  shows "is_ok (record_validate (en_generated V) (pp_record pr))"
    and "nr_scope (pp_record pr) = ni_scope n" and "nr_kind (pp_record pr) = ni_kind n"
    and "nr_dedupe_key (pp_record pr) = ni_dedupe_key n"
    and "pp_source_entry pr = map_option (\<lambda>x. \<lparr>si_scope = ni_scope n, si_source_event_id = x, si_notification_id = nr_id (pp_record pr)\<rparr>)
      (ni_source_event_id n)"
    and "find_duplicate f n = None \<Longrightarrow> pp_change pr = ChangeCreated \<and> nr_id (pp_record pr) = fresh
      \<and> nr_source_event_id (pp_record pr) = ni_source_event_id n"
    and "find_duplicate f n = Some e \<Longrightarrow> pp_change pr = ChangeUpdated \<and> nr_id (pp_record pr) = nr_id e
      \<and> nr_source_event_id (pp_record pr) = nr_source_event_id e \<and> nr_dedupe_key e = ni_dedupe_key n
      \<and> (nr_id e, ni_scope n, e) \<in> set (placed_records f) \<and> nr_scope e = ni_scope n"
proof -
  have dup: "nr_dedupe_key e = ni_dedupe_key n \<and> (nr_id e, ni_scope n, e) \<in> set (placed_records f) \<and> nr_scope e = ni_scope n"
    if e: "find_duplicate f n = Some e" for e
  proof -
    obtain q where q: "find_partition f (ni_scope n) = Some q" "List.find (\<lambda>r. nr_dedupe_key r = ni_dedupe_key n) (np_items q) = Some e"
      using e by (auto simp: find_duplicate_def bind_eq_Some_conv)
    then have "q \<in> set (fl_partitions f)" "np_scope q = ni_scope n" "e \<in> set (np_items q)" "nr_dedupe_key e = ni_dedupe_key n"
      using find_SomeD by (fastforce simp: find_partition_def)+
    then show ?thesis using assms(2) by (auto simp: in_placed_records file_valid_def list_all_iff partition_valid_def)
  qed
  show "is_ok (record_validate (en_generated V) (pp_record pr))" "nr_scope (pp_record pr) = ni_scope n"
    "nr_kind (pp_record pr) = ni_kind n" "nr_dedupe_key (pp_record pr) = ni_dedupe_key n"
    "pp_source_entry pr = map_option (\<lambda>x. \<lparr>si_scope = ni_scope n, si_source_event_id = x, si_notification_id = nr_id (pp_record pr)\<rparr>)
      (ni_source_event_id n)"
    "find_duplicate f n = None \<Longrightarrow> pp_change pr = ChangeCreated \<and> nr_id (pp_record pr) = fresh
      \<and> nr_source_event_id (pp_record pr) = ni_source_event_id n"
    "find_duplicate f n = Some e \<Longrightarrow> pp_change pr = ChangeUpdated \<and> nr_id (pp_record pr) = nr_id e
      \<and> nr_source_event_id (pp_record pr) = nr_source_event_id e \<and> nr_dedupe_key e = ni_dedupe_key n
      \<and> (nr_id e, ni_scope n, e) \<in> set (placed_records f) \<and> nr_scope e = ni_scope n"
    using assms(1) dup
    by (auto simp: prepare_publish_record_def Let_def source_key_def option.map_comp comp_def is_ok_iff split: option.splits)
qed

lemma entry_client_kind:
  assumes inv: "file_inv V f" and r: "(i, s, r) \<in> set (placed_records f)"
    and src: "nr_source_event_id r = Some c" "starts_with ''client:'' c"
  shows "\<exists>a k x. client_notification_source_parts (en_generated V) c = Some (a, k, x) \<and> nr_kind r = k"
proof -
  have valid: "file_valid V f" using inv by (simp add: file_inv_def)
  then have d: "distinct (map fst (placed_records f))" "distinct (map fst (creating_sources f))" by (simp_all add: file_valid_def)
  have "((s, c), i) \<in> set (creating_sources f)" using r src(1) by (auto simp: in_creating_sources)
  moreover from this obtain e where e: "e \<in> set (fl_source_event_index f)" "si_scope e = s" "si_source_event_id e = c"
    using inv by (force simp: file_inv_def index_keys_def)
  moreover have "entry_valid V f e" using valid e(1) by (simp add: file_valid_def list_all_iff)
  ultimately obtain r' where r': "(i, s, r') \<in> set (placed_records f)" "client_source_target_valid V e (Some (s, r'))"
    unfolding entry_valid_iff [OF d] by blast
  have "r' = r" using r r'(1) d(1) by (metis map_of_eq_Some_iff option.inject prod.inject)
  then show ?thesis using r'(2) src(2) e(3) by (auto simp: client_source_target_valid_def split: option.splits)
qed

text \<open>
  A publication prepared on a file, and a file that shrinks it and still has the record to update.
\<close>

definition publication ::
  "notification_env \<Rightarrow> notification_input \<Rightarrow> u64 \<Rightarrow> string \<Rightarrow> notification_file \<Rightarrow> prepared_publish \<Rightarrow> notification_file \<Rightarrow> bool" where
  "publication V n now fresh f pr h \<longleftrightarrow>
     input_validate (en_generated V) n = Ok () \<and> well_sourced n
     \<and> file_inv V f \<and> prepare_publish_record V fresh f n now = Ok pr
     \<and> (\<forall>x. ni_source_event_id n = Some x \<longrightarrow> (ni_scope n, x) \<notin> set (index_keys f))
     \<and> room_for n f
     \<and> (find_duplicate f n = None \<longrightarrow> partition_record_count f (ni_scope n) < max_partition_items
          \<and> fresh \<notin> set (map fst (placed_records f)))
     \<and> shrinks h f
     \<and> (\<forall>e. find_duplicate f n = Some e \<longrightarrow> (nr_id e, ni_scope n, e) \<in> set (placed_records h))"

lemma publicationD:
  assumes "publication V n now fresh f pr h"
  shows "input_validate (en_generated V) n = Ok ()" "well_sourced n" "file_inv V f" "prepare_publish_record V fresh f n now = Ok pr"
    "shrinks h f" "file_valid V f" "file_inv V h" "file_valid V h"
  using assms shrinks_file_inv [of V f h] by (auto simp: publication_def file_inv_def)

lemmas publication_record = prepare_record_spec [OF publicationD(4,6)]

lemma publication_unseen:
  assumes "publication V n now fresh f pr h" "ni_source_event_id n = Some x"
  shows "(ni_scope n, x) \<notin> set (index_keys f)" "(ni_scope n, x) \<notin> set (index_keys h)"
  using assms by (auto simp: publication_def index_keys_def shrinks_def)

lemma publication_entry_room:
  assumes "publication V n now fresh f pr h" "ni_source_event_id n = Some x"
  shows "length (indexed_entries (Some (ni_scope n)) h) < max_source_index_per_scope"
    "length (fl_source_event_index h) < max_source_index_total"
  using room_for_shrinks [of n f h] assms by (auto simp: room_for_def publication_def)

lemma input_kind_of_client_source:
  assumes P: "publication V n now fresh f pr h" and src: "ni_source_event_id n = Some x" "starts_with ''client:'' x"
  shows "ni_kind n \<in> {AccountRecoveryFailedKind, AccountReconciliationFailedKind}"
    "x = ni_dedupe_key n" "\<exists>a s. client_notification_source_parts (en_generated V) x = Some (a, ni_kind n, s)"
proof -
  show k: "ni_kind n \<in> {AccountRecoveryFailedKind, AccountReconciliationFailedKind}"
    using publicationD(2) [OF P] src by (auto simp: well_sourced_def)
  note c = client_shape_source [OF input_validate_parts(1) [OF publicationD(1) [OF P]] k]
  show "x = ni_dedupe_key n" "\<exists>a s. client_notification_source_parts (en_generated V) x = Some (a, ni_kind n, s)"
    using c src(1) by auto
qed

lemma created_inv:
  assumes P: "publication V n now fresh f pr h" and none: "find_duplicate f n = None"
  shows "file_inv V (add_entry (pp_source_entry pr) (push_record (pp_record pr) h))"
proof -
  let ?r = "pp_record pr"
  note rec = publication_record [OF P P] and cr = publication_record(6) [OF P P none]
  note inv_h = publicationD(7) [OF P] and valid_h = publicationD(8) [OF P] and shrunk = publicationD(5) [OF P]
  have scope: "is_ok (scope_validate (nr_scope ?r))" by (rule record_validate_parts(2) [OF rec(1)])
  have fresh: "nr_id ?r \<notin> set (map fst (placed_records h))"
    using P none cr shrinks_placed [OF shrunk] by (auto simp: publication_def)
  have count: "partition_record_count h (nr_scope ?r) < max_partition_items"
    using P none shrinks_record_count [OF publicationD(6,5) [OF P], of "ni_scope n"] rec(2) by (simp add: publication_def)
  have src: "(nr_scope ?r, x) \<notin> set (index_keys h)" if "nr_source_event_id ?r = Some x" for x
    using publication_unseen(2) [OF P] cr that rec(2) by simp
  then have src': "(nr_scope ?r, x) \<notin> set (map fst (creating_sources h))" if "nr_source_event_id ?r = Some x" for x
    using that inv_h by (auto simp: file_inv_def)
  have valid: "file_valid V (push_record ?r h)" by (rule push_record_valid [OF inv_h rec(1) scope fresh count src])
  have creating: "set (creating_sources (push_record ?r h)) =
      (case nr_source_event_id ?r of None \<Rightarrow> {} | Some x \<Rightarrow> {((nr_scope ?r, x), nr_id ?r)}) \<union> set (creating_sources h)"
    by (rule push_record_distinct(3) [OF valid_h fresh src'])
  have keys: "index_keys (push_record ?r h) = index_keys h" by (simp add: push_record_def index_keys_def)
  show ?thesis
  proof (cases "ni_source_event_id n")
    case None
    then show ?thesis using valid creating cr keys inv_h rec(5) by (auto simp: file_inv_def add_entry_def)
  next
    case (Some x)
    let ?e = "\<lparr>si_scope = ni_scope n, si_source_event_id = x, si_notification_id = nr_id ?r\<rparr>"
    have d: "distinct (map fst (placed_records (push_record ?r h)))" "distinct (map fst (creating_sources (push_record ?r h)))"
      using valid by (simp_all add: file_valid_def)
    have "(nr_id ?r, nr_scope ?r, ?r) \<in> set (placed_records (push_record ?r h))"
      using push_record_placed [of ?r h] by (metis set_mset_mset union_single_eq_member)
    moreover have "client_source_target_valid V ?e (Some (ni_scope n, ?r))"
      using input_kind_of_client_source(3) [OF P Some] cr rec(3) Some by (auto simp: client_source_target_valid_def)
    moreover have "((ni_scope n, x), i) \<notin> set (creating_sources h)" for i
      using src' [of x] cr Some rec(2) by force
    ultimately have "entry_valid V (push_record ?r h) ?e"
      unfolding entry_valid_iff [OF d] creating using cr Some rec(2) scope input_validate_parts(3) [OF publicationD(1) [OF P] Some] by auto
    moreover have "set (map fst (creating_sources (push_record ?r h))) \<subseteq> insert (si_scope ?e, si_source_event_id ?e) (set (index_keys (push_record ?r h)))"
      using creating cr Some rec(2) inv_h keys by (auto simp: file_inv_def)
    moreover have "indexed_entries q (push_record ?r h) = indexed_entries q h" "fl_source_event_index (push_record ?r h) = fl_source_event_index h" for q
      by (simp_all add: push_record_def indexed_entries_def)
    ultimately have "file_inv V (add_entry (Some ?e) (push_record ?r h))"
      using publication_unseen(2) [OF P Some] publication_entry_room [OF P Some] keys by (intro add_entry_inv [OF valid]) simp_all
    then show ?thesis using rec(5) Some by simp
  qed
qed

lemma updated_inv:
  assumes P: "publication V n now fresh f pr h" and dup: "find_duplicate f n = Some e"
  shows "file_inv V (add_entry (pp_source_entry pr) (revise (\<lambda>x. if nr_id x = nr_id (pp_record pr) then pp_record pr else x) h))"
proof -
  let ?r = "pp_record pr" and ?h = "revise (\<lambda>x. if nr_id x = nr_id (pp_record pr) then pp_record pr else x) h"
  note rec = publication_record [OF P P] and up = publication_record(7) [OF P P dup]
  note inv = publicationD(3) [OF P] and sourced = publicationD(2) [OF P]
  note inv_h = publicationD(7) [OF P] and valid_h = publicationD(8) [OF P] and shrunk = publicationD(5) [OF P] and valid_f = publicationD(6) [OF P]
  have df: "distinct (map fst (placed_records f))" using valid_f by (simp add: file_valid_def)
  have revises: "revises V (\<lambda>x. if nr_id x = nr_id ?r then ?r else x) x" if x: "(i, s, x) \<in> set (placed_records h)" for i s x
  proof (cases "nr_id x = nr_id ?r")
    case True
    have i: "i = nr_id x" using x by (auto simp: in_placed_records)
    have xe: "x = e" "s = ni_scope n"
      using x shrinks_placed [OF shrunk] up True i df by (metis map_of_eq_Some_iff option.inject prod.inject subsetD)+
    have "nr_kind ?r = nr_kind e" if c: "nr_source_event_id e = Some c" "starts_with ''client:'' c" for c
    proof -
      have "(nr_id e, ni_scope n, e) \<in> set (placed_records f)" using up by blast
      from entry_client_kind [OF inv this c] obtain a k y where
        parts: "client_notification_source_parts (en_generated V) c = Some (a, k, y)" "nr_kind e = k" by blast
      have ke: "nr_kind e \<in> {AccountRecoveryFailedKind, AccountReconciliationFailedKind}"
        using client_parts_text(2) [OF parts(1)] parts(2) by simp
      obtain q where "q \<in> set (fl_partitions f)" "e \<in> set (np_items q)" using up by (auto simp: in_placed_records)
      then have "is_ok (record_validate (en_generated V) e)"
        using valid_f by (auto simp: file_valid_def list_all_iff partition_valid_def)
      note ce = record_client_source [OF this ke]
      have "starts_with ''client:'' (ni_dedupe_key n)" using ce(3) up by simp
      then have "nr_kind ?r \<in> {AccountRecoveryFailedKind, AccountReconciliationFailedKind}"
        using sourced rec(3) by (auto simp: well_sourced_def)
      from record_client_source(2) [OF rec(1) this] show ?thesis
        using rec(4) ce(1) c(1) parts up by auto
    qed
    then show ?thesis using True xe up rec(1,2) by (auto simp: revises_def)
  next
    case False
    obtain q where "q \<in> set (fl_partitions h)" "x \<in> set (np_items q)" using x by (auto simp: in_placed_records)
    then show ?thesis using False valid_h by (auto simp: revises_def file_valid_def list_all_iff partition_valid_def)
  qed
  have hi: "file_inv V ?h" by (rule revise_inv [OF inv_h revises])
  show ?thesis
  proof (cases "ni_source_event_id n")
    case None
    then show ?thesis using hi rec(5) by (simp add: add_entry_def)
  next
    case (Some x)
    let ?e = "\<lparr>si_scope = ni_scope n, si_source_event_id = x, si_notification_id = nr_id ?r\<rparr>"
    have v: "file_valid V ?h" using hi by (simp add: file_inv_def)
    then have d: "distinct (map fst (placed_records ?h))" "distinct (map fst (creating_sources ?h))" by (simp_all add: file_valid_def)
    have keys: "index_keys ?h = index_keys h" "indexed_entries q ?h = indexed_entries q h"
      "fl_source_event_index ?h = fl_source_event_index h" for q
      by (simp_all add: revise_def index_keys_def indexed_entries_def)
    have "(nr_id e, ni_scope n, e) \<in> set (placed_records h)" using P dup by (auto simp: publication_def)
    then have "(nr_id ?r, ni_scope n, ?r) \<in> set (placed_records ?h)"
      using revise_placed [of h "\<lambda>x. if nr_id x = nr_id ?r then ?r else x"] up by (force simp: image_iff)
    moreover have "\<not> starts_with ''client:'' x"
    proof
      assume "starts_with ''client:'' x"
      note k = input_kind_of_client_source [OF P Some this]
      have "nr_source_event_id e = Some x"
        using record_client_source(1) [OF rec(1)] k rec(3,4) up by simp
      then have "((ni_scope n, x), nr_id e) \<in> set (creating_sources f)" using up by (auto simp: in_creating_sources)
      then show False using publication_unseen(1) [OF P Some] inv by (force simp: file_inv_def)
    qed
    moreover have "((ni_scope n, x), i) \<notin> set (creating_sources ?h)" for i
      using publication_unseen(2) [OF P Some] hi keys by (force simp: file_inv_def)
    ultimately have "entry_valid V ?h ?e"
      unfolding entry_valid_iff [OF d]
      using input_validate_parts(2,3) [OF publicationD(1) [OF P]] Some by (auto simp: client_source_target_valid_def)
    then have "file_inv V (add_entry (Some ?e) ?h)"
      using publication_unseen(2) [OF P Some] publication_entry_room [OF P Some] keys hi
      by (intro add_entry_inv [OF v]) (auto simp: file_inv_def)
    then show ?thesis using rec(5) Some by simp
  qed
qed

text \<open>Hence the file a publication leaves is well formed.\<close>

lemma publication_inv:
  assumes P: "publication V n now fresh f pr h" and run: "apply_prepared_to_file pr h = Ok g"
  shows "file_inv V g"
proof (cases "find_duplicate f n")
  case None
  then show ?thesis
    using created_inv [OF P None] publication_record(6) [OF P P None] apply_prepared_form(1) [OF run publicationD(8) [OF P]] by simp
next
  case (Some e)
  then show ?thesis
    using updated_inv [OF P Some] publication_record(7) [OF P P Some] apply_prepared_form(1) [OF run publicationD(8) [OF P]] by simp
qed

end
