(* ===== verification/Notification_Safety.thy ===== *)
theory Notification_Safety
  imports Notification_Invariant
begin

text \<open>
  Every operation of the notification service keeps its invariant.
\<close>

section \<open>The invariant\<close>

definition state_inv :: "notification_env \<Rightarrow> nat \<Rightarrow> service_state \<Rightarrow> bool" where
  "state_inv V k s \<longleftrightarrow>
     file_inv V (st_file s) \<and> st_seen_source_events s = set (index_keys (st_file s))
     \<and> (\<forall>j\<ge>k. en_uuid V j \<notin> set (map fst (placed_records (st_file s))))"

definition world_inv :: "notification_env \<Rightarrow> notification_world \<Rightarrow> bool" where
  "world_inv V w \<longleftrightarrow> state_inv V (nw_drawn w) (nw_state w)"

lemma state_inv_mono: "state_inv V k s \<Longrightarrow> k \<le> k' \<Longrightarrow> state_inv V k' s"
  by (auto simp: state_inv_def)

lemma file_inv_revision [simp]: "file_inv V (f\<lparr>fl_revision := r\<rparr>) = file_inv V f"
proof -
  have "creating_sources (f\<lparr>fl_revision := r\<rparr>) = creating_sources f" by (simp add: creating_sources_def)
  then have "entry_valid V (f\<lparr>fl_revision := r\<rparr>) e = entry_valid V f e" for e by (simp add: entry_valid_def)
  then show ?thesis
    by (simp add: file_inv_def file_valid_def index_keys_def creating_sources_def indexed_entries_def cong: list.pred_cong)
qed

lemma index_keys_revision [simp]: "index_keys (f\<lparr>fl_revision := r\<rparr>) = index_keys f"
  by (simp add: index_keys_def)

lemma shrinks_revision [simp]: "shrinks (g\<lparr>fl_revision := r\<rparr>) f = shrinks g f"
  by (simp add: shrinks_def)

lemma state_inv_shrinks:
  assumes "state_inv V k s" "shrinks g (st_file s)" "st_file t = g" "st_seen_source_events t = rebuild_seen_source_events g"
  shows "state_inv V k t"
proof -
  have "set (map fst (placed_records g)) \<subseteq> set (map fst (placed_records (st_file s)))"
    using image_mono [OF shrinks_placed [OF assms(2)], of fst] by simp
  then show ?thesis
    using assms shrinks_file_inv [of V "st_file s" g] unfolding state_inv_def rebuild_seen_source_events_def index_keys_def by blast
qed

lemma commit_file_inv:
  assumes "world_inv V w" "state_inv V (nw_drawn w) nx" "commit_file V p now nx w = (r, w')"
  shows "world_inv V w'"
proof (cases r)
  case (Ok previous)
  from commit_file_Ok [OF assms(3) [unfolded Ok]] assms(2) show ?thesis by (simp add: world_inv_def state_inv_def)
qed (use commit_file_not_Ok [OF assms(3)] assms(1) in \<open>simp_all add: world_inv_def\<close>)

lemma commit_emit_inv:
  assumes "world_inv V w" "state_inv V (nw_drawn w) nx"
    and "\<And>previous w'. nw_state (snd (h previous w')) = nw_state w' \<and> nw_drawn (snd (h previous w')) = nw_drawn w'"
  shows "world_inv V (snd (io_bind (commit_file V p now nx w) h))"
proof (cases "commit_file V p now nx w")
  case (Pair r w')
  then show ?thesis using commit_file_inv [OF assms(1,2) Pair] assms(3) by (cases r) (auto simp: world_inv_def)
qed

lemma commit_mutation_inv:
  "world_inv V w \<Longrightarrow> state_inv V (nw_drawn w) nx \<Longrightarrow> world_inv V (snd (commit_mutation V p now c nx change i r n scopes w))"
  unfolding commit_mutation_def by (rule commit_emit_inv) (simp_all add: emit_def)

section \<open>Removing and reading\<close>

lemma cleaned_state_inv:
  assumes inv: "state_inv V k s" and P: "subseq (map np_scope P) (map np_scope (fl_partitions (st_file s)))"
    "mset (concat (map part_records P)) \<subseteq># mset (placed_records (st_file s))"
  shows "state_inv V k (with_cleaned_file ((st_file s)\<lparr>fl_partitions := P\<rparr>) s)"
  using state_inv_shrinks [OF inv shrinks_cleanup [OF P]] by (simp add: with_cleaned_file_def Let_def)

lemma without_partition_inv:
  "state_inv V k s \<Longrightarrow> state_inv V k (with_cleaned_file (without_partition scope (st_file s)) s)"
  unfolding without_partition_def
  by (rule cleaned_state_inv) (simp_all add: subseq_map placed_records_parts mset_concat_filter_le)

lemma delete_inv:
  assumes inv: "state_inv V k s" and "find_record_index (st_file s) i = Some (a, b, r)"
  shows "state_inv V k (with_cleaned_file (remove_empty_partitions (remove_place a b (st_file s))) s)"
proof -
  let ?f = "st_file s"
  let ?q = "(fl_partitions ?f ! a)\<lparr>np_items := remove_at b (np_items (fl_partitions ?f ! a))\<rparr>"
  have "(a, b, r) \<in> set (record_places None ?f)" using assms(2) find_SomeD by (fastforce simp: find_record_index_def)
  then have ab: "a < length (fl_partitions ?f)" "b < length (np_items (fl_partitions ?f ! a))" by (simp_all add: in_record_places)
  note pr = place_removed [OF ab]
  let ?P = "filter (\<lambda>p. np_items p \<noteq> []) ((fl_partitions ?f)[a := ?q])"
  have "subseq (map np_scope ?P) (map np_scope (fl_partitions ?f))"
    using subseq_map [OF subseq_filter_left, of np_scope "\<lambda>p. np_items p \<noteq> []" "(fl_partitions ?f)[a := ?q]"] unfolding pr(2) .
  moreover have "mset (concat (map part_records ?P)) \<subseteq># mset (placed_records ?f)"
    using pr(1) concat_part_records_nonempty [of "\<lambda>p. np_items p \<noteq> []"] by (simp add: subset_mset.less_imp_le)
  ultimately show ?thesis
    using cleaned_state_inv [OF inv] by (simp add: remove_empty_partitions_def remove_place_def Let_def)
qed

lemma set_read_revises:
  assumes "is_safe_timestamp now" "is_ok (record_validate (en_generated V) r)"
  shows "is_ok (record_validate (en_generated V) (set_read now r))"
  using assms
  by (auto simp: record_validate_def set_read_def is_ok_iff record_shape_def is_safe_timestamp_def max_def split: if_splits)

lemma revise_state_inv:
  assumes inv: "state_inv V k s" and h: "\<And>i sc r. (i, sc, r) \<in> set (placed_records (st_file s)) \<Longrightarrow> revises V h r"
  shows "state_inv V k (s\<lparr>st_file := revise h (st_file s)\<rparr>)"
proof -
  have "placed_records (revise h (st_file s)) = map (\<lambda>(i, s, r). (i, s, h r)) (placed_records (st_file s))"
    using h by (intro revise_placed) (auto simp: revises_def)
  then have "map fst (placed_records (revise h (st_file s))) = map fst (placed_records (st_file s))"
    by (simp add: case_prod_unfold comp_def)
  moreover have "index_keys (revise h (st_file s)) = index_keys (st_file s)" by (simp add: revise_def index_keys_def)
  ultimately show ?thesis using inv revise_inv [of V "st_file s" h] h by (simp add: state_inv_def)
qed

lemma placed_valid:
  assumes "file_inv V f" "(i, s, r) \<in> set (placed_records f)"
  shows "is_ok (record_validate (en_generated V) r)" "nr_scope r = s" "nr_id r = i"
  using assms by (auto simp: file_inv_def file_valid_def list_all_iff partition_valid_def in_placed_records)

lemma set_read_state_inv:
  assumes inv: "state_inv V k s" and now: "is_safe_timestamp now"
    and h: "\<And>x. h x = x \<or> h x = set_read now x"
  shows "state_inv V k (s\<lparr>st_file := revise h (st_file s)\<rparr>)"
proof (rule revise_state_inv [OF inv])
  fix i sc r assume r: "(i, sc, r) \<in> set (placed_records (st_file s))"
  have "is_ok (record_validate (en_generated V) r)" using inv placed_valid(1) r by (auto simp: state_inv_def)
  then show "revises V h r"
    using h [of r] set_read_revises [OF now, of V r] by (auto simp: revises_def) (simp_all add: set_read_def)
qed

lemma mark_read_inv: "world_inv V w \<Longrightarrow> is_safe_timestamp now \<Longrightarrow> world_inv V (snd (mark_read V p c i now w))"
proof -
  assume inv: "world_inv V w" and now: "is_safe_timestamp now"
  have "state_inv V (nw_drawn w) ((nw_state w)\<lparr>st_file := update_record i (set_read now) (st_file (nw_state w))\<rparr>)"
    if "find_record_mut (st_file (nw_state w)) i \<noteq> None"
  proof -
    have "distinct (map fst (placed_records (st_file (nw_state w))))"
      using inv by (simp add: world_inv_def state_inv_def file_inv_def file_valid_def)
    then show ?thesis
      using set_read_state_inv [OF _ now, of V "nw_drawn w" "nw_state w" "\<lambda>x. if nr_id x = i then set_read now x else x"] inv
      by (simp add: update_record_revise [OF _ that] world_inv_def)
  qed
  then show ?thesis using inv by (auto simp: mark_read_def Let_def intro!: commit_mutation_inv split: option.splits)
qed

lemma mark_visible_read_inv:
  "world_inv V w \<Longrightarrow> is_safe_timestamp now \<Longrightarrow> world_inv V (snd (mark_visible_read V p c now w))"
proof -
  assume inv: "world_inv V w" and now: "is_safe_timestamp now"
  let ?f = "st_file (nw_state w)" and ?h = "\<lambda>r. if visible c (nr_scope r) \<and> unread now r then set_read now r else r"
  have eq: "map (mark_partition c now) (fl_partitions ?f) = map (\<lambda>p. p\<lparr>np_items := map ?h (np_items p)\<rparr>) (fl_partitions ?f)"
  proof (rule map_cong [OF refl])
    fix q assume "q \<in> set (fl_partitions ?f)"
    then have "nr_scope r = np_scope q" if "r \<in> set (np_items q)" for r
      using inv that by (auto simp: world_inv_def state_inv_def file_inv_def file_valid_def list_all_iff partition_valid_def)
    then have "map ?h (np_items q) =
        (if visible c (np_scope q) then map (\<lambda>r. if unread now r then set_read now r else r) (np_items q) else np_items q)"
      by (auto intro!: map_cong map_idI)
    then show "mark_partition c now q = q\<lparr>np_items := map ?h (np_items q)\<rparr>" by (simp add: mark_partition_def)
  qed
  have "state_inv V (nw_drawn w) ((nw_state w)\<lparr>st_file := revise ?h ?f\<rparr>)"
    using inv by (intro set_read_state_inv [OF _ now]) (simp_all add: world_inv_def)
  then have "state_inv V (nw_drawn w) ((nw_state w)\<lparr>st_file := ?f\<lparr>fl_partitions := map (mark_partition c now) (fl_partitions ?f)\<rparr>\<rparr>)"
    unfolding revise_def eq .
  then show ?thesis using inv by (auto simp: mark_visible_read_def Let_def intro!: commit_mutation_inv)
qed

lemma delete_visible_inv: "world_inv V w \<Longrightarrow> world_inv V (snd (delete_visible V p c i now w))"
  using delete_inv [of V "nw_drawn w" "nw_state w"]
  by (auto simp: delete_visible_def Let_def world_inv_def [of V w] intro!: commit_mutation_inv split: option.splits)

lemma clear_account_inv: "world_inv V w \<Longrightarrow> world_inv V (snd (clear_account V p active requested now w))"
  using without_partition_inv [of V "nw_drawn w" "nw_state w"]
  by (cases "view_account active")
    (auto simp: clear_account_def Let_def world_inv_def [of V w] intro!: commit_mutation_inv)

lemma delete_account_inv: "world_inv V w \<Longrightarrow> world_inv V (snd (delete_account_partition V p account now w))"
proof -
  assume inv: "world_inv V w"
  then have "state_inv V (nw_drawn w) (with_cleaned_file (without_partition scope (st_file (nw_state w))) (nw_state w)
      \<lparr>st_active_incidents := x, st_order_states := y\<rparr>)" for scope x y
    using without_partition_inv [of V "nw_drawn w" "nw_state w" scope] by (simp add: world_inv_def state_inv_def)
  then show ?thesis using inv
    by (cases "view_account account")
      (auto simp: delete_account_partition_def Let_def emit_def intro!: commit_emit_inv, simp_all add: world_inv_def)
qed

lemma shrinks_enforce_cap:
  "enforce_serialized_file_cap V b (f, m) = Ok (g, m') \<Longrightarrow> indexed f \<Longrightarrow> shrinks g f"
  by (auto simp: enforce_serialized_file_cap_def Let_def shrinks_candidates shrinks_refl split: if_splits)

lemma prune_inv: "world_inv V w \<Longrightarrow> world_inv V (snd (prune V p configured now w))"
proof -
  assume inv: "world_inv V w"
  let ?f = "st_file (nw_state w)"
  obtain g m0 where g: "prune_file (Some configured) now ?f = (g, m0)" by fastforce
  have gf: "shrinks g ?f" using shrinks_prune [of "Some configured" now ?f] g by simp
  have "state_inv V (nw_drawn w) ((nw_state w)\<lparr>st_file := f, st_last_pruned_at_ms := now,
      st_seen_source_events := rebuild_seen_source_events f, st_active_incidents := x, st_order_states := y\<rparr>)"
    if "enforce_serialized_file_cap V True (g, m0) = Ok (f, m)" for f m x y
    using state_inv_shrinks [of V "nw_drawn w" "nw_state w" f] inv
      shrinks_trans [OF shrinks_enforce_cap [OF that shrinks_indexed [OF gf]] gf] by (simp add: world_inv_def)
  then show ?thesis using inv g
    by (cases "enforce_serialized_file_cap V True (g, m0)")
      (auto simp: prune_def Let_def emit_def intro!: commit_emit_inv split: if_splits, simp_all add: world_inv_def)
qed

section \<open>Publishing\<close>

lemma placed_remove_candidates:
  "placed_records (remove_record_candidates cs f) =
     filter (\<lambda>(i, s, r). (s, i) \<notin> set (map (\<lambda>(_, i, s). (s, i)) cs)) (placed_records f)"
proof -
  let ?ts = "map (\<lambda>(_, i, s). (s, i)) cs"
  have "placed_records (remove_record_candidates cs f) =
      concat (map part_records (filter (\<lambda>p. np_items p \<noteq> []) (fl_partitions (drop_targets ?ts f))))"
    by (simp add: remove_record_candidates_def remove_empty_partitions_def Let_def drop_entries_def placed_records_parts)
  also have "\<dots> = placed_records (drop_targets ?ts f)"
    unfolding placed_records_parts by (rule concat_part_records_nonempty) simp
  finally show ?thesis by (simp only: placed_drop_targets)
qed

lemma reserve_publication:
  assumes "file_inv V f" "prepare_publish_record V fresh f n now = Ok pr"
    and "reserve_serialized_capacity_for_publish V pr (f, m) = Ok (h, m')"
  shows "shrinks h f" and "find_duplicate f n = Some e \<Longrightarrow> (nr_id e, ni_scope n, e) \<in> set (placed_records h)"
proof -
  have valid: "file_valid V f" using assms(1) by (simp add: file_inv_def)
  note ix = file_valid_indexed [OF valid]
  show "shrinks h f" using reserve_spec [OF assms(3)] shrinks_refl [OF ix] shrinks_candidates [OF ix] by auto
  show "(nr_id e, ni_scope n, e) \<in> set (placed_records h)" if "find_duplicate f n = Some e"
  proof -
    note up = prepare_record_spec(7) [OF assms(2) valid that]
    from reserve_spec [OF assms(3)] consider "h = f" | cs where "h = remove_record_candidates cs f" "nr_id e \<notin> (fst \<circ> snd) ` set cs"
      using up by auto
    then show ?thesis
    proof cases
      case 2
      then have "(ni_scope n, nr_id e) \<notin> set (map (\<lambda>(_, i, s). (s, i)) cs)" by force
      then show ?thesis using up 2(1) by (simp add: placed_remove_candidates)
    qed (use up in simp)
  qed
qed

lemma draw_id_simps [simp]:
  "fst (draw_id V w) = en_uuid V (nw_drawn w)" "nw_state (snd (draw_id V w)) = nw_state w"
  "nw_drawn (snd (draw_id V w)) = Suc (nw_drawn w)"
  by (simp_all add: draw_id_def)

text \<open>Housekeeping that is committed or that changed nothing leaves the file it reserved.\<close>

lemma housekeeping_inv:
  assumes inv: "world_inv V w" and sh: "shrinks h (st_file (nw_state w))"
    and quiet: "\<not> mu_changed m \<Longrightarrow> h = st_file (nw_state w)"
    and run: "commit_housekeeping V p now pr (h, m) w = (r, w')"
  shows "world_inv V w'" "nw_drawn w' = nw_drawn w"
    and "r = Ok (Some pr') \<Longrightarrow> pr' = pr \<and> (\<exists>rev. st_file (nw_state w') = h\<lparr>fl_revision := rev\<rparr>)"
    and "r \<noteq> Ok None"
proof -
  let ?nx = "(nw_state w)\<lparr>st_file := h, st_seen_source_events := rebuild_seen_source_events h,
              st_active_incidents := rebuild_active_incidents h\<rparr>"
  have nx: "state_inv V (nw_drawn w) ?nx"
    using state_inv_shrinks [OF _ sh, of V "nw_drawn w" ?nx] inv by (simp add: world_inv_def)
  have "world_inv V w' \<and> nw_drawn w' = nw_drawn w
    \<and> (\<forall>pr'. r = Ok (Some pr') \<longrightarrow> pr' = pr \<and> (\<exists>rev. st_file (nw_state w') = h\<lparr>fl_revision := rev\<rparr>)) \<and> r \<noteq> Ok None"
  proof (cases "mu_changed m")
    case False
    then show ?thesis using run quiet inv by (auto simp: commit_housekeeping_def intro!: exI [of _ "fl_revision h"])
  next
    case True
    obtain r0 w0 where c: "commit_file V p now ?nx w = (r0, w0)" by fastforce
    have w0: "world_inv V w0" by (rule commit_file_inv [OF inv nx c])
    show ?thesis
    proof (cases r0)
      case (Ok previous)
      note ok = commit_file_Ok [OF c [unfolded Ok]]
      show ?thesis using run c Ok w0 ok True
        by (auto simp: commit_housekeeping_def Let_def emit_def world_inv_def)
    qed (use run c w0 True commit_file_not_Ok [OF c] in \<open>auto simp: commit_housekeeping_def Let_def\<close>)
  qed
  then show "world_inv V w'" "nw_drawn w' = nw_drawn w"
    and "r = Ok (Some pr') \<Longrightarrow> pr' = pr \<and> (\<exists>rev. st_file (nw_state w') = h\<lparr>fl_revision := rev\<rparr>)" and "r \<noteq> Ok None" by blast+
qed

lemma world_inv_drawn:
  "world_inv V w \<Longrightarrow> nw_state w' = nw_state w \<Longrightarrow> nw_drawn w \<le> nw_drawn w' \<Longrightarrow> world_inv V w'"
  by (auto simp: world_inv_def intro: state_inv_mono)

text \<open>
  What a caller may rely on after preparing: the invariant holds, and a prepared record belongs to a
  publication on the file that is now in memory.
\<close>

definition ready :: "notification_env \<Rightarrow> notification_input \<Rightarrow> u64 \<Rightarrow> prepared_publish \<Rightarrow> notification_world \<Rightarrow> bool" where
  "ready V n now pr w \<longleftrightarrow>
     (\<exists>fresh f. publication V n now fresh f pr (st_file (nw_state w)))
     \<and> (\<forall>j\<ge>nw_drawn w. en_uuid V j \<noteq> nr_id (pp_record pr))"

lemma publication_revision: "publication V n now fresh f pr h \<Longrightarrow> publication V n now fresh f pr (h\<lparr>fl_revision := k\<rparr>)"
  by (simp add: publication_def)

lemma prepare_and_reserve_inv:
  assumes inv: "world_inv V w" and input: "input_validate (en_generated V) n = Ok ()" "well_sourced n"
    and unseen: "\<not> source_seen (nw_state w) n"
    and prep: "prepare_file_for_publish n now (st_file (nw_state w)) = Ok (f, m)"
    and fresh: "find_duplicate f n = None \<Longrightarrow> fresh \<notin> set (map fst (placed_records (st_file (nw_state w)))) \<and> (\<forall>j\<ge>nw_drawn w. en_uuid V j \<noteq> fresh)"
    and run: "prepare_and_reserve V p n now fresh (f, m) w = (r, w')"
  shows "world_inv V w' \<and> nw_drawn w' = nw_drawn w \<and> r \<noteq> Ok None \<and> (\<forall>pr. r = Ok (Some pr) \<longrightarrow> ready V n now pr w')"
proof -
  let ?F = "st_file (nw_state w)"
  have iF: "file_inv V ?F" and seen: "st_seen_source_events (nw_state w) = set (index_keys ?F)"
    and ids: "\<forall>j\<ge>nw_drawn w. en_uuid V j \<notin> set (map fst (placed_records ?F))"
    using inv by (simp_all add: world_inv_def state_inv_def)
  note pf = prepare_file_spec [OF iF prep]
  have if': "file_inv V f" by (rule shrinks_file_inv [OF iF pf(1)])
  show ?thesis
  proof (cases "\<exists>pr h m'. prepare_publish_record V fresh f n now = Ok pr \<and> reserve_serialized_capacity_for_publish V pr (f, m) = Ok (h, m')")
    case False
    have "w' = w \<and> (\<forall>x. r \<noteq> Ok x)"
    proof (cases "prepare_publish_record V fresh f n now")
      case (Ok pr)
      then show ?thesis using run False
        by (cases "reserve_serialized_capacity_for_publish V pr (f, m)") (auto simp: prepare_and_reserve_def)
    qed (use run in \<open>auto simp: prepare_and_reserve_def\<close>)
    then show ?thesis using inv by simp
  next
    case True
    then obtain pr h m' where pr: "prepare_publish_record V fresh f n now = Ok pr"
      and h: "reserve_serialized_capacity_for_publish V pr (f, m) = Ok (h, m')" by blast
    note res = reserve_publication [OF if' pr h]
    have hF: "shrinks h ?F" by (rule shrinks_trans [OF res(1) pf(1)])
    have quiet: "h = ?F" if "\<not> mu_changed m'"
      using reserve_unchanged [OF h that] prepare_file_unchanged [OF prep] by blast
    have run': "commit_housekeeping V p now pr (h, m') w = (r, w')" using run pr h by (simp add: prepare_and_reserve_def)
    note hk = housekeeping_inv [OF inv hF quiet run']
    have sub: "set (map fst (placed_records f)) \<subseteq> set (map fst (placed_records ?F))"
      using image_mono [OF shrinks_placed [OF pf(1)], of fst] by simp
    have P: "publication V n now fresh f pr h"
      unfolding publication_def
    proof (intro conjI allI impI)
      fix x assume "ni_source_event_id n = Some x"
      then have "(ni_scope n, x) \<notin> set (index_keys ?F)" using unseen seen by (simp add: source_seen_def source_key_def)
      then show "(ni_scope n, x) \<notin> set (index_keys f)" using pf(1) by (auto simp: index_keys_def shrinks_def)
    qed (use input if' pr pf res fresh sub in \<open>auto simp del: set_map\<close>)
    have "en_uuid V j \<noteq> nr_id (pp_record pr)" if j: "j \<ge> nw_drawn w" for j
    proof (cases "find_duplicate f n")
      case None
      then show ?thesis using fresh [OF None] j publication_record(6) [OF P P None] by auto
    next
      case (Some e)
      have "nr_id (pp_record pr) \<in> set (map fst (placed_records f))"
        using publication_record(7) [OF P P Some] by force
      then show ?thesis using sub ids j by (metis subsetD)
    qed
    then show ?thesis using hk publication_revision [OF P] unfolding ready_def by metis
  qed
qed

lemma prepare_locked_inv:
  assumes inv: "world_inv V w" and uuid: "inj (en_uuid V)" and sourced: "well_sourced n"
    and run: "prepare_publish_locked V p n now w = (r, w')"
  shows "world_inv V w' \<and> (\<forall>pr. r = Ok (Some pr) \<longrightarrow> ready V n now pr w')"
proof (cases "validate_publish_input V n = Ok () \<and> \<not> source_seen (nw_state w) n
    \<and> (\<exists>f m. prepare_file_for_publish n now (st_file (nw_state w)) = Ok (f, m))")
  case False
  then have "w' = w \<and> (\<forall>pr. r \<noteq> Ok (Some pr))"
    using run by (cases "validate_publish_input V n"; cases "prepare_file_for_publish n now (st_file (nw_state w))")
      (auto simp: prepare_publish_locked_def split: if_splits)
  then show ?thesis using inv by simp
next
  case True
  then obtain f m where prep: "prepare_file_for_publish n now (st_file (nw_state w)) = Ok (f, m)" by blast
  have input: "input_validate (en_generated V) n = Ok ()" using True by (auto simp: validate_publish_input_def split: if_splits)
  have ids: "\<forall>j\<ge>nw_drawn w. en_uuid V j \<notin> set (map fst (placed_records (st_file (nw_state w))))"
    using inv by (simp add: world_inv_def state_inv_def)
  show ?thesis
  proof (cases "find_duplicate f n")
    case None
    let ?w = "snd (draw_id V w)"
    have run': "prepare_and_reserve V p n now (en_uuid V (nw_drawn w)) (f, m) ?w = (r, w')"
      using run True prep None by (simp add: prepare_publish_locked_def draw_id_def)
    have "world_inv V ?w" by (rule world_inv_drawn [OF inv]) simp_all
    moreover have "en_uuid V j \<noteq> en_uuid V (nw_drawn w)" if "j \<ge> Suc (nw_drawn w)" for j
      using uuid that by (auto dest: injD)
    ultimately show ?thesis
      using prepare_and_reserve_inv [OF _ input sourced _ _ _ run'] True prep ids by simp
  next
    case (Some e)
    then have run': "prepare_and_reserve V p n now [] (f, m) w = (r, w')"
      using run True prep by (simp add: prepare_publish_locked_def)
    show ?thesis using prepare_and_reserve_inv [OF inv input sourced _ prep _ run'] True Some by simp
  qed
qed

lemma apply_ready_inv:
  assumes inv: "world_inv V w" and ready: "ready V n now pr w"
    and s: "st_file s = st_file (nw_state w)" "st_seen_source_events s = st_seen_source_events (nw_state w)"
    and run: "apply_prepared_publish pr s = Ok (nx, m)"
  shows "state_inv V (nw_drawn w) nx"
proof -
  obtain fresh f where P: "publication V n now fresh f pr (st_file (nw_state w))" using ready by (auto simp: ready_def)
  let ?h = "st_file (nw_state w)" and ?r = "pp_record pr"
  obtain g where g: "apply_prepared_to_file pr ?h = Ok g" and nx: "st_file nx = g"
    "st_seen_source_events nx = (case pp_source_entry pr of None \<Rightarrow> st_seen_source_events (nw_state w)
       | Some e \<Rightarrow> insert (si_scope e, si_source_event_id e) (st_seen_source_events (nw_state w)))"
    using run s by (auto simp: apply_prepared_publish_def cong: option.case_cong)
  have "file_inv V g" by (rule publication_inv [OF P g])
  moreover have form: "g = add_entry (pp_source_entry pr)
      (if pp_change pr = ChangeCreated then push_record ?r ?h
       else revise (\<lambda>x. if nr_id x = nr_id ?r then ?r else x) ?h)"
    by (rule apply_prepared_form(1) [OF g publicationD(8) [OF P]])
  have "st_seen_source_events nx = set (index_keys g)"
    using inv unfolding form nx(2)
    by (auto simp: world_inv_def state_inv_def add_entry_def index_keys_def push_record_def revise_def split: option.splits)
  moreover have "set (map fst (placed_records g)) \<subseteq> insert (nr_id ?r) (set (map fst (placed_records ?h)))"
  proof -
    have "set (placed_records (push_record ?r ?h)) = insert (nr_id ?r, nr_scope ?r, ?r) (set (placed_records ?h))"
      using push_record_placed [of ?r ?h] by (metis set_mset_add_mset_insert set_mset_mset)
    moreover have "placed_records (revise (\<lambda>x. if nr_id x = nr_id ?r then ?r else x) ?h) =
        map (\<lambda>(i, s, x). (i, s, if nr_id x = nr_id ?r then ?r else x)) (placed_records ?h)"
      by (rule revise_placed) simp
    ultimately show ?thesis unfolding form by (cases "pp_change pr = ChangeCreated") (auto simp: image_image case_prod_unfold)
  qed
  then have "\<forall>j\<ge>nw_drawn w. en_uuid V j \<notin> set (map fst (placed_records g))"
    using inv ready unfolding world_inv_def state_inv_def ready_def by blast
  ultimately show ?thesis using nx(1) unfolding state_inv_def by simp
qed

lemma commit_publish_inv:
  assumes "world_inv V w" "state_inv V (nw_drawn w) nx" and "pm_record m \<noteq> None" "pm_change m \<noteq> None"
  shows "world_inv V (snd (commit_publish V p now nx m w))"
  using assms unfolding commit_publish_def
  by (auto intro!: commit_emit_inv simp: emit_def)

lemma apply_commit_inv:
  assumes "world_inv V w" "ready V n now pr w" "st_file s = st_file (nw_state w)"
    "st_seen_source_events s = st_seen_source_events (nw_state w)"
  shows "world_inv V (snd (io_bind (apply_prepared_publish pr s, w) (\<lambda>(next, m) w. commit_publish V p now next m w)))"
proof (cases "apply_prepared_publish pr s")
  case (Ok x)
  obtain nx m where x: "x = (nx, m)" by (cases x)
  have "pm_record m \<noteq> None" "pm_change m \<noteq> None" using Ok x by (auto simp: apply_prepared_publish_def)
  then show ?thesis using Ok x commit_publish_inv [OF assms(1) apply_ready_inv [OF assms(1,2,3,4) Ok [unfolded x]]] by simp
qed (use assms(1) in simp_all)

lemma publish_unseen_inv:
  assumes inv: "world_inv V w" and uuid: "inj (en_uuid V)" and sourced: "well_sourced n"
    and adjust: "\<And>s. st_file (adjust s) = st_file s \<and> st_seen_source_events (adjust s) = st_seen_source_events s"
  shows "world_inv V (snd (publish_unseen V p n now adjust w))"
proof (cases "prepare_publish_locked V p n now w")
  case (Pair r w')
  note pl = prepare_locked_inv [OF inv uuid sourced Pair]
  show ?thesis
  proof (cases r)
    case (Ok prepared)
    then show ?thesis using Pair pl apply_commit_inv [of V w' n now _ "adjust (nw_state w')"] adjust
      by (cases prepared) (auto simp: publish_unseen_def)
  qed (use Pair pl in \<open>auto simp: publish_unseen_def\<close>)
qed

lemma publish_inv:
  assumes "world_inv V w" "inj (en_uuid V)" "well_sourced n"
  shows "world_inv V (snd (publish V p n now w))"
  using assms publish_unseen_inv [OF assms, of "\<lambda>s. s"]
  by (cases "validate_publish_input V n") (auto simp: publish_def split: option.splits)

lemma client_inv:
  assumes "world_inv V w" "inj (en_uuid V)"
  shows "world_inv V (snd (publish_client_account_failure V p n now w))"
proof -
  have tail: "world_inv V (snd (io_bind (prepare_publish_locked V p n now w) (\<lambda>prepared w.
           io_bind (ok_or prepared state_conflict, w) (\<lambda>prepared w.
           io_bind (apply_prepared_publish prepared (nw_state w), w) (\<lambda>(next, m) w.
           io_bind (commit_publish V p now next m w) (\<lambda>out w. (h out w, w)))))))"
    if sourced: "well_sourced n" for h
  proof (cases "prepare_publish_locked V p n now w")
    case (Pair r w')
    note pl = prepare_locked_inv [OF assms sourced Pair]
    have "world_inv V (snd (io_bind (apply_prepared_publish pr (nw_state w'), w') (\<lambda>(next, m) w.
           io_bind (commit_publish V p now next m w) (\<lambda>out w. (h out w, w)))))" if "r = Ok (Some pr)" for pr
    proof (cases "apply_prepared_publish pr (nw_state w')")
      case (Ok x)
      then have "world_inv V (snd (commit_publish V p now (fst x) (snd x) w'))"
        using apply_commit_inv [of V w' n now pr "nw_state w'" p] pl that by (simp add: case_prod_unfold)
      then show ?thesis using Ok
        by (cases "commit_publish V p now (fst x) (snd x) w'"; cases "fst (commit_publish V p now (fst x) (snd x) w')")
          (auto simp: case_prod_unfold)
    qed (use pl in simp_all)
    then show ?thesis using Pair pl by (cases r; cases "\<exists>pr. r = Ok (Some pr)") (auto simp: ok_or_def split: option.splits)
  qed
  show ?thesis
  proof (cases "validate_publish_input V n = Ok () \<and> ni_kind n \<in> {AccountRecoveryFailedKind, AccountReconciliationFailedKind}")
    case True
    then have "well_sourced n" by (auto simp: well_sourced_def)
    note tail' = tail [OF this]
    show ?thesis
    proof (cases "ni_scope n")
      case (ScopeAccount account)
      then show ?thesis using assms(1) tail' True
        by (cases "view_account account") (auto simp: publish_client_account_failure_def Let_def ok_or_def split: option.splits)
    qed (use assms(1) True in \<open>auto simp: publish_client_account_failure_def\<close>)
  next
    case False
    then show ?thesis using assms(1) by (cases "validate_publish_input V n") (auto simp: publish_client_account_failure_def)
  qed
qed

section \<open>Observing\<close>

lemma controlled_input_identity:
  "controlled_input generated c category kind severity content entity action dedupe = Ok n
    \<Longrightarrow> ni_source_event_id n = Some (pc_source_event_id c) \<and> ni_dedupe_key n = dedupe"
  by (auto simp: controlled_input_def Let_def)

lemma policy_context_source: "policy_context_new account epoch source = Ok pc \<Longrightarrow> pc_source_event_id pc = source"
  by (auto simp: policy_context_new_def split: if_splits)

lemma starts_with_Cons: "starts_with [] s" "starts_with (a # p) (b # s) \<longleftrightarrow> a = b \<and> starts_with p s"
  by (auto simp: starts_with_def)

lemma well_sourcedI:
  "ni_source_event_id n = Some a \<Longrightarrow> \<not> starts_with ''client:'' a \<Longrightarrow> \<not> starts_with ''client:'' (ni_dedupe_key n) \<Longrightarrow> well_sourced n"
  by (auto simp: well_sourced_def)

lemma order_input_sourced:
  assumes "policy_context_new account epoch (''order:terminal:'' @ t) = Ok pc" "order_input V pc ob = Ok n"
  shows "well_sourced n"
proof -
  have "ni_source_event_id n = Some (''order:terminal:'' @ t) \<and> (\<exists>u. ni_dedupe_key n = ''order:'' @ u)"
    using assms policy_context_source [OF assms(1)]
    by (auto simp: order_input_def order_filled_def order_canceled_def order_terminal_def order_rejected_def
        split: observed_order_status.splits option.splits dest!: controlled_input_identity)
  then show ?thesis by (auto intro!: well_sourcedI simp: starts_with_Cons)
qed

lemma connection_sourced:
  assumes "policy_context_new account epoch (''connection:'' @ t) = Ok pc" "connection_edge g pc channel incident b = Ok n"
  shows "well_sourced n"
proof -
  have "ni_source_event_id n = Some (''connection:'' @ t) \<and> (\<exists>u. ni_dedupe_key n = ''connection:'' @ u)"
    using assms policy_context_source [OF assms(1)]
    by (auto simp: connection_edge_def Let_def split: if_splits dest!: controlled_input_identity)
  then show ?thesis by (auto intro!: well_sourcedI simp: starts_with_Cons)
qed

lemma environment_sourced:
  assumes "policy_context_new account epoch (''environment:'' @ t) = Ok pc" "environment_edge g pc env key incident b = Ok n"
  shows "well_sourced n"
proof -
  have "ni_source_event_id n = Some (''environment:'' @ t) \<and> (\<exists>u. ni_dedupe_key n = ''environment:'' @ u)"
    using assms policy_context_source [OF assms(1)]
    by (auto simp: environment_edge_def Let_def split: if_splits dest!: controlled_input_identity)
  then show ?thesis by (auto intro!: well_sourcedI simp: starts_with_Cons)
qed

lemma session_sourced:
  assumes "policy_context_new account epoch (''session:'' @ t) = Ok pc" "session_expired g pc = Ok n"
  shows "well_sourced n"
  using assms policy_context_source [OF assms(1)]
  by (auto simp: session_expired_def dest!: controlled_input_identity intro!: well_sourcedI simp: starts_with_Cons)

lemma incident_inv:
  assumes inv: "world_inv V w" and uuid: "inj (en_uuid V)"
    and sourced: "\<And>t pc i b n. policy_context_new account epoch (pre @ t) = Ok pc \<Longrightarrow> policy pc i b = Ok n \<Longrightarrow> well_sourced n"
  shows "world_inv V (snd (observe_incident V p key account epoch pre state policy now w))"
proof -
  have pub: "world_inv V (snd (io_bind (policy_context_new account epoch (pre @ t), w) (\<lambda>pc w.
          io_bind (policy pc i b, w) (\<lambda>n w. publish_unseen V p n now (\<lambda>s. s\<lparr>st_active_incidents := g s\<rparr>) w))))"
    if w: "world_inv V w" for w t i b g
  proof (cases "policy_context_new account epoch (pre @ t)")
    case (Ok pc)
    then show ?thesis using w sourced [OF Ok] publish_unseen_inv [OF w uuid, of _ "\<lambda>s. s\<lparr>st_active_incidents := g s\<rparr>"]
      by (cases "policy pc i b") auto
  qed (use w in simp_all)
  have "world_inv V (snd (draw_id V w))" by (rule world_inv_drawn [OF inv]) simp_all
  then show ?thesis
    using inv pub [OF inv] pub [of "snd (draw_id V w)"]
    by (auto simp: observe_incident_def split: availability_state.splits option.splits prod.splits)
qed

lemma observe_connection_inv:
  "world_inv V w \<Longrightarrow> inj (en_uuid V) \<Longrightarrow> world_inv V (snd (observe_connection V p ob now w))"
  by (cases "view_account (co_account_id ob)")
    (auto simp: observe_connection_def connection_recovered_def connection_unavailable_def intro!: incident_inv
      intro: connection_sourced [unfolded append_assoc] split: if_splits)

lemma observe_environment_inv:
  "world_inv V w \<Longrightarrow> inj (en_uuid V) \<Longrightarrow> world_inv V (snd (observe_environment V p ob now w))"
  by (cases "view_account (eo_account_id ob)"; cases "validate_environment_key (eo_environment_key ob)")
    (auto simp: observe_environment_def environment_recovered_def environment_unavailable_def intro!: incident_inv
      intro: environment_sourced split: if_splits)

lemma session_expired_inv:
  assumes "world_inv V w" "inj (en_uuid V)"
  shows "world_inv V (snd (observe_session_expired V p account epoch token now w))"
proof (cases "view_account account")
  case (Ok c)
  show ?thesis
  proof (cases "policy_context_new account epoch (''session:'' @ token @ '':expired'')")
    case (Ok pc)
    then show ?thesis using assms publish_inv [OF assms session_sourced [OF Ok]] \<open>view_account account = Ok c\<close>
      by (cases "session_expired (en_generated V) pc") (auto simp: observe_session_expired_def)
  qed (use assms Ok in \<open>auto simp: observe_session_expired_def\<close>)
qed (use assms in \<open>auto simp: observe_session_expired_def\<close>)

lemma observe_order_inv:
  assumes "world_inv V w" "inj (en_uuid V)"
  shows "world_inv V (snd (observe_order V p ob now w))"
proof -
  have set_orders: "world_inv V (w\<lparr>nw_state := set_order_states keys st (nw_state w)\<rparr>)" for keys st
    using assms(1) by (simp add: world_inv_def state_inv_def set_order_states_def)
  have pub: "world_inv V (snd (io_bind (policy_context_new account epoch (''order:terminal:'' @ t), w) (\<lambda>pc w.
       io_bind (order_input V pc ob, w) (\<lambda>n w. publish_unseen V p n now (set_order_states keys st) w))))" for account epoch t keys st
  proof (cases "policy_context_new account epoch (''order:terminal:'' @ t)")
    case (Ok pc)
    then show ?thesis
      using assms publish_unseen_inv [OF assms order_input_sourced [OF Ok], where adjust = "set_order_states keys st"]
      by (cases "order_input V pc ob") (auto simp: set_order_states_def)
  qed (use assms in simp_all)
  show ?thesis
  proof (cases "view_account (oo_account_id ob)")
    case (Ok c)
    then show ?thesis using assms(1) set_orders pub
      by (cases "order_observation_entity_ids V ob") (auto simp: observe_order_def Let_def)
  qed (use assms in \<open>auto simp: observe_order_def\<close>)
qed

section \<open>Runs\<close>

text \<open>
  The calls whose effect the invariant covers: at an instant JavaScript can represent, and publishing
  an input that does not pretend to come from the client.
\<close>

fun covered :: "u64 \<times> service_call \<Rightarrow> bool" where
  "covered (now, CallPublish n) = (is_safe_timestamp now \<and> well_sourced n)"
| "covered (now, _) = is_safe_timestamp now"

lemma service_step_inv:
  assumes "world_inv V w" "inj (en_uuid V)" "covered (now, call)"
  shows "world_inv V (service_step V p now call w)"
  using assms
  by (cases call)
    (simp_all add: publish_inv client_inv mark_read_inv mark_visible_read_inv delete_visible_inv clear_account_inv prune_inv
      delete_account_inv observe_connection_inv observe_environment_inv session_expired_inv observe_order_inv)

lemma service_run_inv:
  "world_inv V w \<Longrightarrow> inj (en_uuid V) \<Longrightarrow> list_all covered calls \<Longrightarrow> world_inv V (service_run V p calls w)"
proof (induction calls arbitrary: w)
  case (Cons c calls)
  then show ?case by (cases c) (simp add: service_step_inv)
qed simp

end
