(* ===== verification/Notification_Samples.thy ===== *)
theory Notification_Samples
  imports Notification_Safety Submission_Samples
begin

text \<open>
  A concrete notification service for the witnesses: identifiers of growing length, a hash of the end
  of a text, a self-delimiting text for cursors, and files told apart by their revision.
\<close>

definition enc_cursor :: "cursor \<Rightarrow> string" where
  "enc_cursor c = enc_nat (cu_version c) @ enc_str (cu_fingerprint c) @ enc_bool (cu_filter c = FilterAll)
     @ enc_nat (unat (cu_created_at_ms c)) @ enc_str (cu_id c)"

definition dec_cursor :: "string \<Rightarrow> cursor" where
  "dec_cursor s =
     (let (v, s) = dec_nat s; (f, s) = dec_str s; (a, s) = dec_bool s; (t, s) = dec_nat s; (i, s) = dec_str s in
      \<lparr>cu_version = v, cu_fingerprint = f, cu_filter = (if a then FilterAll else FilterUnread),
       cu_created_at_ms = of_nat t, cu_id = i\<rparr>)"

lemma dec_enc_cursor: "dec_cursor (enc_cursor c) = c"
  using dec_enc_str [of "cu_id c" "[]"]
  by (cases "cu_filter c") (simp_all add: dec_cursor_def enc_cursor_def enc_bool_def dec_bool_def)

definition revision_json :: "string \<Rightarrow> json option" where
  "revision_json t =
     (if list_all is_ascii_digit t \<and> t \<noteq> []
      then Some (JObject [(''revision'', JString t), (''schemaVersion'', JInt 1)]) else None)"

text \<open>Of the files, the sample store can read back those without partitions.\<close>

definition json_revision :: "json \<Rightarrow> notification_file option" where
  "json_revision j =
     (case Option.bind (json_get ''revision'' j) json_as_str of
        None \<Rightarrow> None
      | Some t \<Rightarrow> Some (empty_file\<lparr>fl_revision := of_nat (foldl (\<lambda>n c. 10 * n + (byte c - 48)) 0 t)\<rparr>))"

definition notice_env :: notification_env where
  "notice_env =
     \<lparr>en_generated = starts_with ''id-'', en_uuid_v4 = starts_with ''id-'', en_uuid = (\<lambda>n. ''id-'' @ replicate n CHR ''a''),
      en_hash = (\<lambda>s. sample_hash (rev s)),
      en_file_text = (\<lambda>f. (if fl_partitions f = [] then [] else ''*'') @ nat_to_string (unat (fl_revision f))),
      en_json_parse = revision_json, en_file_of_json = json_revision,
      en_cursor_text = enc_cursor, en_cursor_parse = (\<lambda>s. Some (dec_cursor s))\<rparr>"

lemma notice_env_uuid: "inj (en_uuid notice_env)"
  by (rule injI) (auto simp: notice_env_def dest: arg_cong [of _ _ length])

definition notice_path :: path where
  "notice_path = [''data'', ''notifications.json'']"

definition notice_world :: notification_world where
  "notice_world =
     \<lparr>nw_state = \<lparr>st_file = empty_file, st_seen_source_events = {}, st_last_pruned_at_ms = 0,
        st_active_incidents = (\<lambda>_. None), st_order_states = (\<lambda>_. None)\<rparr>,
      nw_disk = empty_disk, nw_drawn = 0, nw_events = [], nw_reporter = Some None, nw_diagnostics = []\<rparr>"

lemma notice_world_inv: "world_inv V notice_world"
  by (simp add: world_inv_def notice_world_def state_inv_def file_inv_def file_valid_def empty_file_def placed_records_def
      creating_sources_def index_keys_def max_source_index_total_def)

text \<open>An order filled while the user watches, and the expiry of a session.\<close>

definition sample_fill :: order_observation where
  "sample_fill =
     \<lparr>oo_account_id = ''main'', oo_session_epoch = 1, oo_order_id = Some ''1001'', oo_submission_id = None,
      oo_order_link_id = None, oo_status = ObsFilled, oo_origin = OriginCommand\<rparr>"

definition sample_notice :: "string \<Rightarrow> u64 \<Rightarrow> notification_record" where
  "sample_notice i t =
     \<lparr>nr_id = i, nr_scope = ScopeAccount ''main'', nr_category = CatRiskAccount, nr_kind = AccountSessionExpiredKind,
      nr_severity = SevWarning,
      nr_content = \<lparr>nc_message_key = ''account.sessionExpired'', nc_params = [(''accountId'', ScalarString ''main'')],
        nc_fallback_title = fst (template_fallback TAccountSessionExpired),
        nc_fallback_body = snd (template_fallback TAccountSessionExpired)\<rparr>,
      nr_entity = None, nr_action = None, nr_source_event_id = Some (''session:'' @ i), nr_dedupe_key = ''session:'' @ i,
      nr_occurrence_count = 1, nr_created_at_ms = t, nr_updated_at_ms = t, nr_read_at_ms = None\<rparr>"

definition two_notices :: notification_file where
  "two_notices = empty_file\<lparr>fl_partitions :=
     [\<lparr>np_scope = ScopeAccount ''main'', np_items = [sample_notice ''id-b'' 9, sample_notice ''id-a'' 4]\<rparr>]\<rparr>"

definition sample_expiry :: service_call where
  "sample_expiry = CallSessionExpired ''main'' 1 ''id-x''"

end
