(* ===== verification/Notification_Service_Properties.thy ===== *)
theory Notification_Service_Properties
  imports Notification_Samples
begin

text \<open>
  What the notification service promises to its callers and to the user.
\<close>

section \<open>Capacity\<close>

lemma fits_after_eviction:
  "serialized_file_fits_after_eviction V f cs inc =
     (if unat (fl_revision f) + unat inc < 2 ^ 64
      then Ok (file_fits V ((remove_record_candidates cs f)\<lparr>fl_revision := fl_revision f + inc\<rparr>))
      else Err revision_exhausted)"
  by (simp add: serialized_file_fits_after_eviction_def next_revision_def checked_add_def revision_simps)

definition fits_without :: "notification_env \<Rightarrow> notification_file \<Rightarrow> u64 \<Rightarrow> nat \<Rightarrow> bool" where
  "fits_without V f inc k \<longleftrightarrow>
     file_fits V ((remove_record_candidates (take k (oldest_candidates (\<lambda>_. True) f)) f)\<lparr>fl_revision := fl_revision f + inc\<rparr>)"

lemma note_removed_count: "mu_affected_count (note_removed ss m) = mu_affected_count m + length ss"
  unfolding note_removed_def
  by (induction ss arbitrary: m) (simp_all add: note_removed_record_def note_scope_def)

text \<open>Galloping and then bisecting finds a least number, in the sense that one less does not do.\<close>

lemma gallop_bisect:
  assumes probe: "\<And>k. probe k = Ok (fits k)" and n: "1 \<le> n"
  obtains l u k where "gallop probe e n 0 1 = Ok (l, u)" "bisect probe l u = Ok k" "0 < k" "k \<le> n" "fits k" "k = 1 \<or> \<not> fits (k - 1)"
    | "gallop probe e n 0 1 = Err e" "\<not> fits n"
proof -
  have "(\<exists>l u. gallop probe e n 0 1 = Ok (l, u)) \<or> (gallop probe e n 0 1 = Err e \<and> probe n = Ok False)"
    by (rule gallop_total) (use probe n in blast)+
  then consider l u where "gallop probe e n 0 1 = Ok (l, u)" | "gallop probe e n 0 1 = Err e" "\<not> fits n"
    unfolding probe by auto
  then show thesis
  proof cases
    case 1
    obtain k where k: "bisect probe l u = Ok k" using bisect_total [of probe l u] probe by blast
    have g: "probe u = Ok True \<and> l < u \<and> u \<le> n \<and> (l = 0 \<or> probe l = Ok False)"
      using gallop_spec [OF 1] n by simp
    note b = bisect_spec [OF k g [THEN conjunct2, THEN conjunct1] g [THEN conjunct1]]
    have "k = 1 \<or> \<not> fits (k - 1)" using b g probe by (cases "k = 1") auto
    then show thesis using that(1) [OF 1 k] b g probe by auto
  qed (rule that(2))
qed

text \<open>
  C34: When the file of notifications is too large, the service evicts the oldest records and no more
  than it has to: the file it goes on with fits the limit, and either nothing was evicted, or it lacks
  exactly the \<open>k\<close> oldest records, every evicted record is at least as old as every remaining one, and with
  \<open>k - 1\<close> evictions the file would not have fitted.  It gives up with the capacity error only if the
  file would not fit with every record evicted.
\<close>

theorem capacity_evicts_least:
  assumes "unat (fl_revision f) + 1 < 2 ^ 64"
  shows "case enforce_serialized_file_cap V persists (f, m) of
      Ok (g, m') \<Rightarrow>
        (g = f \<and> m' = m \<and> fits_without V f (if persists \<and> mu_changed m then 1 else 0) 0)
        \<or> (\<exists>k cs. cs = oldest_candidates (\<lambda>_. True) f \<and> 0 < k \<and> k \<le> length cs
            \<and> g = remove_record_candidates (take k cs) f
            \<and> fits_without V f (if persists then 1 else 0) k
            \<and> \<not> fits_without V f (if persists \<and> (1 < k \<or> mu_changed m) then 1 else 0) (k - 1)
            \<and> list_all (\<lambda>x. list_all (\<lambda>y. \<not> older (fst y, fst (snd y)) (fst x, fst (snd x))) (drop k cs)) (take k cs)
            \<and> mu_affected_count m' = mu_affected_count m + k)
    | Err e \<Rightarrow> e = capacity_error
        \<and> (oldest_candidates (\<lambda>_. True) f = []
           \<or> \<not> fits_without V f (if persists then 1 else 0) (length (oldest_candidates (\<lambda>_. True) f)))
    | Panic \<Rightarrow> False"
proof -
  let ?cs = "oldest_candidates (\<lambda>_. True) f"
  let ?inc = "if persists then 1 else 0 :: u64" and ?start = "if persists \<and> mu_changed m then 1 else 0 :: u64"
  let ?probe = "\<lambda>k. serialized_file_fits_after_eviction V f (take k ?cs) ?inc"
  have probe: "?probe k = Ok (fits_without V f ?inc k)" for k
    using assms by (simp add: fits_after_eviction fits_without_def)
  have first: "serialized_file_fits_after_eviction V f [] ?start = Ok (fits_without V f ?start 0)"
    using assms by (simp add: fits_after_eviction fits_without_def)
  show ?thesis
  proof (cases "fits_without V f ?start 0 \<or> ?cs = []")
    case True
    then show ?thesis using first by (auto simp: enforce_serialized_file_cap_def)
  next
    case False
    then have cs: "1 \<le> length ?cs" and ne: "?cs \<noteq> []" and unfit: "\<not> fits_without V f ?start 0" by (auto simp: Suc_le_eq)
    have unfold: "enforce_serialized_file_cap V persists (f, m) =
      bind_result (gallop ?probe capacity_error (length ?cs) 0 1) (\<lambda>(lower, upper).
      bind_result (bisect ?probe lower upper) (\<lambda>k.
      Ok (remove_record_candidates (take k ?cs) f, note_removed (map (snd \<circ> snd) (take k ?cs)) m)))"
      unfolding enforce_serialized_file_cap_def Let_def prod.case first bind_result.simps(1) if_not_P [OF unfit] if_not_P [OF ne] ..
    from probe cs show ?thesis
    proof (cases rule: gallop_bisect [where probe = ?probe and fits = "fits_without V f ?inc" and n = "length ?cs"
        and e = capacity_error, case_names found none])
      case (found l u k)
      have "\<not> fits_without V f (if persists \<and> (1 < k \<or> mu_changed m) then 1 else 0) (k - 1)"
        using found(3,6) unfit by (cases "k = 1") (auto split: if_splits)
      moreover have "list_all (\<lambda>x. list_all (\<lambda>y. \<not> older (fst y, fst (snd y)) (fst x, fst (snd x))) (drop k ?cs)) (take k ?cs)"
        unfolding list_all_iff oldest_candidates_def using by_age.taken_before_dropped by blast
      moreover have "enforce_serialized_file_cap V persists (f, m) =
          Ok (remove_record_candidates (take k ?cs) f, note_removed (map (snd \<circ> snd) (take k ?cs)) m)"
        unfolding unfold found(1) by (simp add: found(2))
      ultimately show ?thesis using found(3-5) by (simp add: note_removed_count min_absorb2)
    qed (use unfold in simp)
  qed
qed

text \<open>Two records of ten million bytes each: the older one has to go.\<close>

definition heavy_env :: notification_env where
  "heavy_env = notice_env\<lparr>en_file_text := (\<lambda>f. replicate (10000000 * length (placed_records f)) CHR ''x'')\<rparr>"

lemma heavy_fits: "fits_without heavy_env two_notices inc k \<longleftrightarrow> 1 \<le> k"
proof -
  have "oldest_candidates (\<lambda>_. True) two_notices = [(4, ''id-a'', ScopeAccount ''main''), (9, ''id-b'', ScopeAccount ''main'')]"
    by code_simp
  moreover have "length (placed_records (remove_record_candidates [] two_notices)) = 2"
    "length (placed_records (remove_record_candidates [(4, ''id-a'', ScopeAccount ''main'')] two_notices)) = 1"
    "length (placed_records (remove_record_candidates [(4, ''id-a'', ScopeAccount ''main''), (9, ''id-b'', ScopeAccount ''main'')] two_notices)) = 0"
    by code_simp+
  ultimately show ?thesis
    by (cases k; cases "k - 1")
      (auto simp: fits_without_def file_fits_def serialize_file_def heavy_env_def max_file_bytes_def)
qed

theorem capacity_evicts_least_witness:
  "case enforce_serialized_file_cap heavy_env True (two_notices, no_mutation) of
     Ok (g, _) \<Rightarrow> g = remove_record_candidates [(4, ''id-a'', ScopeAccount ''main'')] two_notices
   | _ \<Rightarrow> False"
proof -
  have cs: "oldest_candidates (\<lambda>_. True) two_notices = [(4, ''id-a'', ScopeAccount ''main''), (9, ''id-b'', ScopeAccount ''main'')]"
    by code_simp
  have "unat (fl_revision two_notices) + 1 < 2 ^ 64" by (simp add: two_notices_def empty_file_def)
  from capacity_evicts_least [OF this, where V = heavy_env and persists = True and m = no_mutation] show ?thesis
    by (auto simp: heavy_fits cs le_Suc_eq numeral_2_eq_2 split: result.splits)
qed

section \<open>The invariant\<close>


definition sample_calls :: "(u64 \<times> service_call) list" where
  "sample_calls = [(5, CallObserveOrder sample_fill), (7, CallMarkRead (Some ''main'') ''id-'')]"

lemma sample_events:
  "map ev_change (nw_events (service_run notice_env notice_path sample_calls notice_world)) = [ChangeCreated, ChangeUpdated]"
  by code_simp


section \<open>Announcements\<close>

text \<open>
  C33: The front end can follow the service by its events alone: over any sequence of calls, failing
  ones included, the events emitted lead without a gap from the revision before to the revision
  after, each by exactly one, and if no event was emitted then no notification changed.
\<close>

theorem every_change_announced:
  "\<exists>es. nw_events (service_run V p calls w) = nw_events w @ es
     \<and> event_chain (world_revision w) es (world_revision (service_run V p calls w))
     \<and> unat (world_revision (service_run V p calls w)) = unat (world_revision w) + length es
     \<and> (es = [] \<longrightarrow> fl_partitions (st_file (nw_state (service_run V p calls w))) = fl_partitions (st_file (nw_state w)))"
  using announce.stays_run [of w V p calls] event_chain_length unfolding announced_def by blast

theorem every_change_announced_witness:
  "unat (world_revision (service_run notice_env notice_path sample_calls notice_world)) = 2"
proof -
  have "length (nw_events (service_run notice_env notice_path sample_calls notice_world)) = 2"
    using arg_cong [OF sample_events, of length] by simp
  moreover have "nw_events notice_world = []" "unat (world_revision notice_world) = 0"
    by (simp_all add: notice_world_def empty_file_def)
  ultimately show ?thesis using every_change_announced [of notice_env notice_path sample_calls notice_world] by auto
qed

section \<open>Sources\<close>

lemma find_unique:
  assumes "distinct (map k xs)" "x \<in> set xs"
  shows "List.find (\<lambda>y. k y = k x) xs = Some x"
  using assms by (induction xs) auto

lemma record_for_entry:
  assumes inv: "file_inv V f" and e: "e \<in> set (fl_source_event_index f)"
    and r: "(si_notification_id e, si_scope e, r) \<in> set (placed_records f)"
  shows "record_for_source f (si_scope e, si_source_event_id e) = Some r"
proof -
  have valid: "file_valid V f" using inv by (simp add: file_inv_def)
  have "distinct (map (\<lambda>e. (si_scope e, si_source_event_id e)) (fl_source_event_index f))"
    using valid by (simp add: file_valid_def index_keys_def)
  from find_unique [OF this e]
  have "List.find (\<lambda>x. si_scope x = si_scope e \<and> si_source_event_id x = si_source_event_id e) (fl_source_event_index f) = Some e" by simp
  moreover obtain q where q: "q \<in> set (fl_partitions f)" "np_scope q = si_scope e" "r \<in> set (np_items q)" "nr_id r = si_notification_id e"
    using r by (auto simp: in_placed_records)
  have "find_partition f (si_scope e) = Some q"
    using find_unique [of np_scope "fl_partitions f" q] q valid by (simp add: find_partition_def file_valid_def)
  moreover have "distinct (map nr_id (np_items q))"
    using distinct_ids [of f] valid q(1) by (auto simp: file_valid_def distinct_concat_iff)
  then have "List.find (\<lambda>x. nr_id x = si_notification_id e) (np_items q) = Some r"
    using find_unique [of nr_id "np_items q" r] q by simp
  ultimately show ?thesis by (simp add: record_for_source_def)
qed

lemma committed_record:
  assumes P: "publication V n now fresh f pr h" and run: "apply_prepared_to_file pr h = Ok g" and src: "ni_source_event_id n = Some x"
  shows "(ni_scope n, x) \<in> set (index_keys g)" "record_for_source g (ni_scope n, x) = Some (pp_record pr)"
proof -
  let ?r = "pp_record pr" and ?e = "\<lparr>si_scope = ni_scope n, si_source_event_id = x, si_notification_id = nr_id (pp_record pr)\<rparr>"
  note rec = publication_record [OF P P]
  have form: "g = add_entry (pp_source_entry pr)
      (if pp_change pr = ChangeCreated then push_record ?r h
       else revise (\<lambda>y. if nr_id y = nr_id ?r then ?r else y) h)"
    by (rule apply_prepared_form(1) [OF run publicationD(8) [OF P]])
  have e: "?e \<in> set (fl_source_event_index g)" unfolding form using rec(5) src by (simp add: add_entry_def)
  then show "(ni_scope n, x) \<in> set (index_keys g)" by (force simp: index_keys_def)
  have "(nr_id ?r, ni_scope n, ?r) \<in> set (placed_records g)"
  proof (cases "find_duplicate f n")
    case None
    then have "g = add_entry (pp_source_entry pr) (push_record ?r h)" using form rec(6) by simp
    then show ?thesis using push_record_placed [of ?r h] rec(2) by (metis placed_add_entry set_mset_mset union_single_eq_member)
  next
    case (Some d)
    note up = publication_record(7) [OF P P Some]
    have "(nr_id d, ni_scope n, d) \<in> set (placed_records h)" using P Some by (auto simp: publication_def)
    then have "(nr_id ?r, ni_scope n, ?r) \<in> set (placed_records (revise (\<lambda>y. if nr_id y = nr_id ?r then ?r else y) h))"
      using revise_placed [of h "\<lambda>y. if nr_id y = nr_id ?r then ?r else y"] up by (force simp: image_iff)
    then show ?thesis using form up by simp
  qed
  then show "record_for_source g (ni_scope n, x) = Some ?r"
    using record_for_entry [OF publication_inv [OF P run] e] by simp
qed

lemma record_for_source_revision [simp]: "record_for_source (f\<lparr>fl_revision := k\<rparr>) = record_for_source f"
  by (rule ext) (simp add: record_for_source_def find_partition_def)

text \<open>What a successful publication leaves behind.\<close>

lemma publish_unseen_Ok:
  assumes inv: "world_inv V w" and uuid: "inj (en_uuid V)" and sourced: "well_sourced n"
    and adjust: "\<And>s. st_file (adjust s) = st_file s \<and> st_seen_source_events (adjust s) = st_seen_source_events s"
    and run: "publish_unseen V p n now adjust w = (Ok out, w')" and src: "ni_source_event_id n = Some x"
    and unseen: "\<not> source_seen (nw_state w) n"
  shows "\<exists>r. po_notification out = Some r \<and> (ni_scope n, x) \<in> st_seen_source_events (nw_state w')
    \<and> record_for_source (st_file (nw_state w')) (ni_scope n, x) = Some r"
proof -
  obtain prepared w1 where pl: "prepare_publish_locked V p n now w = (Ok prepared, w1)"
    using run by (auto simp: publish_unseen_def io_bind_Ok_iff)
  note rd = prepare_locked_inv [OF inv uuid sourced pl]
  have "prepared \<noteq> None"
    using pl unseen by (auto simp: prepare_publish_locked_def prepare_and_reserve_def commit_housekeeping_def Let_def io_bind_Ok_iff
        split: if_splits prod.splits)
  then obtain pr where pr: "prepared = Some pr" by blast
  then have ready: "ready V n now pr w1" and inv1: "world_inv V w1" using rd by auto
  from ready obtain fresh f where P: "publication V n now fresh f pr (st_file (nw_state w1))" by (auto simp: ready_def)
  obtain nx m where ap: "apply_prepared_publish pr (adjust (nw_state w1)) = Ok (nx, m)" and c: "commit_publish V p now nx m w1 = (Ok out, w')"
    using run pl pr by (auto simp: publish_unseen_def io_bind_Ok_iff)
  obtain g where g: "apply_prepared_to_file pr (st_file (nw_state w1)) = Ok g" and nx: "st_file nx = g"
    and m: "pm_record m = Some (pp_record pr)" "pm_change m = Some (pp_change pr)"
    using ap adjust by (auto simp: apply_prepared_publish_def)
  obtain previous w2 where cf: "commit_file V p now nx w1 = (Ok previous, w2)" and w': "nw_state w' = nw_state w2"
    and out: "po_notification out = Some (pp_record pr)"
    using c m by (auto simp: commit_publish_def io_bind_Ok_iff emit_def)
  note ok = commit_file_Ok(3) [OF cf]
  have "world_inv V w'" using publish_unseen_inv [OF inv uuid sourced adjust, of p now] run by simp
  then have "st_seen_source_events (nw_state w') = set (index_keys (st_file (nw_state w')))" by (simp add: world_inv_def state_inv_def)
  then show ?thesis
    using committed_record [OF P g src] out ok w' nx by simp
qed

text \<open>
  C36: A source is notified once: after a publication with a source event succeeded, publishing anything
  with the same scope and source again changes nothing, commits nothing and answers with the very
  notification that the first publication stored.
\<close>

theorem publish_once_per_source:
  assumes inv: "world_inv V w" and uuid: "inj (en_uuid V)" and sourced: "well_sourced n"
    and src: "ni_source_event_id n = Some x" and run: "publish V p n now w = (Ok out, w')"
    and again: "validate_publish_input V m = Ok ()" "ni_scope m = ni_scope n" "ni_source_event_id m = Some x"
  shows "\<exists>r. po_notification out = Some r \<and> publish V p m later w' =
     (Ok \<lparr>po_notification = Some r, po_revision = revision_text (st_file (nw_state w')), po_committed = False\<rparr>, w')"
proof -
  have key: "source_key n = Some (ni_scope n, x)" "source_key m = Some (ni_scope n, x)"
    using src again by (simp_all add: source_key_def)
  have valid: "validate_publish_input V n = Ok ()"
    using run by (cases "validate_publish_input V n") (simp_all add: publish_def)
  have "\<exists>r. po_notification out = Some r \<and> (ni_scope n, x) \<in> st_seen_source_events (nw_state w')
      \<and> record_for_source (st_file (nw_state w')) (ni_scope n, x) = Some r"
  proof (cases "(ni_scope n, x) \<in> st_seen_source_events (nw_state w)")
    case True
    then show ?thesis using run key valid by (auto simp: publish_def ok_or_def split: option.splits)
  next
    case False
    then have "publish_unseen V p n now (\<lambda>s. s) w = (Ok out, w')" using run key valid by (simp add: publish_def)
    then show ?thesis using publish_unseen_Ok [OF inv uuid sourced, of "\<lambda>s. s"] src False key by (simp add: source_seen_def)
  qed
  then show ?thesis using again key by (auto simp: publish_def ok_or_def)
qed

abbreviation sample_input :: notification_input where
  "sample_input \<equiv> record_shape (sample_notice ''id-b'' 3)"

theorem publish_once_per_source_witness:
  "\<exists>r. publish notice_env notice_path sample_input 9 (snd (publish notice_env notice_path sample_input 5 notice_world)) =
     (Ok \<lparr>po_notification = Some r,
          po_revision = revision_text (st_file (nw_state (snd (publish notice_env notice_path sample_input 5 notice_world)))),
          po_committed = False\<rparr>, snd (publish notice_env notice_path sample_input 5 notice_world))"
proof -
  have "is_ok (fst (publish notice_env notice_path sample_input 5 notice_world))" by code_simp
  then obtain out w where run: "publish notice_env notice_path sample_input 5 notice_world = (Ok out, w)"
    by (cases "publish notice_env notice_path sample_input 5 notice_world") (auto simp: is_ok_iff)
  have "validate_publish_input notice_env sample_input = Ok ()" by code_simp
  moreover have source: "ni_source_event_id sample_input = Some ''session:id-b''" "well_sourced sample_input"
    by (simp_all add: record_shape_def sample_notice_def well_sourced_def starts_with_def)
  ultimately show ?thesis
    using publish_once_per_source [OF notice_world_inv notice_env_uuid source(2,1) run _ refl source(1)] run by auto
qed

end
