(* ===== verification/Notification_Paging.thy ===== *)
theory Notification_Paging
  imports Notification_Samples
begin

text \<open>
  Reading the notifications page by page: the cursor a page ends with decodes to itself, and the
  records after it are exactly the ones not yet shown.
\<close>

section \<open>Cursors\<close>

lemma hex_digit_facts:
  "list_all (\<lambda>n. hex_value (hex_digit n) = Some n \<and> hex_digit n \<noteq> CHR ''+'' \<and> 33 \<le> byte (hex_digit n) \<and> byte (hex_digit n) < 127) [0..<16]"
  by code_simp

lemma hex_digit_value:
  assumes "n < 16"
  shows "hex_value (hex_digit n) = Some n" "hex_digit n \<noteq> CHR ''+''" "33 \<le> byte (hex_digit n)" "byte (hex_digit n) < 127"
  using hex_digit_facts assms unfolding list_all_iff by auto

lemma hex_digit_ascii: "n < 16 \<Longrightarrow> byte (hex_digit n) < 128"
  using hex_digit_value(4) [of n] by simp

lemma high_digit: "byte c div 16 < 16"
  by (rule less_mult_imp_div_less) simp

lemma hex_pair_byte: "hex_pair (hex_digit (byte c div 16)) (hex_digit (byte c mod 16)) = Some (byte c)"
  by (simp add: hex_pair_def hex_digit_value high_digit)

lemma decode_hex_bytes: "decode_hex (concat (map hex_byte s)) = Some s"
  by (induction s) (simp_all add: hex_byte_def hex_pair_byte)

lemma hex_bytes_plain:
  "list_all (\<lambda>c. byte c < 128) (concat (map hex_byte s))" "length (concat (map hex_byte s)) = 2 * length s"
  by (induction s) (simp_all add: hex_byte_def hex_digit_ascii high_digit)

lemma decode_encode_cursor:
  assumes "en_cursor_parse V (en_cursor_text V k) = Some k" "en_cursor_text V k \<noteq> []"
    and "cu_version k = 1" "cu_id k \<noteq> []"
  shows "decode_cursor V (encode_cursor V k) (cu_fingerprint k) (cu_filter k) = Ok k"
proof -
  have "concat (map hex_byte (en_cursor_text V k)) \<noteq> []"
    using assms(2) hex_bytes_plain(2) [of "en_cursor_text V k"] by (metis length_0_conv mult_is_0 zero_neq_numeral)
  then show ?thesis
    using assms hex_bytes_plain [of "en_cursor_text V k"]
    by (simp add: decode_cursor_def encode_cursor_def strip_prefix_def starts_with_def decode_hex_bytes)
qed

text \<open>Trimming keeps a text that starts and ends with a graphic ASCII character.\<close>

lemma trim_graphic:
  assumes "s \<noteq> []" "33 \<le> byte (hd s)" "byte (hd s) < 127" "33 \<le> byte (last s)" "byte (last s) < 127"
  shows "trim s = s"
proof -
  have "ws_len s = 0"
    using assms(1-3) by (cases s) (auto simp: ws_len_def ws1_def ws2_def ws3_def split: list.splits)
  moreover have "rws_len (rev s) = 0"
    using assms(1,4,5) by (cases s rule: rev_cases) (auto simp: rws_len_def ws1_def ws2_def ws3_def split: list.splits)
  ultimately show ?thesis by (simp add: trim_def trim_bytes_id)
qed

lemma trim_cursor: "trim (encode_cursor V k) \<noteq> []"
proof -
  let ?t = "en_cursor_text V k"
  have "33 \<le> byte (last (''n1.'' @ concat (map hex_byte ?t))) \<and> byte (last (''n1.'' @ concat (map hex_byte ?t))) < 127"
  proof (cases ?t rule: rev_cases)
    case (snoc t c)
    have "byte c mod 16 < 16" by simp
    then show ?thesis using hex_digit_value [of "byte c mod 16"] snoc by (simp add: hex_byte_def)
  qed simp
  then have "trim (encode_cursor V k) = encode_cursor V k" unfolding encode_cursor_def by (intro trim_graphic) simp_all
  then show ?thesis by (simp add: encode_cursor_def)
qed

section \<open>The records after a cursor\<close>

lemma strictly_sorted_unique:
  assumes "sorted_wrt R xs" "sorted_wrt R ys" "set xs = set ys" and asym: "\<And>x y. R x y \<Longrightarrow> \<not> R y x"
  shows "xs = ys"
  using assms(1-3)
proof (induction xs arbitrary: ys)
  case (Cons x xs)
  then obtain y zs where ys: "ys = y # zs" by (cases ys) auto
  have "x = y"
  proof (rule ccontr)
    assume "x \<noteq> y"
    then have "R y x" "R x y" using Cons.prems ys by auto
    then show False using asym by blast
  qed
  moreover have "x \<notin> set xs" "y \<notin> set zs" using Cons.prems(1,2) ys asym by auto
  ultimately have "set xs = set zs" using Cons.prems(3) ys by auto
  then show ?case using Cons.IH [of zs] Cons.prems(1,2) ys \<open>x = y\<close> by simp
qed simp

lemma newest_first_strict:
  assumes "distinct (map nr_id xs)"
  shows "sorted_wrt (\<lambda>a b. older (age b) (age a)) (newest_first xs)"
proof -
  have "mset (newest_first xs) = mset xs" by (simp add: newest_first_def)
  then have "distinct (map nr_id (newest_first xs))" using assms by (metis distinct_map mset_eq_imp_distinct_iff set_mset_mset)
  moreover have "sorted_wrt (\<lambda>a b. \<not> older (age a) (age b)) (newest_first xs)"
    using newest.sorted_sort by (simp add: newest_first_def)
  ultimately show ?thesis
    unfolding sorted_wrt_iff_nth_less distinct_conv_nth
    by (metis (no_types, lifting) age_def length_map less_imp_le_nat nat_neq_iff nth_map older_total order.strict_trans snd_conv)
qed

lemma set_newest_first [simp]: "set (newest_first xs) = set xs"
  by (metis mset_sort_by newest_first_def set_mset_mset)

lemma set_list_matching:
  "set (list_matching f c flt k now) = {r \<in> set (visible_records f c). \<not> is_expired r now \<and> (flt = FilterAll \<or> nr_read_at_ms r = None)
     \<and> (case k of None \<Rightarrow> True | Some k \<Rightarrow> older (age r) (cu_created_at_ms k, cu_id k))}"
  by (auto simp: list_matching_def)

lemma visible_ids:
  assumes "file_valid V f"
  shows "distinct (map nr_id (visible_records f c))"
proof -
  let ?ids = "\<lambda>p. map nr_id (np_items p)"
  have "distinct (concat (map ?ids (fl_partitions f)))" using distinct_ids [of f] assms by (simp add: file_valid_def)
  then have "distinct (concat (map ?ids (filter (\<lambda>p. visible c (np_scope p)) (fl_partitions f))))"
    by (rule distinct_mset_mono) (rule mset_concat_filter_le)
  then show ?thesis by (simp add: visible_records_def map_concat comp_def)
qed

lemma list_matching_strict:
  assumes "file_valid V f"
  shows "sorted_wrt (\<lambda>a b. older (age b) (age a)) (list_matching f c flt k now)"
  unfolding list_matching_def by (rule newest_first_strict) (rule distinct_map_filter [OF visible_ids [OF assms]])

text \<open>The records older than the \<open>n\<close>-th are the ones after it.\<close>

lemma list_matching_after:
  assumes valid: "file_valid V f" and L: "L = list_matching f c flt None now" and n: "0 < n" "n \<le> length L"
  shows "list_matching f c flt (Some (page_cursor c flt (L ! (n - 1)))) now = drop n L"
proof (rule strictly_sorted_unique)
  let ?R = "\<lambda>a b. older (age b) (age a)"
  have sorted: "sorted_wrt ?R L" using list_matching_strict [OF valid] L by simp
  show "sorted_wrt ?R (list_matching f c flt (Some (page_cursor c flt (L ! (n - 1)))) now)" by (rule list_matching_strict [OF valid])
  show "sorted_wrt ?R (drop n L)" using sorted by (rule sorted_wrt_drop)
  have "set (list_matching f c flt (Some (page_cursor c flt (L ! (n - 1)))) now) = {x \<in> set L. ?R (L ! (n - 1)) x}"
    unfolding L by (auto simp: set_list_matching page_cursor_def age_def)
  also have "\<dots> = set (drop n L)"
  proof -
    have "?R (L ! (n - 1)) (L ! i) \<longleftrightarrow> n \<le> i" if "i < length L" for i
    proof (cases "n - 1 < i")
      case True
      then show ?thesis using sorted that n by (auto simp: sorted_wrt_iff_nth_less)
    next
      case False
      then have "i = n - 1 \<or> i < n - 1" by linarith
      then have "i = n - 1 \<or> ?R (L ! i) (L ! (n - 1))" using sorted n by (auto simp: sorted_wrt_iff_nth_less)
      then show ?thesis using False n older_asym older_irrefl by fastforce
    qed
    moreover have "set (drop n L) = {L ! i | i. n \<le> i \<and> i < length L}"
    proof (intro equalityI subsetI)
      fix x assume "x \<in> set (drop n L)"
      then obtain j where "j < length L - n" "x = L ! (n + j)" by (auto simp: in_set_conv_nth)
      then show "x \<in> {L ! i | i. n \<le> i \<and> i < length L}" by (auto intro!: exI [of _ "n + j"])
    next
      fix x assume "x \<in> {L ! i | i. n \<le> i \<and> i < length L}"
      then obtain i where i: "n \<le> i" "i < length L" "x = L ! i" by blast
      then have "drop n L ! (i - n) = x" "i - n < length (drop n L)" by auto
      then show "x \<in> set (drop n L)" using nth_mem by blast
    qed
    ultimately show ?thesis by (auto simp: in_set_conv_nth)
  qed
  finally show "set (list_matching f c flt (Some (page_cursor c flt (L ! (n - 1)))) now) = set (drop n L)" .
qed (rule older_asym)

section \<open>Following the cursors\<close>

text \<open>What a reader does: ask for a page and go on with its cursor, for at most \<open>k\<close> pages.\<close>

fun read_pages ::
  "notification_env \<Rightarrow> view_context \<Rightarrow> u64 \<Rightarrow> notification_world \<Rightarrow> nat \<Rightarrow> list_notifications_request
     \<Rightarrow> notification_record list option" where
  "read_pages V c now w 0 q = None"
| "read_pages V c now w (Suc k) q =
     (case list_notifications V c q now w of
        Ok page \<Rightarrow>
          (case pg_next_cursor page of
             None \<Rightarrow> Some (pg_items page)
           | Some t \<Rightarrow> map_option ((@) (pg_items page)) (read_pages V c now w k (q\<lparr>lq_cursor := Some t\<rparr>)))
      | _ \<Rightarrow> None)"

text \<open>The query of the page after the first \<open>n\<close> records.\<close>

definition query_after ::
  "notification_env \<Rightarrow> list_notifications_request \<Rightarrow> notification_record list \<Rightarrow> nat \<Rightarrow> list_notifications_request" where
  "query_after V q L n =
     q\<lparr>lq_cursor := (if n = 0 then None else Some (encode_cursor V (page_cursor (lq_account_id q) (lq_filter q) (L ! (n - 1)))))\<rparr>"

lemma query_after_simps [simp]:
  "lq_account_id (query_after V q L n) = lq_account_id q" "lq_filter (query_after V q L n) = lq_filter q"
  "lq_limit (query_after V q L n) = lq_limit q"
  by (simp_all add: query_after_def)

definition well_formed_query :: "list_notifications_request \<Rightarrow> bool" where
  "well_formed_query q \<longleftrightarrow> lq_cursor q = None \<and> 1 \<le> lq_limit q \<and> lq_limit q \<le> 100
     \<and> (case lq_account_id q of None \<Rightarrow> True | Some a \<Rightarrow> trim a \<noteq> [])"

lemma list_after:
  assumes valid: "file_valid V (st_file (nw_state w))" and q: "well_formed_query q"
    and codec: "\<And>k. en_cursor_parse V (en_cursor_text V k) = Some k" "\<And>k. en_cursor_text V k \<noteq> []"
    and ids: "\<not> en_generated V []"
    and L: "L = list_matching (st_file (nw_state w)) (lq_account_id q) (lq_filter q) None now" and n: "n \<le> length L"
  shows "\<exists>page. list_notifications V (lq_account_id q) (query_after V q L n) now w = Ok page
    \<and> pg_items page = take (unat (lq_limit q)) (drop n L)
    \<and> pg_next_cursor page = (if n + unat (lq_limit q) < length L
        then lq_cursor (query_after V q L (n + unat (lq_limit q))) else None)"
proof -
  let ?c = "lq_account_id q" and ?l = "unat (lq_limit q)" and ?k = "page_cursor (lq_account_id q) (lq_filter q) (L ! (n - 1))"
  have l: "0 < ?l" using q by (auto simp: well_formed_query_def unat_gt_0)
  have named: "nr_id r \<noteq> []" if "r \<in> set L" for r
  proof -
    have "r \<in> set (visible_records (st_file (nw_state w)) ?c)" using that L set_list_matching by blast
    then have "is_ok (record_validate (en_generated V) r)"
      using valid by (auto simp: visible_records_def file_valid_def list_all_iff partition_valid_def)
    then show ?thesis using ids by (auto simp: record_validate_def is_ok_iff split: if_splits)
  qed
  have valid_q: "list_request_validate (query_after V q L n) = Ok ()"
    using q by (auto simp: list_request_validate_def query_after_def well_formed_query_def trim_cursor split: option.splits)
  have cursor: "(case lq_cursor (query_after V q L n) of None \<Rightarrow> Ok None
      | Some t \<Rightarrow> bind_result (decode_cursor V t (query_fingerprint ?c) (lq_filter q)) (\<lambda>k. Ok (Some k)))
      = (Ok (if n = 0 then None else Some ?k) :: (_, notification_error) result)"
  proof (cases "n = 0")
    case False
    then have "nr_id (L ! (n - 1)) \<noteq> []" using named n by simp
    then have "decode_cursor V (encode_cursor V ?k) (query_fingerprint ?c) (lq_filter q) = Ok ?k"
      using decode_encode_cursor [of V ?k] codec by (simp add: page_cursor_def)
    then show ?thesis using False by (simp add: query_after_def)
  qed (simp add: query_after_def)
  have matching: "list_matching (st_file (nw_state w)) ?c (lq_filter q) (if n = 0 then None else Some ?k) now = drop n L"
    using list_matching_after [OF valid L, of n] n L by auto
  have "take ?l (drop n L) \<noteq> [] \<and> last (take ?l (drop n L)) = L ! (n + ?l - 1)" if "n + ?l < length L"
    using that l by (simp add: last_conv_nth)
  then have next_cursor: "(if ?l < length (drop n L) \<and> take ?l (drop n L) \<noteq> []
      then Some (encode_cursor V (page_cursor ?c (lq_filter q) (last (take ?l (drop n L))))) else None)
      = (if n + ?l < length L then lq_cursor (query_after V q L (n + ?l)) else None)"
    using l by (auto simp: query_after_def)
  have "list_notifications V ?c (query_after V q L n) now w =
      Ok \<lparr>pg_items = take ?l (drop n L),
         pg_next_cursor = (if n + ?l < length L then lq_cursor (query_after V q L (n + ?l)) else None),
         pg_unread_count = visible_unread_count (st_file (nw_state w)) ?c now,
         pg_revision = revision_text (st_file (nw_state w))\<rparr>"
    unfolding list_notifications_def valid_q query_after_simps cursor next_cursor [symmetric] by (simp add: matching Let_def)
  then show ?thesis by simp
qed

lemma read_pages_after:
  assumes ctx: "file_valid V (st_file (nw_state w))" "well_formed_query q"
    "\<And>k. en_cursor_parse V (en_cursor_text V k) = Some k" "\<And>k. en_cursor_text V k \<noteq> []" "\<not> en_generated V []"
    and L: "L = list_matching (st_file (nw_state w)) (lq_account_id q) (lq_filter q) None now"
  shows "n \<le> length L \<Longrightarrow> length L - n < k \<Longrightarrow> read_pages V (lq_account_id q) now w k (query_after V q L n) = Some (drop n L)"
proof (induction k arbitrary: n)
  case (Suc k)
  let ?l = "unat (lq_limit q)"
  have l: "0 < ?l" using ctx(2) by (auto simp: well_formed_query_def unat_gt_0)
  obtain page where page: "list_notifications V (lq_account_id q) (query_after V q L n) now w = Ok page"
    "pg_items page = take ?l (drop n L)"
    "pg_next_cursor page = (if n + ?l < length L then lq_cursor (query_after V q L (n + ?l)) else None)"
    using list_after [OF ctx L Suc.prems(1)] by blast
  show ?case
  proof (cases "n + ?l < length L")
    case True
    obtain t where t: "lq_cursor (query_after V q L (n + ?l)) = Some t" using l by (simp add: query_after_def)
    have "(query_after V q L n)\<lparr>lq_cursor := Some t\<rparr> = (query_after V q L (n + ?l))\<lparr>lq_cursor := Some t\<rparr>" by (simp add: query_after_def)
    also have "\<dots> = query_after V q L (n + ?l)" using t by (metis list_notifications_request.surjective list_notifications_request.update_convs(3))
    finally have same: "(query_after V q L n)\<lparr>lq_cursor := Some t\<rparr> = query_after V q L (n + ?l)" .
    have "length L - (n + ?l) < k" using Suc.prems l True by simp
    then have "read_pages V (lq_account_id q) now w k ((query_after V q L n)\<lparr>lq_cursor := Some t\<rparr>) = Some (drop (n + ?l) L)"
      unfolding same using Suc.IH True by simp
    moreover have "take ?l (drop n L) @ drop (n + ?l) L = drop n L" by (metis add.commute append_take_drop_id drop_drop)
    ultimately show ?thesis using page t True by simp
  next
    case False
    then show ?thesis using page by simp
  qed
qed simp

text \<open>
  C37: Reading page by page misses nothing and shows nothing twice: with any page size, following the
  cursors ends after finitely many pages, and the pages together are exactly the notifications visible in the
  view that have not expired and pass the filter, each once, from the newest to the oldest.  (The text of a cursor
  parses to the cursor, and the empty text is not an identifier.)
\<close>

theorem pages_enumerate_notifications:
  assumes "validate_file V (st_file (nw_state w)) = Ok ()" and "well_formed_query q"
    and "\<forall>k. en_cursor_parse V (en_cursor_text V k) = Some k \<and> en_cursor_text V k \<noteq> []" and "\<not> en_generated V []"
  shows "\<exists>L. read_pages V (lq_account_id q) now w (Suc (length L)) q = Some L
    \<and> distinct (map nr_id L) \<and> sorted_wrt (\<lambda>a b. older (age b) (age a)) L
    \<and> set L = {r \<in> set (visible_records (st_file (nw_state w)) (lq_account_id q)).
        \<not> is_expired r now \<and> (lq_filter q = FilterAll \<or> nr_read_at_ms r = None)}"
proof -
  let ?L = "list_matching (st_file (nw_state w)) (lq_account_id q) (lq_filter q) None now"
  have valid: "file_valid V (st_file (nw_state w))" using assms(1) by (simp add: validate_file_def split: if_splits)
  have start: "query_after V q ?L 0 = q" using assms(2) by (simp add: query_after_def well_formed_query_def)
  have "read_pages V (lq_account_id q) now w (Suc (length ?L)) (query_after V q ?L 0) = Some (drop 0 ?L)"
    by (rule read_pages_after [OF valid assms(2) _ _ assms(4) refl]) (use assms(3) in simp_all)
  then have "read_pages V (lq_account_id q) now w (Suc (length ?L)) q = Some ?L" by (simp only: start drop_0)
  moreover have "distinct (map nr_id ?L)"
  proof -
    have "mset (map nr_id ?L) \<subseteq># mset (map nr_id (visible_records (st_file (nw_state w)) (lq_account_id q)))"
      by (simp add: list_matching_def newest_first_def image_mset_subseteq_mono)
    then show ?thesis using distinct_mset_mono visible_ids [OF valid] by blast
  qed
  ultimately show ?thesis using list_matching_strict [OF valid] set_list_matching [where k = None] by (intro exI [of _ ?L]) simp
qed

definition sample_query :: list_notifications_request where
  "sample_query = \<lparr>lq_account_id = Some ''main'', lq_filter = FilterAll, lq_cursor = None, lq_limit = 1\<rparr>"

theorem pages_enumerate_notifications_witness:
  "\<exists>L. read_pages notice_env (Some ''main'') 10 (notice_world\<lparr>nw_state := (nw_state notice_world)\<lparr>st_file := two_notices\<rparr>\<rparr>)
       (Suc (length L)) sample_query = Some L
     \<and> set L = {sample_notice ''id-b'' 9, sample_notice ''id-a'' 4}"
proof -
  have valid: "validate_file notice_env two_notices = Ok ()" by code_simp
  have query: "well_formed_query sample_query" by code_simp
  have codec: "\<forall>k. en_cursor_parse notice_env (en_cursor_text notice_env k) = Some k \<and> en_cursor_text notice_env k \<noteq> []"
    by (simp add: notice_env_def dec_enc_cursor) (simp add: enc_cursor_def enc_nat_def)
  have ids: "\<not> en_generated notice_env []" by (simp add: notice_env_def starts_with_def)
  have fresh: "\<not> is_expired (sample_notice ''id-b'' 9) 10" "\<not> is_expired (sample_notice ''id-a'' 4) 10" by code_simp+
  have shown: "visible_records two_notices (Some ''main'') = [sample_notice ''id-b'' 9, sample_notice ''id-a'' 4]"
    by (simp add: visible_records_def two_notices_def visible_def)
  from pages_enumerate_notifications [of notice_env "notice_world\<lparr>nw_state := (nw_state notice_world)\<lparr>st_file := two_notices\<rparr>\<rparr>",
      OF _ query codec ids, of 10] valid fresh shown
  show ?thesis by (auto simp: sample_query_def)
qed

end
