(* ===== verification/Notification_Storage.thy ===== *)
theory Notification_Storage
  imports Notification_Samples Storage_Properties
begin

text \<open>
  The replacement protocol of the notification store meets the contract of the configuration files, as
  long as the main copy is valid; loading and saving never disturb a file of a newer program.
\<close>

section \<open>The replacement\<close>

lemma write_and_sync_effect:
  assumes "write_and_sync t c d = (r, d')"
  shows "q \<noteq> t \<Longrightarrow> lookup d' q = lookup d q"
    and "r = Ok () \<Longrightarrow> lookup d' t = Some (File c)"
    and "lookup d t \<noteq> None \<Longrightarrow> lookup d' t \<noteq> None"
    and "r \<noteq> Panic"
  using assms
  by (auto simp: write_and_sync_def open_truncate_def write_all_def sync_all_def syscall_def
      split: fault.splits option.splits node.splits if_splits)

lemma remove_if_present_effect:
  assumes "remove_if_present b d = (r, d')"
  shows "q \<noteq> b \<Longrightarrow> lookup d' q = lookup d q" and "r \<noteq> Panic"
  using assms
  by (auto simp: remove_if_present_def sync_parent_directory_def sync_all_def fs_remove_file_def syscall_def
      split: fault.splits option.splits node.splits if_splits)

lemma rename_and_sync_effect:
  assumes "rename_and_sync a b d = (r, d')" "a \<noteq> b"
  shows "(\<forall>q. lookup d' q = lookup d q) \<and> r \<noteq> Ok ()
      \<or> lookup d a \<noteq> None \<and> (\<forall>q. lookup d' q = (if q = b then lookup d a else if q = a then None else lookup d q))"
    and "r \<noteq> Panic"
  using assms
  by (auto simp: rename_and_sync_def sync_parent_directory_def sync_all_def fs_rename_def syscall_def
      split: fault.splits option.splits node.splits if_splits)

text \<open>
  From a valid main file, with the new bytes in the temporary file: the main file holds the old or the new
  bytes, or it is missing and the temporary file holds the new ones.
\<close>

lemma promote_effect:
  assumes ne: "p \<noteq> []" and rotated: "lookup d p = None" "lookup d (backup_path p) = Some n" "lookup d (temp_path p) = Some m"
    and run: "promote_or_restore p True d = (r, d')"
  shows "lookup d' p = Some n \<or> lookup d' p = Some m \<or> lookup d' p = None \<and> lookup d' (temp_path p) = Some m"
    and "r = Ok () \<Longrightarrow> lookup d' p = Some m" and "q \<notin> slot_paths p \<Longrightarrow> lookup d' q = lookup d q" and "r \<noteq> Panic"
proof -
  note sd = slot_distinct [OF ne]
  obtain r1 d1 where s1: "rename_and_sync (temp_path p) p d = (r1, d1)" by (cases "rename_and_sync (temp_path p) p d")
  obtain r2 d2 where s2: "rename_and_sync (backup_path p) p d1 = (r2, d2)" by (cases "rename_and_sync (backup_path p) p d1")
  note e1 = rename_and_sync_effect [OF s1 sd(1)] and e2 = rename_and_sync_effect [OF s2 sd(3)]
  have out: "r1 = Ok () \<and> d' = d1 \<and> r = Ok () \<or> (\<exists>e. r1 = Err e) \<and> d' = d2 \<and> r = r1"
    using run s1 s2 e1(2) by (cases r1) (auto simp: promote_or_restore_def)
  show "lookup d' p = Some n \<or> lookup d' p = Some m \<or> lookup d' p = None \<and> lookup d' (temp_path p) = Some m"
    using out e1 e2 rotated sd by auto
  show "r = Ok () \<Longrightarrow> lookup d' p = Some m" using out e1 rotated sd by auto
  show "q \<notin> slot_paths p \<Longrightarrow> lookup d' q = lookup d q" using out e1 e2 by (auto simp: slot_paths_def)
  show "r \<noteq> Panic" using out e1(2) by auto
qed

lemma rotate_effect:
  assumes ne: "p \<noteq> []" and run: "rotate_main p True d = (r, d')"
  shows "r \<noteq> Panic" and "q \<notin> slot_paths p \<Longrightarrow> lookup d' q = lookup d q" and "lookup d' (temp_path p) = lookup d (temp_path p)"
    and "lookup d' p = lookup d p \<and> r \<noteq> Ok ()
      \<or> lookup d p \<noteq> None \<and> lookup d' p = None \<and> lookup d' (backup_path p) = lookup d p"
proof -
  note sd = slot_distinct [OF ne]
  obtain r1 d1 where s1: "remove_if_present (backup_path p) d = (r1, d1)" by (cases "remove_if_present (backup_path p) d")
  obtain r2 d2 where s2: "rename_and_sync p (backup_path p) d1 = (r2, d2)" by (cases "rename_and_sync p (backup_path p) d1")
  note e1 = remove_if_present_effect [OF s1] and e2 = rename_and_sync_effect [OF s2 sd(4)]
  have out: "r1 = Ok () \<and> d' = d2 \<and> r = r2 \<or> (\<exists>e. r1 = Err e) \<and> d' = d1 \<and> r = r1"
    using run s1 s2 e1(2) by (cases r1) (auto simp: rotate_main_def)
  show "r \<noteq> Panic" using out e2(2) by auto
  show "q \<notin> slot_paths p \<Longrightarrow> lookup d' q = lookup d q" using out e1(1) [of q] e2(1) by (auto simp: slot_paths_def)
  show "lookup d' (temp_path p) = lookup d (temp_path p)" using out e1(1) [of "temp_path p"] e2(1) sd by auto
  show "lookup d' p = lookup d p \<and> r \<noteq> Ok ()
      \<or> lookup d p \<noteq> None \<and> lookup d' p = None \<and> lookup d' (backup_path p) = lookup d p"
    using out e1(1) [of p] e2(1) sd by auto
qed

lemma replace_document_replacement:
  assumes ne: "p \<noteq> []" and run: "replace_document True b p c' d = (r, d')"
  shows "replacement p c' d r d'"
proof -
  let ?prep = "if butlast p = [] then (Ok (), d) else io_map_err (\<lambda>_. storage_unavailable) (fs_create_dir_all (butlast p) d)"
  obtain r0 d0 where s0: "?prep = (r0, d0)" by (cases ?prep)
  have dirs: "lookup d0 q = lookup d q
      \<or> (lookup d q = None \<and> lookup d0 q = Some Dir \<and> q \<in> set (dir_chain (butlast p)))" for q
    using s0 create_dir_all_lookup [of "butlast p" d _ _ q]
    by (cases "fs_create_dir_all (butlast p) d") (auto simp: io_map_err_def split: if_splits)
  have np: "r0 \<noteq> Panic"
    using s0 io_never_panics(9) [of "butlast p" d]
    by (cases "fs_create_dir_all (butlast p) d"; cases "fst (fs_create_dir_all (butlast p) d)") (auto split: if_splits)
  obtain r1 d1 where s1: "write_and_sync (temp_path p) c' d0 = (r1, d1)" by (cases "write_and_sync (temp_path p) c' d0")
  obtain r2 d2 where s2: "rotate_main p True d1 = (r2, d2)" by (cases "rotate_main p True d1")
  note w = write_and_sync_effect [OF s1] and ro = rotate_effect [OF ne s2]
  from run s0 s1 s2 np w(4) ro(1) consider
      "r0 \<noteq> Ok ()" "r \<noteq> Ok ()" "r \<noteq> Panic" "d' = d0"
    | "r1 \<noteq> Ok ()" "r \<noteq> Ok ()" "r \<noteq> Panic" "d' = d1"
    | "r1 = Ok ()" "r2 \<noteq> Ok ()" "r \<noteq> Ok ()" "r \<noteq> Panic" "d' = d2"
    | "r1 = Ok ()" "r2 = Ok ()" "promote_or_restore p True d2 = (r, d')"
    by (cases r0; cases r1; cases r2) (auto simp: replace_document_def)
  then show ?thesis
  proof cases
    case 1
    then show ?thesis using dirs by (intro replacement_unprepared [OF ne]) auto
  next
    case 2
    then show ?thesis by (intro replacement_after_temp [OF ne dirs w(1) w(3)]) auto
  next
    case 3
    then show ?thesis using w(2) ro by (intro replacement_after_temp [OF ne dirs w(1) w(3)]) auto
  next
    case 4
    then obtain n where n: "lookup d1 p = Some n" "lookup d2 p = None" "lookup d2 (backup_path p) = Some n" using ro(4) by auto
    have t: "lookup d2 (temp_path p) = Some (File c')" using 4 w(2) ro(3) by simp
    note pr = promote_effect [OF ne n(2,3) t 4(3)]
    show ?thesis
      by (rule replacement_after_temp [OF ne dirs w(1) w(3)]) (use 4 w(2) pr n ro(2) in auto)
  qed
qed

interpretation notification_slot: crash_safe_slot "replace_document True b" for b
  by (rule crash_safe_slotI) (rule replace_document_replacement)

section \<open>Reading the copies\<close>

lemma existing_candidate_effect:
  assumes "existing_candidate V p d = (r, d')"
  shows "lookup d' q = lookup d q" and "r \<noteq> Panic"
    and "r = Ok c \<Longrightarrow> (case lookup d p of
        None \<Rightarrow> c = None
      | Some n \<Rightarrow> (case n of File b \<Rightarrow> c = Some (classify_bytes V b) | _ \<Rightarrow> False))"
  using assms
  by (auto simp: existing_candidate_def read_candidate_def fs_metadata_def fs_read_def syscall_def ok_or_def
      split: fault.splits option.splits node.splits if_splits)

lemma ensure_supported_effect:
  assumes "ensure_supported V ps d = (r, d')"
  shows "(\<forall>q. lookup d' q = lookup d q) \<and> r \<noteq> Panic"
  using assms
proof (induction V ps d arbitrary: r d' rule: ensure_supported.induct)
  case (2 V p ps d)
  obtain r1 d1 where s1: "existing_candidate V p d = (r1, d1)" by (cases "existing_candidate V p d")
  note e = existing_candidate_effect [OF s1]
  show ?case
  proof (cases r1)
    case (Ok c)
    with 2 s1 e(1) show ?thesis by (cases c) (auto split: file_candidate.splits)
  qed (use 2 s1 e in auto)
qed simp

text \<open>A save either stops before it writes, or it replaces the document knowing whether the main copy is valid.\<close>

lemma store_save_stages:
  assumes run: "store_save V p f d = (r, d')"
  shows "(r \<noteq> Ok () \<and> r \<noteq> Panic \<and> (\<forall>q. lookup d' q = lookup d q))
    \<or> (\<exists>d0 b. (\<forall>q. lookup d0 q = lookup d q)
        \<and> replace_document (\<exists>c g. lookup d p = Some (File c) \<and> classify_bytes V c = CandidateValid g) b p (en_file_text V f) d0 = (r, d'))"
proof -
  obtain r1 d1 where s1: "ensure_supported_save_target V p d = (r1, d1)" by (cases "ensure_supported_save_target V p d")
  obtain r2 d2 where s2: "existing_candidate V p d1 = (r2, d2)" by (cases "existing_candidate V p d1")
  obtain r3 d3 where s3: "existing_candidate V (backup_path p) d2 = (r3, d3)" by (cases "existing_candidate V (backup_path p) d2")
  have e1: "lookup d1 q = lookup d q" "r1 \<noteq> Panic" for q
    using ensure_supported_effect s1 unfolding ensure_supported_save_target_def by blast+
  note e2 = existing_candidate_effect [OF s2] and e3 = existing_candidate_effect [OF s3]
  have same: "lookup d3 q = lookup d q" for q using e1(1) e2(1) e3(1) by simp
  show ?thesis
  proof (cases "validate_file V f = Ok () \<and> r1 = Ok () \<and> (\<exists>m k. r2 = Ok m \<and> r3 = Ok k) \<and> serialize_file V f \<noteq> None")
    case False
    have "r \<noteq> Ok () \<and> r \<noteq> Panic \<and> (d' = d \<or> d' = d1 \<or> d' = d2 \<or> d' = d3)"
      using run False s1 s2 s3 e1(2) e2(2) e3(2)
      by (cases r1; cases r2; cases r3) (auto simp: store_save_def save_validated_def validate_file_def ok_or_def split: if_splits option.splits)
    then show ?thesis using e1(1) e2(1) e3(1) by auto
  next
    case True
    then obtain m k where mk: "r2 = Ok m" "r3 = Ok k" by blast
    have "candidate_valid m = (\<exists>c g. lookup d p = Some (File c) \<and> classify_bytes V c = CandidateValid g)"
      using e2(3) [OF mk(1)] e1(1) by (auto simp: candidate_valid_def split: option.splits node.splits file_candidate.splits)
    then have "replace_document (\<exists>c g. lookup d p = Some (File c) \<and> classify_bytes V c = CandidateValid g)
        (candidate_valid k) p (en_file_text V f) d3 = (r, d')"
      using run True s1 s2 s3 mk by (auto simp: store_save_def save_validated_def serialize_file_def Let_def ok_or_def split: if_splits)
    then show ?thesis using same by blast
  qed
qed

section \<open>Saving\<close>

lemma load_main:
  assumes "lookup d p = Some (File c)" "classify_bytes V c = CandidateValid f"
  shows "load_report V t p (restarted d) = (Ok \<lparr>lo_file = f, lo_status = LoadClean, lo_write_failures = []\<rparr>, restarted d)"
  using assms by (simp add: load_report_def fs_metadata_def fs_read_def read_candidate_def normalize_recovery_def)

lemma load_temp:
  assumes "lookup d p = None" "lookup d (temp_path p) = Some (File c)" "classify_bytes V c = CandidateValid f"
  shows "\<exists>out d'. load_report V t p (restarted d) = (Ok out, d') \<and> lo_file out = f"
  using assms
  by (cases "save_validated V p f (restarted d)")
    (simp add: load_report_def fs_metadata_def fs_read_def read_candidate_def normalize_recovery_def os_not_found_def)

text \<open>
  C38: Saving the notifications is atomic.  If the store holds a valid file, then after a save in which any
  system calls fail, or which a crash cuts short anywhere, the next load finds the file as it was or as it
  was to become, and after a save that reported success it finds the new one.
\<close>

theorem notification_save_atomic:
  assumes "p \<noteq> []" and "lookup d p = Some (File c)" and "classify_bytes V c = CandidateValid old"
    and "classify_bytes V (en_file_text V new) = CandidateValid new"
    and "store_save V p new d = (r, d')"
  shows "r \<noteq> Panic \<and> (\<exists>out d''. load_report V t p (restarted d') = (Ok out, d'')
    \<and> (lo_file out = old \<or> lo_file out = new) \<and> (r = Ok () \<longrightarrow> lo_file out = new))"
  using store_save_stages [OF assms(5)]
proof (elim disjE exE conjE)
  assume "r \<noteq> Ok ()" "r \<noteq> Panic" "\<forall>q. lookup d' q = lookup d q"
  then show ?thesis using load_main [of d' p c V old t] assms(2,3) by auto
next
  fix d0 b
  assume same: "\<forall>q. lookup d0 q = lookup d q"
    and "replace_document (\<exists>c g. lookup d p = Some (File c) \<and> classify_bytes V c = CandidateValid g) b p (en_file_text V new) d0 = (r, d')"
  then have run: "replace_document True b p (en_file_text V new) d0 = (r, d')" using assms(2,3) by simp
  have main: "lookup d0 p = Some (File c)" using same assms(2) by simp
  have ok: "r = Ok () \<Longrightarrow> lookup d' p = Some (File (en_file_text V new))" using notification_slot.save_ok [OF assms(1)] run by simp
  from notification_slot.save_old_or_new [OF assms(1) main run] consider
      "lookup d' p = Some (File c)" | "lookup d' p = Some (File (en_file_text V new))"
    | "lookup d' p = None" "lookup d' (temp_path p) = Some (File (en_file_text V new))" by auto
  then show ?thesis
  proof cases
    case 1
    then have "r = Ok () \<longrightarrow> new = old" using ok assms(3,4) by auto
    then show ?thesis using load_main [OF 1 assms(3), of t] notification_slot.save_total [OF assms(1) run] by auto
  next
    case 2
    then show ?thesis using load_main [OF 2 assms(4), of t] notification_slot.save_total [OF assms(1) run] by auto
  next
    case 3
    then show ?thesis using load_temp [OF 3 assms(4), of t] notification_slot.save_total [OF assms(1) run] ok by auto
  qed
qed

text \<open>A crash between the rotation of the main file and the promotion of the temporary one.\<close>

definition crashing_disk :: disk where
  "crashing_disk = \<lparr>files = [([], Dir), ([''data''], Dir), (notice_path, File ''0'')],
     faults = replicate 12 NoFault @ replicate 9 (Fails ''crash'')\<rparr>"

theorem notification_save_atomic_witness:
  "\<exists>out d. load_report notice_env 0 notice_path
       (restarted (snd (store_save notice_env notice_path (empty_file\<lparr>fl_revision := 1\<rparr>) crashing_disk))) = (Ok out, d)
     \<and> (lo_file out = empty_file \<or> lo_file out = empty_file\<lparr>fl_revision := 1\<rparr>)"
proof -
  have old: "lookup crashing_disk notice_path = Some (File ''0'')" by (simp add: crashing_disk_def lookup_def notice_path_def)
  have valid: "classify_bytes notice_env ''0'' = CandidateValid empty_file"
    "classify_bytes notice_env (en_file_text notice_env (empty_file\<lparr>fl_revision := 1\<rparr>)) = CandidateValid (empty_file\<lparr>fl_revision := 1\<rparr>)"
    by code_simp+
  obtain r d where run: "store_save notice_env notice_path (empty_file\<lparr>fl_revision := 1\<rparr>) crashing_disk = (r, d)"
    by (cases "store_save notice_env notice_path (empty_file\<lparr>fl_revision := 1\<rparr>) crashing_disk")
  have "notice_path \<noteq> []" by (simp add: notice_path_def)
  from notification_save_atomic [OF this old valid run, of 0] run show ?thesis by auto
qed

section \<open>Files of a newer program\<close>

lemma store_save_future:
  assumes "lookup d p = Some (File c)" "classify_bytes V c = CandidateFuture k" and run: "store_save V p f d = (r, d')"
  shows "(\<exists>e. r = Err e) \<and> (\<forall>q. lookup d' q = lookup d q)"
proof -
  obtain r1 d1 where s1: "existing_candidate V p d = (r1, d1)" by (cases "existing_candidate V p d")
  note e1 = existing_candidate_effect [OF s1]
  have "r1 = Ok (Some (CandidateFuture k)) \<or> (\<exists>e. r1 = Err e)" using e1(2,3) assms(1,2) by (cases r1) auto
  then have "\<exists>e. ensure_supported_save_target V p d = (Err e, d1)"
    using s1 by (auto simp: ensure_supported_save_target_def)
  then show ?thesis using run e1(1) by (auto simp: store_save_def save_validated_def validate_file_def split: if_splits)
qed

lemma load_report_future:
  assumes "lookup d p = Some (File c)" "classify_bytes V c = CandidateFuture k" and run: "load_report V t p d = (r, d')"
  shows "(case r of Ok out \<Rightarrow> lo_status out = LoadUnsupportedSchema k | Err _ \<Rightarrow> True | Panic \<Rightarrow> False)
    \<and> (\<forall>q. lookup d' q = lookup d q)"
  using assms
  by (auto simp: load_report_def fs_metadata_def fs_read_def syscall_def read_candidate_def load_without_write_def ok_or_def
      split: fault.splits)

lemma report_disk [simp]: "nw_disk (fold (\<lambda>_. report now) fs w) = nw_disk w"
  by (induction fs arbitrary: w) (auto simp: report_def Let_def split: option.splits)

text \<open>
  C39: A file written by a newer version of the program is safe with this one: whatever system calls
  fail, saving is refused, the service does not start, and neither of them changes a file.
\<close>

theorem newer_file_untouched:
  assumes "lookup (nw_disk w) p = Some (File c)" and "classify_bytes V c = CandidateFuture k"
  shows "(\<exists>e. fst (store_save V p f (nw_disk w)) = Err e)
    \<and> (\<exists>e. fst (load_service V t p configured now w) = Err e)
    \<and> (\<forall>q. lookup (snd (store_save V p f (nw_disk w))) q = lookup (nw_disk w) q
        \<and> lookup (nw_disk (snd (load_service V t p configured now w))) q = lookup (nw_disk w) q)"
proof -
  obtain r d where l: "load_report V t p (nw_disk w) = (r, d)" by (cases "load_report V t p (nw_disk w)")
  note f = load_report_future [OF assms l]
  have "(\<exists>e. fst (load_service V t p configured now w) = Err e)
      \<and> (\<forall>q. lookup (nw_disk (snd (load_service V t p configured now w))) q = lookup (nw_disk w) q)"
    using l f by (cases r) (auto simp: load_service_def Let_def)
  then show ?thesis using store_save_future [OF assms prod.collapse [symmetric]] by blast
qed

definition newer_text :: string where
  "newer_text = ''{\"schemaVersion\":2}''"

definition newer_env :: notification_env where
  "newer_env = notice_env\<lparr>en_json_parse := (\<lambda>s. Some (JObject [(''schemaVersion'', JInt 2)]))\<rparr>"

definition newer_world :: notification_world where
  "newer_world = notice_world\<lparr>nw_disk := \<lparr>files = [([], Dir), ([''data''], Dir), (notice_path, File newer_text)], faults = []\<rparr>\<rparr>"

theorem newer_file_untouched_witness:
  "lookup (snd (store_save newer_env notice_path empty_file (nw_disk newer_world))) notice_path = Some (File newer_text)
   \<and> (\<exists>e. fst (load_service newer_env 0 notice_path [] 7 newer_world) = Err e)"
proof -
  have main: "lookup (nw_disk newer_world) notice_path = Some (File newer_text)" by (simp add: newer_world_def lookup_def notice_path_def)
  have "classify_bytes newer_env newer_text = CandidateFuture 2" by code_simp
  from newer_file_untouched [OF main this] main show ?thesis by auto
qed

end
