(* ===== verification/Notification_Orders.thy ===== *)
theory Notification_Orders
  imports Notification_Samples
begin

text \<open>
  What the service remembers of the orders it notified about, and how long.
\<close>

section \<open>Who changes the memory of orders\<close>

abbreviation orders :: "notification_world \<Rightarrow> order_states" where
  "orders w \<equiv> st_order_states (nw_state w)"

lemma commit_file_orders:
  assumes "commit_file V p now nx w = (r, w')"
  shows "orders w' = (if is_ok r then st_order_states nx else orders w)"
proof (cases r)
  case (Ok x)
  then show ?thesis using commit_file_Ok [OF assms [unfolded Ok]] by simp
qed (use commit_file_not_Ok [OF assms] in simp_all)

lemma commit_then_orders:
  assumes "st_order_states nx = orders w" and "\<And>x w'. nw_state (snd (h x w')) = nw_state w'"
  shows "orders (snd (io_bind (commit_file V p now nx w) h)) = orders w"
proof (cases "commit_file V p now nx w")
  case (Pair r w')
  then show ?thesis using commit_file_orders [OF Pair] assms by (cases r) auto
qed

lemma commit_mutation_orders [simp]:
  "st_order_states nx = orders w \<Longrightarrow> orders (snd (commit_mutation V p now c nx change i r n scopes w)) = orders w"
  unfolding commit_mutation_def by (rule commit_then_orders) (simp_all add: emit_def)

lemma prepare_and_reserve_orders: "orders (snd (prepare_and_reserve V p n now fresh fm w)) = orders w"
proof (cases "prepare_publish_record V fresh (fst fm) n now")
  case (Ok pr)
  then show ?thesis
    by (cases "reserve_serialized_capacity_for_publish V pr fm")
      (auto simp: prepare_and_reserve_def commit_housekeeping_def Let_def emit_def case_prod_unfold intro!: commit_then_orders)
qed (simp_all add: prepare_and_reserve_def)

lemma prepare_locked_orders: "orders (snd (prepare_publish_locked V p n now w)) = orders w"
proof (cases "validate_publish_input V n")
  case (Ok u)
  then show ?thesis
    using prepare_and_reserve_orders
    by (cases "prepare_file_for_publish n now (st_file (nw_state w))")
      (auto simp: prepare_publish_locked_def draw_id_def Let_def)
qed (simp_all add: prepare_publish_locked_def)

lemma apply_commit_orders:
  assumes "io_bind (apply_prepared_publish pr s, w) (\<lambda>(next, m) w. commit_publish V p now next m w) = (r, w')"
  shows "orders w' = orders w \<or> orders w' = st_order_states s"
    and "r = Ok out \<Longrightarrow> po_committed out \<Longrightarrow> orders w' = st_order_states s"
proof -
  have "orders w' = (case r of Ok out \<Rightarrow> st_order_states s | _ \<Rightarrow> orders w)"
  proof (cases "apply_prepared_publish pr s")
    case (Ok x)
    then obtain nx m where x: "x = (nx, m)" "st_order_states nx = st_order_states s" "pm_record m \<noteq> None" "pm_change m \<noteq> None"
      by (auto simp: apply_prepared_publish_def)
    obtain r1 w1 where c: "commit_file V p now nx w = (r1, w1)" by (cases "commit_file V p now nx w")
    show ?thesis using assms Ok x c commit_file_orders [OF c] by (cases r1) (auto simp: commit_publish_def emit_def)
  qed (use assms in auto)
  then show "orders w' = orders w \<or> orders w' = st_order_states s"
    "r = Ok out \<Longrightarrow> po_committed out \<Longrightarrow> orders w' = st_order_states s"
    by (cases r; simp)+
qed

lemma publish_unseen_orders:
  assumes g: "\<And>s. st_order_states (adjust s) = g (st_order_states s)"
    and run: "publish_unseen V p n now adjust w = (r, w')"
  shows "orders w' = orders w \<or> orders w' = g (orders w)"
    and "r = Ok out \<Longrightarrow> po_committed out \<Longrightarrow> orders w' = g (orders w)"
proof -
  obtain r1 w1 where l: "prepare_publish_locked V p n now w = (r1, w1)" by (cases "prepare_publish_locked V p n now w")
  have same: "orders w1 = orders w" using prepare_locked_orders [of V p n now w] l by simp
  consider pr where "r1 = Ok (Some pr)" | "r1 = Ok None" | "\<not> is_ok r1" by (cases r1) auto
  then have "(orders w' = orders w \<or> orders w' = g (orders w))
      \<and> (r = Ok out \<longrightarrow> po_committed out \<longrightarrow> orders w' = g (orders w))"
  proof cases
    case 1
    then have "io_bind (apply_prepared_publish pr (adjust (nw_state w1)), w1) (\<lambda>(next, m) w. commit_publish V p now next m w) = (r, w')"
      using run l by (simp add: publish_unseen_def)
    from apply_commit_orders [OF this] show ?thesis using same g by auto
  qed (use run l same in \<open>auto simp: publish_unseen_def no_publish_outcome_def elim: is_ok.elims split: result.splits\<close>)
  then show "orders w' = orders w \<or> orders w' = g (orders w)"
    "r = Ok out \<Longrightarrow> po_committed out \<Longrightarrow> orders w' = g (orders w)" by auto
qed

lemma publish_unseen_keeps:
  assumes "\<And>s. st_order_states (adjust s) = st_order_states s"
  shows "orders (snd (publish_unseen V p n now adjust w)) = orders w"
  using publish_unseen_orders(1) [where g = "\<lambda>x. x", of adjust V p n now w] assms
  by (cases "publish_unseen V p n now adjust w") auto

lemma publish_orders: "orders (snd (publish V p n now w)) = orders w"
  by (cases "validate_publish_input V n") (auto simp: publish_def publish_unseen_keeps split: option.splits)

lemma client_orders: "orders (snd (publish_client_account_failure V p n now w)) = orders w"
proof -
  have tail: "orders (snd (io_bind (prepare_publish_locked V p n now w) (\<lambda>prepared w.
           io_bind (ok_or prepared state_conflict, w) (\<lambda>prepared w.
           io_bind (apply_prepared_publish prepared (nw_state w), w) (\<lambda>(next, m) w.
           io_bind (commit_publish V p now next m w) (\<lambda>out w. (h out w, w))))))) = orders w" for h
  proof (cases "prepare_publish_locked V p n now w")
    case (Pair r w')
    have same: "orders w' = orders w" using prepare_locked_orders [of V p n now w] Pair by simp
    have "orders (snd (io_bind (apply_prepared_publish pr (nw_state w'), w') (\<lambda>(next, m) w.
           io_bind (commit_publish V p now next m w) (\<lambda>out w. (h out w, w))))) = orders w'" for pr
    proof (cases "apply_prepared_publish pr (nw_state w')")
      case (Ok x)
      obtain r1 w1 where c: "commit_publish V p now (fst x) (snd x) w' = (r1, w1)" by fastforce
      then have "orders w1 = orders w'" using apply_commit_orders(1) [of pr "nw_state w'" w' V p now r1 w1] Ok by (simp add: case_prod_unfold)
      then show ?thesis using Ok c by (cases r1) (auto simp: case_prod_unfold)
    qed simp_all
    then show ?thesis using Pair same by (cases r; cases "\<exists>pr. r = Ok (Some pr)") (auto simp: ok_or_def split: option.splits)
  qed
  show ?thesis
  proof (cases "validate_publish_input V n")
    case (Ok u)
    show ?thesis
    proof (cases "ni_scope n")
      case (ScopeAccount account)
      then show ?thesis using Ok tail
        by (cases "view_account account") (auto simp: publish_client_account_failure_def Let_def ok_or_def split: option.splits)
    qed (use Ok in \<open>auto simp: publish_client_account_failure_def\<close>)
  qed (auto simp: publish_client_account_failure_def)
qed

lemma reading_orders:
  "orders (snd (mark_read V p c i now w)) = orders w"
  "orders (snd (mark_visible_read V p c now w)) = orders w"
  "orders (snd (delete_visible V p c i now w)) = orders w"
  "orders (snd (clear_account V p a b now w)) = orders w"
  by (auto simp: mark_read_def mark_visible_read_def delete_visible_def clear_account_def with_cleaned_file_def Let_def
      split: option.splits) (cases "view_account a"; simp add: Let_def with_cleaned_file_def)

lemma incident_orders: "orders (snd (observe_incident V p key account epoch pre state policy now w)) = orders w"
proof -
  have pub: "orders (snd (io_bind (policy_context_new account epoch t, w) (\<lambda>pc w. io_bind (policy pc i b, w) (\<lambda>n w.
      publish_unseen V p n now (\<lambda>s. s\<lparr>st_active_incidents := g s\<rparr>) w)))) = orders w" for w t i b g
  proof (cases "policy_context_new account epoch t")
    case (Ok pc)
    then show ?thesis by (cases "policy pc i b") (simp_all add: publish_unseen_keeps)
  qed simp_all
  then show ?thesis
    by (auto simp: observe_incident_def draw_id_def split: availability_state.splits option.splits)
qed

lemma observation_orders:
  "orders (snd (observe_connection V p co now w)) = orders w"
  "orders (snd (observe_environment V p eo now w)) = orders w"
  by (cases "view_account (co_account_id co)"; simp add: observe_connection_def incident_orders)
    (cases "view_account (eo_account_id eo)"; cases "validate_environment_key (eo_environment_key eo)";
      simp add: observe_environment_def incident_orders)

lemma session_orders: "orders (snd (observe_session_expired V p a e t now w)) = orders w"
proof (cases "view_account a")
  case (Ok u)
  then show ?thesis
  proof (cases "policy_context_new a e (''session:'' @ t @ '':expired'')")
    case (Ok pc)
    then show ?thesis using \<open>view_account a = Ok u\<close>
      by (cases "session_expired (en_generated V) pc") (auto simp: observe_session_expired_def publish_orders)
  qed (auto simp: observe_session_expired_def)
qed (simp_all add: observe_session_expired_def)

lemma prune_orders: "fst k \<in> set accounts \<Longrightarrow> orders (snd (prune V p accounts now w)) k = orders w k"
proof (cases "enforce_serialized_file_cap V True (prune_file (Some accounts) now (st_file (nw_state w)))")
  case (Ok x)
  assume k: "fst k \<in> set accounts"
  obtain f m where x: "x = (f, m)" by (cases x)
  let ?nx = "(nw_state w)\<lparr>st_file := f, st_last_pruned_at_ms := now, st_seen_source_events := rebuild_seen_source_events f,
    st_active_incidents := rebuild_active_incidents f,
    st_order_states := (\<lambda>k. if fst k \<in> set accounts then st_order_states (nw_state w) k else None)\<rparr>"
  obtain r w' where c: "commit_file V p now ?nx w = (r, w')" by (cases "commit_file V p now ?nx w")
  show ?thesis using Ok x k c commit_file_orders [OF c] by (cases r) (auto simp: prune_def Let_def emit_def)
qed (simp_all add: prune_def)

lemma delete_account_orders: "fst k \<noteq> account \<Longrightarrow> orders (snd (delete_account_partition V p account now w)) k = orders w k"
proof (cases "view_account account")
  case (Ok u)
  assume k: "fst k \<noteq> account"
  let ?nx = "(with_cleaned_file (without_partition (ScopeAccount account) (st_file (nw_state w))) (nw_state w))
           \<lparr>st_active_incidents := (\<lambda>k. if incident_owner k \<noteq> account then st_active_incidents (nw_state w) k else None),
            st_order_states := (\<lambda>k. if fst k \<noteq> account then st_order_states (nw_state w) k else None)\<rparr>"
  obtain r w' where c: "commit_file V p now ?nx w = (r, w')" by (cases "commit_file V p now ?nx w")
  show ?thesis using Ok k c commit_file_orders [OF c] by (cases r) (auto simp: delete_account_partition_def Let_def emit_def)
qed (simp_all add: delete_account_partition_def)

section \<open>Orders notified about\<close>

text \<open>The service knows that the order with these aliases ended and that the user was told.\<close>

definition told :: "string \<Rightarrow> string list \<Rightarrow> order_states \<Rightarrow> bool" where
  "told account ids states \<longleftrightarrow>
     list_all (\<lambda>i. case states (account, i) of None \<Rightarrow> False
       | Some s \<Rightarrow> is_terminal (os_status s) \<and> os_terminal_notified s) ids"

lemma previous_of_told:
  assumes "told account ids states" "set ks \<subseteq> set ids" "ks \<noteq> []"
  shows "\<exists>s. previous_order_state states (map (\<lambda>i. (account, i)) ks) = Some s \<and> is_terminal (os_status s) \<and> os_terminal_notified s"
proof -
  obtain i js where is_eq: "ks = i # js" using assms(3) by (cases ks) auto
  obtain s where "states (account, i) = Some s" "is_terminal (os_status s)" "os_terminal_notified s"
    using assms(1,2) is_eq by (auto simp: told_def list_all_iff split: option.splits)
  then show ?thesis by (simp add: previous_order_state_def is_eq List.map_filter_simps)
qed

lemma told_set:
  assumes "told account ids (st_order_states s)" and "set ks \<subseteq> set ids \<or> set ks \<inter> set ids = {}"
    and "set ks \<subseteq> set ids \<Longrightarrow> is_terminal (os_status x) \<and> os_terminal_notified x"
  shows "told account ids (st_order_states (set_order_states (map (\<lambda>i. (account, i)) ks) x s))"
  using assms by (auto simp: told_def list_all_iff set_order_states_def)

lemma told_other_account:
  "account \<noteq> b \<Longrightarrow> told account ids (st_order_states (set_order_states (map (\<lambda>i. (b, i)) ks) x s)) = told account ids (st_order_states s)"
  by (auto simp: told_def list_all_iff set_order_states_def)

lemma entity_ids_nonempty: "order_observation_entity_ids V ob = Ok ids \<Longrightarrow> ids \<noteq> []"
proof -
  assume run: "order_observation_entity_ids V ob = Ok ids"
  have "sort_by lt xs = [] \<longleftrightarrow> xs = []" for lt :: "string \<Rightarrow> string \<Rightarrow> bool" and xs
    using mset_sort_by [of lt xs] by (metis mset_zero_iff)
  then show ?thesis using run by (auto simp: order_observation_entity_ids_def Let_def remdups_adj_Nil_iff split: if_splits)
qed

lemma observe_order_told:
  assumes told: "told (oo_account_id ob) ids (orders w)" and view: "view_account (oo_account_id ob) = Ok c"
    and ids: "order_observation_entity_ids V ob = Ok ks" and sub: "set ks \<subseteq> set ids"
  shows "\<exists>w'. observe_order V p ob now w = (Ok (no_publish_outcome (nw_state w)), w')
    \<and> st_file (nw_state w') = st_file (nw_state w) \<and> nw_events w' = nw_events w \<and> nw_disk w' = nw_disk w
    \<and> told (oo_account_id ob) ids (orders w')"
proof -
  let ?keys = "map (\<lambda>i. (oo_account_id ob, i)) ks"
  obtain s where prev: "previous_order_state (orders w) ?keys = Some s" and s: "is_terminal (os_status s)" "os_terminal_notified s"
    using previous_of_told [OF told sub entity_ids_nonempty [OF ids]] by blast
  show ?thesis
  proof (cases "\<not> is_terminal (oo_status ob) \<or> os_status s \<noteq> oo_status ob")
    case True
    then show ?thesis using view ids prev s told by (simp add: observe_order_def Let_def)
  next
    case False
    then have "told (oo_account_id ob) ids (st_order_states (set_order_states ?keys \<lparr>os_status = oo_status ob, os_terminal_notified = True\<rparr> (nw_state w)))"
      using told_set [OF told] sub by simp
    then show ?thesis using False view ids prev s
      by (simp add: observe_order_def Let_def should_publish_order_def no_publish_outcome_def)
        (simp add: set_order_states_def)
  qed
qed

text \<open>
  The calls after which the memory of the order lasts: the account is kept, and an observation of the account
  names only aliases of the order or none of them.
\<close>

fun keeps_order :: "notification_env \<Rightarrow> string \<Rightarrow> string list \<Rightarrow> service_call \<Rightarrow> bool" where
  "keeps_order V account ids (CallObserveOrder ob) =
     (oo_account_id ob = account \<longrightarrow> (case order_observation_entity_ids V ob of
        Ok ks \<Rightarrow> set ks \<subseteq> set ids \<or> set ks \<inter> set ids = {} | _ \<Rightarrow> True))"
| "keeps_order V account ids (CallPrune accounts) = (account \<in> set accounts)"
| "keeps_order V account ids (CallDeleteAccount a) = (a \<noteq> account)"
| "keeps_order V account ids _ = True"

lemma observe_order_orders:
  assumes "order_observation_entity_ids V ob = Ok ks"
  shows "orders (snd (observe_order V p ob now w)) = orders w
    \<or> (\<exists>x. orders (snd (observe_order V p ob now w)) = st_order_states (set_order_states (map (\<lambda>i. (oo_account_id ob, i)) ks) x (nw_state w)))"
proof -
  let ?keys = "map (\<lambda>i. (oo_account_id ob, i)) ks"
  have pub: "orders (snd (io_bind (policy_context_new a e t, w) (\<lambda>pc w. io_bind (order_input V pc ob, w) (\<lambda>n w.
        publish_unseen V p n now (set_order_states ?keys x) w)))) = orders w
      \<or> orders (snd (io_bind (policy_context_new a e t, w) (\<lambda>pc w. io_bind (order_input V pc ob, w) (\<lambda>n w.
        publish_unseen V p n now (set_order_states ?keys x) w)))) = st_order_states (set_order_states ?keys x (nw_state w))" for a e t x
  proof (cases "policy_context_new a e t")
    case (Ok pc)
    show ?thesis
    proof (cases "order_input V pc ob")
      case (Ok n)
      obtain r w' where run: "publish_unseen V p n now (set_order_states ?keys x) w = (r, w')"
        by (cases "publish_unseen V p n now (set_order_states ?keys x) w")
      show ?thesis
        using publish_unseen_orders(1) [OF _ run, of "\<lambda>st k. if k \<in> set ?keys then Some x else st k"] run Ok
          \<open>policy_context_new a e t = Ok pc\<close> by (simp add: set_order_states_def)
    qed (simp_all add: Ok)
  qed simp_all
  show ?thesis
  proof (cases "view_account (oo_account_id ob)")
    case (Ok c)
    then show ?thesis
      using assms pub [of "oo_account_id ob" "oo_session_epoch ob" "''order:terminal:'' @ join '':'' ks"
          "\<lparr>os_status = oo_status ob, os_terminal_notified = True\<rparr>"]
      by (auto simp: observe_order_def Let_def)
  qed (simp_all add: observe_order_def)
qed

lemma step_told:
  assumes told: "told account ids (orders w)" and keeps: "keeps_order V account ids call"
  shows "told account ids (orders (service_step V p now call w))"
proof (cases call)
  case (CallObserveOrder ob)
  show ?thesis
  proof (cases "order_observation_entity_ids V ob")
    case (Ok ks)
    note oo = observe_order_orders [OF Ok, of p now w]
    show ?thesis
    proof (cases "oo_account_id ob = account")
      case False
      then show ?thesis using oo told told_other_account CallObserveOrder by (auto simp del: map_map)
    next
      case True
      then have "set ks \<subseteq> set ids \<or> set ks \<inter> set ids = {}" using keeps CallObserveOrder Ok by simp
      then show ?thesis
      proof
        assume sub: "set ks \<subseteq> set ids"
        show ?thesis
        proof (cases "view_account (oo_account_id ob)")
          case c: (Ok c)
          then show ?thesis using observe_order_told [OF _ c Ok sub, of w p now] told True CallObserveOrder by auto
        qed (use told CallObserveOrder in \<open>simp_all add: observe_order_def\<close>)
      next
        assume dj: "set ks \<inter> set ids = {}"
        then have "\<not> set ks \<subseteq> set ids" using entity_ids_nonempty [OF Ok] by (cases ks) auto
        then show ?thesis using oo told told_set [OF told, of ks] dj True CallObserveOrder by auto
      qed
    qed
  qed (use told CallObserveOrder in \<open>cases "view_account (oo_account_id ob)"; simp add: observe_order_def\<close>)+
next
  case (CallPrune accounts)
  then have "orders (snd (prune V p accounts now w)) (account, i) = orders w (account, i)" for i using keeps prune_orders by simp
  then show ?thesis using told CallPrune by (simp add: told_def)
next
  case (CallDeleteAccount a)
  then have "orders (snd (delete_account_partition V p a now w)) (account, i) = orders w (account, i)" for i
    using keeps delete_account_orders [of "(account, i)"] by simp
  then show ?thesis using told CallDeleteAccount by (simp add: told_def)
qed (use told in \<open>simp_all add: publish_orders client_orders reading_orders observation_orders session_orders\<close>)

lemma run_told:
  "told account ids (orders w) \<Longrightarrow> list_all (keeps_order V account ids \<circ> snd) calls
    \<Longrightarrow> told account ids (orders (service_run V p calls w))"
proof (induction calls arbitrary: w)
  case (Cons c calls)
  then show ?case by (cases c) (simp add: step_told)
qed simp

lemma committed_told:
  assumes run: "observe_order V p ob now w = (Ok out, w')" "po_committed out" and ids: "order_observation_entity_ids V ob = Ok ids"
  shows "told (oo_account_id ob) ids (orders w')" "\<exists>c. view_account (oo_account_id ob) = Ok c"
proof -
  let ?keys = "map (\<lambda>i. (oo_account_id ob, i)) ids" and ?x = "\<lparr>os_status = oo_status ob, os_terminal_notified = True\<rparr>"
  have terminal: "is_terminal (oo_status ob)"
    and pub: "\<exists>n. publish_unseen V p n now (set_order_states ?keys ?x) w = (Ok out, w')"
    and "\<exists>c. view_account (oo_account_id ob) = Ok c"
    using assms
    by (auto simp: observe_order_def Let_def no_publish_outcome_def should_publish_order_def io_bind_Ok_iff split: if_splits)
  then show "\<exists>c. view_account (oo_account_id ob) = Ok c" by blast
  from pub obtain n where n: "publish_unseen V p n now (set_order_states ?keys ?x) w = (Ok out, w')" by blast
  have "orders w' = (\<lambda>k. if k \<in> set ?keys then Some ?x else orders w k)"
    using publish_unseen_orders(2) [OF _ n, of "\<lambda>st k. if k \<in> set ?keys then Some ?x else st k"] run(2)
    by (simp add: set_order_states_def)
  then show "told (oo_account_id ob) ids (orders w')" using terminal by (auto simp: told_def list_all_iff)
qed

text \<open>
  C35: The user is told about the end of an order once.  After the service committed the notification of an
  order's end, and whatever it is called with next (as long as the account is kept and observations do not mix
  this order's aliases with other ones), observing the order again, by any of its aliases, in any state and
  from any origin, publishes nothing: no event, no change of the file, no save.
\<close>

theorem order_notified_once:
  assumes "observe_order V p ob now w = (Ok out, w')" and "po_committed out"
    and "order_observation_entity_ids V ob = Ok ids"
    and "list_all (keeps_order V (oo_account_id ob) ids \<circ> snd) calls"
    and "oo_account_id again = oo_account_id ob" and "order_observation_entity_ids V again = Ok ks" and "set ks \<subseteq> set ids"
  shows "\<exists>w''. observe_order V p again later (service_run V p calls w')
      = (Ok (no_publish_outcome (nw_state (service_run V p calls w'))), w'')
    \<and> st_file (nw_state w'') = st_file (nw_state (service_run V p calls w'))
    \<and> nw_events w'' = nw_events (service_run V p calls w') \<and> nw_disk w'' = nw_disk (service_run V p calls w')"
proof -
  obtain c where c: "view_account (oo_account_id again) = Ok c" using committed_told(2) [OF assms(1-3)] assms(5) by auto
  have "told (oo_account_id again) ids (orders (service_run V p calls w'))"
    using run_told [OF committed_told(1) [OF assms(1-3)] assms(4)] assms(5) by simp
  from observe_order_told [OF this c assms(6,7)] show ?thesis by blast
qed

theorem order_notified_once_witness:
  "\<exists>w. observe_order notice_env notice_path sample_fill 9 (snd (observe_order notice_env notice_path sample_fill 5 notice_world))
     = (Ok (no_publish_outcome (nw_state (snd (observe_order notice_env notice_path sample_fill 5 notice_world)))), w)
     \<and> nw_events w = nw_events (snd (observe_order notice_env notice_path sample_fill 5 notice_world))"
proof -
  have "case fst (observe_order notice_env notice_path sample_fill 5 notice_world) of Ok out \<Rightarrow> po_committed out | _ \<Rightarrow> False" by code_simp
  then obtain out w where run: "observe_order notice_env notice_path sample_fill 5 notice_world = (Ok out, w)" "po_committed out"
    by (cases "observe_order notice_env notice_path sample_fill 5 notice_world") (auto split: result.splits)
  have "is_ok (order_observation_entity_ids notice_env sample_fill)" by code_simp
  then obtain ids where ids: "order_observation_entity_ids notice_env sample_fill = Ok ids" by (auto simp: is_ok_iff)
  from order_notified_once [OF run ids, of "[]", OF _ refl ids] run show ?thesis by auto
qed

text \<open>
  The condition on aliases is needed.  The state is looked up under the first terminal alias in the order of
  the keys: an order first seen in a snapshot by its link alone and then notified by its exchange
  identifier is notified again when an observation carries both.
\<close>

lemma mixed_aliases_notified_twice:
  assumes "states (a, i) = Some \<lparr>os_status = oo_status ob, os_terminal_notified = False\<rparr>"
    and "states (a, j) = Some \<lparr>os_status = oo_status ob, os_terminal_notified = True\<rparr>"
    and "is_terminal (oo_status ob)" and "oo_origin ob = OriginCommand"
  shows "should_publish_order (previous_order_state states [(a, i), (a, j)]) ob"
  using assms by (simp add: should_publish_order_def previous_order_state_def List.map_filter_simps)

end
