(* ===== verification/Notification_Views.thy ===== *)
theory Notification_Views
  imports Notification_Samples
begin

text \<open>
  What a user does in one view of the notifications leaves the notifications of other accounts alone.
\<close>

definition hidden_records :: "view_context \<Rightarrow> notification_file \<Rightarrow> notification_record list" where
  "hidden_records c f = concat (map np_items (filter (\<lambda>q. \<not> visible c (np_scope q)) (fl_partitions f)))"

lemma hidden_records_cong: "fl_partitions f = fl_partitions g \<Longrightarrow> hidden_records c f = hidden_records c g"
  by (simp add: hidden_records_def)

lemma commit_mutation_hidden:
  assumes "hidden_records c (st_file nx) = hidden_records c (st_file (nw_state w))"
  shows "hidden_records c (st_file (nw_state (snd (commit_mutation V p now v nx change i r n scopes w)))) =
    hidden_records c (st_file (nw_state w))"
proof (cases "commit_file V p now nx w")
  case (Pair r' w')
  show ?thesis
  proof (cases r')
    case (Ok previous)
    note ok = commit_file_Ok [OF Pair [unfolded Ok]]
    then show ?thesis using Pair Ok assms by (simp add: commit_mutation_def emit_def hidden_records_def)
  qed (use commit_file_not_Ok [OF Pair] Pair in \<open>simp_all add: commit_mutation_def\<close>)
qed

lemma filter_map_first:
  assumes "List.find P xs = Some q" "H q = H (g q)" "\<not> H q"
  shows "filter H (map_first P g xs) = filter H xs"
  using assms by (induction xs) (auto split: if_splits)

lemma update_record_hidden:
  assumes "find_record_mut f i = Some (scope, r)" "visible c scope"
  shows "hidden_records c (update_record i h f) = hidden_records c f"
proof -
  obtain q where "List.find (holds_record i) (fl_partitions f) = Some q" "np_scope q = scope"
    using assms(1) by (auto simp: find_record_mut_def bind_eq_Some_conv)
  then show ?thesis using assms(2) by (simp add: update_record_def hidden_records_def filter_map_first)
qed

lemma filter_list_update:
  assumes "a < length xs" "\<not> H (xs ! a)" "\<not> H y"
  shows "filter H (xs[a := y]) = filter H xs"
  using assms by (induction xs arbitrary: a) (auto split: nat.splits)

lemma concat_items_nonempty: "concat (map np_items (filter (\<lambda>q. np_items q \<noteq> [] \<and> H q) qs)) = concat (map np_items (filter H qs))"
  by (induction qs) auto

lemma with_cleaned_hidden [simp]: "hidden_records c (st_file (with_cleaned_file f s)) = hidden_records c f"
  by (simp add: with_cleaned_file_def Let_def cleanup_source_event_index_def hidden_records_def)

lemma delete_hidden:
  assumes "find_record_index f i = Some (a, b, r)" "visible c (np_scope (fl_partitions f ! a))"
  shows "hidden_records c (remove_empty_partitions (remove_place a b f)) = hidden_records c f"
proof -
  have "(a, b, r) \<in> set (record_places None f)" using assms(1) find_SomeD by (fastforce simp: find_record_index_def)
  then have "a < length (fl_partitions f)" by (simp add: in_record_places)
  then show ?thesis using assms(2)
    by (simp add: hidden_records_def remove_empty_partitions_def remove_place_def Let_def concat_items_nonempty filter_list_update)
qed

text \<open>The calls a user makes in a view.\<close>

fun acts_in :: "view_context \<Rightarrow> service_call \<Rightarrow> bool" where
  "acts_in c (CallMarkRead v i) = (v = c)"
| "acts_in c (CallMarkVisibleRead v) = (v = c)"
| "acts_in c (CallDeleteVisible v i) = (v = c)"
| "acts_in c (CallClearAccount a b) = (c = Some a)"
| "acts_in c _ = False"

lemma step_hidden:
  assumes "acts_in c call"
  shows "hidden_records c (st_file (nw_state (service_step V p now call w))) = hidden_records c (st_file (nw_state w))"
proof (cases call)
  case (CallMarkRead v i)
  then show ?thesis using assms
    by (auto simp: mark_read_def Let_def update_record_hidden intro!: commit_mutation_hidden split: option.splits)
next
  case (CallMarkVisibleRead v)
  have "filter (\<lambda>q. \<not> visible c (np_scope q)) (map (mark_partition c now) qs) = filter (\<lambda>q. \<not> visible c (np_scope q)) qs" for qs
    by (induction qs) (auto simp: mark_partition_def)
  then show ?thesis using CallMarkVisibleRead assms
    by (auto simp: mark_visible_read_def Let_def hidden_records_def [of c "_\<lparr>fl_partitions := _\<rparr>"] hidden_records_def [of c "st_file _"]
        intro!: commit_mutation_hidden [unfolded hidden_records_def])
next
  case (CallDeleteVisible v i)
  then show ?thesis using assms
    by (auto simp: delete_visible_def Let_def delete_hidden intro!: commit_mutation_hidden split: option.splits)
next
  case (CallClearAccount a b)
  have "hidden_records (Some a) (without_partition (ScopeAccount a) f) = hidden_records (Some a) f" for f
    by (simp add: hidden_records_def without_partition_def visible_def split: notification_scope.splits)
      (metis (mono_tags, lifting) filter_cong notification_scope.exhaust notification_scope.simps)
  then show ?thesis using CallClearAccount assms
    by (cases "view_account a") (auto simp: clear_account_def Let_def intro!: commit_mutation_hidden)
qed (use assms in simp_all)

lemma run_hidden:
  "list_all (acts_in c \<circ> snd) calls
    \<Longrightarrow> hidden_records c (st_file (nw_state (service_run V p calls w))) = hidden_records c (st_file (nw_state w))"
proof (induction calls arbitrary: w)
  case (Cons x calls)
  then show ?case by (cases x) (simp add: step_hidden)
qed simp

text \<open>An identifier names one record, so that what a hidden one names is found in its own scope.\<close>

lemma hidden_scope:
  assumes valid: "file_valid V f" and r: "r \<in> set (hidden_records c f)"
    and other: "(nr_id r, s, r') \<in> set (placed_records f)"
  shows "\<not> visible c s"
proof -
  obtain q where q: "q \<in> set (fl_partitions f)" "\<not> visible c (np_scope q)" "r \<in> set (np_items q)"
    using r by (auto simp: hidden_records_def)
  then have "(nr_id r, np_scope q, r) \<in> set (placed_records f)" by (auto simp: in_placed_records)
  moreover have "distinct (map fst (placed_records f))" using valid by (simp add: file_valid_def)
  ultimately show ?thesis using other q(2) eq_key_imp_eq_value by fastforce
qed

lemma hidden_refused:
  assumes valid: "file_valid V (st_file (nw_state w))" and r: "r \<in> set (hidden_records c (st_file (nw_state w)))"
  shows "mark_read V p c (nr_id r) now w = (Err scope_mismatch, w)"
    and "delete_visible V p c (nr_id r) now w = (Err scope_mismatch, w)"
proof -
  let ?f = "st_file (nw_state w)"
  obtain q where q: "q \<in> set (fl_partitions ?f)" "r \<in> set (np_items q)" using r by (auto simp: hidden_records_def)
  then have "List.find (holds_record (nr_id r)) (fl_partitions ?f) \<noteq> None"
    by (auto simp: find_None_iff holds_record_def list_ex_iff)
  then obtain q' where q': "List.find (holds_record (nr_id r)) (fl_partitions ?f) = Some q'" by blast
  then have "holds_record (nr_id r) q'" "q' \<in> set (fl_partitions ?f)" using find_SomeD by fastforce+
  then obtain x where x: "List.find (\<lambda>x. nr_id x = nr_id r) (np_items q') = Some x"
    by (cases "List.find (\<lambda>x. nr_id x = nr_id r) (np_items q')") (auto simp: find_None_iff holds_record_def list_ex_iff)
  then have "nr_id x = nr_id r" "x \<in> set (np_items q')" using find_SomeD by fastforce+
  then have "(nr_id r, np_scope q', x) \<in> set (placed_records ?f)" using \<open>q' \<in> set (fl_partitions ?f)\<close> by (auto simp: in_placed_records)
  then have "\<not> visible c (np_scope q')" by (rule hidden_scope [OF valid r])
  then show "mark_read V p c (nr_id r) now w = (Err scope_mismatch, w)"
    using q' x by (simp add: mark_read_def find_record_mut_def Let_def)
  obtain i where "i < length (fl_partitions ?f)" "fl_partitions ?f ! i = q" using q(1) by (auto simp: in_set_conv_nth)
  moreover obtain j where "j < length (np_items q)" "np_items q ! j = r" using q(2) by (auto simp: in_set_conv_nth)
  ultimately have "(i, j, r) \<in> set (record_places None ?f)" by (auto simp: in_record_places in_scope_def)
  then have "find_record_index ?f (nr_id r) \<noteq> None" by (auto simp: find_record_index_def find_None_iff)
  then obtain a b y where y: "find_record_index ?f (nr_id r) = Some (a, b, y)" by auto
  then have "(a, b, y) \<in> set (record_places None ?f)" "nr_id y = nr_id r" using find_SomeD by (fastforce simp: find_record_index_def)+
  then have "(nr_id r, np_scope (fl_partitions ?f ! a), y) \<in> set (placed_records ?f)"
    by (force simp: in_record_places in_placed_records)
  then have "\<not> visible c (np_scope (fl_partitions ?f ! a))" by (rule hidden_scope [OF valid r])
  then show "delete_visible V p c (nr_id r) now w = (Err scope_mismatch, w)" using y by (simp add: delete_visible_def Let_def)
qed

text \<open>
  C40: Accounts are isolated in the notification centre: marking, deleting and clearing in the view of one account,
  any number of times and whichever saves fail, leaves every notification of another account exactly as it was,
  and naming such a notification is refused with a scope error that changes nothing.
\<close>

theorem foreign_notifications_untouched:
  assumes "validate_file V (st_file (nw_state w)) = Ok ()" and "list_all (acts_in c \<circ> snd) calls"
    and "r \<in> set (hidden_records c (st_file (nw_state w)))"
  shows "hidden_records c (st_file (nw_state (service_run V p calls w))) = hidden_records c (st_file (nw_state w))
    \<and> mark_read V p c (nr_id r) now w = (Err scope_mismatch, w)
    \<and> delete_visible V p c (nr_id r) now w = (Err scope_mismatch, w)"
proof -
  have "file_valid V (st_file (nw_state w))" using assms(1) by (simp add: validate_file_def split: if_splits)
  then show ?thesis using run_hidden [OF assms(2)] hidden_refused assms(3) by blast
qed

theorem foreign_notifications_untouched_witness:
  "hidden_records (Some ''other'') (st_file (nw_state (service_run notice_env notice_path
       [(5, CallMarkVisibleRead (Some ''other'')), (6, CallClearAccount ''other'' ''other'')]
       (notice_world\<lparr>nw_state := (nw_state notice_world)\<lparr>st_file := two_notices\<rparr>\<rparr>)))) =
     [sample_notice ''id-b'' 9, sample_notice ''id-a'' 4]"
proof -
  have valid: "validate_file notice_env two_notices = Ok ()" by code_simp
  have hidden: "hidden_records (Some ''other'') two_notices = [sample_notice ''id-b'' 9, sample_notice ''id-a'' 4]"
    by (simp add: hidden_records_def two_notices_def visible_def)
  have "list_all (acts_in (Some ''other'') \<circ> snd)
      [(5 :: u64, CallMarkVisibleRead (Some ''other'')), (6, CallClearAccount ''other'' ''other'')]" by simp
  from foreign_notifications_untouched [of notice_env "notice_world\<lparr>nw_state := (nw_state notice_world)\<lparr>st_file := two_notices\<rparr>\<rparr>",
      OF _ this, of "sample_notice ''id-a'' 4"] valid hidden
  show ?thesis by simp
qed

end
