(* ===== verification/Strategy_Contract.thy ===== *)
theory Strategy_Contract
  imports Trading_Model Clock
begin

text \<open>
  The contracts of plugin workflows and automatic strategies: what a plugin may ask for
  (\<^verbatim>\<open>plugin/workflow/contract.rs\<close>, \<^verbatim>\<open>plugin/strategy/contract.rs\<close>), the proposals a guest may
  return (\<^verbatim>\<open>plugin/strategy/management.rs\<close>), the account data it is shown
  (\<^verbatim>\<open>plugin/workflow/host.rs\<close>) and the data types of a strategy run with their checks
  (\<^verbatim>\<open>plugin/strategy/types.rs\<close>).

  The crates the checks call are fields of a record \<open>strategy_env\<close>: \<^verbatim>\<open>rust_decimal\<close>,
  \<^verbatim>\<open>serde_json\<close>, \<^verbatim>\<open>uuid\<close> and \<^verbatim>\<open>base64\<close>.
\<close>

record strategy_env =
  se_dec :: decimal_api
  se_add :: "rat \<Rightarrow> rat \<Rightarrow> rat option"
  se_json :: "string \<Rightarrow> json option"
  se_json_len :: "json \<Rightarrow> nat"
  se_uuid_ok :: "string \<Rightarrow> bool"
  se_uuid :: "nat \<Rightarrow> string"
  se_b64_decode :: "string \<Rightarrow> string option"
  se_b64_encode :: "string \<Rightarrow> string"

text \<open>\<^verbatim>\<open>map_err(|_| ..)\<close>.\<close>

abbreviation err_as :: "'d \<Rightarrow> ('a, 'e) result \<Rightarrow> ('a, 'd) result" where
  "err_as e r \<equiv> map_err (\<lambda>_. e) r"

section \<open>Counters and identifiers\<close>

definition u64_to_string :: "u64 \<Rightarrow> string" where
  "u64_to_string v = nat_to_string (unat v)"

definition counter :: "string \<Rightarrow> (u64, app_error) result" where
  "counter value =
     (case parse_u64 value of
        None \<Rightarrow> Err (workflow_error ''plugin_workflow_invalid_request'')
      | Some v \<Rightarrow> if u64_to_string v = value then Ok v
                  else Err (workflow_error ''plugin_workflow_invalid_request''))"

definition checked_add_u64 :: "u64 \<Rightarrow> u64 \<Rightarrow> u64 option" where
  "checked_add_u64 a b = (if unat a + unat b < 2 ^ 64 then Some (a + b) else None)"

definition checked_sub_u64 :: "u64 \<Rightarrow> u64 \<Rightarrow> u64 option" where
  "checked_sub_u64 a b = (if b \<le> a then Some (a - b) else None)"

definition workflow_symbol :: "string \<Rightarrow> (unit, app_error) result" where
  "workflow_symbol value =
     (if \<not> (1 \<le> length value \<and> length value \<le> 32)
         \<or> \<not> list_all (\<lambda>b. is_ascii_upper b \<or> is_ascii_digit b) value
      then Err (workflow_error ''plugin_workflow_invalid_request'') else Ok ())"

definition bounded_id :: "string \<Rightarrow> bool" where
  "bounded_id value \<longleftrightarrow> trim value \<noteq> [] \<and> length value \<le> 128 \<and> \<not> has_control value"

definition validate_input :: "strategy_env \<Rightarrow> string \<Rightarrow> (unit, string) result" where
  "validate_input E value =
     (if 4096 < length value \<or> \<not> (case se_json E value of None \<Rightarrow> False | Some v \<Rightarrow> json_is_object v)
      then Err ''input must be a bounded JSON object'' else Ok ())"

text \<open>\<^verbatim>\<open>PluginId::parse\<close>: a reverse domain name.\<close>

definition domain_segment_error :: "string \<Rightarrow> string option" where
  "domain_segment_error s =
     (if s = [] \<or> 63 < length s then Some ''identifier has an empty or oversized segment''
      else if \<not> list_all (\<lambda>b. is_ascii_lower b \<or> is_ascii_digit b \<or> b = CHR ''-'') s
              \<or> starts_with ''-'' s \<or> ends_with ''-'' s
      then Some ''identifier segments must be lowercase ASCII domain labels'' else None)"

definition validate_reverse_domain :: "string \<Rightarrow> (unit, string) result" where
  "validate_reverse_domain value =
     (if 128 < length value then Err ''identifier exceeds 128 bytes''
      else let segments = split_on (\<lambda>c. c = CHR ''.'') value in
        if length segments < 2 then Err ''identifier must contain at least two segments''
        else case first_some domain_segment_error segments of Some e \<Rightarrow> Err e | None \<Rightarrow> Ok ())"

section \<open>Capabilities\<close>

definition workflow_capabilities :: "string list" where
  "workflow_capabilities =
     [''account.read'', ''balances.read'', ''positions.read'', ''orders.read'', ''market.read'',
      ''trade.place'', ''trade.cancel'']"

fun known_once :: "(string \<Rightarrow> bool) \<Rightarrow> string list \<Rightarrow> string list \<Rightarrow> bool" where
  "known_once known seen [] = True"
| "known_once known seen (c # cs) = (known c \<and> c \<notin> set seen \<and> known_once known (c # seen) cs)"

definition workflow_validate_capabilities :: "string list \<Rightarrow> (unit, string) result" where
  "workflow_validate_capabilities values =
     (if \<not> known_once (\<lambda>c. c \<in> set workflow_capabilities) [] values
      then Err ''invalid or duplicate capability''
      else if values \<noteq> [] \<and> ''account.read'' \<notin> set values then Err ''account.read required''
      else Ok ())"

definition strategy_validate_capabilities :: "string list \<Rightarrow> (unit, string) result" where
  "strategy_validate_capabilities values =
     (if \<not> known_once (\<lambda>c. c \<in> set workflow_capabilities
                 \<or> c \<in> {''strategy.run'', ''trade.amend'', ''trade.protect''}) [] values
      then Err ''invalid strategy capability''
      else if ''account.read'' \<notin> set values \<or> ''strategy.run'' \<notin> set values
      then Err ''mandatory strategy capability missing'' else Ok ())"

definition validate_management_dependencies :: "string list \<Rightarrow> (unit, string) result" where
  "validate_management_dependencies values =
     (let has = (\<lambda>c. c \<in> set values) in
      if (has ''trade.amend'' \<and> \<not> (has ''trade.place'' \<and> has ''orders.read'' \<and> has ''market.read''))
         \<or> (has ''trade.protect'' \<and> \<not> (has ''trade.place'' \<and> has ''market.read''))
      then Err ''management capability dependency missing'' else Ok ())"

section \<open>The module of a contribution\<close>

record plugin_params =
  pm_runtime :: string
  pm_abi :: string
  pm_module_base64 :: string
  pm_default_input :: string

definition wasm_magic :: string where
  "wasm_magic = char_of (0 :: nat) # ''asm'' @ map char_of [1, 0, 0, 0 :: nat]"

definition module_bytes :: "strategy_env \<Rightarrow> plugin_params \<Rightarrow> (string, string) result" where
  "module_bytes E p =
     (if 10924 < length (pm_module_base64 p) then Err ''module too large''
      else case se_b64_decode E (pm_module_base64 p) of
        None \<Rightarrow> Err ''invalid module encoding''
      | Some bytes \<Rightarrow>
          if 8192 < length bytes \<or> \<not> starts_with wasm_magic bytes
             \<or> se_b64_encode E bytes \<noteq> pm_module_base64 p
          then Err ''invalid module encoding'' else Ok bytes)"

definition workflow_params_validate :: "strategy_env \<Rightarrow> plugin_params \<Rightarrow> (unit, string) result" where
  "workflow_params_validate E p =
     (if pm_runtime p \<noteq> ''wasm-v1'' \<or> pm_abi p \<noteq> ''account-json-v1'' then Err ''unsupported workflow ABI''
      else bind_result (validate_input E (pm_default_input p)) (\<lambda>_.
           bind_result (module_bytes E p) (\<lambda>_. Ok ())))"

definition strategy_params_validate :: "strategy_env \<Rightarrow> plugin_params \<Rightarrow> (unit, string) result" where
  "strategy_params_validate E p =
     (if pm_runtime p \<noteq> ''wasm-v1'' \<or> pm_abi p \<noteq> ''strategy-json-v1'' then Err ''unsupported strategy ABI''
      else bind_result (validate_input E (pm_default_input p)) (\<lambda>_.
           bind_result (module_bytes E (p\<lparr>pm_abi := ''account-json-v1''\<rparr>)) (\<lambda>_. Ok ())))"

record authority_request =
  ar_plugin_id :: string
  ar_contribution_id :: string
  ar_expected_catalog_generation :: string
  ar_expected_revision :: string

definition authority_request_validate :: "authority_request \<Rightarrow> (unit, app_error) result" where
  "authority_request_validate r =
     bind_result (map_err (\<lambda>_. workflow_error ''plugin_workflow_invalid_request'')
       (validate_reverse_domain (ar_plugin_id r))) (\<lambda>_.
     bind_result (map_err (\<lambda>_. workflow_error ''plugin_workflow_invalid_request'')
       (validate_reverse_domain (ar_contribution_id r))) (\<lambda>_.
     bind_result (counter (ar_expected_catalog_generation r)) (\<lambda>_.
     bind_result (counter (ar_expected_revision r)) (\<lambda>_. Ok ()))))"

section \<open>Account data shown to a guest\<close>

record plugin_account =
  ac_account_id :: string
  ac_session_epoch :: string
  ac_environment :: string

record balance =
  ba_asset :: string
  ba_available :: string
  ba_frozen :: string
  ba_total :: string

record position =
  ps_symbol :: string
  ps_side :: string
  ps_size :: string
  ps_entry_price :: string
  ps_leverage :: string
  ps_unrealised_pnl :: string
  ps_position_idx :: "32 word"

record 'a data_section =
  sec_items :: "'a list"
  sec_fetched_at_ms :: string
  sec_partial :: bool

record plugin_quote =
  qt_symbol :: string
  qt_last_price :: string
  qt_bid_price :: string
  qt_ask_price :: string
  qt_mark_price :: string

record market_section =
  ms_ticker :: plugin_quote
  ms_fetched_at_ms :: string

record snapshot =
  sn_schema_version :: nat
  sn_account :: plugin_account
  sn_captured_at_ms :: string
  sn_symbol :: string
  sn_granted_capabilities :: "string list"
  sn_balances :: "balance data_section option"
  sn_positions :: "position data_section option"
  sn_orders :: "order data_section option"
  sn_market :: "market_section option"

definition workflow_unavailable :: app_error where
  "workflow_unavailable = workflow_error ''plugin_workflow_data_unavailable''"

fun decimals_ok :: "decimal_api \<Rightarrow> bool \<Rightarrow> string list \<Rightarrow> (unit, app_error) result" where
  "decimals_ok D positive [] = Ok ()"
| "decimals_ok D positive (v # vs) =
     bind_result (workflow_decimal D v positive) (\<lambda>_. decimals_ok D positive vs)"

definition host_validate_order :: "decimal_api \<Rightarrow> order \<Rightarrow> string \<Rightarrow> (unit, app_error) result" where
  "host_validate_order D ord expected_symbol =
     (if \<not> bounded_id (o_order_id ord) \<or> o_symbol ord \<noteq> expected_symbol
         \<or> o_side ord \<notin> {''Buy'', ''Sell''} \<or> o_order_type ord \<notin> {''Market'', ''Limit''}
         \<or> (case o_order_link_id ord of None \<Rightarrow> False | Some l \<Rightarrow> \<not> bounded_id l)
      then Err workflow_unavailable
      else bind_result
        (if \<not> (o_order_type ord = ''Market'' \<and> o_price ord = [])
         then decimals_ok D False [o_price ord] else Ok ())
        (\<lambda>_. decimals_ok D False [o_qty ord, o_filled_qty ord, o_avg_price ord]))"

fun all_ok :: "('a \<Rightarrow> (unit, 'e) result) \<Rightarrow> 'a list \<Rightarrow> (unit, 'e) result" where
  "all_ok f [] = Ok ()"
| "all_ok f (x # xs) = bind_result (f x) (\<lambda>_. all_ok f xs)"

text \<open>
  What the host answers while a snapshot is taken: one answer per section, and the wall clock
  read after each, by its position (\<^verbatim>\<open>WorkflowHost\<close> is a trait; the answers are inputs of the model).
\<close>

record host_data =
  hd_balances :: "(balance list, app_error) result"
  hd_positions :: "(position list, app_error) result"
  hd_orders :: "(order list, app_error) result"
  hd_market :: "(plugin_quote, app_error) result"
  hd_now :: "nat \<Rightarrow> u64"

definition take_section ::
  "bool \<Rightarrow> ('a list, app_error) result \<Rightarrow> ('a \<Rightarrow> (unit, app_error) result) \<Rightarrow> u64
     \<Rightarrow> ('a data_section option, app_error) result" where
  "take_section wanted answer check now =
     (if \<not> wanted then Ok None
      else bind_result (map_err (\<lambda>_. workflow_unavailable) answer) (\<lambda>items.
        let items = take 100 items in
        bind_result (map_err (\<lambda>_. workflow_unavailable) (all_ok check items)) (\<lambda>_.
          Ok (Some \<lparr>sec_items = items, sec_fetched_at_ms = u64_to_string now, sec_partial = True\<rparr>))))"

definition snapshot_locked ::
  "decimal_api \<Rightarrow> host_data \<Rightarrow> plugin_account \<Rightarrow> string \<Rightarrow> string list \<Rightarrow> (snapshot, app_error) result" where
  "snapshot_locked D h account symbol caps =
     (let has = (\<lambda>c. c \<in> set caps) in
      bind_result (take_section (has ''balances.read'') (hd_balances h)
        (\<lambda>b. bind_result (workflow_symbol (ba_asset b)) (\<lambda>_.
           decimals_ok D False [ba_available b, ba_frozen b, ba_total b])) (hd_now h 0)) (\<lambda>balances.
      bind_result (take_section (has ''positions.read'') (hd_positions h)
        (\<lambda>p. if ps_symbol p \<noteq> symbol \<or> ps_side p \<notin> {''Buy'', ''Sell''}
               \<or> \<not> (0 \<le> sint (ps_position_idx p) \<and> sint (ps_position_idx p) \<le> 2)
            then Err workflow_unavailable
            else decimals_ok D False [ps_size p, ps_entry_price p, ps_leverage p, ps_unrealised_pnl p])
        (hd_now h 1)) (\<lambda>positions.
      bind_result (take_section (has ''orders.read'') (hd_orders h)
        (\<lambda>ord. host_validate_order D ord symbol) (hd_now h 2)) (\<lambda>orders.
      bind_result (if \<not> has ''market.read'' then Ok None
        else bind_result (map_err (\<lambda>_. workflow_unavailable) (hd_market h)) (\<lambda>t.
          if qt_symbol t \<noteq> symbol then Err workflow_unavailable
          else bind_result (map_err (\<lambda>_. workflow_unavailable)
            (decimals_ok D True [qt_last_price t, qt_bid_price t, qt_ask_price t, qt_mark_price t])) (\<lambda>_.
            Ok (Some \<lparr>ms_ticker = t, ms_fetched_at_ms = u64_to_string (hd_now h 3)\<rparr>)))) (\<lambda>market.
        Ok \<lparr>sn_schema_version = 1, sn_account = account, sn_captured_at_ms = u64_to_string (hd_now h 4),
            sn_symbol = symbol, sn_granted_capabilities = caps, sn_balances = balances,
            sn_positions = positions, sn_orders = orders, sn_market = market\<rparr>)))))"

section \<open>Proposals\<close>

record place_proposal =
  pl_symbol :: string
  pl_side :: string
  pl_order_type :: string
  pl_qty :: string
  pl_price :: "string option"
  pl_time_in_force :: string
  pl_position_idx :: "32 word"
  pl_reduce_only :: bool

record cancel_proposal =
  cn_symbol :: string
  cn_order_id :: string

record amend_proposal =
  am_symbol :: string
  am_order_id :: string
  am_price :: string
  am_qty :: string

datatype workflow_output =
    WDisplay string
  | WPlaceOrder place_proposal
  | WCancelOrder cancel_proposal

definition invalid_output :: app_error where
  "invalid_output = workflow_error ''plugin_workflow_invalid_output''"

definition validate_place ::
  "decimal_api \<Rightarrow> place_proposal \<Rightarrow> string \<Rightarrow> string list \<Rightarrow> (place_proposal, app_error) result" where
  "validate_place D ord expected_symbol caps =
     (if ''trade.place'' \<notin> set caps then Err (workflow_error ''plugin_workflow_denied'')
      else if pl_symbol ord \<noteq> expected_symbol \<or> pl_side ord \<notin> {''Buy'', ''Sell''}
           \<or> pl_position_idx ord \<noteq> (if (pl_side ord = ''Buy'') \<noteq> pl_reduce_only ord then 1 else 2)
      then Err invalid_output
      else bind_result (workflow_symbol (pl_symbol ord)) (\<lambda>_.
           bind_result (workflow_decimal D (pl_qty ord) True) (\<lambda>qty.
             let ord = ord\<lparr>pl_qty := qty\<rparr> in
             if pl_order_type ord = ''Limit'' \<and> pl_time_in_force ord \<in> {''GTC'', ''IOC'', ''FOK''}
             then bind_result (ok_or (pl_price ord) invalid_output) (\<lambda>p.
                  bind_result (workflow_decimal D p True) (\<lambda>price. Ok (ord\<lparr>pl_price := Some price\<rparr>)))
             else if pl_order_type ord = ''Market'' \<and> pl_price ord = None \<and> pl_time_in_force ord = ''IOC''
             then Ok ord
             else Err invalid_output)))"

definition cancellable :: "string \<Rightarrow> string \<Rightarrow> order \<Rightarrow> bool" where
  "cancellable expected_symbol oid v \<longleftrightarrow> o_symbol v = expected_symbol \<and> o_order_id v = oid
     \<and> o_status v \<in> {OrderNew, OrderPartiallyFilled}"

definition validate_cancel ::
  "cancel_proposal \<Rightarrow> string \<Rightarrow> string list \<Rightarrow> order data_section option
     \<Rightarrow> (cancel_proposal, app_error) result" where
  "validate_cancel ord expected_symbol caps orders =
     (if ''trade.cancel'' \<notin> set caps \<or> ''orders.read'' \<notin> set caps
      then Err (workflow_error ''plugin_workflow_denied'')
      else if cn_symbol ord \<noteq> expected_symbol \<or> \<not> bounded_id (cn_order_id ord)
           \<or> \<not> (case orders of None \<Rightarrow> False
                 | Some s \<Rightarrow> list_ex (cancellable expected_symbol (cn_order_id ord)) (sec_items s))
      then Err invalid_output else Ok ord)"

definition workflow_output_validate ::
  "decimal_api \<Rightarrow> workflow_output \<Rightarrow> string \<Rightarrow> string list \<Rightarrow> order data_section option
     \<Rightarrow> (workflow_output, app_error) result" where
  "workflow_output_validate D out expected_symbol caps orders =
     (case out of
        WDisplay t \<Rightarrow> if 2000 < length t then Err invalid_output else Ok out
      | WPlaceOrder ord \<Rightarrow>
          bind_result (validate_place D ord expected_symbol caps) (\<lambda>ord. Ok (WPlaceOrder ord))
      | WCancelOrder ord \<Rightarrow>
          bind_result (validate_cancel ord expected_symbol caps orders) (\<lambda>ord. Ok (WCancelOrder ord)))"

definition amend_validate :: "decimal_api \<Rightarrow> amend_proposal \<Rightarrow> string \<Rightarrow> (amend_proposal, app_error) result" where
  "amend_validate D a symbol =
     (if am_symbol a \<noteq> symbol \<or> \<not> bounded_id (am_order_id a)
      then Err (strategy_error ''plugin_strategy_invalid_output'')
      else bind_result (workflow_decimal D (am_price a) True) (\<lambda>price.
           bind_result (workflow_decimal D (am_qty a) True) (\<lambda>qty.
             Ok (a\<lparr>am_price := price, am_qty := qty\<rparr>))))"

definition strategy_storage :: app_error where
  "strategy_storage = strategy_error ''plugin_strategy_storage_unavailable''"

definition validate_canonical_placement ::
  "strategy_env \<Rightarrow> string \<Rightarrow> place_order_request \<Rightarrow> (unit, app_error) result" where
  "validate_canonical_placement E oid request =
     (let D = se_dec E in
      if \<not> se_uuid_ok E oid \<or> r_order_link_id request \<noteq> Some oid then Err strategy_storage
      else bind_result (ok_or (map_of
             [(''GoodTillCancel'', ''GTC''), (''ImmediateOrCancel'', ''IOC''), (''FillOrKill'', ''FOK'')]
             (case r_time_in_force request of None \<Rightarrow> [] | Some t \<Rightarrow> t)) strategy_storage) (\<lambda>tif.
        bind_result (ok_or (r_reduce_only request) strategy_storage) (\<lambda>reduce_only.
        bind_result (validate_place D
          \<lparr>pl_symbol = r_symbol request, pl_side = r_side request, pl_order_type = r_order_type request,
           pl_qty = r_qty request, pl_price = r_price request, pl_time_in_force = tif,
           pl_position_idx = r_position_idx request, pl_reduce_only = reduce_only\<rparr>
          (r_symbol request) [''trade.place'']) (\<lambda>ord.
        if pl_qty ord \<noteq> r_qty request \<or> pl_price ord \<noteq> r_price request then Err strategy_storage
        else case r_protection request of
          None \<Rightarrow> Ok ()
        | Some protection \<Rightarrow>
            if r_reduce_only request \<noteq> Some False then Err strategy_storage
            else bind_result
              (if r_order_type request = ''Limit''
               then bind_result (ok_or (r_price request) strategy_storage) (\<lambda>entry.
                 protection_validate D protection (r_side request) (Some entry) entry)
               else map_err (\<lambda>_. strategy_error ''plugin_strategy_invalid_output'')
                 (bind_result (validate_shape D protection) (\<lambda>_. Ok protection))) (\<lambda>normalized.
              if normalized \<noteq> protection then Err strategy_storage else Ok ())))))"

section \<open>Strategy runs\<close>

record strategy_policy =
  sp_interval_ms :: u64
  sp_max_order_qty :: string
  sp_max_total_qty :: string
  sp_max_actions :: u32
  sp_max_run_seconds :: u64
  sp_reduce_only :: bool

datatype control_action = ControlPause | ControlStop

datatype strategy_status =
    RunRunning | RunPaused | RunStopping | RunStopped | RunRecoveryRequired | RunFaulted | RunCompleted

datatype receipt_kind = ReceiptPlace | ReceiptCancel | ReceiptAmend | ReceiptProtected

datatype receipt_status = ReceiptAccepted | ReceiptRejected | ReceiptUnknown

datatype strategy_action =
    ActNone
  | ActStop
  | ActPlace place_proposal
  | ActCancel cancel_proposal
  | ActAmend amend_proposal
  | ActProtected place_proposal order_protection

record strategy_start_request =
  sq_authorization_token :: string
  sq_request_id :: string
  sq_resume_run_id :: "string option"
  sq_symbol :: string
  sq_input_json :: string
  sq_capabilities :: "string list"
  sq_policy :: strategy_policy
  sq_acknowledge_automatic_trading :: bool

record strategy_control_request =
  cq_run_id :: string
  cq_action :: control_action

record strategy_receipt =
  rc_sequence :: string
  rc_kind :: receipt_kind
  rc_status :: receipt_status
  rc_submission_id :: "string option"
  rc_order_id :: "string option"
  rc_error_code :: "string option"

record strategy_run_view =
  rv_schema_version :: nat
  rv_run_id :: string
  rv_request_id :: string
  rv_plugin_id :: string
  rv_contribution_id :: string
  rv_account :: plugin_account
  rv_symbol :: string
  rv_status :: strategy_status
  rv_reason :: "string option"
  rv_policy :: strategy_policy
  rv_capabilities :: "string list"
  rv_input_json :: string
  rv_started_at_ms :: string
  rv_expires_at_ms :: string
  rv_sequence :: string
  rv_actions_submitted :: u32
  rv_total_submitted_qty :: string
  rv_last_message :: string
  rv_last_receipt :: "strategy_receipt option"

record strategy_output =
  so_state :: json
  so_action :: strategy_action
  so_message :: string

definition strategy_reasons :: "string list" where
  "strategy_reasons =
     [''plugin_strategy_paused'', ''plugin_strategy_stopped'', ''plugin_strategy_restarted'',
      ''plugin_strategy_expired'', ''plugin_strategy_limit_reached'', ''plugin_strategy_stale'',
      ''plugin_strategy_data_unavailable'', ''plugin_strategy_compute_failed'',
      ''plugin_strategy_invalid_output'', ''plugin_strategy_recovery_required'',
      ''plugin_strategy_storage_unavailable'', ''plugin_strategy_ack_failed'',
      ''plugin_strategy_unavailable'']"

definition strategy_quantity :: "decimal_api \<Rightarrow> string \<Rightarrow> (rat, app_error) result" where
  "strategy_quantity D value =
     bind_result (map_err (\<lambda>_. strategy_error ''plugin_strategy_invalid_request'')
       (workflow_decimal D value True)) (\<lambda>_.
     ok_or (dec_from_str_exact D value) (strategy_error ''plugin_strategy_invalid_request''))"

definition validate_state :: "strategy_env \<Rightarrow> json \<Rightarrow> (unit, app_error) result" where
  "validate_state E st =
     (if \<not> json_is_object st \<or> 4096 < se_json_len E st
      then Err (strategy_error ''plugin_strategy_invalid_output'') else Ok ())"

definition policy_validate :: "decimal_api \<Rightarrow> strategy_policy \<Rightarrow> (unit, app_error) result" where
  "policy_validate D p =
     (if \<not> (5000 \<le> sp_interval_ms p \<and> sp_interval_ms p \<le> 60000)
         \<or> \<not> (60 \<le> sp_max_run_seconds p \<and> sp_max_run_seconds p \<le> 86400)
         \<or> \<not> (1 \<le> sp_max_actions p \<and> sp_max_actions p \<le> 1000)
      then Err (strategy_error ''plugin_strategy_invalid_request'')
      else bind_result (strategy_quantity D (sp_max_order_qty p)) (\<lambda>a.
           bind_result (strategy_quantity D (sp_max_total_qty p)) (\<lambda>b.
             if b < a then Err (strategy_error ''plugin_strategy_invalid_request'') else Ok ())))"

definition strategy_output_validate :: "strategy_env \<Rightarrow> strategy_output \<Rightarrow> (unit, app_error) result" where
  "strategy_output_validate E out =
     bind_result (validate_state E (so_state out)) (\<lambda>_.
       if 2000 < length (so_message out) then Err (strategy_error ''plugin_strategy_invalid_output'')
       else Ok ())"

definition start_request_validate :: "strategy_env \<Rightarrow> strategy_start_request \<Rightarrow> (unit, app_error) result" where
  "start_request_validate E q =
     (let denied = strategy_error ''plugin_strategy_denied'';
          invalid = strategy_error ''plugin_strategy_invalid_request'' in
      if \<not> se_uuid_ok E (sq_authorization_token q) \<or> \<not> se_uuid_ok E (sq_request_id q)
         \<or> (case sq_resume_run_id q of None \<Rightarrow> False | Some i \<Rightarrow> \<not> se_uuid_ok E i)
      then Err (strategy_error ''plugin_strategy_invalid_request'')
      else if \<not> sq_acknowledge_automatic_trading q then Err (strategy_error ''plugin_strategy_denied'')
      else bind_result (err_as invalid (workflow_symbol (sq_symbol q))) (\<lambda>_.
           bind_result (err_as invalid (validate_input E (sq_input_json q))) (\<lambda>_.
           bind_result (err_as denied (strategy_validate_capabilities (sq_capabilities q))) (\<lambda>_.
             if ''trade.cancel'' \<in> set (sq_capabilities q) \<and> ''orders.read'' \<notin> set (sq_capabilities q)
             then Err (strategy_error ''plugin_strategy_denied'')
             else bind_result (err_as denied (validate_management_dependencies (sq_capabilities q))) (\<lambda>_.
               policy_validate (se_dec E) (sq_policy q))))))"

definition receipt_code :: "receipt_status \<Rightarrow> string option" where
  "receipt_code s =
     (case s of ReceiptAccepted \<Rightarrow> None
      | ReceiptRejected \<Rightarrow> Some ''plugin_strategy_rejected''
      | ReceiptUnknown \<Rightarrow> Some ''plugin_strategy_unknown'')"

definition receipt_validate ::
  "strategy_env \<Rightarrow> strategy_receipt \<Rightarrow> string \<Rightarrow> (unit, app_error) result" where
  "receipt_validate E receipt run_sequence =
     bind_result (counter (rc_sequence receipt)) (\<lambda>a.
     bind_result (counter run_sequence) (\<lambda>b.
       if b < a \<or> rc_error_code receipt \<noteq> receipt_code (rc_status receipt)
          \<or> (case rc_order_id receipt of None \<Rightarrow> False | Some i \<Rightarrow> \<not> bounded_id i)
          \<or> (case rc_submission_id receipt of None \<Rightarrow> False | Some i \<Rightarrow> \<not> se_uuid_ok E i)
          \<or> (rc_kind receipt \<in> {ReceiptPlace, ReceiptProtected}) \<noteq> (rc_submission_id receipt \<noteq> None)
          \<or> (rc_kind receipt = ReceiptAmend \<and> rc_order_id receipt = None)
          \<or> (rc_status receipt = ReceiptAccepted \<and> rc_order_id receipt = None)
       then Err strategy_storage else Ok ()))"

definition view_validate :: "strategy_env \<Rightarrow> strategy_run_view \<Rightarrow> (unit, app_error) result" where
  "view_validate E v =
     (let D = se_dec E in
      bind_result (policy_validate D (rv_policy v)) (\<lambda>_.
      bind_result (err_as strategy_storage (strategy_validate_capabilities (rv_capabilities v))) (\<lambda>_.
      bind_result (err_as strategy_storage (validate_management_dependencies (rv_capabilities v))) (\<lambda>_.
      bind_result (workflow_symbol (rv_symbol v)) (\<lambda>_.
      bind_result (err_as strategy_storage (validate_input E (rv_input_json v))) (\<lambda>_.
      bind_result (err_as strategy_storage (validate_reverse_domain (rv_plugin_id v))) (\<lambda>_.
      bind_result (err_as strategy_storage (validate_reverse_domain (rv_contribution_id v))) (\<lambda>_.
      if \<not> se_uuid_ok E (rv_run_id v) \<or> \<not> se_uuid_ok E (rv_request_id v) then Err strategy_storage
      else bind_result (counter (rv_started_at_ms v)) (\<lambda>start.
      bind_result (counter (rv_expires_at_ms v)) (\<lambda>expiry.
      bind_result (counter (rv_sequence v)) (\<lambda>sequence.
      bind_result (counter (ac_session_epoch (rv_account v))) (\<lambda>_.
      bind_result (workflow_decimal D (rv_total_submitted_qty v) False) (\<lambda>total_s.
      bind_result (ok_or (dec_from_str_exact D total_s) strategy_storage) (\<lambda>total.
      bind_result (ok_or (checked_add_u64 start (sp_max_run_seconds (rv_policy v) * 1000)) strategy_storage) (\<lambda>until.
      bind_result (strategy_quantity D (sp_max_total_qty (rv_policy v))) (\<lambda>max_total.
      if rv_schema_version v \<noteq> 1 \<or> \<not> bounded_id (ac_account_id (rv_account v))
         \<or> ac_environment (rv_account v) = [] \<or> 256 < length (ac_environment (rv_account v))
         \<or> has_control (ac_environment (rv_account v))
         \<or> expiry \<noteq> until
         \<or> sp_max_actions (rv_policy v) < rv_actions_submitted v
         \<or> unat sequence < unat (rv_actions_submitted v)
         \<or> total < 0 \<or> max_total < total
         \<or> 2000 < length (rv_last_message v)
         \<or> (case rv_reason v of None \<Rightarrow> False | Some c \<Rightarrow> c \<notin> set strategy_reasons)
      then Err strategy_storage
      else case rv_last_receipt v of
        None \<Rightarrow> Ok ()
      | Some receipt \<Rightarrow> receipt_validate E receipt (rv_sequence v)))))))))))))))))"

end
