(* ===== verification/Strategy_Store.thy ===== *)
theory Strategy_Store
  imports Strategy_Contract Risk_Ledger
begin

text \<open>
  \<^verbatim>\<open>plugin/strategy/store.rs\<close>: the durable document of strategy runs, its validation, and the
  store's choice of a version among the candidate files.

  A \<^verbatim>\<open>BTreeMap\<close> is the list of its entries in the order of their keys.
\<close>

section \<open>Ordered maps\<close>

fun btree_insert :: "string \<Rightarrow> 'v \<Rightarrow> (string \<times> 'v) list \<Rightarrow> (string \<times> 'v) list" where
  "btree_insert k v [] = [(k, v)]"
| "btree_insert k v ((k', v') # m) =
     (if k = k' then (k, v) # m
      else if str_less k k' then (k, v) # (k', v') # m
      else (k', v') # btree_insert k v m)"

fun btree_modify :: "string \<Rightarrow> ('v \<Rightarrow> 'v) \<Rightarrow> (string \<times> 'v) list \<Rightarrow> (string \<times> 'v) list" where
  "btree_modify k f [] = []"
| "btree_modify k f ((k', v') # m) = (if k = k' then (k', f v') # m else (k', v') # btree_modify k f m)"

definition btree_remove :: "string \<Rightarrow> (string \<times> 'v) list \<Rightarrow> (string \<times> 'v) list" where
  "btree_remove k m = filter (\<lambda>e. fst e \<noteq> k) m"

lemma map_of_btree_insert [simp]: "map_of (btree_insert k v m) = (map_of m)(k \<mapsto> v)"
  by (induction m rule: btree_insert.induct) (auto simp: fun_eq_iff)

lemma map_of_btree_modify [simp]:
  "map_of (btree_modify k f m) = (map_of m)(k := map_option f (map_of m k))"
  by (induction m) (auto simp: fun_eq_iff)

lemma map_of_btree_remove [simp]: "map_of (btree_remove k m) = (map_of m)(k := None)"
  by (induction m) (auto simp: btree_remove_def fun_eq_iff)

lemma length_btree_insert: "length (btree_insert k v m) \<le> Suc (length m)"
  by (induction m rule: btree_insert.induct) auto

lemma btree_insert_keys [simp]: "fst ` set (btree_insert k v m) = insert k (fst ` set m)"
  unfolding dom_map_of_conv_image_fst [symmetric] by simp

lemma btree_modify_keys [simp]: "map fst (btree_modify k f m) = map fst m"
  by (induction m) auto

section \<open>The document\<close>

record owned_order =
  ow_submission_id :: string
  ow_cancel_requested :: bool
  ow_placement :: "place_order_request option"

record pending_action =
  pa_sequence :: string
  pa_action :: strategy_action
  pa_submission_id :: "string option"
  pa_state :: json
  pa_message :: string

record run_record =
  rr_view :: strategy_run_view
  rr_fingerprint :: string
  rr_scope :: string
  rr_state :: json
  rr_owned :: "(string \<times> owned_order) list"
  rr_pending :: "pending_action option"
  rr_last_observed_at_ms :: string

record strategy_document =
  sd_schema_version :: nat
  sd_revision :: string
  sd_runs :: "run_record list"

definition default_document :: strategy_document where
  "default_document = \<lparr>sd_schema_version = 1, sd_revision = ''0'', sd_runs = []\<rparr>"

text \<open>\<^verbatim>\<open>owned_orders\<close>: reading an object into a \<^verbatim>\<open>BTreeMap\<close>, refusing repeated keys.\<close>

fun owned_orders :: "(string \<times> 'v) list \<Rightarrow> (string \<times> 'v) list \<Rightarrow> (string \<times> 'v) list option" where
  "owned_orders m [] = Some m"
| "owned_orders m ((k, v) # es) =
     (if 1000 \<le> length m \<or> map_of m k \<noteq> None then None else owned_orders (btree_insert k v m) es)"

definition run_has :: "run_record \<Rightarrow> string \<Rightarrow> bool" where
  "run_has r c \<longleftrightarrow> c \<in> set (rv_capabilities (rr_view r))"

definition owned_ok :: "strategy_env \<Rightarrow> run_record \<Rightarrow> string \<times> owned_order \<Rightarrow> bool" where
  "owned_ok E r e =
     (case e of (oid, ow) \<Rightarrow> bounded_id oid \<and> se_uuid_ok E (ow_submission_id ow)
        \<and> (case ow_placement ow of
             None \<Rightarrow> True
           | Some p \<Rightarrow> r_order_link_id p = Some (ow_submission_id ow)
               \<and> r_symbol p = rv_symbol (rr_view r)
               \<and> run_has r ''trade.place''
               \<and> (r_protection p \<noteq> None \<longrightarrow> run_has r ''trade.protect'')
               \<and> (sp_reduce_only (rv_policy (rr_view r)) \<longrightarrow> r_reduce_only p = Some True)
               \<and> is_ok (validate_canonical_placement E (ow_submission_id ow) p)))"

definition total_submitted :: "strategy_env \<Rightarrow> run_record \<Rightarrow> (rat, app_error) result" where
  "total_submitted E r = ok_or (dec_from_str_exact (se_dec E) (rv_total_submitted_qty (rr_view r))) strategy_storage"

text \<open>The quantity of a stored intent: within the limit of one order, and counted in the total.\<close>

definition pending_qty_ok :: "strategy_env \<Rightarrow> run_record \<Rightarrow> string \<Rightarrow> (unit, app_error) result" where
  "pending_qty_ok E r qty =
     bind_result (strategy_quantity (se_dec E) qty) (\<lambda>q.
     bind_result (strategy_quantity (se_dec E) (sp_max_order_qty (rv_policy (rr_view r)))) (\<lambda>limit.
     bind_result (total_submitted E r) (\<lambda>total.
       if limit < q \<or> total < q then Err strategy_storage else Ok ())))"

definition pending_place_ok ::
  "strategy_env \<Rightarrow> run_record \<Rightarrow> pending_action \<Rightarrow> place_proposal \<Rightarrow> (unit, app_error) result" where
  "pending_place_ok E r p ord =
     bind_result (validate_place (se_dec E) ord (rv_symbol (rr_view r)) (rv_capabilities (rr_view r))) (\<lambda>_.
       if \<not> (case pa_submission_id p of None \<Rightarrow> False | Some oid \<Rightarrow> se_uuid_ok E oid) then Err strategy_storage
       else bind_result (pending_qty_ok E r (pl_qty ord)) (\<lambda>_.
         if sp_reduce_only (rv_policy (rr_view r)) \<and> \<not> pl_reduce_only ord then Err strategy_storage
         else Ok ()))"

definition pending_action_ok ::
  "strategy_env \<Rightarrow> run_record \<Rightarrow> pending_action \<Rightarrow> (unit, app_error) result" where
  "pending_action_ok E r p =
     (case pa_action p of
        ActPlace ord \<Rightarrow> pending_place_ok E r p ord
      | ActProtected ord protection \<Rightarrow>
          bind_result (pending_place_ok E r p ord) (\<lambda>_.
            if \<not> run_has r ''trade.protect'' \<or> pl_reduce_only ord \<or> \<not> is_ok (validate_shape (se_dec E) protection)
            then Err strategy_storage else Ok ())
      | ActCancel ord \<Rightarrow>
          if cn_symbol ord \<noteq> rv_symbol (rr_view r) \<or> pa_submission_id p \<noteq> None
             \<or> map_of (rr_owned r) (cn_order_id ord) = None
          then Err strategy_storage else Ok ()
      | ActAmend ord \<Rightarrow>
          if pa_submission_id p \<noteq> None \<or> \<not> run_has r ''trade.amend''
             \<or> (case Option.bind (map_of (rr_owned r) (am_order_id ord))
                   (\<lambda>ow. if ow_cancel_requested ow then None else ow_placement ow) of
                  None \<Rightarrow> True
                | Some v \<Rightarrow> r_symbol v \<noteq> am_symbol ord \<or> r_order_type v \<noteq> ''Limit''
                    \<or> \<not> is_ok (validate_amend_entry (se_dec E) v (am_price ord)))
             \<or> am_symbol ord \<noteq> rv_symbol (rr_view r)
          then Err strategy_storage
          else bind_result (pending_qty_ok E r (am_qty ord)) (\<lambda>_.
            if \<not> is_ok (amend_validate (se_dec E) ord (rv_symbol (rr_view r))) then Err strategy_storage else Ok ())
      | _ \<Rightarrow> Err strategy_storage)"

definition pending_validate ::
  "strategy_env \<Rightarrow> run_record \<Rightarrow> pending_action \<Rightarrow> (unit, app_error) result" where
  "pending_validate E r p =
     bind_result (validate_state E (pa_state p)) (\<lambda>_.
       if pa_sequence p \<noteq> rv_sequence (rr_view r) \<or> 2000 < length (pa_message p)
          \<or> rv_actions_submitted (rr_view r) = 0
       then Err strategy_storage else pending_action_ok E r p)"

definition receipt_identity :: "strategy_action \<Rightarrow> (receipt_kind \<times> string option) option" where
  "receipt_identity a =
     (case a of
        ActPlace _ \<Rightarrow> Some (ReceiptPlace, None)
      | ActProtected _ _ \<Rightarrow> Some (ReceiptProtected, None)
      | ActCancel ord \<Rightarrow> Some (ReceiptCancel, Some (cn_order_id ord))
      | ActAmend ord \<Rightarrow> Some (ReceiptAmend, Some (am_order_id ord))
      | _ \<Rightarrow> None)"

text \<open>An unknown outcome is stored with the exact intent it belongs to.\<close>

definition unknown_receipt_ok :: "run_record \<Rightarrow> (unit, app_error) result" where
  "unknown_receipt_ok r =
     (case rv_last_receipt (rr_view r) of
        None \<Rightarrow> Ok ()
      | Some receipt \<Rightarrow>
          if rc_status receipt \<noteq> ReceiptUnknown then Ok ()
          else case rr_pending r of
            None \<Rightarrow> Err strategy_storage
          | Some p \<Rightarrow> (case receipt_identity (pa_action p) of
              None \<Rightarrow> Err strategy_storage
            | Some (kind, order_id) \<Rightarrow>
                if rc_sequence receipt \<noteq> pa_sequence p \<or> rc_kind receipt \<noteq> kind
                   \<or> rc_submission_id receipt \<noteq> pa_submission_id p \<or> rc_order_id receipt \<noteq> order_id
                then Err strategy_storage else Ok ()))"

definition fingerprint_ok :: "string \<Rightarrow> bool" where
  "fingerprint_ok f \<longleftrightarrow> length f = 74 \<and> starts_with ''v1:sha256:'' f \<and> list_all is_ascii_hexdigit (drop 10 f)"

definition run_validate ::
  "strategy_env \<Rightarrow> string list \<Rightarrow> string list \<Rightarrow> run_record \<Rightarrow> (unit, app_error) result" where
  "run_validate E ids requests r =
     bind_result (view_validate E (rr_view r)) (\<lambda>_.
     bind_result (counter (rr_last_observed_at_ms r)) (\<lambda>seen.
     bind_result (counter (rv_started_at_ms (rr_view r))) (\<lambda>started.
       if seen < started then Err strategy_storage
       else bind_result (validate_state E (rr_state r)) (\<lambda>_.
         if rv_run_id (rr_view r) \<in> set ids \<or> rv_request_id (rr_view r) \<in> set requests
            \<or> length (rr_scope r) \<noteq> 64 \<or> \<not> list_all is_ascii_hexdigit (rr_scope r)
            \<or> \<not> fingerprint_ok (rr_fingerprint r)
            \<or> unat (rv_actions_submitted (rr_view r)) < length (rr_owned r)
         then Err strategy_storage
         else if \<not> list_all (owned_ok E r) (rr_owned r) \<or> \<not> distinct (map (ow_submission_id \<circ> snd) (rr_owned r))
         then Err strategy_storage
         else bind_result (case rr_pending r of None \<Rightarrow> Ok () | Some p \<Rightarrow> pending_validate E r p) (\<lambda>_.
           unknown_receipt_ok r)))))"

fun runs_validate ::
  "strategy_env \<Rightarrow> string list \<Rightarrow> string list \<Rightarrow> run_record list \<Rightarrow> (unit, app_error) result" where
  "runs_validate E ids requests [] = Ok ()"
| "runs_validate E ids requests (r # rs) =
     bind_result (run_validate E ids requests r) (\<lambda>_.
       runs_validate E (rv_run_id (rr_view r) # ids) (rv_request_id (rr_view r) # requests) rs)"

definition document_validate :: "strategy_env \<Rightarrow> strategy_document \<Rightarrow> (unit, app_error) result" where
  "document_validate E d =
     (if sd_schema_version d \<noteq> 1 \<or> 32 < length (sd_runs d) then Err strategy_storage
      else bind_result (counter (sd_revision d)) (\<lambda>_. runs_validate E [] [] (sd_runs d)))"

section \<open>The file store\<close>

text \<open>
  \<^verbatim>\<open>FileStrategyStore\<close> on the candidate files of a \<^verbatim>\<open>SafePluginDocument\<close>
  (\<^verbatim>\<open>storage/safe_plugin_document.rs\<close>); \<open>c\<close> is \<^verbatim>\<open>serde_json\<close> on documents.
\<close>

datatype candidate_bytes = CandidateMissing | CandidateOversized | CandidateBounded string

datatype persist_outcome = NotCommitted | CommittedProcessCrashSafe | CommittedDurable

definition outcome_satisfies_destructive_barrier :: "bool \<Rightarrow> persist_outcome \<Rightarrow> bool" where
  "outcome_satisfies_destructive_barrier windows outcome \<longleftrightarrow>
     (if windows then outcome \<noteq> NotCommitted else outcome = CommittedDurable)"

fun collect_versions ::
  "strategy_env \<Rightarrow> strategy_document codec \<Rightarrow> (u64 \<times> strategy_document) list \<Rightarrow> candidate_bytes list
     \<Rightarrow> ((u64 \<times> strategy_document) list, app_error) result" where
  "collect_versions E c versions [] = Ok versions"
| "collect_versions E c versions (CandidateMissing # cs) = collect_versions E c versions cs"
| "collect_versions E c versions (CandidateOversized # cs) = Err strategy_storage"
| "collect_versions E c versions (CandidateBounded bytes # cs) =
     bind_result (ok_or (decode c bytes) strategy_storage) (\<lambda>doc.
     bind_result (map_err (\<lambda>_. strategy_storage) (document_validate E doc)) (\<lambda>_.
     bind_result (counter (sd_revision doc)) (\<lambda>revision.
       case map_of versions revision of
         Some old \<Rightarrow> if old \<noteq> doc then Err strategy_storage else collect_versions E c versions cs
       | None \<Rightarrow> collect_versions E c ((revision, doc) # versions) cs)))"

fun latest_version :: "(u64 \<times> strategy_document) list \<Rightarrow> strategy_document" where
  "latest_version [] = default_document"
| "latest_version [(_, d)] = d"
| "latest_version ((a, d) # (b, d') # vs) = latest_version ((if a < b then (b, d') else (a, d)) # vs)"

definition file_store_read ::
  "strategy_env \<Rightarrow> strategy_document codec \<Rightarrow> (candidate_bytes list, 'e) result
     \<Rightarrow> (strategy_document, app_error) result" where
  "file_store_read E c candidates =
     bind_result (map_err (\<lambda>_. strategy_storage) candidates) (\<lambda>cs.
     bind_result (collect_versions E c [] cs) (\<lambda>versions. Ok (latest_version versions)))"

definition file_store_save ::
  "strategy_env \<Rightarrow> strategy_document codec \<Rightarrow> bool \<Rightarrow> (candidate_bytes list, 'e) result
     \<Rightarrow> (string \<Rightarrow> string \<Rightarrow> (persist_outcome, 'p) result) \<Rightarrow> strategy_document \<Rightarrow> (unit, app_error) result" where
  "file_store_save E c windows candidates persist doc =
     bind_result (map_err (\<lambda>_. strategy_storage) (document_validate E doc)) (\<lambda>_.
     bind_result (file_store_read E c candidates) (\<lambda>old.
     bind_result (counter (sd_revision doc)) (\<lambda>new.
     bind_result (counter (sd_revision old)) (\<lambda>current.
     bind_result (ok_or (checked_add_u64 current 1) strategy_storage) (\<lambda>following.
       if new \<noteq> following then Err strategy_storage
       else bind_result (ok_or (encode c doc) strategy_storage) (\<lambda>bytes.
         bind_result (ok_or (encode c old) strategy_storage) (\<lambda>previous.
         bind_result (map_err (\<lambda>_. strategy_storage) (persist previous bytes)) (\<lambda>outcome.
           if outcome_satisfies_destructive_barrier windows outcome then Ok () else Err strategy_storage))))))))"

end
