(* ===== verification/Strategy_Supervisor.thy ===== *)
theory Strategy_Supervisor
  imports Strategy_Store
begin

text \<open>
  \<^verbatim>\<open>plugin/strategy/supervisor.rs\<close>: the owner of all strategy runs.  The state is a record with
  the fields of \<^verbatim>\<open>Inner\<close> and the atomics of \<^verbatim>\<open>StrategySupervisor\<close>; every function below is the
  part of a method between two points where another task can run, so that an interleaving of
  tasks is a sequence of these functions.

  The operation gate of the plugin runtime is \<open>sw_busy\<close>; the mutex of \<^verbatim>\<open>Inner\<close>, which a start
  holds from its save to its publication, is \<open>sw_starting\<close>.  A \<^verbatim>\<open>Live\<close> and the local
  variables of the worker that owns it (\<^verbatim>\<open>plugin/strategy/execution.rs\<close>) are one record; its
  wake-up signal and the sandbox's cancel flag are not modelled.  \<^verbatim>\<open>Instant\<close>s are nanoseconds.
\<close>

section \<open>State\<close>

datatype plugin_source = SourceBuiltIn | SourceLocalDeclarative

record plugin_identity =
  pi_id :: string
  pi_source :: plugin_source
  pi_publisher_id :: string
  pi_approval_fingerprint :: string

record captured_strategy =
  cs_params :: plugin_params
  cs_identity :: plugin_identity
  cs_requested :: "string list"

record account_authority =
  au_account :: plugin_account
  au_private_session :: string

record ticket =
  tk_request :: authority_request
  tk_captured :: captured_strategy
  tk_authority :: account_authority
  tk_scope :: string
  tk_epoch :: u64
  tk_admission :: u64
  tk_deadline :: nat

text \<open>What a worker has decided on: the record it read, and when its data was observed.\<close>

record decision =
  de_event :: string
  de_record :: run_record
  de_snapshot :: snapshot
  de_sequence :: string
  de_observed :: nat
  de_observed_wall :: u64

text \<open>
  Where a worker stands: \<open>AtLoop\<close> before a turn of \<^verbatim>\<open>worker_loop\<close>, \<open>Computing\<close> while the guest
  runs, \<open>Deciding\<close> with the guest's output, \<open>Prepared\<close> with a stored intent, \<open>Admitting\<close> in the
  host's call before the admission check, \<open>InFlight\<close> after it (with the refusal, if it refused),
  \<open>Acking\<close> while the host acknowledges an accepted order, \<open>Failing\<close> when the turn failed,
  \<open>Waiting\<close> for the next turn, \<open>Finishing\<close> when the loop has returned.
\<close>

datatype worker_phase =
    AtLoop string bool
  | Computing decision
  | Deciding decision strategy_output
  | Prepared decision pending_action
  | Admitting decision pending_action
  | InFlight decision pending_action "app_error option"
  | Acking decision pending_action order "app_error option"
  | Failing app_error
  | Waiting string bool nat u64 u64
  | Finishing

record live_run =
  lv_request :: authority_request
  lv_captured :: captured_strategy
  lv_authority :: account_authority
  lv_epoch :: u64
  lv_intent :: nat
  lv_deadline :: nat
  lv_last_wall :: u64
  lv_clock_anchor :: nat
  lv_wall_anchor_ms :: u64
  lv_phase :: worker_phase

record start_state =
  ss_ticket :: ticket
  ss_index :: nat
  ss_run_id :: string
  ss_live :: live_run

text \<open>An accepted control that has revoked its runs and waits for the mutex.\<close>

datatype accepted_control = AcceptedControl string control_action | AcceptedStopAll

text \<open>What one call of the durable store does: it stores, refuses, or stores and reports failure.\<close>

datatype save_fate = SaveStored | SaveRefused | SaveUncertain

text \<open>The mutation requests handed to the trading host.\<close>

datatype mutation =
    MutPlace submission_context place_order_request
  | MutCancel session_context string string
  | MutAmend session_context amend_proposal place_order_request

datatype strategy_event =
    GuestCalled string string string
  | HandedOff string pending_action mutation

record strategy_world =
  sw_document :: strategy_document
  sw_stored :: strategy_document
  sw_tickets :: "(string \<times> ticket) list"
  sw_requested :: "(ticket \<times> strategy_start_request) list"
  sw_starting :: "start_state option"
  sw_live :: "(string \<times> live_run) list"
  sw_unavailable :: bool
  sw_admission :: u64
  sw_closed :: bool
  sw_controls :: "accepted_control list"
  sw_busy :: bool
  sw_fates :: "save_fate list"
  sw_drawn :: nat
  sw_trace :: "strategy_event list"

text \<open>What a step reads of the clocks, the plugin runtime and the host.\<close>

record readings =
  rd_wall :: u64
  rd_instant :: nat
  rd_epoch :: "(u64, app_error) result"
  rd_capture :: "authority_request \<Rightarrow> (captured_strategy, app_error) result"
  rd_authority :: "(account_authority, app_error) result"
  rd_scope :: "(string, app_error) result"

abbreviation stale :: app_error where
  "stale \<equiv> strategy_error ''plugin_strategy_stale''"

abbreviation run_id :: "run_record \<Rightarrow> string" where
  "run_id r \<equiv> rv_run_id (rr_view r)"

section \<open>Live runs\<close>

definition admitted :: "live_run \<Rightarrow> bool" where
  "admitted l \<longleftrightarrow> lv_intent l = 0"

definition revoke :: "bool \<Rightarrow> live_run \<Rightarrow> live_run" where
  "revoke stop l = l\<lparr>lv_intent := max (lv_intent l) (if stop then 2 else 1)\<rparr>"

definition set_live :: "string \<Rightarrow> (live_run \<Rightarrow> live_run) \<Rightarrow> strategy_world \<Rightarrow> strategy_world" where
  "set_live i f w = w\<lparr>sw_live := btree_modify i f (sw_live w)\<rparr>"

definition set_phase :: "string \<Rightarrow> worker_phase \<Rightarrow> strategy_world \<Rightarrow> strategy_world" where
  "set_phase i ph w = set_live i (\<lambda>l. l\<lparr>lv_phase := ph\<rparr>) w"

section \<open>The store and \<open>save\<close>\<close>

text \<open>
  A call of \<^verbatim>\<open>StrategyStore::save\<close>.  The file store refuses an invalid document and one that
  does not follow the stored revision (\<open>file_store_save\<close>); beyond that the outcome is decided by
  the next element of \<open>sw_fates\<close>.
\<close>

definition follows_revision :: "strategy_document \<Rightarrow> strategy_document \<Rightarrow> bool" where
  "follows_revision old doc \<longleftrightarrow>
     (case (counter (sd_revision old), counter (sd_revision doc)) of
        (Ok a, Ok b) \<Rightarrow> checked_add_u64 a 1 = Some b
      | _ \<Rightarrow> False)"

definition strategy_store_save :: "strategy_env \<Rightarrow> strategy_document \<Rightarrow> strategy_world \<Rightarrow> bool \<times> strategy_world" where
  "strategy_store_save E doc w =
     (let fate = (case sw_fates w of [] \<Rightarrow> SaveStored | f # _ \<Rightarrow> f);
          w = w\<lparr>sw_fates := tl (sw_fates w)\<rparr> in
      if \<not> is_ok (document_validate E doc) \<or> \<not> follows_revision (sw_stored w) doc then (False, w)
      else case fate of
        SaveStored \<Rightarrow> (True, w\<lparr>sw_stored := doc\<rparr>)
      | SaveRefused \<Rightarrow> (False, w)
      | SaveUncertain \<Rightarrow> (False, w\<lparr>sw_stored := doc\<rparr>))"

text \<open>The wall-time floor of a live run, kept in its record.\<close>

definition observed_floor :: "readings \<Rightarrow> live_run \<Rightarrow> u64" where
  "observed_floor rd l =
     saturating_add (lv_wall_anchor_ms l)
       (let elapsed = (rd_instant rd - lv_clock_anchor l) div 1000000 in
        if elapsed < 2 ^ 64 then of_nat elapsed else - 1)"

fun observe_runs ::
  "readings \<Rightarrow> (string \<times> live_run) list \<Rightarrow> run_record list \<Rightarrow> (run_record list, app_error) result" where
  "observe_runs rd live [] = Ok []"
| "observe_runs rd live (r # rs) =
     bind_result
       (case map_of live (run_id r) of
          None \<Rightarrow> Ok r
        | Some l \<Rightarrow> bind_result (counter (rr_last_observed_at_ms r)) (\<lambda>seen.
            Ok (r\<lparr>rr_last_observed_at_ms := u64_to_string (max (max seen (rd_wall rd)) (observed_floor rd l))\<rparr>)))
       (\<lambda>r. bind_result (observe_runs rd live rs) (\<lambda>rs. Ok (r # rs)))"

definition set_status :: "strategy_status \<Rightarrow> string option \<Rightarrow> run_record \<Rightarrow> run_record" where
  "set_status s reason r = r\<lparr>rr_view := (rr_view r)\<lparr>rv_status := s, rv_reason := reason\<rparr>\<rparr>"

definition fault_run :: "run_record \<Rightarrow> run_record" where
  "fault_run r =
     set_status (if rr_pending r \<noteq> None then RunRecoveryRequired else RunFaulted)
       (Some ''plugin_strategy_storage_unavailable'') r"

definition save ::
  "strategy_env \<Rightarrow> readings \<Rightarrow> strategy_document \<Rightarrow> strategy_world \<Rightarrow> (unit, app_error) result \<times> strategy_world" where
  "save E rd d w =
     (case bind_result (observe_runs rd (sw_live w) (sd_runs d)) (\<lambda>runs.
           bind_result (counter (sd_revision (sw_document w))) (\<lambda>revision.
           bind_result (ok_or (checked_add_u64 revision 1) strategy_storage) (\<lambda>revision.
             Ok (d\<lparr>sd_runs := runs, sd_revision := u64_to_string revision\<rparr>)))) of
        Err e \<Rightarrow> (Err e, w)
      | Panic \<Rightarrow> (Panic, w)
      | Ok d \<Rightarrow>
          (let (stored, w) = (if sw_unavailable w then (False, w) else strategy_store_save E d w) in
           if stored then (Ok (), w\<lparr>sw_document := d\<rparr>)
           else (Err strategy_storage,
             w\<lparr>sw_unavailable := True, sw_tickets := [],
               sw_live := map (\<lambda>(i, l). (i, revoke False l)) (sw_live w),
               sw_document := d\<lparr>sd_runs := map fault_run (sd_runs d)\<rparr>\<rparr>)))"

section \<open>Creation and restart\<close>

definition restart_run :: "run_record \<Rightarrow> run_record" where
  "restart_run r =
     (if rr_pending r \<noteq> None
      then set_status RunRecoveryRequired (Some ''plugin_strategy_recovery_required'') r
      else if rv_status (rr_view r) \<in> {RunRunning, RunStopping, RunRecoveryRequired}
      then set_status RunPaused (Some ''plugin_strategy_restarted'') r
      else r)"

text \<open>
  \<^verbatim>\<open>StrategySupervisor::new\<close> on what is stored; \<open>readable\<close> is whether the store could be read.
  The durable part of the state and the history survive; everything else starts afresh.
\<close>

definition supervisor_new :: "strategy_env \<Rightarrow> bool \<Rightarrow> strategy_world \<Rightarrow> strategy_world" where
  "supervisor_new E readable w =
     (let available = (readable \<and> is_ok (document_validate E (sw_stored w)));
          document = (if available then sw_stored w else default_document) in
      \<lparr>sw_document = document\<lparr>sd_runs := map restart_run (sd_runs document)\<rparr>,
       sw_stored = sw_stored w, sw_tickets = [], sw_requested = [], sw_starting = None, sw_live = [],
       sw_unavailable = \<not> available, sw_admission = 0, sw_closed = False, sw_controls = [],
       sw_busy = False, sw_fates = sw_fates w, sw_drawn = sw_drawn w, sw_trace = sw_trace w\<rparr>)"

definition store_ready :: "strategy_world \<Rightarrow> (unit, app_error) result" where
  "store_ready w = (if sw_unavailable w then Err strategy_storage else Ok ())"

definition admission_epoch :: "strategy_world \<Rightarrow> (u64, app_error) result" where
  "admission_epoch w =
     (if sw_closed w \<or> sw_admission w = - 1 then Err (strategy_error ''plugin_strategy_unavailable'')
      else Ok (sw_admission w))"

definition strategy_list :: "strategy_world \<Rightarrow> (strategy_run_view list, app_error) result" where
  "strategy_list w =
     (if sw_unavailable w \<and> sd_runs (sw_document w) = [] then Err strategy_storage
      else Ok (map rr_view (sd_runs (sw_document w))))"

definition find_run :: "string \<Rightarrow> strategy_document \<Rightarrow> run_record option" where
  "find_run i d = find (\<lambda>r. run_id r = i) (sd_runs d)"

definition run_state :: "strategy_world \<Rightarrow> string \<Rightarrow> (run_record, app_error) result" where
  "run_state w i = ok_or (find_run i (sw_document w)) stale"

definition update_run :: "string \<Rightarrow> (run_record \<Rightarrow> run_record) \<Rightarrow> strategy_document \<Rightarrow> strategy_document" where
  "update_run i f d = d\<lparr>sd_runs := map_first (\<lambda>r. run_id r = i) f (sd_runs d)\<rparr>"

definition mark ::
  "strategy_env \<Rightarrow> readings \<Rightarrow> string \<Rightarrow> strategy_status \<Rightarrow> string \<Rightarrow> strategy_world \<Rightarrow> strategy_world" where
  "mark E rd i status reason w =
     (if find_run i (sw_document w) = None then w
      else snd (save E rd (update_run i (set_status status (Some reason)) (sw_document w)) w))"

section \<open>Authorisation\<close>

text \<open>
  \<^verbatim>\<open>access\<close>: \<open>seen\<close> is what it read before waiting for the gate, the admission epoch or a refusal.
\<close>

record strategy_access =
  sa_request :: authority_request
  sa_account :: plugin_account
  sa_requested_capabilities :: "string list"
  sa_authorization_token :: string
  sa_expires_at_ms :: string

definition access ::
  "strategy_env \<Rightarrow> readings \<Rightarrow> authority_request \<Rightarrow> (u64, app_error) result \<Rightarrow> strategy_world
     \<Rightarrow> (strategy_access, app_error) result \<times> strategy_world" where
  "access E rd request seen w =
     (case bind_result (err_as (strategy_error ''plugin_strategy_invalid_request'') (authority_request_validate request)) (\<lambda>_.
           bind_result seen (\<lambda>seen.
           bind_result (rd_capture rd request) (\<lambda>captured.
           bind_result (rd_epoch rd) (\<lambda>epoch.
           bind_result (err_as stale (rd_authority rd)) (\<lambda>authority.
           bind_result (err_as (strategy_error ''plugin_strategy_unavailable'') (rd_scope rd)) (\<lambda>scope.
           bind_result (ok_or (checked_add_u64 (rd_wall rd) 60000) (strategy_error ''plugin_strategy_unavailable'')) (\<lambda>expiry.
           bind_result (store_ready w) (\<lambda>_.
           bind_result (admission_epoch w) (\<lambda>admission.
             if admission \<noteq> seen then Err stale
             else Ok (captured, epoch, authority, scope, expiry, admission)))))))))) of
        Err e \<Rightarrow> (Err e, w)
      | Panic \<Rightarrow> (Panic, w)
      | Ok (captured, epoch, authority, scope, expiry, admission) \<Rightarrow>
          (let token = se_uuid E (sw_drawn w);
               w = w\<lparr>sw_drawn := Suc (sw_drawn w),
                     sw_tickets := filter (\<lambda>(_, t). rd_instant rd < tk_deadline t) (sw_tickets w)\<rparr> in
           if 32 \<le> length (sw_tickets w) then (Err (strategy_error ''plugin_strategy_capacity''), w)
           else
             (Ok \<lparr>sa_request = request, sa_account = au_account authority,
                  sa_requested_capabilities = cs_requested captured, sa_authorization_token = token,
                  sa_expires_at_ms = u64_to_string expiry\<rparr>,
              w\<lparr>sw_tickets := btree_insert token
                 \<lparr>tk_request = request, tk_captured = captured, tk_authority = authority, tk_scope = scope,
                  tk_epoch = epoch, tk_admission = admission, tk_deadline = rd_instant rd + 60000000000\<rparr>
                 (sw_tickets w)\<rparr>)))"

section \<open>Starting\<close>

text \<open>\<^verbatim>\<open>start\<close>: the ticket is consumed; the rest waits for the operation gate.\<close>

definition start_take ::
  "strategy_env \<Rightarrow> strategy_start_request \<Rightarrow> strategy_world \<Rightarrow> (unit, app_error) result \<times> strategy_world" where
  "start_take E request w =
     (case bind_result (start_request_validate E request) (\<lambda>_.
           bind_result (store_ready w) (\<lambda>_.
           ok_or (map_of (sw_tickets w) (sq_authorization_token request))
             (strategy_error ''plugin_strategy_token_invalid''))) of
        Err e \<Rightarrow> (Err e, w)
      | Panic \<Rightarrow> (Panic, w)
      | Ok t \<Rightarrow> (Ok (), w\<lparr>sw_tickets := btree_remove (sq_authorization_token request) (sw_tickets w),
                            sw_requested := (t, request) # sw_requested w\<rparr>))"

definition start_binding ::
  "readings \<Rightarrow> ticket \<Rightarrow> strategy_start_request
     \<Rightarrow> (captured_strategy \<times> account_authority \<times> string, app_error) result" where
  "start_binding rd t request =
     bind_result (rd_capture rd (tk_request t)) (\<lambda>captured.
     bind_result (err_as stale (rd_authority rd)) (\<lambda>authority.
     bind_result (err_as stale (rd_scope rd)) (\<lambda>scope.
       if tk_deadline t \<le> rd_instant rd then Err stale
       else bind_result (rd_epoch rd) (\<lambda>epoch.
         if tk_epoch t \<noteq> epoch \<or> cs_identity captured \<noteq> cs_identity (tk_captured t)
            \<or> authority \<noteq> tk_authority t \<or> scope \<noteq> tk_scope t
            \<or> \<not> set (sq_capabilities request) \<subseteq> set (cs_requested captured)
         then Err stale else Ok (captured, authority, scope)))))"

text \<open>The account already has a live run, or an unresolved outcome.\<close>

definition account_blocked :: "strategy_world \<Rightarrow> plugin_account \<Rightarrow> run_record \<Rightarrow> bool" where
  "account_blocked w account r \<longleftrightarrow>
     (map_of (sw_live w) (run_id r) \<noteq> None \<and> ac_account_id (rv_account (rr_view r)) = ac_account_id account)
     \<or> (rr_pending r \<noteq> None \<and> ac_account_id (rv_account (rr_view r)) = ac_account_id account
        \<and> ac_environment (rv_account (rr_view r)) = ac_environment account)"

definition resumable ::
  "readings \<Rightarrow> ticket \<Rightarrow> strategy_start_request \<Rightarrow> captured_strategy \<Rightarrow> account_authority \<Rightarrow> string
     \<Rightarrow> run_record \<Rightarrow> (unit, app_error) result" where
  "resumable rd t request captured authority scope r =
     (let v = rr_view r in
      if rv_status v \<notin> {RunPaused, RunStopped, RunFaulted} \<or> rr_pending r \<noteq> None
         \<or> rr_fingerprint r \<noteq> pi_approval_fingerprint (cs_identity captured)
         \<or> rr_scope r \<noteq> scope
         \<or> rv_plugin_id v \<noteq> ar_plugin_id (tk_request t)
         \<or> rv_contribution_id v \<noteq> ar_contribution_id (tk_request t)
         \<or> ac_account_id (rv_account v) \<noteq> ac_account_id (au_account authority)
         \<or> ac_environment (rv_account v) \<noteq> ac_environment (au_account authority)
         \<or> rv_symbol v \<noteq> sq_symbol request \<or> rv_input_json v \<noteq> sq_input_json request
         \<or> rv_capabilities v \<noteq> sq_capabilities request \<or> rv_policy v \<noteq> sq_policy request
      then Err stale
      else bind_result (counter (rr_last_observed_at_ms r)) (\<lambda>seen.
           bind_result (counter (rv_expires_at_ms v)) (\<lambda>expiry.
             if rd_wall rd < seen \<or> expiry \<le> rd_wall rd
                \<or> sp_max_actions (rv_policy v) \<le> rv_actions_submitted v
             then Err stale else Ok ())))"

definition new_run ::
  "strategy_env \<Rightarrow> readings \<Rightarrow> ticket \<Rightarrow> strategy_start_request \<Rightarrow> captured_strategy \<Rightarrow> account_authority
     \<Rightarrow> string \<Rightarrow> string \<Rightarrow> u64 \<Rightarrow> run_record" where
  "new_run E rd t request captured authority scope i expiry =
     \<lparr>rr_view =
        \<lparr>rv_schema_version = 1, rv_run_id = i, rv_request_id = sq_request_id request,
         rv_plugin_id = ar_plugin_id (tk_request t), rv_contribution_id = ar_contribution_id (tk_request t),
         rv_account = au_account authority, rv_symbol = sq_symbol request, rv_status = RunRunning,
         rv_reason = None, rv_policy = sq_policy request, rv_capabilities = sq_capabilities request,
         rv_input_json = sq_input_json request, rv_started_at_ms = u64_to_string (rd_wall rd),
         rv_expires_at_ms = u64_to_string expiry, rv_sequence = ''0'', rv_actions_submitted = 0,
         rv_total_submitted_qty = ''0'', rv_last_message = [], rv_last_receipt = None\<rparr>,
      rr_fingerprint = pi_approval_fingerprint (cs_identity captured), rr_scope = scope,
      rr_state = JObject [], rr_owned = [], rr_pending = None,
      rr_last_observed_at_ms = u64_to_string (rd_wall rd)\<rparr>"

text \<open>The document with the run that starts, its index, and how many identifiers were drawn.\<close>

definition start_document ::
  "strategy_env \<Rightarrow> readings \<Rightarrow> ticket \<Rightarrow> strategy_start_request \<Rightarrow> captured_strategy \<Rightarrow> account_authority
     \<Rightarrow> string \<Rightarrow> strategy_world \<Rightarrow> (strategy_document \<times> nat \<times> nat, app_error) result" where
  "start_document E rd t request captured authority scope w =
     (let d = sw_document w in
      bind_result
        (case sq_resume_run_id request of
           Some i \<Rightarrow>
             bind_result (ok_or (find (\<lambda>k. run_id (sd_runs d ! k) = i) [0..<length (sd_runs d)])
               (strategy_error ''plugin_strategy_invalid_request'')) (\<lambda>index.
             bind_result (resumable rd t request captured authority scope (sd_runs d ! index)) (\<lambda>_.
               Ok (d, index, 0)))
         | None \<Rightarrow>
             if 32 \<le> length (sd_runs d) then Err (strategy_error ''plugin_strategy_capacity'')
             else bind_result
               (ok_or (checked_add_u64 (rd_wall rd) (sp_max_run_seconds (sq_policy request) * 1000))
                 (strategy_error ''plugin_strategy_invalid_request'')) (\<lambda>expiry.
               Ok (d\<lparr>sd_runs := sd_runs d @ [new_run E rd t request captured authority scope
                       (se_uuid E (sw_drawn w)) expiry]\<rparr>, length (sd_runs d), 1)))
        (\<lambda>(d, index, drawn).
          Ok (d\<lparr>sd_runs := (sd_runs d)[index := (let r = sd_runs d ! index in
                r\<lparr>rr_view := (rr_view r)\<lparr>rv_status := RunRunning, rv_reason := None,
                    rv_request_id := sq_request_id request, rv_account := au_account authority\<rparr>\<rparr>)]\<rparr>,
              index, drawn)))"

text \<open>
  \<^verbatim>\<open>start_owned\<close>, up to its save.  On success the mutex stays locked and the run is not yet live.
\<close>

definition start_prepare ::
  "strategy_env \<Rightarrow> readings \<Rightarrow> ticket \<Rightarrow> strategy_start_request \<Rightarrow> strategy_world
     \<Rightarrow> (unit, app_error) result \<times> strategy_world" where
  "start_prepare E rd t request w =
     (case bind_result (start_binding rd t request) (\<lambda>(captured, authority, scope).
           bind_result (store_ready w) (\<lambda>_.
           bind_result (admission_epoch w) (\<lambda>admission.
             if admission \<noteq> tk_admission t
                \<or> list_ex (\<lambda>r. rv_request_id (rr_view r) = sq_request_id request) (sd_runs (sw_document w))
                \<or> 4 \<le> length (sw_live w)
             then Err stale
             else if list_ex (account_blocked w (au_account authority)) (sd_runs (sw_document w))
             then Err (strategy_error ''plugin_strategy_recovery_required'')
             else bind_result (start_document E rd t request captured authority scope w) (\<lambda>(d, index, drawn).
               bind_result (counter (rv_expires_at_ms (rr_view (sd_runs d ! index)))) (\<lambda>expiry.
                 Ok (captured, authority, d, index, drawn, expiry)))))) of
        Err e \<Rightarrow> (Err e, w)
      | Panic \<Rightarrow> (Panic, w)
      | Ok (captured, authority, d, index, drawn, expiry) \<Rightarrow>
          (let i = run_id (sd_runs d ! index);
               live = \<lparr>lv_request = tk_request t, lv_captured = captured, lv_authority = authority,
                       lv_epoch = tk_epoch t, lv_intent = 0,
                       lv_deadline = rd_instant rd + unat (expiry - rd_wall rd) * 1000000,
                       lv_last_wall = rd_wall rd, lv_clock_anchor = rd_instant rd,
                       lv_wall_anchor_ms = rd_wall rd,
                       lv_phase = AtLoop (if sq_resume_run_id request = None then ''start'' else ''update'') True\<rparr>;
               (saved, w) = save E rd d (w\<lparr>sw_drawn := sw_drawn w + drawn\<rparr>) in
           case saved of
             Ok _ \<Rightarrow> (Ok (), w\<lparr>sw_starting := Some \<lparr>ss_ticket = t, ss_index = index, ss_run_id = i, ss_live = live\<rparr>\<rparr>)
           | Err e \<Rightarrow> (Err e, w)
           | Panic \<Rightarrow> (Panic, w)))"

text \<open>The rest of \<^verbatim>\<open>start_owned\<close>: a revocation during the save withdraws the run before it is live.\<close>

definition start_publish ::
  "strategy_env \<Rightarrow> readings \<Rightarrow> start_state \<Rightarrow> strategy_world \<Rightarrow> (strategy_run_view, app_error) result \<times> strategy_world" where
  "start_publish E rd ss w =
     (let w = w\<lparr>sw_starting := None\<rparr> in
      if admission_epoch w \<noteq> Ok (tk_admission (ss_ticket ss)) then
        (let d = sw_document w;
             (saved, w) = save E rd (d\<lparr>sd_runs := (sd_runs d)[ss_index ss :=
               set_status RunStopped (Some ''plugin_strategy_stopped'') (sd_runs d ! ss_index ss)]\<rparr>) w in
         (case saved of Ok _ \<Rightarrow> Err stale | Err e \<Rightarrow> Err e | Panic \<Rightarrow> Panic, w))
      else (Ok (rr_view (sd_runs (sw_document w) ! ss_index ss)),
            w\<lparr>sw_live := btree_insert (ss_run_id ss) (ss_live ss) (sw_live w)\<rparr>))"

section \<open>Control\<close>

definition revoke_intent ::
  "bool \<Rightarrow> string option \<Rightarrow> strategy_world \<Rightarrow> (unit, app_error) result \<times> strategy_world" where
  "revoke_intent stop i w =
     (case checked_add_u64 (sw_admission w) 1 of
        None \<Rightarrow> (Err (strategy_error ''plugin_strategy_unavailable''), w)
      | Some a \<Rightarrow> (Ok (), w\<lparr>sw_admission := a,
           sw_live := map (\<lambda>(j, l). (j, if i = None \<or> i = Some j then revoke stop l else l)) (sw_live w)\<rparr>))"

text \<open>\<^verbatim>\<open>control\<close> and \<^verbatim>\<open>stop_all\<close> up to their lock.\<close>

definition control_accept ::
  "strategy_env \<Rightarrow> strategy_control_request \<Rightarrow> strategy_world \<Rightarrow> (unit, app_error) result \<times> strategy_world" where
  "control_accept E request w =
     (if \<not> se_uuid_ok E (cq_run_id request)
      then (Err (strategy_error ''plugin_strategy_invalid_request''), w)
      else case revoke_intent (cq_action request = ControlStop) (Some (cq_run_id request)) w of
        (Ok _, w) \<Rightarrow> (Ok (), w\<lparr>sw_controls := AcceptedControl (cq_run_id request) (cq_action request) # sw_controls w\<rparr>)
      | (r, w) \<Rightarrow> (r, w))"

definition stop_all_accept :: "strategy_world \<Rightarrow> (unit, app_error) result \<times> strategy_world" where
  "stop_all_accept w =
     (case revoke_intent True None w of
        (Ok _, w) \<Rightarrow> (Ok (), w\<lparr>sw_controls := AcceptedStopAll # sw_controls w\<rparr>)
      | (r, w) \<Rightarrow> (r, w))"

definition revoke_for_exit :: "strategy_world \<Rightarrow> strategy_world" where
  "revoke_for_exit w = snd (revoke_intent True None (w\<lparr>sw_closed := True\<rparr>))"

definition control_reason :: "bool \<Rightarrow> string option" where
  "control_reason stop = Some (if stop then ''plugin_strategy_stopped'' else ''plugin_strategy_paused'')"

definition control_run :: "strategy_world \<Rightarrow> bool \<Rightarrow> run_record \<Rightarrow> run_record" where
  "control_run w stop r =
     (if map_of (sw_live w) (run_id r) \<noteq> None then set_status RunStopping (control_reason stop) r
      else if rr_pending r \<noteq> None then set_status RunRecoveryRequired (Some ''plugin_strategy_recovery_required'') r
      else if rv_status (rr_view r) \<noteq> RunCompleted
      then set_status (if stop then RunStopped else RunPaused) (control_reason stop) r
      else r)"

definition control_locked ::
  "strategy_env \<Rightarrow> readings \<Rightarrow> string \<Rightarrow> control_action \<Rightarrow> strategy_world
     \<Rightarrow> (strategy_run_view, app_error) result \<times> strategy_world" where
  "control_locked E rd i action w =
     (let w = w\<lparr>sw_tickets := []\<rparr> in
      case find_run i (sw_document w) of
        None \<Rightarrow> (Err (strategy_error ''plugin_strategy_invalid_request''), w)
      | Some _ \<Rightarrow>
          (let (saved, w) = save E rd (update_run i (control_run w (action = ControlStop)) (sw_document w)) w in
           (bind_result saved (\<lambda>_. bind_result (run_state w i) (\<lambda>r. Ok (rr_view r))), w)))"

definition stop_run :: "strategy_world \<Rightarrow> run_record \<Rightarrow> run_record" where
  "stop_run w r =
     (if map_of (sw_live w) (run_id r) \<noteq> None then set_status RunStopping (Some ''plugin_strategy_stopped'') r
      else if rr_pending r \<noteq> None then set_status RunRecoveryRequired (Some ''plugin_strategy_recovery_required'') r
      else if rv_status (rr_view r) \<notin> {RunCompleted, RunStopped}
      then set_status RunStopped (Some ''plugin_strategy_stopped'') r
      else r)"

definition stop_all_locked ::
  "strategy_env \<Rightarrow> readings \<Rightarrow> strategy_world \<Rightarrow> (strategy_run_view list, app_error) result \<times> strategy_world" where
  "stop_all_locked E rd w =
     (let w = w\<lparr>sw_tickets := []\<rparr>; d = sw_document w in
      if sd_runs d = [] then (strategy_list w, w)
      else (let (saved, w) = save E rd (d\<lparr>sd_runs := map (stop_run w) (sd_runs d)\<rparr>) w in
            (bind_result saved (\<lambda>_. strategy_list w), w)))"

section \<open>The end of a worker\<close>

definition finish_run :: "live_run \<Rightarrow> run_record \<Rightarrow> run_record" where
  "finish_run l r =
     (if rr_pending r \<noteq> None then
        set_status RunRecoveryRequired
          (if rv_reason (rr_view r) = None \<or> rv_reason (rr_view r) = Some ''plugin_strategy_stopped''
           then Some ''plugin_strategy_recovery_required'' else rv_reason (rr_view r)) r
      else if 0 < lv_intent l \<and> rv_status (rr_view r) \<notin> {RunFaulted, RunCompleted}
      then set_status (if lv_intent l = 2 then RunStopped else RunPaused) (control_reason (lv_intent l = 2)) r
      else r)"

definition finish :: "strategy_env \<Rightarrow> readings \<Rightarrow> string \<Rightarrow> strategy_world \<Rightarrow> strategy_world" where
  "finish E rd i w =
     (case map_of (sw_live w) i of
        None \<Rightarrow> w
      | Some l \<Rightarrow>
          (let w = (if sw_unavailable w then w
                    else snd (save E rd (update_run i (finish_run l) (sw_document w)) w)) in
           w\<lparr>sw_live := btree_remove i (sw_live w)\<rparr>))"

end
