(* ===== verification/Strategy_Execution.thy ===== *)
theory Strategy_Execution
  imports Strategy_Supervisor Submit_Once
begin

text \<open>
  \<^verbatim>\<open>plugin/strategy/execution.rs\<close> and \<^verbatim>\<open>plugin/strategy/recovery.rs\<close>: the worker of a run, from a
  turn of its loop to the accounting of the host's answer, and the reconciliation of an
  unresolved outcome.

  A worker's turn is cut where it awaits: taking the data (\<open>begin_pass\<close>), the guest's output
  (\<open>guest_done\<close>), the decision that stores an intent (\<open>decide\<close>), the check after the store
  (\<open>recheck\<close>), the admission at the hand-off (\<open>hand_off\<close>), the host's answer (\<open>respond\<close>), the
  acknowledgement (\<open>acknowledge\<close>).  The guest, the host's answers and the size of the context
  passed to the guest are inputs.
\<close>

section \<open>Requests\<close>

definition placement :: "place_proposal \<Rightarrow> string \<Rightarrow> place_order_request" where
  "placement ord i =
     \<lparr>r_symbol = pl_symbol ord, r_side = pl_side ord, r_order_type = pl_order_type ord, r_qty = pl_qty ord,
      r_position_idx = pl_position_idx ord, r_price = pl_price ord,
      r_time_in_force = Some (pl_time_in_force ord), r_order_link_id = Some i,
      r_reduce_only = Some (pl_reduce_only ord), r_protection = None\<rparr>"

definition canonical_placement ::
  "place_proposal \<Rightarrow> string \<Rightarrow> order_protection option \<Rightarrow> (place_order_request, app_error) result" where
  "canonical_placement ord i protection =
     bind_result (or_panic (map_of
       [(''GTC'', ''GoodTillCancel''), (''IOC'', ''ImmediateOrCancel''), (''FOK'', ''FillOrKill'')]
       (pl_time_in_force ord))) (\<lambda>tif.
     Ok ((placement ord i)\<lparr>r_time_in_force := Some tif, r_protection := protection\<rparr>))"

section \<open>What an action must satisfy\<close>

abbreviation limit_reached :: app_error where
  "limit_reached \<equiv> strategy_error ''plugin_strategy_limit_reached''"

abbreviation bad_output :: app_error where
  "bad_output \<equiv> strategy_error ''plugin_strategy_invalid_output''"

text \<open>The total after one more quantity.\<close>

definition charged_total :: "strategy_env \<Rightarrow> run_record \<Rightarrow> rat \<Rightarrow> (rat, app_error) result" where
  "charged_total E r qty =
     bind_result (ok_or (dec_from_str_exact (se_dec E) (rv_total_submitted_qty (rr_view r))) limit_reached) (\<lambda>total.
     ok_or (se_add E total qty) limit_reached)"

definition exceeds ::
  "strategy_env \<Rightarrow> run_record \<Rightarrow> rat \<Rightarrow> rat \<Rightarrow> (bool, app_error) result" where
  "exceeds E r qty charged =
     bind_result (strategy_quantity (se_dec E) (sp_max_order_qty (rv_policy (rr_view r)))) (\<lambda>max_order.
     if max_order < qty then Ok True
     else bind_result (strategy_quantity (se_dec E) (sp_max_total_qty (rv_policy (rr_view r)))) (\<lambda>max_total.
       Ok (max_total < charged)))"

definition validate_place_action ::
  "strategy_env \<Rightarrow> place_proposal \<Rightarrow> run_record \<Rightarrow> (strategy_action, app_error) result" where
  "validate_place_action E ord r =
     bind_result (err_as bad_output (validate_place (se_dec E) ord (rv_symbol (rr_view r)) (rv_capabilities (rr_view r)))) (\<lambda>ord.
     bind_result (strategy_quantity (se_dec E) (pl_qty ord)) (\<lambda>qty.
     bind_result (charged_total E r qty) (\<lambda>total.
     bind_result (exceeds E r qty total) (\<lambda>over.
       if over \<or> (sp_reduce_only (rv_policy (rr_view r)) \<and> \<not> pl_reduce_only ord) then Err limit_reached
       else Ok (ActPlace ord)))))"

definition validate_cancel_action ::
  "cancel_proposal \<Rightarrow> run_record \<Rightarrow> snapshot \<Rightarrow> (strategy_action, app_error) result" where
  "validate_cancel_action ord r sn =
     (if \<not> (case map_of (rr_owned r) (cn_order_id ord) of None \<Rightarrow> False | Some ow \<Rightarrow> \<not> ow_cancel_requested ow)
      then Err bad_output
      else bind_result (err_as bad_output
        (validate_cancel ord (rv_symbol (rr_view r)) (rv_capabilities (rr_view r)) (sn_orders sn))) (\<lambda>ord.
        Ok (ActCancel ord)))"

definition validate_protected_action ::
  "strategy_env \<Rightarrow> place_proposal \<Rightarrow> order_protection \<Rightarrow> run_record \<Rightarrow> snapshot
     \<Rightarrow> (strategy_action, app_error) result" where
  "validate_protected_action E ord protection r sn =
     (if \<not> run_has r ''trade.protect'' \<or> sp_reduce_only (rv_policy (rr_view r)) \<or> pl_reduce_only ord
      then Err bad_output
      else bind_result (err_as bad_output (validate_place (se_dec E) ord (rv_symbol (rr_view r)) (rv_capabilities (rr_view r)))) (\<lambda>ord.
        bind_result (ok_or (sn_market sn) bad_output) (\<lambda>market.
        bind_result (protection_validate (se_dec E) protection (pl_side ord) (pl_price ord)
          (if trigger_by protection = ''LastPrice'' then qt_last_price (ms_ticker market)
           else qt_mark_price (ms_ticker market))) (\<lambda>protection.
        bind_result (strategy_quantity (se_dec E) (pl_qty ord)) (\<lambda>qty.
        bind_result (charged_total E r qty) (\<lambda>total.
        bind_result (exceeds E r qty total) (\<lambda>over.
          if over then Err limit_reached else Ok (ActProtected ord protection))))))))"

text \<open>The only visible order with the amended identifier, and what may change of it.\<close>

definition amend_target ::
  "strategy_env \<Rightarrow> amend_proposal \<Rightarrow> place_order_request \<Rightarrow> run_record \<Rightarrow> order
     \<Rightarrow> (strategy_action, app_error) result" where
  "amend_target E ord original r target =
     (let D = se_dec E in
      if o_order_link_id target \<noteq> r_order_link_id original \<or> o_side target \<noteq> r_side original
         \<or> o_order_type target \<noteq> ''Limit'' \<or> o_status target \<notin> {OrderNew, OrderPartiallyFilled}
      then Err bad_output
      else bind_result (strategy_quantity D (am_qty ord)) (\<lambda>new_qty.
        bind_result (strategy_quantity D (o_qty target)) (\<lambda>current_qty.
        bind_result (ok_or (dec_from_str_exact D (o_filled_qty target)) bad_output) (\<lambda>filled.
        bind_result (strategy_quantity D (am_price ord)) (\<lambda>new_price.
        bind_result (strategy_quantity D (o_price target)) (\<lambda>current_price.
        bind_result (charged_total E r new_qty) (\<lambda>total.
          if current_qty < new_qty \<or> new_qty \<le> filled \<or> (new_qty = current_qty \<and> new_price = current_price)
          then Err bad_output
          else bind_result (exceeds E r new_qty total) (\<lambda>over.
            if over then Err bad_output else Ok (ActAmend ord)))))))))"

definition validate_amend_action ::
  "strategy_env \<Rightarrow> amend_proposal \<Rightarrow> run_record \<Rightarrow> snapshot \<Rightarrow> (strategy_action, app_error) result" where
  "validate_amend_action E ord r sn =
     (let D = se_dec E in
      if \<not> run_has r ''trade.amend'' then Err bad_output
      else bind_result (amend_validate D ord (rv_symbol (rr_view r))) (\<lambda>ord.
        bind_result (ok_or (Option.bind (map_of (rr_owned r) (am_order_id ord))
          (\<lambda>ow. if ow_cancel_requested ow then None else ow_placement ow)) bad_output) (\<lambda>original.
        if r_order_type original \<noteq> ''Limit'' then Err bad_output
        else bind_result (validate_amend_entry D original (am_price ord)) (\<lambda>_.
          bind_result (ok_or (sn_orders sn) bad_output) (\<lambda>orders.
          case filter (\<lambda>v. o_order_id v = am_order_id ord) (sec_items orders) of
            [target] \<Rightarrow> amend_target E ord original r target
          | _ \<Rightarrow> Err bad_output)))))"

definition validate_action ::
  "strategy_env \<Rightarrow> strategy_action \<Rightarrow> run_record \<Rightarrow> snapshot \<Rightarrow> (strategy_action, app_error) result" where
  "validate_action E action r sn =
     (if action = ActNone \<or> action = ActStop then Ok action
      else if sp_max_actions (rv_policy (rr_view r)) \<le> rv_actions_submitted (rr_view r) then Err limit_reached
      else case action of
        ActPlace ord \<Rightarrow> validate_place_action E ord r
      | ActCancel ord \<Rightarrow> validate_cancel_action ord r sn
      | ActProtected ord protection \<Rightarrow> validate_protected_action E ord protection r sn
      | ActAmend ord \<Rightarrow> validate_amend_action E ord r sn
      | _ \<Rightarrow> Panic)"

section \<open>Checks of a worker\<close>

definition clock_check :: "readings \<Rightarrow> run_record \<Rightarrow> live_run \<Rightarrow> (unit, string) result \<times> live_run" where
  "clock_check rd r l =
     (let now = rd_wall rd; last_seen = lv_last_wall l; l = l\<lparr>lv_last_wall := max last_seen now\<rparr> in
      (if now < last_seen then Err ''plugin_strategy_stale''
       else if lv_deadline l \<le> rd_instant rd then Err ''plugin_strategy_expired''
       else bind_result (err_as ''plugin_strategy_stale'' (counter (rv_expires_at_ms (rr_view r)))) (\<lambda>expiry.
         if expiry \<le> now then Err ''plugin_strategy_expired'' else Ok ()), l))"

definition check_binding :: "readings \<Rightarrow> live_run \<Rightarrow> (unit, app_error) result" where
  "check_binding rd l =
     (if \<not> admitted l then Err stale
      else bind_result (rd_epoch rd) (\<lambda>epoch.
        if epoch \<noteq> lv_epoch l then Err stale
        else bind_result (rd_capture rd (lv_request l)) (\<lambda>current.
          bind_result (err_as stale (rd_authority rd)) (\<lambda>authority.
            if cs_identity current \<noteq> cs_identity (lv_captured l) \<or> authority \<noteq> lv_authority l
            then Err stale else Ok ()))))"

definition check_dispatch ::
  "readings \<Rightarrow> run_record \<Rightarrow> nat \<Rightarrow> u64 \<Rightarrow> live_run \<Rightarrow> (unit, app_error) result \<times> live_run" where
  "check_dispatch rd r observed observed_wall l =
     (let (checked, l) = clock_check rd r l in
      (bind_result (map_err strategy_error checked) (\<lambda>_.
        if 30000000000 < rd_instant rd - observed
           \<or> (case checked_sub_u64 (rd_wall rd) observed_wall of None \<Rightarrow> True | Some age \<Rightarrow> 30000 < age)
        then Err (strategy_error ''plugin_strategy_data_unavailable'')
        else bind_result (rd_epoch rd) (\<lambda>epoch.
          if epoch \<noteq> lv_epoch l \<or> \<not> admitted l then Err stale else Ok ())), l))"

text \<open>\<^verbatim>\<open>fresh\<close>: a snapshot taken within thirty seconds, by both clocks.\<close>

definition fresh ::
  "strategy_env \<Rightarrow> host_data \<Rightarrow> readings \<Rightarrow> readings \<Rightarrow> live_run \<Rightarrow> run_record \<Rightarrow> (snapshot, app_error) result" where
  "fresh E h rd rd' l r =
     (let unavailable = strategy_error ''plugin_strategy_data_unavailable'' in
      if 30000000000 < rd_instant rd' - rd_instant rd then Err unavailable
      else bind_result (err_as unavailable (snapshot_locked (se_dec E) h (au_account (lv_authority l))
        (rv_symbol (rr_view r)) (rv_capabilities (rr_view r)))) (\<lambda>sn.
        case checked_sub_u64 (rd_wall rd') (rd_wall rd) of
          None \<Rightarrow> Err unavailable
        | Some elapsed \<Rightarrow> if 30000 < elapsed then Err unavailable else Ok sn))"

section \<open>The loop of a worker\<close>

definition plugin_code :: "app_error \<Rightarrow> string option" where
  "plugin_code e = (case e of EPlugin code _ _ \<Rightarrow> Some code | _ \<Rightarrow> None)"

definition waiting :: "decision \<Rightarrow> readings \<Rightarrow> worker_phase" where
  "waiting de rd =
     Waiting ''timer'' False (rd_instant rd) (rd_wall rd) (sp_interval_ms (rv_policy (rr_view (de_record de))))"

text \<open>
  A turn that found the gate or the compute slot busy did not call the guest: the event it was
  to be called with is kept while the guest has not been called at all.
\<close>

definition waiting_busy :: "string \<Rightarrow> bool \<Rightarrow> readings \<Rightarrow> run_record \<Rightarrow> worker_phase" where
  "waiting_busy event first rd r =
     Waiting (if first then event else ''timer'') first (rd_instant rd) (rd_wall rd) (sp_interval_ms (rv_policy (rr_view r)))"

text \<open>
  The first part of \<^verbatim>\<open>pass\<close>: the data of the decision.  \<open>lease\<close> is whether a compute slot was free,
  \<open>context_len\<close> the serialised size of the guest's context.
\<close>

definition pass_begin ::
  "strategy_env \<Rightarrow> readings \<Rightarrow> readings \<Rightarrow> host_data \<Rightarrow> bool \<Rightarrow> (string \<Rightarrow> snapshot \<Rightarrow> nat option) \<Rightarrow> bool
     \<Rightarrow> string \<Rightarrow> live_run \<Rightarrow> run_record \<Rightarrow> (decision, app_error) result" where
  "pass_begin E rd rd' h lease context_len busy event l r =
     (if rr_pending r \<noteq> None then Err (strategy_error ''plugin_strategy_recovery_required'')
      else if busy then Err (strategy_error ''plugin_strategy_busy'')
      else bind_result (check_binding rd l) (\<lambda>_.
        if \<not> lease then Err (strategy_error ''plugin_strategy_busy'')
        else if \<not> admitted l then Err stale
        else bind_result (fresh E h rd rd' l r) (\<lambda>sn.
          bind_result (counter (rv_sequence (rr_view r))) (\<lambda>sequence.
          bind_result (ok_or (checked_add_u64 sequence 1) limit_reached) (\<lambda>sequence.
          let sequence = u64_to_string sequence in
          bind_result (ok_or (context_len sequence sn) bad_output) (\<lambda>size.
            if 65536 < size then Err (strategy_error ''plugin_strategy_data_unavailable'')
            else bind_result (err_as (strategy_error ''plugin_strategy_compute_failed'')
                (module_bytes E (cs_params (lv_captured l)))) (\<lambda>_.
              Ok \<lparr>de_event = event, de_record = r, de_snapshot = sn, de_sequence = sequence,
                  de_observed = rd_instant rd, de_observed_wall = rd_wall rd\<rparr>)))))))"

text \<open>The head of \<^verbatim>\<open>worker_loop\<close> and the first part of its \<^verbatim>\<open>pass\<close>.\<close>

definition begin_pass ::
  "strategy_env \<Rightarrow> readings \<Rightarrow> readings \<Rightarrow> host_data \<Rightarrow> bool \<Rightarrow> (string \<Rightarrow> snapshot \<Rightarrow> nat option)
     \<Rightarrow> string \<Rightarrow> string \<Rightarrow> bool \<Rightarrow> live_run \<Rightarrow> strategy_world \<Rightarrow> strategy_world" where
  "begin_pass E rd rd' h lease context_len i event first l w =
     (if \<not> admitted l then set_phase i Finishing w
      else case find_run i (sw_document w) of
        None \<Rightarrow> set_phase i Finishing w
      | Some r \<Rightarrow>
          (let (checked, l) = clock_check rd r l;
               w = set_live i (\<lambda>_. l) w in
           case checked of
             Ok _ \<Rightarrow>
               (case pass_begin E rd rd' h lease context_len (sw_busy w) event l r of
                  Ok de \<Rightarrow> (set_phase i (Computing de) w)
                    \<lparr>sw_trace := sw_trace w @ [GuestCalled i event (de_sequence de)]\<rparr>
                | Err e \<Rightarrow> set_phase i (if plugin_code e = Some ''plugin_strategy_busy''
                    then waiting_busy event first rd r else Failing e) w
                | Panic \<Rightarrow> set_phase i Finishing (mark E rd i RunFaulted ''plugin_strategy_unavailable'' w))
           | Err code \<Rightarrow> set_phase i Finishing (mark E rd i
               (if code = ''plugin_strategy_expired'' then RunCompleted else RunPaused) code w)
           | Panic \<Rightarrow> w))"

datatype guest_result = GuestFailed | GuestGarbled | GuestOutput strategy_output

definition guest_done ::
  "strategy_env \<Rightarrow> guest_result \<Rightarrow> string \<Rightarrow> decision \<Rightarrow> live_run \<Rightarrow> strategy_world \<Rightarrow> strategy_world" where
  "guest_done E g i de l w =
     set_phase i
       (case g of
          GuestFailed \<Rightarrow> Failing (strategy_error ''plugin_strategy_compute_failed'')
        | GuestGarbled \<Rightarrow> Failing bad_output
        | GuestOutput out \<Rightarrow>
            (case strategy_output_validate E out of
               Ok _ \<Rightarrow> if admitted l then Deciding de out else Failing stale
             | Err e \<Rightarrow> Failing e
             | Panic \<Rightarrow> Finishing)) w"

section \<open>Deciding\<close>

definition needs_fresh :: "strategy_action \<Rightarrow> bool" where
  "needs_fresh a = (case a of ActCancel _ \<Rightarrow> True | ActAmend _ \<Rightarrow> True | ActProtected _ _ \<Rightarrow> True | _ \<Rightarrow> False)"

text \<open>The checks of \<^verbatim>\<open>pass\<close> before the mutex: \<open>rd1\<close> and \<open>rd2\<close> are read before and after the fresh data.\<close>

definition decide_checks ::
  "strategy_env \<Rightarrow> readings \<Rightarrow> readings \<Rightarrow> host_data \<Rightarrow> decision \<Rightarrow> strategy_output \<Rightarrow> live_run
     \<Rightarrow> (strategy_action, app_error) result \<times> live_run" where
  "decide_checks E rd1 rd2 h de out l =
     (case check_binding rd1 l of
        Err e \<Rightarrow> (Err e, l) | Panic \<Rightarrow> (Panic, l)
      | Ok _ \<Rightarrow>
     (case check_dispatch rd1 (de_record de) (de_observed de) (de_observed_wall de) l of
        (Err e, l) \<Rightarrow> (Err e, l) | (Panic, l) \<Rightarrow> (Panic, l)
      | (Ok _, l) \<Rightarrow>
     (case (if needs_fresh (so_action out) then fresh E h rd1 rd2 l (de_record de) else Ok (de_snapshot de)) of
        Err e \<Rightarrow> (Err e, l) | Panic \<Rightarrow> (Panic, l)
      | Ok sn \<Rightarrow>
     (case check_binding rd2 l of
        Err e \<Rightarrow> (Err e, l) | Panic \<Rightarrow> (Panic, l)
      | Ok _ \<Rightarrow>
     (case check_dispatch rd2 (de_record de) (de_observed de) (de_observed_wall de) l of
        (Err e, l) \<Rightarrow> (Err e, l) | (Panic, l) \<Rightarrow> (Panic, l)
      | (Ok _, l) \<Rightarrow> (validate_action E (so_action out) (de_record de) sn, l))))))"

definition charge :: "strategy_env \<Rightarrow> string \<Rightarrow> run_record \<Rightarrow> (run_record, app_error) result" where
  "charge E qty r =
     bind_result (ok_or (dec_from_str_exact (se_dec E) (rv_total_submitted_qty (rr_view r))) limit_reached) (\<lambda>total.
     bind_result (strategy_quantity (se_dec E) qty) (\<lambda>q.
     bind_result (ok_or (se_add E total q) limit_reached) (\<lambda>total.
       Ok (r\<lparr>rr_view := (rr_view r)\<lparr>rv_total_submitted_qty := dec_normalized (se_dec E) total\<rparr>\<rparr>))))"

text \<open>The record with the intent of an action, and the identifier of its submission.\<close>

definition intend ::
  "strategy_env \<Rightarrow> string \<Rightarrow> strategy_action \<Rightarrow> run_record \<Rightarrow> (run_record \<times> string option, app_error) result" where
  "intend E fresh_id action r =
     (if rv_actions_submitted (rr_view r) = - 1 then Err limit_reached
      else let r = r\<lparr>rr_view := (rr_view r)\<lparr>rv_actions_submitted := rv_actions_submitted (rr_view r) + 1\<rparr>\<rparr> in
        case action of
          ActPlace ord \<Rightarrow> bind_result (charge E (pl_qty ord) r) (\<lambda>r. Ok (r, Some fresh_id))
        | ActProtected ord _ \<Rightarrow> bind_result (charge E (pl_qty ord) r) (\<lambda>r. Ok (r, Some fresh_id))
        | ActCancel ord \<Rightarrow>
            if map_of (rr_owned r) (cn_order_id ord) = None then Err bad_output
            else Ok (r\<lparr>rr_owned := btree_modify (cn_order_id ord) (\<lambda>ow. ow\<lparr>ow_cancel_requested := True\<rparr>) (rr_owned r)\<rparr>, None)
        | ActAmend ord \<Rightarrow> bind_result (charge E (am_qty ord) r) (\<lambda>r. Ok (r, None))
        | _ \<Rightarrow> Panic)"

definition advance :: "readings \<Rightarrow> string \<Rightarrow> run_record \<Rightarrow> run_record" where
  "advance rd sequence r =
     r\<lparr>rr_view := (rr_view r)\<lparr>rv_sequence := sequence\<rparr>, rr_last_observed_at_ms := u64_to_string (rd_wall rd)\<rparr>"

definition note_output :: "json \<Rightarrow> string \<Rightarrow> run_record \<Rightarrow> run_record" where
  "note_output st message r = r\<lparr>rr_state := st, rr_view := (rr_view r)\<lparr>rv_last_message := message\<rparr>\<rparr>"

definition fail_pass :: "string \<Rightarrow> app_error \<Rightarrow> strategy_world \<Rightarrow> strategy_world" where
  "fail_pass i e w = set_phase i (Failing e) w"

text \<open>A panic of the worker is caught by \<^verbatim>\<open>worker\<close>, which marks the run.\<close>

definition panic_pass :: "strategy_env \<Rightarrow> readings \<Rightarrow> string \<Rightarrow> strategy_world \<Rightarrow> strategy_world" where
  "panic_pass E rd i w = set_phase i Finishing (mark E rd i RunFaulted ''plugin_strategy_unavailable'' w)"

text \<open>The section of \<^verbatim>\<open>pass\<close> under the mutex.\<close>

definition decide_locked ::
  "strategy_env \<Rightarrow> readings \<Rightarrow> string \<Rightarrow> decision \<Rightarrow> strategy_output \<Rightarrow> strategy_action \<Rightarrow> live_run
     \<Rightarrow> strategy_world \<Rightarrow> strategy_world" where
  "decide_locked E rd i de out action l w =
     (case bind_result (store_ready w) (\<lambda>_.
           bind_result (rd_epoch rd) (\<lambda>epoch.
             if \<not> admitted l \<or> epoch \<noteq> lv_epoch l then Err stale
             else bind_result (run_state w i) (\<lambda>r.
               if rv_sequence (rr_view r) \<noteq> rv_sequence (rr_view (de_record de)) \<or> rr_pending r \<noteq> None
               then Err stale else Ok (advance rd (de_sequence de) r)))) of
        Err e \<Rightarrow> fail_pass i e w
      | Panic \<Rightarrow> panic_pass E rd i w
      | Ok r \<Rightarrow>
          if action = ActNone \<or> action = ActStop then
            (let r = note_output (so_state out) (so_message out) r;
                 r = (if action = ActNone then r else set_status RunCompleted None r);
                 (saved, w) = save E rd (update_run i (\<lambda>_. r) (sw_document w)) w in
             case saved of
               Ok _ \<Rightarrow> set_phase i (if action = ActNone then waiting de rd else Finishing) w
             | Err e \<Rightarrow> fail_pass i e w
             | Panic \<Rightarrow> panic_pass E rd i w)
          else
            (case intend E (se_uuid E (sw_drawn w)) action r of
               Err e \<Rightarrow> fail_pass i e w
             | Panic \<Rightarrow> panic_pass E rd i w
             | Ok (r, submission) \<Rightarrow>
                 (let p = \<lparr>pa_sequence = de_sequence de, pa_action = action, pa_submission_id = submission,
                           pa_state = so_state out, pa_message = so_message out\<rparr>;
                      (saved, w) = save E rd (update_run i (\<lambda>_. r\<lparr>rr_pending := Some p\<rparr>) (sw_document w))
                        (w\<lparr>sw_drawn := Suc (sw_drawn w)\<rparr>) in
                  case saved of
                    Ok _ \<Rightarrow> (set_phase i (Prepared de p) w)\<lparr>sw_busy := True\<rparr>
                  | Err e \<Rightarrow> fail_pass i e w
                  | Panic \<Rightarrow> panic_pass E rd i w)))"

definition decide ::
  "strategy_env \<Rightarrow> readings \<Rightarrow> readings \<Rightarrow> readings \<Rightarrow> host_data \<Rightarrow> string \<Rightarrow> decision \<Rightarrow> strategy_output
     \<Rightarrow> live_run \<Rightarrow> strategy_world \<Rightarrow> strategy_world" where
  "decide E rd1 rd2 rd3 h i de out l w =
     (let (checked, l) = decide_checks E rd1 rd2 h de out l;
          w = set_live i (\<lambda>_. l) w in
      case checked of
        Err e \<Rightarrow> fail_pass i e w
      | Panic \<Rightarrow> panic_pass E rd2 i w
      | Ok action \<Rightarrow> decide_locked E rd3 i de out action l w)"

section \<open>Dispatch\<close>

text \<open>The request a stored intent stands for; the owner of an amended order is in the decision's record.\<close>

definition mutation_of ::
  "session_context \<Rightarrow> decision \<Rightarrow> pending_action \<Rightarrow> (mutation, app_error) result" where
  "mutation_of ctx de p =
     (let submit = (\<lambda>i. \<lparr>sc_submission_id = i, sc_account_id = ses_account_id ctx,
                         sc_session_epoch = ses_session_epoch ctx\<rparr>);
          unavailable = strategy_error ''plugin_strategy_unavailable'' in
      case pa_action p of
        ActPlace ord \<Rightarrow> bind_result (ok_or (pa_submission_id p) unavailable) (\<lambda>i.
          Ok (MutPlace (submit i) (placement ord i)))
      | ActProtected ord protection \<Rightarrow> bind_result (ok_or (pa_submission_id p) unavailable) (\<lambda>i.
          Ok (MutPlace (submit i) ((placement ord i)\<lparr>r_protection := Some protection\<rparr>)))
      | ActAmend ord \<Rightarrow>
          bind_result (ok_or (Option.bind (map_of (rr_owned (de_record de)) (am_order_id ord)) ow_placement) bad_output)
            (\<lambda>original. Ok (MutAmend ctx ord original))
      | ActCancel ord \<Rightarrow> Ok (MutCancel ctx (cn_symbol ord) (cn_order_id ord))
      | _ \<Rightarrow> Panic)"

definition run_context :: "live_run \<Rightarrow> (session_context, app_error) result" where
  "run_context l =
     bind_result (counter (ac_session_epoch (au_account (lv_authority l)))) (\<lambda>epoch.
       Ok \<lparr>ses_account_id = ac_account_id (au_account (lv_authority l)), ses_session_epoch = epoch\<rparr>)"

section \<open>Accounting of an answer\<close>

record order_acknowledgement =
  ak_order_id :: string
  ak_order_link_id :: "string option"

datatype mutation_response = RespOrder order | RespAck order_acknowledgement

definition quantity_of :: "decimal_api \<Rightarrow> string \<Rightarrow> rat option" where
  "quantity_of D s = (case strategy_quantity D s of Ok q \<Rightarrow> Some q | _ \<Rightarrow> None)"

definition matches_place :: "decimal_api \<Rightarrow> pending_action \<Rightarrow> place_proposal \<Rightarrow> order \<Rightarrow> bool" where
  "matches_place D p ord v \<longleftrightarrow>
     is_ok (host_validate_order D v (pl_symbol ord)) \<and> o_order_link_id v = pa_submission_id p
     \<and> o_side v = pl_side ord \<and> o_order_type v = pl_order_type ord
     \<and> quantity_of D (o_qty v) = quantity_of D (pl_qty ord)
     \<and> (pl_order_type ord \<noteq> ''Limit''
        \<or> dec_from_str D (o_price v) = Option.bind (pl_price ord) (dec_from_str D))"

definition matches_response :: "decimal_api \<Rightarrow> pending_action \<Rightarrow> order \<Rightarrow> bool" where
  "matches_response D p v \<longleftrightarrow>
     (case pa_action p of
        ActPlace ord \<Rightarrow> matches_place D p ord v
      | ActProtected ord _ \<Rightarrow> matches_place D p ord v
      | ActCancel ord \<Rightarrow> o_symbol v = cn_symbol ord \<and> o_order_id v = cn_order_id ord \<and> bounded_id (o_order_id v)
      | ActAmend ord \<Rightarrow> o_symbol v = am_symbol ord \<and> o_order_id v = am_order_id ord
          \<and> pa_submission_id p = None \<and> bounded_id (o_order_id v)
          \<and> quantity_of D (o_price v) = quantity_of D (am_price ord)
          \<and> quantity_of D (o_qty v) = quantity_of D (am_qty ord)
      | _ \<Rightarrow> False)"

definition known_rejection :: "app_error \<Rightarrow> bool" where
  "known_rejection f \<longleftrightarrow>
     is_certain_submission_failure f
     \<or> (case f of
          EOrderSubmissionRejected _ \<Rightarrow> True
        | EOrderSubmissionBlocked _ \<Rightarrow> True
        | ERisk _ \<Rightarrow> True
        | ENotified code _ _ _ \<Rightarrow> code \<in> {''RISK_ORDER_BLOCKED'', ''ORDER_REJECTED''}
        | _ \<Rightarrow> False)"

definition amended_link :: "run_record \<Rightarrow> pending_action \<Rightarrow> string option" where
  "amended_link r p =
     (case pa_action p of
        ActAmend ord \<Rightarrow> Option.bind (Option.bind (map_of (rr_owned r) (am_order_id ord)) ow_placement) r_order_link_id
      | _ \<Rightarrow> None)"

text \<open>The verdict on an answer: its status, the accepted order, and its identifier.\<close>

definition classify_response ::
  "decimal_api \<Rightarrow> run_record \<Rightarrow> pending_action \<Rightarrow> (mutation_response, app_error) result
     \<Rightarrow> receipt_status \<times> order option \<times> string option" where
  "classify_response D r p response =
     (case response of
        Ok (RespOrder v) \<Rightarrow>
          if matches_response D p v then (ReceiptAccepted, Some v, Some (o_order_id v))
          else (ReceiptUnknown, None, None)
      | Ok (RespAck a) \<Rightarrow>
          (case pa_action p of
             ActAmend ord \<Rightarrow>
               if ak_order_id a = am_order_id ord
                  \<and> (case ak_order_link_id a of None \<Rightarrow> True | Some link \<Rightarrow> Some link = amended_link r p)
               then (ReceiptAccepted, None, Some (ak_order_id a)) else (ReceiptUnknown, None, None)
           | _ \<Rightarrow> (ReceiptUnknown, None, None))
      | Err f \<Rightarrow> if known_rejection f then (ReceiptRejected, None, None) else (ReceiptUnknown, None, None)
      | Panic \<Rightarrow> (ReceiptUnknown, None, None))"

definition action_kind :: "strategy_action \<Rightarrow> receipt_kind option" where
  "action_kind a = map_option fst (receipt_identity a)"

definition own_order ::
  "pending_action \<Rightarrow> string \<Rightarrow> (place_order_request option, app_error) result" where
  "own_order p submission =
     (case pa_action p of
        ActPlace ord \<Rightarrow> bind_result (canonical_placement ord submission None) (\<lambda>c. Ok (Some c))
      | ActProtected ord protection \<Rightarrow>
          bind_result (canonical_placement ord submission (Some protection)) (\<lambda>c. Ok (Some c))
      | _ \<Rightarrow> Ok None)"

text \<open>The record after an answer, in the first section of \<^verbatim>\<open>account_response\<close>.\<close>

definition answer_receipt ::
  "pending_action \<Rightarrow> receipt_status \<Rightarrow> string option \<Rightarrow> receipt_kind \<Rightarrow> strategy_receipt" where
  "answer_receipt p status accepted_id kind =
     \<lparr>rc_sequence = pa_sequence p, rc_kind = kind, rc_status = status, rc_submission_id = pa_submission_id p,
      rc_order_id = (case accepted_id of Some _ \<Rightarrow> accepted_id
        | None \<Rightarrow> Option.bind (receipt_identity (pa_action p)) snd),
      rc_error_code = receipt_code status\<rparr>"

definition record_answer :: "pending_action \<Rightarrow> strategy_receipt \<Rightarrow> run_record \<Rightarrow> run_record" where
  "record_answer p receipt r =
     note_output (pa_state p) (pa_message p) (r\<lparr>rr_view := (rr_view r)\<lparr>rv_last_receipt := Some receipt\<rparr>\<rparr>)"

definition own_accepted ::
  "pending_action \<Rightarrow> order option \<Rightarrow> run_record \<Rightarrow> (run_record, app_error) result" where
  "own_accepted p accepted r =
     (case (accepted, pa_submission_id p) of
        (Some v, Some submission) \<Rightarrow>
          if (case map_of (rr_owned r) (o_order_id v) of None \<Rightarrow> False
              | Some ow \<Rightarrow> ow_submission_id ow \<noteq> submission)
          then Err (strategy_error ''plugin_strategy_recovery_required'')
          else bind_result (own_order p submission) (\<lambda>c.
            Ok (r\<lparr>rr_owned := btree_insert (o_order_id v)
              \<lparr>ow_submission_id = submission, ow_cancel_requested = False, ow_placement = c\<rparr> (rr_owned r)\<rparr>))
      | _ \<Rightarrow> Ok r)"

definition settle_answer :: "receipt_status \<Rightarrow> receipt_kind \<Rightarrow> run_record \<Rightarrow> run_record" where
  "settle_answer status kind r =
     (if status = ReceiptUnknown
      then set_status RunRecoveryRequired (Some ''plugin_strategy_recovery_required'') r
      else if status = ReceiptRejected \<or> kind \<in> {ReceiptCancel, ReceiptAmend}
      then r\<lparr>rr_pending := None\<rparr> else r)"

definition respond_run ::
  "pending_action \<Rightarrow> receipt_status \<Rightarrow> order option \<Rightarrow> string option \<Rightarrow> receipt_kind \<Rightarrow> run_record
     \<Rightarrow> (run_record, app_error) result" where
  "respond_run p status accepted accepted_id kind r =
     (if rr_pending r \<noteq> Some p then Err stale
      else bind_result (own_accepted p accepted (record_answer p (answer_receipt p status accepted_id kind) r)) (\<lambda>r.
        Ok (settle_answer status kind r)))"

text \<open>
  The first section of \<^verbatim>\<open>account_response\<close>; it returns the order that remains to be acknowledged.
\<close>

definition account_answer ::
  "strategy_env \<Rightarrow> readings \<Rightarrow> string \<Rightarrow> pending_action \<Rightarrow> (mutation_response, app_error) result
     \<Rightarrow> strategy_world \<Rightarrow> (order option, app_error) result \<times> strategy_world" where
  "account_answer E rd i p response w =
     (case bind_result (run_state w i) (\<lambda>r.
           bind_result (or_panic (action_kind (pa_action p))) (\<lambda>kind.
           let (status, accepted, accepted_id) = classify_response (se_dec E) r p response in
           bind_result (respond_run p status accepted accepted_id kind r) (\<lambda>r'.
             Ok (status, accepted, r')))) of
        Err e \<Rightarrow> (Err e, w)
      | Panic \<Rightarrow> (Panic, w)
      | Ok (status, accepted, r') \<Rightarrow>
          (let (saved, w) = save E rd (update_run i (\<lambda>_. r') (sw_document w)) w in
           (bind_result saved (\<lambda>_.
              Ok (if status = ReceiptUnknown \<or> pa_submission_id p = None then None else accepted)), w)))"

text \<open>The second section, with the host's acknowledgement.\<close>

definition account_acknowledged ::
  "strategy_env \<Rightarrow> readings \<Rightarrow> string \<Rightarrow> pending_action \<Rightarrow> bool \<Rightarrow> strategy_world
     \<Rightarrow> (unit, app_error) result \<times> strategy_world" where
  "account_acknowledged E rd i p acknowledged w =
     (case run_state w i of
        Err e \<Rightarrow> (Err e, w)
      | Panic \<Rightarrow> (Panic, w)
      | Ok r \<Rightarrow>
          if \<not> acknowledged then (Ok (), mark E rd i RunRecoveryRequired ''plugin_strategy_ack_failed'' w)
          else if rr_pending r \<noteq> Some p then (Err stale, w)
          else save E rd (update_run i (\<lambda>r. r\<lparr>rr_pending := None\<rparr>) (sw_document w)) w)"

section \<open>The end of a turn\<close>

text \<open>\<^verbatim>\<open>pass\<close> returns whether the loop goes on; a refused admission fails the turn.\<close>

definition close_pass ::
  "strategy_env \<Rightarrow> readings \<Rightarrow> string \<Rightarrow> decision \<Rightarrow> app_error option \<Rightarrow> (unit, app_error) result
     \<Rightarrow> strategy_world \<Rightarrow> strategy_world" where
  "close_pass E rd i de denied accounted w =
     (let w = w\<lparr>sw_busy := False\<rparr> in
      case accounted of
        Err e \<Rightarrow> fail_pass i e w
      | Panic \<Rightarrow> panic_pass E rd i w
      | Ok _ \<Rightarrow>
          (case denied of
             Some f \<Rightarrow> fail_pass i f w
           | None \<Rightarrow>
               (case (map_of (sw_live w) i, run_state w i) of
                  (Some l, Ok r) \<Rightarrow> set_phase i
                    (if admitted l \<and> rr_pending r = None then waiting de rd else Finishing) w
                | (Some l, Err e) \<Rightarrow> if admitted l then fail_pass i e w else set_phase i Finishing w
                | _ \<Rightarrow> w)))"

text \<open>After the store: an admission revoked meanwhile closes the intent as a local rejection.\<close>

definition recheck ::
  "strategy_env \<Rightarrow> readings \<Rightarrow> string \<Rightarrow> decision \<Rightarrow> pending_action \<Rightarrow> live_run \<Rightarrow> strategy_world \<Rightarrow> strategy_world" where
  "recheck E rd i de p l w =
     (let (checked, l) = (case check_binding rd l of
            Ok _ \<Rightarrow> check_dispatch rd (de_record de) (de_observed de) (de_observed_wall de) l
          | r \<Rightarrow> (r, l));
          w = set_live i (\<lambda>_. l) w in
      case checked of
        Err failure \<Rightarrow>
          (let (accounted, w) = account_answer E rd i p
                 (Err (EOrderSubmissionRejected ''local admission revoked'')) w in
           close_pass E rd i de (Some failure) (bind_result accounted (\<lambda>_. Ok ())) w)
      | Panic \<Rightarrow> panic_pass E rd i (w\<lparr>sw_busy := False\<rparr>)
      | Ok _ \<Rightarrow>
          (case bind_result (run_context l) (\<lambda>ctx. mutation_of ctx de p) of
             Ok _ \<Rightarrow> set_phase i (Admitting de p) w
           | Err e \<Rightarrow> fail_pass i e (w\<lparr>sw_busy := False\<rparr>)
           | Panic \<Rightarrow> panic_pass E rd i (w\<lparr>sw_busy := False\<rparr>)))"

text \<open>
  The admission closure, called by the trading service directly before the mutation API
  (\<^verbatim>\<open>services/trading/strategy.rs\<close>); on success the request belongs to the exchange call.
\<close>

definition hand_off ::
  "readings \<Rightarrow> string \<Rightarrow> decision \<Rightarrow> pending_action \<Rightarrow> live_run \<Rightarrow> strategy_world \<Rightarrow> strategy_world" where
  "hand_off rd i de p l w =
     (let (checked, l) = check_dispatch rd (de_record de) (de_observed de) (de_observed_wall de) l;
          w = set_live i (\<lambda>_. l) w in
      case (checked, bind_result (run_context l) (\<lambda>ctx. mutation_of ctx de p)) of
        (Ok _, Ok m) \<Rightarrow> (set_phase i (InFlight de p None) w)\<lparr>sw_trace := sw_trace w @ [HandedOff i p m]\<rparr>
      | (Err f, _) \<Rightarrow> set_phase i (InFlight de p (Some f)) w
      | _ \<Rightarrow> w)"

text \<open>The host's answer, or its panic; \<open>denied\<close> is the refusal of the admission closure, if it was called and refused.\<close>

definition respond ::
  "strategy_env \<Rightarrow> readings \<Rightarrow> string \<Rightarrow> decision \<Rightarrow> pending_action \<Rightarrow> app_error option
     \<Rightarrow> (mutation_response, app_error) result \<Rightarrow> strategy_world \<Rightarrow> strategy_world" where
  "respond E rd i de p denied response w =
     (if response = Panic then panic_pass E rd i (w\<lparr>sw_busy := False\<rparr>)
      else case account_answer E rd i p response w of
        (Ok (Some v), w) \<Rightarrow> set_phase i (Acking de p v denied) w
      | (accounted, w) \<Rightarrow> close_pass E rd i de denied (bind_result accounted (\<lambda>_. Ok ())) w)"

definition acknowledge ::
  "strategy_env \<Rightarrow> readings \<Rightarrow> string \<Rightarrow> decision \<Rightarrow> pending_action \<Rightarrow> app_error option \<Rightarrow> bool
     \<Rightarrow> strategy_world \<Rightarrow> strategy_world" where
  "acknowledge E rd i de p denied acknowledged w =
     (let (accounted, w) = account_acknowledged E rd i p acknowledged w in
      close_pass E rd i de denied accounted w)"

definition failure_status :: "string \<Rightarrow> strategy_status" where
  "failure_status code =
     (if code \<in> {''plugin_strategy_stale'', ''plugin_strategy_data_unavailable''} then RunPaused
      else if code \<in> {''plugin_strategy_expired'', ''plugin_strategy_limit_reached''} then RunCompleted
      else RunFaulted)"

definition fail_turn ::
  "strategy_env \<Rightarrow> readings \<Rightarrow> string \<Rightarrow> app_error \<Rightarrow> live_run \<Rightarrow> strategy_world \<Rightarrow> strategy_world" where
  "fail_turn E rd i failure l w =
     (if \<not> admitted l then set_phase i Finishing w
      else let code = (case plugin_code failure of
             Some code \<Rightarrow> if code \<in> set strategy_reasons then code else ''plugin_strategy_unavailable''
           | None \<Rightarrow> ''plugin_strategy_unavailable'') in
        set_phase i Finishing (mark E rd i (failure_status code) code w))"

text \<open>The end of a wait: the timer, or a withdrawal; \<open>woken\<close> is whether data arrived meanwhile.\<close>

definition wait_over ::
  "strategy_env \<Rightarrow> readings \<Rightarrow> bool \<Rightarrow> string \<Rightarrow> string \<Rightarrow> bool \<Rightarrow> nat \<Rightarrow> u64 \<Rightarrow> u64 \<Rightarrow> live_run
     \<Rightarrow> strategy_world \<Rightarrow> strategy_world" where
  "wait_over E rd woken i event first completed wall interval l w =
     (let max_gap = max 30000 (interval * 3) in
      if \<not> admitted l then set_phase i Finishing w
      else if unat max_gap * 1000000 < rd_instant rd - completed
           \<or> (case checked_sub_u64 (rd_wall rd) wall of None \<Rightarrow> True | Some gap \<Rightarrow> max_gap < gap)
      then set_phase i Finishing (mark E rd i RunPaused ''plugin_strategy_stale'' w)
      else set_phase i (AtLoop (if woken \<and> \<not> first then ''update'' else event) first) w)"

section \<open>Reconciliation\<close>

text \<open>
  \<^verbatim>\<open>recovery.rs\<close>: \<open>found\<close> is the host's answer to the lookup of the unresolved intent,
  \<open>acknowledged\<close> its answer to the acknowledgement.
\<close>

definition reconcile_lookup ::
  "run_record \<Rightarrow> pending_action \<Rightarrow> (unit, app_error) result" where
  "reconcile_lookup r p =
     (let required = strategy_error ''plugin_strategy_recovery_required'' in
      case pa_action p of
        ActAmend ord \<Rightarrow>
          bind_result (ok_or (Option.bind (map_of (rr_owned r) (am_order_id ord)) ow_placement) required) (\<lambda>_. Ok ())
      | ActProtected ord protection \<Rightarrow>
          bind_result (ok_or (pa_submission_id p) required) (\<lambda>i.
          bind_result (canonical_placement ord i (Some protection)) (\<lambda>canonical.
            if list_ex (\<lambda>(_, ow). ow_submission_id ow = i \<and> ow_placement ow \<noteq> Some canonical) (rr_owned r)
            then Err required else Ok ()))
      | _ \<Rightarrow> Ok ())"

definition reconcile_verdict ::
  "decimal_api \<Rightarrow> pending_action \<Rightarrow> (order option, app_error) result
     \<Rightarrow> ((mutation_response, app_error) result, app_error) result" where
  "reconcile_verdict D p found =
     (case found of
        Ok (Some v) \<Rightarrow>
          if matches_response D p v
             \<and> ((case pa_action p of ActCancel _ \<Rightarrow> False | _ \<Rightarrow> True)
                \<or> o_status v \<in> {OrderFilled, OrderCancelled, OrderRejected})
          then Ok (Ok (RespOrder v)) else Err (strategy_error ''plugin_strategy_recovery_required'')
      | Err f \<Rightarrow>
          if (case pa_action p of ActPlace _ \<Rightarrow> True | _ \<Rightarrow> False) \<and> known_rejection f then Ok (Err f)
          else Err (strategy_error ''plugin_strategy_recovery_required'')
      | _ \<Rightarrow> Err (strategy_error ''plugin_strategy_recovery_required''))"

definition reconcile_prepare ::
  "strategy_env \<Rightarrow> readings \<Rightarrow> string \<Rightarrow> (order option, app_error) result \<Rightarrow> strategy_world
     \<Rightarrow> (pending_action \<times> (mutation_response, app_error) result, app_error) result" where
  "reconcile_prepare E rd i found w =
     (if \<not> se_uuid_ok E i then Err (strategy_error ''plugin_strategy_invalid_request'')
      else bind_result (store_ready w) (\<lambda>_.
        if map_of (sw_live w) i \<noteq> None then Err (strategy_error ''plugin_strategy_busy'')
        else bind_result (run_state w i) (\<lambda>r.
          bind_result (ok_or (rr_pending r) (strategy_error ''plugin_strategy_invalid_request'')) (\<lambda>p.
          bind_result (err_as stale (rd_authority rd)) (\<lambda>current.
            if ac_account_id (au_account current) \<noteq> ac_account_id (rv_account (rr_view r))
               \<or> ac_environment (au_account current) \<noteq> ac_environment (rv_account (rr_view r))
            then Err stale
            else bind_result (err_as stale (rd_scope rd)) (\<lambda>scope.
              if scope \<noteq> rr_scope r then Err stale
              else bind_result (reconcile_lookup r p) (\<lambda>_.
                bind_result (reconcile_verdict (se_dec E) p found) (\<lambda>response. Ok (p, response)))))))))"

definition reconcile_owned ::
  "strategy_env \<Rightarrow> readings \<Rightarrow> string \<Rightarrow> (order option, app_error) result \<Rightarrow> bool \<Rightarrow> strategy_world
     \<Rightarrow> (strategy_run_view, app_error) result \<times> strategy_world" where
  "reconcile_owned E rd i found acknowledged w =
     (case reconcile_prepare E rd i found w of
        Err e \<Rightarrow> (Err e, w)
      | Panic \<Rightarrow> (Panic, w)
      | Ok (p, response) \<Rightarrow>
          (let (accounted, w) =
             (case account_answer E rd i p response w of
                (Ok (Some v), w) \<Rightarrow> account_acknowledged E rd i p acknowledged w
              | (r, w) \<Rightarrow> (bind_result r (\<lambda>_. Ok ()), w)) in
           case accounted of
             Err e \<Rightarrow> (Err e, w)
           | Panic \<Rightarrow> (Panic, w)
           | Ok _ \<Rightarrow>
               (case run_state w i of
                  Ok r \<Rightarrow>
                    (let w = (if rr_pending r = None then mark E rd i RunPaused ''plugin_strategy_paused'' w else w) in
                     (bind_result (run_state w i) (\<lambda>r. Ok (rr_view r)), w))
                | Err e \<Rightarrow> (Err e, w)
                | Panic \<Rightarrow> (Panic, w))))"

end
