(* ===== verification/Strategy_Steps.thy ===== *)
theory Strategy_Steps
  imports Strategy_Execution
begin

text \<open>
  The supervisor, its workers and its callers as one step relation.  A step is one of the
  functions of \<open>Strategy_Supervisor\<close> and \<open>Strategy_Execution\<close>, with any input it reads; which
  step comes next is not constrained beyond the locks:

  \<^item> a step that locks \<^verbatim>\<open>Inner\<close> waits while a start holds it (\<open>unlocked\<close>);
  \<^item> authorising, starting, beginning a turn, deciding and reconciling need the operation gate;
    a worker keeps it from its decision to the end of its turn (\<open>sw_busy\<close>);
  \<^item> accepting a control, leaving, the guest's computation and the admission check at the
    hand-off need neither;
  \<^item> the process may die and start again at any point.
\<close>

datatype strategy_label =
    Authorise | TakeTicket | PrepareStart | PublishStart
  | Control | ApplyControl | Leave
  | Work string | Dispatch string | Finish string | Reconcile string | Restart

definition unlocked :: "strategy_world \<Rightarrow> bool" where
  "unlocked w \<longleftrightarrow> sw_starting w = None"

abbreviation worker_at :: "strategy_world \<Rightarrow> string \<Rightarrow> live_run \<Rightarrow> worker_phase \<Rightarrow> bool" where
  "worker_at w i l ph \<equiv> map_of (sw_live w) i = Some l \<and> lv_phase l = ph"

inductive strategy_step :: "strategy_env \<Rightarrow> strategy_world \<Rightarrow> strategy_label \<Rightarrow> strategy_world \<Rightarrow> bool"
  for E :: strategy_env
where
  authorise: "unlocked w \<Longrightarrow> \<not> sw_busy w \<Longrightarrow>
    strategy_step E w Authorise (snd (access E rd request seen w))"
| take_ticket: "unlocked w \<Longrightarrow> strategy_step E w TakeTicket (snd (start_take E request w))"
| prepare_start: "unlocked w \<Longrightarrow> \<not> sw_busy w \<Longrightarrow> sw_requested w = before @ (t, request) # after \<Longrightarrow>
    strategy_step E w PrepareStart (snd (start_prepare E rd t request (w\<lparr>sw_requested := before @ after\<rparr>)))"
| publish_start: "sw_starting w = Some ss \<Longrightarrow>
    strategy_step E w PublishStart (snd (start_publish E rd ss w))"
| control: "strategy_step E w Control (snd (control_accept E request w))"
| stop_all: "strategy_step E w Control (snd (stop_all_accept w))"
| leave: "strategy_step E w Leave (revoke_for_exit w)"
| apply_control: "unlocked w \<Longrightarrow> sw_controls w = before @ AcceptedControl i action # after \<Longrightarrow>
    strategy_step E w ApplyControl (snd (control_locked E rd i action (w\<lparr>sw_controls := before @ after\<rparr>)))"
| apply_stop_all: "unlocked w \<Longrightarrow> sw_controls w = before @ AcceptedStopAll # after \<Longrightarrow>
    strategy_step E w ApplyControl (snd (stop_all_locked E rd (w\<lparr>sw_controls := before @ after\<rparr>)))"
| begin_turn: "unlocked w \<Longrightarrow> worker_at w i l (AtLoop event first) \<Longrightarrow>
    strategy_step E w (Work i) (begin_pass E rd rd' h lease context_len i event first l w)"
| guest_returns: "worker_at w i l (Computing de) \<Longrightarrow>
    strategy_step E w (Work i) (guest_done E g i de l w)"
| decide: "unlocked w \<Longrightarrow> \<not> sw_busy w \<Longrightarrow> worker_at w i l (Deciding de out) \<Longrightarrow>
    strategy_step E w (Work i) (decide E rd1 rd2 rd3 h i de out l w)"
| recheck: "unlocked w \<Longrightarrow> worker_at w i l (Prepared de p) \<Longrightarrow>
    strategy_step E w (Work i) (recheck E rd i de p l w)"
| hand_off: "worker_at w i l (Admitting de p) \<Longrightarrow>
    strategy_step E w (Dispatch i) (hand_off rd i de p l w)"
| host_fails: "unlocked w \<Longrightarrow> worker_at w i l (Admitting de p) \<Longrightarrow> response \<in> {Err e, Panic} \<Longrightarrow>
    strategy_step E w (Work i) (respond E rd i de p None response w)"
| host_answers: "unlocked w \<Longrightarrow> worker_at w i l (InFlight de p denied) \<Longrightarrow>
    (denied \<noteq> None \<Longrightarrow> response \<in> {Err e, Panic}) \<Longrightarrow>
    strategy_step E w (Work i) (respond E rd i de p denied response w)"
| host_acknowledges: "unlocked w \<Longrightarrow> worker_at w i l (Acking de p v denied) \<Longrightarrow>
    strategy_step E w (Work i) (acknowledge E rd i de p denied acknowledged w)"
| turn_fails: "unlocked w \<Longrightarrow> worker_at w i l (Failing failure) \<Longrightarrow>
    strategy_step E w (Work i) (fail_turn E rd i failure l w)"
| wait_ends: "unlocked w \<Longrightarrow> worker_at w i l (Waiting event first completed wall interval) \<Longrightarrow>
    strategy_step E w (Work i) (wait_over E rd woken i event first completed wall interval l w)"
| worker_ends: "unlocked w \<Longrightarrow> worker_at w i l Finishing \<Longrightarrow>
    strategy_step E w (Finish i) (finish E rd i w)"
| reconcile: "unlocked w \<Longrightarrow> \<not> sw_busy w \<Longrightarrow>
    strategy_step E w (Reconcile i) (snd (reconcile_owned E rd i found acknowledged w))"
| restart: "strategy_step E w Restart (supervisor_new E readable w)"

text \<open>Sequences of steps, with the labels they take.\<close>

inductive strategy_path :: "strategy_env \<Rightarrow> strategy_world \<Rightarrow> strategy_label list \<Rightarrow> strategy_world \<Rightarrow> bool"
  for E :: strategy_env
where
  path_refl: "strategy_path E w [] w"
| path_step: "strategy_path E w ls w' \<Longrightarrow> strategy_step E w' x w'' \<Longrightarrow> strategy_path E w (ls @ [x]) w''"

text \<open>The first start of the program: nothing is stored, nothing was handed off.\<close>

definition first_world :: "strategy_env \<Rightarrow> save_fate list \<Rightarrow> strategy_world" where
  "first_world E fates =
     supervisor_new E True
       \<lparr>sw_document = default_document, sw_stored = default_document, sw_tickets = [], sw_requested = [],
        sw_starting = None, sw_live = [], sw_unavailable = False, sw_admission = 0, sw_closed = False,
        sw_controls = [], sw_busy = False, sw_fates = fates, sw_drawn = 0, sw_trace = []\<rparr>"

definition reachable :: "strategy_env \<Rightarrow> strategy_world \<Rightarrow> bool" where
  "reachable E w \<longleftrightarrow> (\<exists>fates ls. strategy_path E (first_world E fates) ls w)"

lemma path_trans:
  assumes "strategy_path E w1 ls2 w2" "strategy_path E w0 ls1 w1"
  shows "strategy_path E w0 (ls1 @ ls2) w2"
  using assms
proof induction
  case (path_refl w)
  then show ?case by simp
next
  case (path_step w ls w' x w'')
  then show ?case using strategy_path.path_step [of E w0 "ls1 @ ls" w' x w''] by simp
qed

lemma reachable_path: "reachable E w \<Longrightarrow> strategy_path E w ls w' \<Longrightarrow> reachable E w'"
  unfolding reachable_def using path_trans by blast

lemma reachable_first: "reachable E (first_world E fates)"
  unfolding reachable_def using strategy_path.path_refl by blast

lemma reachable_induct [consumes 1, case_names first step]:
  assumes "reachable E w"
    and "\<And>fates. P (first_world E fates)"
    and "\<And>w x w'. reachable E w \<Longrightarrow> P w \<Longrightarrow> strategy_step E w x w' \<Longrightarrow> P w'"
  shows "P w"
proof -
  obtain fates ls where "strategy_path E (first_world E fates) ls w"
    using assms(1) by (auto simp: reachable_def)
  then have "reachable E w \<and> P w"
  proof (induction "first_world E fates" ls w rule: strategy_path.induct)
    case path_refl
    then show ?case using assms(2) reachable_first by blast
  next
    case (path_step ls w' x w'')
    then have "strategy_path E w' [x] w''"
      using strategy_path.path_step [OF strategy_path.path_refl [of E w'], of x w''] by simp
    then show ?case using path_step assms(3) reachable_path by blast
  qed
  then show ?thesis by simp
qed

end
