(* ===== verification/Strategy_Invariant.thy ===== *)
theory Strategy_Invariant
  imports Strategy_Steps Subsequences
begin

text \<open>
  The invariant of the strategy supervisor.  Every run carries, as an existential witness, the
  list of the actions charged to it: what was handed off for the run and what is about to be is
  a subsequence of it, and the counters of the record are its length and its sum.
\<close>

section \<open>What the crates promise\<close>

definition strategy_env_ok :: "strategy_env \<Rightarrow> bool" where
  "strategy_env_ok E \<longleftrightarrow> dec_from_str_exact (se_dec E) ''0'' = Some 0
     \<and> (\<forall>a b c. se_add E a b = Some c \<longrightarrow> dec_from_str_exact (se_dec E) (dec_normalized (se_dec E) c) = Some c)
     \<and> inj (se_uuid E)"

section \<open>Charged actions\<close>

definition action_qty :: "strategy_action \<Rightarrow> string option" where
  "action_qty a =
     (case a of ActPlace ord \<Rightarrow> Some (pl_qty ord) | ActProtected ord _ \<Rightarrow> Some (pl_qty ord)
      | ActAmend ord \<Rightarrow> Some (am_qty ord) | _ \<Rightarrow> None)"

fun charged :: "strategy_env \<Rightarrow> rat \<Rightarrow> pending_action list \<Rightarrow> rat option" where
  "charged E t [] = Some t"
| "charged E t (p # ps) =
     (case action_qty (pa_action p) of
        None \<Rightarrow> charged E t ps
      | Some s \<Rightarrow> Option.bind (quantity_of (se_dec E) s) (\<lambda>q.
          Option.bind (se_add E t q) (\<lambda>t. charged E t ps)))"

lemma charged_snoc:
  "charged E t (ps @ [p]) =
     Option.bind (charged E t ps) (\<lambda>t'.
       case action_qty (pa_action p) of
         None \<Rightarrow> Some t'
       | Some s \<Rightarrow> Option.bind (quantity_of (se_dec E) s) (\<lambda>q. se_add E t' q))"
  by (induction ps arbitrary: t) (simp_all split: option.split)

definition handed :: "string \<Rightarrow> strategy_event list \<Rightarrow> pending_action list" where
  "handed i tr = concat (map (\<lambda>e. case e of HandedOff j p _ \<Rightarrow> if j = i then [p] else [] | _ \<Rightarrow> []) tr)"

lemma handed_simps [simp]:
  "handed i [] = []"
  "handed i (tr @ [HandedOff j p m]) = handed i tr @ (if j = i then [p] else [])"
  "handed i (tr @ [GuestCalled j e s]) = handed i tr"
  by (simp_all add: handed_def)

definition phase_flight :: "worker_phase \<Rightarrow> pending_action list" where
  "phase_flight ph = (case ph of Prepared _ p \<Rightarrow> [p] | Admitting _ p \<Rightarrow> [p] | _ \<Rightarrow> [])"

definition phases :: "strategy_world \<Rightarrow> (string \<times> worker_phase) list" where
  "phases w = map (\<lambda>(i, l). (i, lv_phase l)) (sw_live w)"

definition flight :: "strategy_world \<Rightarrow> string \<Rightarrow> pending_action list" where
  "flight w i = (case map_of (phases w) i of None \<Rightarrow> [] | Some ph \<Rightarrow> phase_flight ph)"

definition drawn_ids :: "strategy_env \<Rightarrow> strategy_world \<Rightarrow> string set" where
  "drawn_ids E w = se_uuid E ` {..<sw_drawn w}"

section \<open>What one action may be\<close>

definition qty_allowed :: "strategy_env \<Rightarrow> run_record \<Rightarrow> string \<Rightarrow> bool" where
  "qty_allowed E r s \<longleftrightarrow> (\<exists>q. quantity_of (se_dec E) s = Some q \<and> 0 < q
     \<and> (\<forall>m. quantity_of (se_dec E) (sp_max_order_qty (rv_policy (rr_view r))) = Some m \<longrightarrow> q \<le> m))"

definition place_allowed :: "strategy_env \<Rightarrow> run_record \<Rightarrow> place_proposal \<Rightarrow> bool" where
  "place_allowed E r ord \<longleftrightarrow> pl_symbol ord = rv_symbol (rr_view r) \<and> run_has r ''trade.place''
     \<and> (sp_reduce_only (rv_policy (rr_view r)) \<longrightarrow> pl_reduce_only ord) \<and> qty_allowed E r (pl_qty ord)"

definition action_allowed :: "strategy_env \<Rightarrow> run_record \<Rightarrow> strategy_action \<Rightarrow> bool" where
  "action_allowed E r a \<longleftrightarrow>
     (case a of
        ActPlace ord \<Rightarrow> place_allowed E r ord
      | ActProtected ord _ \<Rightarrow> place_allowed E r ord \<and> run_has r ''trade.protect''
      | ActCancel ord \<Rightarrow> cn_symbol ord = rv_symbol (rr_view r) \<and> run_has r ''trade.cancel''
          \<and> cn_order_id ord \<in> dom (map_of (rr_owned r))
      | ActAmend ord \<Rightarrow> am_symbol ord = rv_symbol (rr_view r) \<and> run_has r ''trade.amend''
          \<and> am_order_id ord \<in> dom (map_of (rr_owned r)) \<and> qty_allowed E r (am_qty ord)
      | _ \<Rightarrow> False)"

section \<open>Runs\<close>

definition run_charges ::
  "strategy_env \<Rightarrow> pending_action list \<Rightarrow> run_record \<Rightarrow> bool" where
  "run_charges E acts r \<longleftrightarrow>
     length acts = unat (rv_actions_submitted (rr_view r))
     \<and> rv_actions_submitted (rr_view r) \<le> sp_max_actions (rv_policy (rr_view r))
     \<and> (\<exists>t. charged E 0 acts = Some t
          \<and> dec_from_str_exact (se_dec E) (rv_total_submitted_qty (rr_view r)) = Some t
          \<and> (\<forall>m. quantity_of (se_dec E) (sp_max_total_qty (rv_policy (rr_view r))) = Some m \<longrightarrow> t \<le> m))
     \<and> (\<forall>p\<in>set acts. action_allowed E r (pa_action p))"

definition run_inv :: "strategy_env \<Rightarrow> strategy_world \<Rightarrow> run_record \<Rightarrow> bool" where
  "run_inv E w r \<longleftrightarrow>
     (\<exists>acts. run_charges E acts r \<and> subseq (handed (run_id r) (sw_trace w) @ flight w (run_id r)) acts)
     \<and> run_id r \<in> drawn_ids E w"

text \<open>A record that keeps its limits and counters keeps its charges.\<close>

definition keeps :: "run_record \<Rightarrow> run_record \<Rightarrow> bool" where
  "keeps r r' \<longleftrightarrow> run_id r' = run_id r \<and> rv_policy (rr_view r') = rv_policy (rr_view r)
     \<and> rv_capabilities (rr_view r') = rv_capabilities (rr_view r) \<and> rv_symbol (rr_view r') = rv_symbol (rr_view r)
     \<and> rv_actions_submitted (rr_view r') = rv_actions_submitted (rr_view r)
     \<and> rv_total_submitted_qty (rr_view r') = rv_total_submitted_qty (rr_view r)
     \<and> dom (map_of (rr_owned r)) \<subseteq> dom (map_of (rr_owned r'))"

lemma keeps_allowed: "keeps r r' \<Longrightarrow> action_allowed E r a \<Longrightarrow> action_allowed E r' a"
  by (cases a) (auto simp: keeps_def action_allowed_def place_allowed_def qty_allowed_def run_has_def)

lemma keeps_charges: "keeps r r' \<Longrightarrow> run_charges E acts r \<Longrightarrow> run_charges E acts r'"
  using keeps_allowed by (fastforce simp: run_charges_def keeps_def)

lemma keeps_run_inv: "keeps r r' \<Longrightarrow> run_inv E w r \<Longrightarrow> run_inv E w r'"
  using keeps_charges [of r r' E] by (auto simp: run_inv_def keeps_def)

text \<open>What a status change leaves of a record.\<close>

definition essence :: "run_record \<Rightarrow> run_record" where
  "essence r = r\<lparr>rr_view := (rr_view r)\<lparr>rv_status := RunRunning, rv_reason := None\<rparr>, rr_last_observed_at_ms := []\<rparr>"

lemma essence_fields:
  assumes "essence r = essence r'"
  shows "keeps r r'" "run_id r = run_id r'" "rr_pending r = rr_pending r'" "rv_account (rr_view r) = rv_account (rr_view r')"
    "rv_sequence (rr_view r) = rv_sequence (rr_view r')" "rr_owned r = rr_owned r'" "rr_scope r = rr_scope r'"
proof -
  show "run_id r = run_id r'" using arg_cong [OF assms, of run_id] by (simp add: essence_def)
  moreover have "rv_policy (rr_view r) = rv_policy (rr_view r')"
    using arg_cong [OF assms, of "rv_policy \<circ> rr_view"] by (simp add: essence_def)
  moreover have "rv_capabilities (rr_view r) = rv_capabilities (rr_view r')"
    using arg_cong [OF assms, of "rv_capabilities \<circ> rr_view"] by (simp add: essence_def)
  moreover have "rv_symbol (rr_view r) = rv_symbol (rr_view r')"
    using arg_cong [OF assms, of "rv_symbol \<circ> rr_view"] by (simp add: essence_def)
  moreover have "rv_actions_submitted (rr_view r) = rv_actions_submitted (rr_view r')"
    using arg_cong [OF assms, of "rv_actions_submitted \<circ> rr_view"] by (simp add: essence_def)
  moreover have "rv_total_submitted_qty (rr_view r) = rv_total_submitted_qty (rr_view r')"
    using arg_cong [OF assms, of "rv_total_submitted_qty \<circ> rr_view"] by (simp add: essence_def)
  moreover show "rr_owned r = rr_owned r'" using arg_cong [OF assms, of rr_owned] by (simp add: essence_def)
  ultimately show "keeps r r'" by (simp add: keeps_def)
  show "rr_pending r = rr_pending r'" using arg_cong [OF assms, of rr_pending] by (simp add: essence_def)
  show "rr_scope r = rr_scope r'" using arg_cong [OF assms, of rr_scope] by (simp add: essence_def)
  show "rv_account (rr_view r) = rv_account (rr_view r')"
    using arg_cong [OF assms, of "rv_account \<circ> rr_view"] by (simp add: essence_def)
  show "rv_sequence (rr_view r) = rv_sequence (rr_view r')"
    using arg_cong [OF assms, of "rv_sequence \<circ> rr_view"] by (simp add: essence_def)
qed

lemma essence_set_status [simp]: "essence (set_status s x r) = essence r"
  by (simp add: essence_def set_status_def)

lemma essence_small [simp]:
  "essence (fault_run r) = essence r" "essence (restart_run r) = essence r" "essence (control_run w stop r) = essence r"
  "essence (stop_run w r) = essence r" "essence (finish_run l r) = essence r"
  "essence (r\<lparr>rr_last_observed_at_ms := t\<rparr>) = essence r"
  by (simp_all add: fault_run_def restart_run_def control_run_def stop_run_def finish_run_def)
    (simp_all add: essence_def)

section \<open>Documents\<close>

abbreviation run_ids :: "run_record list \<Rightarrow> string list" where
  "run_ids rs \<equiv> map run_id rs"

definition find_id :: "string \<Rightarrow> run_record list \<Rightarrow> run_record option" where
  "find_id i rs = find (\<lambda>r. run_id r = i) rs"

definition runs_inv :: "strategy_env \<Rightarrow> run_record list \<Rightarrow> strategy_world \<Rightarrow> bool" where
  "runs_inv E rs w \<longleftrightarrow> distinct (run_ids rs) \<and> (\<forall>r\<in>set rs. run_inv E w r)"

definition active :: "strategy_world \<Rightarrow> string \<Rightarrow> bool" where
  "active w i \<longleftrightarrow> map_of (phases w) i \<noteq> None \<or> (\<exists>ss. sw_starting w = Some ss \<and> ss_run_id ss = i)"

text \<open>
  An active run is the only one of its account, and no other run of its account and environment
  has an unresolved outcome.
\<close>

abbreviation account_id :: "run_record \<Rightarrow> string" where
  "account_id r \<equiv> ac_account_id (rv_account (rr_view r))"

abbreviation environment :: "run_record \<Rightarrow> string" where
  "environment r \<equiv> ac_environment (rv_account (rr_view r))"

definition exclusive :: "run_record list \<Rightarrow> strategy_world \<Rightarrow> bool" where
  "exclusive rs w \<longleftrightarrow> (\<forall>r\<in>set rs. \<forall>r'\<in>set rs. active w (run_id r) \<longrightarrow> run_id r' \<noteq> run_id r
     \<longrightarrow> account_id r' = account_id r
     \<longrightarrow> \<not> active w (run_id r') \<and> (environment r' = environment r \<longrightarrow> rr_pending r' = None))"

text \<open>What the phase of a worker says about its record.\<close>

definition phase_inv :: "worker_phase \<Rightarrow> run_record option \<Rightarrow> bool" where
  "phase_inv ph x \<longleftrightarrow>
     (case ph of
        Computing de \<Rightarrow> map_option essence x = Some (essence (de_record de))
      | Deciding de _ \<Rightarrow> map_option essence x = Some (essence (de_record de))
      | Prepared _ p \<Rightarrow> map_option rr_pending x = Some (Some p)
      | Admitting _ p \<Rightarrow> map_option rr_pending x = Some (Some p)
      | _ \<Rightarrow> True)"

text \<open>A phase that claims nothing and has nothing in flight.\<close>

definition calm :: "worker_phase \<Rightarrow> bool" where
  "calm ph \<longleftrightarrow> (case ph of Computing _ \<Rightarrow> False | Deciding _ _ \<Rightarrow> False | Prepared _ _ \<Rightarrow> False
     | Admitting _ _ \<Rightarrow> False | _ \<Rightarrow> True)"

definition live_inv :: "run_record list \<Rightarrow> strategy_world \<Rightarrow> bool" where
  "live_inv rs w \<longleftrightarrow> (\<forall>i ph. map_of (phases w) i = Some ph \<longrightarrow> phase_inv ph (find_id i rs))"

definition memory_inv :: "strategy_env \<Rightarrow> run_record list \<Rightarrow> strategy_world \<Rightarrow> bool" where
  "memory_inv E rs w \<longleftrightarrow> runs_inv E rs w \<and> live_inv rs w \<and> exclusive rs w"

text \<open>Submission identifiers of placements: those handed off, and those about to be.\<close>

definition sub_ids :: "pending_action list \<Rightarrow> string list" where
  "sub_ids ps = List.map_filter pa_submission_id ps"

definition handed_all :: "strategy_event list \<Rightarrow> pending_action list" where
  "handed_all tr = concat (map (\<lambda>e. case e of HandedOff _ p _ \<Rightarrow> [p] | _ \<Rightarrow> []) tr)"

definition flights :: "(string \<times> worker_phase) list \<Rightarrow> pending_action list" where
  "flights phs = concat (map (phase_flight \<circ> snd) phs)"

definition ids_inv :: "strategy_env \<Rightarrow> strategy_world \<Rightarrow> bool" where
  "ids_inv E w \<longleftrightarrow> distinct (map fst (phases w))
     \<and> distinct (sub_ids (handed_all (sw_trace w) @ flights (phases w)))
     \<and> set (sub_ids (handed_all (sw_trace w) @ flights (phases w))) \<subseteq> drawn_ids E w
     \<and> (\<forall>i. handed i (sw_trace w) \<noteq> [] \<longrightarrow> i \<in> drawn_ids E w)
     \<and> fst ` set (phases w) \<subseteq> drawn_ids E w"

definition start_inv :: "strategy_world \<Rightarrow> bool" where
  "start_inv w \<longleftrightarrow> (\<forall>ss. sw_starting w = Some ss \<longrightarrow> \<not> sw_unavailable w \<and> map_of (phases w) (ss_run_id ss) = None
     \<and> ss_index ss < length (sd_runs (sw_document w))
     \<and> run_id (sd_runs (sw_document w) ! ss_index ss) = ss_run_id ss
     \<and> ss_run_id ss \<in> set (run_ids (sd_runs (sw_document w))) \<and> calm (lv_phase (ss_live ss)))"

abbreviation ess :: "strategy_document \<Rightarrow> run_record list" where
  "ess d \<equiv> map essence (sd_runs d)"

text \<open>Every live run is revoked.\<close>

definition withdrawn :: "strategy_world \<Rightarrow> bool" where
  "withdrawn w \<longleftrightarrow> (\<forall>e\<in>set (sw_live w). 0 < lv_intent (snd e))"

definition supervisor_inv :: "strategy_env \<Rightarrow> strategy_world \<Rightarrow> bool" where
  "supervisor_inv E w \<longleftrightarrow>
     memory_inv E (sd_runs (sw_document w)) w \<and> runs_inv E (sd_runs (sw_stored w)) w
     \<and> (\<not> sw_unavailable w \<longrightarrow> ess (sw_stored w) = ess (sw_document w))
     \<and> (sw_unavailable w \<longrightarrow> withdrawn w)
     \<and> ids_inv E w \<and> start_inv w"

end
