(* ===== verification/Strategy_Safety.thy ===== *)
theory Strategy_Safety
  imports Strategy_Invariant
begin

text \<open>Every step of the supervisor keeps its invariant.\<close>

section \<open>Phases\<close>

lemma map_of_phases: "map_of (phases w) i = map_option lv_phase (map_of (sw_live w) i)"
proof -
  have "map_of (map (\<lambda>(i, l). (i, lv_phase l)) xs) i = map_option lv_phase (map_of xs i)" for xs :: "(string \<times> live_run) list"
    by (induction xs) auto
  then show ?thesis by (simp add: phases_def)
qed

lemma phases_update [simp]:
  "phases (w\<lparr>sw_document := d\<rparr>) = phases w" "phases (w\<lparr>sw_stored := d\<rparr>) = phases w"
  "phases (w\<lparr>sw_tickets := t\<rparr>) = phases w" "phases (w\<lparr>sw_requested := q\<rparr>) = phases w"
  "phases (w\<lparr>sw_starting := s\<rparr>) = phases w" "phases (w\<lparr>sw_unavailable := b\<rparr>) = phases w"
  "phases (w\<lparr>sw_admission := a\<rparr>) = phases w" "phases (w\<lparr>sw_closed := b\<rparr>) = phases w"
  "phases (w\<lparr>sw_controls := c\<rparr>) = phases w" "phases (w\<lparr>sw_busy := b\<rparr>) = phases w"
  "phases (w\<lparr>sw_fates := f\<rparr>) = phases w" "phases (w\<lparr>sw_drawn := k\<rparr>) = phases w"
  "phases (w\<lparr>sw_trace := tr\<rparr>) = phases w"
  by (simp_all add: phases_def)

lemma phases_set_live:
  assumes "\<And>l. lv_phase (f l) = g (lv_phase l)"
  shows "phases (set_live i f w) = btree_modify i g (phases w)"
proof -
  have "map (\<lambda>(i, l). (i, lv_phase l)) (btree_modify i f xs) = btree_modify i g (map (\<lambda>(i, l). (i, lv_phase l)) xs)" for xs
    by (induction xs) (auto simp: assms)
  then show ?thesis by (simp add: phases_def set_live_def)
qed

lemma phases_set_phase [simp]: "phases (set_phase i ph w) = btree_modify i (\<lambda>_. ph) (phases w)"
  unfolding set_phase_def by (rule phases_set_live) simp

lemma set_phase_fields [simp]:
  "sw_document (set_phase i ph w) = sw_document w" "sw_stored (set_phase i ph w) = sw_stored w"
  "sw_trace (set_phase i ph w) = sw_trace w" "sw_drawn (set_phase i ph w) = sw_drawn w"
  "sw_starting (set_phase i ph w) = sw_starting w" "sw_unavailable (set_phase i ph w) = sw_unavailable w"
  "sw_busy (set_phase i ph w) = sw_busy w" "sw_requested (set_phase i ph w) = sw_requested w"
  "sw_tickets (set_phase i ph w) = sw_tickets w" "sw_admission (set_phase i ph w) = sw_admission w"
  by (simp_all add: set_phase_def set_live_def)

lemma btree_modify_names [simp]: "fst ` set (btree_modify k f m) = fst ` set m"
  by (metis btree_modify_keys list.set_map)

lemma btree_modify_id: "map_of m i = Some v \<Longrightarrow> f v = v \<Longrightarrow> btree_modify i f m = m"
  by (induction m) (auto split: if_splits)

lemma btree_modify_idem [simp]: "btree_modify i (\<lambda>_. a) (btree_modify i (\<lambda>_. b) m) = btree_modify i (\<lambda>_. a) m"
  by (induction m) auto

lemma set_phase_idem [simp]: "set_phase i ph (set_phase i ph' w) = set_phase i ph w"
proof -
  have "btree_modify i (\<lambda>l. l\<lparr>lv_phase := ph\<rparr>) (btree_modify i (\<lambda>l. l\<lparr>lv_phase := ph'\<rparr>) m)
      = btree_modify i (\<lambda>l. l\<lparr>lv_phase := ph\<rparr>) m" for m :: "(string \<times> live_run) list"
    by (induction m) auto
  then show ?thesis by (simp add: set_phase_def set_live_def)
qed

lemma calm_inv [simp]: "calm ph \<Longrightarrow> phase_inv ph x" "calm ph \<Longrightarrow> phase_flight ph = []"
  by (cases ph; simp add: calm_def phase_inv_def phase_flight_def)+

lemma calm_phases [simp]:
  "calm (AtLoop e b)" "calm (InFlight de p d)" "calm (Acking de p v d)" "calm (Failing f)"
  "calm (Waiting e b c wl iv)" "calm Finishing" "calm (waiting de rd)" "calm (waiting_busy e b rd r)"
  by (simp_all add: calm_def waiting_def waiting_busy_def)

section \<open>Records up to their status\<close>

lemma find_run_id: "find_run i d = find_id i (sd_runs d)"
  by (simp add: find_run_def find_id_def)

lemma find_id_Some: "find_id i rs = Some r \<Longrightarrow> r \<in> set rs \<and> run_id r = i"
  by (auto simp: find_id_def find_Some_iff)

lemma find_id_in: "distinct (run_ids rs) \<Longrightarrow> r \<in> set rs \<Longrightarrow> find_id (run_id r) rs = Some r"
  unfolding find_id_def by (induction rs) (auto simp: rev_image_eqI)

lemma ess_run_ids: "map essence rs = map essence rs' \<Longrightarrow> run_ids rs = run_ids rs'"
  by (induction rs rs' rule: list_induct2') (auto dest: essence_fields(2))

lemma ess_member: "map essence rs = map essence rs' \<Longrightarrow> r' \<in> set rs' \<Longrightarrow> \<exists>r\<in>set rs. essence r = essence r'"
  by (metis imageE image_set list.set_map rev_image_eqI)

lemma ess_find: "map essence rs = map essence rs' \<Longrightarrow> map_option essence (find_id i rs) = map_option essence (find_id i rs')"
  unfolding find_id_def
  by (induction rs rs' rule: list_induct2') (auto dest: essence_fields(2))

lemma ess_pending: "map_option essence x = map_option essence y \<Longrightarrow> map_option rr_pending x = map_option rr_pending y"
  by (cases x; cases y) (auto dest: essence_fields(3))

lemma runs_inv_ess: "map essence rs = map essence rs' \<Longrightarrow> runs_inv E rs w \<Longrightarrow> runs_inv E rs' w"
  unfolding runs_inv_def
  by (metis ess_member ess_run_ids essence_fields(1) keeps_run_inv)

lemma phase_inv_ess: "map_option essence x = map_option essence y \<Longrightarrow> phase_inv ph x \<Longrightarrow> phase_inv ph y"
  using ess_pending [of x y] by (cases ph) (simp_all add: phase_inv_def)

lemma live_inv_ess: "map essence rs = map essence rs' \<Longrightarrow> live_inv rs w \<Longrightarrow> live_inv rs' w"
  unfolding live_inv_def using ess_find phase_inv_ess by blast

lemma exclusive_ess: "map essence rs = map essence rs' \<Longrightarrow> exclusive rs w \<Longrightarrow> exclusive rs' w"
proof (unfold exclusive_def, intro ballI impI)
  fix r r' assume eq: "map essence rs = map essence rs'"
    and ex: "\<forall>r\<in>set rs. \<forall>r'\<in>set rs. active w (run_id r) \<longrightarrow> run_id r' \<noteq> run_id r \<longrightarrow> account_id r' = account_id r
     \<longrightarrow> \<not> active w (run_id r') \<and> (environment r' = environment r \<longrightarrow> rr_pending r' = None)"
    and *: "r \<in> set rs'" "r' \<in> set rs'" "active w (run_id r)" "run_id r' \<noteq> run_id r" "account_id r' = account_id r"
  obtain s s' where "s \<in> set rs" "s' \<in> set rs" and s: "essence s = essence r" and s': "essence s' = essence r'"
    using ess_member [OF eq *(1)] ess_member [OF eq *(2)] by blast
  note same = essence_fields(2-4) [OF s] essence_fields(2-4) [OF s']
  have "\<not> active w (run_id s') \<and> (environment s' = environment s \<longrightarrow> rr_pending s' = None)"
    by (rule ex [rule_format]) (use \<open>s \<in> set rs\<close> \<open>s' \<in> set rs\<close> *(3-5) in \<open>simp_all only: same not_False_eq_True\<close>)
  then show "\<not> active w (run_id r') \<and> (environment r' = environment r \<longrightarrow> rr_pending r' = None)"
    unfolding same .
qed

lemma memory_inv_ess: "map essence rs = map essence rs' \<Longrightarrow> memory_inv E rs w \<Longrightarrow> memory_inv E rs' w"
  unfolding memory_inv_def using runs_inv_ess live_inv_ess exclusive_ess by metis

text \<open>The invariant of a list of runs reads four parts of the state.\<close>

lemma inv_cong:
  assumes "phases w' = phases w" "sw_starting w' = sw_starting w" "sw_trace w' = sw_trace w" "sw_drawn w' = sw_drawn w"
  shows "runs_inv E rs w' = runs_inv E rs w" "memory_inv E rs w' = memory_inv E rs w" "ids_inv E w' = ids_inv E w"
  using assms
  by (simp_all add: runs_inv_def memory_inv_def live_inv_def exclusive_def active_def run_inv_def flight_def
      drawn_ids_def ids_inv_def)

section \<open>Saving\<close>

lemma observe_runs_ess: "observe_runs rd live rs = Ok rs' \<Longrightarrow> map essence rs' = map essence rs"
  by (induction rs arbitrary: rs') (auto split: option.splits)

abbreviation revoke_all :: "(string \<times> live_run) list \<Rightarrow> (string \<times> live_run) list" where
  "revoke_all live \<equiv> map (\<lambda>(i, l). (i, revoke False l)) live"

lemma strategy_store_save_cases:
  obtains (ok) "strategy_store_save E d w = (True, w\<lparr>sw_fates := tl (sw_fates w), sw_stored := d\<rparr>)"
      "is_ok (document_validate E d)"
  | (lost) "strategy_store_save E d w = (False, w\<lparr>sw_fates := tl (sw_fates w)\<rparr>)"
  | (uncertain) "strategy_store_save E d w = (False, w\<lparr>sw_fates := tl (sw_fates w), sw_stored := d\<rparr>)"
      "is_ok (document_validate E d)"
proof (cases "is_ok (document_validate E d) \<and> follows_revision (sw_stored w) d")
  case True
  then show thesis
    using ok uncertain lost
    by (cases "case sw_fates w of [] \<Rightarrow> SaveStored | f # _ \<Rightarrow> f") (simp_all add: strategy_store_save_def Let_def)
next
  case False
  then show thesis using lost by (auto simp: strategy_store_save_def Let_def)
qed

lemma save_cases:
  obtains (early) x where "save E rd d w = (x, w)" "x \<noteq> Ok ()"
  | (stored) fs d' where
      "save E rd d w = (Ok (), w\<lparr>sw_fates := fs, sw_stored := d', sw_document := d'\<rparr>)"
      "ess d' = ess d" "\<not> sw_unavailable w" "is_ok (document_validate E d')"
  | (failed) fs sto d' where
      "save E rd d w = (Err strategy_storage, w\<lparr>sw_fates := fs, sw_stored := sto, sw_unavailable := True,
         sw_tickets := [], sw_live := revoke_all (sw_live w), sw_document := d'\<rparr>)"
      "ess d' = ess d"
      "sto = sw_stored w \<or> ess sto = ess d \<and> \<not> sw_unavailable w \<and> is_ok (document_validate E sto)"
proof (cases "bind_result (observe_runs rd (sw_live w) (sd_runs d)) (\<lambda>runs.
           bind_result (counter (sd_revision (sw_document w))) (\<lambda>revision.
           bind_result (ok_or (checked_add_u64 revision 1) strategy_storage) (\<lambda>revision.
             Ok (d\<lparr>sd_runs := runs, sd_revision := u64_to_string revision\<rparr>))))")
  case (Ok d1)
  then have e: "ess d1 = ess d" using observe_runs_ess by fastforce
  have ef: "ess (d1\<lparr>sd_runs := map fault_run (sd_runs d1)\<rparr>) = ess d" using e by (simp add: comp_def)
  show thesis
  proof (cases "sw_unavailable w")
    case True
    show thesis
      by (rule failed [where fs = "sw_fates w" and sto = "sw_stored w", OF _ ef]) (simp_all add: save_def Ok True)
  next
    case False
    show thesis
    proof (cases rule: strategy_store_save_cases [of E d1 w])
      case ok
      then show thesis using e False by (intro stored [where fs = "tl (sw_fates w)" and d' = d1]) (simp_all add: save_def Ok)
    next
      case lost
      show thesis
        by (rule failed [where fs = "tl (sw_fates w)" and sto = "sw_stored w", OF _ ef]) (simp_all add: save_def Ok False lost)
    next
      case uncertain
      show thesis
        by (rule failed [where fs = "tl (sw_fates w)" and sto = d1, OF _ ef]) (use uncertain False e in \<open>simp_all add: save_def Ok\<close>)
    qed
  qed
qed (use early in \<open>auto simp: save_def\<close>)

lemma phases_revoke_all: "phases (w\<lparr>sw_live := revoke_all (sw_live w)\<rparr>) = phases w"
  by (simp add: phases_def revoke_def case_prod_unfold)

lemma withdrawn_live: "sw_live w' = sw_live w \<Longrightarrow> withdrawn w' = withdrawn w"
  by (simp add: withdrawn_def)

text \<open>What a save does to the state, as far as the invariant reads it.\<close>

definition save_rel :: "strategy_document \<Rightarrow> strategy_world \<Rightarrow> strategy_world \<Rightarrow> bool" where
  "save_rel d w w' \<longleftrightarrow>
     phases w' = phases w \<and> sw_trace w' = sw_trace w \<and> sw_drawn w' = sw_drawn w \<and> sw_starting w' = sw_starting w
     \<and> (sw_document w' = sw_document w \<and> sw_stored w' = sw_stored w \<and> sw_unavailable w' = sw_unavailable w
          \<and> sw_live w' = sw_live w
        \<or> ess (sw_document w') = ess d \<and> sw_stored w' = sw_document w' \<and> \<not> sw_unavailable w'
        \<or> ess (sw_document w') = ess d \<and> sw_unavailable w' \<and> withdrawn w'
          \<and> (sw_stored w' = sw_stored w \<or> ess (sw_stored w') = ess d))"

lemma save_rel_save: "save_rel d w (snd (save E rd d w))"
proof (cases rule: save_cases [of E rd d w])
  case (failed fs sto d')
  then show ?thesis
    using phases_revoke_all [of w] by (auto simp: save_rel_def withdrawn_def revoke_def phases_def)
qed (auto simp: save_rel_def)

text \<open>After a save the invariant holds of the new document and of what is stored.\<close>

lemma save_rel_inv:
  assumes inv: "supervisor_inv E w" and mem: "memory_inv E (sd_runs d) w" and none: "sw_starting w = None"
    and rel: "save_rel d w w'"
  shows "supervisor_inv E w'"
proof -
  have same: "phases w' = phases w" "sw_starting w' = sw_starting w" "sw_trace w' = sw_trace w" "sw_drawn w' = sw_drawn w"
    using rel by (simp_all add: save_rel_def)
  note cong = inv_cong [OF same]
  have new: "memory_inv E (sd_runs d') w" "runs_inv E (sd_runs d') w" if "ess d' = ess d" for d'
    using memory_inv_ess [OF that [symmetric] mem] by (auto simp: memory_inv_def)
  show ?thesis
    using rel inv none new withdrawn_live [of w' w] by (auto simp: supervisor_inv_def save_rel_def start_inv_def cong)
qed

lemma save_inv:
  "supervisor_inv E w \<Longrightarrow> memory_inv E (sd_runs d) w \<Longrightarrow> sw_starting w = None
    \<Longrightarrow> supervisor_inv E (snd (save E rd d w))"
  using save_rel_inv save_rel_save by blast

section \<open>Less is in flight\<close>

lemma memory_inv_mono:
  assumes inv: "memory_inv E rs w"
    and tr: "sw_trace w' = sw_trace w" and dr: "sw_drawn w \<le> sw_drawn w'"
    and ph: "\<And>i ph. map_of (phases w') i = Some ph \<Longrightarrow> \<exists>old. map_of (phases w) i = Some old
      \<and> (phase_flight ph = [] \<or> phase_flight ph = phase_flight old) \<and> (ph = old \<or> phase_inv ph (find_id i rs))"
    and st: "\<And>ss. sw_starting w' = Some ss \<Longrightarrow> sw_starting w = Some ss"
  shows "memory_inv E rs w'"
proof -
  have fl: "flight w' i = [] \<or> flight w' i = flight w i" for i
    using ph [of i] by (cases "map_of (phases w') i") (fastforce simp: flight_def)+
  have act: "active w' i \<Longrightarrow> active w i" for i using ph [of i] st by (auto simp: active_def)
  have run: "run_inv E w' r" if "run_inv E w r" for r
    using that fl [of "run_id r"] dr subseq_prefix [of _ "flight w (run_id r)"]
    by (fastforce simp: run_inv_def drawn_ids_def tr)
  have "live_inv rs w'"
    using inv ph by (fastforce simp: memory_inv_def live_inv_def)
  moreover have "exclusive rs w'"
    using inv act by (fastforce simp: memory_inv_def exclusive_def)
  ultimately show ?thesis using inv run by (simp add: memory_inv_def runs_inv_def)
qed

lemma runs_inv_mono:
  assumes "runs_inv E rs w" "sw_trace w' = sw_trace w" "sw_drawn w \<le> sw_drawn w'"
    and ph: "\<And>i ph. map_of (phases w') i = Some ph \<Longrightarrow> phase_flight ph = []
      \<or> (\<exists>old. map_of (phases w) i = Some old \<and> phase_flight ph = phase_flight old)"
  shows "runs_inv E rs w'"
proof -
  have fl: "flight w' i = [] \<or> flight w' i = flight w i" for i
    using ph [of i] by (cases "map_of (phases w') i") (fastforce simp: flight_def)+
  have run: "run_inv E w' r" if "run_inv E w r" for r
    using that fl [of "run_id r"] assms(2,3) subseq_prefix [of _ "flight w (run_id r)"]
    by (fastforce simp: run_inv_def drawn_ids_def)
  then show ?thesis using assms(1) by (simp add: runs_inv_def)
qed

lemma subseq_append_left: "subseq ys zs \<Longrightarrow> subseq (xs @ ys) (xs @ zs)"
  by (induction xs) auto

lemma sub_ids_append: "sub_ids (ps @ qs) = sub_ids ps @ sub_ids qs"
  by (simp add: sub_ids_def map_filter_def)

lemma ids_inv_mono:
  assumes inv: "ids_inv E w"
    and tr: "sw_trace w' = sw_trace w" and dr: "sw_drawn w \<le> sw_drawn w'"
    and names: "subseq (map fst (phases w')) (map fst (phases w))"
    and fl: "subseq (flights (phases w')) (flights (phases w))"
  shows "ids_inv E w'"
proof -
  have "subseq (handed_all (sw_trace w) @ flights (phases w')) (handed_all (sw_trace w) @ flights (phases w))"
    using fl by (rule subseq_append_left)
  then have s: "subseq (sub_ids (handed_all (sw_trace w') @ flights (phases w'))) (sub_ids (handed_all (sw_trace w) @ flights (phases w)))"
    unfolding sub_ids_def tr by (rule subseq_map_filter)
  have d: "drawn_ids E w \<subseteq> drawn_ids E w'" using dr by (auto simp: drawn_ids_def)
  show ?thesis
    using inv d subseq_distinct [OF s] subseq_set [OF s] subseq_distinct [OF names] subseq_set [OF names]
    unfolding ids_inv_def tr by simp (meson subset_trans subsetD)
qed

lemma flights_modify:
  assumes "\<And>old. map_of phs i = Some old \<Longrightarrow> phase_flight ph = [] \<or> phase_flight ph = phase_flight old"
  shows "subseq (flights (btree_modify i (\<lambda>_. ph) phs)) (flights phs)"
  using assms
proof (induction phs)
  case (Cons a phs)
  then show ?case
    using list_emb_append_mono [of "(=)" "[]" "phase_flight (snd a)" "flights phs" "flights phs"]
    by (cases a; cases "fst a = i") (auto simp: flights_def intro: subseq_append_left)
qed (simp add: flights_def)

lemma set_phase_lives: "withdrawn w \<Longrightarrow> withdrawn (set_phase i ph w)"
proof -
  have "\<forall>e\<in>set (btree_modify i (\<lambda>l. l\<lparr>lv_phase := ph\<rparr>) xs). 0 < lv_intent (snd e)"
    if "\<forall>e\<in>set xs. 0 < lv_intent (snd e)" for xs :: "(string \<times> live_run) list"
    using that by (induction xs) (fastforce split: if_splits)+
  then show "withdrawn w \<Longrightarrow> withdrawn (set_phase i ph w)" by (simp add: set_phase_def set_live_def withdrawn_def)
qed

lemma map_of_set_phase: "map_of (phases (set_phase i ph w)) j =
    (if j = i then map_option (\<lambda>_. ph) (map_of (phases w) i) else map_of (phases w) j)"
  by simp

text \<open>A worker changes its phase: its claims hold, and nothing more is in flight.\<close>

lemma change_phase:
  assumes inv: "supervisor_inv E w"
    and fl: "\<And>old. map_of (phases w) i = Some old \<Longrightarrow> phase_flight ph = [] \<or> phase_flight ph = phase_flight old"
    and claim: "phase_inv ph (find_run i (sw_document w))"
  shows "supervisor_inv E (set_phase i ph w)"
proof -
  let ?w = "set_phase i ph w"
  have mem: "memory_inv E (sd_runs (sw_document w)) ?w"
    by (rule memory_inv_mono [of _ _ w])
      (use inv fl claim in \<open>auto simp: supervisor_inv_def find_run_id [symmetric] split: if_splits\<close>)
  have sto: "runs_inv E (sd_runs (sw_stored w)) ?w"
    by (rule runs_inv_mono [of _ _ w]) (use inv fl in \<open>auto simp: supervisor_inv_def split: if_splits\<close>)
  have ids: "ids_inv E ?w"
    by (rule ids_inv_mono [of _ w]) (use inv flights_modify [OF fl] in \<open>auto simp: supervisor_inv_def\<close>)
  show ?thesis
    using inv mem sto ids set_phase_lives [of w i ph] by (auto simp: supervisor_inv_def start_inv_def)
qed

lemma calm_down: "supervisor_inv E w \<Longrightarrow> calm ph \<Longrightarrow> supervisor_inv E (set_phase i ph w)"
  by (rule change_phase) auto

text \<open>The invariant with worker \<open>i\<close> reduced to silence.\<close>

abbreviation quiet_inv :: "strategy_env \<Rightarrow> string \<Rightarrow> strategy_world \<Rightarrow> bool" where
  "quiet_inv E i w \<equiv> supervisor_inv E (set_phase i Finishing w)"

lemma quiet_end: "quiet_inv E i w \<Longrightarrow> calm ph \<Longrightarrow> supervisor_inv E (set_phase i ph w)"
  using calm_down [of E "set_phase i Finishing w" ph i] by simp

text \<open>Fields the invariant does not read.\<close>

lemma inv_irrelevant [simp]:
  "supervisor_inv E (w\<lparr>sw_busy := b\<rparr>) = supervisor_inv E w"
  "supervisor_inv E (w\<lparr>sw_tickets := t\<rparr>) = supervisor_inv E w"
  "supervisor_inv E (w\<lparr>sw_requested := q\<rparr>) = supervisor_inv E w"
  "supervisor_inv E (w\<lparr>sw_controls := c\<rparr>) = supervisor_inv E w"
  "supervisor_inv E (w\<lparr>sw_closed := b\<rparr>) = supervisor_inv E w"
  "supervisor_inv E (w\<lparr>sw_fates := f\<rparr>) = supervisor_inv E w"
  "supervisor_inv E (w\<lparr>sw_admission := a\<rparr>) = supervisor_inv E w"
  by (simp_all add: supervisor_inv_def start_inv_def withdrawn_def inv_cong [of "w\<lparr>sw_busy := b\<rparr>" w]
      inv_cong [of "w\<lparr>sw_tickets := t\<rparr>" w] inv_cong [of "w\<lparr>sw_requested := q\<rparr>" w]
      inv_cong [of "w\<lparr>sw_controls := c\<rparr>" w] inv_cong [of "w\<lparr>sw_closed := b\<rparr>" w]
      inv_cong [of "w\<lparr>sw_fates := f\<rparr>" w] inv_cong [of "w\<lparr>sw_admission := a\<rparr>" w])

lemma set_phase_live_eq: "sw_live w' = sw_live w \<Longrightarrow> sw_live (set_phase i ph w') = sw_live (set_phase i ph w)"
  by (simp add: set_phase_def set_live_def)

lemma save_rel_set_phase: "save_rel d w w' \<Longrightarrow> save_rel d (set_phase i ph w) (set_phase i ph w')"
  using set_phase_lives [of w' i ph] set_phase_live_eq [of w' w i ph] by (auto simp: save_rel_def)

lemma quiet_save:
  assumes "quiet_inv E i w" "memory_inv E (sd_runs d) (set_phase i Finishing w)" "sw_starting w = None"
  shows "quiet_inv E i (snd (save E rd d w))"
  using save_rel_inv [OF assms(1,2) _ save_rel_set_phase [OF save_rel_save]] assms(3) by simp

section \<open>One run changes\<close>

lemma map_first_ess: "(\<And>r. essence (f r) = essence r) \<Longrightarrow> map essence (map_first P f rs) = map essence rs"
  by (rule map_first_map) simp

lemma map_first_found: "find P xs = Some x \<Longrightarrow> map_first P f xs = map_first P (\<lambda>_. f x) xs"
  by (induction xs) (auto split: if_splits)

lemma update_run_found:
  "find_run i d = Some r \<Longrightarrow> sd_runs (update_run i f d) = map_first (\<lambda>x. run_id x = i) (\<lambda>_. f r) (sd_runs d)"
  by (simp add: update_run_def find_run_def) (rule map_first_found)

lemma run_ids_replace: "run_id r' = i \<Longrightarrow> run_ids (map_first (\<lambda>x. run_id x = i) (\<lambda>_. r') rs) = run_ids rs"
  by (rule map_first_map) simp

lemma set_replace:
  assumes "distinct (run_ids rs)" "find_id i rs = Some r"
  shows "set (map_first (\<lambda>x. run_id x = i) (\<lambda>_. r') rs) = insert r' (set rs - {r})"
  using assms unfolding find_id_def
proof (induction rs)
  case (Cons a rs)
  show ?case
  proof (cases "run_id a = i")
    case True
    then have "a \<notin> set rs" "r = a" using Cons.prems by auto
    then show ?thesis using True by auto
  next
    case False
    then have "find (\<lambda>x. run_id x = i) rs = Some r" "distinct (run_ids rs)" using Cons.prems by auto
    moreover then have "run_id r = i" by (auto simp: find_Some_iff)
    ultimately show ?thesis using Cons.IH False by auto
  qed
qed simp

lemma find_replace:
  assumes "run_id r' = i"
  shows "find_id j (map_first (\<lambda>x. run_id x = i) (\<lambda>_. r') rs) =
    (if j = i then map_option (\<lambda>_. r') (find_id i rs) else find_id j rs)"
  unfolding find_id_def using assms by (induction rs) auto

lemma memory_update_others:
  assumes d: "distinct (run_ids rs)" and others: "\<And>x. x \<in> set rs \<Longrightarrow> run_id x \<noteq> i \<Longrightarrow> run_inv E w x"
    and live: "\<And>j ph. j \<noteq> i \<Longrightarrow> map_of (phases w) j = Some ph \<Longrightarrow> phase_inv ph (find_id j rs)"
    and ex: "exclusive rs w"
    and found: "find_id i rs = Some r" and name: "run_id r' = i"
    and run: "run_inv E w r'"
    and account: "account_id r' = account_id r" "environment r' = environment r"
    and pending: "rr_pending r' = None \<or> rr_pending r' = rr_pending r \<or> active w i"
    and phase: "\<And>ph. map_of (phases w) i = Some ph \<Longrightarrow> phase_inv ph (Some r')"
  shows "memory_inv E (map_first (\<lambda>x. run_id x = i) (\<lambda>_. r') rs) w"
proof -
  let ?rs = "map_first (\<lambda>x. run_id x = i) (\<lambda>_. r') rs"
  note members = set_replace [OF d found, of r']
  have r: "r \<in> set rs" "run_id r = i" using find_id_Some [OF found] by auto
  have "run_id x \<noteq> i" if "x \<in> set rs - {r}" for x
    using that find_id_in [OF d] found by fastforce
  then have "runs_inv E ?rs w" using d others run run_ids_replace [OF name] by (auto simp: runs_inv_def members)
  moreover have "live_inv ?rs w"
    using live phase found by (auto simp: live_inv_def find_replace [OF name])
  moreover have "exclusive ?rs w"
    unfolding exclusive_def
  proof (intro ballI impI)
    fix a b
    assume *: "a \<in> set ?rs" "b \<in> set ?rs" "active w (run_id a)" "run_id b \<noteq> run_id a" "account_id b = account_id a"
    define old where "old x = (if x = r' then r else x)" for x
    have old: "old x \<in> set rs" "run_id (old x) = run_id x" "account_id (old x) = account_id x" "environment (old x) = environment x"
      "rr_pending (old x) = None \<Longrightarrow> \<not> active w (run_id x) \<Longrightarrow> rr_pending x = None" if "x \<in> set ?rs" for x
      using that r name account pending by (auto simp: old_def members split: if_splits)
    have "\<not> active w (run_id (old b)) \<and> (environment (old b) = environment (old a) \<longrightarrow> rr_pending (old b) = None)"
      by (rule ex [unfolded exclusive_def, rule_format])
        (use old(1) [OF *(1)] old(1) [OF *(2)] *(3-5) in \<open>simp_all only: old(2,3) [OF *(1)] old(2,3) [OF *(2)] not_False_eq_True\<close>)
    then show "\<not> active w (run_id b) \<and> (environment b = environment a \<longrightarrow> rr_pending b = None)"
      using old(5) [OF *(2)] by (simp add: old(2,4) [OF *(1)] old(2,4) [OF *(2)])
  qed
  ultimately show ?thesis by (simp add: memory_inv_def)
qed

lemma memory_update:
  assumes "memory_inv E rs w" "find_id i rs = Some r" "run_id r' = i" "run_inv E w r'"
    "account_id r' = account_id r" "environment r' = environment r"
    "rr_pending r' = None \<or> rr_pending r' = rr_pending r \<or> active w i"
    "\<And>ph. map_of (phases w) i = Some ph \<Longrightarrow> phase_inv ph (Some r')"
  shows "memory_inv E (map_first (\<lambda>x. run_id x = i) (\<lambda>_. r') rs) w"
  using assms by (intro memory_update_others) (auto simp: memory_inv_def runs_inv_def live_inv_def)

text \<open>A change of status only.\<close>

lemma memory_same:
  assumes "supervisor_inv E w" "ess d = ess (sw_document w)"
  shows "memory_inv E (sd_runs d) w"
  using assms memory_inv_ess [of "sd_runs (sw_document w)" "sd_runs d" E w] by (simp add: supervisor_inv_def)

lemma quiet_same:
  "quiet_inv E i w \<Longrightarrow> ess d = ess (sw_document w) \<Longrightarrow> sw_starting w = None \<Longrightarrow> quiet_inv E i (snd (save E rd d w))"
  using memory_same [of E "set_phase i Finishing w" d] quiet_save by simp

lemma ess_update: "(\<And>r. essence (f r) = essence r) \<Longrightarrow> ess (update_run i f d) = ess d"
  by (simp add: update_run_def map_first_ess)

lemma ess_statuses: "(\<And>r. essence (f r) = essence r) \<Longrightarrow> ess (d\<lparr>sd_runs := map f (sd_runs d)\<rparr>) = ess d"
  by (simp add: comp_def)

lemma mark_inv: "supervisor_inv E w \<Longrightarrow> sw_starting w = None \<Longrightarrow> supervisor_inv E (mark E rd i st x w)"
  unfolding mark_def by (auto intro!: save_inv memory_same ess_update)

lemma save_fields [simp]:
  "sw_starting (snd (save E rd d w)) = sw_starting w" "sw_trace (snd (save E rd d w)) = sw_trace w"
  "sw_drawn (snd (save E rd d w)) = sw_drawn w" "phases (snd (save E rd d w)) = phases w"
  using save_rel_save [of d w E rd] by (auto simp: save_rel_def)

lemma mark_fields [simp]:
  "sw_starting (mark E rd i st x w) = sw_starting w" "sw_trace (mark E rd i st x w) = sw_trace w"
  "sw_drawn (mark E rd i st x w) = sw_drawn w" "phases (mark E rd i st x w) = phases w"
  by (auto simp: mark_def)

lemma quiet_mark: "quiet_inv E j w \<Longrightarrow> sw_starting w = None \<Longrightarrow> quiet_inv E j (mark E rd i st x w)"
  unfolding mark_def by (auto intro!: quiet_same ess_update)

section \<open>Other parts of the state\<close>

lemma inv_drawn:
  assumes inv: "supervisor_inv E w" and k: "sw_drawn w \<le> k"
  shows "supervisor_inv E (w\<lparr>sw_drawn := k\<rparr>)"
proof -
  let ?w = "w\<lparr>sw_drawn := k\<rparr>"
  have "memory_inv E (sd_runs (sw_document w)) ?w"
    by (rule memory_inv_mono [of _ _ w]) (use inv k in \<open>auto simp: supervisor_inv_def\<close>)
  moreover have "runs_inv E (sd_runs (sw_stored w)) ?w"
    by (rule runs_inv_mono [of _ _ w]) (use inv k in \<open>auto simp: supervisor_inv_def\<close>)
  moreover have "ids_inv E ?w"
    by (rule ids_inv_mono [of _ w]) (use inv k in \<open>auto simp: supervisor_inv_def\<close>)
  ultimately show ?thesis using inv by (simp add: supervisor_inv_def start_inv_def withdrawn_def)
qed

lemma inv_live:
  assumes inv: "supervisor_inv E w" and ph: "phases (w\<lparr>sw_live := live\<rparr>) = phases w"
    and wd: "withdrawn w \<Longrightarrow> withdrawn (w\<lparr>sw_live := live\<rparr>)"
  shows "supervisor_inv E (w\<lparr>sw_live := live\<rparr>)"
  using inv wd by (simp add: supervisor_inv_def start_inv_def ph inv_cong [of "w\<lparr>sw_live := live\<rparr>" w, OF ph])

lemma btree_modify_set: "set (btree_modify i (\<lambda>_. v) m) \<subseteq> insert (i, v) (set m)"
  by (induction m) (auto split: if_splits)

lemma inv_set_live:
  assumes inv: "supervisor_inv E w" and at: "map_of (sw_live w) i = Some l"
    and same: "lv_phase l' = lv_phase l" "lv_intent l' = lv_intent l"
  shows "supervisor_inv E (set_live i (\<lambda>_. l') w)" "phases (set_live i (\<lambda>_. l') w) = phases w"
    "map_of (sw_live (set_live i (\<lambda>_. l') w)) i = Some l'"
proof -
  have "phases (set_live i (\<lambda>_. l') w) = btree_modify i (\<lambda>_. lv_phase l') (phases w)"
    by (rule phases_set_live) simp
  also have "\<dots> = phases w" using at same by (intro btree_modify_id) (auto simp: map_of_phases)
  finally show ph: "phases (set_live i (\<lambda>_. l') w) = phases w" .
  have "withdrawn w \<Longrightarrow> withdrawn (set_live i (\<lambda>_. l') w)"
    using btree_modify_set [of i l' "sw_live w"] map_of_SomeD [OF at] same(2)
    by (fastforce simp: withdrawn_def set_live_def)
  then show "supervisor_inv E (set_live i (\<lambda>_. l') w)"
    using inv_live [OF inv, of "btree_modify i (\<lambda>_. l') (sw_live w)"] ph by (simp add: set_live_def)
  show "map_of (sw_live (set_live i (\<lambda>_. l') w)) i = Some l'" using at by (simp add: set_live_def)
qed

lemma set_live_fields [simp]:
  "sw_document (set_live i f w) = sw_document w" "sw_stored (set_live i f w) = sw_stored w"
  "sw_trace (set_live i f w) = sw_trace w" "sw_drawn (set_live i f w) = sw_drawn w"
  "sw_starting (set_live i f w) = sw_starting w" "sw_unavailable (set_live i f w) = sw_unavailable w"
  "sw_busy (set_live i f w) = sw_busy w"
  by (simp_all add: set_live_def)

lemma handed_all_simps [simp]:
  "handed_all [] = []"
  "handed_all (tr @ [HandedOff j p m]) = handed_all tr @ [p]"
  "handed_all (tr @ [GuestCalled j e s]) = handed_all tr"
  by (simp_all add: handed_all_def)

lemma inv_guest_called [simp]:
  "supervisor_inv E (w\<lparr>sw_trace := sw_trace w @ [GuestCalled i e s]\<rparr>) = supervisor_inv E w"
  by (simp add: supervisor_inv_def start_inv_def withdrawn_def runs_inv_def memory_inv_def live_inv_def exclusive_def
      active_def run_inv_def flight_def drawn_ids_def ids_inv_def)

lemma revoke_intent_inv: "supervisor_inv E w \<Longrightarrow> supervisor_inv E (snd (revoke_intent stop i w))"
proof (cases "checked_add_u64 (sw_admission w) 1")
  case (Some a)
  assume inv: "supervisor_inv E w"
  let ?live = "map (\<lambda>(j, l). (j, if i = None \<or> i = Some j then revoke stop l else l)) (sw_live w)"
  have "supervisor_inv E (w\<lparr>sw_admission := a, sw_live := ?live\<rparr>)"
    by (rule inv_live) (simp_all add: inv phases_def withdrawn_def revoke_def case_prod_unfold less_max_iff_disj)
  then show ?thesis by (simp add: revoke_intent_def Some)
qed (simp add: revoke_intent_def)

lemma flights_remove: "subseq (flights (btree_remove i m)) (flights m)"
proof (induction m)
  case (Cons a m)
  then show ?case
    using list_emb_append_mono [of "(=)" "[]" "phase_flight (snd a)" "flights (btree_remove i m)" "flights m"]
    by (auto simp: flights_def btree_remove_def intro: subseq_append_left)
qed (simp add: flights_def btree_remove_def)

lemma inv_remove:
  assumes inv: "supervisor_inv E w"
  shows "supervisor_inv E (w\<lparr>sw_live := btree_remove i (sw_live w)\<rparr>)"
proof -
  let ?w = "w\<lparr>sw_live := btree_remove i (sw_live w)\<rparr>"
  have ph: "phases ?w = btree_remove i (phases w)"
    by (simp add: phases_def btree_remove_def filter_map comp_def case_prod_unfold)
  have "subseq (btree_remove i (phases w)) (phases w)" by (simp add: btree_remove_def)
  then have "subseq (map fst (phases ?w)) (map fst (phases w))" unfolding ph by (rule subseq_map)
  then have "ids_inv E ?w"
    by (rule ids_inv_mono [of _ w, rotated 3])
      (use inv flights_remove [of i "phases w"] in \<open>simp_all add: supervisor_inv_def ph\<close>)
  moreover have "memory_inv E (sd_runs (sw_document w)) ?w"
    by (rule memory_inv_mono [of _ _ w]) (use inv in \<open>auto simp: supervisor_inv_def ph split: if_splits\<close>)
  moreover have "runs_inv E (sd_runs (sw_stored w)) ?w"
    by (rule runs_inv_mono [of _ _ w]) (use inv in \<open>auto simp: supervisor_inv_def ph split: if_splits\<close>)
  moreover have "withdrawn w \<Longrightarrow> withdrawn ?w" by (simp add: withdrawn_def btree_remove_def)
  ultimately show ?thesis using inv by (auto simp: supervisor_inv_def start_inv_def ph)
qed

end
