(* ===== verification/Strategy_Preserved.thy ===== *)
theory Strategy_Preserved
  imports Strategy_Safety "HOL-Library.Multiset"
begin

text \<open>The invariant of the supervisor through each of its steps.\<close>

section \<open>Callers\<close>

lemma access_inv: "supervisor_inv E w \<Longrightarrow> supervisor_inv E (snd (access E rd request seen w))"
proof -
  assume "supervisor_inv E w"
  then have "supervisor_inv E (w\<lparr>sw_drawn := Suc (sw_drawn w)\<rparr>)" by (rule inv_drawn) simp
  then have "supervisor_inv E (w\<lparr>sw_drawn := Suc (sw_drawn w), sw_tickets := t\<rparr>)" for t by simp
  then show ?thesis using \<open>supervisor_inv E w\<close>
    by (auto simp: access_def Let_def split: result.splits)
qed

lemma start_take_inv: "supervisor_inv E w \<Longrightarrow> supervisor_inv E (snd (start_take E request w))"
  by (auto simp: start_take_def split: result.splits)

lemma control_accept_inv: "supervisor_inv E w \<Longrightarrow> supervisor_inv E (snd (control_accept E request w))"
  using revoke_intent_inv [of E w "cq_action request = ControlStop" "Some (cq_run_id request)"]
  by (auto simp: control_accept_def split: prod.splits result.splits)

lemma stop_all_accept_inv: "supervisor_inv E w \<Longrightarrow> supervisor_inv E (snd (stop_all_accept w))"
  using revoke_intent_inv [of E w True None]
  by (auto simp: stop_all_accept_def split: prod.splits result.splits)

lemma revoke_for_exit_inv: "supervisor_inv E w \<Longrightarrow> supervisor_inv E (revoke_for_exit w)"
  by (simp add: revoke_for_exit_def revoke_intent_inv)

lemma control_locked_inv:
  assumes "supervisor_inv E w" "sw_starting w = None"
  shows "supervisor_inv E (snd (control_locked E rd i action w))"
proof -
  let ?w = "w\<lparr>sw_tickets := []\<rparr>"
  have "supervisor_inv E (snd (save E rd (update_run i (control_run ?w (action = ControlStop)) (sw_document ?w)) ?w))"
    by (intro save_inv memory_same ess_update) (simp_all add: assms)
  then show ?thesis using assms by (auto simp: control_locked_def Let_def split: option.splits prod.splits)
qed

lemma stop_all_locked_inv:
  assumes "supervisor_inv E w" "sw_starting w = None"
  shows "supervisor_inv E (snd (stop_all_locked E rd w))"
proof -
  let ?w = "w\<lparr>sw_tickets := []\<rparr>"
  have "supervisor_inv E (snd (save E rd ((sw_document ?w)\<lparr>sd_runs := map (stop_run ?w) (sd_runs (sw_document ?w))\<rparr>) ?w))"
    by (intro save_inv memory_same ess_statuses) (simp_all add: assms)
  then show ?thesis using assms by (auto simp: stop_all_locked_def Let_def split: prod.splits)
qed

section \<open>The turn of a worker\<close>

lemma clock_check_live [simp]:
  "lv_phase (snd (clock_check rd r l)) = lv_phase l" "lv_intent (snd (clock_check rd r l)) = lv_intent l"
  by (simp_all add: clock_check_def Let_def)

lemma check_dispatch_live [simp]:
  "lv_phase (snd (check_dispatch rd r ob wall l)) = lv_phase l" "lv_intent (snd (check_dispatch rd r ob wall l)) = lv_intent l"
  "lv_authority (snd (check_dispatch rd r ob wall l)) = lv_authority l"
  by (simp_all add: check_dispatch_def clock_check_def Let_def case_prod_unfold)

lemma begin_pass_inv:
  assumes inv: "supervisor_inv E w" and at: "map_of (sw_live w) i = Some l" and none: "sw_starting w = None"
  shows "supervisor_inv E (begin_pass E rd rd' h lease context_len i event first l w)"
proof (cases "admitted l \<and> find_run i (sw_document w) \<noteq> None")
  case True
  then obtain r where r: "find_run i (sw_document w) = Some r" by auto
  obtain checked l' where c: "clock_check rd r l = (checked, l')" by fastforce
  let ?w = "set_live i (\<lambda>_. l') w"
  have l': "lv_phase l' = lv_phase l" "lv_intent l' = lv_intent l" using clock_check_live [of rd r l] c by auto
  have inv': "supervisor_inv E ?w" by (rule inv_set_live(1) [OF inv at l'])
  have mark: "supervisor_inv E (set_phase i Finishing (mark E rd i st x ?w))" for st x
    by (rule calm_down [OF mark_inv]) (simp_all add: inv' none)
  have comp: "supervisor_inv E ((set_phase i (Computing de) ?w)\<lparr>sw_trace := sw_trace w @ [GuestCalled i event s]\<rparr>)"
    if "de_record de = r" for de s
  proof -
    have "supervisor_inv E (set_phase i (Computing de) ?w)"
      by (rule change_phase [OF inv']) (use that r in \<open>auto simp: phase_flight_def phase_inv_def\<close>)
    then show ?thesis using inv_guest_called [of E "set_phase i (Computing de) ?w" i event s] by simp
  qed
  have rec: "de_record de = r" if "pass_begin E rd rd' h lease context_len b event l' r = Ok de" for de b
    using that by (auto simp: pass_begin_def Let_def split: if_splits)
  show ?thesis
  proof (cases checked)
    case (Ok u)
    show ?thesis
    proof (cases "pass_begin E rd rd' h lease context_len (sw_busy w) event l' r")
      case (Ok de)
      then show ?thesis using comp [OF rec [OF Ok]] \<open>checked = result.Ok u\<close> True r c
        by (simp add: begin_pass_def)
    next
      case (Err e)
      then show ?thesis using \<open>checked = result.Ok u\<close> True r c inv' by (simp add: begin_pass_def calm_down)
    next
      case Panic
      then show ?thesis using \<open>checked = result.Ok u\<close> True r c mark by (simp add: begin_pass_def)
    qed
  qed (use True r c inv' mark in \<open>simp_all add: begin_pass_def\<close>)
qed (use inv in \<open>auto simp: begin_pass_def calm_down split: option.splits\<close>)

lemma live_phase:
  assumes "supervisor_inv E w" "map_of (sw_live w) i = Some l"
  shows "phase_inv (lv_phase l) (find_run i (sw_document w))"
  using assms by (auto simp: supervisor_inv_def memory_inv_def live_inv_def map_of_phases find_run_id)

lemma guest_done_inv:
  assumes inv: "supervisor_inv E w" and at: "worker_at w i l (Computing de)"
  shows "supervisor_inv E (guest_done E g i de l w)"
proof -
  have "supervisor_inv E (set_phase i (Deciding de out) w)" for out
    using live_phase [OF inv, of i l] at
    by (intro change_phase [OF inv]) (auto simp: phase_flight_def phase_inv_def)
  then show ?thesis
    using calm_down [OF inv] by (auto simp: guest_done_def split: guest_result.splits result.splits)
qed

lemma finish_inv:
  assumes inv: "supervisor_inv E w" and none: "sw_starting w = None"
  shows "supervisor_inv E (finish E rd i w)"
proof -
  have "supervisor_inv E (snd (save E rd (update_run i (finish_run l) (sw_document w)) w))" for l
    by (intro save_inv memory_same ess_update) (simp_all add: inv none)
  then show ?thesis using inv by (auto simp: finish_def Let_def intro!: inv_remove split: option.splits)
qed

lemma fail_turn_inv:
  assumes "supervisor_inv E w" "sw_starting w = None"
  shows "supervisor_inv E (fail_turn E rd i failure l w)"
  using assms by (simp add: fail_turn_def calm_down mark_inv Let_def)

lemma wait_over_inv:
  assumes "supervisor_inv E w" "sw_starting w = None"
  shows "supervisor_inv E (wait_over E rd woken i event first completed wall interval l w)"
  using assms by (simp add: wait_over_def calm_down mark_inv Let_def)

section \<open>Hand-off\<close>

lemma flight_at: "map_of (sw_live w) i = Some l \<Longrightarrow> flight w i = phase_flight (lv_phase l)"
  by (simp add: flight_def map_of_phases)

lemma flights_split:
  assumes "map_of phs i = Some ph"
  obtains a b where "flights phs = a @ phase_flight ph @ b" "flights (btree_modify i (\<lambda>_. ph') phs) = a @ phase_flight ph' @ b"
  using assms
proof (induction phs arbitrary: thesis)
  case (Cons x phs)
  show ?case
  proof (cases "fst x = i")
    case True
    then show ?thesis using Cons.prems by (intro Cons.prems(1) [of "[]" "flights phs"]) (cases x; auto simp: flights_def)+
  next
    case False
    then obtain a b where "flights phs = a @ phase_flight ph @ b" "flights (btree_modify i (\<lambda>_. ph') phs) = a @ phase_flight ph' @ b"
      using Cons.IH Cons.prems(2) by (auto simp: split_paired_all)
    then show ?thesis using False
      by (intro Cons.prems(1) [of "phase_flight (snd x) @ a" b]) (cases x; auto simp: flights_def)+
  qed
qed simp

lemma hand_off_inv:
  assumes inv: "supervisor_inv E w" and at: "worker_at w i l (Admitting de p)"
  shows "supervisor_inv E (hand_off rd i de p l w)"
proof -
  obtain checked l' where c: "check_dispatch rd (de_record de) (de_observed de) (de_observed_wall de) l = (checked, l')"
    by fastforce
  have l': "lv_phase l' = lv_phase l" "lv_intent l' = lv_intent l"
    using check_dispatch_live [of rd "de_record de" "de_observed de" "de_observed_wall de" l] c by auto
  define v where "v = set_live i (\<lambda>_. l') w"
  note live = inv_set_live [OF inv conjunct1 [OF at] l', folded v_def]
  have v: "sw_trace v = sw_trace w" "sw_drawn v = sw_drawn w" "sw_starting v = sw_starting w"
    "sw_document v = sw_document w" "sw_stored v = sw_stored w" "sw_unavailable v = sw_unavailable w"
    by (simp_all add: v_def)
  have "supervisor_inv E ((set_phase i (InFlight de p None) v)\<lparr>sw_trace := sw_trace v @ [HandedOff i p m]\<rparr>)"
    (is "supervisor_inv E ?w") for m
  proof -
    have ph: "map_of (phases v) i = Some (Admitting de p)" using live(2) at by (simp add: map_of_phases)
    have calm: "supervisor_inv E (set_phase i (InFlight de p None) v)" using live(1) by (rule calm_down) simp
    have phw: "phases ?w = btree_modify i (\<lambda>_. InFlight de p None) (phases v)" by simp
    have fl: "handed j (sw_trace ?w) @ flight ?w j = handed j (sw_trace v) @ flight v j" for j
      using ph unfolding flight_def phw by (cases "j = i") (auto simp: phase_flight_def)
    have run: "run_inv E ?w r = run_inv E v r" for r
      unfolding run_inv_def fl by (simp add: drawn_ids_def)
    have runs: "runs_inv E rs ?w = runs_inv E rs v" for rs by (simp add: runs_inv_def run)
    have act: "active ?w j = active v j" for j using ph by (simp add: active_def)
    have mem: "memory_inv E (sd_runs (sw_document v)) ?w"
    proof -
      have "phases ?w = phases (set_phase i (InFlight de p None) v)" by simp
      then have "live_inv (sd_runs (sw_document v)) ?w"
        using calm unfolding supervisor_inv_def memory_inv_def live_inv_def set_phase_fields by metis
      moreover have "exclusive (sd_runs (sw_document v)) ?w"
        using live(1) unfolding supervisor_inv_def memory_inv_def exclusive_def act by blast
      ultimately show ?thesis using live(1) unfolding supervisor_inv_def memory_inv_def runs by blast
    qed
    obtain a b where ab: "flights (phases v) = a @ [p] @ b" "flights (phases ?w) = a @ b"
      using flights_split [OF ph, of "InFlight de p None"] by (auto simp: phase_flight_def)
    have "mset (sub_ids (handed_all (sw_trace ?w) @ flights (phases ?w))) = mset (sub_ids (handed_all (sw_trace v) @ flights (phases v)))"
      unfolding ab using sub_ids_append [of "[p]" "a @ b"] sub_ids_append [of "[p]" b] by (simp add: sub_ids_append)
    then have m: "distinct (sub_ids (handed_all (sw_trace ?w) @ flights (phases ?w))) = distinct (sub_ids (handed_all (sw_trace v) @ flights (phases v)))"
      "set (sub_ids (handed_all (sw_trace ?w) @ flights (phases ?w))) = set (sub_ids (handed_all (sw_trace v) @ flights (phases v)))"
      by (metis mset_eq_imp_distinct_iff, metis set_mset_mset)
    have ids: "ids_inv E v" using live(1) by (simp add: supervisor_inv_def)
    have i: "i \<in> drawn_ids E v"
      using ids map_of_SomeD [OF ph] unfolding ids_inv_def by (metis fst_conv image_subset_iff)
    have same: "drawn_ids E ?w = drawn_ids E v" "map fst (phases ?w) = map fst (phases v)"
      "fst ` set (phases ?w) = fst ` set (phases v)" by (simp_all add: drawn_ids_def)
    have "handed j (sw_trace ?w) \<noteq> [] \<Longrightarrow> j = i \<or> handed j (sw_trace v) \<noteq> []" for j by auto
    then have ids': "ids_inv E ?w" using ids i unfolding ids_inv_def m same by blast
    have "start_inv ?w" "sw_unavailable v \<longrightarrow> withdrawn ?w"
      using calm by (simp_all add: supervisor_inv_def start_inv_def withdrawn_def)
    moreover have "runs_inv E (sd_runs (sw_stored v)) ?w" "\<not> sw_unavailable v \<longrightarrow> ess (sw_stored v) = ess (sw_document v)"
      using live(1) unfolding runs supervisor_inv_def by simp_all
    ultimately show ?thesis using mem ids' unfolding supervisor_inv_def by simp
  qed
  then show ?thesis
    using calm_down [OF live(1)] live(1) c
    by (simp add: hand_off_def v_def [symmetric] split: result.splits)
qed

section \<open>Accounting\<close>

text \<open>What the pieces of an answer leave alone.\<close>

definition same_core :: "run_record \<Rightarrow> run_record \<Rightarrow> bool" where
  "same_core r r' \<longleftrightarrow> keeps r r' \<and> rv_account (rr_view r') = rv_account (rr_view r)
     \<and> (rr_pending r' = None \<or> rr_pending r' = rr_pending r)"

lemma same_core_trans: "same_core a b \<Longrightarrow> same_core b c \<Longrightarrow> same_core a c"
  unfolding same_core_def keeps_def by (metis subset_trans)

lemma same_core_answer:
  "same_core r (record_answer p receipt r)" "same_core r (settle_answer status kind r)"
  by (simp_all add: same_core_def keeps_def record_answer_def note_output_def settle_answer_def set_status_def)

lemma same_core_own: "own_accepted p accepted r = Ok r' \<Longrightarrow> same_core r r'"
  by (auto simp: own_accepted_def same_core_def keeps_def split: option.splits if_splits)

lemma respond_run_effect:
  assumes "respond_run p status accepted accepted_id kind r = Ok r'"
  shows "same_core r r'"
proof -
  obtain r1 where own: "own_accepted p accepted (record_answer p (answer_receipt p status accepted_id kind) r) = Ok r1"
    and r': "r' = settle_answer status kind r1"
    using assms by (auto simp: respond_run_def split: if_splits)
  show ?thesis
    unfolding r' by (rule same_core_trans [OF same_core_answer(1) same_core_trans [OF same_core_own [OF own] same_core_answer(2)]])
qed

lemma answer_memory:
  assumes inv: "supervisor_inv E v" and found: "find_run i (sw_document v) = Some r" and core: "same_core r r'"
    and calm: "\<And>ph. map_of (phases v) i = Some ph \<Longrightarrow> calm ph"
  shows "memory_inv E (sd_runs (update_run i (\<lambda>_. r') (sw_document v))) v"
proof -
  have mem: "memory_inv E (sd_runs (sw_document v)) v" using inv by (simp add: supervisor_inv_def)
  have r: "r \<in> set (sd_runs (sw_document v))" "run_id r = i" using found find_id_Some by (auto simp: find_run_id)
  have keeps: "keeps r r'" using core by (simp add: same_core_def)
  have run: "run_inv E v r'" using r mem keeps_run_inv [OF keeps] by (auto simp: memory_inv_def runs_inv_def)
  show ?thesis
    unfolding update_run_found [OF found]
  proof (rule memory_update [OF mem])
    show "find_id i (sd_runs (sw_document v)) = Some r" using found by (simp add: find_run_id)
    show "run_id r' = i" using keeps r by (simp add: keeps_def)
    show "phase_inv ph (Some r')" if "map_of (phases v) i = Some ph" for ph using calm [OF that] by simp
  qed (use run core in \<open>auto simp: same_core_def\<close>)
qed

lemma run_state_Ok: "run_state w i = Ok r \<longleftrightarrow> find_run i (sw_document w) = Some r"
  by (simp add: run_state_def)

lemma run_state_no_panic [simp]: "run_state w i \<noteq> Panic"
  by (simp add: run_state_def ok_or_def split: option.splits)

lemma account_answer_cases:
  obtains (none) "snd (account_answer E rd i p response w) = w"
  | (saved) r r' where "find_run i (sw_document w) = Some r" "same_core r r'"
      "snd (account_answer E rd i p response w) = snd (save E rd (update_run i (\<lambda>_. r') (sw_document w)) w)"
proof (cases "bind_result (run_state w i) (\<lambda>r.
           bind_result (or_panic (action_kind (pa_action p))) (\<lambda>kind.
           let (status, accepted, accepted_id) = classify_response (se_dec E) r p response in
           bind_result (respond_run p status accepted accepted_id kind r) (\<lambda>r'.
             Ok (status, accepted, r'))))")
  case (Ok x)
  then obtain r kind where r: "find_run i (sw_document w) = Some r"
    and rest: "(let (status, accepted, accepted_id) = classify_response (se_dec E) r p response in
           bind_result (respond_run p status accepted accepted_id kind r) (\<lambda>r'. Ok (status, accepted, r'))) = Ok x"
    by (auto simp: run_state_Ok)
  obtain status accepted accepted_id where "classify_response (se_dec E) r p response = (status, accepted, accepted_id)"
    by (cases "classify_response (se_dec E) r p response")
  then obtain r' where x: "x = (status, accepted, r')" and resp: "respond_run p status accepted accepted_id kind r = Ok r'"
    using rest by auto
  show thesis
    by (rule saved [OF r respond_run_effect [OF resp]])
      (simp add: account_answer_def Ok [unfolded Let_def] x Let_def split: prod.splits)
qed (use none in \<open>auto simp: account_answer_def\<close>)

lemma account_answer_inv:
  assumes "supervisor_inv E w" "sw_starting w = None" "\<And>ph. map_of (phases w) i = Some ph \<Longrightarrow> calm ph"
  shows "supervisor_inv E (snd (account_answer E rd i p response w))"
  by (cases rule: account_answer_cases [of E rd i p response w])
    (use assms in \<open>auto intro!: save_inv answer_memory\<close>)

lemma account_answer_quiet:
  assumes quiet: "quiet_inv E i w" and none: "sw_starting w = None"
  shows "quiet_inv E i (snd (account_answer E rd i p response w))"
proof (cases rule: account_answer_cases [of E rd i p response w])
  case none
  then show ?thesis using quiet by simp
next
  case (saved r r')
  have "memory_inv E (sd_runs (update_run i (\<lambda>_. r') (sw_document (set_phase i Finishing w)))) (set_phase i Finishing w)"
    by (rule answer_memory [OF quiet]) (use saved in auto)
  then show ?thesis unfolding saved(3) using quiet none by (intro quiet_save) simp_all
qed

lemma account_answer_starting [simp]:
  "sw_starting (snd (account_answer E rd i p response w)) = sw_starting w"
  "phases (snd (account_answer E rd i p response w)) = phases w"
  by (cases rule: account_answer_cases [of E rd i p response w]; simp)+

lemma account_acknowledged_cases:
  obtains (none) "snd (account_acknowledged E rd i p ok w) = w"
  | (marked) "snd (account_acknowledged E rd i p ok w) = mark E rd i RunRecoveryRequired ''plugin_strategy_ack_failed'' w"
  | (saved) r where "find_run i (sw_document w) = Some r"
      "snd (account_acknowledged E rd i p ok w) = snd (save E rd (update_run i (\<lambda>_. r\<lparr>rr_pending := None\<rparr>) (sw_document w)) w)"
proof (cases "run_state w i")
  case (Ok r)
  then have f: "find_run i (sw_document w) = Some r" by (simp add: run_state_Ok)
  have "update_run i (\<lambda>r. r\<lparr>rr_pending := None\<rparr>) (sw_document w) = update_run i (\<lambda>_. r\<lparr>rr_pending := None\<rparr>) (sw_document w)"
    using f map_first_found [of _ "sd_runs (sw_document w)" r "\<lambda>r. r\<lparr>rr_pending := None\<rparr>"]
    by (simp add: update_run_def find_run_def)
  then show thesis
    using Ok none marked saved [OF f] by (cases "ok"; cases "rr_pending r = Some p") (simp_all add: account_acknowledged_def)
qed (use none in \<open>auto simp: account_acknowledged_def\<close>)

lemma account_acknowledged_inv:
  assumes inv: "supervisor_inv E w" and none: "sw_starting w = None" and calm: "\<And>ph. map_of (phases w) i = Some ph \<Longrightarrow> calm ph"
  shows "supervisor_inv E (snd (account_acknowledged E rd i p ok w))"
proof (cases rule: account_acknowledged_cases [of E rd i p ok w])
  case (saved r)
  have "memory_inv E (sd_runs (update_run i (\<lambda>_. r\<lparr>rr_pending := None\<rparr>) (sw_document w))) w"
    by (rule answer_memory [OF inv saved(1)]) (use calm in \<open>auto simp: same_core_def keeps_def\<close>)
  then show ?thesis unfolding saved(2) using inv none by (intro save_inv)
qed (use inv none mark_inv in simp_all)

lemma account_acknowledged_quiet:
  assumes quiet: "quiet_inv E i w" and none: "sw_starting w = None"
  shows "quiet_inv E i (snd (account_acknowledged E rd i p ok w))"
proof (cases rule: account_acknowledged_cases [of E rd i p ok w])
  case (saved r)
  have "memory_inv E (sd_runs (update_run i (\<lambda>_. r\<lparr>rr_pending := None\<rparr>) (sw_document (set_phase i Finishing w)))) (set_phase i Finishing w)"
    by (rule answer_memory [OF quiet]) (use saved in \<open>auto simp: same_core_def keeps_def\<close>)
  then show ?thesis unfolding saved(2) using quiet none by (intro quiet_save) simp_all
qed (use quiet none quiet_mark in simp_all)

lemma account_acknowledged_starting [simp]:
  "sw_starting (snd (account_acknowledged E rd i p ok w)) = sw_starting w"
  "phases (snd (account_acknowledged E rd i p ok w)) = phases w"
  by (cases rule: account_acknowledged_cases [of E rd i p ok w]; simp)+

section \<open>The end of a turn\<close>

lemma set_phase_busy: "set_phase i ph (w\<lparr>sw_busy := b\<rparr>) = (set_phase i ph w)\<lparr>sw_busy := b\<rparr>"
  by (simp add: set_phase_def set_live_def)

lemma btree_modify_absent: "map_of m i = None \<Longrightarrow> btree_modify i f m = m"
  by (induction m) (auto split: if_splits)

lemma quiet_absent: "quiet_inv E i w \<Longrightarrow> map_of (sw_live w) i = None \<Longrightarrow> supervisor_inv E w"
  by (simp add: set_phase_def set_live_def btree_modify_absent)

lemma panic_pass_inv: "quiet_inv E i w \<Longrightarrow> sw_starting w = None \<Longrightarrow> supervisor_inv E (panic_pass E rd i w)"
  by (simp add: panic_pass_def quiet_mark)

lemma fail_pass_inv: "quiet_inv E i w \<Longrightarrow> supervisor_inv E (fail_pass i e w)"
  by (simp add: fail_pass_def quiet_end)

lemma close_pass_inv:
  assumes quiet: "quiet_inv E i w" and none: "sw_starting w = None"
  shows "supervisor_inv E (close_pass E rd i de denied accounted w)"
proof -
  let ?w = "w\<lparr>sw_busy := False\<rparr>"
  have q: "quiet_inv E i ?w" using quiet by (simp add: set_phase_busy)
  have "supervisor_inv E ?w" if "map_of (sw_live ?w) i = None" by (rule quiet_absent [OF q that])
  then show ?thesis
    using q none by (auto simp: close_pass_def Let_def fail_pass_inv panic_pass_inv quiet_end split: result.splits option.splits)
qed

lemma respond_inv:
  assumes inv: "supervisor_inv E w" and none: "sw_starting w = None"
  shows "supervisor_inv E (respond E rd i de p denied response w)"
proof -
  have q: "quiet_inv E i w" by (rule calm_down [OF inv]) simp
  obtain x v where xv: "account_answer E rd i p response w = (x, v)" by fastforce
  have v: "quiet_inv E i v" "sw_starting v = None"
    using account_answer_quiet [OF q none, of rd p response] account_answer_starting(1) [of E rd i p response w] none
    by (simp_all add: xv)
  have "quiet_inv E i (w\<lparr>sw_busy := False\<rparr>)" using q by (simp add: set_phase_busy)
  then show ?thesis
    using v none by (auto simp: respond_def xv panic_pass_inv close_pass_inv quiet_end split: result.splits option.splits)
qed

lemma acknowledge_inv:
  assumes inv: "supervisor_inv E w" and none: "sw_starting w = None"
  shows "supervisor_inv E (acknowledge E rd i de p denied ok w)"
proof -
  have q: "quiet_inv E i w" by (rule calm_down [OF inv]) simp
  obtain x v where xv: "account_acknowledged E rd i p ok w = (x, v)" by fastforce
  have "quiet_inv E i v" "sw_starting v = None"
    using account_acknowledged_quiet [OF q none, of rd p ok] account_acknowledged_starting(1) [of E rd i p ok w] none
    by (simp_all add: xv)
  then show ?thesis by (simp add: acknowledge_def xv close_pass_inv)
qed

lemma recheck_inv:
  assumes inv: "supervisor_inv E w" and at: "worker_at w i l (Prepared de p)" and none: "sw_starting w = None"
  shows "supervisor_inv E (recheck E rd i de p l w)"
proof -
  obtain checked l' where c: "(case check_binding rd l of
      Ok _ \<Rightarrow> check_dispatch rd (de_record de) (de_observed de) (de_observed_wall de) l | r \<Rightarrow> (r, l)) = (checked, l')"
    by fastforce
  have l': "lv_phase l' = lv_phase l" "lv_intent l' = lv_intent l"
    using c check_dispatch_live [of rd "de_record de" "de_observed de" "de_observed_wall de" l]
    by (auto split: result.splits) (metis check_dispatch_live snd_conv)+
  define v where "v = set_live i (\<lambda>_. l') w"
  note live = inv_set_live [OF inv conjunct1 [OF at] l', folded v_def]
  have nv: "sw_starting v = None" using none by (simp add: v_def)
  have q: "quiet_inv E i v" by (rule calm_down [OF live(1)]) simp
  have qb: "quiet_inv E i (v\<lparr>sw_busy := False\<rparr>)" using q by (simp add: set_phase_busy)
  have adm: "supervisor_inv E (set_phase i (Admitting de p) v)"
    by (rule change_phase [OF live(1)])
      (use live_phase [OF live(1) live(3)] live(2) at l' in \<open>auto simp: phase_flight_def phase_inv_def map_of_phases\<close>)
  obtain x u where xu: "account_answer E rd i p (Err (EOrderSubmissionRejected ''local admission revoked'')) v = (x, u)"
    by fastforce
  have u: "quiet_inv E i u" "sw_starting u = None"
    using account_answer_quiet [OF q nv, of rd p "Err (EOrderSubmissionRejected ''local admission revoked'')"]
      account_answer_starting(1) [of E rd i p "Err (EOrderSubmissionRejected ''local admission revoked'')" v] nv
    by (simp_all add: xu)
  show ?thesis
    unfolding recheck_def c Let_def
    using adm u qb nv
    by (auto simp: v_def [symmetric] xu close_pass_inv panic_pass_inv fail_pass_inv split: result.splits)
qed

lemma reconcile_inv:
  assumes inv: "supervisor_inv E w" and none: "sw_starting w = None"
  shows "supervisor_inv E (snd (reconcile_owned E rd i found ok w))"
proof (cases "reconcile_prepare E rd i found w")
  case (Ok x)
  obtain p response where x: "x = (p, response)" by fastforce
  have idle: "map_of (phases w) i = None"
    using Ok by (auto simp: reconcile_prepare_def map_of_phases split: if_splits)
  obtain y v where yv: "account_answer E rd i p response w = (y, v)" by fastforce
  have v: "supervisor_inv E v" "sw_starting v = None" "map_of (phases v) i = None"
    using account_answer_inv [OF inv none, of i rd p response] account_answer_starting [of E rd i p response w] none idle
    by (simp_all add: yv)
  obtain z u where zu: "(case (y, v) of (Ok (Some o'), w) \<Rightarrow> account_acknowledged E rd i p ok w | (r, w) \<Rightarrow> (bind_result r (\<lambda>_. Ok ()), w)) = (z, u)"
    by fastforce
  have u: "supervisor_inv E u" "sw_starting u = None"
    using zu v account_acknowledged_inv [OF v(1,2), of i rd p ok] account_acknowledged_starting(1) [of E rd i p ok v]
    by (auto split: result.splits option.splits) (metis account_acknowledged_starting(1) snd_conv)
  show ?thesis
    using u by (auto simp: reconcile_owned_def Ok x yv zu [simplified] Let_def mark_inv split: result.splits)
qed (use inv in \<open>auto simp: reconcile_owned_def\<close>)

end
