(* ===== verification/Strategy_Decisions.thy ===== *)
theory Strategy_Decisions
  imports Strategy_Preserved
begin

text \<open>The invariant through a decision, a start and a restart; hence in every reachable state.\<close>

section \<open>What a validated action is\<close>

lemma strategy_quantity_of: "strategy_quantity D s = Ok q \<longleftrightarrow> quantity_of D s = Some q"
  by (auto simp: quantity_of_def strategy_quantity_def ok_or_def split: result.splits option.splits)

lemma quantity_of_pos: "quantity_of D s = Some q \<Longrightarrow> 0 < q"
  by (auto simp: strategy_quantity_of [symmetric] strategy_quantity_def elim!: workflow_decimal_Ok)

definition chargeable :: "strategy_env \<Rightarrow> run_record \<Rightarrow> strategy_action \<Rightarrow> bool" where
  "chargeable E r a \<longleftrightarrow> (\<forall>s. action_qty a = Some s \<longrightarrow> (\<exists>q t t'. quantity_of (se_dec E) s = Some q
     \<and> dec_from_str_exact (se_dec E) (rv_total_submitted_qty (rr_view r)) = Some t \<and> se_add E t q = Some t'
     \<and> (\<forall>m. quantity_of (se_dec E) (sp_max_total_qty (rv_policy (rr_view r))) = Some m \<longrightarrow> t' \<le> m)))"

lemma not_exceeds:
  assumes "exceeds E r q t = Ok False"
  shows "\<forall>m. quantity_of (se_dec E) (sp_max_order_qty (rv_policy (rr_view r))) = Some m \<longrightarrow> q \<le> m"
    "\<forall>m. quantity_of (se_dec E) (sp_max_total_qty (rv_policy (rr_view r))) = Some m \<longrightarrow> t \<le> m"
  using assms by (auto simp: exceeds_def strategy_quantity_of split: if_splits)

lemma charged_total_Ok:
  "charged_total E r q = Ok t' \<longleftrightarrow> (\<exists>t. dec_from_str_exact (se_dec E) (rv_total_submitted_qty (rr_view r)) = Some t \<and> se_add E t q = Some t')"
  by (auto simp: charged_total_def)

lemma qty_chargeable:
  assumes "strategy_quantity (se_dec E) s = Ok q" "charged_total E r q = Ok t'" "exceeds E r q t' = Ok False"
  shows "qty_allowed E r s" "action_qty a = Some s \<Longrightarrow> chargeable E r a"
proof -
  have q: "quantity_of (se_dec E) s = Some q" using assms(1) by (simp add: strategy_quantity_of)
  then show "qty_allowed E r s"
    using not_exceeds(1) [OF assms(3)] quantity_of_pos by (auto simp: qty_allowed_def)
  show "action_qty a = Some s \<Longrightarrow> chargeable E r a"
    using q assms(2) not_exceeds(2) [OF assms(3)] by (auto simp: chargeable_def charged_total_Ok)
qed

lemma validate_place_same:
  assumes "validate_place D ord sb caps = Ok ord'"
  shows "pl_symbol ord' = sb" "''trade.place'' \<in> set caps" "pl_reduce_only ord' = pl_reduce_only ord"
    "pl_side ord' = pl_side ord"
  using assms by (auto simp: validate_place_def Let_def split: if_splits)

lemma validate_place_action_sound:
  assumes "validate_place_action E ord r = Ok a"
  shows "action_allowed E r a \<and> chargeable E r a"
proof -
  obtain ord' qty t where v: "validate_place (se_dec E) ord (rv_symbol (rr_view r)) (rv_capabilities (rr_view r)) = Ok ord'"
    and q: "strategy_quantity (se_dec E) (pl_qty ord') = Ok qty" "charged_total E r qty = Ok t" "exceeds E r qty t = Ok False"
    and ro: "sp_reduce_only (rv_policy (rr_view r)) \<longrightarrow> pl_reduce_only ord'" and a: "a = ActPlace ord'"
    using assms by (auto simp: validate_place_action_def split: if_splits)
  show ?thesis
    using validate_place_same [OF v] ro qty_chargeable(1) [OF q] qty_chargeable(2) [OF q, of a]
    by (simp add: a action_allowed_def place_allowed_def run_has_def action_qty_def)
qed

lemma validate_protected_action_sound:
  assumes "validate_protected_action E ord protection r sn = Ok a"
  shows "action_allowed E r a \<and> chargeable E r a"
proof -
  obtain ord' qty t pr where v: "validate_place (se_dec E) ord (rv_symbol (rr_view r)) (rv_capabilities (rr_view r)) = Ok ord'"
    and q: "strategy_quantity (se_dec E) (pl_qty ord') = Ok qty" "charged_total E r qty = Ok t" "exceeds E r qty t = Ok False"
    and ro: "\<not> sp_reduce_only (rv_policy (rr_view r))" "run_has r ''trade.protect''" and a: "a = ActProtected ord' pr"
    using assms by (auto simp: validate_protected_action_def split: if_splits)
  show ?thesis
    using validate_place_same [OF v] ro qty_chargeable(1) [OF q] qty_chargeable(2) [OF q, of a]
    by (simp add: a action_allowed_def place_allowed_def run_has_def action_qty_def)
qed

lemma validate_cancel_action_sound:
  assumes "validate_cancel_action ord r sn = Ok a"
  shows "action_allowed E r a \<and> chargeable E r a"
  using assms
  by (auto simp: validate_cancel_action_def validate_cancel_def action_allowed_def run_has_def chargeable_def action_qty_def
      split: if_splits option.splits)

lemma amend_validate_same:
  "amend_validate D ord sb = Ok ord' \<Longrightarrow> am_symbol ord' = sb \<and> am_order_id ord' = am_order_id ord"
  by (auto simp: amend_validate_def split: if_splits)

lemma amend_target_sound:
  assumes "amend_target E ord original r target = Ok a"
  shows "a = ActAmend ord" "qty_allowed E r (am_qty ord)" "chargeable E r a"
proof -
  obtain qty t where q: "strategy_quantity (se_dec E) (am_qty ord) = Ok qty" "charged_total E r qty = Ok t"
      "exceeds E r qty t = Ok False" and a: "a = ActAmend ord"
    using assms by (auto simp: amend_target_def Let_def split: if_splits)
  show "a = ActAmend ord" "qty_allowed E r (am_qty ord)" "chargeable E r a"
    using a qty_chargeable(1) [OF q] qty_chargeable(2) [OF q, of a] by (simp_all add: action_qty_def)
qed

lemma validate_amend_action_sound:
  assumes "validate_amend_action E ord r sn = Ok a"
  shows "action_allowed E r a \<and> chargeable E r a"
proof -
  obtain ord' original target where v: "amend_validate (se_dec E) ord (rv_symbol (rr_view r)) = Ok ord'"
    and tgt: "amend_target E ord' original r target = Ok a"
    and has: "run_has r ''trade.amend''" and own: "map_of (rr_owned r) (am_order_id ord') \<noteq> None"
    using assms by (auto simp: validate_amend_action_def Let_def bind_eq_Some_conv split: if_splits list.splits)
  show ?thesis
    using amend_validate_same [OF v] has own amend_target_sound [OF tgt] by (auto simp: action_allowed_def)
qed

lemma validate_action_sound:
  assumes ok: "validate_action E act r sn = Ok a" and real: "a \<noteq> ActNone" "a \<noteq> ActStop"
  shows "rv_actions_submitted (rr_view r) < sp_max_actions (rv_policy (rr_view r))"
    "action_allowed E r a" "chargeable E r a"
  using assms validate_place_action_sound [of E _ r a] validate_protected_action_sound [of E _ _ r sn a]
    validate_cancel_action_sound [of _ r sn a E] validate_amend_action_sound [of E _ r sn a]
  by (auto simp: validate_action_def split: if_splits strategy_action.splits)

section \<open>Charging an intent\<close>

lemma charge_Ok:
  assumes "charge E qty r = Ok r'"
  shows "\<exists>t q t'. dec_from_str_exact (se_dec E) (rv_total_submitted_qty (rr_view r)) = Some t
      \<and> quantity_of (se_dec E) qty = Some q \<and> se_add E t q = Some t'
      \<and> r' = r\<lparr>rr_view := (rr_view r)\<lparr>rv_total_submitted_qty := dec_normalized (se_dec E) t'\<rparr>\<rparr>"
  using assms by (auto simp: charge_def strategy_quantity_of)

text \<open>The record an intent leaves: one more action, its quantity in the total, no limit changed.\<close>

lemma intend_effect:
  assumes "intend E u a r = Ok (r', sub)"
  shows "rv_actions_submitted (rr_view r') = rv_actions_submitted (rr_view r) + 1"
    "run_id r' = run_id r" "rv_policy (rr_view r') = rv_policy (rr_view r)" "rv_capabilities (rr_view r') = rv_capabilities (rr_view r)"
    "rv_symbol (rr_view r') = rv_symbol (rr_view r)" "rv_account (rr_view r') = rv_account (rr_view r)"
    "dom (map_of (rr_owned r')) = dom (map_of (rr_owned r))" "sub = None \<or> sub = Some u"
    "case action_qty a of
       None \<Rightarrow> rv_total_submitted_qty (rr_view r') = rv_total_submitted_qty (rr_view r)
     | Some s \<Rightarrow> (\<exists>t q t'. dec_from_str_exact (se_dec E) (rv_total_submitted_qty (rr_view r)) = Some t
         \<and> quantity_of (se_dec E) s = Some q \<and> se_add E t q = Some t'
         \<and> rv_total_submitted_qty (rr_view r') = dec_normalized (se_dec E) t')"
  using assms
  by (auto simp: intend_def Let_def action_qty_def dom_def split: if_splits strategy_action.splits dest!: charge_Ok)

lemma intend_charges:
  assumes env: "strategy_env_ok E" and acts: "run_charges E acts r"
    and core: "rv_policy (rr_view r0) = rv_policy (rr_view r)" "rv_capabilities (rr_view r0) = rv_capabilities (rr_view r)"
      "rv_symbol (rr_view r0) = rv_symbol (rr_view r)" "rv_actions_submitted (rr_view r0) = rv_actions_submitted (rr_view r)"
      "rv_total_submitted_qty (rr_view r0) = rv_total_submitted_qty (rr_view r)" "rr_owned r0 = rr_owned r"
    and below: "rv_actions_submitted (rr_view r) < sp_max_actions (rv_policy (rr_view r))"
    and allowed: "action_allowed E r (pa_action p)" and fits: "chargeable E r (pa_action p)"
    and int: "intend E u (pa_action p) r0 = Ok (r', sub)"
  shows "run_charges E (acts @ [p]) (r'\<lparr>rr_pending := x\<rparr>)"
proof -
  note eff = intend_effect [OF int]
  obtain t where t: "charged E 0 acts = Some t" "dec_from_str_exact (se_dec E) (rv_total_submitted_qty (rr_view r)) = Some t"
    "\<forall>m. quantity_of (se_dec E) (sp_max_total_qty (rv_policy (rr_view r))) = Some m \<longrightarrow> t \<le> m"
    using acts by (auto simp: run_charges_def)
  have "\<exists>t'. charged E 0 (acts @ [p]) = Some t' \<and> dec_from_str_exact (se_dec E) (rv_total_submitted_qty (rr_view r')) = Some t'
      \<and> (\<forall>m. quantity_of (se_dec E) (sp_max_total_qty (rv_policy (rr_view r))) = Some m \<longrightarrow> t' \<le> m)"
  proof (cases "action_qty (pa_action p)")
    case None
    then show ?thesis using t eff(9) core by (simp add: charged_snoc)
  next
    case (Some s)
    then obtain q t' where q: "quantity_of (se_dec E) s = Some q" "se_add E t q = Some t'"
      "rv_total_submitted_qty (rr_view r') = dec_normalized (se_dec E) t'"
      using eff(9) t core by auto
    moreover have "\<forall>m. quantity_of (se_dec E) (sp_max_total_qty (rv_policy (rr_view r))) = Some m \<longrightarrow> t' \<le> m"
      using fits Some q t by (auto simp: chargeable_def)
    moreover have "dec_from_str_exact (se_dec E) (dec_normalized (se_dec E) t') = Some t'"
      using env q by (auto simp: strategy_env_ok_def)
    ultimately show ?thesis using t Some by (simp add: charged_snoc)
  qed
  moreover have "unat (rv_actions_submitted (rr_view r) + 1) = Suc (unat (rv_actions_submitted (rr_view r)))"
    using unat_increment_below [OF below] by simp
  moreover have "rv_actions_submitted (rr_view r) + 1 \<le> sp_max_actions (rv_policy (rr_view r))"
    using below unat_increment_below [OF below] by (simp add: word_le_nat_alt word_less_nat_alt)
  moreover have "action_allowed E (r'\<lparr>rr_pending := x\<rparr>) (pa_action q)" if "q \<in> set (acts @ [p])" for q
  proof -
    have "action_allowed E r (pa_action q)" using that acts allowed by (auto simp: run_charges_def)
    moreover have "dom (map_of (rr_owned r)) = dom (map_of (rr_owned r'))" using eff(7) core by simp
    ultimately show ?thesis
      using eff(3-5) core
      by (cases "pa_action q") (auto simp: action_allowed_def place_allowed_def qty_allowed_def run_has_def)
  qed
  ultimately show ?thesis
    using eff(1-5) acts core by (simp add: run_charges_def)
qed

section \<open>Deciding\<close>

lemma decide_checks_live:
  assumes "decide_checks E rd1 rd2 h de out l = (checked, l')"
  shows "lv_phase l' = lv_phase l" "lv_intent l' = lv_intent l"
    "checked = Ok a \<Longrightarrow> \<exists>sn. validate_action E (so_action out) (de_record de) sn = Ok a"
proof -
  have cd: "lv_phase y = lv_phase l \<and> lv_intent y = lv_intent l" if "check_dispatch rd r ob wl l = (x, y)" for rd r ob wl l x y
    using that check_dispatch_live(1,2) [of rd r ob wl l] by simp
  show "lv_phase l' = lv_phase l" "lv_intent l' = lv_intent l"
    using assms unfolding decide_checks_def
    by (auto split: result.splits prod.splits if_splits dest!: cd)
  show "checked = Ok a \<Longrightarrow> \<exists>sn. validate_action E (so_action out) (de_record de) sn = Ok a"
    using assms unfolding decide_checks_def by (auto split: result.splits prod.splits if_splits)
qed

lemma run_inv_quiet:
  assumes "run_charges E acts r" "subseq (handed (run_id r) (sw_trace w)) acts" "run_id r \<in> drawn_ids E w" "flight w (run_id r) = []"
  shows "run_inv E w r"
  using assms by (auto simp: run_inv_def)

lemma decide_memory:
  assumes env: "strategy_env_ok E" and inv: "supervisor_inv E v"
    and at: "map_of (phases v) i = Some (Deciding de out)"
    and found: "find_run i (sw_document v) = Some r"
    and ok: "validate_action E (so_action out) (de_record de) sn = Ok a" and real: "a \<noteq> ActNone" "a \<noteq> ActStop"
    and int: "intend E u (pa_action p) (advance rd sq r) = Ok (r', sub)" and p: "pa_action p = a"
    and ph: "ph = Prepared de p \<or> ph = Finishing"
    and dr: "v' = v\<lparr>sw_drawn := Suc (sw_drawn v)\<rparr>"
  shows "memory_inv E (sd_runs (update_run i (\<lambda>_. r'\<lparr>rr_pending := Some p\<rparr>) (sw_document v))) (set_phase i ph v')"
proof -
  let ?w = "set_phase i ph v'" and ?r = "r'\<lparr>rr_pending := Some p\<rparr>" and ?rs = "sd_runs (sw_document v)"
  have mem: "memory_inv E ?rs v" using inv by (simp add: supervisor_inv_def)
  have d: "distinct (run_ids ?rs)" using mem by (simp add: memory_inv_def runs_inv_def)
  have r: "r \<in> set ?rs" "run_id r = i" using found find_id_Some by (auto simp: find_run_id)
  have "phase_inv (Deciding de out) (find_id i ?rs)"
    using mem at unfolding memory_inv_def live_inv_def by blast
  then have "phase_inv (Deciding de out) (Some r)" using found by (simp add: find_run_id)
  then have ess: "essence (de_record de) = essence r" by (simp add: phase_inv_def)
  note same = essence_fields(1) [OF ess, unfolded keeps_def] essence_fields(2-6) [OF ess]
  note valid = validate_action_sound [OF ok real]
  have allowed: "action_allowed E r (pa_action p)" using keeps_allowed [OF essence_fields(1) [OF ess] valid(2)] p by simp
  have fits: "chargeable E r (pa_action p)" using valid(3) same p by (simp add: chargeable_def)
  have below: "rv_actions_submitted (rr_view r) < sp_max_actions (rv_policy (rr_view r))" using valid(1) same by simp
  note eff = intend_effect [OF int]
  have name: "run_id ?r = i" using eff(2) r by (simp add: advance_def)
  have run: "run_inv E v r" using mem r by (simp add: memory_inv_def runs_inv_def)
  then obtain acts where acts: "run_charges E acts r" "subseq (handed i (sw_trace v)) acts" and id: "i \<in> drawn_ids E v"
    using at r by (auto simp: run_inv_def flight_def phase_flight_def)
  have charges: "run_charges E (acts @ [p]) ?r"
    by (rule intend_charges [OF env acts(1) _ _ _ _ _ _ below allowed fits int]) (simp_all add: advance_def)
  have drawn: "drawn_ids E v \<subseteq> drawn_ids E ?w" by (auto simp: drawn_ids_def dr)
  have fl: "flight ?w i = phase_flight ph" "j \<noteq> i \<Longrightarrow> flight ?w j = flight v j" for j
    using at by (auto simp: flight_def dr)
  have tr: "sw_trace ?w = sw_trace v" by (simp add: dr)
  have "subseq (handed i (sw_trace v) @ [p]) (acts @ [p])" using acts(2) by (simp add: list_emb_append_mono)
  moreover have "subseq (handed i (sw_trace v)) (acts @ [p])" using acts(2) by (simp add: subseq_rev_drop_many)
  ultimately have run': "run_inv E ?w ?r"
    using charges id drawn ph unfolding run_inv_def name fl(1) tr by (auto simp: phase_flight_def)
  have act: "active ?w j = active v j" for j using at by (auto simp: active_def dr)
  show ?thesis
    unfolding update_run_found [OF found]
  proof (rule memory_update_others [OF d _ _ _ _ name run'])
    show "run_inv E ?w x" if "x \<in> set ?rs" "run_id x \<noteq> i" for x
      using that mem drawn fl(2) [of "run_id x"] unfolding run_inv_def tr by (auto simp: memory_inv_def runs_inv_def run_inv_def)
    show "phase_inv ps (find_id j ?rs)" if "j \<noteq> i" "map_of (phases ?w) j = Some ps" for j ps
      using that mem by (simp add: memory_inv_def live_inv_def dr)
    show "exclusive ?rs ?w" using mem unfolding memory_inv_def exclusive_def act by blast
    show "find_id i ?rs = Some r" using found by (simp add: find_run_id)
    show "account_id ?r = account_id r" "environment ?r = environment r" using eff(6) by (simp_all add: advance_def)
    show "rr_pending ?r = None \<or> rr_pending ?r = rr_pending r \<or> active ?w i" using at act [of i] unfolding active_def [of v] by simp
    show "phase_inv ps (Some ?r)" if "map_of (phases ?w) i = Some ps" for ps
      using that at ph by (auto simp: dr phase_inv_def)
  qed
qed

lemma decide_ids:
  assumes env: "strategy_env_ok E" and ids: "ids_inv E v" and at: "map_of (phases v) i = Some (Deciding de out)"
    and sub: "pa_submission_id p = None \<or> pa_submission_id p = Some (se_uuid E (sw_drawn v))"
  shows "ids_inv E (set_phase i (Prepared de p) (v\<lparr>sw_drawn := Suc (sw_drawn v)\<rparr>))" (is "ids_inv E ?w")
proof -
  obtain a b where ab: "flights (phases v) = a @ b" "flights (phases ?w) = a @ [p] @ b"
    using flights_split [OF at, of "Prepared de p"] by (auto simp: phase_flight_def)
  let ?old = "sub_ids (handed_all (sw_trace v) @ flights (phases v))"
  let ?new = "sub_ids (handed_all (sw_trace ?w) @ flights (phases ?w))"
  have drawn: "drawn_ids E ?w = insert (se_uuid E (sw_drawn v)) (drawn_ids E v)"
    by (simp add: drawn_ids_def lessThan_Suc)
  have new: "se_uuid E (sw_drawn v) \<notin> drawn_ids E v"
    using env by (auto simp: strategy_env_ok_def drawn_ids_def inj_def)
  have "mset ?new = mset ?old + mset (sub_ids [p])"
    unfolding ab using sub_ids_append [of "[p]" b] by (simp add: sub_ids_append)
  then have m: "set ?new = set ?old \<union> set (sub_ids [p])" "distinct ?new = distinct (?old @ sub_ids [p])"
    by (metis set_append set_mset_mset mset_append, metis mset_append mset_eq_imp_distinct_iff)
  have p: "sub_ids [p] = [] \<or> sub_ids [p] = [se_uuid E (sw_drawn v)]"
    using sub by (auto simp: sub_ids_def map_filter_def)
  have old: "distinct ?old" "set ?old \<subseteq> drawn_ids E v" "distinct (map fst (phases v))" "fst ` set (phases v) \<subseteq> drawn_ids E v"
    "\<forall>j. handed j (sw_trace v) \<noteq> [] \<longrightarrow> j \<in> drawn_ids E v"
    using ids by (simp_all add: ids_inv_def)
  have "distinct ?new" "set ?new \<subseteq> drawn_ids E ?w"
    unfolding m drawn using p old(1,2) new by auto
  then show ?thesis unfolding ids_inv_def using old drawn by auto
qed

text \<open>A save whose document is already accounted for.\<close>

lemma saved_inv:
  assumes inv: "supervisor_inv E v" and none: "sw_starting v = None"
    and ph: "phases u = phases v'" "sw_trace u = sw_trace v'" "sw_drawn u = sw_drawn v'" "sw_starting u = None" "sw_starting v' = None"
    and mem: "memory_inv E (sd_runs d) v'" and ids: "ids_inv E v'"
    and doc: "ess (sw_document u) = ess d" "sw_stored u = sw_document u" "\<not> sw_unavailable u"
  shows "supervisor_inv E u"
proof -
  have st: "sw_starting u = sw_starting v'" using ph by simp
  note cong = inv_cong [OF ph(1) st ph(2,3)]
  have m: "memory_inv E (sd_runs (sw_document u)) u" using memory_inv_ess [OF doc(1) [symmetric] mem] by (simp add: cong)
  then have "runs_inv E (sd_runs (sw_document u)) u" by (simp add: memory_inv_def)
  then show ?thesis using m ids doc ph(4) by (simp add: supervisor_inv_def cong start_inv_def)
qed

lemma set_phase_drawn: "set_phase i ph (w\<lparr>sw_drawn := k\<rparr>) = (set_phase i ph w)\<lparr>sw_drawn := k\<rparr>"
  by (simp add: set_phase_def set_live_def)

lemma decide_locked_inv:
  assumes env: "strategy_env_ok E" and inv: "supervisor_inv E v" and none: "sw_starting v = None"
    and at: "map_of (phases v) i = Some (Deciding de out)"
    and ok: "validate_action E (so_action out) (de_record de) sn = Ok a"
  shows "supervisor_inv E (decide_locked E rd i de out a l v)"
proof -
  have q: "quiet_inv E i v" by (rule calm_down [OF inv]) simp
  let ?pre = "bind_result (store_ready v) (\<lambda>_. bind_result (rd_epoch rd) (\<lambda>epoch.
             if \<not> admitted l \<or> epoch \<noteq> lv_epoch l then Err stale
             else bind_result (run_state v i) (\<lambda>r.
               if rv_sequence (rr_view r) \<noteq> rv_sequence (rr_view (de_record de)) \<or> rr_pending r \<noteq> None
               then Err stale else Ok (advance rd (de_sequence de) r))))"
  show ?thesis
  proof (cases ?pre)
    case (Err e)
    then show ?thesis unfolding decide_locked_def using fail_pass_inv [OF q] by simp
  next
    case Panic
    then show ?thesis unfolding decide_locked_def using panic_pass_inv [OF q none] by simp
  next
    case (Ok r1)
    then obtain r where found: "find_run i (sw_document v) = Some r" and r1: "r1 = advance rd (de_sequence de) r"
      by (auto simp: run_state_Ok split: if_splits)
    show ?thesis
    proof (cases "a = ActNone \<or> a = ActStop")
      case True
      define r2 where "r2 = (if a = ActNone then note_output (so_state out) (so_message out) r1
        else set_status RunCompleted None (note_output (so_state out) (so_message out) r1))"
      have "same_core r r2"
        by (simp add: r2_def r1 advance_def note_output_def set_status_def same_core_def keeps_def)
      then have "memory_inv E (sd_runs (update_run i (\<lambda>_. r2) (sw_document (set_phase i Finishing v)))) (set_phase i Finishing v)"
        by (intro answer_memory [OF q]) (use found in auto)
      then have w: "quiet_inv E i (snd (save E rd (update_run i (\<lambda>_. r2) (sw_document v)) v))"
        using q none by (intro quiet_save) simp_all
      obtain x u where xu: "save E rd (update_run i (\<lambda>_. r2) (sw_document v)) v = (x, u)" by fastforce
      have u: "quiet_inv E i u" "sw_starting u = None"
        using w save_fields(1) [of E rd "update_run i (\<lambda>_. r2) (sw_document v)" v] none by (simp_all add: xu)
      show ?thesis
        unfolding decide_locked_def Ok Let_def
        using True xu [unfolded r2_def] fail_pass_inv [OF u(1)] panic_pass_inv [OF u] quiet_end [OF u(1)]
        by (auto split: result.splits)
    next
      case False
      show ?thesis
      proof (cases "intend E (se_uuid E (sw_drawn v)) a r1")
        case (Err e)
        then show ?thesis unfolding decide_locked_def Ok using False fail_pass_inv [OF q] by simp
      next
        case Panic
        then show ?thesis unfolding decide_locked_def Ok using False panic_pass_inv [OF q none] by simp
      next
        case int: (Ok y)
        obtain r' sub where y: "y = (r', sub)" by fastforce
        define p where "p = \<lparr>pa_sequence = de_sequence de, pa_action = a, pa_submission_id = sub,
          pa_state = so_state out, pa_message = so_message out\<rparr>"
        define v' where "v' = v\<lparr>sw_drawn := Suc (sw_drawn v)\<rparr>"
        let ?d = "update_run i (\<lambda>_. r'\<lparr>rr_pending := Some p\<rparr>) (sw_document v)"
        have i: "intend E (se_uuid E (sw_drawn v)) (pa_action p) (advance rd (de_sequence de) r) = Ok (r', sub)"
          using int y r1 by (simp add: p_def)
        have real: "a \<noteq> ActNone" "a \<noteq> ActStop" and pa: "pa_action p = a" using False by (auto simp: p_def)
        have mem: "memory_inv E (sd_runs ?d) (set_phase i (Prepared de p) v')"
          "memory_inv E (sd_runs ?d) (set_phase i Finishing v')"
          by (rule decide_memory [OF env inv at found ok real i pa _ v'_def]; simp)+
        have q': "quiet_inv E i v'" unfolding v'_def set_phase_drawn by (rule inv_drawn [OF q]) simp
        obtain x u where xu: "save E rd ?d v' = (x, u)" by fastforce
        have u: "quiet_inv E i u" "sw_starting u = None"
          using quiet_save [OF q' mem(2), of rd] save_fields(1) [of E rd ?d v'] none
          unfolding xu snd_conv by (simp_all add: v'_def)
        have prepared: "supervisor_inv E (set_phase i (Prepared de p) u)" if "x = result.Ok ()"
        proof (cases rule: save_cases [of E rd ?d v'])
          case (stored fs d')
          have ids: "ids_inv E (set_phase i (Prepared de p) v')"
            unfolding v'_def using inv intend_effect(8) [OF i]
            by (intro decide_ids [OF env _ at]) (auto simp: supervisor_inv_def p_def)
          have u': "u = v'\<lparr>sw_fates := fs, sw_stored := d', sw_document := d'\<rparr>" using stored xu by simp
          show ?thesis
            by (rule saved_inv [OF inv none, where v' = "set_phase i (Prepared de p) v'" and d = ?d])
              (use ids mem(1) stored(2,3) none in \<open>simp_all add: u' v'_def\<close>)
        qed (use that xu in auto)
        show ?thesis
          unfolding decide_locked_def Ok
          using False int y xu fail_pass_inv [OF u(1)] panic_pass_inv [OF u] prepared
          by (auto simp: p_def [symmetric] v'_def [symmetric] Let_def split: result.splits)
      qed
    qed
  qed
qed

lemma decide_inv:
  assumes env: "strategy_env_ok E" and inv: "supervisor_inv E w" and at: "worker_at w i l (Deciding de out)"
    and none: "sw_starting w = None"
  shows "supervisor_inv E (decide E rd1 rd2 rd3 h i de out l w)"
proof -
  obtain checked l' where c: "decide_checks E rd1 rd2 h de out l = (checked, l')" by fastforce
  note l' = decide_checks_live(1,2) [OF c]
  define v where "v = set_live i (\<lambda>_. l') w"
  note live = inv_set_live [OF inv conjunct1 [OF at] l', folded v_def]
  have nv: "sw_starting v = None" using none by (simp add: v_def)
  have q: "quiet_inv E i v" by (rule calm_down [OF live(1)]) simp
  have ph: "map_of (phases v) i = Some (Deciding de out)" using live(2) at by (simp add: map_of_phases)
  have "supervisor_inv E (decide_locked E rd3 i de out a l' v)" if "checked = Ok a" for a
    using decide_checks_live(3) [OF c that] decide_locked_inv [OF env live(1) nv ph] by blast
  then show ?thesis
    unfolding decide_def c Let_def
    using fail_pass_inv [OF q] panic_pass_inv [OF q nv] by (auto simp: v_def [symmetric] split: result.splits)
qed

end
