(* ===== verification/Strategy_Reachable.thy ===== *)
theory Strategy_Reachable
  imports Strategy_Decisions
begin

text \<open>The invariant through a start and a restart; hence in every reachable state.\<close>

section \<open>Starting\<close>

lemma map_first_index:
  assumes "k < length rs" "run_id (rs ! k) = i" "distinct (run_ids rs)"
  shows "map_first (\<lambda>x. run_id x = i) (\<lambda>_. r') rs = rs[k := r']"
  using assms
proof (induction rs arbitrary: k)
  case (Cons a rs)
  then show ?case by (cases k) (auto simp: rev_image_eqI)
qed simp

lemma find_index:
  assumes "find (\<lambda>k. run_id (rs ! k) = i) [0..<length rs] = Some k"
  shows "k < length rs" "run_id (rs ! k) = i"
  using assms by (auto simp: find_Some_iff)

text \<open>A run that starts: it may become the active run of its account.\<close>

definition startable :: "strategy_env \<Rightarrow> strategy_world \<Rightarrow> run_record list \<Rightarrow> string \<Rightarrow> bool" where
  "startable E w rs i \<longleftrightarrow> memory_inv E rs w \<and> map_of (phases w) i = None \<and> i \<in> set (run_ids rs)
     \<and> (\<forall>a\<in>set rs. run_id a = i \<longrightarrow> (\<forall>b\<in>set rs. run_id b \<noteq> i \<longrightarrow> account_id b = account_id a
          \<longrightarrow> \<not> active w (run_id b) \<and> (environment b = environment a \<longrightarrow> rr_pending b = None)))"

lemma startable_active:
  assumes start: "startable E w rs i" and none: "sw_starting w = None" and ss: "ss_run_id ss = i"
  shows "memory_inv E rs (w\<lparr>sw_starting := Some ss\<rparr>)" (is "memory_inv E rs ?w")
proof -
  have mem: "memory_inv E rs w" using start by (simp add: startable_def)
  have act: "active ?w j = (active w j \<or> j = i)" for j using none ss by (auto simp: active_def)
  have runs: "runs_inv E rs ?w = runs_inv E rs w" by (simp add: runs_inv_def run_inv_def flight_def drawn_ids_def)
  have "exclusive rs ?w"
    unfolding exclusive_def
  proof (intro ballI impI)
    fix a b assume *: "a \<in> set rs" "b \<in> set rs" "active ?w (run_id a)" "run_id b \<noteq> run_id a" "account_id b = account_id a"
    show "\<not> active ?w (run_id b) \<and> (environment b = environment a \<longrightarrow> rr_pending b = None)"
    proof (cases "run_id a = i")
      case True
      then show ?thesis using * start act unfolding startable_def by metis
    next
      case False
      then have a: "active w (run_id a)" using * act by blast
      then have "\<not> active w (run_id b) \<and> (environment b = environment a \<longrightarrow> rr_pending b = None)"
        using mem * unfolding memory_inv_def exclusive_def by blast
      moreover have "run_id b \<noteq> i" using a * start unfolding startable_def by metis
      ultimately show ?thesis using act by blast
    qed
  qed
  then show ?thesis using mem runs by (simp add: memory_inv_def live_inv_def)
qed

lemma not_blocked:
  assumes inv: "supervisor_inv E w" and none: "sw_starting w = None" and b: "\<not> account_blocked w account r"
    "account_id r = ac_account_id account"
  shows "\<not> active w (run_id r)" "environment r = ac_environment account \<Longrightarrow> rr_pending r = None"
  using assms by (auto simp: account_blocked_def active_def map_of_phases)

lemma new_run_inv:
  assumes env: "strategy_env_ok E" and inv: "supervisor_inv E w" and i: "run_id r = se_uuid E (sw_drawn w)"
    and fresh: "rv_actions_submitted (rr_view r) = 0" "rv_total_submitted_qty (rr_view r) = ''0''"
  shows "run_inv E (w\<lparr>sw_drawn := Suc (sw_drawn w)\<rparr>) r" "map_of (phases w) (run_id r) = None"
    "run_id r \<notin> set (run_ids (sd_runs (sw_document w)))"
proof -
  have new: "run_id r \<notin> drawn_ids E w"
    using env i by (auto simp: strategy_env_ok_def drawn_ids_def inj_def)
  have ids: "ids_inv E w" using inv by (simp add: supervisor_inv_def)
  show ph: "map_of (phases w) (run_id r) = None"
    using ids new unfolding ids_inv_def by (auto simp: map_of_eq_None_iff)
  have "handed (run_id r) (sw_trace w) = []" using ids new unfolding ids_inv_def by blast
  moreover have "run_charges E [] r"
    using env fresh quantity_of_pos [of "se_dec E" "sp_max_total_qty (rv_policy (rr_view r))"]
    by (auto simp: run_charges_def strategy_env_ok_def intro: less_imp_le)
  ultimately show "run_inv E (w\<lparr>sw_drawn := Suc (sw_drawn w)\<rparr>) r"
    using ph i by (auto simp: run_inv_def flight_def drawn_ids_def)
  show "run_id r \<notin> set (run_ids (sd_runs (sw_document w)))"
    using inv new by (auto simp: supervisor_inv_def memory_inv_def runs_inv_def run_inv_def)
qed

lemma find_id_append: "find_id i rs \<noteq> None \<or> run_id r \<noteq> i \<Longrightarrow> find_id i (rs @ [r]) = find_id i rs"
  unfolding find_id_def by (induction rs) auto

lemma memory_append:
  assumes mem: "memory_inv E rs w" and run: "run_inv E w r" and ph: "map_of (phases w) (run_id r) = None"
    and new: "run_id r \<notin> set (run_ids rs)" and idle: "\<not> active w (run_id r)" and p: "rr_pending r = None"
  shows "memory_inv E (rs @ [r]) w"
proof -
  have "runs_inv E (rs @ [r]) w" using mem run new by (auto simp: memory_inv_def runs_inv_def)
  moreover have "live_inv (rs @ [r]) w"
    unfolding live_inv_def
  proof (intro allI impI)
    fix j ps assume j: "map_of (phases w) j = Some ps"
    then have "run_id r \<noteq> j" using ph by auto
    then show "phase_inv ps (find_id j (rs @ [r]))"
      using mem j by (simp add: memory_inv_def live_inv_def find_id_append)
  qed
  moreover have "exclusive (rs @ [r]) w"
    using mem idle p unfolding memory_inv_def exclusive_def by auto
  ultimately show ?thesis by (simp add: memory_inv_def)
qed

lemma startable_resume:
  assumes inv: "supervisor_inv E w" and none: "sw_starting w = None" and found: "find_run i (sw_document w) = Some r"
    and free: "\<And>b. b \<in> set (sd_runs (sw_document w)) \<Longrightarrow> \<not> account_blocked w account b"
    and acc: "account_id r = ac_account_id account" "environment r = ac_environment account"
    and keeps: "keeps r r'" and acc': "rv_account (rr_view r') = account" and p: "rr_pending r' = None"
  shows "startable E w (map_first (\<lambda>x. run_id x = i) (\<lambda>_. r') (sd_runs (sw_document w))) i"
proof -
  let ?rs = "sd_runs (sw_document w)"
  let ?new = "map_first (\<lambda>x. run_id x = i) (\<lambda>_. r') ?rs"
  have mem: "memory_inv E ?rs w" using inv by (simp add: supervisor_inv_def)
  have d: "distinct (run_ids ?rs)" using mem by (simp add: memory_inv_def runs_inv_def)
  have f: "find_id i ?rs = Some r" using found by (simp add: find_run_id)
  have r: "r \<in> set ?rs" "run_id r = i" using find_id_Some [OF f] by auto
  have r': "run_id r' = i" using keeps r by (simp add: keeps_def)
  have idle: "\<not> active w i" using not_blocked(1) [OF inv none free [OF r(1)] acc(1)] r by simp
  have run: "run_inv E w r'" using keeps_run_inv [OF keeps] mem r by (simp add: memory_inv_def runs_inv_def)
  have m: "memory_inv E ?new w"
    by (rule memory_update [OF mem f r' run]) (use acc acc' p idle in \<open>auto simp: active_def\<close>)
  have others: "b \<in> set ?rs" "account_id b = account_id r' \<Longrightarrow> \<not> active w (run_id b)
      \<and> (environment b = environment r' \<longrightarrow> rr_pending b = None)" if "b \<in> set ?new" "run_id b \<noteq> i" for b
  proof -
    show b: "b \<in> set ?rs" using that r' unfolding set_replace [OF d f] by auto
    show "account_id b = account_id r' \<Longrightarrow> \<not> active w (run_id b) \<and> (environment b = environment r' \<longrightarrow> rr_pending b = None)"
      using not_blocked [OF inv none free [OF b]] by (simp add: acc')
  qed
  have me: "a = r'" if "a \<in> set ?new" "run_id a = i" for a
  proof (rule ccontr)
    assume "a \<noteq> r'"
    then have a: "a \<in> set ?rs" "a \<noteq> r" using that unfolding set_replace [OF d f] by auto
    then show False using find_id_in [OF d a(1)] f that by simp
  qed
  have "i \<in> set (run_ids ?new)" unfolding run_ids_replace [OF r'] using r by (metis image_eqI list.set_map)
  then show ?thesis
    using m idle me others(2) unfolding startable_def active_def by blast
qed

lemma startable_new:
  assumes env: "strategy_env_ok E" and inv: "supervisor_inv E w" and none: "sw_starting w = None"
    and free: "\<And>b. b \<in> set (sd_runs (sw_document w)) \<Longrightarrow> \<not> account_blocked w account b"
    and r: "run_id r = se_uuid E (sw_drawn w)" "rv_actions_submitted (rr_view r) = 0" "rv_total_submitted_qty (rr_view r) = ''0''"
      "rv_account (rr_view r) = account" "rr_pending r = None"
  shows "startable E (w\<lparr>sw_drawn := Suc (sw_drawn w)\<rparr>) (sd_runs (sw_document w) @ [r]) (run_id r)"
proof -
  let ?rs = "sd_runs (sw_document w)" and ?w = "w\<lparr>sw_drawn := Suc (sw_drawn w)\<rparr>"
  note new = new_run_inv [OF env inv r(1-3)]
  have mem: "memory_inv E ?rs ?w" using inv_drawn [OF inv, of "Suc (sw_drawn w)"] by (simp add: supervisor_inv_def)
  have act: "active ?w j = active w j" for j by (simp add: active_def)
  have idle: "\<not> active ?w (run_id r)" using new(2) none by (simp add: active_def)
  have m: "memory_inv E (?rs @ [r]) ?w"
    by (rule memory_append [OF mem new(1) _ new(3) idle r(5)]) (use new(2) in simp)
  have others: "\<not> active ?w (run_id b) \<and> (environment b = environment r \<longrightarrow> rr_pending b = None)"
    if "b \<in> set ?rs" "account_id b = account_id r" for b
    using not_blocked [OF inv none free [OF that(1)]] that(2) unfolding act by (simp add: r(4))
  show ?thesis
    unfolding startable_def using m new(2,3) others by (auto simp: rev_image_eqI)
qed

lemma start_document_startable:
  assumes env: "strategy_env_ok E" and inv: "supervisor_inv E w" and none: "sw_starting w = None"
    and free: "\<not> list_ex (account_blocked w (au_account authority)) (sd_runs (sw_document w))"
    and ok: "start_document E rd t request captured authority scope w = Ok (d, index, drawn)"
  shows "startable E (w\<lparr>sw_drawn := sw_drawn w + drawn\<rparr>) (sd_runs d) (run_id (sd_runs d ! index))"
    "index < length (sd_runs d)"
proof -
  let ?rs = "sd_runs (sw_document w)"
  have mem: "memory_inv E ?rs w" using inv by (simp add: supervisor_inv_def)
  have dist: "distinct (run_ids ?rs)" using mem by (simp add: memory_inv_def runs_inv_def)
  have free': "\<not> account_blocked w (au_account authority) b" if "b \<in> set ?rs" for b
    using free that by (auto simp: list_ex_iff)
  have "startable E (w\<lparr>sw_drawn := sw_drawn w + drawn\<rparr>) (sd_runs d) (run_id (sd_runs d ! index)) \<and> index < length (sd_runs d)"
  proof (cases "sq_resume_run_id request")
    case (Some i)
    define r where "r = ?rs ! index"
    define r' where "r' = r\<lparr>rr_view := (rr_view r)\<lparr>rv_status := RunRunning, rv_reason := None,
                    rv_request_id := sq_request_id request, rv_account := au_account authority\<rparr>\<rparr>"
    have idx: "find (\<lambda>k. run_id (?rs ! k) = i) [0..<length ?rs] = Some index"
      and res: "resumable rd t request captured authority scope r = Ok ()" and d: "sd_runs d = ?rs[index := r']" and z: "drawn = 0"
      using ok Some by (auto simp: start_document_def Let_def r_def r'_def)
    note k = find_index [OF idx]
    have ri: "run_id r = i" "r \<in> set ?rs" using k by (auto simp: r_def)
    have same: "account_id r = ac_account_id (au_account authority)" "environment r = ac_environment (au_account authority)"
      "rr_pending r = None"
      using res by (auto simp: resumable_def Let_def split: if_splits)
    have "find_run i (sw_document w) = Some r" using find_id_in [OF dist ri(2)] ri by (simp add: find_run_id)
    from startable_resume [OF inv none this free' same(1,2), of r'] same(3)
    have "startable E w (sd_runs d) i"
      unfolding d map_first_index [OF k dist, symmetric] by (simp add: r'_def keeps_def)
    moreover have "run_id (sd_runs d ! index) = i" using k ri by (simp add: d r'_def)
    ultimately show ?thesis using z k d by simp
  next
    case None
    then obtain expiry where d: "sd_runs d = ?rs @ [new_run E rd t request captured authority scope (se_uuid E (sw_drawn w)) expiry]"
      and z: "drawn = 1" "index = length ?rs"
      using ok by (auto simp: start_document_def Let_def new_run_def list_update_append split: if_splits)
    show ?thesis
      using startable_new [OF env inv none free', of "new_run E rd t request captured authority scope (se_uuid E (sw_drawn w)) expiry"]
      unfolding d z by (simp add: new_run_def nth_append)
  qed
  then show "startable E (w\<lparr>sw_drawn := sw_drawn w + drawn\<rparr>) (sd_runs d) (run_id (sd_runs d ! index))"
    "index < length (sd_runs d)" by auto
qed

lemma start_prepare_inv:
  assumes env: "strategy_env_ok E" and inv: "supervisor_inv E w" and none: "sw_starting w = None"
  shows "supervisor_inv E (snd (start_prepare E rd t request w))"
proof (cases "bind_result (start_binding rd t request) (\<lambda>(captured, authority, scope).
           bind_result (store_ready w) (\<lambda>_.
           bind_result (admission_epoch w) (\<lambda>admission.
             if admission \<noteq> tk_admission t
                \<or> list_ex (\<lambda>r. rv_request_id (rr_view r) = sq_request_id request) (sd_runs (sw_document w))
                \<or> 4 \<le> length (sw_live w)
             then Err stale
             else if list_ex (account_blocked w (au_account authority)) (sd_runs (sw_document w))
             then Err (strategy_error ''plugin_strategy_recovery_required'')
             else bind_result (start_document E rd t request captured authority scope w) (\<lambda>(d, index, drawn).
               bind_result (counter (rv_expires_at_ms (rr_view (sd_runs d ! index)))) (\<lambda>expiry.
                 Ok (captured, authority, d, index, drawn, expiry))))))")
  case (Ok x)
  then obtain captured authority scope d index drawn expiry where x: "x = (captured, authority, d, index, drawn, expiry)"
    and free: "\<not> list_ex (account_blocked w (au_account authority)) (sd_runs (sw_document w))"
    and doc: "start_document E rd t request captured authority scope w = Ok (d, index, drawn)"
    by (auto split: if_splits)
  let ?w = "w\<lparr>sw_drawn := sw_drawn w + drawn\<rparr>" and ?i = "run_id (sd_runs d ! index)"
  note start = start_document_startable [OF env inv none free doc]
  have inv': "supervisor_inv E ?w" by (rule inv_drawn [OF inv]) simp
  have mem: "memory_inv E (sd_runs d) ?w" using start(1) by (simp add: startable_def)
  obtain y u where yu: "save E rd d ?w = (y, u)" by fastforce
  have u: "supervisor_inv E u" using save_inv [OF inv' mem, of rd] none by (simp add: yu)
  have "supervisor_inv E (u\<lparr>sw_starting := Some ss\<rparr>)" (is "supervisor_inv E ?u")
    if ok: "y = result.Ok ()" and ss: "ss_run_id ss = ?i" "ss_index ss = index" "calm (lv_phase (ss_live ss))" for ss
  proof (cases rule: save_cases [of E rd d ?w])
    case (stored fs d')
    have u': "u = ?w\<lparr>sw_fates := fs, sw_stored := d', sw_document := d'\<rparr>" using stored yu by simp
    have m: "memory_inv E (sd_runs d) (?w\<lparr>sw_starting := Some ss\<rparr>)"
      by (rule startable_active [OF start(1)]) (use none ss in simp_all)
    have "memory_inv E (sd_runs d') ?u = memory_inv E (sd_runs d') (?w\<lparr>sw_starting := Some ss\<rparr>)"
      by (rule inv_cong(2)) (simp_all add: u')
    then have m': "memory_inv E (sd_runs d') ?u"
      using memory_inv_ess [OF stored(2) [symmetric] m] by simp
    have ids: "run_ids (sd_runs d') = run_ids (sd_runs d)" using ess_run_ids [OF stored(2)] .
    then have "length (sd_runs d') = length (sd_runs d)" by (metis length_map)
    moreover from this have "run_id (sd_runs d' ! index) = ?i" using ids start(2) by (metis nth_map)
    ultimately have "start_inv ?u"
      using start stored(3) ss ids by (auto simp: start_inv_def u' startable_def)
    then show ?thesis
      using u m' stored(3) by (simp add: supervisor_inv_def u' memory_inv_def withdrawn_def inv_cong(3) [of ?u u] ids_inv_def drawn_ids_def)
  qed (use ok yu in auto)
  then show ?thesis
    unfolding start_prepare_def Ok x using u yu by (auto simp: Let_def split: result.splits)
qed (use inv in \<open>simp_all add: start_prepare_def\<close>)

lemma inv_unstarted:
  assumes inv: "supervisor_inv E w"
  shows "supervisor_inv E (w\<lparr>sw_starting := None\<rparr>)" (is "supervisor_inv E ?w")
proof -
  have "memory_inv E (sd_runs (sw_document w)) ?w"
    by (rule memory_inv_mono [of _ _ w]) (use inv in \<open>auto simp: supervisor_inv_def\<close>)
  moreover have "runs_inv E (sd_runs (sw_stored w)) ?w"
    by (rule runs_inv_mono [of _ _ w]) (use inv in \<open>auto simp: supervisor_inv_def\<close>)
  moreover have "ids_inv E ?w" using inv by (simp add: supervisor_inv_def ids_inv_def drawn_ids_def)
  ultimately show ?thesis using inv by (simp add: supervisor_inv_def start_inv_def withdrawn_def)
qed

lemma btree_insert_new:
  assumes "k \<notin> fst ` set m" "distinct (map fst m)"
  shows "distinct (map fst (btree_insert k v m))"
  using assms by (induction m rule: btree_insert.induct) auto

lemma flights_insert: "calm ph \<Longrightarrow> k \<notin> fst ` set m \<Longrightarrow> flights (btree_insert k ph m) = flights m"
  by (induction m rule: btree_insert.induct) (auto simp: flights_def)

lemma phases_insert: "phases (w\<lparr>sw_live := btree_insert i l (sw_live w)\<rparr>) = btree_insert i (lv_phase l) (phases w)"
proof -
  have "map (\<lambda>(i, l). (i, lv_phase l)) (btree_insert i l m) = btree_insert i (lv_phase l) (map (\<lambda>(i, l). (i, lv_phase l)) m)" for m
    by (induction m) auto
  then show ?thesis by (simp add: phases_def)
qed

lemma start_published_inv:
  assumes inv: "supervisor_inv E w" and ss: "sw_starting w = Some ss"
  shows "supervisor_inv E (w\<lparr>sw_starting := None, sw_live := btree_insert (ss_run_id ss) (ss_live ss) (sw_live w)\<rparr>)"
    (is "supervisor_inv E ?w")
proof -
  let ?i = "ss_run_id ss" and ?rs = "sd_runs (sw_document w)"
  have st: "\<not> sw_unavailable w" "map_of (phases w) ?i = None" "?i \<in> set (run_ids ?rs)" "calm (lv_phase (ss_live ss))"
    using inv ss by (auto simp: supervisor_inv_def start_inv_def)
  have ph: "phases ?w = btree_insert ?i (lv_phase (ss_live ss)) (phases w)"
    using phases_insert [where w = "w\<lparr>sw_starting := None\<rparr>"] by simp
  have new: "?i \<notin> fst ` set (phases w)" using st(2) by (simp add: map_of_eq_None_iff)
  have fl: "flight ?w j = flight w j" for j
    using st(2,4) unfolding flight_def ph by simp
  have act: "active ?w j = active w j" for j
    using ss unfolding active_def ph by auto
  have runs: "runs_inv E rs ?w = runs_inv E rs w" for rs
    unfolding runs_inv_def run_inv_def fl by (simp add: drawn_ids_def)
  have mem: "memory_inv E ?rs w" and ids: "ids_inv E w" using inv by (simp_all add: supervisor_inv_def)
  have "live_inv ?rs ?w"
    using mem st(4) unfolding live_inv_def memory_inv_def ph by simp
  then have mem': "memory_inv E ?rs ?w"
    using mem unfolding memory_inv_def runs exclusive_def act by blast
  have "?i \<in> drawn_ids E w" using st(3) mem by (auto simp: memory_inv_def runs_inv_def run_inv_def)
  then have ids': "ids_inv E ?w"
    using ids btree_insert_new [OF new] unfolding ids_inv_def ph flights_insert [OF st(4) new] btree_insert_keys
    by (simp add: drawn_ids_def)
  have "runs_inv E (sd_runs (sw_stored w)) ?w" "ess (sw_stored w) = ess (sw_document w)"
    using inv st(1) unfolding runs by (simp_all add: supervisor_inv_def)
  then show ?thesis using mem' ids' st(1) by (simp add: supervisor_inv_def start_inv_def)
qed

lemma ess_withdraw:
  "map essence ((sd_runs d)[k := set_status st x (sd_runs d ! k)]) = ess d"
proof (cases "k < length (sd_runs d)")
  case True
  have "map essence (sd_runs d) = (map essence (sd_runs d))[k := map essence (sd_runs d) ! k]" by simp
  then show ?thesis using True by (simp add: map_update)
qed (simp add: list_update_beyond)

lemma start_publish_inv:
  assumes inv: "supervisor_inv E w" and ss: "sw_starting w = Some ss"
  shows "supervisor_inv E (snd (start_publish E rd ss w))"
proof -
  let ?w = "w\<lparr>sw_starting := None\<rparr>"
  have inv': "supervisor_inv E ?w" by (rule inv_unstarted [OF inv])
  have "supervisor_inv E (snd (save E rd ((sw_document w)\<lparr>sd_runs := (sd_runs (sw_document w))[ss_index ss :=
               set_status RunStopped (Some ''plugin_strategy_stopped'') (sd_runs (sw_document w) ! ss_index ss)]\<rparr>) ?w))"
    by (intro save_inv [OF inv'] memory_same [OF inv']) (simp_all add: ess_withdraw)
  then show ?thesis
    using start_published_inv [OF inv ss] by (auto simp: start_publish_def Let_def split: prod.splits)
qed

section \<open>Restarting\<close>

lemma restart_inv:
  assumes inv: "supervisor_inv E w"
  shows "supervisor_inv E (supervisor_new E readable w)" (is "supervisor_inv E ?w")
proof -
  have ph: "phases ?w = []" by (simp add: supervisor_new_def Let_def phases_def)
  have keep: "sw_trace ?w = sw_trace w" "sw_drawn ?w = sw_drawn w" "sw_stored ?w = sw_stored w" "sw_starting ?w = None"
    "sw_live ?w = []"
    by (simp_all add: supervisor_new_def Let_def)
  have sto: "runs_inv E (sd_runs (sw_stored w)) ?w"
    by (rule runs_inv_mono [of _ _ w]) (use inv in \<open>auto simp: keep ph supervisor_inv_def\<close>)
  have doc: "ess (sw_document ?w) = ess (sw_stored w) \<or> sd_runs (sw_document ?w) = [] \<and> sw_unavailable ?w"
    by (auto simp: supervisor_new_def Let_def default_document_def comp_def)
  have "runs_inv E (sd_runs (sw_document ?w)) ?w"
    using doc runs_inv_ess [OF _ sto] by (metis empty_iff list.set(1) list.simps(8) distinct.simps(1) runs_inv_def)
  then have "memory_inv E (sd_runs (sw_document ?w)) ?w"
    by (simp add: memory_inv_def live_inv_def exclusive_def active_def keep ph)
  moreover have "ids_inv E ?w"
    by (rule ids_inv_mono [of _ w]) (use inv in \<open>auto simp: keep ph supervisor_inv_def flights_def\<close>)
  ultimately show ?thesis
    using sto doc by (auto simp: supervisor_inv_def start_inv_def withdrawn_def keep)
qed

lemma first_inv: "supervisor_inv E (first_world E fates)"
  unfolding first_world_def
  by (rule restart_inv)
    (simp add: supervisor_inv_def memory_inv_def runs_inv_def live_inv_def exclusive_def active_def ids_inv_def start_inv_def
      default_document_def phases_def flights_def sub_ids_def map_filter_def withdrawn_def)

section \<open>Every step\<close>

theorem step_inv:
  assumes "strategy_env_ok E" "strategy_step E w x w'" "supervisor_inv E w"
  shows "supervisor_inv E w'"
  using assms(2,3)
proof cases
  case (prepare_start before t request after rd)
  then show ?thesis using start_prepare_inv [OF assms(1)] assms(3) by (simp add: unlocked_def)
next
  case (apply_control before i action after rd)
  then show ?thesis using control_locked_inv assms(3) by (simp add: unlocked_def)
next
  case (apply_stop_all before after rd)
  then show ?thesis using stop_all_locked_inv assms(3) by (simp add: unlocked_def)
qed (use assms in \<open>auto simp: unlocked_def access_inv start_take_inv start_publish_inv control_accept_inv stop_all_accept_inv
    revoke_for_exit_inv begin_pass_inv guest_done_inv decide_inv recheck_inv hand_off_inv respond_inv acknowledge_inv
    fail_turn_inv wait_over_inv finish_inv reconcile_inv restart_inv\<close>)

theorem reachable_inv: "strategy_env_ok E \<Longrightarrow> reachable E w \<Longrightarrow> supervisor_inv E w"
  by (erule reachable_induct) (auto intro: first_inv step_inv)

end
