(* ===== verification/Withdrawal.thy ===== *)
theory Withdrawal
  imports Main
begin

text \<open>
  What strategies and workflows share: a user withdraws an authority, and from then on nothing is
  done under it, in whatever order the tasks under way continue, until a step gives it anew.
\<close>

locale withdrawal =
  fixes step :: "'w \<Rightarrow> 'l \<Rightarrow> 'w \<Rightarrow> bool" and path :: "'w \<Rightarrow> 'l list \<Rightarrow> 'w \<Rightarrow> bool"
    and silent :: "'w \<Rightarrow> bool" and wakes :: "'l \<Rightarrow> bool" and acts :: "'w \<Rightarrow> 'a"
  assumes path_nil: "path w [] w' \<Longrightarrow> w' = w"
    and path_snoc: "path w (ls @ [x]) w' \<Longrightarrow> \<exists>u. path w ls u \<and> step u x w'"
    and silent_step: "step w x w' \<Longrightarrow> silent w \<Longrightarrow> \<not> wakes x \<Longrightarrow> silent w' \<and> acts w' = acts w"
begin

lemma stays_silent:
  assumes "path w ls w'" "silent w" "\<forall>x\<in>set ls. \<not> wakes x"
  shows "silent w' \<and> acts w' = acts w"
  using assms(1,3)
proof (induction ls arbitrary: w' rule: rev_induct)
  case Nil
  then have "w' = w" using path_nil by blast
  then show ?case using assms(2) by simp
next
  case (snoc x ls)
  then obtain u where "path w ls u" "step u x w'" using path_snoc by blast
  then show ?case using snoc silent_step by fastforce
qed

end

end
