(* ===== verification/Strategy_Control.thy ===== *)
theory Strategy_Control
  imports Strategy_Decisions Withdrawal
begin

text \<open>
  Withdrawals are final: the intent of a live run only grows, a start needs a ticket of the
  current admission epoch, and a ticket is only made by an authorisation.
\<close>

section \<open>What most of the supervisor leaves alone\<close>

text \<open>The admission epochs of the tickets that could still start a run.\<close>

definition admissions :: "strategy_world \<Rightarrow> u64 set" where
  "admissions w = tk_admission ` (snd ` set (sw_tickets w) \<union> fst ` set (sw_requested w) \<union> ss_ticket ` set_option (sw_starting w))"

definition lives_from :: "strategy_world \<Rightarrow> strategy_world \<Rightarrow> bool" where
  "lives_from w w' \<longleftrightarrow> (\<forall>i l'. map_of (sw_live w') i = Some l'
     \<longrightarrow> (\<exists>l. map_of (sw_live w) i = Some l \<and> lv_intent l \<le> lv_intent l'))"

definition evolves :: "strategy_world \<Rightarrow> strategy_world \<Rightarrow> bool" where
  "evolves w w' \<longleftrightarrow> sw_trace w' = sw_trace w \<and> sw_admission w \<le> sw_admission w'
     \<and> admissions w' \<subseteq> admissions w \<and> lives_from w w'"

named_theorems evolution

lemma evolves_refl [simp]: "evolves w w"
  by (simp add: evolves_def lives_from_def)

lemma evolves_trans: "evolves a b \<Longrightarrow> evolves b c \<Longrightarrow> evolves a c"
  unfolding evolves_def lives_from_def by (metis order_trans)

lemma admissions_trace [simp]: "admissions (w\<lparr>sw_trace := t\<rparr>) = admissions w"
  by (simp add: admissions_def)

lemma evolves_fields [simp]:
  "evolves w (w'\<lparr>sw_busy := b\<rparr>) = evolves w w'" "evolves w (w'\<lparr>sw_drawn := k\<rparr>) = evolves w w'"
  "evolves w (w'\<lparr>sw_controls := cs\<rparr>) = evolves w w'" "evolves w (w'\<lparr>sw_closed := c\<rparr>) = evolves w w'"
  "evolves (w\<lparr>sw_busy := b\<rparr>) w' = evolves w w'" "evolves (w\<lparr>sw_drawn := k\<rparr>) w' = evolves w w'"
  "evolves (w\<lparr>sw_controls := cs\<rparr>) w' = evolves w w'" "evolves (w\<lparr>sw_closed := c\<rparr>) w' = evolves w w'"
  by (simp_all add: evolves_def lives_from_def admissions_def)

lemma evolves_admissions:
  assumes "evolves w w'" "admissions u \<subseteq> admissions w'" "sw_trace u = sw_trace w'" "sw_admission w' \<le> sw_admission u"
    "sw_live u = sw_live w'"
  shows "evolves w u"
  by (rule evolves_trans [OF assms(1)]) (use assms(2-) in \<open>auto simp: evolves_def lives_from_def\<close>)

lemma evolves_no_tickets [simp]: "evolves w w' \<Longrightarrow> evolves w (w'\<lparr>sw_tickets := []\<rparr>)"
  by (erule evolves_admissions) (auto simp: admissions_def)

lemma evolves_set_live [evolution]:
  assumes "evolves w w'" "\<And>l. map_of (sw_live w') i = Some l \<Longrightarrow> lv_intent l \<le> lv_intent (f l)"
  shows "evolves w (set_live i f w')"
proof (rule evolves_trans [OF assms(1)])
  show "evolves w' (set_live i f w')"
    using assms(2) by (auto simp: evolves_def lives_from_def admissions_def set_live_def)
qed

lemma evolves_set_phase [evolution]: "evolves w w' \<Longrightarrow> evolves w (set_phase i ph w')"
  unfolding set_phase_def by (rule evolves_set_live) auto

lemma map_of_map_live: "map_of (map (\<lambda>(j, l). (j, f j l)) m) i = map_option (f i) (map_of m i)"
  by (induction m) auto

lemma evolves_revoke:
  "evolves w (w\<lparr>sw_live := map (\<lambda>(j, l). (j, if P j then revoke stop l else l)) (sw_live w)\<rparr>)"
  using map_of_map_live [of "\<lambda>j l. if P j then revoke stop l else l" "sw_live w"]
  by (auto simp: evolves_def lives_from_def admissions_def revoke_def)

lemma evolves_save [evolution]: "evolves w w' \<Longrightarrow> evolves w (snd (save E rd d w'))"
proof (erule evolves_trans)
  show "evolves w' (snd (save E rd d w'))"
  proof (cases rule: save_cases [of E rd d w'])
    case (failed fs sto d')
    then show ?thesis
      using map_of_map_live [of "\<lambda>_. revoke False" "sw_live w'"]
      by (auto simp: evolves_def lives_from_def admissions_def revoke_def)
  qed (auto simp: evolves_def lives_from_def admissions_def)
qed

lemma evolves_mark [evolution]: "evolves w w' \<Longrightarrow> evolves w (mark E rd i st x w')"
  by (simp add: mark_def evolution)

section \<open>The operations\<close>

lemma evolves_ends [evolution]:
  "evolves w w' \<Longrightarrow> evolves w (fail_pass i e w')" "evolves w w' \<Longrightarrow> evolves w (panic_pass E rd i w')"
  by (simp_all add: fail_pass_def panic_pass_def evolution)

lemma evolves_answer [evolution]: "evolves w w' \<Longrightarrow> evolves w (snd (account_answer E rd i p response w'))"
  by (cases rule: account_answer_cases [of E rd i p response w']) (simp_all add: evolution)

lemma evolves_acknowledged [evolution]: "evolves w w' \<Longrightarrow> evolves w (snd (account_acknowledged E rd i p ok w'))"
  by (cases rule: account_acknowledged_cases [of E rd i p ok w']) (simp_all add: evolution)

lemma evolves_close [evolution]: "evolves w w' \<Longrightarrow> evolves w (close_pass E rd i de denied accounted w')"
  by (auto simp: close_pass_def Let_def split: result.split option.split intro!: evolution)

lemma evolves_respond: "evolves w (respond E rd i de p denied response w)"
  by (auto simp: respond_def case_prod_unfold split: result.split option.split intro!: evolution)

lemma evolves_acknowledge: "evolves w (acknowledge E rd i de p denied ok w)"
  by (simp add: acknowledge_def Let_def case_prod_unfold evolution)

lemma evolves_recheck:
  assumes "map_of (sw_live w) i = Some l"
  shows "evolves w (recheck E rd i de p l w)"
proof -
  obtain checked l' where c: "(case check_binding rd l of
            Ok _ \<Rightarrow> check_dispatch rd (de_record de) (de_observed de) (de_observed_wall de) l
          | r \<Rightarrow> (r, l)) = (checked, l')" by fastforce
  then have "lv_intent l' = lv_intent l"
    using check_dispatch_live(2) [of rd "de_record de" "de_observed de" "de_observed_wall de" l] by (auto simp del: check_dispatch_live split: result.splits)
  then have "evolves w (set_live i (\<lambda>_. l') w)" using assms by (intro evolution) auto
  then show ?thesis
    unfolding recheck_def c Let_def by (auto simp: case_prod_unfold split: result.split intro!: evolution)
qed

lemma evolves_decide_locked: "evolves w w' \<Longrightarrow> evolves w (decide_locked E rd i de out action l w')"
  by (auto simp: decide_locked_def Let_def case_prod_unfold split: result.split intro!: evolution)

lemma evolves_decide:
  assumes "map_of (sw_live w) i = Some l"
  shows "evolves w (decide E rd1 rd2 rd3 h i de out l w)"
proof -
  obtain checked l' where c: "decide_checks E rd1 rd2 h de out l = (checked, l')" by fastforce
  then have "evolves w (set_live i (\<lambda>_. l') w)" using decide_checks_live(2) [OF c] assms by (intro evolution) auto
  then show ?thesis
    unfolding decide_def c Let_def by (auto split: result.split intro!: evolution evolves_decide_locked)
qed

lemma evolves_reconcile: "evolves w (snd (reconcile_owned E rd i found ok w))"
proof (cases "reconcile_prepare E rd i found w")
  case (Ok x)
  obtain p response where x: "x = (p, response)" by fastforce
  obtain accounted u where a: "(case account_answer E rd i p response w of
      (Ok (Some v), w) \<Rightarrow> account_acknowledged E rd i p ok w | (r, w) \<Rightarrow> (bind_result r (\<lambda>_. Ok ()), w)) = (accounted, u)"
    by fastforce
  have "evolves w (snd (case account_answer E rd i p response w of
      (Ok (Some v), w) \<Rightarrow> account_acknowledged E rd i p ok w | (r, w) \<Rightarrow> (bind_result r (\<lambda>_. Ok ()), w)))"
    by (auto simp: case_prod_unfold split: result.split option.split intro!: evolution)
  then have "evolves w u" by (simp add: a)
  then show ?thesis
    unfolding reconcile_owned_def Ok x by (simp add: a evolution Let_def split: result.split)
qed (simp_all add: reconcile_owned_def)

lemma evolves_small:
  "evolves w (guest_done E g i de l w)" "evolves w (fail_turn E rd i failure l w)"
  "evolves w (wait_over E rd woken i event first completed wall interval l w)"
  by (simp_all add: guest_done_def fail_turn_def wait_over_def Let_def evolution)

lemma evolves_remove: "evolves w w' \<Longrightarrow> evolves w (w'\<lparr>sw_live := btree_remove i (sw_live w')\<rparr>)"
  by (erule evolves_trans) (auto simp: evolves_def lives_from_def admissions_def)

lemma evolves_finish: "evolves w (finish E rd i w)"
  by (auto simp: finish_def Let_def split: option.split intro!: evolves_remove evolution)

lemma checked_add_one: "checked_add_u64 a 1 = Some b \<Longrightarrow> a < b"
  unfolding checked_add_u64_def by (auto simp: word_less_nat_alt unat_word_ariths split: if_splits)

lemma revoke_intent_cases:
  obtains (refused) e where "revoke_intent stop i w = (Err e, w)"
  | (revoked) a where "revoke_intent stop i w = (Ok (), w\<lparr>sw_admission := a,
       sw_live := map (\<lambda>(j, l). (j, if i = None \<or> i = Some j then revoke stop l else l)) (sw_live w)\<rparr>)" "sw_admission w < a"
proof (cases "checked_add_u64 (sw_admission w) 1")
  case None
  then show thesis using refused by (simp add: revoke_intent_def)
next
  case (Some a)
  then show thesis using revoked [of a] checked_add_one by (simp add: revoke_intent_def)
qed

lemma evolves_revoke_intent:
  assumes ev: "evolves w w'"
  shows "evolves w (snd (revoke_intent stop i w'))"
proof (cases rule: revoke_intent_cases [of stop i w'])
  case (revoked a)
  let ?live = "map (\<lambda>(j, l). (j, if i = None \<or> i = Some j then revoke stop l else l)) (sw_live w')"
  have "evolves w (w'\<lparr>sw_live := ?live\<rparr>)" by (rule evolves_trans [OF ev evolves_revoke])
  then show ?thesis by (rule evolves_admissions) (use revoked in \<open>auto simp: admissions_def\<close>)
qed (use ev in simp)

lemma evolves_controls:
  "evolves w (snd (control_accept E request w))" "evolves w (snd (stop_all_accept w))" "evolves w (revoke_for_exit w)"
proof -
  have r: "evolves w u" if "revoke_intent stop i w = (x, u)" for stop i x u
    using evolves_revoke_intent [of w w stop i] that by simp
  show "evolves w (snd (control_accept E request w))"
    unfolding control_accept_def by (auto dest: r split: prod.split result.split)
  show "evolves w (snd (stop_all_accept w))"
    unfolding stop_all_accept_def by (auto dest: r split: prod.split result.split)
  show "evolves w (revoke_for_exit w)"
    unfolding revoke_for_exit_def by (rule evolves_revoke_intent) simp
qed

lemma evolves_locked:
  "evolves w (snd (control_locked E rd i action w))" "evolves w (snd (stop_all_locked E rd w))"
  by (simp_all add: control_locked_def stop_all_locked_def Let_def case_prod_unfold evolution split: option.split)

lemma evolves_start_take: "evolves w (snd (start_take E request w))"
proof -
  have "admissions (w\<lparr>sw_tickets := btree_remove k (sw_tickets w), sw_requested := (t, request) # sw_requested w\<rparr>) \<subseteq> admissions w"
    if "map_of (sw_tickets w) k = Some t" for t k
    using map_of_SomeD [OF that] by (force simp: admissions_def btree_remove_def)
  then show ?thesis
    by (auto simp: start_take_def split: result.split intro!: evolves_admissions [OF evolves_refl])
qed

lemma evolves_start_prepare:
  assumes "sw_requested w = before @ (t, request) # after" "sw_starting w = None"
  shows "evolves w (snd (start_prepare E rd t request (w\<lparr>sw_requested := before @ after\<rparr>)))"
proof -
  let ?w = "w\<lparr>sw_requested := before @ after\<rparr>"
  have w: "evolves w ?w" by (rule evolves_admissions [OF evolves_refl]) (auto simp: assms admissions_def)
  have "evolves w (u\<lparr>sw_starting := Some ss\<rparr>)"
    if "u = snd (save E rd d (?w\<lparr>sw_drawn := k\<rparr>))" "ss_ticket ss = t" for u ss d k
  proof (cases rule: save_cases [of E rd d "?w\<lparr>sw_drawn := k\<rparr>"])
    case (failed fs sto d')
    have "admissions (u\<lparr>sw_starting := Some ss\<rparr>) \<subseteq> admissions w" using that assms failed by (auto simp: admissions_def)
    then show ?thesis
      using failed that map_of_map_live [of "\<lambda>_. revoke False" "sw_live w"]
      by (auto simp: evolves_def lives_from_def revoke_def)
  qed (use that assms in \<open>auto simp: evolves_def lives_from_def admissions_def\<close>)
  then show ?thesis
    unfolding start_prepare_def Let_def
    by (auto simp: w case_prod_unfold split: result.split intro!: evolution)
qed

text \<open>A start is published only with a ticket of the current epoch.\<close>

lemma start_publish_cases:
  assumes "sw_starting w = Some ss"
  obtains (withdrawn) "evolves w (snd (start_publish E rd ss w))"
  | (published) "sw_admission w = tk_admission (ss_ticket ss)"
      "snd (start_publish E rd ss w) = w\<lparr>sw_starting := None, sw_live := btree_insert (ss_run_id ss) (ss_live ss) (sw_live w)\<rparr>"
proof (cases "admission_epoch w = Ok (tk_admission (ss_ticket ss))")
  case True
  then show thesis using published by (auto simp: start_publish_def admission_epoch_def split: if_splits)
next
  case False
  have "evolves w (w\<lparr>sw_starting := None\<rparr>)" by (rule evolves_admissions [OF evolves_refl]) (auto simp: assms admissions_def)
  moreover have "admission_epoch (w\<lparr>sw_starting := None\<rparr>) \<noteq> Ok (tk_admission (ss_ticket ss))"
    using False by (auto simp: admission_epoch_def)
  ultimately have "evolves w (snd (start_publish E rd ss w))"
    unfolding start_publish_def Let_def by (simp add: case_prod_unfold evolution)
  then show thesis by (rule withdrawn)
qed

lemma evolves_begin_pass:
  assumes "map_of (sw_live w) i = Some l"
  shows "evolves (w\<lparr>sw_trace := sw_trace (begin_pass E rd rd' h lease context_len i event first l w)\<rparr>)
      (begin_pass E rd rd' h lease context_len i event first l w)" (is "evolves (w\<lparr>sw_trace := sw_trace ?u\<rparr>) _")
    "handed j (sw_trace (begin_pass E rd rd' h lease context_len i event first l w)) = handed j (sw_trace w)"
proof -
  have tr: "evolves (w\<lparr>sw_trace := t\<rparr>) (v\<lparr>sw_trace := t\<rparr>)" if "evolves w v" for v t
    using that by (simp add: evolves_def lives_from_def admissions_def)
  have tr': "evolves (w\<lparr>sw_trace := sw_trace v\<rparr>) v" if "evolves w v" for v
    using tr [OF that, of "sw_trace v"] by simp
  have live: "evolves w (set_live i (\<lambda>_. snd (clock_check rd r l)) w)" for r
    using assms by (intro evolution) auto
  show "evolves (w\<lparr>sw_trace := sw_trace ?u\<rparr>) ?u"
    unfolding begin_pass_def Let_def case_prod_unfold
    by (auto simp: tr tr' evolution live split: option.split result.split)
  show "handed j (sw_trace ?u) = handed j (sw_trace w)"
    unfolding begin_pass_def Let_def case_prod_unfold by (auto split: option.split result.split)
qed

lemma hand_off_effect:
  assumes "map_of (sw_live w) i = Some l"
  shows "evolves (w\<lparr>sw_trace := sw_trace (hand_off rd i de p l w)\<rparr>) (hand_off rd i de p l w)"
    "sw_trace (hand_off rd i de p l w) = sw_trace w \<or>
      admitted l \<and> (\<exists>m. sw_trace (hand_off rd i de p l w) = sw_trace w @ [HandedOff i p m])"
proof -
  obtain checked l' where c: "check_dispatch rd (de_record de) (de_observed de) (de_observed_wall de) l = (checked, l')"
    by fastforce
  have l': "lv_intent l' = lv_intent l"
    using check_dispatch_live(2) [of rd "de_record de" "de_observed de" "de_observed_wall de" l] unfolding c by simp
  have "evolves w (set_phase i ph (set_live i (\<lambda>_. l') w))" "evolves w (set_live i (\<lambda>_. l') w)" for ph
    using assms l' by (auto intro!: evolution)
  then have tr: "evolves (w\<lparr>sw_trace := t\<rparr>) ((set_phase i ph (set_live i (\<lambda>_. l') w))\<lparr>sw_trace := t\<rparr>)"
    "evolves (w\<lparr>sw_trace := sw_trace w\<rparr>) (set_phase i ph (set_live i (\<lambda>_. l') w))"
    "evolves (w\<lparr>sw_trace := sw_trace w\<rparr>) (set_live i (\<lambda>_. l') w)" for ph t
    by (simp_all add: evolves_def lives_from_def admissions_def)
  show "evolves (w\<lparr>sw_trace := sw_trace (hand_off rd i de p l w)\<rparr>) (hand_off rd i de p l w)"
    unfolding hand_off_def c Let_def using tr by (auto split: result.split)
  have "checked = Ok () \<Longrightarrow> admitted l"
    using c by (auto simp: check_dispatch_def Let_def case_prod_unfold clock_check_def admitted_def split: if_splits)
  then show "sw_trace (hand_off rd i de p l w) = sw_trace w \<or>
      admitted l \<and> (\<exists>m. sw_trace (hand_off rd i de p l w) = sw_trace w @ [HandedOff i p m])"
    unfolding hand_off_def c Let_def by (auto split: result.split)
qed

lemma btree_insert_set: "set (btree_insert k v m) \<subseteq> insert (k, v) (set m)"
  by (induction m rule: btree_insert.induct) auto

lemma access_cases:
  obtains (refused) "snd (access E rd request seen w) = w"
  | (full) k P where "snd (access E rd request seen w) = w\<lparr>sw_drawn := k, sw_tickets := filter P (sw_tickets w)\<rparr>"
  | (made) k P token t where "tk_admission t = sw_admission w"
      "snd (access E rd request seen w) = w\<lparr>sw_drawn := k, sw_tickets := btree_insert token t (filter P (sw_tickets w))\<rparr>"
proof -
  have epoch: "a = sw_admission w" if "admission_epoch w = Ok a" for a
    using that by (auto simp: admission_epoch_def split: if_splits)
  show thesis
  proof (cases "bind_result (err_as (strategy_error ''plugin_strategy_invalid_request'') (authority_request_validate request)) (\<lambda>_.
           bind_result seen (\<lambda>seen.
           bind_result (rd_capture rd request) (\<lambda>captured.
           bind_result (rd_epoch rd) (\<lambda>epoch.
           bind_result (err_as stale (rd_authority rd)) (\<lambda>authority.
           bind_result (err_as (strategy_error ''plugin_strategy_unavailable'') (rd_scope rd)) (\<lambda>scope.
           bind_result (ok_or (checked_add_u64 (rd_wall rd) 60000) (strategy_error ''plugin_strategy_unavailable'')) (\<lambda>expiry.
           bind_result (store_ready w) (\<lambda>_.
           bind_result (admission_epoch w) (\<lambda>admission.
             if admission \<noteq> seen then Err stale
             else Ok (captured, epoch, authority, scope, expiry, admission))))))))))")
    case (Ok x)
    obtain captured epoch' authority scope expiry admission where x: "x = (captured, epoch', authority, scope, expiry, admission)" by (cases x)
    have "admission_epoch w = result.Ok admission" using Ok x by (auto split: if_splits)
    then have tk: "admission = sw_admission w" by (rule epoch)
    show thesis
    proof (cases "32 \<le> length (filter (\<lambda>(_, t). rd_instant rd < tk_deadline t) (sw_tickets w))")
      case True
      show thesis
        by (rule full [where k = "Suc (sw_drawn w)" and P = "\<lambda>(_, t). rd_instant rd < tk_deadline t"])
          (simp add: access_def Ok x Let_def True)
    next
      case False
      show thesis
        by (rule made [where t = "\<lparr>tk_request = request, tk_captured = captured, tk_authority = authority, tk_scope = scope,
                  tk_epoch = epoch', tk_admission = admission, tk_deadline = rd_instant rd + 60000000000\<rparr>"
              and k = "Suc (sw_drawn w)" and token = "se_uuid E (sw_drawn w)" and P = "\<lambda>(_, t). rd_instant rd < tk_deadline t"])
          (use tk False in \<open>simp_all add: access_def Ok x Let_def\<close>)
    qed
  qed (use refused in \<open>simp_all add: access_def\<close>)
qed

lemma access_admissions:
  "admissions (snd (access E rd request seen w)) \<subseteq> insert (sw_admission w) (admissions w)"
  "sw_admission (snd (access E rd request seen w)) = sw_admission w"
  "sw_trace (snd (access E rd request seen w)) = sw_trace w"
proof -
  show "admissions (snd (access E rd request seen w)) \<subseteq> insert (sw_admission w) (admissions w)"
  proof (cases rule: access_cases [of E rd request seen w])
    case (made k P token t)
    have "snd ` set (btree_insert token t (filter P (sw_tickets w))) \<subseteq> insert t (snd ` set (sw_tickets w))"
      using btree_insert_set [of token t "filter P (sw_tickets w)"] by (auto simp: rev_image_eqI)
    then show ?thesis using made by (auto simp: admissions_def)
  qed (auto simp: admissions_def)
qed (cases rule: access_cases [of E rd request seen w]; simp)+

section \<open>Every step\<close>

definition silenced :: "string set \<Rightarrow> strategy_world \<Rightarrow> bool" where
  "silenced S w \<longleftrightarrow> (\<forall>i\<in>S. \<forall>l. map_of (sw_live w) i = Some l \<longrightarrow> \<not> admitted l)
     \<and> (\<forall>a\<in>admissions w. a < sw_admission w)"

definition ticketed :: "strategy_world \<Rightarrow> bool" where
  "ticketed w \<longleftrightarrow> (\<forall>a\<in>admissions w. a \<le> sw_admission w)"

lemma evolves_trace:
  assumes "evolves w w'"
  shows "evolves (w\<lparr>sw_trace := sw_trace w'\<rparr>) w'" "handed i (sw_trace w') = handed i (sw_trace w)"
  using assms by (simp_all add: evolves_def lives_from_def admissions_def)

lemma evolves_silenced:
  assumes "evolves (w\<lparr>sw_trace := t\<rparr>) w'" "silenced S w"
  shows "silenced S w'"
  unfolding silenced_def
proof (intro conjI ballI allI impI)
  fix i l assume "i \<in> S" "map_of (sw_live w') i = Some l"
  then show "\<not> admitted l"
    using assms unfolding silenced_def evolves_def lives_from_def admitted_def by fastforce
next
  fix a assume "a \<in> admissions w'"
  then have "a \<in> admissions w" using assms(1) by (auto simp: evolves_def)
  then show "a < sw_admission w'" using assms by (fastforce simp: silenced_def evolves_def)
qed

lemma evolves_ticketed:
  assumes "evolves (w\<lparr>sw_trace := t\<rparr>) w'" "ticketed w"
  shows "ticketed w'"
  unfolding ticketed_def
proof
  fix a assume "a \<in> admissions w'"
  then have "a \<in> admissions w" using assms(1) by (auto simp: evolves_def)
  then show "a \<le> sw_admission w'" using assms by (fastforce simp: ticketed_def evolves_def)
qed

lemma step_cases:
  assumes "strategy_step E w x w'"
  obtains (same) "evolves (w\<lparr>sw_trace := sw_trace w'\<rparr>) w'" "\<And>i. handed i (sw_trace w') = handed i (sw_trace w)"
  | (authorised) rd request seen where "x = Authorise" "w' = snd (access E rd request seen w)"
  | (published) ss where "sw_starting w = Some ss" "sw_admission w = tk_admission (ss_ticket ss)"
      "w' = w\<lparr>sw_starting := None, sw_live := btree_insert (ss_run_id ss) (ss_live ss) (sw_live w)\<rparr>"
  | (handed_off) i l de p m rd where "x = Dispatch i" "worker_at w i l (Admitting de p)" "admitted l"
      "sw_trace w' = sw_trace w @ [HandedOff i p m]" "w' = hand_off rd i de p l w"
      "evolves (w\<lparr>sw_trace := sw_trace w'\<rparr>) w'"
  | (restarted) readable where "w' = supervisor_new E readable w"
proof -
  have ev: thesis if "evolves w w'" using that evolves_trace same by blast
  note rules = evolves_respond evolves_acknowledge evolves_recheck evolves_decide evolves_reconcile evolves_small evolves_finish
    evolves_controls evolves_start_take
  from assms show thesis
  proof cases
    case (prepare_start before t request after rd)
    then show ?thesis using ev evolves_start_prepare by (simp add: unlocked_def)
  next
    case (publish_start ss rd)
    from \<open>sw_starting w = Some ss\<close> show ?thesis
    proof (cases rule: start_publish_cases [where E = E and rd = rd])
      case withdrawn
      then show ?thesis using ev publish_start by simp
    next
      case published
      then show ?thesis using that(3) [of ss] publish_start by simp
    qed
  next
    case (apply_control before i action after rd)
    then show ?thesis using ev evolves_locked(1) [of "w\<lparr>sw_controls := before @ after\<rparr>"] by simp
  next
    case (apply_stop_all before after rd)
    then show ?thesis using ev evolves_locked(2) [of "w\<lparr>sw_controls := before @ after\<rparr>"] by simp
  next
    case (begin_turn i l event first rd rd' h lease context_len)
    then show ?thesis using same evolves_begin_pass [of w i l] by blast
  next
    case (hand_off i l de p rd)
    then show ?thesis using same handed_off [of i l de p] hand_off_effect [of w i l rd de p] by metis
  next
    case (authorise rd request seen)
    then show ?thesis using authorised by blast
  next
    case (restart readable)
    then show ?thesis using restarted by blast
  qed (rule ev, simp add: rules)+
qed

lemma step_silenced:
  assumes "strategy_step E w x w'" "x \<noteq> Authorise" "silenced S w"
  shows "silenced S w'"
  using assms(1)
proof (cases rule: step_cases)
  case (published ss)
  then show ?thesis using assms(3) by (auto simp: silenced_def admissions_def)
next
  case (restarted readable)
  then show ?thesis by (simp add: silenced_def admissions_def supervisor_new_def Let_def)
qed (use assms evolves_silenced in blast)+

lemma step_silent:
  assumes "strategy_step E w x w'" "silenced S w" "i \<in> S"
  shows "handed i (sw_trace w') = handed i (sw_trace w)"
  using assms(1)
proof (cases rule: step_cases)
  case (authorised rd request seen)
  then show ?thesis by (simp add: access_admissions)
next
  case (published ss)
  then show ?thesis by simp
next
  case (handed_off j l de p m)
  then show ?thesis using assms by (auto simp: silenced_def)
next
  case (restarted readable)
  then show ?thesis by (simp add: supervisor_new_def Let_def)
qed blast

inductive_cases strategy_path_snocE: "strategy_path E w (ls @ [x]) w'"

inductive_cases strategy_path_nilE: "strategy_path E w [] w'"

interpretation control: withdrawal "strategy_step E" "strategy_path E" "silenced S" "\<lambda>x. x = Authorise"
  "\<lambda>w i. if i \<in> S then handed i (sw_trace w) else []" for E S
  by unfold_locales (auto simp: step_silenced step_silent fun_eq_iff elim: strategy_path_snocE strategy_path_nilE)

lemma path_silent:
  assumes "strategy_path E w ls w'" "Authorise \<notin> set ls" "silenced S w" "i \<in> S"
  shows "handed i (sw_trace w') = handed i (sw_trace w) \<and> silenced S w'"
  using control.stays_silent [OF assms(1,3)] assms(2,4) by (metis (mono_tags, lifting))

lemma step_ticketed:
  assumes "strategy_step E w x w'" "ticketed w"
  shows "ticketed w'"
  using assms(1)
proof (cases rule: step_cases)
  case (authorised rd request seen)
  have "admissions w' \<subseteq> insert (sw_admission w) (admissions w)" "sw_admission w' = sw_admission w"
    using access_admissions [of E rd request seen w] authorised by simp_all
  then show ?thesis using assms(2) by (auto simp: ticketed_def)
next
  case (published ss)
  then have "admissions w' \<subseteq> admissions w" "sw_admission w' = sw_admission w"
    by (auto simp: admissions_def)
  then show ?thesis using assms(2) by (auto simp: ticketed_def)
next
  case (restarted readable)
  then show ?thesis by (simp add: ticketed_def admissions_def supervisor_new_def Let_def)
qed (use assms evolves_ticketed in blast)+

lemma reachable_ticketed: "reachable E w \<Longrightarrow> ticketed w"
proof (induction rule: reachable_induct)
  case (first fates)
  show ?case by (simp add: ticketed_def admissions_def first_world_def supervisor_new_def Let_def)
qed (rule step_ticketed)

text \<open>An accepted withdrawal silences the runs it covers.\<close>

lemma revoke_silences:
  assumes "ticketed w" "revoke_intent stop i w = (Ok (), w')"
  shows "silenced {j. i = None \<or> i = Some j} w'"
proof (cases rule: revoke_intent_cases [of stop i w])
  case (revoked a)
  have "admissions w' = admissions w" using revoked assms(2) by (auto simp: admissions_def)
  then show ?thesis
    using revoked assms map_of_map_live [of "\<lambda>j l. if i = None \<or> i = Some j then revoke stop l else l" "sw_live w"]
    by (auto simp: silenced_def ticketed_def admitted_def revoke_def intro: le_less_trans)
qed (use assms in simp)

end
