(* ===== verification/Strategy_Samples.thy ===== *)
theory Strategy_Samples
  imports Strategy_Reachable Strategy_Control Samples
begin

text \<open>
  A run of the supervisor from its first start to the hand-off of an order, for the witnesses:
  identifiers and decimals are numerals, the guest's input is any object, and the exchange is
  never asked.
\<close>

section \<open>The environment\<close>

definition sample_add :: "rat \<Rightarrow> rat \<Rightarrow> rat option" where
  "sample_add a b = (if of_nat (nat \<lfloor>a + b\<rfloor>) = a + b then Some (a + b) else None)"

definition sample_strategy_env :: strategy_env where
  "sample_strategy_env =
     \<lparr>se_dec = sample_decimal, se_add = sample_add, se_json = (\<lambda>_. Some (JObject [])), se_json_len = (\<lambda>_. 2),
      se_uuid_ok = (\<lambda>s. s \<noteq> []), se_uuid = sample_print_nat, se_b64_decode = (\<lambda>s. Some s), se_b64_encode = (\<lambda>s. s)\<rparr>"

lemma sample_print_inj: "inj sample_print_nat"
  by (rule injI) (metis digits_value_print option.inject)

lemma sample_strategy_env_ok: "strategy_env_ok sample_strategy_env"
proof -
  have "sample_parse (sample_print_nat (nat \<lfloor>c\<rfloor>)) = Some c" if "of_nat (nat \<lfloor>c\<rfloor>) = c" for c :: rat
    using that digits_value_print [of "nat \<lfloor>c\<rfloor>"] by (simp add: sample_parse_def)
  moreover have "sample_parse ''0'' = Some 0" by code_simp
  ultimately show ?thesis
    using sample_print_inj
    by (auto simp: strategy_env_ok_def sample_strategy_env_def sample_decimal_def sample_add_def split: if_splits)
qed

section \<open>A run\<close>

definition sample_authority :: account_authority where
  "sample_authority =
     \<lparr>au_account = \<lparr>ac_account_id = ''main'', ac_session_epoch = ''7'', ac_environment = ''testnet''\<rparr>, au_private_session = ''s''\<rparr>"

definition sample_print :: string where
  "sample_print = ''v1:sha256:'' @ replicate 64 CHR ''a''"

definition sample_scope :: string where
  "sample_scope = replicate 64 CHR ''b''"

definition sample_captured :: captured_strategy where
  "sample_captured =
     \<lparr>cs_params = \<lparr>pm_runtime = ''wasm-v1'', pm_abi = ''strategy-json-v1'', pm_module_base64 = wasm_magic, pm_default_input = ''{}''\<rparr>,
      cs_identity = \<lparr>pi_id = ''com.grid'', pi_source = SourceLocalDeclarative, pi_publisher_id = ''com.me'',
        pi_approval_fingerprint = sample_print\<rparr>,
      cs_requested = [''account.read'', ''strategy.run'', ''trade.place'']\<rparr>"

definition sample_readings :: readings where
  "sample_readings =
     \<lparr>rd_wall = 1000, rd_instant = 5, rd_epoch = Ok 3, rd_capture = (\<lambda>_. Ok sample_captured),
      rd_authority = Ok sample_authority, rd_scope = Ok sample_scope\<rparr>"

definition sample_access :: authority_request where
  "sample_access = \<lparr>ar_plugin_id = ''com.grid'', ar_contribution_id = ''com.grid'',
     ar_expected_catalog_generation = ''1'', ar_expected_revision = ''1''\<rparr>"

definition sample_policy :: strategy_policy where
  "sample_policy = \<lparr>sp_interval_ms = 5000, sp_max_order_qty = ''5'', sp_max_total_qty = ''8'', sp_max_actions = 2,
     sp_max_run_seconds = 60, sp_reduce_only = False\<rparr>"

definition sample_start :: strategy_start_request where
  "sample_start = \<lparr>sq_authorization_token = ''0'', sq_request_id = ''900'', sq_resume_run_id = None, sq_symbol = ''BTC'',
     sq_input_json = ''{}'', sq_capabilities = [''account.read'', ''strategy.run'', ''trade.place''],
     sq_policy = sample_policy, sq_acknowledge_automatic_trading = True\<rparr>"

definition sample_host :: host_data where
  "sample_host = \<lparr>hd_balances = Ok [], hd_positions = Ok [], hd_orders = Ok [], hd_market = Err stale, hd_now = (\<lambda>_. 1000)\<rparr>"

definition sample_output :: strategy_output where
  "sample_output = \<lparr>so_state = JObject [], so_action = ActPlace \<lparr>pl_symbol = ''BTC'', pl_side = ''Buy'', pl_order_type = ''Limit'',
     pl_qty = ''3'', pl_price = Some ''100'', pl_time_in_force = ''GTC'', pl_position_idx = 1, pl_reduce_only = False\<rparr>,
     so_message = ''buy''\<rparr>"

text \<open>The states of the run: one start, one turn, one order.\<close>

definition sample_ticket :: ticket where
  "sample_ticket = \<lparr>tk_request = sample_access, tk_captured = sample_captured, tk_authority = sample_authority,
     tk_scope = sample_scope, tk_epoch = 3, tk_admission = 0, tk_deadline = 60000000005\<rparr>"

definition sample_run :: run_record where
  "sample_run = new_run sample_strategy_env sample_readings sample_ticket sample_start sample_captured sample_authority
     sample_scope ''1'' 61000"

definition sample_snapshot :: snapshot where
  "sample_snapshot = \<lparr>sn_schema_version = 1, sn_account = au_account sample_authority, sn_captured_at_ms = ''1000'',
     sn_symbol = ''BTC'', sn_granted_capabilities = [''account.read'', ''strategy.run'', ''trade.place''],
     sn_balances = None, sn_positions = None, sn_orders = None, sn_market = None\<rparr>"

definition sample_decision :: decision where
  "sample_decision = \<lparr>de_event = ''start'', de_record = sample_run, de_snapshot = sample_snapshot, de_sequence = ''1'',
     de_observed = 5, de_observed_wall = 1000\<rparr>"

definition sample_intent :: pending_action where
  "sample_intent = \<lparr>pa_sequence = ''1'', pa_action = so_action sample_output, pa_submission_id = Some ''2'',
     pa_state = JObject [], pa_message = ''buy''\<rparr>"

definition sample_intended :: run_record where
  "sample_intended = sample_run\<lparr>rr_view := (rr_view sample_run)\<lparr>rv_sequence := ''1'', rv_actions_submitted := 1,
     rv_total_submitted_qty := ''3''\<rparr>, rr_pending := Some sample_intent\<rparr>"

definition sample_live :: "worker_phase \<Rightarrow> live_run" where
  "sample_live ph = \<lparr>lv_request = sample_access, lv_captured = sample_captured, lv_authority = sample_authority,
     lv_epoch = 3, lv_intent = 0, lv_deadline = 60000000005, lv_last_wall = 1000, lv_clock_anchor = 5,
     lv_wall_anchor_ms = 1000, lv_phase = ph\<rparr>"

definition sample_strategy :: "nat \<Rightarrow> run_record list \<Rightarrow> nat \<Rightarrow> (string \<times> live_run) list \<Rightarrow> strategy_world" where
  "sample_strategy revision runs drawn live =
     (let d = \<lparr>sd_schema_version = 1, sd_revision = nat_to_string revision, sd_runs = runs\<rparr> in
      \<lparr>sw_document = d, sw_stored = d, sw_tickets = [], sw_requested = [], sw_starting = None, sw_live = live,
       sw_unavailable = False, sw_admission = 0, sw_closed = False, sw_controls = [], sw_busy = 1 < revision,
       sw_fates = [], sw_drawn = drawn, sw_trace = (if live = [] then [] else case lv_phase (snd (hd live)) of
           AtLoop _ _ \<Rightarrow> [] | _ \<Rightarrow> [GuestCalled ''1'' ''start'' ''1''])\<rparr>)"

abbreviation sample_at :: "worker_phase \<Rightarrow> strategy_world" where
  "sample_at ph \<equiv> sample_strategy (Suc 0) [sample_run] 2 [(''1'', sample_live ph)]"

abbreviation sample_busy :: "worker_phase \<Rightarrow> strategy_world" where
  "sample_busy ph \<equiv> sample_strategy 2 [sample_intended] 3 [(''1'', sample_live ph)]"

abbreviation sample_starting :: start_state where
  "sample_starting \<equiv> \<lparr>ss_ticket = sample_ticket, ss_index = 0, ss_run_id = ''1'', ss_live = sample_live (AtLoop ''start'' True)\<rparr>"

section \<open>Evaluation\<close>

lemma sample_digits [simp]:
  "char_of (48 :: nat) = CHR ''0''" "char_of (49 :: nat) = CHR ''1''" "char_of (50 :: nat) = CHR ''2''"
  "char_of (54 :: nat) = CHR ''6''" "char_of (55 :: nat) = CHR ''7''"
  by code_simp+

lemma sample_counters [simp]:
  "counter ''0'' = Ok 0" "counter ''1'' = Ok 1" "counter ''2'' = Ok 2" "counter ''7'' = Ok 7"
  "counter ''1000'' = Ok 1000" "counter ''61000'' = Ok 61000"
  by (simp_all add: counter_def parse_u64_def u64_to_string_def nat_to_string.simps is_ascii_digit_def starts_with_def)

lemma sample_prints [simp]:
  "u64_to_string 1 = ''1''" "u64_to_string 2 = ''2''" "u64_to_string 1000 = ''1000''" "u64_to_string 61000 = ''61000''"
  by (simp_all add: u64_to_string_def nat_to_string.simps)

lemma sample_quantities [simp]:
  "strategy_quantity sample_decimal ''3'' = Ok 3" "strategy_quantity sample_decimal ''5'' = Ok 5"
  "strategy_quantity sample_decimal ''8'' = Ok 8"
  by code_simp+

lemma sample_decimals [simp]:
  "workflow_decimal sample_decimal ''0'' False = Ok ''0''" "workflow_decimal sample_decimal ''3'' False = Ok ''3''"
  "workflow_decimal sample_decimal ''3'' True = Ok ''3''" "workflow_decimal sample_decimal ''100'' True = Ok ''100''"
  by code_simp+

lemma sample_parsed [simp]:
  "dec_from_str_exact sample_decimal ''0'' = Some 0" "dec_from_str_exact sample_decimal ''3'' = Some 3"
  by code_simp+

lemma sample_names [simp]:
  "validate_reverse_domain ''com.grid'' = Ok ()" "workflow_symbol ''BTC'' = Ok ()" "bounded_id ''main''"
  "\<not> has_control ''testnet''"
  by code_simp+

lemma sample_capabilities [simp]:
  "strategy_validate_capabilities [''account.read'', ''strategy.run'', ''trade.place''] = Ok ()"
  "validate_management_dependencies [''account.read'', ''strategy.run'', ''trade.place''] = Ok ()"
  by code_simp+

lemma sample_env_fields [simp]:
  "se_dec sample_strategy_env = sample_decimal" "se_uuid_ok sample_strategy_env s = (s \<noteq> [])"
  "se_json sample_strategy_env s = Some (JObject [])" "se_json_len sample_strategy_env v = 2"
  by (simp_all add: sample_strategy_env_def)

lemma sample_policy_ok [simp]: "policy_validate sample_decimal sample_policy = Ok ()"
  by (simp add: policy_validate_def sample_policy_def)

lemmas sample_run_defs = sample_run_def new_run_def sample_start_def sample_ticket_def sample_access_def sample_authority_def
  sample_readings_def sample_captured_def

lemma sample_policy_fields [simp]:
  "sp_max_run_seconds sample_policy = 60" "sp_max_total_qty sample_policy = ''8''" "sp_max_order_qty sample_policy = ''5''"
  "sp_max_actions sample_policy = 2" "\<not> sp_reduce_only sample_policy" "sp_interval_ms sample_policy = 5000"
  by (simp_all add: sample_policy_def)

lemma sample_strategy_input [simp]: "validate_input sample_strategy_env ''{}'' = Ok ()"
  by (simp add: validate_input_def json_is_object_def)

lemma sample_state [simp]: "validate_state sample_strategy_env (JObject []) = Ok ()"
  by (simp add: validate_state_def json_is_object_def)

lemma sample_hex [simp]: "is_ascii_hexdigit CHR ''a''" "is_ascii_hexdigit CHR ''b''"
  by code_simp+

lemma sample_scoped [simp]:
  "fingerprint_ok sample_print" "length sample_scope = 64" "list_all is_ascii_hexdigit sample_scope"
  by (simp_all add: fingerprint_ok_def starts_with_def list_all_iff sample_print_def sample_scope_def)

lemma sample_view_ok [simp]: "view_validate sample_strategy_env (rr_view sample_run) = Ok ()"
  by (simp add: view_validate_def sample_run_defs checked_add_u64_def)

lemma sample_run_ok [simp]: "run_validate sample_strategy_env [] [] sample_run = Ok ()"
  unfolding run_validate_def sample_view_ok
  by (simp add: sample_run_defs unknown_receipt_ok_def)

lemma sample_intended_ok: "run_validate sample_strategy_env [] [] sample_intended = Ok ()"
proof -
  have "view_validate sample_strategy_env (rr_view sample_intended) = Ok ()"
    by (simp add: view_validate_def sample_intended_def sample_run_defs checked_add_u64_def)
  moreover have "pending_validate sample_strategy_env sample_intended sample_intent = Ok ()"
    by (simp add: pending_validate_def pending_action_ok_def pending_place_ok_def pending_qty_ok_def total_submitted_def
        validate_place_def sample_intended_def sample_intent_def sample_output_def sample_run_defs)
  ultimately show ?thesis
    by (simp add: run_validate_def sample_intended_def sample_run_defs unknown_receipt_ok_def)
qed

lemma sample_documents [simp]:
  "is_ok (document_validate sample_strategy_env \<lparr>sd_schema_version = Suc 0, sd_revision = ''0'', sd_runs = []\<rparr>)"
  "is_ok (document_validate sample_strategy_env \<lparr>sd_schema_version = Suc 0, sd_revision = ''1'', sd_runs = [sample_run]\<rparr>)"
  "is_ok (document_validate sample_strategy_env \<lparr>sd_schema_version = Suc 0, sd_revision = ''2'', sd_runs = [sample_intended]\<rparr>)"
  by (simp_all add: document_validate_def sample_intended_ok)

lemma sample_revisions [simp]: "nat_to_string 0 = ''0''" "nat_to_string (Suc 0) = ''1''" "nat_to_string 2 = ''2''"
  by (simp_all add: nat_to_string.simps)

lemma sample_uuids [simp]:
  "se_uuid sample_strategy_env 0 = ''0''" "se_uuid sample_strategy_env (Suc 0) = ''1''" "se_uuid sample_strategy_env 2 = ''2''"
  by (simp_all add: sample_strategy_env_def sample_print_nat.simps)

lemma sample_first: "first_world sample_strategy_env [] = sample_strategy 0 [] 0 []"
  by (simp add: first_world_def sample_strategy_def supervisor_new_def default_document_def Let_def)

lemma sample_authorise:
  "snd (access sample_strategy_env sample_readings sample_access (Ok 0) (sample_strategy 0 [] 0 [])) =
     (sample_strategy 0 [] (Suc 0) [])\<lparr>sw_tickets := [(''0'', sample_ticket)]\<rparr>"
  by (simp add: access_def authority_request_validate_def sample_strategy_def store_ready_def admission_epoch_def sample_run_defs checked_add_u64_def Let_def)

lemma sample_take:
  "snd (start_take sample_strategy_env sample_start ((sample_strategy 0 [] (Suc 0) [])\<lparr>sw_tickets := [(''0'', sample_ticket)]\<rparr>)) =
     (sample_strategy 0 [] (Suc 0) [])\<lparr>sw_requested := [(sample_ticket, sample_start)]\<rparr>"
  by (simp add: start_take_def start_request_validate_def store_ready_def sample_strategy_def sample_start_def btree_remove_def Let_def)

lemma sample_run_fields [simp]:
  "run_id sample_run = ''1''" "rv_expires_at_ms (rr_view sample_run) = ''61000''" "rr_last_observed_at_ms sample_run = ''1000''"
  "rv_sequence (rr_view sample_run) = ''0''" "rr_pending sample_run = None" "rv_policy (rr_view sample_run) = sample_policy"
  "rv_actions_submitted (rr_view sample_run) = 0" "rv_total_submitted_qty (rr_view sample_run) = ''0''"
  "rv_capabilities (rr_view sample_run) = [''account.read'', ''strategy.run'', ''trade.place'']" "rv_symbol (rr_view sample_run) = ''BTC''"
  by (simp_all add: sample_run_defs)

lemma sample_reads [simp]:
  "rd_wall sample_readings = 1000" "rd_instant sample_readings = 5" "rd_epoch sample_readings = Ok 3"
  "rd_capture sample_readings q = Ok sample_captured" "rd_authority sample_readings = Ok sample_authority"
  "rd_scope sample_readings = Ok sample_scope"
  by (simp_all add: sample_readings_def)

lemma sample_ticket_fields [simp]:
  "tk_admission sample_ticket = 0" "tk_request sample_ticket = sample_access" "tk_epoch sample_ticket = 3"
  "sq_resume_run_id sample_start = None"
  by (simp_all add: sample_ticket_def sample_start_def)

lemma sample_start_saved:
  "save sample_strategy_env sample_readings \<lparr>sd_schema_version = Suc 0, sd_revision = ''0'', sd_runs = [sample_run]\<rparr> (sample_strategy 0 [] 2 []) =
     (Ok (), sample_strategy (Suc 0) [sample_run] 2 [])"
  by (simp add: save_def strategy_store_save_def follows_revision_def sample_strategy_def checked_add_u64_def Let_def)

lemma sample_start_document:
  "start_document sample_strategy_env sample_readings sample_ticket sample_start sample_captured sample_authority sample_scope
     (sample_strategy 0 [] (Suc 0) []) = Ok (\<lparr>sd_schema_version = Suc 0, sd_revision = ''0'', sd_runs = [sample_run]\<rparr>, 0, Suc 0)"
  by (simp add: start_document_def sample_strategy_def sample_run_defs checked_add_u64_def Let_def)

lemma sample_prepare:
  "snd (start_prepare sample_strategy_env sample_readings sample_ticket sample_start (sample_strategy 0 [] (Suc 0) [])) =
     (sample_strategy (Suc 0) [sample_run] 2 [])\<lparr>sw_starting := Some sample_starting\<rparr>"
proof -
  have "start_binding sample_readings sample_ticket sample_start = Ok (sample_captured, sample_authority, sample_scope)"
    by (simp add: start_binding_def sample_run_defs)
  moreover have "(sample_strategy 0 [] (Suc 0) [])\<lparr>sw_drawn := Suc (Suc 0)\<rparr> = sample_strategy 0 [] 2 []" "store_ready (sample_strategy 0 [] (Suc 0) []) = Ok ()"
    "admission_epoch (sample_strategy 0 [] (Suc 0) []) = Ok 0" "sd_runs (sw_document (sample_strategy 0 [] (Suc 0) [])) = []"
    "sw_live (sample_strategy 0 [] (Suc 0) []) = []" "sw_drawn (sample_strategy 0 [] (Suc 0) []) = 1"
    by (simp_all add: sample_strategy_def Let_def store_ready_def admission_epoch_def)
  ultimately show ?thesis
    by (simp add: start_prepare_def sample_start_document sample_start_saved sample_live_def Let_def)
qed

lemma sample_publish:
  "snd (start_publish sample_strategy_env sample_readings sample_starting
      ((sample_strategy (Suc 0) [sample_run] 2 [])\<lparr>sw_starting := Some sample_starting\<rparr>)) = sample_at (AtLoop ''start'' True)"
  by (simp add: start_publish_def admission_epoch_def sample_strategy_def sample_ticket_def sample_live_def Let_def)

lemma sample_module [simp]: "module_bytes sample_strategy_env (cs_params sample_captured) = Ok wasm_magic"
  by (simp add: module_bytes_def sample_captured_def sample_strategy_env_def wasm_magic_def starts_with_def)

lemma sample_captured_fields [simp]:
  "cs_requested sample_captured = [''account.read'', ''strategy.run'', ''trade.place'']"
  "au_account sample_authority = \<lparr>ac_account_id = ''main'', ac_session_epoch = ''7'', ac_environment = ''testnet''\<rparr>"
  by (simp_all add: sample_captured_def sample_authority_def)

lemma sample_begin:
  "begin_pass sample_strategy_env sample_readings sample_readings sample_host True (\<lambda>_ _. Some 9) ''1'' ''start'' True
      (sample_live (AtLoop ''start'' True)) (sample_at (AtLoop ''start'' True)) = sample_at (Computing sample_decision)"
proof -
  let ?l = "sample_live (AtLoop ''start'' True)"
  have "clock_check sample_readings sample_run ?l = (Ok (), ?l)" by (simp add: clock_check_def sample_live_def)
  moreover have "pass_begin sample_strategy_env sample_readings sample_readings sample_host True (\<lambda>_ _. Some 9) False ''start'' ?l sample_run
      = Ok sample_decision"
    by (simp add: pass_begin_def check_binding_def fresh_def snapshot_locked_def take_section_def admitted_def sample_live_def sample_host_def
        sample_decision_def sample_snapshot_def checked_add_u64_def checked_sub_u64_def Let_def)
  moreover have "find_run ''1'' (sw_document (sample_at (AtLoop ''start'' True))) = Some sample_run" "\<not> sw_busy (sample_at (AtLoop ''start'' True))"
    "set_live ''1'' (\<lambda>_. ?l) (sample_at (AtLoop ''start'' True)) = sample_at (AtLoop ''start'' True)" "admitted ?l"
    by (simp_all add: find_run_def sample_strategy_def set_live_def sample_live_def admitted_def Let_def)
  ultimately show ?thesis
    by (simp add: begin_pass_def Let_def) (simp add: set_phase_def set_live_def sample_strategy_def sample_live_def sample_decision_def Let_def)
qed

lemma sample_guest:
  "guest_done sample_strategy_env (GuestOutput sample_output) ''1'' sample_decision (sample_live (Computing sample_decision))
      (sample_at (Computing sample_decision)) = sample_at (Deciding sample_decision sample_output)"
  by (simp add: guest_done_def strategy_output_validate_def sample_output_def admitted_def sample_live_def set_phase_def set_live_def sample_strategy_def Let_def)
lemma sample_adds [simp]: "se_add sample_strategy_env 0 3 = Some 3" "dec_normalized sample_decimal 3 = ''3''"
  by code_simp+

lemma sample_decided:
  "decide_checks sample_strategy_env sample_readings sample_readings sample_host sample_decision sample_output
      (sample_live (Deciding sample_decision sample_output)) =
    (Ok (so_action sample_output), sample_live (Deciding sample_decision sample_output))"
proof -
  let ?l = "sample_live (Deciding sample_decision sample_output)"
  have "check_binding sample_readings ?l = Ok ()" by (simp add: check_binding_def sample_live_def admitted_def)
  moreover have "check_dispatch sample_readings (de_record sample_decision) (de_observed sample_decision) (de_observed_wall sample_decision) ?l
      = (Ok (), ?l)"
    by (simp add: check_dispatch_def clock_check_def sample_live_def admitted_def sample_decision_def checked_sub_u64_def Let_def)
  moreover have "validate_action sample_strategy_env (so_action sample_output) (de_record sample_decision) (de_snapshot sample_decision)
      = Ok (so_action sample_output)"
    by (simp add: validate_action_def validate_place_action_def validate_place_def charged_total_def exceeds_def sample_output_def
        sample_decision_def Let_def)
  moreover have "\<not> needs_fresh (so_action sample_output)" by (simp add: needs_fresh_def sample_output_def)
  ultimately show ?thesis by (simp add: decide_checks_def)
qed

lemma sample_decide_saved:
  "save sample_strategy_env sample_readings \<lparr>sd_schema_version = Suc 0, sd_revision = ''1'', sd_runs = [sample_intended]\<rparr>
      ((sample_at (Deciding sample_decision sample_output))\<lparr>sw_drawn := 3\<rparr>) =
    (Ok (), (sample_busy (Deciding sample_decision sample_output))\<lparr>sw_busy := False\<rparr>)"
proof -
  have "run_id sample_intended = ''1''" "rr_last_observed_at_ms sample_intended = ''1000''"
    "sample_intended\<lparr>rr_last_observed_at_ms := ''1000''\<rparr> = sample_intended"
    by (simp_all add: sample_intended_def sample_run_def new_run_def)
  note this [simp]
  show ?thesis
    by (simp add: save_def strategy_store_save_def follows_revision_def sample_strategy_def checked_add_u64_def sample_live_def observed_floor_def
        saturating_add_def Let_def)
qed

lemma sample_decide:
  "decide sample_strategy_env sample_readings sample_readings sample_readings sample_host ''1'' sample_decision sample_output
      (sample_live (Deciding sample_decision sample_output)) (sample_at (Deciding sample_decision sample_output)) =
    sample_busy (Prepared sample_decision sample_intent)"
proof -
  let ?ph = "Deciding sample_decision sample_output"
  have w: "set_live ''1'' (\<lambda>_. sample_live ?ph) (sample_at ?ph) = sample_at ?ph" "store_ready (sample_at ?ph) = Ok ()"
    "run_state (sample_at ?ph) ''1'' = Ok sample_run" "sw_drawn (sample_at ?ph) = 2" "admitted (sample_live ?ph)" "lv_epoch (sample_live ?ph) = 3"
    by (simp_all add: sample_strategy_def set_live_def store_ready_def run_state_def find_run_def admitted_def sample_live_def Let_def)
  have i: "intend sample_strategy_env ''2'' (so_action sample_output) (advance sample_readings (de_sequence sample_decision) sample_run)
      = Ok (sample_intended\<lparr>rr_pending := None\<rparr>, Some ''2'')"
    by (simp add: intend_def advance_def charge_def sample_decision_def sample_output_def sample_intended_def sample_run_def new_run_def Let_def)
  have d: "update_run ''1'' (\<lambda>_. sample_intended) (sw_document (sample_at ?ph)) =
      \<lparr>sd_schema_version = Suc 0, sd_revision = ''1'', sd_runs = [sample_intended]\<rparr>"
    by (simp add: update_run_def sample_strategy_def Let_def)
  have a: "so_action sample_output \<noteq> ActNone" "so_action sample_output \<noteq> ActStop" by (simp_all add: sample_output_def)
  have p: "\<lparr>pa_sequence = de_sequence sample_decision, pa_action = so_action sample_output, pa_submission_id = Some ''2'',
      pa_state = so_state sample_output, pa_message = so_message sample_output\<rparr> = sample_intent"
    by (simp add: sample_intent_def sample_decision_def sample_output_def)
  have "sample_intended\<lparr>rr_pending := Some sample_intent\<rparr> = sample_intended" "de_record sample_decision = sample_run"
    by (simp_all add: sample_intended_def sample_decision_def)
  then show ?thesis
    by (simp add: decide_def decide_locked_def sample_decided w i a p d sample_decide_saved Let_def)
      (simp add: set_phase_def set_live_def sample_strategy_def sample_live_def Let_def)
qed

lemma sample_dispatch:
  "check_dispatch sample_readings (de_record sample_decision) (de_observed sample_decision) (de_observed_wall sample_decision) (sample_live ph)
      = (Ok (), sample_live ph)"
  by (simp add: check_dispatch_def clock_check_def sample_live_def admitted_def sample_decision_def checked_sub_u64_def Let_def)

definition sample_mutation :: mutation where
  "sample_mutation = MutPlace \<lparr>sc_submission_id = ''2'', sc_account_id = ''main'', sc_session_epoch = 7\<rparr>
     \<lparr>r_symbol = ''BTC'', r_side = ''Buy'', r_order_type = ''Limit'', r_qty = ''3'', r_position_idx = 1, r_price = Some ''100'',
      r_time_in_force = Some ''GTC'', r_order_link_id = Some ''2'', r_reduce_only = Some False, r_protection = None\<rparr>"

lemma sample_mutates: "bind_result (run_context (sample_live ph)) (\<lambda>ctx. mutation_of ctx sample_decision sample_intent) = Ok sample_mutation"
  by (simp add: run_context_def sample_live_def mutation_of_def sample_intent_def sample_output_def placement_def sample_mutation_def Let_def)

lemma sample_recheck:
  "recheck sample_strategy_env sample_readings ''1'' sample_decision sample_intent (sample_live (Prepared sample_decision sample_intent))
      (sample_busy (Prepared sample_decision sample_intent)) = sample_busy (Admitting sample_decision sample_intent)"
proof -
  have "check_binding sample_readings (sample_live ph) = Ok ()" for ph by (simp add: check_binding_def sample_live_def admitted_def)
  then show ?thesis
    by (simp add: recheck_def sample_dispatch sample_mutates Let_def)
      (simp add: set_phase_def set_live_def sample_strategy_def sample_live_def Let_def)
qed

definition sample_handed :: strategy_world where
  "sample_handed = (sample_busy (InFlight sample_decision sample_intent None))
     \<lparr>sw_trace := [GuestCalled ''1'' ''start'' ''1'', HandedOff ''1'' sample_intent sample_mutation]\<rparr>"

lemma sample_hand_off:
  "hand_off sample_readings ''1'' sample_decision sample_intent (sample_live (Admitting sample_decision sample_intent))
      (sample_busy (Admitting sample_decision sample_intent)) = sample_handed"
  by (simp add: hand_off_def sample_dispatch sample_mutates Let_def)
    (simp add: sample_handed_def set_phase_def set_live_def sample_strategy_def sample_live_def Let_def)

section \<open>The path\<close>

lemma sample_at_live [simp]:
  "map_of (sw_live (sample_strategy k rs n [(''1'', sample_live ph)])) ''1'' = Some (sample_live ph)" "lv_phase (sample_live ph) = ph"
  "(sample_strategy k rs n live)\<lparr>sw_requested := []\<rparr> = sample_strategy k rs n live"
  "sw_starting (sample_strategy k rs n live) = None" "sw_busy (sample_strategy k rs n live) = (1 < k)"
  by (simp_all add: sample_strategy_def sample_live_def Let_def)

lemma reachable_step: "reachable E w \<Longrightarrow> strategy_step E w x u \<Longrightarrow> u = w' \<Longrightarrow> reachable E w'"
  using reachable_path [OF _ path_step [OF path_refl]] by blast

lemma sample_at_loop: "reachable sample_strategy_env (sample_at (AtLoop ''start'' True))"
proof -
  let ?E = sample_strategy_env and ?w = "sample_strategy 0 [] (Suc 0) []"
  have "reachable ?E (sample_strategy 0 [] 0 [])"
    using reachable_first [of ?E "[]"] by (simp add: sample_first)
  then have "reachable ?E (?w\<lparr>sw_tickets := [(''0'', sample_ticket)]\<rparr>)"
    by (rule reachable_step [OF _ authorise sample_authorise]) (simp_all add: unlocked_def)
  then have "reachable ?E (?w\<lparr>sw_requested := [(sample_ticket, sample_start)]\<rparr>)"
    by (rule reachable_step [OF _ take_ticket sample_take]) (simp add: unlocked_def)
  then have "reachable ?E ((sample_strategy (Suc 0) [sample_run] 2 [])\<lparr>sw_starting := Some sample_starting\<rparr>)"
    by (rule reachable_step)
      (rule prepare_start [of _ "[]" sample_ticket sample_start "[]" _ sample_readings], simp_all add: unlocked_def sample_prepare)
  then show ?thesis
    by (rule reachable_step [OF _ publish_start sample_publish]) simp
qed

lemma sample_admitting: "reachable sample_strategy_env (sample_busy (Admitting sample_decision sample_intent))"
proof -
  let ?E = sample_strategy_env
  have "reachable ?E (sample_at (Computing sample_decision))"
    by (rule reachable_step [OF sample_at_loop begin_turn sample_begin]) (simp_all add: unlocked_def)
  then have "reachable ?E (sample_at (Deciding sample_decision sample_output))"
    by (rule reachable_step [OF _ guest_returns sample_guest]) simp
  then have "reachable ?E (sample_busy (Prepared sample_decision sample_intent))"
    by (rule reachable_step [OF _ decide sample_decide]) (simp_all add: unlocked_def)
  then show ?thesis
    by (rule reachable_step [OF _ recheck sample_recheck]) (simp_all add: unlocked_def)
qed

lemma sample_handing:
  "strategy_step sample_strategy_env (sample_busy (Admitting sample_decision sample_intent)) (Dispatch ''1'') sample_handed"
  unfolding sample_hand_off [symmetric] by (rule hand_off) simp

lemma sample_handed_reachable: "reachable sample_strategy_env sample_handed"
  using reachable_step [OF sample_admitting sample_handing] by simp

end
