(* ===== verification/Strategy_Properties.thy ===== *)
theory Strategy_Properties
  imports Strategy_Samples
begin

text \<open>
  The properties of automatic strategies, over every interleaving of workers, callers and
  restarts and every behaviour of the store, the clocks, the guest and the host.
\<close>

section \<open>Limits\<close>

abbreviation action_quantity :: "strategy_env \<Rightarrow> pending_action \<Rightarrow> rat" where
  "action_quantity E p \<equiv>
     (case Option.bind (action_qty (pa_action p)) (quantity_of (se_dec E)) of None \<Rightarrow> 0 | Some q \<Rightarrow> q)"

lemma quantity_nonneg: "0 \<le> action_quantity E p"
  by (auto dest: quantity_of_pos split: option.split bind_splits)

lemma subseq_sum: "subseq ps qs \<Longrightarrow> (\<Sum>p\<leftarrow>ps. action_quantity E p) \<le> (\<Sum>p\<leftarrow>qs. action_quantity E p)"
proof (induction rule: list_emb.induct)
  case (list_emb_Cons xs ys y)
  then show ?case using quantity_nonneg [where p = y and E = E] by (simp add: add_increasing)
next
  case (list_emb_Nil ys)
  have "0 \<le> sum_list (map (action_quantity E) ys)" by (rule sum_list_nonneg) (auto simp: quantity_nonneg)
  then show ?case by simp
qed auto

lemma stored_charges:
  assumes "strategy_env_ok E" "reachable E w" "r \<in> set (sd_runs (sw_stored w))"
  obtains acts where "run_charges E acts r" "subseq (handed (run_id r) (sw_trace w)) acts"
proof -
  have "run_inv E w r"
    using reachable_inv [OF assms(1,2)] assms(3) by (auto simp: supervisor_inv_def runs_inv_def)
  then show thesis using that subseq_prefix by (auto simp: run_inv_def)
qed

text \<open>
  C4: A run never goes beyond what its user allowed, whatever happens: in any reachable state,
  across pauses, resumptions and restarts of the program, the actions of a stored run that were
  handed to the exchange are among its charged actions; those are at most \<^verbatim>\<open>max_actions\<close>, each is
  for the run's symbol, within its capabilities, reduce-only where the policy says so, of an order
  the run owns where it changes one, and within \<^verbatim>\<open>max_order_qty\<close>; and their charged total is within
  \<^verbatim>\<open>max_total_qty\<close>, so where the decimal additions did not round, the quantities handed off are too.
\<close>

theorem strategy_limits_hold:
  assumes "strategy_env_ok E" "reachable E w" "r \<in> set (sd_runs (sw_stored w))"
    "quantity_of (se_dec E) (sp_max_total_qty (rv_policy (rr_view r))) = Some m"
  shows "\<exists>acts t. subseq (handed (run_id r) (sw_trace w)) acts
     \<and> length acts \<le> unat (sp_max_actions (rv_policy (rr_view r)))
     \<and> (\<forall>p\<in>set acts. action_allowed E r (pa_action p))
     \<and> charged E 0 acts = Some t \<and> t \<le> m
     \<and> (t = (\<Sum>p\<leftarrow>acts. action_quantity E p)
        \<longrightarrow> (\<Sum>p\<leftarrow>handed (run_id r) (sw_trace w). action_quantity E p) \<le> m)"
proof -
  obtain acts where c: "run_charges E acts r" and s: "subseq (handed (run_id r) (sw_trace w)) acts"
    using stored_charges [OF assms(1-3)] .
  then obtain t where "charged E 0 acts = Some t" "t \<le> m" using assms(4) by (auto simp: run_charges_def)
  moreover have "length acts \<le> unat (sp_max_actions (rv_policy (rr_view r)))"
    using c by (simp add: run_charges_def word_le_nat_alt)
  moreover have "\<forall>p\<in>set acts. action_allowed E r (pa_action p)" using c by (simp add: run_charges_def)
  ultimately show ?thesis using s subseq_sum [OF s, of E] by fastforce
qed

theorem strategy_limits_hold_witness:
  "\<exists>acts t. subseq [sample_intent] acts \<and> length acts \<le> 2
     \<and> (\<forall>p\<in>set acts. action_allowed sample_strategy_env sample_intended (pa_action p))
     \<and> charged sample_strategy_env 0 acts = Some t \<and> t \<le> 8"
proof -
  have "handed ''1'' (sw_trace sample_handed) = [sample_intent]" by (simp add: sample_handed_def handed_def)
  moreover have "sample_intended \<in> set (sd_runs (sw_stored sample_handed))" "run_id sample_intended = ''1''"
    "rv_policy (rr_view sample_intended) = sample_policy"
    by (simp_all add: sample_handed_def sample_strategy_def sample_intended_def Let_def)
  moreover have "quantity_of (se_dec sample_strategy_env) (sp_max_total_qty sample_policy) = Some 8" by (simp add: quantity_of_def)
  ultimately show ?thesis
    using strategy_limits_hold [OF sample_strategy_env_ok sample_handed_reachable, of sample_intended 8] by fastforce
qed

section \<open>Intents are durable\<close>

text \<open>
  C5: An order leaves the program only after its intent is on disk: a step that hands an action
  to the exchange is the dispatch of a worker whose run is not revoked; the stored document holds
  that very action as the run's unresolved intent, and no other stored run of the same account
  and environment has one, so that after a crash the outcome of at most one action per account
  is unknown.
\<close>

theorem handed_off_after_store:
  assumes "strategy_env_ok E" "reachable E w" "strategy_step E w x w'"
    "sw_trace w' = sw_trace w @ [HandedOff i p m]"
  shows "x = Dispatch i \<and> (\<exists>l. map_of (sw_live w) i = Some l \<and> admitted l)
     \<and> (\<exists>r\<in>set (sd_runs (sw_stored w)). run_id r = i \<and> rr_pending r = Some p
          \<and> (\<forall>r'\<in>set (sd_runs (sw_stored w)). run_id r' \<noteq> i \<longrightarrow> account_id r' = account_id r
               \<longrightarrow> environment r' = environment r \<longrightarrow> rr_pending r' = None))"
proof -
  have inv: "supervisor_inv E w" using reachable_inv assms by blast
  have more: "handed i (sw_trace w') \<noteq> handed i (sw_trace w)" using assms(4) by simp
  from assms(3) obtain l de where x: "x = Dispatch i" and at: "worker_at w i l (Admitting de p)" and l: "admitted l"
  proof (cases rule: step_cases)
    case (handed_off j l de q n rd)
    then have "j = i" "q = p" using assms(4) by auto
    then show thesis using that handed_off by blast
  qed (use more in \<open>auto simp: access_admissions supervisor_new_def Let_def\<close>)
  have av: "\<not> sw_unavailable w"
    using inv map_of_SomeD [of "sw_live w" i l] at l by (auto simp: supervisor_inv_def withdrawn_def admitted_def)
  have ess: "ess (sw_document w) = ess (sw_stored w)" using inv av by (simp add: supervisor_inv_def)
  have ex: "exclusive (sd_runs (sw_stored w)) w"
    using inv exclusive_ess [OF ess] by (simp add: supervisor_inv_def memory_inv_def)
  have "live_inv (sd_runs (sw_stored w)) w"
    using inv live_inv_ess [OF ess] by (simp add: supervisor_inv_def memory_inv_def)
  moreover have ph: "map_of (phases w) i = Some (Admitting de p)" using at by (simp add: map_of_phases)
  ultimately have "phase_inv (Admitting de p) (find_id i (sd_runs (sw_stored w)))" unfolding live_inv_def by blast
  then obtain r where f: "find_id i (sd_runs (sw_stored w)) = Some r" and p: "rr_pending r = Some p"
    by (auto simp: phase_inv_def)
  have r: "r \<in> set (sd_runs (sw_stored w))" "run_id r = i" using find_id_Some [OF f] by auto
  have "active w (run_id r)" using ph r by (simp add: active_def)
  then have "\<forall>r'\<in>set (sd_runs (sw_stored w)). run_id r' \<noteq> i \<longrightarrow> account_id r' = account_id r
               \<longrightarrow> environment r' = environment r \<longrightarrow> rr_pending r' = None"
    using ex r unfolding exclusive_def by blast
  then show ?thesis using x at l r p by blast
qed

theorem handed_off_after_store_witness:
  "Dispatch ''1'' = Dispatch ''1'' \<and> (\<exists>r\<in>set (sd_runs (sw_stored (sample_busy (Admitting sample_decision sample_intent)))).
     run_id r = ''1'' \<and> rr_pending r = Some sample_intent)"
  using handed_off_after_store [OF sample_strategy_env_ok sample_admitting sample_handing, of "''1''" sample_intent sample_mutation]
  by (simp add: sample_handed_def sample_strategy_def Let_def)

section \<open>Submissions\<close>

text \<open>
  C15: No placement is handed to the exchange twice: over the whole history of the program, with
  any number of runs and restarts, the submission identifiers of the actions handed off are all
  different, also from those that workers are about to hand off.
\<close>

theorem submissions_once:
  assumes "strategy_env_ok E" "reachable E w"
  shows "distinct (sub_ids (handed_all (sw_trace w) @ flights (phases w)))"
  using reachable_inv [OF assms] by (simp add: supervisor_inv_def ids_inv_def)

theorem submissions_once_witness:
  "sub_ids (handed_all (sw_trace sample_handed)) = [''2''] \<and>
     distinct (sub_ids (handed_all (sw_trace sample_handed) @ flights (phases sample_handed)))"
  using submissions_once [OF sample_strategy_env_ok sample_handed_reachable]
  by (simp add: sample_handed_def handed_all_def sub_ids_def map_filter_def sample_intent_def)

section \<open>Stopping\<close>

text \<open>
  C6: A pause or a stop is obeyed at once: from the moment it is accepted, without waiting for the
  run's worker, no action of the run is handed to the exchange any more, in any continuation,
  unless the user authorises a new start; stopping all runs silences every run the same way.
\<close>

theorem control_is_final:
  assumes "reachable E w" "strategy_path E w' ls w''" "Authorise \<notin> set ls"
  shows "(control_accept E request w = (Ok (), w')
        \<longrightarrow> handed (cq_run_id request) (sw_trace w'') = handed (cq_run_id request) (sw_trace w))
     \<and> (stop_all_accept w = (Ok (), w') \<longrightarrow> (\<forall>i. handed i (sw_trace w'') = handed i (sw_trace w)))"
proof (intro conjI impI allI)
  have t: "ticketed w" using reachable_ticketed assms(1) .
  have silent: "handed i (sw_trace w'') = handed i (sw_trace w)"
    if "revoke_intent stop k w = (Ok (), u)" "w' = u\<lparr>sw_controls := cs\<rparr>" "k = None \<or> k = Some i" for stop k u cs i
  proof -
    have "silenced {j. k = None \<or> k = Some j} w'"
      using revoke_silences [OF t that(1)] that(2) by (simp add: silenced_def admissions_def)
    from path_silent [OF assms(2,3) this] have "handed i (sw_trace w'') = handed i (sw_trace w')" using that(3) by simp
    moreover have "evolves w u" using evolves_revoke_intent [OF evolves_refl, of w stop k] that(1) by simp
    ultimately show ?thesis using that(2) by (simp add: evolves_def)
  qed
  { assume "control_accept E request w = (Ok (), w')"
    then show "handed (cq_run_id request) (sw_trace w'') = handed (cq_run_id request) (sw_trace w)"
      by (auto simp: control_accept_def split: if_splits prod.splits result.splits intro!: silent) }
  { fix i assume "stop_all_accept w = (Ok (), w')"
    then show "handed i (sw_trace w'') = handed i (sw_trace w)"
      by (auto simp: stop_all_accept_def split: prod.splits result.splits intro!: silent) }
qed

theorem control_is_final_witness:
  "handed ''1'' (sw_trace (snd (control_accept sample_strategy_env \<lparr>cq_run_id = ''1'', cq_action = ControlStop\<rparr> sample_handed)))
     = [sample_intent]"
proof -
  let ?q = "\<lparr>cq_run_id = ''1'', cq_action = ControlStop\<rparr>"
  obtain u where u: "control_accept sample_strategy_env ?q sample_handed = (Ok (), u)"
    by (simp add: control_accept_def revoke_intent_def sample_handed_def sample_strategy_def checked_add_u64_def Let_def)
  then show ?thesis
    using control_is_final [OF sample_handed_reachable path_refl, where request = ?q]
    by (simp add: sample_handed_def handed_def)
qed

end
