(* ===== verification/Workflow_Runtime.thy ===== *)
theory Workflow_Runtime
  imports Strategy_Execution
begin

text \<open>
  \<^verbatim>\<open>plugin/runtime/workflow.rs\<close>: plugins that propose one trade, which the user confirms.  The user
  grants capabilities to a plugin for one account session; a run shows its output with a
  confirmation token; confirming the token sends the trade.

  As for strategies, every function is the part of a method between two points where another
  task can matter.  A confirmation holds the operation gate from its start to its answer
  (\<open>ww_confirm\<close>); accepting a change of grants only takes the lock of the state, and a run gives
  the gate back while its guest computes.
\<close>

section \<open>State\<close>

record captured_workflow =
  cw_params :: plugin_params
  cw_identity :: plugin_identity
  cw_requested :: "string list"

record workflow_binding =
  wb_identity :: plugin_identity
  wb_epoch :: u64
  wb_authority :: account_authority

record workflow_grant =
  wg_binding :: workflow_binding
  wg_revision :: u64
  wg_intent :: u64
  wg_capabilities :: "string list"

record prepared_trade =
  pt_request :: authority_request
  pt_binding :: workflow_binding
  pt_revision :: u64
  pt_intent :: u64
  pt_deadline :: nat
  pt_output :: workflow_output
  pt_target :: "order option"
  pt_submission_id :: "string option"

record workflow_state =
  wf_serial :: u64
  wf_grants :: "(string \<times> workflow_grant) list"
  wf_pending :: "(string \<times> prepared_trade) list"

record grant_request =
  gq_authority :: authority_request
  gq_expected_account_id :: string
  gq_expected_session_epoch :: string
  gq_expected_grant_revision :: string
  gq_capabilities :: "string list"

record run_request =
  rq_authority :: authority_request
  rq_request_id :: string
  rq_expected_account_id :: string
  rq_expected_session_epoch :: string
  rq_expected_grant_revision :: string
  rq_symbol :: string
  rq_input_json :: string

record workflow_access =
  wa_request :: authority_request
  wa_account :: plugin_account
  wa_requested_capabilities :: "string list"
  wa_granted_capabilities :: "string list"
  wa_grant_revision :: string

record workflow_confirmation =
  wc_token :: string
  wc_expires_at_ms :: string
  wc_submission_id :: "string option"

record workflow_result =
  ws_request_id :: string
  ws_request :: authority_request
  ws_account :: plugin_account
  ws_grant_revision :: string
  ws_snapshot :: snapshot
  ws_output :: workflow_output
  ws_confirmation :: "workflow_confirmation option"

datatype trade_status = TradeAccepted | TradeRejected | TradeUnknown

record trade_receipt =
  tr_token :: string
  tr_account :: plugin_account
  tr_action :: string
  tr_status :: trade_status
  tr_submission_id :: "string option"
  tr_order :: "order option"
  tr_error_code :: "string option"

text \<open>A run while its guest computes.\<close>

record workflow_job =
  wj_request :: run_request
  wj_binding :: workflow_binding
  wj_grant :: workflow_grant
  wj_snapshot :: snapshot

text \<open>A confirmation: its token was taken, it passed the checks, its trade was handed to the host.\<close>

datatype confirm_phase = Taken | Checked mutation | Sent mutation

datatype workflow_event =
    WfShown string prepared_trade
  | WfConfirmed string
  | WfTraded string prepared_trade mutation

record workflow_world =
  ww_state :: workflow_state
  ww_accepted :: "(grant_request \<times> u64) list"
  ww_running :: "workflow_job list"
  ww_confirm :: "(string \<times> prepared_trade \<times> confirm_phase) option"
  ww_drawn :: nat
  ww_trace :: "workflow_event list"

text \<open>
  What a step reads of the clocks, the plugin registry and the host; \<open>wr_epoch_again\<close> is the second
  reading of the epoch, \<open>wr_gate_free\<close> whether no other method holds the operation gate.
\<close>

record workflow_readings =
  wr_wall :: u64
  wr_instant :: nat
  wr_compute_epoch :: u64
  wr_discovered :: bool
  wr_epoch_again :: "(u64, app_error) result"
  wr_gate_free :: bool
  wr_capture :: "authority_request \<Rightarrow> (captured_workflow, app_error) result"
  wr_authority :: "(account_authority, app_error) result"

abbreviation wf_stale :: app_error where
  "wf_stale \<equiv> workflow_error ''plugin_workflow_stale''"

abbreviation wf_plugin :: "prepared_trade \<Rightarrow> string" where
  "wf_plugin p \<equiv> ar_plugin_id (pt_request p)"

section \<open>Grants\<close>

definition workflow_next :: "workflow_state \<Rightarrow> (u64, app_error) result \<times> workflow_state" where
  "workflow_next st =
     (case checked_add_u64 (wf_serial st) 1 of
        None \<Rightarrow> (Err (workflow_error ''plugin_workflow_unavailable''), st)
      | Some n \<Rightarrow> (Ok n, st\<lparr>wf_serial := n\<rparr>))"

definition drop_foreign :: "nat \<Rightarrow> workflow_binding \<Rightarrow> workflow_state \<Rightarrow> workflow_state" where
  "drop_foreign now b st =
     st\<lparr>wf_pending := filter (\<lambda>(_, p). now < pt_deadline p \<and> wb_epoch (pt_binding p) = wb_epoch b) (wf_pending st),
        wf_grants := filter (\<lambda>(_, g). wb_epoch (wg_binding g) = wb_epoch b
                       \<and> wb_authority (wg_binding g) = wb_authority b) (wf_grants st)\<rparr>"

definition drop_pending :: "string \<Rightarrow> workflow_state \<Rightarrow> workflow_state" where
  "drop_pending i st = st\<lparr>wf_pending := filter (\<lambda>(_, p). wf_plugin p \<noteq> i) (wf_pending st)\<rparr>"

definition find_grant ::
  "nat \<Rightarrow> string \<Rightarrow> workflow_binding \<Rightarrow> workflow_state \<Rightarrow> (workflow_grant, app_error) result \<times> workflow_state" where
  "find_grant now i b st =
     (let st = drop_foreign now b st in
      case (case map_of (wf_grants st) i of
              Some g \<Rightarrow> if wg_binding g = b then Some g else None
            | None \<Rightarrow> None) of
        Some g \<Rightarrow> (Ok g, st)
      | None \<Rightarrow>
          (let st = drop_pending i st in
           if 256 \<le> length (wf_grants st) then (Err (workflow_error ''plugin_workflow_capacity''), st)
           else case workflow_next st of
             (Ok n, st) \<Rightarrow> (let g = \<lparr>wg_binding = b, wg_revision = n, wg_intent = n, wg_capabilities = []\<rparr> in
                (Ok g, st\<lparr>wf_grants := btree_insert i g (wf_grants st)\<rparr>))
           | (Err e, st) \<Rightarrow> (Err e, st)
           | (Panic, st) \<Rightarrow> (Panic, st)))"

definition workflow_epoch :: "workflow_readings \<Rightarrow> (u64, app_error) result" where
  "workflow_epoch rd =
     (if wr_compute_epoch rd = - 1 \<or> \<not> wr_discovered rd
      then Err (workflow_error ''plugin_workflow_unavailable'') else Ok (wr_compute_epoch rd))"

definition binding_locked ::
  "workflow_readings \<Rightarrow> authority_request \<Rightarrow> (captured_workflow \<times> workflow_binding, app_error) result" where
  "binding_locked rd request =
     bind_result (wr_capture rd request) (\<lambda>captured.
     bind_result (workflow_epoch rd) (\<lambda>epoch.
     bind_result (err_as (workflow_error ''plugin_workflow_account_unavailable'') (wr_authority rd)) (\<lambda>authority.
     bind_result (counter (ac_session_epoch (au_account authority))) (\<lambda>_.
       if \<not> bounded_id (ac_account_id (au_account authority)) \<or> au_private_session authority = []
          \<or> ac_environment (au_account authority) = [] \<or> 256 < length (ac_environment (au_account authority))
       then Err (workflow_error ''plugin_workflow_account_unavailable'')
       else Ok (captured, \<lparr>wb_identity = cw_identity captured, wb_epoch = epoch, wb_authority = authority\<rparr>)))))"

definition check_expected :: "workflow_grant \<Rightarrow> string \<Rightarrow> string \<Rightarrow> string \<Rightarrow> (unit, app_error) result" where
  "check_expected g account epoch revision =
     bind_result (counter epoch) (\<lambda>_.
     bind_result (counter revision) (\<lambda>_.
       let a = au_account (wb_authority (wg_binding g)) in
       if ac_account_id a \<noteq> account \<or> ac_session_epoch a \<noteq> epoch \<or> u64_to_string (wg_revision g) \<noteq> revision
       then Err wf_stale else Ok ()))"

definition access_view :: "authority_request \<Rightarrow> captured_workflow \<Rightarrow> workflow_grant \<Rightarrow> workflow_access" where
  "access_view request captured g =
     \<lparr>wa_request = request, wa_account = au_account (wb_authority (wg_binding g)),
      wa_requested_capabilities = cw_requested captured, wa_granted_capabilities = wg_capabilities g,
      wa_grant_revision = u64_to_string (wg_revision g)\<rparr>"

section \<open>The operations\<close>

text \<open>A fallible operation on the state of the world.\<close>

definition on_state ::
  "(workflow_state \<Rightarrow> ('a, app_error) result \<times> workflow_state) \<Rightarrow> workflow_world
     \<Rightarrow> ('a, app_error) result \<times> workflow_world" where
  "on_state f w = (let (r, st) = f (ww_state w) in (r, w\<lparr>ww_state := st\<rparr>))"

definition bind_world ::
  "('a, app_error) result \<times> workflow_world \<Rightarrow> ('a \<Rightarrow> workflow_world \<Rightarrow> ('b, app_error) result \<times> workflow_world)
     \<Rightarrow> ('b, app_error) result \<times> workflow_world" where
  "bind_world x k = (case x of (Ok a, w) \<Rightarrow> k a w | (Err e, w) \<Rightarrow> (Err e, w) | (Panic, w) \<Rightarrow> (Panic, w))"

definition get_workflow_access ::
  "workflow_readings \<Rightarrow> authority_request \<Rightarrow> workflow_world \<Rightarrow> (workflow_access, app_error) result \<times> workflow_world" where
  "get_workflow_access rd request w =
     bind_world (bind_result (authority_request_validate request) (\<lambda>_. binding_locked rd request), w) (\<lambda>(captured, b) w.
     bind_world (on_state (find_grant (wr_instant rd) (ar_plugin_id request) b) w) (\<lambda>g w.
       (Ok (access_view request captured g), w)))"

text \<open>\<^verbatim>\<open>set_workflow_grants\<close> up to the operation gate: the change invalidates what was prepared before it.\<close>

definition grant_accept ::
  "grant_request \<Rightarrow> workflow_world \<Rightarrow> (unit, app_error) result \<times> workflow_world" where
  "grant_accept request w =
     bind_world
       (bind_result (authority_request_validate (gq_authority request)) (\<lambda>_.
        bind_result (err_as (workflow_error ''plugin_workflow_invalid_request'')
          (workflow_validate_capabilities (gq_capabilities request))) (\<lambda>_.
        bind_result (counter (gq_expected_session_epoch request)) (\<lambda>_.
          counter (gq_expected_grant_revision request)))), w) (\<lambda>_ w.
     bind_world (on_state workflow_next w) (\<lambda>n w.
       let i = ar_plugin_id (gq_authority request); st = ww_state w in
       (Ok (), w\<lparr>ww_state := drop_pending i (st\<lparr>wf_grants := btree_modify i (\<lambda>g. g\<lparr>wg_intent := n\<rparr>) (wf_grants st)\<rparr>),
                  ww_accepted := (request, n) # ww_accepted w\<rparr>)))"

definition grant_apply ::
  "workflow_readings \<Rightarrow> grant_request \<Rightarrow> u64 \<Rightarrow> workflow_world \<Rightarrow> (workflow_access, app_error) result \<times> workflow_world" where
  "grant_apply rd request intent w =
     (let i = ar_plugin_id (gq_authority request) in
      bind_world (binding_locked rd (gq_authority request), w) (\<lambda>(captured, b) w.
      bind_world (on_state (find_grant (wr_instant rd) i b) w) (\<lambda>g w.
      bind_world (check_expected g (gq_expected_account_id request) (gq_expected_session_epoch request)
        (gq_expected_grant_revision request), w) (\<lambda>_ w.
        if \<not> set (gq_capabilities request) \<subseteq> set (cw_requested captured)
        then (Err (workflow_error ''plugin_workflow_denied''), w)
        else if wg_intent g \<noteq> intent then (Err wf_stale, w)
        else bind_world (on_state workflow_next w) (\<lambda>n w.
          let g = g\<lparr>wg_revision := n, wg_capabilities := gq_capabilities request\<rparr>; st = ww_state w in
          (Ok (access_view (gq_authority request) captured g),
           w\<lparr>ww_state := st\<lparr>wf_grants := btree_insert i g (wf_grants st)\<rparr>\<rparr>))))))"

text \<open>\<^verbatim>\<open>validate_request_id\<close> of \<^verbatim>\<open>plugin/compute.rs\<close>.\<close>

definition validate_request_id :: "string \<Rightarrow> bool" where
  "validate_request_id i \<longleftrightarrow> 1 \<le> length i \<and> length i \<le> 64 \<and> list_all (\<lambda>b. is_ascii_alphanumeric b \<or> b = CHR ''-'') i"

text \<open>
  \<^verbatim>\<open>run_workflow\<close> up to the guest: \<open>lease\<close> is whether the compute slot was free, \<open>context_len\<close> the
  size of the serialised snapshot.
\<close>

definition run_begin ::
  "strategy_env \<Rightarrow> workflow_readings \<Rightarrow> host_data \<Rightarrow> bool \<Rightarrow> (snapshot \<Rightarrow> nat option) \<Rightarrow> run_request
     \<Rightarrow> workflow_world \<Rightarrow> (unit, app_error) result \<times> workflow_world" where
  "run_begin E rd h lease context_len request w =
     (let invalid = workflow_error ''plugin_workflow_invalid_request'' in
      bind_world
        (bind_result (authority_request_validate (rq_authority request)) (\<lambda>_.
         bind_result (if validate_request_id (rq_request_id request) then Ok () else Err invalid) (\<lambda>_.
         bind_result (err_as invalid (validate_input E (rq_input_json request))) (\<lambda>_.
         bind_result (workflow_symbol (rq_symbol request)) (\<lambda>_.
           if ww_confirm w \<noteq> None \<or> \<not> wr_gate_free rd
           then Err (workflow_error ''plugin_workflow_unavailable'')
           else binding_locked rd (rq_authority request))))), w) (\<lambda>(captured, b) w.
      bind_world (on_state (find_grant (wr_instant rd) (ar_plugin_id (rq_authority request)) b) w) (\<lambda>g w.
      bind_world
        (bind_result (check_expected g (rq_expected_account_id request) (rq_expected_session_epoch request)
           (rq_expected_grant_revision request)) (\<lambda>_.
         if ''account.read'' \<notin> set (wg_capabilities g) then Err (workflow_error ''plugin_workflow_denied'')
         else if \<not> lease then Err (workflow_error ''plugin_workflow_busy'')
         else bind_result (snapshot_locked (se_dec E) h (au_account (wb_authority b)) (rq_symbol request) (wg_capabilities g)) (\<lambda>sn.
           bind_result (ok_or (context_len sn) (workflow_error ''plugin_workflow_invalid_output'')) (\<lambda>size.
             if 65536 < size then Err workflow_unavailable
             else bind_result (err_as (workflow_error ''plugin_workflow_invalid_module'') (module_bytes E (cw_params captured))) (\<lambda>_.
               Ok sn)))), w) (\<lambda>sn w.
        (Ok (), w\<lparr>ww_running := \<lparr>wj_request = request, wj_binding = b, wj_grant = g, wj_snapshot = sn\<rparr> # ww_running w\<rparr>)))))"

datatype workflow_guest = WfGuestFailed | WfGuestGarbled | WfGuestOutput workflow_output

definition guest_output :: "workflow_guest \<Rightarrow> (workflow_output, app_error) result" where
  "guest_output g =
     (case g of WfGuestFailed \<Rightarrow> Err (workflow_error ''plugin_workflow_compute_failed'')
      | WfGuestGarbled \<Rightarrow> Err (workflow_error ''plugin_workflow_invalid_output'')
      | WfGuestOutput out \<Rightarrow> Ok out)"

definition prepare_trade ::
  "workflow_readings \<Rightarrow> workflow_job \<Rightarrow> workflow_output \<Rightarrow> string option \<Rightarrow> prepared_trade" where
  "prepare_trade rd j out submission =
     \<lparr>pt_request = rq_authority (wj_request j), pt_binding = wj_binding j, pt_revision = wg_revision (wj_grant j),
      pt_intent = wg_intent (wj_grant j), pt_deadline = wr_instant rd + 60000000000, pt_output = out,
      pt_target = (case out of
         WCancelOrder ord \<Rightarrow> Option.bind (sn_orders (wj_snapshot j)) (\<lambda>s.
           find (\<lambda>v. o_order_id v = cn_order_id ord) (sec_items s))
       | _ \<Rightarrow> None),
      pt_submission_id = submission\<rparr>"

definition workflow_answer :: "workflow_job \<Rightarrow> workflow_output \<Rightarrow> workflow_confirmation option \<Rightarrow> workflow_result" where
  "workflow_answer j out confirmation =
     \<lparr>ws_request_id = rq_request_id (wj_request j), ws_request = rq_authority (wj_request j),
      ws_account = au_account (wb_authority (wj_binding j)), ws_grant_revision = u64_to_string (wg_revision (wj_grant j)),
      ws_snapshot = wj_snapshot j, ws_output = out, ws_confirmation = confirmation\<rparr>"

text \<open>The check that the catalogue was not published anew meanwhile.\<close>

definition epoch_unchanged :: "workflow_readings \<Rightarrow> workflow_binding \<Rightarrow> (unit, app_error) result" where
  "epoch_unchanged rd b =
     bind_result (wr_epoch_again rd) (\<lambda>epoch. if epoch \<noteq> wb_epoch b then Err wf_stale else Ok ())"

text \<open>The rest of \<^verbatim>\<open>run_workflow\<close>: \<open>cancelled\<close> is whether the run was cancelled meanwhile.\<close>

definition run_finish ::
  "strategy_env \<Rightarrow> workflow_readings \<Rightarrow> bool \<Rightarrow> workflow_guest \<Rightarrow> workflow_job \<Rightarrow> workflow_world
     \<Rightarrow> (workflow_result, app_error) result \<times> workflow_world" where
  "run_finish E rd cancelled guest j w =
     (let i = ar_plugin_id (rq_authority (wj_request j)) in
      bind_world
        (bind_result (guest_output guest) (\<lambda>out.
         bind_result (workflow_output_validate (se_dec E) out (rq_symbol (wj_request j)) (wg_capabilities (wj_grant j))
           (sn_orders (wj_snapshot j))) (\<lambda>out.
         if ww_confirm w \<noteq> None \<or> \<not> wr_gate_free rd then Err wf_stale
         else bind_result (binding_locked rd (rq_authority (wj_request j))) (\<lambda>(_, b). Ok (out, b)))), w) (\<lambda>(out, b) w.
      bind_world (on_state (find_grant (wr_instant rd) i b) w) (\<lambda>g w.
        if cancelled \<or> wj_binding j \<noteq> b \<or> wg_revision (wj_grant j) \<noteq> wg_revision g
           \<or> wg_intent (wj_grant j) \<noteq> wg_intent g
        then (Err wf_stale, w)
        else bind_world (epoch_unchanged rd (wj_binding j), w) (\<lambda>_ w.
        case out of
          WDisplay _ \<Rightarrow> (Ok (workflow_answer j out None), w)
        | _ \<Rightarrow>
            if 32 \<le> length (wf_pending (ww_state w)) then (Err (workflow_error ''plugin_workflow_capacity''), w)
            else let token = se_uuid E (ww_drawn w);
                     submission = (case out of WPlaceOrder _ \<Rightarrow> Some (se_uuid E (Suc (ww_drawn w))) | _ \<Rightarrow> None);
                     p = prepare_trade rd j out submission; st = ww_state w in
              (Ok (workflow_answer j out (Some \<lparr>wc_token = token,
                     wc_expires_at_ms = u64_to_string (saturating_add (wr_wall rd) 60000), wc_submission_id = submission\<rparr>)),
               w\<lparr>ww_state := st\<lparr>wf_pending := btree_insert token p (wf_pending st)\<rparr>,
                 ww_drawn := ww_drawn w + 2, ww_trace := ww_trace w @ [WfShown token p]\<rparr>)))))"

text \<open>\<^verbatim>\<open>confirm_owned\<close>: the token is used up first.\<close>

definition confirm_take ::
  "strategy_env \<Rightarrow> string \<Rightarrow> workflow_world \<Rightarrow> (unit, app_error) result \<times> workflow_world" where
  "confirm_take E token w =
     (if \<not> se_uuid_ok E token then (Err (workflow_error ''plugin_workflow_invalid_request''), w)
      else case map_of (wf_pending (ww_state w)) token of
        None \<Rightarrow> (Err (workflow_error ''plugin_workflow_token_invalid''), w)
      | Some p \<Rightarrow> (Ok (), w\<lparr>ww_state := (ww_state w)\<lparr>wf_pending := btree_remove token (wf_pending (ww_state w))\<rparr>,
            ww_confirm := Some (token, p, Taken), ww_trace := ww_trace w @ [WfConfirmed token]\<rparr>))"

definition trade_of ::
  "strategy_env \<Rightarrow> plugin_account \<Rightarrow> string list \<Rightarrow> prepared_trade \<Rightarrow> (mutation, app_error) result" where
  "trade_of E account caps p =
     bind_result (counter (ac_session_epoch account)) (\<lambda>epoch.
     case pt_output p of
       WPlaceOrder ord \<Rightarrow>
         bind_result (workflow_output_validate (se_dec E) (pt_output p) (pl_symbol ord) caps None) (\<lambda>_.
         bind_result (ok_or (pt_submission_id p) wf_stale) (\<lambda>i.
           Ok (MutPlace \<lparr>sc_submission_id = i, sc_account_id = ac_account_id account, sc_session_epoch = epoch\<rparr>
                 (placement ord i))))
     | WCancelOrder ord \<Rightarrow>
         bind_result (ok_or (pt_target p) wf_stale) (\<lambda>target.
         bind_result (workflow_output_validate (se_dec E) (pt_output p) (cn_symbol ord) caps
           (Some \<lparr>sec_items = [target], sec_fetched_at_ms = ''0'', sec_partial = True\<rparr>)) (\<lambda>_.
           Ok (MutCancel \<lparr>ses_account_id = ac_account_id account, ses_session_epoch = epoch\<rparr> (cn_symbol ord) (cn_order_id ord))))
     | WDisplay _ \<Rightarrow> Err (workflow_error ''plugin_workflow_token_invalid''))"

definition confirm_check ::
  "strategy_env \<Rightarrow> workflow_readings \<Rightarrow> string \<Rightarrow> prepared_trade \<Rightarrow> workflow_world \<Rightarrow> (unit, app_error) result \<times> workflow_world" where
  "confirm_check E rd token p w =
     (case bind_world (binding_locked rd (pt_request p), w) (\<lambda>(_, b) w.
           bind_world (on_state (find_grant (wr_instant rd) (wf_plugin p) b) w) (\<lambda>g w.
             if pt_deadline p \<le> wr_instant rd \<or> b \<noteq> pt_binding p \<or> wg_revision g \<noteq> pt_revision p
                \<or> wg_intent g \<noteq> pt_intent p
             then (Err wf_stale, w)
             else (bind_result (epoch_unchanged rd (pt_binding p)) (\<lambda>_.
               trade_of E (au_account (wb_authority b)) (wg_capabilities g) p), w))) of
        (Ok m, w) \<Rightarrow> (Ok (), w\<lparr>ww_confirm := Some (token, p, Checked m)\<rparr>)
      | (Err e, w) \<Rightarrow> (Err e, w\<lparr>ww_confirm := None\<rparr>)
      | (Panic, w) \<Rightarrow> (Panic, w\<lparr>ww_confirm := None\<rparr>))"

definition confirm_send :: "string \<Rightarrow> prepared_trade \<Rightarrow> mutation \<Rightarrow> workflow_world \<Rightarrow> workflow_world" where
  "confirm_send token p m w =
     w\<lparr>ww_confirm := Some (token, p, Sent m), ww_trace := ww_trace w @ [WfTraded token p m]\<rparr>"

text \<open>The receipt for the host's answer.\<close>

definition trade_action :: "workflow_output \<Rightarrow> string" where
  "trade_action out = (case out of WPlaceOrder _ \<Rightarrow> ''placeOrder'' | _ \<Rightarrow> ''cancelOrder'')"

definition trade_symbol :: "workflow_output \<Rightarrow> string" where
  "trade_symbol out = (case out of WPlaceOrder ord \<Rightarrow> pl_symbol ord | WCancelOrder ord \<Rightarrow> cn_symbol ord | WDisplay _ \<Rightarrow> [])"

definition trade_verdict ::
  "decimal_api \<Rightarrow> prepared_trade \<Rightarrow> (order, app_error) result \<Rightarrow> trade_status \<times> order option \<times> string option" where
  "trade_verdict D p response =
     (let unknown = (TradeUnknown, None, Some ''plugin_workflow_unknown'') in
      case response of
        Ok ord \<Rightarrow>
          if \<not> bounded_id (o_order_id ord) then unknown
          else (case pt_target p of
             Some target \<Rightarrow>
               if o_order_id ord \<noteq> o_order_id target then unknown
               else (let ord = target\<lparr>o_status := OrderUnknown\<rparr> in
                 if is_ok (host_validate_order D ord (trade_symbol (pt_output p))) then (TradeAccepted, Some ord, None) else unknown)
           | None \<Rightarrow>
               if is_ok (host_validate_order D ord (trade_symbol (pt_output p))) then (TradeAccepted, Some ord, None) else unknown)
      | Err f \<Rightarrow> if known_rejection f then (TradeRejected, None, Some ''plugin_workflow_rejected'') else unknown
      | Panic \<Rightarrow> unknown)"

definition confirm_answer ::
  "strategy_env \<Rightarrow> string \<Rightarrow> prepared_trade \<Rightarrow> (order, app_error) result \<Rightarrow> workflow_world
     \<Rightarrow> (trade_receipt, app_error) result \<times> workflow_world" where
  "confirm_answer E token p response w =
     (if response = Panic then Err (workflow_error ''plugin_workflow_unknown'')
      else let (status, ord, code) = trade_verdict (se_dec E) p response in
        Ok \<lparr>tr_token = token, tr_account = au_account (wb_authority (pt_binding p)), tr_action = trade_action (pt_output p),
            tr_status = status, tr_submission_id = pt_submission_id p, tr_order = ord, tr_error_code = code\<rparr>,
      w\<lparr>ww_confirm := None\<rparr>)"

section \<open>Steps\<close>

datatype workflow_label = WfAccess | WfAccept string | WfApply | WfBegin string | WfFinish | WfTake | WfCheck | WfSend | WfAnswer

inductive workflow_step :: "strategy_env \<Rightarrow> workflow_world \<Rightarrow> workflow_label \<Rightarrow> workflow_world \<Rightarrow> bool"
  for E :: strategy_env
where
  wf_access: "ww_confirm w = None \<Longrightarrow> workflow_step E w WfAccess (snd (get_workflow_access rd request w))"
| wf_accept: "workflow_step E w (WfAccept (ar_plugin_id (gq_authority request))) (snd (grant_accept request w))"
| wf_apply: "ww_confirm w = None \<Longrightarrow> ww_accepted w = before @ (request, intent) # after \<Longrightarrow>
    workflow_step E w WfApply (snd (grant_apply rd request intent (w\<lparr>ww_accepted := before @ after\<rparr>)))"
| wf_begin: "workflow_step E w (WfBegin (ar_plugin_id (rq_authority request))) (snd (run_begin E rd h lease context_len request w))"
| wf_finish: "ww_running w = before @ j # after \<Longrightarrow>
    workflow_step E w WfFinish (snd (run_finish E rd cancelled guest j (w\<lparr>ww_running := before @ after\<rparr>)))"
| wf_take: "ww_confirm w = None \<Longrightarrow> workflow_step E w WfTake (snd (confirm_take E token w))"
| wf_check: "ww_confirm w = Some (token, p, Taken) \<Longrightarrow> workflow_step E w WfCheck (snd (confirm_check E rd token p w))"
| wf_send: "ww_confirm w = Some (token, p, Checked m) \<Longrightarrow> workflow_step E w WfSend (confirm_send token p m w)"
| wf_answer: "ww_confirm w = Some (token, p, Sent m) \<Longrightarrow> workflow_step E w WfAnswer (snd (confirm_answer E token p response w))"

inductive workflow_path :: "strategy_env \<Rightarrow> workflow_world \<Rightarrow> workflow_label list \<Rightarrow> workflow_world \<Rightarrow> bool"
  for E :: strategy_env
where
  wf_refl: "workflow_path E w [] w"
| wf_step: "workflow_path E w ls w' \<Longrightarrow> workflow_step E w' x w'' \<Longrightarrow> workflow_path E w (ls @ [x]) w''"

definition workflow_start :: workflow_world where
  "workflow_start = \<lparr>ww_state = \<lparr>wf_serial = 0, wf_grants = [], wf_pending = []\<rparr>, ww_accepted = [], ww_running = [],
     ww_confirm = None, ww_drawn = 0, ww_trace = []\<rparr>"

definition workflow_reachable :: "strategy_env \<Rightarrow> workflow_world \<Rightarrow> bool" where
  "workflow_reachable E w \<longleftrightarrow> (\<exists>ls. workflow_path E workflow_start ls w)"

end
