(* ===== verification/Workflow_Laws.thy ===== *)
theory Workflow_Laws
  imports Workflow_Runtime Strategy_Control Ordering
begin

text \<open>
  What a step of the workflows may do, as a coarser relation: every step either only narrows the
  state, or is one of five moves that bring something new.  The invariants are proved over the
  coarse relation.
\<close>

section \<open>Ordered maps\<close>

definition sorted_keys :: "(string \<times> 'v) list \<Rightarrow> bool" where
  "sorted_keys m \<longleftrightarrow> sorted_wrt str_less (map fst m)"

lemma sorted_keys_insert [intro]: "sorted_keys m \<Longrightarrow> sorted_keys (btree_insert k v m)"
proof (induction m rule: btree_insert.induct)
  case (2 k v k' v' m)
  have m: "\<forall>y\<in>fst ` set m. str_less k' y" "sorted_keys m" using 2(2) by (simp_all add: sorted_keys_def)
  consider "k = k'" | "str_less k k'" "k \<noteq> k'" | "k \<noteq> k'" "\<not> str_less k k'" "str_less k' k" using str_less_total by blast
  then show ?case
  proof cases
    case 1
    then show ?thesis using m by (simp add: sorted_keys_def)
  next
    case 2
    then have "\<forall>y\<in>fst ` set m. str_less k y" using m str_less_trans by blast
    then show ?thesis using m 2 by (simp add: sorted_keys_def)
  next
    case 3
    then have "sorted_keys (btree_insert k v m)" using 2(1) m by blast
    moreover have "\<forall>y\<in>fst ` set (btree_insert k v m). str_less k' y" using m 3 by simp
    ultimately show ?thesis using 3 by (simp only: sorted_keys_def btree_insert.simps if_False list.map sorted_wrt.simps list.set_map fst_conv)
  qed
qed (simp add: sorted_keys_def)

lemma sorted_keys_filter [intro]: "sorted_keys m \<Longrightarrow> sorted_keys (filter P m)"
  unfolding sorted_keys_def using sorted_wrt_map sorted_wrt_filter by metis

lemma sorted_keys_modify [simp]: "sorted_keys (btree_modify k f m) = sorted_keys m"
  by (simp add: sorted_keys_def)

lemma sorted_keys_distinct: "sorted_keys m \<Longrightarrow> distinct (map fst m)"
  unfolding sorted_keys_def by (induction m) auto

lemma btree_modify_all:
  "distinct (map fst m) \<Longrightarrow> (k, v) \<in> set (btree_modify k f m) \<Longrightarrow> \<exists>u. v = f u"
  by (induction m) (auto split: if_splits intro: rev_image_eqI)

section \<open>Narrowing\<close>

text \<open>
  No prepared trade is new, and the intent of every grant is one it had before or a fresh serial
  number.
\<close>

definition narrows :: "workflow_state \<Rightarrow> workflow_state \<Rightarrow> bool" where
  "narrows st st' \<longleftrightarrow> set (wf_pending st') \<subseteq> set (wf_pending st) \<and> wf_serial st \<le> wf_serial st'
     \<and> (\<forall>(k, g) \<in> set (wf_grants st').
          (\<exists>g0. (k, g0) \<in> set (wf_grants st) \<and> wg_intent g = wg_intent g0)
          \<or> wf_serial st < wg_intent g \<and> wg_intent g \<le> wf_serial st')
     \<and> (sorted_keys (wf_grants st) \<longrightarrow> sorted_keys (wf_grants st'))"

definition quiet :: "workflow_world \<Rightarrow> workflow_world \<Rightarrow> bool" where
  "quiet w w' \<longleftrightarrow> narrows (ww_state w) (ww_state w') \<and> set (ww_running w') \<subseteq> set (ww_running w)
     \<and> ww_drawn w' = ww_drawn w \<and> ww_trace w' = ww_trace w \<and> (ww_confirm w' = ww_confirm w \<or> ww_confirm w' = None)"

lemma narrows_refl [simp]: "narrows st st"
  by (auto simp: narrows_def)

lemma narrows_trans: "narrows st st' \<Longrightarrow> narrows st' st'' \<Longrightarrow> narrows st st''"
  unfolding narrows_def by (safe; fastforce dest: order.strict_trans1 order.trans)

lemma quiet_refl [simp]: "quiet w w"
  by (simp add: quiet_def)

lemma quiet_trans: "quiet w w' \<Longrightarrow> quiet w' w'' \<Longrightarrow> quiet w w''"
  by (auto simp: quiet_def intro: narrows_trans)

lemma quiet_state [intro]: "narrows (ww_state w) st \<Longrightarrow> quiet w (w\<lparr>ww_state := st\<rparr>)"
  by (simp add: quiet_def)

lemma checked_add_u64_less: "checked_add_u64 a 1 = Some n \<Longrightarrow> a < n"
  by (auto simp: checked_add_u64_def word_less_nat_alt unat_word_ariths split: if_splits)

lemma narrows_drops: "narrows st (drop_foreign now b st)" "narrows st (drop_pending i st)"
  by (auto simp: narrows_def drop_foreign_def drop_pending_def)

lemma narrows_insert:
  assumes "wf_serial st < n" "(\<exists>g0. (i, g0) \<in> set (wf_grants st) \<and> wg_intent g = wg_intent g0) \<or> wg_intent g = n"
  shows "narrows st (st\<lparr>wf_serial := n, wf_grants := btree_insert i g (wf_grants st)\<rparr>)"
  using assms btree_insert_set [of i g "wf_grants st"] by (fastforce simp: narrows_def)

lemma narrows_modify:
  assumes "wf_serial st < n"
  shows "narrows st (st\<lparr>wf_serial := n, wf_grants := btree_modify i (\<lambda>g. g\<lparr>wg_intent := n\<rparr>) (wf_grants st)\<rparr>)"
proof -
  have "(k, g) \<in> set (btree_modify i (\<lambda>g. g\<lparr>wg_intent := n\<rparr>) m) \<Longrightarrow> (k, g) \<in> set m \<or> wg_intent g = n" for k g m
    by (induction m) (auto split: if_splits)
  then show ?thesis using assms unfolding narrows_def by fastforce
qed

abbreviation new_grant :: "workflow_binding \<Rightarrow> u64 \<Rightarrow> workflow_grant" where
  "new_grant b n \<equiv> \<lparr>wg_binding = b, wg_revision = n, wg_intent = n, wg_capabilities = []\<rparr>"

lemma find_grant_known:
  "map_of (wf_grants (drop_foreign now b st)) i = Some g \<Longrightarrow> wg_binding g = b \<Longrightarrow>
    find_grant now i b st = (Ok g, drop_foreign now b st)"
  by (simp add: find_grant_def Let_def)

lemma find_grant_new:
  assumes "\<forall>g. map_of (wf_grants (drop_foreign now b st)) i = Some g \<longrightarrow> wg_binding g \<noteq> b"
    "u = drop_pending i (drop_foreign now b st)"
  shows "find_grant now i b st =
    (if 256 \<le> length (wf_grants u) then (Err (workflow_error ''plugin_workflow_capacity''), u)
     else case checked_add_u64 (wf_serial u) 1 of
       None \<Rightarrow> (Err (workflow_error ''plugin_workflow_unavailable''), u)
     | Some n \<Rightarrow> (Ok (new_grant b n), u\<lparr>wf_serial := n, wf_grants := btree_insert i (new_grant b n) (wf_grants u)\<rparr>))"
proof -
  have "(case map_of (wf_grants (drop_foreign now b st)) i of
      Some g \<Rightarrow> if wg_binding g = b then Some g else None | None \<Rightarrow> None) = None"
    using assms(1) by (simp split: option.split)
  then show ?thesis
    unfolding find_grant_def Let_def assms(2) workflow_next_def by (simp split: option.split)
qed

lemma find_grant_spec:
  assumes "find_grant now i b st = (r, st')"
  shows "narrows st st' \<and> (\<forall>g. r = Ok g \<longrightarrow> (i, g) \<in> set (wf_grants st') \<and> wg_binding g = b)"
proof (cases "\<exists>g. map_of (wf_grants (drop_foreign now b st)) i = Some g \<and> wg_binding g = b")
  case True
  then show ?thesis using assms narrows_drops(1) by (auto simp: find_grant_known dest: map_of_SomeD)
next
  case False
  let ?u = "drop_pending i (drop_foreign now b st)"
  have u: "narrows st ?u" using narrows_drops narrows_trans by blast
  show ?thesis
  proof (cases "256 \<le> length (wf_grants ?u) \<or> checked_add_u64 (wf_serial ?u) 1 = None")
    case True
    then show ?thesis using False assms u by (auto simp: find_grant_new split: if_splits)
  next
    case n: False
    then obtain n where c: "checked_add_u64 (wf_serial ?u) 1 = Some n" by auto
    then have lt: "wf_serial ?u < n" by (rule checked_add_u64_less)
    have "r = Ok (new_grant b n)" "st' = ?u\<lparr>wf_serial := n, wf_grants := btree_insert i (new_grant b n) (wf_grants ?u)\<rparr>"
      using assms False n c by (auto simp: find_grant_new)
    then show ?thesis using narrows_trans [OF u narrows_insert [OF lt, of i "new_grant b n"]]
      by (auto intro: map_of_SomeD)
  qed
qed

lemma on_state_grant:
  assumes "on_state (find_grant now i b) w = (r, w')"
  shows "quiet w w'" "w' = w\<lparr>ww_state := ww_state w'\<rparr>"
    "r = Ok g \<Longrightarrow> (i, g) \<in> set (wf_grants (ww_state w')) \<and> wg_binding g = b"
  using assms find_grant_spec [of now i b "ww_state w"]
  by (auto simp: on_state_def split: prod.splits)

section \<open>The moves\<close>

text \<open>The trade that a prepared trade stands for.\<close>

definition confirmed_mutation :: "prepared_trade \<Rightarrow> mutation \<Rightarrow> bool" where
  "confirmed_mutation p m \<longleftrightarrow>
     (let account = au_account (wb_authority (pt_binding p)) in
      case pt_output p of
        WDisplay _ \<Rightarrow> False
      | WPlaceOrder ord \<Rightarrow> \<exists>i epoch. pt_submission_id p = Some i \<and> counter (ac_session_epoch account) = Ok epoch
          \<and> m = MutPlace \<lparr>sc_submission_id = i, sc_account_id = ac_account_id account, sc_session_epoch = epoch\<rparr>
                  (placement ord i)
      | WCancelOrder ord \<Rightarrow> \<exists>epoch. counter (ac_session_epoch account) = Ok epoch
          \<and> m = MutCancel \<lparr>ses_account_id = ac_account_id account, ses_session_epoch = epoch\<rparr> (cn_symbol ord) (cn_order_id ord))"

definition show_trade :: "string \<Rightarrow> prepared_trade \<Rightarrow> workflow_world \<Rightarrow> workflow_world" where
  "show_trade token p w =
     w\<lparr>ww_state := (ww_state w)\<lparr>wf_pending := btree_insert token p (wf_pending (ww_state w))\<rparr>,
       ww_drawn := ww_drawn w + 2, ww_trace := ww_trace w @ [WfShown token p]\<rparr>"

definition take_trade :: "string \<Rightarrow> prepared_trade \<Rightarrow> workflow_world \<Rightarrow> workflow_world" where
  "take_trade token p w =
     w\<lparr>ww_state := (ww_state w)\<lparr>wf_pending := btree_remove token (wf_pending (ww_state w))\<rparr>,
       ww_confirm := Some (token, p, Taken), ww_trace := ww_trace w @ [WfConfirmed token]\<rparr>"

abbreviation job_plugin :: "workflow_job \<Rightarrow> string" where
  "job_plugin j \<equiv> ar_plugin_id (rq_authority (wj_request j))"

inductive workflow_move :: "strategy_env \<Rightarrow> workflow_world \<Rightarrow> workflow_label \<Rightarrow> workflow_world \<Rightarrow> bool"
  for E :: strategy_env
where
  quietly: "quiet w w' \<Longrightarrow> workflow_move E w x w'"
| begun: "quiet w w' \<Longrightarrow> (job_plugin j, wj_grant j) \<in> set (wf_grants (ww_state w')) \<Longrightarrow>
    workflow_move E w (WfBegin (job_plugin j)) (w'\<lparr>ww_running := j # ww_running w'\<rparr>)"
| shown: "quiet w w' \<Longrightarrow> j \<in> set (ww_running w) \<Longrightarrow> wf_plugin p = job_plugin j \<Longrightarrow> pt_intent p = wg_intent (wj_grant j) \<Longrightarrow>
    (wf_plugin p, g) \<in> set (wf_grants (ww_state w')) \<Longrightarrow> wg_intent g = pt_intent p \<Longrightarrow>
    pt_submission_id p \<in> {None, Some (se_uuid E (Suc (ww_drawn w)))} \<Longrightarrow>
    workflow_move E w WfFinish (show_trade (se_uuid E (ww_drawn w)) p w')"
| taken: "ww_confirm w = None \<Longrightarrow> (token, p) \<in> set (wf_pending (ww_state w)) \<Longrightarrow>
    workflow_move E w WfTake (take_trade token p w)"
| checked: "ww_confirm w = Some (token, p, Taken) \<Longrightarrow> quiet w w' \<Longrightarrow>
    (wf_plugin p, g) \<in> set (wf_grants (ww_state w')) \<Longrightarrow> wg_intent g = pt_intent p \<Longrightarrow> confirmed_mutation p m \<Longrightarrow>
    workflow_move E w WfCheck (w'\<lparr>ww_confirm := Some (token, p, Checked m)\<rparr>)"
| sent: "ww_confirm w = Some (token, p, Checked m) \<Longrightarrow> workflow_move E w WfSend (confirm_send token p m w)"

section \<open>Every step is a move\<close>

lemma bind_world_intro:
  assumes "P (snd x)" "\<And>a w'. x = (Ok a, w') \<Longrightarrow> P (snd (k a w'))"
  shows "P (snd (bind_world x k))"
  using assms by (cases x; cases "fst x") (auto simp: bind_world_def)

text \<open>The parts of an operation, for a predicate that every quiet change satisfies.\<close>

lemma bind_pure:
  assumes "\<And>u. quiet w u \<Longrightarrow> P u" "quiet w w0" "\<And>a. r = Ok a \<Longrightarrow> P (snd (k a w0))"
  shows "P (snd (bind_world (r, w0) k))"
  using assms by (auto simp: bind_world_def split: result.split)

lemma bind_pair:
  assumes "\<And>u. quiet w u \<Longrightarrow> P u" "quiet w w0" "\<And>a b. r = Ok (a, b) \<Longrightarrow> P (snd (k a b w0))"
  shows "P (snd (bind_world (r, w0) (case_prod k)))"
  using assms by (auto simp: bind_world_def split: result.split)

lemma bind_grant:
  assumes P: "\<And>u. quiet w u \<Longrightarrow> P u" and w: "quiet w w0"
    and k: "\<And>g st. quiet w (w0\<lparr>ww_state := st\<rparr>) \<Longrightarrow> (i, g) \<in> set (wf_grants st) \<Longrightarrow> wg_binding g = b \<Longrightarrow>
      P (snd (k g (w0\<lparr>ww_state := st\<rparr>)))"
  shows "P (snd (bind_world (on_state (find_grant now i b) w0) k))"
proof -
  obtain r st where s: "find_grant now i b (ww_state w0) = (r, st)" by fastforce
  note f = find_grant_spec [OF s]
  then have q: "quiet w (w0\<lparr>ww_state := st\<rparr>)" using quiet_trans [OF w quiet_state] by blast
  then show ?thesis using s f k [OF q] P [OF q] by (cases r) (auto simp: bind_world_def on_state_def)
qed

lemma bind_next:
  assumes P: "\<And>u. quiet w u \<Longrightarrow> P u" and w: "quiet w w0"
    and k: "\<And>n. wf_serial (ww_state w0) < n \<Longrightarrow> P (snd (k n (w0\<lparr>ww_state := (ww_state w0)\<lparr>wf_serial := n\<rparr>\<rparr>)))"
  shows "P (snd (bind_world (on_state workflow_next w0) k))"
  using P [OF w] k checked_add_u64_less
  by (auto simp: bind_world_def on_state_def workflow_next_def split: option.split)

lemma bind_if: "(c \<Longrightarrow> P (snd a)) \<Longrightarrow> (\<not> c \<Longrightarrow> P (snd b)) \<Longrightarrow> P (snd (if c then a else b))"
  by simp

lemma bind_output:
  assumes "\<And>t. out = WDisplay t \<Longrightarrow> P (snd (f t))" "\<And>ord. out = WPlaceOrder ord \<Longrightarrow> P (snd (g ord))"
    "\<And>ord. out = WCancelOrder ord \<Longrightarrow> P (snd (h ord))"
  shows "P (snd (case out of WDisplay t \<Rightarrow> f t | WPlaceOrder ord \<Rightarrow> g ord | WCancelOrder ord \<Rightarrow> h ord))"
  using assms by (cases out) auto

lemma move_failed: "quiet w w' \<Longrightarrow> workflow_move E w l (snd (Err e, w'))"
  by (simp add: quietly)

lemmas move_binds =
  bind_pair [where P = "workflow_move E w l" and w = w for E w l, OF quietly]
  bind_pure [where P = "workflow_move E w l" and w = w for E w l, OF quietly]
  bind_if [where P = "workflow_move E w l" for E w l]
  bind_output [where P = "workflow_move E w l" for E w l]
  move_failed
  bind_grant [where P = "workflow_move E w l" and w = w for E w l, OF quietly]
  bind_next [where P = "workflow_move E w l" and w = w for E w l, OF quietly]

lemma access_move: "workflow_move E w l (snd (get_workflow_access rd request w))"
  unfolding get_workflow_access_def by (intro move_binds) (auto intro: quietly)

lemma quiet_step:
  assumes "quiet w w0" "narrows (ww_state w0) st"
  shows "quiet w (w0\<lparr>ww_state := st\<rparr>)"
  using quiet_trans [OF assms(1) quiet_state [OF assms(2)]] .

lemma accept_move: "workflow_move E w l (snd (grant_accept request w))"
  unfolding grant_accept_def Let_def
proof (intro move_binds)
  fix n assume n: "wf_serial (ww_state w) < n"
  let ?i = "ar_plugin_id (gq_authority request)" and ?st = "(ww_state w)\<lparr>wf_serial := n\<rparr>"
  let ?v = "drop_pending ?i (?st\<lparr>wf_grants := btree_modify ?i (\<lambda>g. g\<lparr>wg_intent := n\<rparr>) (wf_grants ?st)\<rparr>)"
  have "narrows (ww_state w) ?v" using narrows_trans [OF narrows_modify [OF n] narrows_drops(2)] by simp
  then show "workflow_move E w l (snd (Ok (), (w\<lparr>ww_state := ?st\<rparr>)\<lparr>ww_state := drop_pending ?i (ww_state (w\<lparr>ww_state := ?st\<rparr>)
      \<lparr>wf_grants := btree_modify ?i (\<lambda>g. g\<lparr>wg_intent := n\<rparr>) (wf_grants (ww_state (w\<lparr>ww_state := ?st\<rparr>)))\<rparr>),
      ww_accepted := (request, n) # ww_accepted (w\<lparr>ww_state := ?st\<rparr>)\<rparr>))"
    by (intro quietly) (simp add: quiet_def)
qed simp_all

lemma apply_move:
  assumes "ww_accepted w = before @ (request, intent) # after"
  shows "workflow_move E w l (snd (grant_apply rd request intent (w\<lparr>ww_accepted := before @ after\<rparr>)))" (is "workflow_move E w l (snd (grant_apply rd request intent ?w))")
proof -
  have q: "quiet w ?w" by (simp add: quiet_def)
  have "quiet w (w'\<lparr>ww_state := (ww_state w')\<lparr>wf_serial := n, wf_grants := btree_insert i (g\<lparr>wg_revision := n, wg_capabilities := cs\<rparr>) (wf_grants (ww_state w'))\<rparr>\<rparr>)"
    if "quiet w w'" "(i, g) \<in> set (wf_grants (ww_state w'))" "wf_serial (ww_state w') < n" for w' i g n cs
    using narrows_insert [OF that(3), of i "g\<lparr>wg_revision := n, wg_capabilities := cs\<rparr>"] that(2) by (intro quiet_step that(1)) auto
  from this [of "w\<lparr>ww_accepted := a, ww_state := st\<rparr>" for a st] show ?thesis
    unfolding grant_apply_def Let_def
    by (intro move_binds q) (auto intro: quietly)
qed

lemma begin_move: "workflow_move E w (WfBegin (ar_plugin_id (rq_authority request))) (snd (run_begin E rd h lease context_len request w))"
proof -
  have "workflow_move E w (WfBegin (ar_plugin_id (rq_authority request)))
      (w'\<lparr>ww_running := \<lparr>wj_request = request, wj_binding = b, wj_grant = g, wj_snapshot = sn\<rparr> # ww_running w'\<rparr>)"
    if "quiet w w'" "(ar_plugin_id (rq_authority request), g) \<in> set (wf_grants (ww_state w'))" for w' b g sn
    using begun [of w w' "\<lparr>wj_request = request, wj_binding = b, wj_grant = g, wj_snapshot = sn\<rparr>" E] that by simp
  from this [of "w\<lparr>ww_state := st\<rparr>" for st] show ?thesis
    unfolding run_begin_def Let_def by (intro move_binds) auto
qed

lemma finish_move:
  assumes "ww_running w = before @ j # after"
  shows "workflow_move E w WfFinish (snd (run_finish E rd cancelled guest j (w\<lparr>ww_running := before @ after\<rparr>)))"
    (is "workflow_move E w _ (snd (run_finish E rd cancelled guest j ?w))")
proof -
  have q: "quiet w ?w" using assms by (auto simp: quiet_def)
  have "workflow_move E w WfFinish (show_trade (se_uuid E (ww_drawn w')) (prepare_trade rd j out sub) w')"
    if "quiet w w'" "(job_plugin j, g) \<in> set (wf_grants (ww_state w'))" "wg_intent (wj_grant j) = wg_intent g"
      "sub \<in> {None, Some (se_uuid E (Suc (ww_drawn w')))}" for w' g out sub
  proof -
    have d: "ww_drawn w' = ww_drawn w" using that(1) by (simp add: quiet_def)
    have j: "j \<in> set (ww_running w)" using assms by simp
    show ?thesis
      unfolding d by (rule shown [OF that(1) j, where g = g]) (use that d in \<open>simp_all add: prepare_trade_def\<close>)
  qed
  from this [unfolded show_trade_def, of "w\<lparr>ww_running := a, ww_state := st\<rparr>" for a st] show ?thesis
    unfolding run_finish_def Let_def by (intro move_binds q) (auto intro: quietly)
qed

lemma take_move: "ww_confirm w = None \<Longrightarrow> workflow_move E w WfTake (snd (confirm_take E token w))"
  using taken [of w token _ E] map_of_SomeD [of "wf_pending (ww_state w)" token]
  by (auto simp: confirm_take_def take_trade_def split: option.split intro: quietly)

lemma trade_of_confirmed:
  assumes "trade_of E (au_account (wb_authority (pt_binding p))) caps p = Ok m"
  shows "confirmed_mutation p m"
  using assms by (auto simp: trade_of_def confirmed_mutation_def Let_def bind_result_Ok_iff ok_or_Ok_iff split: workflow_output.splits)

lemma trade_of_capability:
  assumes "trade_of E account caps p = Ok m"
  shows "case pt_output p of WPlaceOrder _ \<Rightarrow> ''trade.place'' \<in> set caps
    | WCancelOrder _ \<Rightarrow> ''trade.cancel'' \<in> set caps | WDisplay _ \<Rightarrow> False"
  using assms
  by (auto simp: trade_of_def workflow_output_validate_def validate_place_def validate_cancel_def bind_result_Ok_iff
      split: workflow_output.splits if_splits)

text \<open>What a confirmation has checked when its trade is about to be sent.\<close>

definition still_allowed :: "strategy_env \<Rightarrow> workflow_readings \<Rightarrow> prepared_trade \<Rightarrow> workflow_grant \<Rightarrow> mutation \<Rightarrow> bool" where
  "still_allowed E rd p g m \<longleftrightarrow> (\<exists>captured. binding_locked rd (pt_request p) = Ok (captured, pt_binding p))
     \<and> wr_instant rd < pt_deadline p \<and> wg_revision g = pt_revision p \<and> wg_intent g = pt_intent p
     \<and> wr_epoch_again rd = Ok (wb_epoch (pt_binding p))
     \<and> trade_of E (au_account (wb_authority (pt_binding p))) (wg_capabilities g) p = Ok m"

lemma epoch_unchanged_Ok: "epoch_unchanged rd b = Ok () \<longleftrightarrow> wr_epoch_again rd = Ok (wb_epoch b)"
  by (auto simp: epoch_unchanged_def bind_result_Ok_iff)

lemma confirm_check_effect:
  obtains r st where "quiet w (w\<lparr>ww_state := st\<rparr>)"
    "confirm_check E rd token p w =
       (bind_result r (\<lambda>_. Ok ()), w\<lparr>ww_state := st, ww_confirm := (case r of Ok m \<Rightarrow> Some (token, p, Checked m) | _ \<Rightarrow> None)\<rparr>)"
    "\<forall>m. r = Ok m \<longrightarrow> (\<exists>g. (wf_plugin p, g) \<in> set (wf_grants st) \<and> still_allowed E rd p g m)"
proof -
  let ?x = "bind_world (binding_locked rd (pt_request p), w) (\<lambda>(_, b) w.
           bind_world (on_state (find_grant (wr_instant rd) (wf_plugin p) b) w) (\<lambda>g w.
             if pt_deadline p \<le> wr_instant rd \<or> b \<noteq> pt_binding p \<or> wg_revision g \<noteq> pt_revision p
                \<or> wg_intent g \<noteq> pt_intent p
             then (Err wf_stale, w)
             else (bind_result (epoch_unchanged rd (pt_binding p)) (\<lambda>_.
               trade_of E (au_account (wb_authority b)) (wg_capabilities g) p), w)))"
  define P where "P = (\<lambda>x :: (mutation, app_error) result \<times> workflow_world. \<exists>r st. x = (r, w\<lparr>ww_state := st\<rparr>) \<and> narrows (ww_state w) st
    \<and> (\<forall>m. r = Ok m \<longrightarrow> (\<exists>g. (wf_plugin p, g) \<in> set (wf_grants st) \<and> still_allowed E rd p g m)))"
  have "P ?x"
  proof (cases "binding_locked rd (pt_request p)")
    case (Ok cb)
    obtain c b where cb: "cb = (c, b)" by fastforce
    obtain r st where f: "find_grant (wr_instant rd) (wf_plugin p) b (ww_state w) = (r, st)" by fastforce
    then show ?thesis using Ok cb find_grant_spec [OF f]
      by (cases r) (auto simp: P_def bind_world_def on_state_def still_allowed_def epoch_unchanged_Ok bind_result_Ok_iff)
  qed (auto simp: P_def bind_world_def intro!: exI [of _ "ww_state w"])
  then obtain r st where x: "?x = (r, w\<lparr>ww_state := st\<rparr>)" "narrows (ww_state w) st"
    "\<forall>m. r = Ok m \<longrightarrow> (\<exists>g. (wf_plugin p, g) \<in> set (wf_grants st) \<and> still_allowed E rd p g m)"
    unfolding P_def by blast
  show thesis
  proof (rule that)
    show "quiet w (w\<lparr>ww_state := st\<rparr>)" using x(2) by (rule quiet_state)
    show "confirm_check E rd token p w =
       (bind_result r (\<lambda>_. Ok ()), w\<lparr>ww_state := st, ww_confirm := (case r of Ok m \<Rightarrow> Some (token, p, Checked m) | _ \<Rightarrow> None)\<rparr>)"
      unfolding confirm_check_def x(1) by (cases r) simp_all
  qed (rule x(3))
qed

lemma check_move:
  assumes c: "ww_confirm w = Some (token, p, Taken)"
  shows "workflow_move E w WfCheck (snd (confirm_check E rd token p w))"
proof (rule confirm_check_effect [of w E rd token p])
  fix r st assume q: "quiet w (w\<lparr>ww_state := st\<rparr>)" and e: "confirm_check E rd token p w =
       (bind_result r (\<lambda>_. Ok ()), w\<lparr>ww_state := st, ww_confirm := (case r of Ok m \<Rightarrow> Some (token, p, Checked m) | _ \<Rightarrow> None)\<rparr>)"
    and g: "\<forall>m. r = Ok m \<longrightarrow> (\<exists>g. (wf_plugin p, g) \<in> set (wf_grants st) \<and> still_allowed E rd p g m)"
  show ?thesis
  proof (cases r)
    case (Ok m)
    then obtain g where g: "(wf_plugin p, g) \<in> set (wf_grants st)" "still_allowed E rd p g m" using g by blast
    have m: "confirmed_mutation p m" using g(2) trade_of_confirmed unfolding still_allowed_def by blast
    show ?thesis using checked [OF c q, of g m E] g m e Ok by (simp add: still_allowed_def)
  qed (use q e in \<open>auto simp: quiet_def intro!: quietly\<close>)
qed


theorem step_move:
  assumes "workflow_step E w x w'"
  shows "workflow_move E w x w'"
  using assms
proof cases
  case (wf_answer token p m response)
  then have "quiet w w'" by (simp add: confirm_answer_def quiet_def)
  then show ?thesis by (rule quietly)
qed (simp_all add: access_move accept_move apply_move begin_move finish_move take_move check_move sent)

end
