(* ===== verification/Workflow_Invariant.thy ===== *)
theory Workflow_Invariant
  imports Workflow_Laws Strategy_Invariant
begin

text \<open>
  The invariants of the confirmed workflows, over the moves: intents never run ahead of the
  serial number, tokens are drawn once, and the trace shows, confirms and trades in this order.
\<close>

section \<open>Intents\<close>

abbreviation confirming :: "workflow_world \<Rightarrow> string \<Rightarrow> prepared_trade \<Rightarrow> confirm_phase \<Rightarrow> bool" where
  "confirming w t p ph \<equiv> ww_confirm w = Some (t, p, ph)"

definition intents_inv :: "workflow_world \<Rightarrow> bool" where
  "intents_inv w \<longleftrightarrow> (
     (\<forall>i g. (i, g) \<in> set (wf_grants (ww_state w)) \<longrightarrow> wg_intent g \<le> wf_serial (ww_state w))
     \<and> (\<forall>j\<in>set (ww_running w). wg_intent (wj_grant j) \<le> wf_serial (ww_state w))
     \<and> (\<forall>t p. (t, p) \<in> set (wf_pending (ww_state w)) \<longrightarrow> pt_intent p \<le> wf_serial (ww_state w))
     \<and> (\<forall>t p ph. confirming w t p ph \<longrightarrow> pt_intent p \<le> wf_serial (ww_state w))
     \<and> sorted_keys (wf_grants (ww_state w)))"

lemma intents_quiet:
  assumes "intents_inv w" "quiet w w'"
  shows "intents_inv w'"
proof -
  have st: "narrows (ww_state w) (ww_state w')" using assms(2) by (simp add: quiet_def)
  then have le: "wf_serial (ww_state w) \<le> wf_serial (ww_state w')" by (simp add: narrows_def)
  have "wg_intent g \<le> wf_serial (ww_state w')" if "(i, g) \<in> set (wf_grants (ww_state w'))" for i g
  proof -
    from st that consider g0 where "(i, g0) \<in> set (wf_grants (ww_state w))" "wg_intent g = wg_intent g0"
      | "wg_intent g \<le> wf_serial (ww_state w')" unfolding narrows_def by blast
    then show ?thesis using assms(1) le by cases (fastforce simp: intents_inv_def)+
  qed
  moreover have "a \<le> wf_serial (ww_state w')" if "a \<le> wf_serial (ww_state w)" for a using that le by simp
  moreover have "set (wf_pending (ww_state w')) \<subseteq> set (wf_pending (ww_state w))" using st by (simp add: narrows_def)
  moreover have "set (ww_running w') \<subseteq> set (ww_running w)" "\<And>t p ph. confirming w' t p ph \<Longrightarrow> confirming w t p ph"
    using assms(2) by (auto simp: quiet_def)
  moreover have "sorted_keys (wf_grants (ww_state w')) \<or> \<not> sorted_keys (wf_grants (ww_state w))"
    using st unfolding narrows_def by blast
  ultimately show ?thesis using assms(1) unfolding intents_inv_def by blast
qed

lemma intents_move: "workflow_move E w x w' \<Longrightarrow> intents_inv w \<Longrightarrow> intents_inv w'"
proof (induction rule: workflow_move.induct)
  case (shown w w' j p g)
  have "intents_inv w'" using intents_quiet shown by blast
  moreover from this have "pt_intent p \<le> wf_serial (ww_state w')" using shown(5,6) unfolding intents_inv_def by metis
  ultimately show ?case using btree_insert_set [of "se_uuid E (ww_drawn w)" p "wf_pending (ww_state w')"]
   by (auto simp: intents_inv_def show_trade_def)
next
  case (begun w w' j)
  have "intents_inv w'" using intents_quiet begun by blast
  then show ?case using begun(2) by (auto simp: intents_inv_def)
next
  case (taken w token p)
  then show ?case by (auto simp: intents_inv_def take_trade_def btree_remove_def)
next
  case (checked w token p w' g m)
  have "intents_inv w'" using intents_quiet checked by blast
  moreover from this have "pt_intent p \<le> wf_serial (ww_state w')" using checked(3,4) unfolding intents_inv_def by metis
  ultimately show ?case by (auto simp: intents_inv_def)
next
  case (sent w token p m)
  then show ?case by (auto simp: intents_inv_def confirm_send_def)
qed (rule intents_quiet)

section \<open>The trace\<close>

definition trade_in_order :: "workflow_event list \<Rightarrow> bool" where
  "trade_in_order tr \<longleftrightarrow> (\<forall>before t p m after. tr = before @ WfTraded t p m # after \<longrightarrow>
     WfShown t p \<in> set before \<and> WfConfirmed t \<in> set before \<and> confirmed_mutation p m
     \<and> (\<forall>p' m'. WfTraded t p' m' \<notin> set before))"

text \<open>The tokens and submission identifiers are drawn in pairs.\<close>

definition drawn_pair :: "strategy_env \<Rightarrow> nat \<Rightarrow> string \<Rightarrow> prepared_trade \<Rightarrow> bool" where
  "drawn_pair E n t p \<longleftrightarrow> (\<exists>k. 2 * k < n \<and> t = se_uuid E (2 * k) \<and> pt_submission_id p \<in> {None, Some (se_uuid E (Suc (2 * k)))})"

definition confirm_inv :: "workflow_event list \<Rightarrow> string \<Rightarrow> prepared_trade \<Rightarrow> confirm_phase \<Rightarrow> bool" where
  "confirm_inv tr t p ph \<longleftrightarrow> WfShown t p \<in> set tr \<and> WfConfirmed t \<in> set tr
     \<and> (case ph of Taken \<Rightarrow> \<forall>p' m'. WfTraded t p' m' \<notin> set tr
        | Checked m \<Rightarrow> confirmed_mutation p m \<and> (\<forall>p' m'. WfTraded t p' m' \<notin> set tr)
        | Sent m \<Rightarrow> True)"

definition trace_inv :: "strategy_env \<Rightarrow> workflow_world \<Rightarrow> bool" where
  "trace_inv E w \<longleftrightarrow> (
     even (ww_drawn w) \<and> trade_in_order (ww_trace w)
     \<and> (\<forall>t p. WfShown t p \<in> set (ww_trace w) \<longrightarrow> drawn_pair E (ww_drawn w) t p)
     \<and> (\<forall>t p p'. WfShown t p \<in> set (ww_trace w) \<longrightarrow> WfShown t p' \<in> set (ww_trace w) \<longrightarrow> p = p')
     \<and> (\<forall>t. WfConfirmed t \<in> set (ww_trace w) \<longrightarrow> (\<exists>p. WfShown t p \<in> set (ww_trace w)))
     \<and> (\<forall>t p. (t, p) \<in> set (wf_pending (ww_state w)) \<longrightarrow> WfShown t p \<in> set (ww_trace w) \<and> WfConfirmed t \<notin> set (ww_trace w))
     \<and> (\<forall>t p ph. confirming w t p ph \<longrightarrow> confirm_inv (ww_trace w) t p ph))"

lemma trade_in_order_other:
  assumes "trade_in_order tr" "\<And>t p m. e \<noteq> WfTraded t p m"
  shows "trade_in_order (tr @ [e])"
  unfolding trade_in_order_def
proof (intro allI impI)
  fix before t p m after assume e: "tr @ [e] = before @ WfTraded t p m # after"
  obtain after' where "after = after' @ [e]" "tr = before @ WfTraded t p m # after'"
    using e assms(2) by (cases after rule: rev_cases) auto
  then show "WfShown t p \<in> set before \<and> WfConfirmed t \<in> set before \<and> confirmed_mutation p m
     \<and> (\<forall>p' m'. WfTraded t p' m' \<notin> set before)"
    using assms(1) unfolding trade_in_order_def by blast
qed

lemma trade_in_order_traded:
  assumes "trade_in_order tr" "WfShown t p \<in> set tr" "WfConfirmed t \<in> set tr" "confirmed_mutation p m"
    "\<forall>p' m'. WfTraded t p' m' \<notin> set tr"
  shows "trade_in_order (tr @ [WfTraded t p m])"
  unfolding trade_in_order_def
proof (intro allI impI)
  fix before u q n after assume e: "tr @ [WfTraded t p m] = before @ WfTraded u q n # after"
  show "WfShown u q \<in> set before \<and> WfConfirmed u \<in> set before \<and> confirmed_mutation q n
     \<and> (\<forall>p' m'. WfTraded u p' m' \<notin> set before)"
  proof (cases after rule: rev_cases)
    case Nil
    then show ?thesis using e assms by auto
  next
    case (snoc after' e')
    then have "tr = before @ WfTraded u q n # after'" using e by auto
    then show ?thesis using assms(1) unfolding trade_in_order_def by blast
  qed
qed

lemma trace_quiet:
  assumes "trace_inv E w" "quiet w w'"
  shows "trace_inv E w'"
proof -
  have "set (wf_pending (ww_state w')) \<subseteq> set (wf_pending (ww_state w))" "ww_drawn w' = ww_drawn w" "ww_trace w' = ww_trace w"
    "\<And>t p ph. confirming w' t p ph \<Longrightarrow> confirming w t p ph"
    using assms(2) by (auto simp: quiet_def narrows_def)
  then show ?thesis using assms(1) unfolding trace_inv_def by auto
qed

lemma untraded:
  assumes "trade_in_order tr" "WfConfirmed t \<notin> set tr"
  shows "WfTraded t p m \<notin> set tr"
proof
  assume "WfTraded t p m \<in> set tr"
  then obtain before after where "tr = before @ WfTraded t p m # after" by (meson split_list)
  then show False using assms unfolding trade_in_order_def by fastforce
qed

lemma drawn_fresh:
  assumes "strategy_env_ok E" "drawn_pair E n t p"
  shows "t \<noteq> se_uuid E n"
  using assms by (auto simp: drawn_pair_def strategy_env_ok_def inj_def)

lemma drawn_apart:
  assumes "strategy_env_ok E" "drawn_pair E n t p" "drawn_pair E n' u q" "u \<noteq> t"
  shows "pt_submission_id q = None \<or> pt_submission_id q \<noteq> pt_submission_id p"
proof -
  have "se_uuid E a = se_uuid E b \<longleftrightarrow> a = b" for a b using assms(1) by (simp add: strategy_env_ok_def inj_eq)
  then show ?thesis using assms(2-4) by (auto simp: drawn_pair_def)
qed

lemma trace_shown:
  assumes inv: "trace_inv E w" and ok: "strategy_env_ok E" and t: "t = se_uuid E (ww_drawn w)"
    and s: "pt_submission_id p \<in> {None, Some (se_uuid E (Suc (ww_drawn w)))}"
  shows "trace_inv E (show_trade t p w)"
proof -
  let ?tr = "set (ww_trace w)"
  have new: "WfShown t q \<notin> ?tr" for q using inv drawn_fresh [OF ok] t unfolding trace_inv_def by metis
  then have unconf: "WfConfirmed t \<notin> ?tr" using inv unfolding trace_inv_def by metis
  have old: "drawn_pair E (ww_drawn w + 2) u q" if "WfShown u q \<in> ?tr" for u q
  proof -
    have "drawn_pair E (ww_drawn w) u q" using inv that unfolding trace_inv_def by blast
    then show ?thesis unfolding drawn_pair_def using trans_less_add1 by blast
  qed
  obtain k where "ww_drawn w = 2 * k" using inv unfolding trace_inv_def by (meson evenE)
  then have mine: "drawn_pair E (ww_drawn w + 2) t p" using t s unfolding drawn_pair_def by (intro exI [of _ k]) simp
  have pending: "WfShown u q \<in> insert (WfShown t p) ?tr \<and> WfConfirmed u \<notin> ?tr"
    if "(u, q) \<in> set (btree_insert t p (wf_pending (ww_state w)))" for u q
    using that btree_insert_set [of t p "wf_pending (ww_state w)"] inv unconf unfolding trace_inv_def by blast
  have confirm: "confirm_inv (ww_trace w @ [WfShown t p]) u q ph" if "confirm_inv (ww_trace w) u q ph" for u q ph
    using that by (auto simp: confirm_inv_def split: confirm_phase.splits)
  have order: "trade_in_order (ww_trace w @ [WfShown t p])"
    using inv trade_in_order_other [of "ww_trace w" "WfShown t p"] by (simp add: trace_inv_def)
  have same: "q = q'" if "WfShown u q \<in> insert (WfShown t p) ?tr" "WfShown u q' \<in> insert (WfShown t p) ?tr" for u q q'
    using inv that new unfolding trace_inv_def by blast
  have conf: "\<exists>q. WfShown u q \<in> insert (WfShown t p) ?tr" if "WfConfirmed u \<in> ?tr" for u
    using inv that unfolding trace_inv_def by blast
  have inv': "even (ww_drawn w)" "\<And>u q ph. confirming w u q ph \<Longrightarrow> confirm_inv (ww_trace w) u q ph"
    using inv unfolding trace_inv_def by blast+
  have tr: "set (ww_trace w @ [WfShown t p]) = insert (WfShown t p) ?tr" by simp
  have upd: "ww_trace (show_trade t p w) = ww_trace w @ [WfShown t p]" "ww_drawn (show_trade t p w) = ww_drawn w + 2"
    "ww_confirm (show_trade t p w) = ww_confirm w"
    "wf_pending (ww_state (show_trade t p w)) = btree_insert t p (wf_pending (ww_state w))"
   by (simp_all add: show_trade_def)
  show ?thesis
    unfolding trace_inv_def upd tr
  proof (intro conjI allI impI)
    show "drawn_pair E (ww_drawn w + 2) u q" if "WfShown u q \<in> insert (WfShown t p) ?tr" for u q
      using that old mine by blast
    show "confirm_inv (ww_trace w @ [WfShown t p]) u q ph" if "confirming w u q ph" for u q ph
      using confirm inv'(2) that by blast
    show "WfShown u q \<in> insert (WfShown t p) ?tr" "WfConfirmed u \<notin> insert (WfShown t p) ?tr"
      if "(u, q) \<in> set (btree_insert t p (wf_pending (ww_state w)))" for u q
      using pending [OF that] by simp_all
    show "\<exists>q. WfShown u q \<in> insert (WfShown t p) ?tr" if "WfConfirmed u \<in> insert (WfShown t p) ?tr" for u
      using conf that by simp
    show "even (ww_drawn w + 2)" using inv'(1) by simp
  qed (fact order, rule same)
qed

lemma trace_taken:
  assumes inv: "trace_inv E w" and p: "(t, p) \<in> set (wf_pending (ww_state w))"
  shows "trace_inv E (take_trade t p w)"
proof -
  have s: "WfShown t p \<in> set (ww_trace w)" "WfConfirmed t \<notin> set (ww_trace w)"
    using assms unfolding trace_inv_def by blast+
  moreover have "WfTraded t q m \<notin> set (ww_trace w)" for q m
    using untraded s inv unfolding trace_inv_def by blast
  ultimately have "confirm_inv (ww_trace w @ [WfConfirmed t]) t p Taken" by (simp add: confirm_inv_def)
  then show ?thesis
    using inv s trade_in_order_other [of "ww_trace w" "WfConfirmed t"]
    unfolding trace_inv_def take_trade_def by (auto simp: btree_remove_def)
qed

lemma trace_move:
  assumes ok: "strategy_env_ok E"
  shows "workflow_move E w x w' \<Longrightarrow> trace_inv E w \<Longrightarrow> trace_inv E w'"
proof (induction rule: workflow_move.induct)
  case (shown w w' j p g)
  then have "trace_inv E w'" "ww_drawn w' = ww_drawn w" using trace_quiet by (auto simp: quiet_def)
  then show ?case using trace_shown [OF _ ok] shown by metis
next
  case (begun w w' j)
  then have "trace_inv E w'" using trace_quiet by blast
  then show ?case by (simp add: trace_inv_def)
next
  case (checked w token p w' g m)
  then have "trace_inv E w'" "ww_trace w' = ww_trace w" using trace_quiet by (auto simp: quiet_def)
  moreover have "confirm_inv (ww_trace w) token p Taken" using checked unfolding trace_inv_def by blast
  then have "confirm_inv (ww_trace w) token p (Checked m)" using checked(5) by (simp add: confirm_inv_def)
  ultimately show ?case unfolding trace_inv_def by simp
next
  case (sent w token p m)
  then have c: "confirm_inv (ww_trace w) token p (Checked m)" unfolding trace_inv_def by blast
  then have "trade_in_order (ww_trace w @ [WfTraded token p m])"
    using sent trade_in_order_traded unfolding trace_inv_def confirm_inv_def by simp
  moreover have "confirm_inv (ww_trace w @ [WfTraded token p m]) token p (Sent m)" using c by (simp add: confirm_inv_def)
  ultimately show ?case using sent unfolding trace_inv_def confirm_send_def by auto
qed (auto intro: trace_quiet trace_taken)

section \<open>Reachable states\<close>

lemma workflow_start_inv: "intents_inv workflow_start" "trace_inv E workflow_start"
  by (simp_all add: intents_inv_def trace_inv_def workflow_start_def trade_in_order_def sorted_keys_def)

lemma path_intents: "workflow_path E w ls w' \<Longrightarrow> intents_inv w \<Longrightarrow> intents_inv w'"
  by (induction rule: workflow_path.induct) (auto intro: intents_move step_move)

lemma path_trace: "workflow_path E w ls w' \<Longrightarrow> strategy_env_ok E \<Longrightarrow> trace_inv E w \<Longrightarrow> trace_inv E w'"
  by (induction rule: workflow_path.induct) (auto intro: trace_move step_move)

lemma workflow_reachable_inv:
  assumes "workflow_reachable E w"
  shows "intents_inv w" "strategy_env_ok E \<Longrightarrow> trace_inv E w"
  using assms path_intents path_trace workflow_start_inv unfolding workflow_reachable_def by blast+

lemma traded_shown:
  assumes "trade_in_order tr" "WfTraded t p m \<in> set tr"
  shows "WfShown t p \<in> set tr"
proof -
  obtain before after where tr: "tr = before @ WfTraded t p m # after" using assms(2) by (meson split_list)
  then have "WfShown t p \<in> set before" using assms(1) unfolding trade_in_order_def by blast
  then show ?thesis using tr by simp
qed

lemma traded_once:
  assumes order: "trade_in_order (before @ WfTraded t p m # after)"
  shows "WfTraded t q n \<notin> set before \<union> set after"
proof
  assume "WfTraded t q n \<in> set before \<union> set after"
  moreover have "WfTraded t q n \<notin> set before" using order unfolding trade_in_order_def by blast
  ultimately obtain a b where "after = a @ WfTraded t q n # b" using split_list by fastforce
  then have "before @ WfTraded t p m # after = (before @ WfTraded t p m # a) @ WfTraded t q n # b" by simp
  then have "WfTraded t p m \<notin> set (before @ WfTraded t p m # a)" using order unfolding trade_in_order_def by blast
  then show False by simp
qed

section \<open>Withdrawn plugins\<close>

text \<open>
  What makes everything a plugin prepared before serial number \<open>n\<close> void: its grants have later
  intents, its runs and the confirmation under way have earlier ones.
\<close>

definition withdrawn_since :: "u64 \<Rightarrow> string \<Rightarrow> workflow_world \<Rightarrow> bool" where
  "withdrawn_since n i w \<longleftrightarrow> (
     n \<le> wf_serial (ww_state w) \<and> (\<forall>g. (i, g) \<in> set (wf_grants (ww_state w)) \<longrightarrow> n \<le> wg_intent g)
     \<and> (\<forall>t p. (t, p) \<in> set (wf_pending (ww_state w)) \<longrightarrow> wf_plugin p \<noteq> i)
     \<and> (\<forall>j\<in>set (ww_running w). job_plugin j = i \<longrightarrow> wg_intent (wj_grant j) < n)
     \<and> (\<forall>t p ph. confirming w t p ph \<longrightarrow> wf_plugin p = i \<longrightarrow>
          (case ph of Taken \<Rightarrow> pt_intent p < n | Checked m \<Rightarrow> False | Sent m \<Rightarrow> True)))"

definition trades_of :: "string \<Rightarrow> workflow_event list \<Rightarrow> workflow_event list" where
  "trades_of i tr = filter (\<lambda>e. case e of WfTraded t p m \<Rightarrow> wf_plugin p = i | _ \<Rightarrow> False) tr"

lemma withdrawn_quiet:
  assumes "withdrawn_since n i w" "quiet w w'"
  shows "withdrawn_since n i w'"
proof -
  have st: "narrows (ww_state w) (ww_state w')" using assms(2) by (simp add: quiet_def)
  have n: "n \<le> wf_serial (ww_state w)" using assms(1) by (simp add: withdrawn_since_def)
  have "n \<le> wg_intent g" if "(i, g) \<in> set (wf_grants (ww_state w'))" for g
  proof -
    from st that consider g0 where "(i, g0) \<in> set (wf_grants (ww_state w))" "wg_intent g = wg_intent g0"
      | "wf_serial (ww_state w) < wg_intent g" unfolding narrows_def by blast
    then show ?thesis using assms(1) n by cases (auto simp: withdrawn_since_def)
  qed
  moreover have "n \<le> wf_serial (ww_state w')" "set (wf_pending (ww_state w')) \<subseteq> set (wf_pending (ww_state w))"
    using n st by (auto simp: narrows_def)
  moreover have "set (ww_running w') \<subseteq> set (ww_running w)" "\<And>t p ph. confirming w' t p ph \<Longrightarrow> confirming w t p ph"
    using assms(2) by (auto simp: quiet_def)
  ultimately show ?thesis using assms(1) unfolding withdrawn_since_def by blast
qed

lemma withdrawn_move:
  assumes "workflow_move E w x w'" "withdrawn_since n i w" "x \<noteq> WfBegin i"
  shows "withdrawn_since n i w' \<and> trades_of i (ww_trace w') = trades_of i (ww_trace w)"
  using assms
proof (induction rule: workflow_move.induct)
  case (quietly w w' x)
  then show ?case using withdrawn_quiet by (auto simp: quiet_def)
next
  case (begun w w' j)
  then have "withdrawn_since n i w'" "ww_trace w' = ww_trace w" using withdrawn_quiet by (auto simp: quiet_def)
  then show ?case using begun by (auto simp: withdrawn_since_def)
next
  case (shown w w' j p g)
  then have w': "withdrawn_since n i w'" "ww_trace w' = ww_trace w" using withdrawn_quiet by (auto simp: quiet_def)
  have "wf_plugin p \<noteq> i"
  proof
    assume "wf_plugin p = i"
    then have "n \<le> pt_intent p" "pt_intent p < n" using shown w'(1) unfolding withdrawn_since_def by metis+
    then show False by simp
  qed
  then show ?case using w' btree_insert_set [of "se_uuid E (ww_drawn w)" p "wf_pending (ww_state w')"]
   by (auto simp: withdrawn_since_def show_trade_def trades_of_def)
next
  case (taken w token p)
  then show ?case by (auto simp: withdrawn_since_def take_trade_def btree_remove_def trades_of_def)
next
  case (checked w token p w' g m)
  then have w': "withdrawn_since n i w'" "ww_trace w' = ww_trace w" using withdrawn_quiet by (auto simp: quiet_def)
  have "wf_plugin p \<noteq> i"
  proof
    assume "wf_plugin p = i"
    then have "n \<le> pt_intent p" using checked(3,4) w'(1) unfolding withdrawn_since_def by metis
    moreover have "pt_intent p < n" using checked(1,6) \<open>wf_plugin p = i\<close> unfolding withdrawn_since_def by fastforce
    ultimately show False by simp
  qed
  then show ?case using w' by (auto simp: withdrawn_since_def)
next
  case (sent w token p m)
  then have "wf_plugin p \<noteq> i" unfolding withdrawn_since_def by fastforce
  then show ?case using sent by (auto simp: withdrawn_since_def confirm_send_def trades_of_def)
qed

inductive_cases workflow_path_snocE: "workflow_path E w (ls @ [x]) w'"

inductive_cases workflow_path_nilE: "workflow_path E w [] w'"

interpretation grants: withdrawal "workflow_step E" "workflow_path E" "withdrawn_since n i" "\<lambda>x. x = WfBegin i"
  "\<lambda>w. trades_of i (ww_trace w)" for E n i
  by unfold_locales (auto dest: withdrawn_move [OF step_move] elim: workflow_path_snocE workflow_path_nilE)

lemma accept_withdraws:
  assumes inv: "intents_inv w" and a: "grant_accept request w = (Ok (), w')"
    and i: "i = ar_plugin_id (gq_authority request)"
    and c: "\<And>t p m. confirming w t p (Checked m) \<Longrightarrow> wf_plugin p \<noteq> i"
  shows "withdrawn_since (wf_serial (ww_state w')) i w' \<and> ww_trace w' = ww_trace w"
proof -
  let ?st = "ww_state w"
  from a obtain n where n: "checked_add_u64 (wf_serial ?st) 1 = Some n"
    and w': "w' = w\<lparr>ww_state := drop_pending i (?st\<lparr>wf_serial := n, wf_grants := btree_modify i (\<lambda>g. g\<lparr>wg_intent := n\<rparr>) (wf_grants ?st)\<rparr>),
        ww_accepted := (request, n) # ww_accepted w\<rparr>"
    by (auto simp: grant_accept_def bind_world_def on_state_def workflow_next_def i Let_def
        split: result.splits option.splits)
  have less: "a < n" if "a \<le> wf_serial ?st" for a using checked_add_u64_less [OF n] that by simp
  have g: "wg_intent g = n" if "(i, g) \<in> set (btree_modify i (\<lambda>g. g\<lparr>wg_intent := n\<rparr>) (wf_grants ?st))" for g
    using btree_modify_all [OF sorted_keys_distinct that] inv by (auto simp: intents_inv_def)
  have "wg_intent (wj_grant j) < n" if "j \<in> set (ww_running w)" for j using inv less that unfolding intents_inv_def by blast
  moreover have "case ph of Taken \<Rightarrow> pt_intent p < n | Checked m \<Rightarrow> False | Sent m \<Rightarrow> True"
    if "confirming w t p ph" "wf_plugin p = i" for t p ph
  proof (cases ph)
    case Taken
    then show ?thesis using inv less that unfolding intents_inv_def by auto
  qed (use c that in auto)
  ultimately show ?thesis using g w' by (auto simp: withdrawn_since_def drop_pending_def)
qed

end
