(* ===== verification/Workflow_Samples.thy ===== *)
theory Workflow_Samples
  imports Workflow_Invariant Strategy_Samples
begin

text \<open>
  A run of one workflow from the first look at its access to the sent trade, for the witnesses:
  the environment is that of the strategies' run.
\<close>

section \<open>The states\<close>

definition sample_capture :: captured_workflow where
  "sample_capture = \<lparr>cw_params = cs_params sample_captured, cw_identity = cs_identity sample_captured,
     cw_requested = [''account.read'', ''trade.place'']\<rparr>"

definition sample_wf_readings :: workflow_readings where
  "sample_wf_readings = \<lparr>wr_wall = 1000, wr_instant = 5, wr_compute_epoch = 3, wr_discovered = True, wr_epoch_again = Ok 3,
     wr_gate_free = True, wr_capture = (\<lambda>_. Ok sample_capture), wr_authority = Ok sample_authority\<rparr>"

definition sample_binding :: workflow_binding where
  "sample_binding = \<lparr>wb_identity = cs_identity sample_captured, wb_epoch = 3, wb_authority = sample_authority\<rparr>"

definition sample_grant :: "u64 \<Rightarrow> u64 \<Rightarrow> string list \<Rightarrow> workflow_grant" where
  "sample_grant revision intent caps = \<lparr>wg_binding = sample_binding, wg_revision = revision, wg_intent = intent, wg_capabilities = caps\<rparr>"

definition sample_granting :: grant_request where
  "sample_granting = \<lparr>gq_authority = sample_access, gq_expected_account_id = ''main'', gq_expected_session_epoch = ''7'',
     gq_expected_grant_revision = ''1'', gq_capabilities = [''account.read'', ''trade.place'']\<rparr>"

definition sample_running :: run_request where
  "sample_running = \<lparr>rq_authority = sample_access, rq_request_id = ''r-1'', rq_expected_account_id = ''main'',
     rq_expected_session_epoch = ''7'', rq_expected_grant_revision = ''3'', rq_symbol = ''BTC'', rq_input_json = ''{}''\<rparr>"

definition sample_job :: workflow_job where
  "sample_job = \<lparr>wj_request = sample_running, wj_binding = sample_binding,
     wj_grant = sample_grant 3 2 [''account.read'', ''trade.place''],
     wj_snapshot = sample_snapshot\<lparr>sn_granted_capabilities := [''account.read'', ''trade.place'']\<rparr>\<rparr>"

definition sample_order_output :: workflow_output where
  "sample_order_output = WPlaceOrder \<lparr>pl_symbol = ''BTC'', pl_side = ''Buy'', pl_order_type = ''Limit'', pl_qty = ''3'',
     pl_price = Some ''100'', pl_time_in_force = ''GTC'', pl_position_idx = 1, pl_reduce_only = False\<rparr>"

definition sample_trade :: prepared_trade where
  "sample_trade = \<lparr>pt_request = sample_access, pt_binding = sample_binding, pt_revision = 3, pt_intent = 2,
     pt_deadline = 60000000005, pt_output = sample_order_output, pt_target = None, pt_submission_id = Some ''1''\<rparr>"

definition sample_sent :: mutation where
  "sample_sent = MutPlace \<lparr>sc_submission_id = ''1'', sc_account_id = ''main'', sc_session_epoch = 7\<rparr>
     \<lparr>r_symbol = ''BTC'', r_side = ''Buy'', r_order_type = ''Limit'', r_qty = ''3'', r_position_idx = 1, r_price = Some ''100'',
      r_time_in_force = Some ''GTC'', r_order_link_id = Some ''1'', r_reduce_only = Some False, r_protection = None\<rparr>"

definition sample_wf :: "u64 \<Rightarrow> workflow_grant \<Rightarrow> workflow_world" where
  "sample_wf serial g = \<lparr>ww_state = \<lparr>wf_serial = serial, wf_grants = [(''com.grid'', g)], wf_pending = []\<rparr>,
     ww_accepted = [], ww_running = [], ww_confirm = None, ww_drawn = 0, ww_trace = []\<rparr>"

abbreviation sample_granted :: workflow_world where
  "sample_granted \<equiv> sample_wf 3 (sample_grant 3 2 [''account.read'', ''trade.place''])"

definition sample_shown :: workflow_world where
  "sample_shown = sample_granted\<lparr>ww_state := (ww_state sample_granted)\<lparr>wf_pending := [(''0'', sample_trade)]\<rparr>,
     ww_drawn := 2, ww_trace := [WfShown ''0'' sample_trade]\<rparr>"

definition sample_confirming :: "confirm_phase \<Rightarrow> workflow_world" where
  "sample_confirming ph = sample_granted\<lparr>ww_drawn := 2, ww_trace := [WfShown ''0'' sample_trade, WfConfirmed ''0''],
     ww_confirm := Some (''0'', sample_trade, ph)\<rparr>"

definition sample_traded :: workflow_world where
  "sample_traded = (sample_confirming (Sent sample_sent))\<lparr>ww_trace := [WfShown ''0'' sample_trade, WfConfirmed ''0'',
     WfTraded ''0'' sample_trade sample_sent]\<rparr>"

section \<open>Evaluation\<close>

lemma sample_access_ok [simp]: "authority_request_validate sample_access = Ok ()" "ar_plugin_id sample_access = ''com.grid''"
  by (simp_all add: authority_request_validate_def sample_access_def)

lemma sample_bound [simp]: "binding_locked sample_wf_readings request = Ok (sample_capture, sample_binding)"
  by (simp add: binding_locked_def workflow_epoch_def sample_wf_readings_def sample_authority_def sample_capture_def sample_binding_def)

lemma sample_wf_reads [simp]:
  "wr_instant sample_wf_readings = 5" "wr_wall sample_wf_readings = 1000" "wr_epoch_again sample_wf_readings = Ok 3"
  "wr_gate_free sample_wf_readings" "wb_epoch sample_binding = 3" "wb_authority sample_binding = sample_authority"
  by (simp_all add: sample_wf_readings_def sample_binding_def)

lemma sample_find:
  "find_grant 5 ''com.grid'' sample_binding \<lparr>wf_serial = n, wf_grants = [(''com.grid'', sample_grant r k caps)], wf_pending = []\<rparr>
    = (Ok (sample_grant r k caps), \<lparr>wf_serial = n, wf_grants = [(''com.grid'', sample_grant r k caps)], wf_pending = []\<rparr>)"
  by (simp add: find_grant_def drop_foreign_def sample_grant_def Let_def)

lemma sample_looked:
  "snd (get_workflow_access sample_wf_readings sample_access workflow_start) = sample_wf 1 (sample_grant 1 1 [])"
  by (simp add: get_workflow_access_def bind_world_def on_state_def workflow_start_def find_grant_def drop_foreign_def drop_pending_def
      workflow_next_def checked_add_u64_def sample_wf_def sample_grant_def Let_def)

lemma sample_wf_capabilities [simp]: "workflow_validate_capabilities [''account.read'', ''trade.place''] = Ok ()"
  by code_simp

lemma sample_accepted:
  "snd (grant_accept sample_granting (sample_wf 1 (sample_grant 1 1 []))) =
     (sample_wf 2 (sample_grant 1 2 []))\<lparr>ww_accepted := [(sample_granting, 2)]\<rparr>"
  by (simp add: grant_accept_def sample_granting_def bind_world_def on_state_def workflow_next_def checked_add_u64_def sample_wf_def
      sample_grant_def drop_pending_def Let_def)

lemma sample_applied:
  "snd (grant_apply sample_wf_readings sample_granting 2 (sample_wf 2 (sample_grant 1 2 []))) = sample_granted"
  by (simp add: grant_apply_def sample_granting_def bind_world_def on_state_def sample_find workflow_next_def checked_add_u64_def sample_wf_def
      check_expected_def sample_capture_def Let_def) (simp add: sample_grant_def sample_binding_def)

lemma sample_digit3 [simp]: "char_of (51 :: nat) = CHR ''3''"
  by code_simp

lemma sample_counter3 [simp]: "counter ''3'' = Ok 3" "u64_to_string 3 = ''3''"
  by (simp_all add: counter_def parse_u64_def u64_to_string_def nat_to_string.simps is_ascii_digit_def starts_with_def)

lemma sample_request_id [simp]: "validate_request_id ''r-1''"
  by code_simp

lemma sample_begun:
  "snd (run_begin sample_strategy_env sample_wf_readings sample_host True (\<lambda>_. Some 9) sample_running sample_granted) =
     sample_granted\<lparr>ww_running := [sample_job]\<rparr>"
proof -
  have "check_expected (sample_grant 3 2 caps) ''main'' ''7'' ''3'' = Ok ()" for caps
    by (simp add: check_expected_def sample_grant_def)
  moreover have "snapshot_locked sample_decimal sample_host (au_account sample_authority) ''BTC'' [''account.read'', ''trade.place''] =
      Ok (sample_snapshot\<lparr>sn_granted_capabilities := [''account.read'', ''trade.place'']\<rparr>)"
    by (simp add: snapshot_locked_def take_section_def sample_host_def sample_snapshot_def Let_def)
  ultimately show ?thesis
    by (simp add: run_begin_def sample_running_def bind_world_def on_state_def sample_find sample_wf_def sample_job_def sample_capture_def Let_def)
      (simp add: sample_grant_def)
qed

lemma sample_output_valid:
  "workflow_output_validate sample_decimal sample_order_output ''BTC'' [''account.read'', ''trade.place''] orders = Ok sample_order_output"
  by (simp add: workflow_output_validate_def sample_order_output_def validate_place_def Let_def)

lemma sample_finished:
  "snd (run_finish sample_strategy_env sample_wf_readings False (WfGuestOutput sample_order_output) sample_job sample_granted) = sample_shown"
proof -
  have j: "rq_authority (wj_request sample_job) = sample_access" "rq_symbol (wj_request sample_job) = ''BTC''"
    "wj_grant sample_job = sample_grant 3 2 [''account.read'', ''trade.place'']" "wj_binding sample_job = sample_binding"
    "wg_capabilities (sample_grant r n caps) = caps" for r n caps
    by (simp_all add: sample_job_def sample_running_def sample_grant_def)
  have "prepare_trade sample_wf_readings sample_job sample_order_output (Some ''1'') = sample_trade"
    by (simp add: prepare_trade_def j sample_trade_def sample_order_output_def) (simp add: sample_grant_def)
  then show ?thesis
    by (simp add: run_finish_def j guest_output_def sample_output_valid bind_world_def on_state_def sample_find sample_wf_def epoch_unchanged_def Let_def)
      (simp add: sample_order_output_def sample_shown_def sample_wf_def numeral_2_eq_2 Let_def)
qed

lemma sample_token_taken: "snd (confirm_take sample_strategy_env ''0'' sample_shown) = sample_confirming Taken"
  by (simp add: confirm_take_def sample_shown_def sample_confirming_def sample_wf_def btree_remove_def)

lemma sample_trade_of: "trade_of sample_strategy_env (au_account sample_authority) [''account.read'', ''trade.place''] sample_trade = Ok sample_sent"
  using sample_output_valid [of None]
  by (simp add: trade_of_def sample_trade_def sample_order_output_def placement_def sample_sent_def)

lemma sample_checked:
  "confirm_check sample_strategy_env sample_wf_readings ''0'' sample_trade (sample_confirming Taken) =
     (Ok (), sample_confirming (Checked sample_sent))"
proof -
  have "wf_plugin sample_trade = ''com.grid''" "pt_binding sample_trade = sample_binding" "pt_deadline sample_trade = 60000000005"
    "wg_revision (sample_grant 3 2 caps) = pt_revision sample_trade" "wg_intent (sample_grant 3 2 caps) = pt_intent sample_trade"
    "wg_capabilities (sample_grant 3 2 caps) = caps" for caps
    by (simp_all add: sample_trade_def sample_grant_def)
  then show ?thesis
    using sample_trade_of
    by (simp add: confirm_check_def bind_world_def on_state_def sample_find sample_confirming_def sample_wf_def epoch_unchanged_def)
qed

section \<open>The path\<close>

lemma workflow_reachable_step: "workflow_reachable E w \<Longrightarrow> workflow_step E w x u \<Longrightarrow> u = w' \<Longrightarrow> workflow_reachable E w'"
  unfolding workflow_reachable_def using wf_step by blast

lemma sample_grant_reachable: "workflow_reachable sample_strategy_env (sample_wf 1 (sample_grant 1 1 []))"
proof -
  have "workflow_reachable sample_strategy_env workflow_start" unfolding workflow_reachable_def using wf_refl by blast
  then show ?thesis
    by (rule workflow_reachable_step [OF _ wf_access sample_looked]) (simp add: workflow_start_def)
qed

lemma sample_granted_reachable: "workflow_reachable sample_strategy_env sample_granted"
proof -
  have "workflow_reachable sample_strategy_env ((sample_wf 2 (sample_grant 1 2 []))\<lparr>ww_accepted := [(sample_granting, 2)]\<rparr>)"
    by (rule workflow_reachable_step [OF sample_grant_reachable wf_accept sample_accepted])
  then show ?thesis
    by (rule workflow_reachable_step [OF _ wf_apply [of _ "[]" sample_granting 2 "[]"]])
      (use sample_applied in \<open>simp_all add: sample_wf_def\<close>)
qed

lemma sample_shown_reachable: "workflow_reachable sample_strategy_env sample_shown"
proof -
  have "workflow_reachable sample_strategy_env (sample_granted\<lparr>ww_running := [sample_job]\<rparr>)"
    by (rule workflow_reachable_step [OF sample_granted_reachable wf_begin sample_begun])
  then show ?thesis
    by (rule workflow_reachable_step [OF _ wf_finish [of _ "[]" sample_job "[]"]])
      (use sample_finished in \<open>simp_all add: sample_wf_def\<close>)
qed

lemma sample_taken_reachable: "workflow_reachable sample_strategy_env (sample_confirming Taken)"
  by (rule workflow_reachable_step [OF sample_shown_reachable wf_take sample_token_taken]) (simp add: sample_shown_def sample_wf_def)

lemma sample_traded_reachable: "workflow_reachable sample_strategy_env sample_traded"
proof -
  have c: "ww_confirm (sample_confirming ph) = Some (''0'', sample_trade, ph)" for ph by (simp add: sample_confirming_def)
  have "workflow_reachable sample_strategy_env (sample_confirming (Checked sample_sent))"
    using workflow_reachable_step [OF sample_taken_reachable wf_check [OF c, of sample_strategy_env sample_wf_readings]] sample_checked by simp
  then show ?thesis
    by (rule workflow_reachable_step [OF _ wf_send [OF c]]) (simp add: confirm_send_def sample_traded_def sample_confirming_def)
qed

end
