(* ===== verification/Workflow_Properties.thy ===== *)
theory Workflow_Properties
  imports Workflow_Samples
begin

text \<open>
  The properties of the workflows that trade on confirmation, over every interleaving of runs,
  confirmations and changes of grants.
\<close>

section \<open>Trades are confirmed\<close>

text \<open>
  C7: A plugin trades only what the user saw and confirmed: a trade in the history of any
  reachable state was shown under its token and the token was confirmed, both before; the token
  was never shown with another trade; what the host was asked is the order shown, for the account
  it was shown for; no token trades twice, and no two trades share a submission identifier.
\<close>

theorem trade_as_confirmed:
  assumes "strategy_env_ok E" "workflow_reachable E w" "ww_trace w = before @ WfTraded token p m # after"
  shows "WfShown token p \<in> set before \<and> WfConfirmed token \<in> set before \<and> confirmed_mutation p m
     \<and> (\<forall>p'. WfShown token p' \<in> set (ww_trace w) \<longrightarrow> p' = p)
     \<and> (\<forall>token' p' m'. WfTraded token' p' m' \<in> set before \<union> set after \<longrightarrow>
          token' \<noteq> token \<and> (pt_submission_id p' = None \<or> pt_submission_id p' \<noteq> pt_submission_id p))"
proof -
  have inv: "trace_inv E w" using workflow_reachable_inv assms by blast
  then have order: "trade_in_order (ww_trace w)" by (simp add: trace_inv_def)
  then have this_one: "WfShown token p \<in> set before" "WfConfirmed token \<in> set before" "confirmed_mutation p m"
    using assms(3) unfolding trade_in_order_def by blast+
  have shown: "WfShown token p \<in> set (ww_trace w)" using this_one assms(3) by simp
  have "p' = p" if "WfShown token p' \<in> set (ww_trace w)" for p'
    using inv that shown unfolding trace_inv_def by blast
  moreover have "t \<noteq> token \<and> (pt_submission_id q = None \<or> pt_submission_id q \<noteq> pt_submission_id p)"
    if traded: "WfTraded t q n \<in> set before \<union> set after" for t q n
  proof -
    have t: "t \<noteq> token" using traded_once order traded assms(3) by metis
    have "WfShown t q \<in> set (ww_trace w)" using traded_shown [OF order, of t q n] traded assms(3) by auto
    then have "drawn_pair E (ww_drawn w) t q" "drawn_pair E (ww_drawn w) token p"
      using inv shown unfolding trace_inv_def by blast+
    then show ?thesis using drawn_apart [OF assms(1)] t by blast
  qed
  ultimately show ?thesis using this_one by blast
qed

theorem trade_as_confirmed_witness:
  "WfTraded ''0'' sample_trade sample_sent \<in> set (ww_trace sample_traded) \<and>
     WfConfirmed ''0'' \<in> set [WfShown ''0'' sample_trade, WfConfirmed ''0''] \<and> confirmed_mutation sample_trade sample_sent"
  using trade_as_confirmed [OF sample_strategy_env_ok sample_traded_reachable,
      of "[WfShown ''0'' sample_trade, WfConfirmed ''0'']" "''0''" sample_trade sample_sent "[]"]
  by (simp add: sample_traded_def)

section \<open>Changes of grants\<close>

text \<open>
  C8: A change of a plugin's grants takes effect when it is accepted, before it is applied: what
  the plugin had prepared is dropped, and in any continuation in which no new run of the plugin
  begins, none of its trades is sent and none becomes confirmable, whatever its runs still
  compute and whatever was confirmed but not yet checked.
\<close>

theorem grant_change_invalidates:
  assumes "workflow_reachable E w" "grant_accept request w = (Ok (), w')" "i = ar_plugin_id (gq_authority request)"
    "\<And>t p m. ww_confirm w = Some (t, p, Checked m) \<Longrightarrow> wf_plugin p \<noteq> i"
    "workflow_path E w' ls w''" "WfBegin i \<notin> set ls"
  shows "trades_of i (ww_trace w'') = trades_of i (ww_trace w)
     \<and> (\<forall>(t, p)\<in>set (wf_pending (ww_state w'')). wf_plugin p \<noteq> i)"
proof -
  have "withdrawn_since (wf_serial (ww_state w')) i w' \<and> ww_trace w' = ww_trace w"
    using accept_withdraws [OF _ assms(2,3)] workflow_reachable_inv(1) [OF assms(1)] assms(4) by blast
  then have "withdrawn_since (wf_serial (ww_state w')) i w''" "trades_of i (ww_trace w'') = trades_of i (ww_trace w)"
    using grants.stays_silent [OF assms(5)] assms(6) by auto
  then show ?thesis unfolding withdrawn_since_def by blast
qed

theorem grant_change_invalidates_witness:
  "trades_of ''com.grid'' (ww_trace (snd (grant_accept sample_granting sample_shown))) = []
     \<and> (''0'', sample_trade) \<in> set (wf_pending (ww_state sample_shown))
     \<and> (''0'', sample_trade) \<notin> set (wf_pending (ww_state (snd (grant_accept sample_granting sample_shown))))"
proof -
  obtain u where u: "grant_accept sample_granting sample_shown = (Ok (), u)"
    by (simp add: grant_accept_def sample_granting_def bind_world_def on_state_def workflow_next_def checked_add_u64_def
        sample_shown_def sample_wf_def Let_def)
  have p: "wf_plugin sample_trade = ''com.grid''" "(''0'', sample_trade) \<in> set (wf_pending (ww_state sample_shown))"
    by (simp_all add: sample_trade_def sample_shown_def)
  have "ww_confirm sample_shown = None" and t: "trades_of ''com.grid'' (ww_trace sample_shown) = []"
    and i: "ar_plugin_id (gq_authority sample_granting) = ''com.grid''"
    by (simp_all add: sample_shown_def sample_wf_def trades_of_def sample_granting_def)
  then have "trades_of ''com.grid'' (ww_trace u) = trades_of ''com.grid'' (ww_trace sample_shown)
      \<and> (\<forall>(t, p)\<in>set (wf_pending (ww_state u)). wf_plugin p \<noteq> ''com.grid'')"
    using grant_change_invalidates [OF sample_shown_reachable u refl _ wf_refl] unfolding i by simp
  then show ?thesis using u t p by auto
qed

section \<open>Confirmations are checked again\<close>

text \<open>
  C16: A confirmation sends its trade only if nothing it was shown under has changed: the plugin,
  the catalogue and the account session are the ones of the run, the grant has its revision and
  no change of it was accepted since, the minute has not passed, and the grant still includes the
  capability for the trade.
\<close>

theorem confirmation_rechecks:
  assumes "confirm_check E rd token p w = (Ok (), w')"
  shows "\<exists>captured g m. ww_confirm w' = Some (token, p, Checked m) \<and> confirmed_mutation p m
     \<and> binding_locked rd (pt_request p) = Ok (captured, pt_binding p) \<and> wr_epoch_again rd = Ok (wb_epoch (pt_binding p))
     \<and> wr_instant rd < pt_deadline p
     \<and> (wf_plugin p, g) \<in> set (wf_grants (ww_state w')) \<and> wg_revision g = pt_revision p \<and> wg_intent g = pt_intent p
     \<and> (case pt_output p of WPlaceOrder _ \<Rightarrow> ''trade.place'' \<in> set (wg_capabilities g)
        | WCancelOrder _ \<Rightarrow> ''trade.cancel'' \<in> set (wg_capabilities g) | WDisplay _ \<Rightarrow> False)"
proof (rule confirm_check_effect [of w E rd token p])
  fix r st assume e: "confirm_check E rd token p w =
       (bind_result r (\<lambda>_. Ok ()), w\<lparr>ww_state := st, ww_confirm := (case r of Ok m \<Rightarrow> Some (token, p, Checked m) | _ \<Rightarrow> None)\<rparr>)"
    and g: "\<forall>m. r = Ok m \<longrightarrow> (\<exists>g. (wf_plugin p, g) \<in> set (wf_grants st) \<and> still_allowed E rd p g m)"
  then obtain m g where r: "r = Ok m" and g: "(wf_plugin p, g) \<in> set (wf_grants st)" "still_allowed E rd p g m"
    using assms by (cases r) auto
  have t: "trade_of E (au_account (wb_authority (pt_binding p))) (wg_capabilities g) p = Ok m"
    using g(2) by (simp add: still_allowed_def)
  have w': "ww_confirm w' = Some (token, p, Checked m)" "ww_state w' = st" using e assms r by auto
  show ?thesis
    using g w' trade_of_confirmed [OF t] trade_of_capability [OF t] unfolding still_allowed_def by blast
qed

theorem confirmation_rechecks_witness:
  "\<exists>captured g m. ww_confirm (sample_confirming (Checked sample_sent)) = Some (''0'', sample_trade, Checked m)
     \<and> confirmed_mutation sample_trade m \<and> binding_locked sample_wf_readings (pt_request sample_trade) = Ok (captured, pt_binding sample_trade)
     \<and> wg_revision (g :: workflow_grant) = pt_revision sample_trade"
  using confirmation_rechecks [OF sample_checked] by (elim exE conjE) (rule exI, rule exI, rule exI, intro conjI, assumption+)

end
