(* ===== verification/Spec2Isabelle.thy ===== *)
theory Spec2Isabelle
  imports Risk_Properties Submission_Properties Pending_Properties Placement_Properties
    Notification_Properties Storage_Properties Api_Properties Session_Properties
    Notification_Service_Properties Notification_Paging Notification_Storage Notification_Orders Notification_Views
    Strategy_Properties Workflow_Properties
begin

text \<open>
  EasiFlux Desktop is a desktop client for trading crypto futures: a Rust program (under
  \<^verbatim>\<open>src/src-tauri/src\<close>, the root of the paths below) with a web front end.  This development
  models the part of the Rust program that decides about money: which orders are sent, how often,
  under which limits, and what the user is told about them.

  \<^bold>\<open>How the parts interact.\<close>  The command \<^verbatim>\<open>place_order\<close> (\<^verbatim>\<open>commands/trading/mutations.rs\<close>) derives
  the journal scope of the account, and runs \<^verbatim>\<open>submit_once\<close> (\<^verbatim>\<open>services/order_submission.rs\<close>), which
  writes an intent to the journal (\<^verbatim>\<open>storage/order_submissions.rs\<close>), lets \<^verbatim>\<open>TradingService::place_order\<close>
  (\<^verbatim>\<open>services/trading.rs\<close>) send the order, and settles the intent by the answer.  The trading service
  obtains a reservation from the risk service (\<^verbatim>\<open>services/risk.rs\<close>), which keeps a ledger of the day's
  orders on disk (\<^verbatim>\<open>storage/risk_usage.rs\<close>), posts the order through the client of the exchange
  (\<^verbatim>\<open>api/client.rs\<close>, \<^verbatim>\<open>api/response.rs\<close>), and reports outcomes as notifications
  (\<^verbatim>\<open>models/notification.rs\<close>, \<^verbatim>\<open>services/notification/policy.rs\<close>).  Automatic strategies are plugins that
  place orders by themselves: their supervisor (\<^verbatim>\<open>plugin/strategy/supervisor.rs\<close>) runs one worker per run
  (\<^verbatim>\<open>plugin/strategy/execution.rs\<close>), which asks a sandboxed guest for an action, stores it as an intent
  (\<^verbatim>\<open>plugin/strategy/store.rs\<close>) and hands it to the trading service through the host.
  Other plugins only propose a trade, which is sent when the user confirms it
  (\<^verbatim>\<open>plugin/runtime/workflow.rs\<close>).

  \<^bold>\<open>Theories.\<close>
  \<^item> \<open>Prelude\<close>: results with panics, saturating words, byte strings (Rust's \<^verbatim>\<open>str\<close> is the list of its
    UTF-8 bytes), trimming, sorting.
  \<^item> \<open>Disk\<close>: the file system with a schedule of faults.  Every system call consumes one entry of the
    schedule; a theorem for all disks is a theorem for I/O errors and crashes at any place.
  \<^item> \<open>Json\<close>, \<open>App_Error\<close>: JSON values and the error type of \<^verbatim>\<open>error.rs\<close>.
  \<^item> \<open>Config_Persistence\<close>: \<^verbatim>\<open>storage/config_persistence.rs\<close>.  Its contract is the locale
    \<open>crash_safe_slot\<close>, which \<open>Risk_Ledger\<close> meets as well.
  \<^item> \<open>Trading_Model\<close>: \<^verbatim>\<open>models/trading.rs\<close> and the checks of protections in
    \<^verbatim>\<open>plugin/strategy/management.rs\<close>.
  \<^item> \<open>Clock\<close>: \<^verbatim>\<open>services/time.rs\<close>, \<^verbatim>\<open>auth/time_sync.rs\<close>.  Words are 64 bits wide and wrap.
  \<^item> \<open>Risk_Ledger\<close>, \<open>Risk_Validation\<close>, \<open>Risk_Service\<close>: \<^verbatim>\<open>storage/risk_usage.rs\<close>,
    \<^verbatim>\<open>services/risk/validation.rs\<close>, \<^verbatim>\<open>services/risk.rs\<close>, \<^verbatim>\<open>services/risk/status.rs\<close>,
    \<^verbatim>\<open>commands/risk.rs\<close>; \<open>Risk_Quota\<close> states the quota as the locale \<open>quota_ledger\<close> and proves
    the bound over runs; \<open>Risk_Properties\<close>.
  \<^item> \<open>Submission_Journal\<close>, \<open>Journal_Laws\<close> (locale \<open>intent_journal\<close>), \<open>Submit_Once\<close>, \<open>Submit_Laws\<close>
    (locale \<open>once_only\<close>), \<open>Submission_Properties\<close>, \<open>Pending_Properties\<close>: the journal and the two
    operations on it.
  \<^item> \<open>Order_Execution\<close>, \<open>Placement\<close>, \<open>Placement_Laws\<close>, \<open>Placement_Properties\<close>: the path of an order
    through \<^verbatim>\<open>services/trading.rs\<close> and the command.
  \<^item> \<open>Notification_Model\<close>, \<open>Notification_Policy\<close>, \<open>Notification_Laws\<close>, \<open>Notification_Properties\<close>: the
    shapes of notifications and their construction.
  \<^item> \<open>Notification_File\<close>, \<open>Notification_History\<close>, \<open>Notification_Store\<close>, \<open>Notification_Service\<close>: the file of
    notifications, its limits and index, the incidents and orders read back from it
    (\<^verbatim>\<open>services/notification.rs\<close>), the store (\<^verbatim>\<open>storage/notification_store.rs\<close>) and every operation of the
    service as a function on its state, the disk and the events.  \<open>Ordering\<close> (locale \<open>comparator\<close>) holds the
    orders and searches, \<open>Notification_Commit\<close> the locale \<open>service_relation\<close> for what every operation keeps,
    \<open>Notification_Shrink\<close>, \<open>Notification_Invariant\<close>, \<open>Notification_Safety\<close> the invariant of the file,
    \<open>Notification_Service_Properties\<close>, \<open>Notification_Paging\<close>, \<open>Notification_Orders\<close>, \<open>Notification_Views\<close> what
    callers rely on, \<open>Notification_Storage\<close> the store as another \<open>crash_safe_slot\<close>, \<open>Notification_Samples\<close> a
    concrete service.
  \<^item> \<open>Api_Response\<close>, \<open>Api_Client\<close>, \<open>Api_Laws\<close> (locale \<open>retried_post\<close>), \<open>Api_Properties\<close>, and
    \<open>Api_Sessions\<close>, \<open>Session_Properties\<close>: the client of the exchange and its sessions, the latter as
    an inductive step relation.
  \<^item> \<open>Strategy_Contract\<close>, \<open>Strategy_Store\<close>, \<open>Strategy_Supervisor\<close>, \<open>Strategy_Execution\<close>: the contracts, the
    document and every operation of automatic strategies, cut where a task awaits or takes a lock;
    \<open>Strategy_Steps\<close> composes them to an inductive step relation over all interleavings, store failures and
    restarts; \<open>Strategy_Invariant\<close>, \<open>Strategy_Safety\<close>, \<open>Strategy_Preserved\<close>, \<open>Strategy_Decisions\<close>,
    \<open>Strategy_Reachable\<close> its invariant; \<open>Strategy_Control\<close> what a withdrawal stops; \<open>Strategy_Samples\<close> a
    concrete run; \<open>Strategy_Properties\<close>.
  \<^item> \<open>Workflow_Runtime\<close>: grants, runs, confirmation tokens and trades of the workflows, as an inductive step
    relation; \<open>Workflow_Laws\<close> refines it to six kinds of moves, \<open>Workflow_Invariant\<close> proves its invariants over
    them; \<open>Workflow_Samples\<close> a concrete run; \<open>Workflow_Properties\<close>.
  \<^item> \<open>Withdrawal\<close>: the locale \<open>withdrawal\<close> of machines in which a withdrawn authority stays unused,
    interpreted by the strategies and by the workflows; \<open>Subsequences\<close>: shared facts about subsequences.
  \<^item> \<open>Samples\<close>, \<open>Submission_Samples\<close>: concrete values of the parameters, for the witnesses.

  \<^bold>\<open>Parameters.\<close>  Libraries are parameters: \<open>decimal_api\<close> (\<^verbatim>\<open>rust_decimal\<close>), \<open>tz_api\<close> (\<^verbatim>\<open>chrono\<close>),
  \<open>codec\<close> (TOML and JSON text), the hash, \<open>api_env\<close> (URLs, HMAC, HTTP texts, UUIDs), the network.  What
  a theorem needs of them is a named hypothesis (\<open>codec_roundtrip\<close>, \<open>journal_sound\<close>,
  \<open>decimal_prints_exactly\<close>, injectivity of the drawn UUIDs), and its witness instantiates it.

  \<^bold>\<open>What is shown.\<close>  An order is handed to the exchange at most once per identity, with its intent on
  disk first, and the command never reports a false success or failure; the client's verdicts are
  grounded in the answers of the exchange; the daily quota is never exceeded and survives restarts and
  faults; configuration updates and saves are atomic; answers of replaced sessions are ignored and an
  expired session is announced under one token; notifications built by the policy are valid; the
  notification service keeps a file its store accepts, announces every change, evicts no more than it must, tells the user of an
  order's end once, keeps accounts apart and pages without gaps; its saves are atomic and spare files of newer versions; a strategy never
  exceeds its limits, stores an action before handing it off, hands off no placement twice and nothing after
  it was stopped; a workflow trades only what the user saw and confirmed, once, under unchanged grants, and
  nothing once a change of its grants was accepted; the server clock is accurate to half a round trip.

  \<^bold>\<open>Loops and fuel.\<close>  No definition uses fuel: recursion is structural or has a measure.  Asynchronous
  code is modelled as the sequence of its effects under the locks it holds; what other tasks may do
  meanwhile is a parameter (the network, the notifier) or a step of a machine.

  \<^bold>\<open>Not modelled.\<close>  The scheduler, connection and account
  switching, the WebSocket manager, market data and charts, analytics, field mapping of requests,
  the import and registry of plugins and their sandbox; poisoned locks; the front end and Tauri glue, which hold no
  decisions of this kind; platform file handles and the system keyring, which are I/O.
\<close>

end
